(* ===== verification/Prelude.thy ===== *)
theory Prelude
  imports "HOL-Library.Word"
begin

text \<open>
  Shared vocabulary of the development: machine integers and byte strings, the
  result type of fallible code, and the string operations of the Rust standard
  library that several components call (\<open>split\<close>, \<open>trim_matches\<close>, \<open>join\<close>,
  \<open>strip_prefix\<close>, \<open>strip_suffix\<close>, \<open>find\<close>). A Rust \<open>String\<close> is a HOL \<open>string\<close>: its UTF-8 bytes in
  order. Every separator and marker the program searches for is ASCII, so the
  byte view and the code-point view of these operations agree.
\<close>

section \<open>Types\<close>

type_synonym u8 = "8 word"
type_synonym u16 = "16 word"
type_synonym u32 = "32 word"
type_synonym u64 = "64 word"
type_synonym bytes = "u8 list"

text \<open>
  \<open>Result<T, E>\<close> is \<open>'e + 'a\<close>: \<open>Inl\<close> is \<open>Err\<close>, \<open>Inr\<close> is \<open>Ok\<close>. The question mark
  operator is \<open>rbind\<close>, and \<open>map_err\<close> is \<open>rmap_err\<close>.
\<close>

type_synonym ('e, 'a) result = "'e + 'a"

text \<open>Rule collections: invariant preservation lemmas and characteristic equations.\<close>

named_theorems zz_inv \<open>operations preserve their component's invariant\<close>
named_theorems zz_eqs \<open>characteristic equations of the operations\<close>

section \<open>Results\<close>

definition rbind :: "('e, 'a) result \<Rightarrow> ('a \<Rightarrow> ('e, 'b) result) \<Rightarrow> ('e, 'b) result" where
  "rbind r f = (case r of Inl e \<Rightarrow> Inl e | Inr a \<Rightarrow> f a)"

definition rmap_err :: "('e \<Rightarrow> 'd) \<Rightarrow> ('e, 'a) result \<Rightarrow> ('d, 'a) result" where
  "rmap_err g r = (case r of Inl e \<Rightarrow> Inl (g e) | Inr a \<Rightarrow> Inr a)"

definition ok_or :: "'e \<Rightarrow> 'a option \<Rightarrow> ('e, 'a) result" where
  "ok_or e x = (case x of None \<Rightarrow> Inl e | Some a \<Rightarrow> Inr a)"

lemma rbind_simps [simp]:
  "rbind (Inl e) f = Inl e"
  "rbind (Inr a) f = f a"
  by (simp_all add: rbind_def)

lemma rbind_eq_Inr [simp]: "rbind r f = Inr b \<longleftrightarrow> (\<exists>a. r = Inr a \<and> f a = Inr b)"
  by (cases r) auto

lemma rbind_eq_Inl: "rbind r f = Inl e \<longleftrightarrow> r = Inl e \<or> (\<exists>a. r = Inr a \<and> f a = Inl e)"
  by (cases r) auto

lemma rmap_err_simps [simp]:
  "rmap_err g (Inl e) = Inl (g e)"
  "rmap_err g (Inr a) = Inr a"
  by (simp_all add: rmap_err_def)

lemma rmap_err_eq_Inr [simp]: "rmap_err g r = Inr a \<longleftrightarrow> r = Inr a"
  by (cases r) auto

lemma rmap_err_eq_Inl: "rmap_err g r = Inl d \<longleftrightarrow> (\<exists>e. r = Inl e \<and> d = g e)"
  by (cases r) auto

lemma ok_or_simps [simp]:
  "ok_or e None = Inl e"
  "ok_or e (Some a) = Inr a"
  by (simp_all add: ok_or_def)

lemma ok_or_eq_Inr [simp]: "ok_or e x = Inr a \<longleftrightarrow> x = Some a"
  by (cases x) auto

lemma ok_or_eq_Inl: "ok_or e x = Inl d \<longleftrightarrow> x = None \<and> d = e"
  by (cases x) auto

text \<open>A fallible pass over a list that stops at the first error, and its final list.\<close>

fun traverse :: "('a \<Rightarrow> ('e, 'b) result) \<Rightarrow> 'a list \<Rightarrow> ('e, 'b list) result" where
  "traverse f [] = Inr []"
| "traverse f (x # xs) = rbind (f x) (\<lambda>y. rbind (traverse f xs) (\<lambda>ys. Inr (y # ys)))"

lemma traverse_Inr: "traverse f xs = Inr ys \<longleftrightarrow> list_all2 (\<lambda>x y. f x = Inr y) xs ys"
  by (induction xs arbitrary: ys) (auto simp: list_all2_Cons1)

lemma traverse_map_Inr: "\<forall>x \<in> set xs. f x = Inr (g x) \<Longrightarrow> traverse f xs = Inr (map g xs)"
  by (induction xs) auto

lemma traverse_map: "traverse f (map g xs) = traverse (\<lambda>x. f (g x)) xs"
  by (induction xs) auto

lemma traverse_append:
  "traverse f (xs @ ys) = rbind (traverse f xs) (\<lambda>us. rbind (traverse f ys) (\<lambda>vs. Inr (us @ vs)))"
  by (induction xs) (auto simp: rbind_def split: sum.splits)

lemma traverse_cong [fundef_cong]:
  "xs = ys \<Longrightarrow> (\<And>x. x \<in> set ys \<Longrightarrow> f x = g x) \<Longrightarrow> traverse f xs = traverse g ys"
  by (induction ys arbitrary: xs) auto

section \<open>Decimal numbers\<close>

fun show_nat :: "nat \<Rightarrow> string" where
  "show_nat n =
     (if n < 10 then [char_of (48 + n)] else show_nat (n div 10) @ [char_of (48 + n mod 10)])"

declare show_nat.simps [simp del]

lemma show_nat_nonempty [simp]: "show_nat n \<noteq> []"
  by (subst show_nat.simps) simp

definition read_nat :: "string \<Rightarrow> nat" where
  "read_nat s = foldl (\<lambda>a c. 10 * a + (of_char c - 48)) 0 s"

lemma read_show_nat [simp]: "read_nat (show_nat n) = n"
proof (induction n rule: show_nat.induct)
  case (1 n)
  show ?case
  proof (cases "n < 10")
    case True
    then show ?thesis by (subst show_nat.simps) (simp add: read_nat_def)
  next
    case False
    have "read_nat (show_nat (n div 10) @ [char_of (48 + n mod 10)]) = 10 * (n div 10) + n mod 10"
      using 1 [OF False] by (simp add: read_nat_def)
    with False show ?thesis by (subst show_nat.simps) simp
  qed
qed

lemma show_nat_inject [simp]: "show_nat m = show_nat n \<longleftrightarrow> m = n"
  by (metis read_show_nat)

lemma show_nat_digits: "c \<in> set (show_nat n) \<Longrightarrow> 48 \<le> (of_char c :: nat) \<and> (of_char c :: nat) \<le> 57"
proof (induction n rule: show_nat.induct)
  case (1 n)
  then show ?case by (subst (asm) (2) show_nat.simps) (auto split: if_splits)
qed

section \<open>Splitting and joining\<close>

text \<open>\<open>str::split(c)\<close>: the pieces between separators, empty pieces included.\<close>

fun split_on :: "'a \<Rightarrow> 'a list \<Rightarrow> 'a list list" where
  "split_on c [] = [[]]"
| "split_on c (x # xs) =
     (if x = c then [] # split_on c xs
      else (case split_on c xs of [] \<Rightarrow> [[x]] | w # ws \<Rightarrow> (x # w) # ws))"

text \<open>\<open>[..].join(sep)\<close>.\<close>

fun join :: "'a list \<Rightarrow> 'a list list \<Rightarrow> 'a list" where
  "join sep [] = []"
| "join sep [w] = w"
| "join sep (w # v # ws) = w @ sep @ join sep (v # ws)"

lemma split_on_nonempty [simp]: "split_on c s \<noteq> []"
  by (induction s) (auto split: list.splits)

lemma split_on_no_sep: "w \<in> set (split_on c s) \<Longrightarrow> c \<notin> set w"
proof (induction s arbitrary: w)
  case (Cons x xs)
  then show ?case by (auto split: list.splits if_splits)
qed simp

lemma split_on_plain [simp]: "c \<notin> set s \<Longrightarrow> split_on c s = [s]"
  by (induction s) auto

lemma split_on_append_sep:
  "c \<notin> set w \<Longrightarrow> split_on c (w @ c # s) = w # split_on c s"
  by (induction w) auto

lemma join_Cons: "ws \<noteq> [] \<Longrightarrow> join sep (w # ws) = w @ sep @ join sep ws"
  by (cases ws) auto

lemma join_split_on: "join [c] (split_on c s) = s"
proof (induction s)
  case (Cons x xs)
  then show ?case
    by (cases "split_on c xs") (auto simp: join_Cons, metis append_Cons join.simps(2,3) list.exhaust)
qed simp

lemma split_on_join:
  "ws \<noteq> [] \<Longrightarrow> \<forall>w \<in> set ws. c \<notin> set w \<Longrightarrow> split_on c (join [c] ws) = ws"
proof (induction ws)
  case (Cons w ws)
  then show ?case by (cases "ws = []") (auto simp: join_Cons split_on_append_sep)
qed simp

lemma join_eq_Nil: "ws \<noteq> [] \<Longrightarrow> \<forall>w \<in> set ws. w \<noteq> [] \<Longrightarrow> join sep ws \<noteq> []"
  by (induction sep ws rule: join.induct) auto

section \<open>Trimming, prefixes and suffixes\<close>

definition trim_start_matches :: "'a \<Rightarrow> 'a list \<Rightarrow> 'a list" where
  "trim_start_matches c s = dropWhile (\<lambda>x. x = c) s"

definition trim_end_matches :: "'a \<Rightarrow> 'a list \<Rightarrow> 'a list" where
  "trim_end_matches c s = rev (dropWhile (\<lambda>x. x = c) (rev s))"

definition trim_matches :: "'a \<Rightarrow> 'a list \<Rightarrow> 'a list" where
  "trim_matches c s = trim_end_matches c (trim_start_matches c s)"

fun strip_prefix :: "'a list \<Rightarrow> 'a list \<Rightarrow> 'a list option" where
  "strip_prefix [] s = Some s"
| "strip_prefix (p # ps) [] = None"
| "strip_prefix (p # ps) (x # xs) = (if p = x then strip_prefix ps xs else None)"

definition strip_suffix :: "'a list \<Rightarrow> 'a list \<Rightarrow> 'a list option" where
  "strip_suffix p s = map_option rev (strip_prefix (rev p) (rev s))"

definition ends_with :: "'a list \<Rightarrow> 'a \<Rightarrow> bool" where
  "ends_with s c = (s \<noteq> [] \<and> last s = c)"

lemma strip_prefix_Some [simp]: "strip_prefix p s = Some r \<longleftrightarrow> s = p @ r"
  by (induction p s rule: strip_prefix.induct) auto

lemma strip_suffix_Some [simp]: "strip_suffix p s = Some r \<longleftrightarrow> s = r @ p"
proof -
  have "strip_suffix p s = Some r \<longleftrightarrow> rev s = rev p @ rev r"
    unfolding strip_suffix_def by (simp add: rev_swap [symmetric]) (metis rev_rev_ident)
  also have "\<dots> \<longleftrightarrow> s = r @ p"
    by (metis rev_append rev_rev_ident)
  finally show ?thesis .
qed

lemma strip_suffix_None: "strip_suffix p s = None \<longleftrightarrow> (\<forall>r. s \<noteq> r @ p)"
  using strip_suffix_Some by (metis not_None_eq)

lemma trim_start_id: "s = [] \<or> hd s \<noteq> c \<Longrightarrow> trim_start_matches c s = s"
  by (cases s) (auto simp: trim_start_matches_def)

lemma trim_end_id: "s = [] \<or> last s \<noteq> c \<Longrightarrow> trim_end_matches c s = s"
  by (cases s rule: rev_cases) (auto simp: trim_end_matches_def)

lemma trim_matches_id: "s = [] \<or> (hd s \<noteq> c \<and> last s \<noteq> c) \<Longrightarrow> trim_matches c s = s"
  by (auto simp: trim_matches_def trim_start_id trim_end_id)

lemma trim_start_hd: "trim_start_matches c s \<noteq> [] \<Longrightarrow> hd (trim_start_matches c s) \<noteq> c"
  unfolding trim_start_matches_def by (rule hd_dropWhile)

lemma trim_end_last: "trim_end_matches c s \<noteq> [] \<Longrightarrow> last (trim_end_matches c s) \<noteq> c"
  unfolding trim_end_matches_def using hd_dropWhile [of "\<lambda>x. x = c" "rev s"]
  by (simp add: last_rev)

section \<open>Paths\<close>

text \<open>
  \<open>Path::file_name\<close>, \<open>file_stem\<close>, \<open>extension\<close> and \<open>with_extension\<close> for a path
  that ends in a file name. A dot in front does not start an extension.
\<close>

definition file_name :: "string \<Rightarrow> string" where
  "file_name p = rev (takeWhile (\<lambda>c. c \<noteq> CHR ''/'') (rev p))"

definition file_stem :: "string \<Rightarrow> string" where
  "file_stem name =
     (let before = rev (drop 1 (dropWhile (\<lambda>c. c \<noteq> CHR ''.'') (rev name)))
      in if before = [] \<or> name = ''..'' then name else before)"

definition file_extension :: "string \<Rightarrow> string option" where
  "file_extension name =
     (if file_stem name = name then None else Some (drop (length (file_stem name) + 1) name))"

definition with_extension :: "string \<Rightarrow> string \<Rightarrow> string" where
  "with_extension p ext =
     take (length p - length (file_name p)) p @ file_stem (file_name p) @ ''.'' @ ext"

text \<open>\<open>Path::join\<close>.\<close>

definition path_join :: "string \<Rightarrow> string \<Rightarrow> string" where
  "path_join d n =
     (if n \<noteq> [] \<and> hd n = CHR ''/'' then n
      else if d = [] then n
      else if ends_with d CHR ''/'' then d @ n
      else d @ ''/'' @ n)"

lemma dropWhile_dotless: "c \<notin> set e \<Longrightarrow> dropWhile (\<lambda>x. x \<noteq> c) (rev e @ c # r) = c # r"
  by (subst dropWhile_append2) auto

lemma file_stem_dotted:
  "before \<noteq> [] \<Longrightarrow> CHR ''.'' \<notin> set after \<Longrightarrow> before @ ''.'' @ after \<noteq> ''..'' \<Longrightarrow>
     file_stem (before @ ''.'' @ after) = before"
  by (simp add: file_stem_def Let_def dropWhile_dotless)

lemma file_stem_cases:
  "file_stem name = name \<and> file_extension name = None
   \<or> (\<exists>e. name = file_stem name @ ''.'' @ e \<and> file_extension name = Some e \<and> file_stem name \<noteq> [] \<and> CHR ''.'' \<notin> set e)"
proof (cases "CHR ''.'' \<in> set name")
  case True
  then obtain b e where n: "name = b @ CHR ''.'' # e" "CHR ''.'' \<notin> set e" by (metis split_list_last)
  show ?thesis
  proof (cases "b = [] \<or> name = ''..''")
    case True
    with n have "file_stem name = name" by (auto simp: file_stem_def Let_def dropWhile_dotless)
    then show ?thesis by (simp add: file_extension_def)
  next
    case False
    with n file_stem_dotted [of b e] have "file_stem name = b" by simp
    with n False show ?thesis by (auto simp: file_extension_def)
  qed
next
  case False
  then have "dropWhile (\<lambda>c. c \<noteq> CHR ''.'') (rev name) = []" by (auto simp: dropWhile_eq_Nil_conv)
  then have "file_stem name = name" by (simp only: file_stem_def drop_Nil rev.simps Let_def simp_thms if_True)
  then show ?thesis by (simp add: file_extension_def)
qed

section \<open>Searching\<close>

text \<open>\<open>str::find\<close>: the byte offset of the first occurrence of a pattern.\<close>

fun find_sub :: "'a list \<Rightarrow> 'a list \<Rightarrow> nat option" where
  "find_sub p [] = (if p = [] then Some 0 else None)"
| "find_sub p (x # xs) =
     (if strip_prefix p (x # xs) \<noteq> None then Some 0 else map_option Suc (find_sub p xs))"

definition occurs :: "'a list \<Rightarrow> 'a list \<Rightarrow> bool" where
  "occurs p s = (\<exists>u v. s = u @ p @ v)"

lemma occurs_Cons: "occurs p (x # xs) \<longleftrightarrow> (\<exists>v. x # xs = p @ v) \<or> occurs p xs"
  unfolding occurs_def by (metis append_Cons append_Nil list.exhaust list.inject)

lemma find_sub_None: "find_sub p s = None \<longleftrightarrow> \<not> occurs p s"
proof (induction s)
  case Nil
  then show ?case by (auto simp: occurs_def)
next
  case (Cons x xs)
  then show ?case by (auto simp: occurs_Cons)
qed

text \<open>A pattern that lacks the separator and starts before it ends before it.\<close>

lemma prefix_before_sep: "u @ c # s = p @ v \<Longrightarrow> c \<notin> set p \<Longrightarrow> \<exists>w. u = p @ w"
proof (induction p arbitrary: u)
  case (Cons x p)
  then show ?case by (cases u) auto
qed simp

lemma find_sub_skip:
  assumes "c \<notin> set p" and "p \<noteq> []" and "\<not> occurs p u"
  shows "find_sub p (u @ c # s) = map_option ((+) (Suc (length u))) (find_sub p s)"
  using assms(3)
proof (induction u)
  case Nil
  from assms(1,2) have "strip_prefix p (c # s) = None" by (cases p) auto
  then show ?case by (simp add: comp_def fun_eq_iff cong: option.map_cong)
next
  case (Cons x u)
  have "strip_prefix p (x # u @ c # s) = None"
  proof (rule ccontr)
    assume "strip_prefix p (x # u @ c # s) \<noteq> None"
    then obtain v where "(x # u) @ c # s = p @ v" by auto
    from prefix_before_sep [OF this assms(1)] obtain w where "x # u = [] @ p @ w" by auto
    with Cons.prems show False unfolding occurs_def by blast
  qed
  moreover from Cons.prems have "\<not> occurs p u" by (simp add: occurs_Cons)
  ultimately show ?case by (simp add: Cons.IH option.map_comp comp_def)
qed

lemma find_sub_here: "p \<noteq> [] \<Longrightarrow> find_sub p (p @ s) = Some 0"
  by (cases "p @ s") (auto simp: strip_prefix_Some, metis)

section \<open>Characters in UTF-8\<close>

text \<open>
  \<open>chars().any(char::is_control)\<close> on the UTF-8 bytes: the C0 controls and DEL are one
  byte, the C1 controls are C2 followed by 80 to 9F.
\<close>

fun has_control :: "string \<Rightarrow> bool" where
  "has_control [] = False"
| "has_control (c # s) =
     ((of_char c :: nat) < 32 \<or> (of_char c :: nat) = 127
      \<or> (c = CHR 0xC2 \<and> s \<noteq> [] \<and> 128 \<le> (of_char (hd s) :: nat) \<and> (of_char (hd s) :: nat) < 160)
      \<or> has_control s)"

text \<open>The encoding of a white space character of Unicode.\<close>

definition is_ws_char :: "string \<Rightarrow> bool" where
  "is_ws_char w \<longleftrightarrow> w \<in> {[CHR 0x09], [CHR 0x0A], [CHR 0x0B], [CHR 0x0C], [CHR 0x0D], [CHR 0x20],
       [CHR 0xC2, CHR 0x85], [CHR 0xC2, CHR 0xA0], [CHR 0xE1, CHR 0x9A, CHR 0x80], [CHR 0xE2, CHR 0x80, CHR 0xA8],
       [CHR 0xE2, CHR 0x80, CHR 0xA9], [CHR 0xE2, CHR 0x80, CHR 0xAF], [CHR 0xE2, CHR 0x81, CHR 0x9F], [CHR 0xE3, CHR 0x80, CHR 0x80]}
     \<or> (length w = 3 \<and> take 2 w = [CHR 0xE2, CHR 0x80] \<and> 128 \<le> (of_char (w ! 2) :: nat) \<and> (of_char (w ! 2) :: nat) \<le> 138)"

text \<open>\<open>chars().any(char::is_whitespace)\<close>, and \<open>trim\<close> from the front and the back.\<close>

fun has_whitespace :: "string \<Rightarrow> bool" where
  "has_whitespace [] = False"
| "has_whitespace (c # s) =
     (is_ws_char [c] \<or> is_ws_char (take 2 (c # s)) \<or> is_ws_char (take 3 (c # s)) \<or> has_whitespace s)"

definition front_ws :: "string \<Rightarrow> nat" where
  "front_ws s = (if is_ws_char (take 1 s) then 1 else if is_ws_char (take 2 s) then 2 else if is_ws_char (take 3 s) then 3 else 0)"

definition back_ws :: "string \<Rightarrow> nat" where
  "back_ws s = (if is_ws_char (drop (length s - 1) s) then 1 else if is_ws_char (drop (length s - 2) s) then 2
     else if is_ws_char (drop (length s - 3) s) then 3 else 0)"

function trim_front :: "string \<Rightarrow> string" where
  "trim_front s = (if s = [] \<or> front_ws s = 0 then s else trim_front (drop (front_ws s) s))"
  by auto
termination by (relation "measure length") auto

function trim_back :: "string \<Rightarrow> string" where
  "trim_back s = (if s = [] \<or> back_ws s = 0 then s else trim_back (take (length s - back_ws s) s))"
  by auto
termination by (relation "measure length") auto

definition trim :: "string \<Rightarrow> string" where
  "trim s = trim_back (trim_front s)"

declare trim_front.simps [simp del] trim_back.simps [simp del]

text \<open>\<open>String::from_utf8\<close> accepts: no overlong form, no surrogate, nothing above U+10FFFF.\<close>

definition byte_in :: "nat \<Rightarrow> nat \<Rightarrow> char \<Rightarrow> bool" where
  "byte_in lo hi c \<longleftrightarrow> lo \<le> of_char c \<and> of_char c \<le> hi"

fun utf8_ok :: "string \<Rightarrow> bool" where
  "utf8_ok [] = True"
| "utf8_ok (b # s) =
     (if byte_in 0 127 b then utf8_ok s
      else case s of
        [] \<Rightarrow> False
      | c # s1 \<Rightarrow>
          if byte_in 194 223 b then byte_in 128 191 c \<and> utf8_ok s1
          else case s1 of
            [] \<Rightarrow> False
          | d # s2 \<Rightarrow>
              if byte_in 224 239 b then
                byte_in (if b = CHR 0xE0 then 160 else 128) (if b = CHR 0xED then 159 else 191) c
                \<and> byte_in 128 191 d \<and> utf8_ok s2
              else case s2 of
                [] \<Rightarrow> False
              | e # s3 \<Rightarrow>
                  byte_in 240 244 b \<and> byte_in (if b = CHR 0xF0 then 144 else 128) (if b = CHR 0xF4 then 143 else 191) c
                  \<and> byte_in 128 191 d \<and> byte_in 128 191 e \<and> utf8_ok s3)"

lemma utf8_ok_ascii: "\<forall>c \<in> set s. byte_in 0 127 c \<Longrightarrow> utf8_ok (s @ t) = utf8_ok t"
  by (induction s) simp_all

lemma utf8_ok_append: "utf8_ok s \<Longrightarrow> utf8_ok (s @ t) = utf8_ok t"
proof (induction s rule: utf8_ok.induct)
  case (2 b s)
  show ?case
  proof (cases "byte_in 0 127 b")
    case True
    with 2 show ?thesis by simp
  next
    case n1: False
    with "2.prems" obtain c s1 where s: "s = c # s1" by (cases s) auto
    show ?thesis
    proof (cases "byte_in 194 223 b")
      case True
      with n1 s 2(2) [OF n1 s True] "2.prems" show ?thesis by simp
    next
      case n2: False
      with "2.prems" n1 s obtain d s2 where s1: "s1 = d # s2" by (cases s1) auto
      show ?thesis
      proof (cases "byte_in 224 239 b")
        case True
        then have "byte_in 224 239 b = True" by simp
        with n1 n2 s s1 2(3) [OF n1 s n2 s1 True] "2.prems" show ?thesis by (simp only: append_Cons utf8_ok.simps list.case if_False if_True simp_thms)
      next
        case n3: False
        with "2.prems" n1 n2 s s1 obtain e s3 where s2: "s2 = e # s3" by (cases s2) auto
        with n1 n2 n3 s s1 2(4) [OF n1 s n2 s1 n3 s2] "2.prems" show ?thesis by (simp only: append_Cons utf8_ok.simps list.case if_False if_True simp_thms)
      qed
    qed
  qed
qed simp

end
