(* ===== verification/Profile.thy ===== *)
theory Profile
  imports Prelude "HOL-Library.Countable"
begin

text \<open>
  The profile data model of \<open>core/src/profile/{types,set,policy}.rs\<close>,
  \<open>core/src/providers/*/types.rs\<close> and \<open>core/src/crypto/kdf.rs\<close>: provider entries,
  inner profiles, the profile container with its lookups by alias, the key
  encryption key, the Argon2id parameter band and the rotation policy.
\<close>

section \<open>Provider entries (core/src/providers)\<close>

datatype nextcloud_auth = AppPassword string | LoginFlowToken string

record nextcloud_profile =
  nc_server_url :: string
  nc_username :: string
  nc_auth :: nextcloud_auth
  nc_remote_root :: string

record google_drive_auth =
  gda_access_token :: string
  gda_refresh_token :: string
  gda_token_type :: string
  gda_expires_at :: u64
  gda_scope :: string

record google_drive_profile =
  gd_root_folder :: string
  gd_user_email :: string
  gd_root_folder_id :: "string option"
  gd_auth :: google_drive_auth

record one_drive_auth =
  oda_access_token :: string
  oda_refresh_token :: string
  oda_token_type :: string
  oda_expires_at :: u64
  oda_scope :: string

record one_drive_profile =
  od_root_folder :: string
  od_user_email :: string
  od_root_folder_id :: "string option"
  od_auth :: one_drive_auth

record dropbox_auth =
  dba_access_token :: string
  dba_refresh_token :: string
  dba_token_type :: string
  dba_expires_at :: u64
  dba_scope :: string

record dropbox_profile =
  db_root_folder :: string
  db_user_email :: string
  db_auth :: dropbox_auth

record unknown_provider =
  up_tag :: string
  up_payload_cbor :: bytes

datatype provider_profile =
    Nextcloud nextcloud_profile
  | GoogleDrive google_drive_profile
  | OneDrive one_drive_profile
  | Dropbox dropbox_profile
  | Unknown unknown_provider

definition KNOWN_PROVIDER_TAGS :: "string list" where
  "KNOWN_PROVIDER_TAGS = [''nextcloud'', ''google_drive'', ''one_drive'', ''dropbox'']"

definition UNKNOWN_PROVIDER_TAG :: string where
  "UNKNOWN_PROVIDER_TAG = ''unknown''"

datatype collision_policy = Rename | Overwrite | Fail

section \<open>Inner profiles (core/src/profile/types.rs)\<close>

record profile_settings =
  unlock_ttl_secs :: u64
  agent_idle_exit_secs :: u64

definition default_settings :: profile_settings where
  "default_settings = \<lparr>unlock_ttl_secs = 600, agent_idle_exit_secs = 300\<rparr>"

record plain_profile =
  pp_profile_version :: u32
  pp_profile_id :: string
  pp_alias :: string
  pp_default_target :: string
  pp_providers :: "provider_profile list"
  pp_collision_policy :: collision_policy
  pp_settings :: profile_settings
  pp_created_at :: string
  pp_updated_at :: string

section \<open>The container (core/src/profile/set.rs)\<close>

definition PROFILE_SET_SCHEMA_V2 :: u32 where
  "PROFILE_SET_SCHEMA_V2 = 2"

record profile_set =
  ps_schema_version :: u32
  ps_profiles :: "plain_profile list"

definition set_new :: profile_set where
  "set_new = \<lparr>ps_schema_version = PROFILE_SET_SCHEMA_V2, ps_profiles = []\<rparr>"

definition set_with_profile :: "plain_profile \<Rightarrow> profile_set" where
  "set_with_profile p = \<lparr>ps_schema_version = PROFILE_SET_SCHEMA_V2, ps_profiles = [p]\<rparr>"

definition set_is_empty :: "profile_set \<Rightarrow> bool" where
  "set_is_empty s = (ps_profiles s = [])"

definition contains_alias :: "profile_set \<Rightarrow> string \<Rightarrow> bool" where
  "contains_alias s a = list_ex (\<lambda>p. pp_alias p = a) (ps_profiles s)"

definition find_by_alias :: "profile_set \<Rightarrow> string \<Rightarrow> plain_profile option" where
  "find_by_alias s a = List.find (\<lambda>p. pp_alias p = a) (ps_profiles s)"

text \<open>
  \<open>find_by_alias_mut\<close> followed by the assignment through the reference: the first
  matching entry is replaced, \<open>None\<close> when there is none.
\<close>

fun assign_first :: "string \<Rightarrow> plain_profile \<Rightarrow> plain_profile list \<Rightarrow> plain_profile list option" where
  "assign_first a q [] = None"
| "assign_first a q (p # ps) =
     (if pp_alias p = a then Some (q # ps) else map_option ((#) p) (assign_first a q ps))"

definition assign_by_alias :: "profile_set \<Rightarrow> string \<Rightarrow> plain_profile \<Rightarrow> profile_set option" where
  "assign_by_alias s a q =
     map_option (\<lambda>ps. s\<lparr>ps_profiles := ps\<rparr>) (assign_first a q (ps_profiles s))"

definition aliases :: "profile_set \<Rightarrow> string list" where
  "aliases s = map pp_alias (ps_profiles s)"

lemma contains_alias_iff: "contains_alias s a \<longleftrightarrow> a \<in> set (aliases s)"
  by (auto simp: contains_alias_def aliases_def list_ex_iff)

lemma find_by_alias_None [simp]: "find_by_alias s a = None \<longleftrightarrow> \<not> contains_alias s a"
  by (auto simp: find_by_alias_def contains_alias_def list_ex_iff find_None_iff)

lemma find_by_alias_SomeD: "find_by_alias s a = Some p \<Longrightarrow> p \<in> set (ps_profiles s) \<and> pp_alias p = a"
  by (auto simp: find_by_alias_def find_Some_iff)

lemma find_by_alias_ex: "contains_alias s a \<Longrightarrow> \<exists>p. find_by_alias s a = Some p"
  using find_by_alias_None by (metis not_None_eq)

lemma assign_first_None: "assign_first a q ps = None \<longleftrightarrow> a \<notin> pp_alias ` set ps"
  by (induction ps) auto

lemma assign_by_alias_None [simp]: "assign_by_alias s a q = None \<longleftrightarrow> \<not> contains_alias s a"
  by (auto simp: assign_by_alias_def assign_first_None contains_alias_iff aliases_def)

lemma assign_first_aliases:
  "assign_first (pp_alias q) q ps = Some qs \<Longrightarrow> map pp_alias qs = map pp_alias ps"
  by (induction ps arbitrary: qs) (auto split: if_splits)

lemma assign_first_find:
  "assign_first (pp_alias q) q ps = Some qs \<Longrightarrow>
   List.find (\<lambda>p. pp_alias p = a) qs =
     (if a = pp_alias q then Some q else List.find (\<lambda>p. pp_alias p = a) ps)"
  by (induction ps arbitrary: qs) (auto split: if_splits)

lemma assign_by_alias_aliases:
  "assign_by_alias s (pp_alias q) q = Some t \<Longrightarrow> aliases t = aliases s"
  by (auto simp: assign_by_alias_def aliases_def dest: assign_first_aliases)

lemma assign_by_alias_contains:
  "assign_by_alias s (pp_alias q) q = Some t \<Longrightarrow> contains_alias t a = contains_alias s a"
  by (simp add: contains_alias_iff assign_by_alias_aliases)

lemma assign_by_alias_find:
  "assign_by_alias s (pp_alias q) q = Some t \<Longrightarrow>
   find_by_alias t a = (if a = pp_alias q then Some q else find_by_alias s a)"
  by (auto simp: assign_by_alias_def find_by_alias_def assign_first_find)

lemma assign_by_alias_schema:
  "assign_by_alias s a q = Some t \<Longrightarrow> ps_schema_version t = ps_schema_version s"
  by (auto simp: assign_by_alias_def)

section \<open>Argon2id parameters (core/src/crypto/kdf.rs) and policy\<close>

record argon2id_config =
  memory_kib :: u32
  iterations :: u32
  parallelism :: u32

definition argon2_DEFAULT :: argon2id_config where
  "argon2_DEFAULT = \<lparr>memory_kib = 194560, iterations = 3, parallelism = 1\<rparr>"

definition MAX_MEMORY_KIB :: u32 where "MAX_MEMORY_KIB = 2 * 1024 * 1024"
definition MAX_ITERATIONS :: u32 where "MAX_ITERATIONS = 16"
definition MAX_PARALLELISM :: u32 where "MAX_PARALLELISM = 8"

definition argon2_validate :: "argon2id_config \<Rightarrow> bool" where
  "argon2_validate c =
     (\<not> (memory_kib c > MAX_MEMORY_KIB
         \<or> \<not> (1 \<le> iterations c \<and> iterations c \<le> MAX_ITERATIONS)
         \<or> \<not> (1 \<le> parallelism c \<and> parallelism c \<le> MAX_PARALLELISM)))"

text \<open>\<open>ProfileKek\<close>: the derived key, its salt and the parameters it was derived with.\<close>

record profile_kek =
  kek_key :: bytes
  kek_salt :: bytes
  kek_kdf_config :: argon2id_config

definition POLICY_V1 :: argon2id_config where
  "POLICY_V1 = argon2_DEFAULT"

definition needs_rotation :: "argon2id_config \<Rightarrow> argon2id_config \<Rightarrow> bool" where
  "needs_rotation current policy =
     (memory_kib current < memory_kib policy
      \<or> iterations current < iterations policy
      \<or> parallelism current < parallelism policy)"

lemma needs_rotation_irrefl [simp]: "\<not> needs_rotation c c"
  by (simp add: needs_rotation_def)

lemma argon2_validate_unat:
  "argon2_validate c \<longleftrightarrow>
     unat (memory_kib c) \<le> 2097152 \<and> unat (iterations c) \<in> {1..16} \<and> unat (parallelism c) \<in> {1..8}"
  by (auto simp: argon2_validate_def MAX_MEMORY_KIB_def MAX_ITERATIONS_def MAX_PARALLELISM_def
      word_le_nat_alt word_less_nat_alt not_less)

section \<open>Countability, for encodings of these types\<close>

instance nextcloud_auth :: countable by countable_datatype
instance collision_policy :: countable by countable_datatype

instance nextcloud_profile_ext :: (countable) countable
  by (rule countable_classI [of "\<lambda>r. to_nat
        (nc_server_url r, nc_username r, nc_auth r, nc_remote_root r, nextcloud_profile.more r)"]) simp

instance google_drive_auth_ext :: (countable) countable
  by (rule countable_classI [of "\<lambda>r. to_nat
        (gda_access_token r, gda_refresh_token r, gda_token_type r, gda_expires_at r, gda_scope r,
         google_drive_auth.more r)"]) simp

instance google_drive_profile_ext :: (countable) countable
  by (rule countable_classI [of "\<lambda>r. to_nat
        (gd_root_folder r, gd_user_email r, gd_root_folder_id r, gd_auth r,
         google_drive_profile.more r)"]) simp

instance one_drive_auth_ext :: (countable) countable
  by (rule countable_classI [of "\<lambda>r. to_nat
        (oda_access_token r, oda_refresh_token r, oda_token_type r, oda_expires_at r, oda_scope r,
         one_drive_auth.more r)"]) simp

instance one_drive_profile_ext :: (countable) countable
  by (rule countable_classI [of "\<lambda>r. to_nat
        (od_root_folder r, od_user_email r, od_root_folder_id r, od_auth r,
         one_drive_profile.more r)"]) simp

instance dropbox_auth_ext :: (countable) countable
  by (rule countable_classI [of "\<lambda>r. to_nat
        (dba_access_token r, dba_refresh_token r, dba_token_type r, dba_expires_at r, dba_scope r,
         dropbox_auth.more r)"]) simp

instance dropbox_profile_ext :: (countable) countable
  by (rule countable_classI [of "\<lambda>r. to_nat
        (db_root_folder r, db_user_email r, db_auth r, dropbox_profile.more r)"]) simp

instance unknown_provider_ext :: (countable) countable
  by (rule countable_classI [of "\<lambda>r. to_nat
        (up_tag r, up_payload_cbor r, unknown_provider.more r)"]) simp

instance provider_profile :: countable by countable_datatype

instance profile_settings_ext :: (countable) countable
  by (rule countable_classI [of "\<lambda>r. to_nat
        (unlock_ttl_secs r, agent_idle_exit_secs r, profile_settings.more r)"]) simp

instance plain_profile_ext :: (countable) countable
  by (rule countable_classI [of "\<lambda>r. to_nat
        ((pp_profile_version r, pp_profile_id r, pp_alias r, pp_default_target r, pp_providers r),
         (pp_collision_policy r, pp_settings r, pp_created_at r, pp_updated_at r,
          plain_profile.more r))"]) simp

instance profile_set_ext :: (countable) countable
  by (rule countable_classI [of "\<lambda>r. to_nat
        (ps_schema_version r, ps_profiles r, profile_set.more r)"]) simp

instance argon2id_config_ext :: (countable) countable
  by (rule countable_classI [of "\<lambda>r. to_nat
        (memory_kib r, iterations r, parallelism r, argon2id_config.more r)"]) simp

end
