(* ===== verification/Disk.thy ===== *)
theory Disk
  imports Prelude
begin

text \<open>
  The part of \<open>std::fs\<close> the program relies on for its atomic file replacement:
  files with contents, permission bits and modification time, and the calls
  \<open>create_dir_all\<close>, \<open>write\<close>, \<open>set_permissions\<close>, \<open>rename\<close>, \<open>remove_file\<close> and
  \<open>metadata\<close>. Whether a call succeeds is decided by an \<open>io_plan\<close>, so that every
  error branch of a caller is a branch of its model. A disk also records every
  intermediate file system it went through, which is what a crash between two
  calls would leave behind.
\<close>

record fs_file =
  f_data :: string
  f_mode :: nat
  f_mtime :: int

type_synonym files = "string \<Rightarrow> fs_file option"

record disk =
  d_files :: files
  d_trace :: "files list"

text \<open>A failed write leaves the file alone (\<open>Refused\<close>) or cuts it short (\<open>Partial\<close>).\<close>

datatype write_outcome = Written | Refused | Partial string

record io_plan =
  pl_mkdir :: bool
  pl_write :: write_outcome
  pl_chmod :: bool
  pl_rename :: bool
  pl_stat :: bool
  pl_now :: int
  pl_msg :: string

definition io_all_ok :: "int \<Rightarrow> io_plan" where
  "io_all_ok t = \<lparr>pl_mkdir = True, pl_write = Written, pl_chmod = True, pl_rename = True,
     pl_stat = True, pl_now = t, pl_msg = ''''\<rparr>"

definition fs_commit :: "disk \<Rightarrow> files \<Rightarrow> disk" where
  "fs_commit d fs = d\<lparr>d_files := fs, d_trace := d_trace d @ [fs]\<rparr>"

definition fs_put :: "nat \<Rightarrow> io_plan \<Rightarrow> disk \<Rightarrow> string \<Rightarrow> string \<Rightarrow> disk" where
  "fs_put mode pl d p s = fs_commit d ((d_files d)(p \<mapsto>
     \<lparr>f_data = s,
      f_mode = (case d_files d p of None \<Rightarrow> mode | Some f \<Rightarrow> f_mode f),
      f_mtime = pl_now pl\<rparr>))"

text \<open>\<open>fs::write\<close>, or \<open>open\<close> with a creation mode followed by \<open>write_all\<close>.\<close>

definition fs_write :: "nat \<Rightarrow> io_plan \<Rightarrow> disk \<Rightarrow> string \<Rightarrow> string \<Rightarrow> disk \<times> bool" where
  "fs_write mode pl d p s =
     (case pl_write pl of
        Written \<Rightarrow> (fs_put mode pl d p s, True)
      | Refused \<Rightarrow> (d, False)
      | Partial w \<Rightarrow> (fs_put mode pl d p w, False))"

definition fs_chmod :: "nat \<Rightarrow> io_plan \<Rightarrow> disk \<Rightarrow> string \<Rightarrow> disk \<times> bool" where
  "fs_chmod mode pl d p =
     (case d_files d p of
        None \<Rightarrow> (d, False)
      | Some f \<Rightarrow> if pl_chmod pl
                  then (fs_commit d ((d_files d)(p \<mapsto> f\<lparr>f_mode := mode\<rparr>)), True)
                  else (d, False))"

definition fs_rename :: "io_plan \<Rightarrow> disk \<Rightarrow> string \<Rightarrow> string \<Rightarrow> disk \<times> bool" where
  "fs_rename pl d a b =
     (case d_files d a of
        None \<Rightarrow> (d, False)
      | Some f \<Rightarrow> if pl_rename pl
                  then (fs_commit d ((d_files d)(b \<mapsto> f, a := None)), True)
                  else (d, False))"

definition fs_remove :: "disk \<Rightarrow> string \<Rightarrow> disk" where
  "fs_remove d p = fs_commit d ((d_files d)(p := None))"

definition fs_mtime :: "io_plan \<Rightarrow> disk \<Rightarrow> string \<Rightarrow> int option" where
  "fs_mtime pl d p = (if pl_stat pl then map_option f_mtime (d_files d p) else None)"

abbreviation MODE_0600 :: nat where "MODE_0600 \<equiv> 384"
abbreviation MODE_DEFAULT :: nat where "MODE_DEFAULT \<equiv> 420"

lemmas fs_defs = fs_write_def fs_put_def fs_chmod_def fs_rename_def fs_remove_def fs_commit_def

text \<open>
  Crash safety of a replacement of \<open>p\<close>: wherever the new states of the trace are
  cut, \<open>p\<close> holds its old file or one given complete file.
\<close>

definition only_old_or_new :: "disk \<Rightarrow> disk \<Rightarrow> string \<Rightarrow> (fs_file \<Rightarrow> bool) \<Rightarrow> bool" where
  "only_old_or_new d d' p new =
     (\<exists>ts. d_trace d' = d_trace d @ ts
        \<and> list_all (\<lambda>fs. fs p = d_files d p \<or> (\<exists>f. fs p = Some f \<and> new f)) ts)"

section \<open>Atomic replacement of a private file\<close>

locale atomic_replacement =
  fixes replace :: "io_plan \<Rightarrow> disk \<Rightarrow> string \<Rightarrow> string \<Rightarrow> disk \<times> ('e, unit) result"
    and allowed :: "string \<Rightarrow> bool"
  assumes old_or_new: "allowed path \<Longrightarrow> replace pl d path s = (d', r)
      \<Longrightarrow> only_old_or_new d d' path (\<lambda>f. f_data f = s \<and> f_mode f = MODE_0600)"
    and replaced: "allowed path \<Longrightarrow> replace pl d path s = (d', Inr ())
      \<Longrightarrow> \<exists>f. d_files d' path = Some f \<and> f_data f = s \<and> f_mode f = MODE_0600"
    and failed: "allowed path \<Longrightarrow> replace pl d path s = (d', Inl e) \<Longrightarrow> d_files d' path = d_files d path"
begin

text \<open>Whatever a reader makes of the file, at any crash point it is the old or the new reading.\<close>

lemma crash_readings:
  assumes "allowed path" "replace pl d path s = (d', r)" "reading (map_option f_data (d_files d path)) = old"
    and "reading (Some s) = new"
  shows "\<exists>ts. d_trace d' = d_trace d @ ts \<and> (\<forall>fs \<in> set ts. reading (map_option f_data (fs path)) \<in> {old, new})"
  using old_or_new [OF assms(1,2)] assms(3,4) by (fastforce simp: only_old_or_new_def list_all_iff)

lemma final_reading:
  assumes "allowed path" "replace pl d path s = (d', r)" "reading (map_option f_data (d_files d path)) = old"
    and "reading (Some s) = new"
  shows "reading (map_option f_data (d_files d' path)) = (if r = Inr () then new else old)"
proof (cases r)
  case (Inl e)
  with failed assms show ?thesis by auto
next
  case (Inr u)
  with replaced assms show ?thesis by fastforce
qed

end

end
