(* ===== verification/Container.thy ===== *)
theory Container
  imports Profile Disk
begin

text \<open>
  The encrypted container of \<open>core/src/profile/format.rs\<close>: the JSON envelope around
  an AEAD-sealed CBOR payload, the tolerance for provider entries written by a
  newer version (\<open>shield\<close> on decode, \<open>restore\<close> on encode), the files it is saved
  to and the KDF rotation of \<open>core/src/profile/rotation.rs\<close>. Argon2, XChaCha20-Poly1305,
  base64, JSON and CBOR are third-party crates: they are the fields of the
  parameter \<open>prims\<close>.
\<close>

section \<open>Errors, the envelope and CBOR values\<close>

datatype crypto_error =
    UnsupportedVersion u32 u32
  | UnsupportedKdf string
  | UnsupportedCipher string
  | UnsupportedPayloadFormat string
  | InvalidEnvelope
  | Base64Decode
  | Kdf string
  | Aead
  | PayloadDecode
  | PayloadEncode
  | InvalidLength
  | CryptoIo
  | LegacyFormat

definition ENVELOPE_VERSION_V1 :: u32 where "ENVELOPE_VERSION_V1 = 1"
definition KDF_NAME_ARGON2ID :: string where "KDF_NAME_ARGON2ID = ''argon2id''"
definition CIPHER_NAME_XCHACHA20POLY1305 :: string where
  "CIPHER_NAME_XCHACHA20POLY1305 = ''xchacha20poly1305''"
definition PAYLOAD_FORMAT_CBOR :: string where "PAYLOAD_FORMAT_CBOR = ''cbor''"

record kdf_params =
  kp_name :: string
  kp_memory_kib :: u32
  kp_iterations :: u32
  kp_parallelism :: u32
  kp_salt :: string

record cipher_params =
  cp_name :: string
  cp_nonce :: string

record payload_params =
  py_format :: string
  py_ciphertext :: string

record profile_envelope =
  ev_version :: u32
  ev_kdf :: kdf_params
  ev_cipher :: cipher_params
  ev_payload :: payload_params

definition KEY_LEN :: nat where "KEY_LEN = 32"
definition NONCE_LEN :: nat where "NONCE_LEN = 24"
definition SALT_LEN :: nat where "SALT_LEN = 16"

text \<open>\<open>ciborium::value::Value\<close>.\<close>

datatype cbor =
    CInteger int
  | CBytes bytes
  | CFloat u64
  | CText string
  | CBool bool
  | CNull
  | CTag u64 cbor
  | CArray "cbor list"
  | CMap "(cbor \<times> cbor) list"

text \<open>
  The third-party code: \<open>argon2_params\<close> is the error of \<open>Params::new\<close>, if any;
  \<open>argon2_hash\<close> is \<open>hash_password_into\<close>; \<open>seal\<close> and \<open>open\<close> are the AEAD; the
  others are base64, serde_json and ciborium (readers and writers of a raw value
  and of each serialised type).
\<close>

record prims =
  argon2_params :: "argon2id_config \<Rightarrow> string option"
  argon2_hash :: "string \<Rightarrow> bytes \<Rightarrow> argon2id_config \<Rightarrow> bytes option"
  seal :: "bytes \<Rightarrow> bytes \<Rightarrow> bytes \<Rightarrow> bytes option"
  unseal :: "bytes \<Rightarrow> bytes \<Rightarrow> bytes \<Rightarrow> bytes option"
  b64_encode :: "bytes \<Rightarrow> string"
  b64_decode :: "string \<Rightarrow> bytes option"
  json_encode :: "profile_envelope \<Rightarrow> string option"
  json_decode :: "string \<Rightarrow> profile_envelope option"
  value_write :: "cbor \<Rightarrow> bytes option"
  value_read :: "bytes \<Rightarrow> cbor option"
  set_write :: "profile_set \<Rightarrow> bytes option"
  set_read :: "bytes \<Rightarrow> profile_set option"
  provider_write :: "provider_profile \<Rightarrow> bytes option"
  provider_read :: "bytes \<Rightarrow> provider_profile option"
  plain_write :: "plain_profile \<Rightarrow> bytes option"
  plain_read :: "bytes \<Rightarrow> plain_profile option"

section \<open>Key derivation and AEAD\<close>

definition kdf_range_message :: "argon2id_config \<Rightarrow> string" where
  "kdf_range_message c =
     ''parameters out of range (memory_kib='' @ show_nat (unat (memory_kib c))
     @ '', iterations='' @ show_nat (unat (iterations c))
     @ '', parallelism='' @ show_nat (unat (parallelism c)) @ '')''"

definition derive_key :: "prims \<Rightarrow> string \<Rightarrow> bytes \<Rightarrow> argon2id_config \<Rightarrow> (crypto_error, bytes) result" where
  "derive_key P pw salt c =
     (if \<not> argon2_validate c then Inl (Kdf (kdf_range_message c))
      else case argon2_params P c of
        Some m \<Rightarrow> Inl (Kdf m)
      | None \<Rightarrow> ok_or (Kdf ''hash_password_into failed'') (argon2_hash P pw salt c))"

definition aead_encrypt :: "prims \<Rightarrow> bytes \<Rightarrow> bytes \<Rightarrow> bytes \<Rightarrow> (crypto_error, bytes) result" where
  "aead_encrypt P key nonce pt = ok_or Aead (seal P key nonce pt)"

definition aead_decrypt :: "prims \<Rightarrow> bytes \<Rightarrow> bytes \<Rightarrow> bytes \<Rightarrow> (crypto_error, bytes) result" where
  "aead_decrypt P key nonce ct = ok_or Aead (unseal P key nonce ct)"

text \<open>The envelope all encrypting functions build.\<close>

definition make_envelope ::
  "prims \<Rightarrow> argon2id_config \<Rightarrow> bytes \<Rightarrow> bytes \<Rightarrow> bytes \<Rightarrow> profile_envelope" where
  "make_envelope P c salt nonce ct =
     \<lparr>ev_version = ENVELOPE_VERSION_V1,
      ev_kdf = \<lparr>kp_name = KDF_NAME_ARGON2ID, kp_memory_kib = memory_kib c,
                kp_iterations = iterations c, kp_parallelism = parallelism c,
                kp_salt = b64_encode P salt\<rparr>,
      ev_cipher = \<lparr>cp_name = CIPHER_NAME_XCHACHA20POLY1305, cp_nonce = b64_encode P nonce\<rparr>,
      ev_payload = \<lparr>py_format = PAYLOAD_FORMAT_CBOR, py_ciphertext = b64_encode P ct\<rparr>\<rparr>"

definition envelope_config :: "profile_envelope \<Rightarrow> argon2id_config" where
  "envelope_config e = \<lparr>memory_kib = kp_memory_kib (ev_kdf e), iterations = kp_iterations (ev_kdf e),
     parallelism = kp_parallelism (ev_kdf e)\<rparr>"

text \<open>The header checks shared by both decrypting functions, in the code's order.\<close>

definition check_header :: "profile_envelope \<Rightarrow> (crypto_error, unit) result" where
  "check_header e =
     (if ev_version e \<noteq> ENVELOPE_VERSION_V1
      then Inl (UnsupportedVersion (ev_version e) ENVELOPE_VERSION_V1)
      else if kp_name (ev_kdf e) \<noteq> KDF_NAME_ARGON2ID
      then Inl (UnsupportedKdf (kp_name (ev_kdf e)))
      else if cp_name (ev_cipher e) \<noteq> CIPHER_NAME_XCHACHA20POLY1305
      then Inl (UnsupportedCipher (cp_name (ev_cipher e)))
      else if py_format (ev_payload e) \<noteq> PAYLOAD_FORMAT_CBOR
      then Inl (UnsupportedPayloadFormat (py_format (ev_payload e)))
      else Inr ())"

definition fixed_len :: "nat \<Rightarrow> bytes \<Rightarrow> (crypto_error, bytes) result" where
  "fixed_len n bs = (if length bs = n then Inr bs else Inl InvalidLength)"

section \<open>Single profiles\<close>

definition encrypt_profile_with_config ::
  "prims \<Rightarrow> bytes \<Rightarrow> bytes \<Rightarrow> plain_profile \<Rightarrow> string \<Rightarrow> argon2id_config \<Rightarrow> (crypto_error, string) result" where
  "encrypt_profile_with_config P salt nonce p pw c =
     rbind (derive_key P pw salt c) (\<lambda>key.
     rbind (ok_or PayloadEncode (plain_write P p)) (\<lambda>pt.
     rbind (aead_encrypt P key nonce pt) (\<lambda>ct.
     ok_or InvalidEnvelope (json_encode P (make_envelope P c salt nonce ct)))))"

definition encrypt_profile ::
  "prims \<Rightarrow> bytes \<Rightarrow> bytes \<Rightarrow> plain_profile \<Rightarrow> string \<Rightarrow> (crypto_error, string) result" where
  "encrypt_profile P salt nonce p pw = encrypt_profile_with_config P salt nonce p pw argon2_DEFAULT"

text \<open>\<open>decrypt_profile\<close> passes the decoded salt on without a length check.\<close>

definition decrypt_profile :: "prims \<Rightarrow> string \<Rightarrow> string \<Rightarrow> (crypto_error, plain_profile) result" where
  "decrypt_profile P s pw =
     rbind (ok_or InvalidEnvelope (json_decode P s)) (\<lambda>e.
     rbind (check_header e) (\<lambda>_.
     rbind (ok_or Base64Decode (b64_decode P (kp_salt (ev_kdf e)))) (\<lambda>salt.
     rbind (ok_or Base64Decode (b64_decode P (cp_nonce (ev_cipher e)))) (\<lambda>nonce_bytes.
     rbind (ok_or Base64Decode (b64_decode P (py_ciphertext (ev_payload e)))) (\<lambda>ct.
     rbind (fixed_len NONCE_LEN nonce_bytes) (\<lambda>nonce.
     rbind (derive_key P pw salt (envelope_config e)) (\<lambda>key.
     rbind (aead_decrypt P key nonce ct) (\<lambda>pt.
     ok_or PayloadDecode (plain_read P pt)))))))))"

section \<open>Tolerance for unknown providers\<close>

definition is_unknown :: "provider_profile \<Rightarrow> bool" where
  "is_unknown pr = (case pr of Unknown _ \<Rightarrow> True | _ \<Rightarrow> False)"

definition set_holds_unknown_provider :: "profile_set \<Rightarrow> bool" where
  "set_holds_unknown_provider s =
     list_ex (\<lambda>p. list_ex is_unknown (pp_providers p)) (ps_profiles s)"

text \<open>\<open>value_from\<close> and \<open>value_to\<close> at the types they are used at.\<close>

definition value_from_set :: "prims \<Rightarrow> profile_set \<Rightarrow> (crypto_error, cbor) result" where
  "value_from_set P s =
     rbind (ok_or PayloadEncode (set_write P s)) (\<lambda>b. ok_or PayloadEncode (value_read P b))"

definition value_from_provider :: "prims \<Rightarrow> provider_profile \<Rightarrow> (crypto_error, cbor) result" where
  "value_from_provider P p =
     rbind (ok_or PayloadEncode (provider_write P p)) (\<lambda>b. ok_or PayloadEncode (value_read P b))"

definition value_to_set :: "prims \<Rightarrow> cbor \<Rightarrow> (crypto_error, profile_set) result" where
  "value_to_set P v =
     rbind (ok_or PayloadDecode (value_write P v)) (\<lambda>b. ok_or PayloadDecode (set_read P b))"

definition value_to_provider :: "prims \<Rightarrow> cbor \<Rightarrow> (crypto_error, provider_profile) result" where
  "value_to_provider P v =
     rbind (ok_or PayloadDecode (value_write P v)) (\<lambda>b. ok_or PayloadDecode (provider_read P b))"

text \<open>
  \<open>for_each_provider_entry\<close>: the three nested loops, one function per level.
  Values of another shape are skipped, and the first error stops the walk (no
  caller looks at the tree after an error).
\<close>

definition on_key ::
  "string \<Rightarrow> (cbor \<Rightarrow> ('e, cbor) result) \<Rightarrow> cbor \<times> cbor \<Rightarrow> ('e, cbor \<times> cbor) result" where
  "on_key k f kv =
     (if fst kv = CText k then rbind (f (snd kv)) (\<lambda>v. Inr (fst kv, v)) else Inr kv)"

definition in_map :: "(cbor \<times> cbor \<Rightarrow> ('e, cbor \<times> cbor) result) \<Rightarrow> cbor \<Rightarrow> ('e, cbor) result" where
  "in_map f v = (case v of CMap kvs \<Rightarrow> rbind (traverse f kvs) (\<lambda>r. Inr (CMap r)) | _ \<Rightarrow> Inr v)"

definition in_array :: "(cbor \<Rightarrow> ('e, cbor) result) \<Rightarrow> cbor \<Rightarrow> ('e, cbor) result" where
  "in_array f v = (case v of CArray vs \<Rightarrow> rbind (traverse f vs) (\<lambda>r. Inr (CArray r)) | _ \<Rightarrow> Inr v)"

definition for_each_provider_entry ::
  "(cbor \<Rightarrow> ('e, cbor) result) \<Rightarrow> cbor \<Rightarrow> ('e, cbor) result" where
  "for_each_provider_entry rewrite root =
     in_map (on_key ''profiles'' (in_array (in_map (on_key ''providers'' (in_array rewrite))))) root"

definition shield_entry :: "prims \<Rightarrow> cbor \<Rightarrow> (crypto_error, cbor) result" where
  "shield_entry P entry =
     (case entry of
        CMap [(CText tag, payload_value)] \<Rightarrow>
          if tag = UNKNOWN_PROVIDER_TAG \<or> tag \<in> set KNOWN_PROVIDER_TAGS then Inr entry
          else rbind (ok_or PayloadDecode (value_write P payload_value)) (\<lambda>payload.
               rmap_err (\<lambda>_. PayloadDecode)
                 (value_from_provider P (Unknown \<lparr>up_tag = tag, up_payload_cbor = payload\<rparr>)))
      | _ \<Rightarrow> Inr entry)"

definition shield_unknown_providers :: "prims \<Rightarrow> cbor \<Rightarrow> (crypto_error, cbor) result" where
  "shield_unknown_providers P root = for_each_provider_entry (shield_entry P) root"

definition restore_entry :: "prims \<Rightarrow> cbor \<Rightarrow> (crypto_error, cbor) result" where
  "restore_entry P entry =
     (case entry of
        CMap [(CText t, _)] \<Rightarrow>
          if t \<noteq> UNKNOWN_PROVIDER_TAG then Inr entry
          else rbind (rmap_err (\<lambda>_. PayloadEncode) (value_to_provider P entry)) (\<lambda>pr.
            case pr of
              Unknown carrier \<Rightarrow>
                if up_tag carrier = UNKNOWN_PROVIDER_TAG \<or> up_tag carrier \<in> set KNOWN_PROVIDER_TAGS
                then Inl PayloadEncode
                else rbind (ok_or PayloadEncode (value_read P (up_payload_cbor carrier))) (\<lambda>payload.
                     Inr (CMap [(CText (up_tag carrier), payload)]))
            | _ \<Rightarrow> Inr entry)
      | _ \<Rightarrow> Inr entry)"

definition restore_unknown_providers :: "prims \<Rightarrow> cbor \<Rightarrow> (crypto_error, cbor) result" where
  "restore_unknown_providers P root = for_each_provider_entry (restore_entry P) root"

section \<open>Containers\<close>

text \<open>The payload bytes: the plain writer, or the detour over a raw value.\<close>

definition set_plaintext :: "prims \<Rightarrow> profile_set \<Rightarrow> (crypto_error, bytes) result" where
  "set_plaintext P s =
     (if set_holds_unknown_provider s
      then rbind (value_from_set P s) (\<lambda>v.
           rbind (restore_unknown_providers P v) (\<lambda>v'.
           ok_or PayloadEncode (value_write P v')))
      else ok_or PayloadEncode (set_write P s))"

definition encrypt_set_with_kek ::
  "prims \<Rightarrow> bytes \<Rightarrow> profile_set \<Rightarrow> profile_kek \<Rightarrow> (crypto_error, string) result" where
  "encrypt_set_with_kek P nonce s kek =
     rbind (set_plaintext P s) (\<lambda>pt.
     rbind (aead_encrypt P (kek_key kek) nonce pt) (\<lambda>ct.
     ok_or InvalidEnvelope
       (json_encode P (make_envelope P (kek_kdf_config kek) (kek_salt kek) nonce ct))))"

definition encrypt_set_with_config ::
  "prims \<Rightarrow> bytes \<Rightarrow> bytes \<Rightarrow> profile_set \<Rightarrow> string \<Rightarrow> argon2id_config
     \<Rightarrow> (crypto_error, string \<times> profile_kek) result" where
  "encrypt_set_with_config P salt nonce s pw c =
     rbind (derive_key P pw salt c) (\<lambda>key.
     let kek = \<lparr>kek_key = key, kek_salt = salt, kek_kdf_config = c\<rparr> in
     rbind (encrypt_set_with_kek P nonce s kek) (\<lambda>envelope.
     Inr (envelope, kek)))"

definition encrypt_set ::
  "prims \<Rightarrow> bytes \<Rightarrow> bytes \<Rightarrow> profile_set \<Rightarrow> string \<Rightarrow> (crypto_error, string \<times> profile_kek) result" where
  "encrypt_set P salt nonce s pw = encrypt_set_with_config P salt nonce s pw argon2_DEFAULT"

text \<open>
  The decoding cascade at the end of \<open>decrypt_set\<close>: the typed decode, then the
  shielded decode, then the legacy probe.
\<close>

definition decode_shielded :: "prims \<Rightarrow> bytes \<Rightarrow> profile_set option" where
  "decode_shielded P pt =
     (case value_read P pt of
        None \<Rightarrow> None
      | Some v \<Rightarrow> (case shield_unknown_providers P v of
          Inl _ \<Rightarrow> None
        | Inr v' \<Rightarrow> (case value_to_set P v' of Inl _ \<Rightarrow> None | Inr s \<Rightarrow> Some s)))"

definition at_schema_v2 :: "profile_set option \<Rightarrow> profile_set option" where
  "at_schema_v2 r =
     (case r of None \<Rightarrow> None
      | Some s \<Rightarrow> if PROFILE_SET_SCHEMA_V2 \<le> ps_schema_version s then Some s else None)"

definition decode_payload :: "prims \<Rightarrow> bytes \<Rightarrow> (crypto_error, profile_set) result" where
  "decode_payload P pt =
     (case at_schema_v2 (set_read P pt) of
        Some s \<Rightarrow> Inr s
      | None \<Rightarrow> (case at_schema_v2 (decode_shielded P pt) of
          Some s \<Rightarrow> Inr s
        | None \<Rightarrow> if plain_read P pt \<noteq> None then Inl LegacyFormat else Inl PayloadDecode))"

definition decrypt_set ::
  "prims \<Rightarrow> string \<Rightarrow> string \<Rightarrow> (crypto_error, profile_set \<times> profile_kek) result" where
  "decrypt_set P s pw =
     rbind (ok_or InvalidEnvelope (json_decode P s)) (\<lambda>e.
     rbind (check_header e) (\<lambda>_.
     rbind (ok_or Base64Decode (b64_decode P (kp_salt (ev_kdf e)))) (\<lambda>salt_bytes.
     rbind (fixed_len SALT_LEN salt_bytes) (\<lambda>salt.
     rbind (ok_or Base64Decode (b64_decode P (cp_nonce (ev_cipher e)))) (\<lambda>nonce_bytes.
     rbind (fixed_len NONCE_LEN nonce_bytes) (\<lambda>nonce.
     rbind (ok_or Base64Decode (b64_decode P (py_ciphertext (ev_payload e)))) (\<lambda>ct.
     rbind (derive_key P pw salt (envelope_config e)) (\<lambda>key.
     rbind (aead_decrypt P key nonce ct) (\<lambda>pt.
     rbind (decode_payload P pt) (\<lambda>set.
     Inr (set, \<lparr>kek_key = key, kek_salt = salt, kek_kdf_config = envelope_config e\<rparr>)))))))))))"

section \<open>Container files\<close>

text \<open>
  \<open>create_dir_all\<close> of the parent is the \<open>pl_mkdir\<close> bit; a path here always has
  a parent directory.
\<close>

definition write_private ::
  "io_plan \<Rightarrow> disk \<Rightarrow> string \<Rightarrow> string \<Rightarrow> disk \<times> (crypto_error, unit) result" where
  "write_private pl d p s =
     (let (d1, ok1) = fs_write MODE_0600 pl d p s
      in if \<not> ok1 then (d1, Inl CryptoIo)
         else let (d2, ok2) = fs_chmod MODE_0600 pl d1 p
              in (d2, if ok2 then Inr () else Inl CryptoIo))"

definition write_envelope ::
  "io_plan \<Rightarrow> disk \<Rightarrow> string \<Rightarrow> string \<Rightarrow> disk \<times> (crypto_error, unit) result" where
  "write_envelope pl d p s =
     (if \<not> pl_mkdir pl then (d, Inl CryptoIo) else write_private pl d p s)"

definition save_set_zz_with_config ::
  "prims \<Rightarrow> bytes \<Rightarrow> bytes \<Rightarrow> io_plan \<Rightarrow> disk \<Rightarrow> profile_set \<Rightarrow> string \<Rightarrow> string \<Rightarrow> argon2id_config
     \<Rightarrow> disk \<times> (crypto_error, profile_kek) result" where
  "save_set_zz_with_config P salt nonce pl d s pw path c =
     (case encrypt_set_with_config P salt nonce s pw c of
        Inl e \<Rightarrow> (d, Inl e)
      | Inr (envelope, kek) \<Rightarrow>
          let (d1, r) = write_envelope pl d path envelope
          in (d1, rbind r (\<lambda>_. Inr kek)))"

definition save_profile_zz_with_config ::
  "prims \<Rightarrow> bytes \<Rightarrow> bytes \<Rightarrow> io_plan \<Rightarrow> disk \<Rightarrow> plain_profile \<Rightarrow> string \<Rightarrow> string \<Rightarrow> argon2id_config
     \<Rightarrow> disk \<times> (crypto_error, unit) result" where
  "save_profile_zz_with_config P salt nonce pl d p pw path c =
     (case encrypt_profile_with_config P salt nonce p pw c of
        Inl e \<Rightarrow> (d, Inl e)
      | Inr envelope \<Rightarrow> if \<not> pl_mkdir pl then (d, Inl CryptoIo) else write_private pl d path envelope)"

definition save_set_zz ::
  "prims \<Rightarrow> bytes \<Rightarrow> bytes \<Rightarrow> io_plan \<Rightarrow> disk \<Rightarrow> profile_set \<Rightarrow> string \<Rightarrow> string
     \<Rightarrow> disk \<times> (crypto_error, profile_kek) result" where
  "save_set_zz P salt nonce pl d s pw path = save_set_zz_with_config P salt nonce pl d s pw path argon2_DEFAULT"

definition save_profile_zz ::
  "prims \<Rightarrow> bytes \<Rightarrow> bytes \<Rightarrow> io_plan \<Rightarrow> disk \<Rightarrow> plain_profile \<Rightarrow> string \<Rightarrow> string
     \<Rightarrow> disk \<times> (crypto_error, unit) result" where
  "save_profile_zz P salt nonce pl d p pw path = save_profile_zz_with_config P salt nonce pl d p pw path argon2_DEFAULT"

definition load_set_zz ::
  "prims \<Rightarrow> disk \<Rightarrow> string \<Rightarrow> string \<Rightarrow> (crypto_error, profile_set \<times> profile_kek) result" where
  "load_set_zz P d path pw =
     rbind (ok_or CryptoIo (map_option f_data (d_files d path))) (\<lambda>envelope.
     decrypt_set P envelope pw)"

definition load_profile_zz ::
  "prims \<Rightarrow> disk \<Rightarrow> string \<Rightarrow> string \<Rightarrow> (crypto_error, plain_profile) result" where
  "load_profile_zz P d path pw =
     rbind (ok_or CryptoIo (map_option f_data (d_files d path))) (\<lambda>envelope.
     decrypt_profile P envelope pw)"

section \<open>KDF rotation (core/src/profile/rotation.rs)\<close>

definition atomic_write_0600 ::
  "io_plan \<Rightarrow> disk \<Rightarrow> string \<Rightarrow> string \<Rightarrow> disk \<times> (crypto_error, unit) result" where
  "atomic_write_0600 pl d path s =
     (if \<not> pl_mkdir pl then (d, Inl CryptoIo)
      else let tmp = path @ ''.tmp'';
               (d1, ok1) = fs_write MODE_DEFAULT pl d tmp s
           in if \<not> ok1 then (d1, Inl CryptoIo)
              else let (d2, ok2) = fs_chmod MODE_0600 pl d1 tmp
                   in if \<not> ok2 then (d2, Inl CryptoIo)
                      else let (d3, ok3) = fs_rename pl d2 tmp path
                           in if ok3 then (d3, Inr ()) else (fs_remove d3 tmp, Inl CryptoIo))"

definition rotate_set_if_needed ::
  "prims \<Rightarrow> bytes \<Rightarrow> bytes \<Rightarrow> io_plan \<Rightarrow> disk \<Rightarrow> profile_set \<Rightarrow> profile_kek \<Rightarrow> string \<Rightarrow> string
     \<Rightarrow> argon2id_config \<Rightarrow> disk \<times> (crypto_error, profile_kek option) result" where
  "rotate_set_if_needed P salt nonce pl d s kek pw path policy =
     (if \<not> needs_rotation (kek_kdf_config kek) policy then (d, Inr None)
      else case encrypt_set_with_config P salt nonce s pw policy of
        Inl e \<Rightarrow> (d, Inl e)
      | Inr (envelope, new_kek) \<Rightarrow>
          let (d1, r) = atomic_write_0600 pl d path envelope
          in (d1, rbind r (\<lambda>_. Inr (Some new_kek))))"

end
