(* ===== verification/Container_Correct.thy ===== *)
theory Container_Correct
  imports Container
begin

text \<open>
  Correctness of the container: what the third-party primitives are assumed to
  do (\<open>prims_ok\<close>), the round trip of encryption and decryption for known and for
  foreign provider entries, the header checks, and crash safety of rotation.
\<close>

section \<open>The documented behaviour of the primitives\<close>

text \<open>
  The derived serde representation: a struct is a map from field names, an
  externally tagged enum a map with one entry. \<open>set_shape\<close> says where the provider
  entries of a container sit in its value tree.
\<close>

fun provider_tag :: "provider_profile \<Rightarrow> string" where
  "provider_tag (Nextcloud _) = ''nextcloud''"
| "provider_tag (GoogleDrive _) = ''google_drive''"
| "provider_tag (OneDrive _) = ''one_drive''"
| "provider_tag (Dropbox _) = ''dropbox''"
| "provider_tag (Unknown _) = ''unknown''"

definition provider_value :: "prims \<Rightarrow> provider_profile \<Rightarrow> cbor \<Rightarrow> bool" where
  "provider_value P pr v = (\<exists>b. provider_write P pr = Some b \<and> value_read P b = Some v)"

definition field_of :: "string \<Rightarrow> cbor \<Rightarrow> cbor \<Rightarrow> bool" where
  "field_of k m v = (\<exists>pre post. m = CMap (pre @ (CText k, v) # post)
     \<and> CText k \<notin> fst ` set pre \<and> CText k \<notin> fst ` set post)"

definition profile_shape :: "prims \<Rightarrow> plain_profile \<Rightarrow> cbor \<Rightarrow> bool" where
  "profile_shape P p m =
     (\<exists>vs. field_of ''providers'' m (CArray vs) \<and> list_all2 (provider_value P) (pp_providers p) vs)"

definition set_shape :: "prims \<Rightarrow> profile_set \<Rightarrow> cbor \<Rightarrow> bool" where
  "set_shape P s m =
     (\<exists>ms. field_of ''profiles'' m (CArray ms) \<and> list_all2 (profile_shape P) (ps_profiles s) ms)"

text \<open>A value tree with a provider entry under a tag that no variant has.\<close>

definition foreign_entry :: "cbor \<Rightarrow> bool" where
  "foreign_entry v = (\<exists>t x. v = CMap [(CText t, x)] \<and> t \<notin> set KNOWN_PROVIDER_TAGS \<and> t \<noteq> UNKNOWN_PROVIDER_TAG)"

definition has_foreign :: "cbor \<Rightarrow> bool" where
  "has_foreign m = (\<exists>ms pm vs v. field_of ''profiles'' m (CArray ms) \<and> pm \<in> set ms
     \<and> field_of ''providers'' pm (CArray vs) \<and> v \<in> set vs \<and> foreign_entry v)"

definition prims_ok :: "prims \<Rightarrow> bool" where
  "prims_ok P \<longleftrightarrow>
     (\<forall>bs. b64_decode P (b64_encode P bs) = Some bs)
   \<and> (\<forall>e s. json_encode P e = Some s \<longrightarrow> json_decode P s = Some e)
   \<and> (\<forall>k n p c. seal P k n p = Some c \<longrightarrow> unseal P k n c = Some p)
   \<and> (\<forall>v b. value_write P v = Some b \<longrightarrow> value_read P b = Some v)
   \<and> (\<forall>s b. set_write P s = Some b \<longrightarrow> set_read P b = Some s)
   \<and> (\<forall>s b. set_write P s = Some b \<longrightarrow> (\<exists>v. value_read P b = Some v \<and> set_shape P s v))
   \<and> (\<forall>s b v b'. set_write P s = Some b \<longrightarrow> value_read P b = Some v \<longrightarrow> value_write P v = Some b'
        \<longrightarrow> set_read P b' = Some s)
   \<and> (\<forall>v b. has_foreign v \<longrightarrow> value_write P v = Some b \<longrightarrow> set_read P b = None)
   \<and> (\<forall>pr v. provider_value P pr v \<longrightarrow> (\<exists>x. v = CMap [(CText (provider_tag pr), x)]))
   \<and> (\<forall>pr v b. provider_value P pr v \<longrightarrow> value_write P v = Some b \<longrightarrow> provider_read P b = Some pr)
   \<and> (\<forall>p b. plain_write P p = Some b \<longrightarrow> plain_read P b = Some p)
   \<and> (\<forall>v. value_write P v \<noteq> None)"

lemma prims_okD:
  assumes "prims_ok P"
  shows prims_b64: "b64_decode P (b64_encode P bs) = Some bs"
    and prims_json: "json_encode P e = Some str \<Longrightarrow> json_decode P str = Some e"
    and prims_seal: "seal P k n p = Some c \<Longrightarrow> unseal P k n c = Some p"
    and prims_value: "value_write P v = Some b \<Longrightarrow> value_read P b = Some v"
    and prims_set: "set_write P s = Some b \<Longrightarrow> set_read P b = Some s"
    and prims_set_shape: "set_write P s = Some b \<Longrightarrow> \<exists>v. value_read P b = Some v \<and> set_shape P s v"
    and prims_set_value: "set_write P s = Some b \<Longrightarrow> value_read P b = Some v
      \<Longrightarrow> value_write P v = Some b' \<Longrightarrow> set_read P b' = Some s"
    and prims_foreign: "has_foreign v \<Longrightarrow> value_write P v = Some b \<Longrightarrow> set_read P b = None"
    and prims_tagged: "provider_value P pr v \<Longrightarrow> \<exists>x. v = CMap [(CText (provider_tag pr), x)]"
    and prims_provider: "provider_value P pr v \<Longrightarrow> value_write P v = Some b \<Longrightarrow> provider_read P b = Some pr"
    and prims_plain: "plain_write P q = Some b \<Longrightarrow> plain_read P b = Some q"
    and prims_total: "value_write P v \<noteq> None"
  using assms unfolding prims_ok_def by (elim conjE, metis)+

section \<open>Walking the provider entries\<close>

lemma on_key_other [simp]: "fst kv \<noteq> CText k \<Longrightarrow> on_key k f kv = Inr kv"
  by (simp add: on_key_def)

lemma on_key_hit [simp]: "on_key k f (CText k, v) = rbind (f v) (\<lambda>v'. Inr (CText k, v'))"
  by (simp add: on_key_def)

lemma traverse_on_key_id: "CText k \<notin> fst ` set kvs \<Longrightarrow> traverse (on_key k f) kvs = Inr kvs"
  by (induction kvs) auto

lemma in_map_field:
  assumes "field_of k m v" and "f v = Inr w"
  shows "\<exists>m'. in_map (on_key k f) m = Inr m' \<and> field_of k m' w"
proof -
  from assms(1) obtain pre post where m: "m = CMap (pre @ (CText k, v) # post)"
    and pre: "CText k \<notin> fst ` set pre" and post: "CText k \<notin> fst ` set post"
    by (auto simp: field_of_def)
  have "in_map (on_key k f) m = Inr (CMap (pre @ (CText k, w) # post))"
    using assms(2) pre post by (simp add: m in_map_def traverse_append traverse_on_key_id)
  with pre post show ?thesis by (auto simp: field_of_def)
qed

text \<open>Two fields at the same key of one map: the walk rewrites the same place.\<close>

lemma in_map_back:
  assumes "field_of k m v" and "f v = Inr w" and "g w = Inr v" and "in_map (on_key k f) m = Inr m'"
  shows "in_map (on_key k g) m' = Inr m"
proof -
  from assms(1) obtain pre post where m: "m = CMap (pre @ (CText k, v) # post)"
    and pre: "CText k \<notin> fst ` set pre" and post: "CText k \<notin> fst ` set post"
    by (auto simp: field_of_def)
  have "m' = CMap (pre @ (CText k, w) # post)"
    using assms(2,4) pre post by (simp add: m in_map_def traverse_append traverse_on_key_id)
  then show ?thesis using assms(3) pre post
    by (simp add: m in_map_def traverse_append traverse_on_key_id)
qed

lemma traverse_back:
  "list_all (\<lambda>x. \<forall>y. f x = Inr y \<longrightarrow> g y = Inr x) xs \<Longrightarrow> traverse f xs = Inr ys \<Longrightarrow> traverse g ys = Inr xs"
  by (induction xs arbitrary: ys) auto

lemma in_array_back:
  "list_all (\<lambda>x. \<forall>y. f x = Inr y \<longrightarrow> g y = Inr x) xs \<Longrightarrow> in_array f (CArray xs) = Inr v
   \<Longrightarrow> in_array g v = Inr (CArray xs)"
  by (auto simp: in_array_def traverse_back)

lemma in_map_Inr_field:
  assumes "field_of k m v" and "in_map (on_key k f) m = Inr m'"
  shows "\<exists>w. f v = Inr w \<and> field_of k m' w"
proof -
  from assms(1) obtain pre post where m: "m = CMap (pre @ (CText k, v) # post)"
    and pre: "CText k \<notin> fst ` set pre" and post: "CText k \<notin> fst ` set post"
    by (auto simp: field_of_def)
  with assms(2) show ?thesis
    by (auto simp: in_map_def traverse_append traverse_on_key_id field_of_def)
qed

text \<open>
  If a rewrite is undone entry by entry, walking the container with both gives it
  back.
\<close>

definition undoes :: "(cbor \<Rightarrow> ('e, cbor) result) \<Rightarrow> (cbor \<Rightarrow> ('d, cbor) result) \<Rightarrow> cbor \<Rightarrow> bool" where
  "undoes g f x = (\<forall>y. f x = Inr y \<longrightarrow> g y = Inr x)"

lemma walk_profile_back:
  assumes "profile_shape P p m" and "\<And>pr v. pr \<in> set (pp_providers p) \<Longrightarrow> provider_value P pr v \<Longrightarrow> undoes g f v"
  shows "undoes (in_map (on_key ''providers'' (in_array g))) (in_map (on_key ''providers'' (in_array f))) m"
  unfolding undoes_def
proof (intro allI impI)
  fix m' assume m': "in_map (on_key ''providers'' (in_array f)) m = Inr m'"
  from assms(1) obtain vs where vs: "field_of ''providers'' m (CArray vs)"
    "list_all2 (provider_value P) (pp_providers p) vs"
    by (auto simp: profile_shape_def)
  from in_map_Inr_field [OF vs(1) m'] obtain w where w: "in_array f (CArray vs) = Inr w" by blast
  have "list_all (\<lambda>x. \<forall>y. f x = Inr y \<longrightarrow> g y = Inr x) vs"
    using vs(2) assms(2) by (fastforce simp: list_all_iff undoes_def in_set_conv_nth list_all2_conv_all_nth)
  from in_array_back [OF this w] have "in_array g w = Inr (CArray vs)" .
  from in_map_back [where f = "in_array f" and g = "in_array g", OF vs(1) w this m'] show "in_map (on_key ''providers'' (in_array g)) m' = Inr m" .
qed

lemma walk_set_back:
  assumes "set_shape P s m"
    and "\<And>p pr v. p \<in> set (ps_profiles s) \<Longrightarrow> pr \<in> set (pp_providers p) \<Longrightarrow> provider_value P pr v
           \<Longrightarrow> undoes g f v"
  shows "undoes (for_each_provider_entry g) (for_each_provider_entry f) m"
  unfolding undoes_def
proof (intro allI impI)
  fix m' assume m': "for_each_provider_entry f m = Inr m'"
  from assms(1) obtain ms where ms: "field_of ''profiles'' m (CArray ms)"
    "list_all2 (profile_shape P) (ps_profiles s) ms"
    by (auto simp: set_shape_def)
  let ?f = "in_map (on_key ''providers'' (in_array f))"
  let ?g = "in_map (on_key ''providers'' (in_array g))"
  from in_map_Inr_field [OF ms(1) m' [unfolded for_each_provider_entry_def]]
  obtain w where w: "in_array ?f (CArray ms) = Inr w" by blast
  have "undoes ?g ?f pm" if pm: "pm \<in> set ms" for pm
  proof -
    from pm ms(2) obtain p where p: "p \<in> set (ps_profiles s)" "profile_shape P p pm"
      by (force simp: in_set_conv_nth list_all2_conv_all_nth)
    from p(2) show ?thesis by (rule walk_profile_back) (use p(1) assms(2) in blast)
  qed
  then have "list_all (\<lambda>x. \<forall>y. ?f x = Inr y \<longrightarrow> ?g y = Inr x) ms"
    by (simp add: list_all_iff undoes_def)
  from in_array_back [OF this w] have "in_array ?g w = Inr (CArray ms)" .
  from in_map_back [where f = "in_array ?f" and g = "in_array ?g", OF ms(1) w this
      m' [unfolded for_each_provider_entry_def]]
  show "for_each_provider_entry g m' = Inr m" by (simp add: for_each_provider_entry_def)
qed

section \<open>Shield undoes restore\<close>

text \<open>
  A carrier whose payload is the writer's own encoding of some value, which is
  what \<open>shield\<close> puts there.
\<close>

definition canonical_provider :: "prims \<Rightarrow> provider_profile \<Rightarrow> bool" where
  "canonical_provider P pr = (case pr of
     Unknown u \<Rightarrow> (\<exists>v. value_write P v = Some (up_payload_cbor u)) | _ \<Rightarrow> True)"

definition canonical_set :: "prims \<Rightarrow> profile_set \<Rightarrow> bool" where
  "canonical_set P s =
     (\<forall>p \<in> set (ps_profiles s). \<forall>pr \<in> set (pp_providers p). canonical_provider P pr)"

lemma provider_tag_unknown [simp]: "provider_tag pr = ''unknown'' \<longleftrightarrow> is_unknown pr"
  by (cases pr) (auto simp: is_unknown_def)

lemma provider_tag_known: "\<not> is_unknown pr \<Longrightarrow> provider_tag pr \<in> set KNOWN_PROVIDER_TAGS"
  by (cases pr) (auto simp: is_unknown_def KNOWN_PROVIDER_TAGS_def)

lemma shield_entry_known:
  "t = UNKNOWN_PROVIDER_TAG \<or> t \<in> set KNOWN_PROVIDER_TAGS \<Longrightarrow>
   shield_entry P (CMap [(CText t, x)]) = Inr (CMap [(CText t, x)])"
  by (auto simp: shield_entry_def)

lemma restore_entry_known:
  "t \<noteq> UNKNOWN_PROVIDER_TAG \<Longrightarrow> restore_entry P (CMap [(CText t, x)]) = Inr (CMap [(CText t, x)])"
  by (simp add: restore_entry_def)

text \<open>What \<open>restore\<close> does to the value of a carrier.\<close>

lemma restore_entry_carrier:
  assumes ok: "prims_ok P" and v: "provider_value P (Unknown u) v" and r: "restore_entry P v = Inr w"
  shows "\<exists>payload. value_read P (up_payload_cbor u) = Some payload \<and> w = CMap [(CText (up_tag u), payload)]
    \<and> up_tag u \<noteq> UNKNOWN_PROVIDER_TAG \<and> up_tag u \<notin> set KNOWN_PROVIDER_TAGS"
proof -
  obtain x where x: "v = CMap [(CText ''unknown'', x)]"
    using prims_tagged [OF ok v] by auto
  obtain b where b: "value_write P v = Some b"
    using prims_total [OF ok, of v] by auto
  have "provider_read P b = Some (Unknown u)" by (rule prims_provider [OF ok v b])
  with b have "value_to_provider P v = Inr (Unknown u)" by (simp add: value_to_provider_def)
  with r x show ?thesis
    by (auto simp: restore_entry_def UNKNOWN_PROVIDER_TAG_def split: if_splits)
qed

lemma shield_undoes_restore:
  assumes ok: "prims_ok P" and v: "provider_value P pr v" and c: "canonical_provider P pr"
  shows "undoes (shield_entry P) (restore_entry P) v"
  unfolding undoes_def
proof (intro allI impI)
  fix w assume w: "restore_entry P v = Inr w"
  obtain x where x: "v = CMap [(CText (provider_tag pr), x)]"
    using prims_tagged [OF ok v] by auto
  show "shield_entry P w = Inr v"
  proof (cases "is_unknown pr")
    case False
    then have "provider_tag pr \<noteq> UNKNOWN_PROVIDER_TAG" by (simp add: UNKNOWN_PROVIDER_TAG_def)
    with w x have "w = v" by (simp add: restore_entry_known)
    with x provider_tag_known [OF False] show ?thesis by (simp add: shield_entry_known)
  next
    case True
    then obtain u where u: "pr = Unknown u" by (cases pr) (auto simp: is_unknown_def)
    from restore_entry_carrier [OF ok v [unfolded u] w] obtain payload where
      p: "value_read P (up_payload_cbor u) = Some payload" "w = CMap [(CText (up_tag u), payload)]"
      "up_tag u \<noteq> UNKNOWN_PROVIDER_TAG" "up_tag u \<notin> set KNOWN_PROVIDER_TAGS" by blast
    from c u obtain y where y: "value_write P y = Some (up_payload_cbor u)"
      by (auto simp: canonical_provider_def)
    from prims_value [OF ok y] p(1) y have wr: "value_write P payload = Some (up_payload_cbor u)" by simp
    have eta: "\<lparr>up_tag = up_tag u, up_payload_cbor = up_payload_cbor u\<rparr> = u" by simp
    have "value_from_provider P (Unknown \<lparr>up_tag = up_tag u, up_payload_cbor = up_payload_cbor u\<rparr>) = Inr v"
      unfolding eta using v u by (auto simp: provider_value_def value_from_provider_def)
    with p wr show ?thesis by (simp add: shield_entry_def)
  qed
qed

text \<open>After a successful \<open>restore\<close>, a container with a carrier shows a foreign tag.\<close>

lemma in_array_elem: "in_array f (CArray vs) = Inr w \<Longrightarrow> v \<in> set vs \<Longrightarrow>
   \<exists>ws v'. w = CArray ws \<and> v' \<in> set ws \<and> f v = Inr v'"
  by (fastforce simp: in_array_def traverse_Inr list_all2_conv_all_nth in_set_conv_nth)

lemma restored_has_foreign:
  assumes ok: "prims_ok P" and m: "set_shape P s m" and u: "set_holds_unknown_provider s"
    and r: "restore_unknown_providers P m = Inr m'"
  shows "has_foreign m'"
proof -
  let ?h = "restore_entry P"
  from u obtain p pr where p: "p \<in> set (ps_profiles s)" "pr \<in> set (pp_providers p)" "is_unknown pr"
    by (auto simp: set_holds_unknown_provider_def list_ex_iff)
  from m obtain ms where ms: "field_of ''profiles'' m (CArray ms)"
    "list_all2 (profile_shape P) (ps_profiles s) ms" by (auto simp: set_shape_def)
  from ms(2) p(1) obtain pm where pm: "pm \<in> set ms" "profile_shape P p pm"
    by (force simp: in_set_conv_nth list_all2_conv_all_nth)
  from pm(2) obtain vs where vs: "field_of ''providers'' pm (CArray vs)"
    "list_all2 (provider_value P) (pp_providers p) vs" by (auto simp: profile_shape_def)
  from vs(2) p(2) obtain v where v: "v \<in> set vs" "provider_value P pr v"
    by (force simp: in_set_conv_nth list_all2_conv_all_nth)
  from in_map_Inr_field [OF ms(1) r [unfolded restore_unknown_providers_def for_each_provider_entry_def]]
  obtain mw where mw: "in_array (in_map (on_key ''providers'' (in_array ?h))) (CArray ms) = Inr mw"
    "field_of ''profiles'' m' mw" by blast
  from in_array_elem [OF mw(1) pm(1)] obtain ms' pm' where pm': "mw = CArray ms'" "pm' \<in> set ms'"
    "in_map (on_key ''providers'' (in_array ?h)) pm = Inr pm'" by blast
  from in_map_Inr_field [OF vs(1) pm'(3)] obtain vw where vw:
    "in_array ?h (CArray vs) = Inr vw" "field_of ''providers'' pm' vw" by blast
  from in_array_elem [OF vw(1) v(1)] obtain vs' v' where v': "vw = CArray vs'" "v' \<in> set vs'"
    "?h v = Inr v'" by blast
  from p(3) obtain c where "pr = Unknown c" by (cases pr) (auto simp: is_unknown_def)
  with v(2) have "provider_value P (Unknown c) v" by simp
  from restore_entry_carrier [OF ok this v'(3)] have "foreign_entry v'"
    unfolding foreign_entry_def by blast
  with mw(2) pm'(1,2) vw(2) v'(1,2) show ?thesis unfolding has_foreign_def by blast
qed

section \<open>The payload round trip\<close>

lemma decode_set_plaintext:
  assumes ok: "prims_ok P" and c: "canonical_set P s"
    and schema: "PROFILE_SET_SCHEMA_V2 \<le> ps_schema_version s"
    and pt: "set_plaintext P s = Inr pt"
  shows "decode_payload P pt = Inr s"
proof (cases "set_holds_unknown_provider s")
  case False
  with pt have "set_write P s = Some pt" by (simp add: set_plaintext_def)
  with prims_set [OF ok] schema show ?thesis
    by (simp add: decode_payload_def at_schema_v2_def)
next
  case True
  with pt obtain b v v' where b: "set_write P s = Some b" and v: "value_read P b = Some v"
    and v': "restore_unknown_providers P v = Inr v'" and w: "value_write P v' = Some pt"
    by (auto simp: set_plaintext_def value_from_set_def)
  from prims_set_shape [OF ok b] v have shape: "set_shape P s v" by auto
  have "undoes (shield_unknown_providers P) (restore_unknown_providers P) v"
    unfolding shield_unknown_providers_def restore_unknown_providers_def undoes_def
    using walk_set_back [OF shape, of "shield_entry P" "restore_entry P"]
      shield_undoes_restore [OF ok] c
    by (auto simp: undoes_def canonical_set_def)
  with v' have shielded: "shield_unknown_providers P v' = Inr v" by (simp add: undoes_def)
  obtain b' where b': "value_write P v = Some b'" using prims_total [OF ok, of v] by auto
  have "value_to_set P v = Inr s"
    using prims_set_value [OF ok b v b'] b' by (simp add: value_to_set_def)
  with shielded prims_value [OF ok w] have "decode_shielded P pt = Some s"
    by (simp add: decode_shielded_def)
  moreover have "set_read P pt = None"
    by (rule prims_foreign [OF ok restored_has_foreign [OF ok shape True v'] w])
  ultimately show ?thesis using schema by (simp add: decode_payload_def at_schema_v2_def)
qed

section \<open>The container as a store under a passphrase\<close>

definition kek_derives :: "prims \<Rightarrow> string \<Rightarrow> profile_kek \<Rightarrow> bool" where
  "kek_derives P pw kek \<longleftrightarrow>
     length (kek_salt kek) = SALT_LEN
     \<and> derive_key P pw (kek_salt kek) (kek_kdf_config kek) = Inr (kek_key kek)"

definition storable :: "prims \<Rightarrow> profile_set \<Rightarrow> bool" where
  "storable P s \<longleftrightarrow> canonical_set P s \<and> PROFILE_SET_SCHEMA_V2 \<le> ps_schema_version s"

lemma check_header_make [simp]: "check_header (make_envelope P c salt nonce ct) = Inr ()"
  by (simp add: check_header_def make_envelope_def)

lemma envelope_config_make [simp]: "envelope_config (make_envelope P c salt nonce ct) = c"
  by (simp add: envelope_config_def make_envelope_def)

lemma make_envelope_fields [simp]:
  "kp_salt (ev_kdf (make_envelope P c salt nonce ct)) = b64_encode P salt"
  "cp_nonce (ev_cipher (make_envelope P c salt nonce ct)) = b64_encode P nonce"
  "py_ciphertext (ev_payload (make_envelope P c salt nonce ct)) = b64_encode P ct"
  by (simp_all add: make_envelope_def)

lemma decrypt_encrypt_with_kek:
  assumes ok: "prims_ok P" and s: "storable P s" and n: "length nonce = NONCE_LEN"
    and kek: "kek_derives P pw kek" and e: "encrypt_set_with_kek P nonce s kek = Inr env"
  shows "decrypt_set P env pw = Inr (s, kek)"
proof -
  from e obtain pt ct where pt: "set_plaintext P s = Inr pt"
    and ct: "seal P (kek_key kek) nonce pt = Some ct"
    and env: "json_encode P (make_envelope P (kek_kdf_config kek) (kek_salt kek) nonce ct) = Some env"
    by (auto simp: encrypt_set_with_kek_def aead_encrypt_def)
  have "decode_payload P pt = Inr s"
    using decode_set_plaintext [OF ok _ _ pt] s by (auto simp: storable_def)
  with prims_json [OF ok env] prims_seal [OF ok ct] prims_b64 [OF ok] kek n show ?thesis
    by (simp add: decrypt_set_def fixed_len_def aead_decrypt_def kek_derives_def)
qed

end
