(* ===== verification/Crypto_Example.thy ===== *)
theory Crypto_Example
  imports Container_Correct
begin

text \<open>
  One concrete instance of the primitives that has every documented law of
  \<open>prims_ok\<close>, for the witnesses of theorems that assume it: values are coded by
  their index in an enumeration of their type, sealing keeps the plaintext, and
  the typed encodings of containers follow the serde representation.
\<close>

instance cbor :: countable by countable_datatype

instance kdf_params_ext :: (countable) countable
  by (rule countable_classI [of "\<lambda>r. to_nat
        (kp_name r, kp_memory_kib r, kp_iterations r, kp_parallelism r, kp_salt r, kdf_params.more r)"]) simp

instance cipher_params_ext :: (countable) countable
  by (rule countable_classI [of "\<lambda>r. to_nat (cp_name r, cp_nonce r, cipher_params.more r)"]) simp

instance payload_params_ext :: (countable) countable
  by (rule countable_classI [of "\<lambda>r. to_nat (py_format r, py_ciphertext r, payload_params.more r)"]) simp

instance profile_envelope_ext :: (countable) countable
  by (rule countable_classI [of "\<lambda>r. to_nat
        (ev_version r, ev_kdf r, ev_cipher r, ev_payload r, profile_envelope.more r)"]) simp

section \<open>Codes\<close>

definition code_bytes :: "'a::countable \<Rightarrow> bytes" where
  "code_bytes x = replicate (to_nat x) 0"

definition decode_bytes :: "bytes \<Rightarrow> 'a::countable" where
  "decode_bytes b = from_nat (length b)"

definition code_text :: "'a::countable \<Rightarrow> string" where
  "code_text x = replicate (to_nat x) (CHR ''x'')"

definition decode_text :: "string \<Rightarrow> 'a::countable" where
  "decode_text s = from_nat (length s)"

lemma decode_code [simp]: "decode_bytes (code_bytes x) = x" "decode_text (code_text x) = x"
  by (simp_all add: code_bytes_def decode_bytes_def code_text_def decode_text_def)

section \<open>Value trees of the typed encodings\<close>

fun ex_provider_value :: "provider_profile \<Rightarrow> cbor" where
  "ex_provider_value (Unknown u) =
     CMap [(CText ''unknown'', CMap [(CText ''tag'', CText (up_tag u)),
                                     (CText ''payload_cbor'', CBytes (up_payload_cbor u))])]"
| "ex_provider_value pr = CMap [(CText (provider_tag pr), CBytes (code_bytes pr))]"

fun as_map :: "cbor \<Rightarrow> (cbor \<times> cbor) list option" where
  "as_map (CMap kvs) = Some kvs" | "as_map _ = None"
fun as_array :: "cbor \<Rightarrow> cbor list option" where
  "as_array (CArray vs) = Some vs" | "as_array _ = None"
fun as_text :: "cbor \<Rightarrow> string option" where
  "as_text (CText t) = Some t" | "as_text _ = None"
fun as_bytes :: "cbor \<Rightarrow> bytes option" where
  "as_bytes (CBytes b) = Some b" | "as_bytes _ = None"

definition ex_carrier_of :: "cbor \<Rightarrow> provider_profile option" where
  "ex_carrier_of x =
     Option.bind (as_map x) (\<lambda>kvs.
     Option.bind (Option.bind (map_of kvs (CText ''tag'')) as_text) (\<lambda>tag.
     Option.bind (Option.bind (map_of kvs (CText ''payload_cbor'')) as_bytes) (\<lambda>p.
     Some (Unknown \<lparr>up_tag = tag, up_payload_cbor = p\<rparr>))))"

definition ex_provider_of :: "cbor \<Rightarrow> provider_profile option" where
  "ex_provider_of v =
     Option.bind (as_map v) (\<lambda>kvs. case kvs of
       [(k, x)] \<Rightarrow> Option.bind (as_text k) (\<lambda>t.
         if t = UNKNOWN_PROVIDER_TAG then ex_carrier_of x
         else if t \<in> set KNOWN_PROVIDER_TAGS then map_option decode_bytes (as_bytes x)
         else None)
     | _ \<Rightarrow> None)"

definition ex_profile_value :: "plain_profile \<Rightarrow> cbor" where
  "ex_profile_value p = CMap [(CText ''header'', CBytes (code_bytes (p\<lparr>pp_providers := []\<rparr>))),
     (CText ''providers'', CArray (map ex_provider_value (pp_providers p)))]"

definition ex_profile_of :: "cbor \<Rightarrow> plain_profile option" where
  "ex_profile_of m =
     Option.bind (as_map m) (\<lambda>kvs.
     Option.bind (Option.bind (map_of kvs (CText ''header'')) as_bytes) (\<lambda>h.
     Option.bind (Option.bind (map_of kvs (CText ''providers'')) as_array) (\<lambda>vs.
     Option.bind (those (map ex_provider_of vs)) (\<lambda>prs.
     Some ((decode_bytes h :: plain_profile)\<lparr>pp_providers := prs\<rparr>)))))"

definition ex_set_value :: "profile_set \<Rightarrow> cbor" where
  "ex_set_value s = CMap [(CText ''header'', CBytes (code_bytes (ps_schema_version s))),
     (CText ''profiles'', CArray (map ex_profile_value (ps_profiles s)))]"

definition ex_set_of :: "cbor \<Rightarrow> profile_set option" where
  "ex_set_of m =
     Option.bind (as_map m) (\<lambda>kvs.
     Option.bind (Option.bind (map_of kvs (CText ''header'')) as_bytes) (\<lambda>h.
     Option.bind (Option.bind (map_of kvs (CText ''profiles'')) as_array) (\<lambda>vs.
     Option.bind (those (map ex_profile_of vs)) (\<lambda>ps.
     Some \<lparr>ps_schema_version = decode_bytes h, ps_profiles = ps\<rparr>))))"

lemma those_map_Some: "(\<And>x. x \<in> set xs \<Longrightarrow> f (g x) = Some x) \<Longrightarrow> those (map f (map g xs)) = Some xs"
  by (induction xs) auto

lemma those_None: "x \<in> set xs \<Longrightarrow> f x = None \<Longrightarrow> those (map f xs) = None"
  by (induction xs) (auto split: option.splits)

lemma ex_provider_of_value [simp]: "ex_provider_of (ex_provider_value pr) = Some pr"
  by (cases pr) (auto simp: ex_provider_of_def ex_carrier_of_def KNOWN_PROVIDER_TAGS_def UNKNOWN_PROVIDER_TAG_def)

lemma ex_profile_of_value [simp]: "ex_profile_of (ex_profile_value p) = Some p"
  by (simp add: ex_profile_of_def ex_profile_value_def those_map_Some del: map_map)

lemma ex_set_of_value [simp]: "ex_set_of (ex_set_value s) = Some s"
  by (simp add: ex_set_of_def ex_set_value_def those_map_Some del: map_map)

lemma ex_provider_value_tag: "\<exists>x. ex_provider_value pr = CMap [(CText (provider_tag pr), x)]"
  by (cases pr) auto

lemma field_of_map: "field_of k m v \<Longrightarrow> \<exists>kvs. as_map m = Some kvs \<and> map_of kvs (CText k) = Some v"
proof -
  assume "field_of k m v"
  then obtain pre post where m: "m = CMap (pre @ (CText k, v) # post)" and "CText k \<notin> fst ` set pre"
    by (auto simp: field_of_def)
  then have "map_of pre (CText k) = None" by (simp add: map_of_eq_None_iff)
  then show ?thesis by (simp add: m map_add_def)
qed

lemma ex_provider_of_foreign: "foreign_entry v \<Longrightarrow> ex_provider_of v = None"
  by (auto simp: foreign_entry_def ex_provider_of_def)

lemma ex_profile_of_foreign:
  assumes "field_of ''providers'' m (CArray vs)" and "v \<in> set vs" and "foreign_entry v"
  shows "ex_profile_of m = None"
proof -
  from assms(2,3) have "those (map ex_provider_of vs) = None"
    by (blast intro: those_None ex_provider_of_foreign)
  with field_of_map [OF assms(1)] show ?thesis
    by (auto simp: ex_profile_of_def split: bind_splits)
qed

lemma ex_set_of_foreign: "has_foreign m \<Longrightarrow> ex_set_of m = None"
proof -
  assume "has_foreign m"
  then obtain ms pm where pm: "field_of ''profiles'' m (CArray ms)" "pm \<in> set ms" "ex_profile_of pm = None"
    unfolding has_foreign_def using ex_profile_of_foreign by blast
  then have "those (map ex_profile_of ms) = None" by (blast intro: those_None)
  with field_of_map [OF pm(1)] show "ex_set_of m = None"
    by (auto simp: ex_set_of_def split: bind_splits)
qed

section \<open>The instance\<close>

definition ex_prims :: prims where
  "ex_prims = \<lparr>
     argon2_params = (\<lambda>_. None),
     argon2_hash = (\<lambda>pw salt c. Some (take 32 (code_bytes pw @ salt @ replicate 32 0))),
     seal = (\<lambda>k n p. Some p), unseal = (\<lambda>k n c. Some c),
     b64_encode = code_text, b64_decode = (\<lambda>s. Some (decode_text s)),
     json_encode = (\<lambda>e. Some (code_text e)), json_decode = (\<lambda>s. Some (decode_text s)),
     value_write = (\<lambda>v. Some (code_bytes v)), value_read = (\<lambda>b. Some (decode_bytes b)),
     set_write = (\<lambda>s. Some (code_bytes (ex_set_value s))), set_read = (\<lambda>b. ex_set_of (decode_bytes b)),
     provider_write = (\<lambda>p. Some (code_bytes (ex_provider_value p))),
     provider_read = (\<lambda>b. ex_provider_of (decode_bytes b)),
     plain_write = (\<lambda>p. Some (code_bytes (ex_profile_value p))),
     plain_read = (\<lambda>b. ex_profile_of (decode_bytes b))\<rparr>"

lemma ex_provider_shape: "provider_value ex_prims pr v \<longleftrightarrow> v = ex_provider_value pr"
  by (auto simp: provider_value_def ex_prims_def)

lemma field_of_second: "k \<noteq> h \<Longrightarrow> field_of k (CMap [(CText h, a), (CText k, v)]) v"
  unfolding field_of_def by (rule exI [of _ "[(CText h, a)]"], rule exI [of _ "[]"]) simp

lemma ex_profile_shape: "profile_shape ex_prims p (ex_profile_value p)"
  unfolding profile_shape_def ex_profile_value_def
  by (rule exI [of _ "map ex_provider_value (pp_providers p)"])
    (simp add: field_of_second ex_provider_shape list_all2_conv_all_nth)

lemma ex_set_shape: "set_shape ex_prims s (ex_set_value s)"
  unfolding set_shape_def ex_set_value_def
  by (rule exI [of _ "map ex_profile_value (ps_profiles s)"])
    (simp add: field_of_second ex_profile_shape list_all2_conv_all_nth)

lemma ex_prims_ok: "prims_ok ex_prims"
  unfolding prims_ok_def ex_provider_shape
  using ex_set_shape ex_set_of_foreign ex_provider_value_tag
  by (auto simp: ex_prims_def simp del: ex_provider_value.simps)

end
