(* ===== verification/Container_Props.thy ===== *)
theory Container_Props
  imports Crypto_Example
begin

text \<open>
  The container as an interface: the locale \<open>sealed_container\<close> is what its
  clients (rotation, the agent's write-back, saving and loading) rely on, and its
  interpretation on the code's own encryption gives their theorems.
\<close>

section \<open>The interface\<close>

text \<open>
  \<open>sealed P nonce s kek\<close> encrypts a container, \<open>opened P env pw\<close> decrypts it;
  \<open>lawful\<close> is the assumption on the primitives, \<open>fits\<close> the containers that can be
  stored and \<open>derives\<close> says that a key belongs to a passphrase.
\<close>

locale sealed_container =
  fixes lawful :: "prims \<Rightarrow> bool"
    and fits :: "prims \<Rightarrow> profile_set \<Rightarrow> bool"
    and derives :: "prims \<Rightarrow> string \<Rightarrow> profile_kek \<Rightarrow> bool"
    and sealed :: "prims \<Rightarrow> bytes \<Rightarrow> profile_set \<Rightarrow> profile_kek \<Rightarrow> (crypto_error, string) result"
    and opened :: "prims \<Rightarrow> string \<Rightarrow> string \<Rightarrow> (crypto_error, profile_set \<times> profile_kek) result"
  assumes open_sealed: "lawful P \<Longrightarrow> fits P s \<Longrightarrow> length nonce = NONCE_LEN \<Longrightarrow> derives P pw kek
      \<Longrightarrow> sealed P nonce s kek = Inr env \<Longrightarrow> opened P env pw = Inr (s, kek)"
    and open_derives: "opened P env pw = Inr (s, kek) \<Longrightarrow> derives P pw kek"
begin

text \<open>A key that opened one envelope seals every later state for the same passphrase.\<close>

lemma reseal:
  assumes "lawful P" "opened P env0 pw = Inr (s0, kek)" "fits P s" "length nonce = NONCE_LEN"
    and "sealed P nonce s kek = Inr env"
  shows "opened P env pw = Inr (s, kek)"
  using assms open_sealed open_derives by blast

text \<open>So a file that holds an envelope sealed under the key reads back as the container.\<close>

definition holds :: "prims \<Rightarrow> files \<Rightarrow> string \<Rightarrow> string \<Rightarrow> profile_set \<Rightarrow> profile_kek \<Rightarrow> bool" where
  "holds P fs path pw s kek =
     (\<exists>f. fs path = Some f \<and> opened P (f_data f) pw = Inr (s, kek))"

lemma holdsI:
  "fs path = Some f \<Longrightarrow> lawful P \<Longrightarrow> fits P s \<Longrightarrow> length nonce = NONCE_LEN \<Longrightarrow> derives P pw kek
   \<Longrightarrow> sealed P nonce s kek = Inr (f_data f) \<Longrightarrow> holds P fs path pw s kek"
  unfolding holds_def using open_sealed by blast

end

lemma decrypt_set_derives:
  assumes "decrypt_set P env pw = Inr (s, kek)"
  shows "kek_derives P pw kek"
  using assms by (auto simp: decrypt_set_def kek_derives_def fixed_len_def split: if_splits)

interpretation sc: sealed_container prims_ok storable kek_derives encrypt_set_with_kek decrypt_set
  by unfold_locales (rule decrypt_encrypt_with_kek, assumption+, rule decrypt_set_derives)

section \<open>Encryption and decryption\<close>

lemma encrypt_set_with_config_Inr:
  "encrypt_set_with_config P salt nonce s pw c = Inr (env, kek) \<longleftrightarrow>
     (\<exists>key. derive_key P pw salt c = Inr key
        \<and> kek = \<lparr>kek_key = key, kek_salt = salt, kek_kdf_config = c\<rparr>
        \<and> encrypt_set_with_kek P nonce s kek = Inr env)"
  by (auto simp: encrypt_set_with_config_def Let_def)

lemma encrypt_set_with_config_derives:
  "encrypt_set_with_config P salt nonce s pw c = Inr (env, kek) \<Longrightarrow> length salt = SALT_LEN
   \<Longrightarrow> kek_derives P pw kek \<and> kek_kdf_config kek = c \<and> encrypt_set_with_kek P nonce s kek = Inr env"
  by (auto simp: encrypt_set_with_config_Inr kek_derives_def)

text \<open>A container with one Nextcloud entry and one entry of a newer version.\<close>

definition ex_profile :: "string \<Rightarrow> provider_profile \<Rightarrow> plain_profile" where
  "ex_profile a pr = \<lparr>pp_profile_version = 1, pp_profile_id = ''p-'' @ a, pp_alias = a,
     pp_default_target = ''t'', pp_providers = [pr], pp_collision_policy = Rename,
     pp_settings = default_settings, pp_created_at = ''now'', pp_updated_at = ''now''\<rparr>"

definition ex_nextcloud :: provider_profile where
  "ex_nextcloud = Nextcloud \<lparr>nc_server_url = ''https://x'', nc_username = ''u'',
     nc_auth = AppPassword ''s'', nc_remote_root = ''/''\<rparr>"

definition ex_foreign :: provider_profile where
  "ex_foreign = Unknown \<lparr>up_tag = ''proton'', up_payload_cbor = code_bytes (CText ''secret'')\<rparr>"

definition ex_set :: profile_set where
  "ex_set = \<lparr>ps_schema_version = 2,
     ps_profiles = [ex_profile ''nc'' ex_nextcloud, ex_profile ''fut'' ex_foreign]\<rparr>"

definition ex_config :: argon2id_config where
  "ex_config = \<lparr>memory_kib = 8192, iterations = 1, parallelism = 1\<rparr>"

lemma ex_set_storable: "storable ex_prims ex_set"
  by (auto simp: storable_def canonical_set_def canonical_provider_def ex_set_def ex_profile_def
      ex_nextcloud_def ex_foreign_def PROFILE_SET_SCHEMA_V2_def ex_prims_def)

lemma ex_validate: "argon2_validate ex_config" "argon2_validate argon2_DEFAULT"
  by (simp_all add: argon2_validate_unat ex_config_def argon2_DEFAULT_def)

lemma ex_set_plaintext: "\<exists>pt. set_plaintext ex_prims ex_set = Inr pt"
proof -
  have v: "value_from_set ex_prims ex_set = Inr (ex_set_value ex_set)"
    by (simp add: value_from_set_def ex_prims_def)
  have "\<exists>v'. restore_unknown_providers ex_prims (ex_set_value ex_set) = Inr v'"
    by (auto simp: restore_unknown_providers_def for_each_provider_entry_def ex_set_value_def ex_set_def
        ex_profile_value_def ex_profile_def ex_nextcloud_def ex_foreign_def in_map_def in_array_def
        on_key_def restore_entry_def value_to_provider_def UNKNOWN_PROVIDER_TAG_def
        KNOWN_PROVIDER_TAGS_def ex_prims_def ex_provider_of_def ex_carrier_of_def)
  with v show ?thesis by (auto simp: set_plaintext_def ex_prims_def)
qed

lemma ex_encrypts:
  assumes "argon2_validate c"
  shows "\<exists>env kek. encrypt_set_with_config ex_prims salt nonce ex_set pw c = Inr (env, kek)"
proof -
  obtain key where k: "derive_key ex_prims pw salt c = Inr key"
    using assms by (auto simp: derive_key_def ex_prims_def)
  obtain pt where pt: "set_plaintext ex_prims ex_set = Inr pt" using ex_set_plaintext by blast
  have "\<exists>env. encrypt_set_with_kek ex_prims nonce ex_set kek = Inr env" for kek
    unfolding encrypt_set_with_kek_def pt by (simp add: aead_encrypt_def ex_prims_def)
  with k show ?thesis by (auto simp: encrypt_set_with_config_Inr)
qed

text \<open>
  C1. A container that is encrypted under a passphrase decrypts under it to
  the same container and the same key, whether or not it carries provider entries
  of a newer version, whose raw payload survives the detour over their own tag.
\<close>

theorem container_roundtrip:
  assumes "prims_ok P" and "storable P s" and "length salt = SALT_LEN" and "length nonce = NONCE_LEN"
    and "encrypt_set_with_config P salt nonce s pw c = Inr (env, kek)"
  shows "decrypt_set P env pw = Inr (s, kek) \<and> kek_kdf_config kek = c"
  using sc.open_sealed [OF assms(1,2,4)] encrypt_set_with_config_derives [OF assms(5,3)] by blast

theorem container_roundtrip_witness:
  "\<exists>env kek. decrypt_set ex_prims env ''pw'' = Inr (ex_set, kek) \<and> kek_kdf_config kek = ex_config"
proof -
  let ?salt = "replicate 16 0 :: bytes" and ?nonce = "replicate 24 1 :: bytes"
  obtain env kek where e: "encrypt_set_with_config ex_prims ?salt ?nonce ex_set ''pw'' ex_config = Inr (env, kek)"
    using ex_encrypts [OF ex_validate(1)] by blast
  have "length ?salt = SALT_LEN" "length ?nonce = NONCE_LEN" by (simp_all add: SALT_LEN_def NONCE_LEN_def)
  from container_roundtrip [OF ex_prims_ok ex_set_storable this e] show ?thesis by blast
qed

lemma ex_decrypts: "\<exists>env kek. decrypt_set ex_prims env ''pw'' = Inr (ex_set, kek)"
proof -
  let ?salt = "replicate 16 0 :: bytes" and ?nonce = "replicate 24 1 :: bytes"
  obtain env kek where e: "encrypt_set_with_config ex_prims ?salt ?nonce ex_set ''pw'' ex_config = Inr (env, kek)"
    using ex_encrypts [OF ex_validate(1)] by blast
  have "kek_derives ex_prims ''pw'' kek" "encrypt_set_with_kek ex_prims ?nonce ex_set kek = Inr env"
    using encrypt_set_with_config_derives [OF e] by (simp_all add: SALT_LEN_def)
  moreover have "length ?nonce = NONCE_LEN" by (simp add: NONCE_LEN_def)
  ultimately have "decrypt_set ex_prims env ''pw'' = Inr (ex_set, kek)"
    using sc.open_sealed [OF ex_prims_ok ex_set_storable] by blast
  then show ?thesis by blast
qed

section \<open>What a successful decryption guarantees\<close>

lemma decode_payload_schema: "decode_payload P pt = Inr s \<Longrightarrow> PROFILE_SET_SCHEMA_V2 \<le> ps_schema_version s"
  by (auto simp: decode_payload_def at_schema_v2_def split: option.splits if_splits)

lemma derive_key_validates: "derive_key P pw salt c = Inr key \<Longrightarrow> argon2_validate c"
  by (auto simp: derive_key_def split: if_splits)

text \<open>
  C14. Whatever envelope is supplied, a successful decryption only ever used
  Argon2id parameters inside the accepted band (at most 2 GiB, 1 to 16 passes, 1
  to 8 lanes), a 16-byte salt and the key that the passphrase derives from them,
  and returns a container of schema version 2 or later.
\<close>

theorem decrypt_set_bounds:
  assumes "decrypt_set P env pw = Inr (s, kek)"
  shows "unat (memory_kib (kek_kdf_config kek)) \<le> 2097152
    \<and> unat (iterations (kek_kdf_config kek)) \<in> {1..16}
    \<and> unat (parallelism (kek_kdf_config kek)) \<in> {1..8}
    \<and> length (kek_salt kek) = 16
    \<and> derive_key P pw (kek_salt kek) (kek_kdf_config kek) = Inr (kek_key kek)
    \<and> 2 \<le> ps_schema_version s"
proof -
  have d: "kek_derives P pw kek" by (rule sc.open_derives [OF assms])
  from assms have "PROFILE_SET_SCHEMA_V2 \<le> ps_schema_version s"
    by (auto simp: decrypt_set_def dest: decode_payload_schema)
  moreover from d have "argon2_validate (kek_kdf_config kek)"
    unfolding kek_derives_def using derive_key_validates by blast
  ultimately show ?thesis using d
    by (simp add: argon2_validate_unat kek_derives_def SALT_LEN_def PROFILE_SET_SCHEMA_V2_def)
qed

theorem decrypt_set_bounds_witness:
  "\<exists>env kek. decrypt_set ex_prims env ''pw'' = Inr (ex_set, kek)
     \<and> unat (memory_kib (kek_kdf_config kek)) \<le> 2097152 \<and> length (kek_salt kek) = 16"
proof -
  obtain env kek where d: "decrypt_set ex_prims env ''pw'' = Inr (ex_set, kek)" using ex_decrypts by blast
  with decrypt_set_bounds [OF d] show ?thesis by blast
qed

text \<open>
  A hostile header cannot start the key derivation: with parameters out
  of the band, decryption fails with the same error whatever Argon2 would do,
  because it is never called.
\<close>

theorem kdf_bomb_refused:
  assumes "json_decode P env = Some e" and "\<not> argon2_validate (envelope_config e)"
  shows "decrypt_set (P\<lparr>argon2_params := g, argon2_hash := h\<rparr>) env pw = decrypt_set P env pw
    \<and> (\<exists>err. decrypt_set P env pw = Inl err)"
proof
  let ?Q = "P\<lparr>argon2_params := g, argon2_hash := h\<rparr>"
  have key: "derive_key ?Q pw salt (envelope_config e) = Inl (Kdf (kdf_range_message (envelope_config e)))"
    "derive_key P pw salt (envelope_config e) = Inl (Kdf (kdf_range_message (envelope_config e)))" for salt
    using assms(2) by (simp_all add: derive_key_def)
  show "decrypt_set ?Q env pw = decrypt_set P env pw"
    by (simp add: decrypt_set_def assms(1) key)
  show "\<exists>err. decrypt_set P env pw = Inl err"
  proof (cases "decrypt_set P env pw")
    case (Inr r)
    then show ?thesis by (auto simp: decrypt_set_def assms(1) key)
  qed blast
qed

theorem kdf_bomb_refused_witness:
  "\<exists>env. decrypt_set (ex_prims\<lparr>argon2_params := (\<lambda>_. None), argon2_hash := (\<lambda>_ _ _. None)\<rparr>) env ''pw''
      = decrypt_set ex_prims env ''pw''
    \<and> (\<exists>err. decrypt_set ex_prims env ''pw'' = Inl err)"
proof -
  let ?c = "\<lparr>memory_kib = 4294967295, iterations = 1, parallelism = 1\<rparr>"
  let ?e = "make_envelope ex_prims ?c [] [] []"
  have "json_decode ex_prims (code_text ?e) = Some ?e" by (simp add: ex_prims_def)
  moreover have "\<not> argon2_validate (envelope_config ?e)" by (simp add: argon2_validate_unat)
  ultimately show ?thesis using kdf_bomb_refused [of ex_prims "code_text ?e" ?e] by blast
qed

section \<open>Carriers under a known tag are refused\<close>

lemma restore_entry_error: "restore_entry P v = Inl e \<Longrightarrow> e = PayloadEncode"
  unfolding restore_entry_def rbind_def rmap_err_def ok_or_def
  by (auto split: cbor.splits list.splits prod.splits if_splits sum.splits option.splits
      provider_profile.splits)

lemma traverse_error: "traverse f xs = Inl e \<Longrightarrow> \<exists>x \<in> set xs. f x = Inl e"
  by (induction xs) (auto simp: rbind_eq_Inl)

lemma traverse_hits: "x \<in> set xs \<Longrightarrow> f x = Inl e \<Longrightarrow> \<exists>e'. traverse f xs = Inl e'"
  by (induction xs) (auto simp: rbind_eq_Inl rbind_def split: sum.splits)

lemma in_map_error:
  "in_map (on_key k f) m = Inl e \<Longrightarrow> \<exists>v. f v = Inl e"
  by (auto simp: in_map_def on_key_def rbind_eq_Inl dest!: traverse_error split: cbor.splits if_splits)

lemma in_array_error: "in_array f m = Inl e \<Longrightarrow> \<exists>v. f v = Inl e"
  by (auto simp: in_array_def rbind_eq_Inl dest!: traverse_error split: cbor.splits)

lemma restore_error: "restore_unknown_providers P m = Inl e \<Longrightarrow> e = PayloadEncode"
  unfolding restore_unknown_providers_def for_each_provider_entry_def
  by (blast dest: in_map_error in_array_error restore_entry_error)

lemma set_plaintext_error: "set_plaintext P s = Inl e \<Longrightarrow> e = PayloadEncode"
  by (auto simp: set_plaintext_def value_from_set_def rbind_eq_Inl ok_or_eq_Inl restore_error split: if_splits)

definition reserved_carrier :: "provider_profile \<Rightarrow> bool" where
  "reserved_carrier pr = (case pr of
     Unknown u \<Rightarrow> up_tag u = ''unknown'' \<or> up_tag u \<in> {''nextcloud'', ''google_drive'', ''one_drive'', ''dropbox''}
   | _ \<Rightarrow> False)"

lemma restore_entries:
  assumes m: "set_shape P s m" and r: "restore_unknown_providers P m = Inr m'"
    and p: "p \<in> set (ps_profiles s)" "pr \<in> set (pp_providers p)"
  shows "\<exists>v w. provider_value P pr v \<and> restore_entry P v = Inr w"
proof -
  let ?h = "restore_entry P"
  from m obtain ms where ms: "field_of ''profiles'' m (CArray ms)"
    "list_all2 (profile_shape P) (ps_profiles s) ms" by (auto simp: set_shape_def)
  from ms(2) p(1) obtain pm where pm: "pm \<in> set ms" "profile_shape P p pm"
    by (force simp: in_set_conv_nth list_all2_conv_all_nth)
  from pm(2) obtain vs where vs: "field_of ''providers'' pm (CArray vs)"
    "list_all2 (provider_value P) (pp_providers p) vs" by (auto simp: profile_shape_def)
  from vs(2) p(2) obtain v where v: "v \<in> set vs" "provider_value P pr v"
    by (force simp: in_set_conv_nth list_all2_conv_all_nth)
  from in_map_Inr_field [OF ms(1) r [unfolded restore_unknown_providers_def for_each_provider_entry_def]]
  obtain mw where mw: "in_array (in_map (on_key ''providers'' (in_array ?h))) (CArray ms) = Inr mw" by blast
  from in_array_elem [OF mw pm(1)] obtain pm' where
    "in_map (on_key ''providers'' (in_array ?h)) pm = Inr pm'" by blast
  from in_map_Inr_field [OF vs(1) this] obtain vw where "in_array ?h (CArray vs) = Inr vw" by blast
  from in_array_elem [OF this v(1)] v(2) show ?thesis by blast
qed

text \<open>
  A container with a carrier under a known or the reserved tag, which no
  later decode could read, is never written: encryption refuses it.
\<close>

theorem reserved_carrier_refused:
  assumes ok: "prims_ok P" and "p \<in> set (ps_profiles s)" and "pr \<in> set (pp_providers p)" and "reserved_carrier pr"
  shows "encrypt_set_with_kek P nonce s kek = Inl PayloadEncode"
proof -
  from assms(4) obtain u where u: "pr = Unknown u"
    "up_tag u = UNKNOWN_PROVIDER_TAG \<or> up_tag u \<in> set KNOWN_PROVIDER_TAGS"
    by (cases pr) (auto simp: reserved_carrier_def UNKNOWN_PROVIDER_TAG_def KNOWN_PROVIDER_TAGS_def)
  with assms(2,3) have holds: "set_holds_unknown_provider s"
    by (force simp: set_holds_unknown_provider_def list_ex_iff is_unknown_def)
  have "\<nexists>pt. set_plaintext P s = Inr pt"
  proof
    assume "\<exists>pt. set_plaintext P s = Inr pt"
    then obtain b v v' where b: "set_write P s = Some b" and v: "value_read P b = Some v"
      and v': "restore_unknown_providers P v = Inr v'"
      using holds by (auto simp: set_plaintext_def value_from_set_def)
    from prims_set_shape [OF ok b] v have "set_shape P s v" by auto
    from restore_entries [OF this v' assms(2,3)] obtain x w where
      "provider_value P (Unknown u) x" "restore_entry P x = Inr w" using u(1) by blast
    from restore_entry_carrier [OF ok this] u(2) show False by blast
  qed
  then obtain e where "set_plaintext P s = Inl e" by (cases "set_plaintext P s") auto
  with set_plaintext_error have "set_plaintext P s = Inl PayloadEncode" by blast
  then show ?thesis by (simp add: encrypt_set_with_kek_def)
qed

definition ex_bad_set :: profile_set where
  "ex_bad_set = \<lparr>ps_schema_version = 2,
     ps_profiles = [ex_profile ''a'' (Unknown \<lparr>up_tag = ''nextcloud'', up_payload_cbor = []\<rparr>)]\<rparr>"

theorem reserved_carrier_refused_witness:
  "encrypt_set_with_kek ex_prims [] ex_bad_set \<lparr>kek_key = [], kek_salt = [], kek_kdf_config = ex_config\<rparr>
     = Inl PayloadEncode"
  by (rule reserved_carrier_refused [OF ex_prims_ok, where s = ex_bad_set
        and p = "ex_profile ''a'' (Unknown \<lparr>up_tag = ''nextcloud'', up_payload_cbor = []\<rparr>)"
        and pr = "Unknown \<lparr>up_tag = ''nextcloud'', up_payload_cbor = []\<rparr>"])
    (simp_all add: ex_bad_set_def ex_profile_def reserved_carrier_def)

section \<open>Files and rotation\<close>

lemma atomic_write_files:
  assumes "atomic_write_0600 pl d path s = (d', r)"
  shows "only_old_or_new d d' path (\<lambda>f. f_data f = s \<and> f_mode f = MODE_0600)"
    and "r = Inr () \<Longrightarrow> \<exists>f. d_files d' path = Some f \<and> f_data f = s \<and> f_mode f = MODE_0600"
    and "r \<noteq> Inr () \<Longrightarrow> d_files d' path = d_files d path"
proof -
  have ne: "path \<noteq> path @ ''.tmp''" by simp
  show "only_old_or_new d d' path (\<lambda>f. f_data f = s \<and> f_mode f = MODE_0600)"
    and "r = Inr () \<Longrightarrow> \<exists>f. d_files d' path = Some f \<and> f_data f = s \<and> f_mode f = MODE_0600"
    and "r \<noteq> Inr () \<Longrightarrow> d_files d' path = d_files d path"
    using assms ne
    by (auto simp: atomic_write_0600_def fs_defs Let_def only_old_or_new_def
        split: if_splits write_outcome.splits)
qed

lemma rotate_files:
  assumes "rotate_set_if_needed P salt nonce pl d s kek pw path policy = (d', r)"
  shows "r = Inr None \<and> d' = d \<and> \<not> needs_rotation (kek_kdf_config kek) policy
    \<or> (\<exists>env new_kek. encrypt_set_with_config P salt nonce s pw policy = Inr (env, new_kek)
         \<and> (\<exists>w. atomic_write_0600 pl d path env = (d', w) \<and> r = rbind w (\<lambda>_. Inr (Some new_kek))))
    \<or> d' = d \<and> (\<exists>e. r = Inl e)"
  using assms by (auto simp: rotate_set_if_needed_def split: if_splits sum.splits prod.splits)

text \<open>
  C4. Rotation is crash safe. Every file system that a crash could expose has
  at the container path either the old file or the complete new envelope with
  mode 0600, and unless rotation reports a new key the old file is still there.
\<close>

theorem rotation_crash_safe:
  assumes "rotate_set_if_needed P salt nonce pl d s kek pw path policy = (d', r)"
  shows "only_old_or_new d d' path (\<lambda>f. f_mode f = MODE_0600
           \<and> (\<exists>k. encrypt_set_with_config P salt nonce s pw policy = Inr (f_data f, k)))
    \<and> ((\<forall>k. r \<noteq> Inr (Some k)) \<longrightarrow> d_files d' path = d_files d path)"
  using rotate_files [OF assms]
proof (elim disjE)
  assume "\<exists>env new_kek. encrypt_set_with_config P salt nonce s pw policy = Inr (env, new_kek)
         \<and> (\<exists>w. atomic_write_0600 pl d path env = (d', w) \<and> r = rbind w (\<lambda>_. Inr (Some new_kek)))"
  then obtain env nk w where e: "encrypt_set_with_config P salt nonce s pw policy = Inr (env, nk)"
    and w: "atomic_write_0600 pl d path env = (d', w)" and r: "r = rbind w (\<lambda>_. Inr (Some nk))" by blast
  have "only_old_or_new d d' path (\<lambda>f. f_mode f = MODE_0600
           \<and> (\<exists>k. encrypt_set_with_config P salt nonce s pw policy = Inr (f_data f, k)))"
    using atomic_write_files(1) [OF w] e by (fastforce simp: only_old_or_new_def list_all_iff)
  moreover have "(\<forall>k. r \<noteq> Inr (Some k)) \<longrightarrow> d_files d' path = d_files d path"
    using atomic_write_files(3) [OF w] r by (cases w) auto
  ultimately show ?thesis by blast
qed (auto simp: only_old_or_new_def)

definition ex_kek :: "bytes \<Rightarrow> profile_kek" where
  "ex_kek salt = \<lparr>kek_key = take 32 (code_bytes ''pw'' @ salt @ replicate 32 0), kek_salt = salt,
     kek_kdf_config = ex_config\<rparr>"

definition empty_disk :: disk where
  "empty_disk = \<lparr>d_files = Map.empty, d_trace = []\<rparr>"

theorem rotation_crash_safe_witness:
  "\<exists>d' r. rotate_set_if_needed ex_prims [] [] (io_all_ok 0) empty_disk ex_set (ex_kek []) ''pw'' ''/c'' argon2_DEFAULT = (d', r)
     \<and> ((\<forall>k. r \<noteq> Inr (Some k)) \<longrightarrow> d_files d' ''/c'' = d_files empty_disk ''/c'')"
proof -
  obtain d' r where "rotate_set_if_needed ex_prims [] [] (io_all_ok 0) empty_disk ex_set (ex_kek []) ''pw'' ''/c'' argon2_DEFAULT = (d', r)"
    by (meson surj_pair)
  with rotation_crash_safe [OF this] show ?thesis by blast
qed

lemma rotated_opens:
  assumes ok: "prims_ok P" and "storable P s" and "length salt = SALT_LEN" and "length nonce = NONCE_LEN"
    and r: "rotate_set_if_needed P salt nonce pl d s kek pw path policy = (d', Inr (Some new_kek))"
  shows "load_set_zz P d' path pw = Inr (s, new_kek) \<and> kek_kdf_config new_kek = policy"
proof -
  from rotate_files [OF r] obtain env nk w where
    e': "encrypt_set_with_config P salt nonce s pw policy = Inr (env, nk)"
    and w: "atomic_write_0600 pl d path env = (d', w)" and "Inr (Some new_kek) = rbind w (\<lambda>_. Inr (Some nk))"
    by auto
  then have nk: "nk = new_kek" and "w = Inr ()" by (cases w; simp)+
  with w have w: "atomic_write_0600 pl d path env = (d', w)" "w = Inr ()" by simp_all
  from e' nk have e: "encrypt_set_with_config P salt nonce s pw policy = Inr (env, new_kek)" by simp
  from atomic_write_files(2) [OF w(1,2)] obtain f where f: "d_files d' path = Some f" "f_data f = env" by blast
  have k: "kek_derives P pw new_kek" "kek_kdf_config new_kek = policy"
    "encrypt_set_with_kek P nonce s new_kek = Inr env"
    using encrypt_set_with_config_derives [OF e assms(3)] by blast+
  have "decrypt_set P env pw = Inr (s, new_kek)"
    by (rule sc.open_sealed [OF ok assms(2,4) k(1,3)])
  with f k(2) show ?thesis by (simp add: load_set_zz_def)
qed

text \<open>
  C5. Rotation keeps the contents and replaces the parameters by the policy's: when it
  reports a new key, some parameter of the old one was below the policy, the file
  decrypts under the same passphrase to the same container, the new parameters are
  exactly those of the policy, and a further rotation under that key does nothing. A
  parameter of the old key that was above the policy is therefore lowered, although the
  module says that this never happens; what holds is that a key with no parameter below
  the policy is left as it is.
\<close>

theorem rotation_correct:
  assumes ok: "prims_ok P" and "storable P s" and "length salt = SALT_LEN" and "length nonce = NONCE_LEN"
    and r: "rotate_set_if_needed P salt nonce pl d s kek pw path policy = (d', Inr (Some new_kek))"
  shows "load_set_zz P d' path pw = Inr (s, new_kek) \<and> kek_kdf_config new_kek = policy
    \<and> (\<exists>param \<in> {memory_kib, iterations, parallelism}. param (kek_kdf_config kek) < param policy)
    \<and> (\<forall>param \<in> {memory_kib, iterations, parallelism}. param policy < param (kek_kdf_config kek)
         \<longrightarrow> param (kek_kdf_config new_kek) < param (kek_kdf_config kek))
    \<and> rotate_set_if_needed P salt2 nonce2 pl2 d' s new_kek pw path policy = (d', Inr None)"
proof -
  have "needs_rotation (kek_kdf_config kek) policy" using r by (auto simp: rotate_set_if_needed_def split: if_splits)
  then have "\<exists>param \<in> {memory_kib, iterations, parallelism}. param (kek_kdf_config kek) < param policy"
    by (auto simp: needs_rotation_def)
  then show ?thesis using rotated_opens [OF assms] by (simp add: rotate_set_if_needed_def)
qed

text \<open>A key with little memory and more iterations than the policy asks for, which are lost.\<close>

definition ex_mixed_kek :: profile_kek where
  "ex_mixed_kek = (ex_kek [])\<lparr>kek_kdf_config := ex_config\<lparr>iterations := 5\<rparr>\<rparr>"

lemma ex_rotates: "\<exists>d' k. rotate_set_if_needed ex_prims (replicate 16 0) (replicate 24 1) (io_all_ok 0)
    empty_disk ex_set ex_mixed_kek ''pw'' ''/c'' argon2_DEFAULT = (d', Inr (Some k))"
proof -
  obtain env k where e: "encrypt_set_with_config ex_prims (replicate 16 0) (replicate 24 1) ex_set ''pw'' argon2_DEFAULT = Inr (env, k)"
    using ex_encrypts [OF ex_validate(2)] by blast
  have "needs_rotation (kek_kdf_config ex_mixed_kek) argon2_DEFAULT"
    by (simp add: needs_rotation_def ex_mixed_kek_def ex_kek_def ex_config_def argon2_DEFAULT_def)
  with e show ?thesis
    by (simp add: rotate_set_if_needed_def atomic_write_0600_def io_all_ok_def fs_defs empty_disk_def Let_def)
qed

theorem rotation_correct_witness:
  "\<exists>d' k. load_set_zz ex_prims d' ''/c'' ''pw'' = Inr (ex_set, k) \<and> kek_kdf_config k = argon2_DEFAULT
     \<and> iterations (kek_kdf_config k) < iterations (kek_kdf_config ex_mixed_kek)"
proof -
  obtain d' k where r: "rotate_set_if_needed ex_prims (replicate 16 0) (replicate 24 1) (io_all_ok 0)
    empty_disk ex_set ex_mixed_kek ''pw'' ''/c'' argon2_DEFAULT = (d', Inr (Some k))" using ex_rotates by blast
  have "length (replicate 16 0 :: bytes) = SALT_LEN" "length (replicate 24 1 :: bytes) = NONCE_LEN"
    by (simp_all add: SALT_LEN_def NONCE_LEN_def)
  note c = rotation_correct [OF ex_prims_ok ex_set_storable this r]
  have "iterations argon2_DEFAULT < iterations (kek_kdf_config ex_mixed_kek)"
    by (simp add: ex_mixed_kek_def ex_kek_def ex_config_def argon2_DEFAULT_def)
  with c show ?thesis by blast
qed

section \<open>Saving and loading\<close>

lemma write_envelope_ok:
  assumes "write_envelope pl d path s = (d', r)" and "r = Inr ()"
  shows "\<exists>f. d_files d' path = Some f \<and> f_data f = s \<and> f_mode f = MODE_0600"
  using assms
  by (auto simp: write_envelope_def write_private_def fs_defs Let_def split: if_splits write_outcome.splits)

text \<open>
  Saving a container and loading it again under the same passphrase gives
  the container and the key back, and the file is readable by its owner only even
  when it existed before with wider permissions.
\<close>

theorem save_load_roundtrip:
  assumes ok: "prims_ok P" and "storable P s" and "length salt = SALT_LEN" and "length nonce = NONCE_LEN"
    and sv: "save_set_zz_with_config P salt nonce pl d s pw path c = (d', Inr kek)"
  shows "load_set_zz P d' path pw = Inr (s, kek)
    \<and> (\<exists>f. d_files d' path = Some f \<and> f_mode f = MODE_0600)"
proof -
  from sv obtain env where e: "encrypt_set_with_config P salt nonce s pw c = Inr (env, kek)"
    and w: "write_envelope pl d path env = (d', Inr ())"
    by (auto simp: save_set_zz_with_config_def Let_def split: sum.splits prod.splits)
  from write_envelope_ok [OF w] obtain f where f: "d_files d' path = Some f" "f_data f = env" "f_mode f = MODE_0600"
    by blast
  have "kek_derives P pw kek" "encrypt_set_with_kek P nonce s kek = Inr env"
    using encrypt_set_with_config_derives [OF e assms(3)] by blast+
  then have "decrypt_set P env pw = Inr (s, kek)" by (rule sc.open_sealed [OF ok assms(2,4)])
  with f show ?thesis by (simp add: load_set_zz_def)
qed

theorem save_load_roundtrip_witness:
  "\<exists>d' k f. load_set_zz ex_prims d' ''/c'' ''pw'' = Inr (ex_set, k) \<and> d_files d' ''/c'' = Some f \<and> f_mode f = MODE_0600"
proof -
  let ?d = "\<lparr>d_files = [''/c'' \<mapsto> \<lparr>f_data = ''old'', f_mode = 420, f_mtime = 0\<rparr>], d_trace = []\<rparr>"
  obtain env k where e: "encrypt_set_with_config ex_prims (replicate 16 0) (replicate 24 1) ex_set ''pw'' ex_config = Inr (env, k)"
    using ex_encrypts [OF ex_validate(1)] by blast
  then obtain d' where
    r: "save_set_zz_with_config ex_prims (replicate 16 0) (replicate 24 1) (io_all_ok 0) ?d ex_set ''pw'' ''/c'' ex_config = (d', Inr k)"
    by (simp add: save_set_zz_with_config_def write_envelope_def write_private_def io_all_ok_def fs_defs Let_def)
  have "length (replicate 16 0 :: bytes) = SALT_LEN" "length (replicate 24 1 :: bytes) = NONCE_LEN"
    by (simp_all add: SALT_LEN_def NONCE_LEN_def)
  from save_load_roundtrip [OF ex_prims_ok ex_set_storable this r] show ?thesis by blast
qed

interpretation rotation_write: atomic_replacement atomic_write_0600 "\<lambda>_. True"
  by unfold_locales (auto intro: atomic_write_files)

end
