(* ===== verification/Proto.thy ===== *)
theory Proto
  imports Container
begin

unbundle bit_operations_syntax

text \<open>
  The wire protocol between the command line and the agent
  (core/src/agent_proto/types.rs and framing.rs): requests, responses, the
  version envelope and the length-prefixed frames. The \<open>postcard\<close> serialiser is
  a parameter, the record \<open>wire\<close>; what the code relies on is that reading
  inverts writing (\<open>wire_ok\<close>). Streams are byte lists with what happens at
  their end.
\<close>

section \<open>Messages (types.rs)\<close>

definition PROTOCOL_VERSION :: u16 where "PROTOCOL_VERSION = 1"

record kek_payload =
  kp_key :: bytes
  kp_salt :: bytes
  kp_kdf :: argon2id_config

definition from_kek :: "profile_kek \<Rightarrow> kek_payload" where
  "from_kek kek = \<lparr>kp_key = kek_key kek, kp_salt = kek_salt kek, kp_kdf = kek_kdf_config kek\<rparr>"

definition into_kek :: "kek_payload \<Rightarrow> profile_kek" where
  "into_kek p = \<lparr>kek_key = kp_key p, kek_salt = kp_salt p, kek_kdf_config = kp_kdf p\<rparr>"

lemma into_from_kek [simp]: "into_kek (from_kek kek) = kek"
  by (simp add: into_kek_def from_kek_def)

datatype entry_kind_filter = FilterFile | FilterDirectory | FilterBoth

datatype remote_kind = RFile | RDirectory

record remote_list_entry =
  re_name :: string
  re_size :: "u64 option"
  re_kind :: remote_kind
  re_mtime_secs :: "u64 option"

datatype agent_error =
    ProtocolMismatch u16 u16
  | NotUnlocked
  | AgentFrameTooLarge u64 u64
  | InvalidToken
  | AgentIo string
  | AgentDecode string
  | AliasNotFound

datatype agent_request =
    Ping
  | Unlock profile_set kek_payload string "u64 option"
  | GetProfile
  | UpdateProfile plain_profile
  | UpdateProfileSet profile_set
  | SetActiveAlias string
  | Lock
  | Exit
  | Status
  | ListRemote "string option" entry_kind_filter u32
  | InvalidateRemote "string option"

datatype agent_response =
    Pong
  | Unlocked
  | ProfileIs plain_profile
  | Updated
  | Locked
  | Exited
  | StatusIs bool "u64 option"
  | Error agent_error
  | RemoteList "remote_list_entry list" u64 bool

record versioned_request =
  vq_version :: u16
  vq_request :: agent_request

record versioned_response =
  vr_version :: u16
  vr_response :: agent_response

definition current_request :: "agent_request \<Rightarrow> versioned_request" where
  "current_request r = \<lparr>vq_version = PROTOCOL_VERSION, vq_request = r\<rparr>"

definition current_response :: "agent_response \<Rightarrow> versioned_response" where
  "current_response r = \<lparr>vr_version = PROTOCOL_VERSION, vr_response = r\<rparr>"

text \<open>\<open>Debug\<close> output, which may reach a log.\<close>

definition debug_opt :: "u64 option \<Rightarrow> string" where
  "debug_opt x = (case x of None \<Rightarrow> ''None'' | Some n \<Rightarrow> ''Some('' @ show_nat (unat n) @ '')'')"

definition debug_filter :: "entry_kind_filter \<Rightarrow> string" where
  "debug_filter k = (case k of FilterFile \<Rightarrow> ''File'' | FilterDirectory \<Rightarrow> ''Directory'' | FilterBoth \<Rightarrow> ''Both'')"

fun debug_request :: "agent_request \<Rightarrow> string" where
  "debug_request Ping = ''Ping''"
| "debug_request (Unlock s k a ttl_secs) =
     ''Unlock { profile_set: <redacted>, kek: <redacted>, active_alias: <redacted>, ttl_secs: ''
       @ debug_opt ttl_secs @ '' }''"
| "debug_request GetProfile = ''GetProfile''"
| "debug_request (UpdateProfile p) = ''UpdateProfile { profile: <redacted> }''"
| "debug_request (UpdateProfileSet s) = ''UpdateProfileSet { profile_set: <redacted> }''"
| "debug_request (SetActiveAlias a) = ''SetActiveAlias { alias: <redacted> }''"
| "debug_request (ListRemote p kind_filter max_results) =
     ''ListRemote { prefix: <redacted>, kind_filter: '' @ debug_filter kind_filter
       @ '', max_results: '' @ show_nat (unat max_results) @ '' }''"
| "debug_request (InvalidateRemote p) = ''InvalidateRemote { prefix: <redacted> }''"
| "debug_request Lock = ''Lock''"
| "debug_request Exit = ''Exit''"
| "debug_request Status = ''Status''"

section \<open>Framing (framing.rs)\<close>

definition FRAME_LIMIT :: nat where "FRAME_LIMIT = 1048576"

datatype framing_error =
    FrameTooLarge nat nat
  | FrIo string
  | FrEncode string
  | FrDecode string
  | UnsupportedVersion u16 u16
  | Truncated

record wire =
  write_request :: "versioned_request \<Rightarrow> (string, bytes) result"
  read_request :: "bytes \<Rightarrow> (string, versioned_request) result"
  write_response :: "versioned_response \<Rightarrow> (string, bytes) result"
  read_response :: "bytes \<Rightarrow> (string, versioned_response) result"

text \<open>\<open>u32::to_be_bytes\<close> and \<open>u32::from_be_bytes\<close>.\<close>

definition to_be_bytes :: "u32 \<Rightarrow> bytes" where
  "to_be_bytes n = [ucast (drop_bit 24 n), ucast (drop_bit 16 n), ucast (drop_bit 8 n), ucast n]"

definition from_be_bytes :: "bytes \<Rightarrow> u32" where
  "from_be_bytes b =
     push_bit 24 (ucast (b ! 0)) OR push_bit 16 (ucast (b ! 1)) OR push_bit 8 (ucast (b ! 2)) OR ucast (b ! 3)"

text \<open>The length field: both senders refuse a payload over the limit first.\<close>

definition frame_len :: "bytes \<Rightarrow> (framing_error, u32) result" where
  "frame_len payload =
     (if length payload > FRAME_LIMIT then Inl (FrameTooLarge (length payload) FRAME_LIMIT)
      else if length payload < 2 ^ 32 then Inr (of_nat (length payload))
      else Inl (FrameTooLarge (length payload) FRAME_LIMIT))"

definition frame_payload :: "bytes \<Rightarrow> (framing_error, bytes) result" where
  "frame_payload payload = rbind (frame_len payload) (\<lambda>len. Inr (to_be_bytes len @ payload))"

definition encode_request_body :: "wire \<Rightarrow> agent_request \<Rightarrow> (framing_error, bytes) result" where
  "encode_request_body W req =
     rmap_err FrEncode (write_request W \<lparr>vq_version = PROTOCOL_VERSION, vq_request = req\<rparr>)"

definition encode_response_body :: "wire \<Rightarrow> agent_response \<Rightarrow> (framing_error, bytes) result" where
  "encode_response_body W resp =
     rmap_err FrEncode (write_response W \<lparr>vr_version = PROTOCOL_VERSION, vr_response = resp\<rparr>)"

definition decode_request_body :: "wire \<Rightarrow> bytes \<Rightarrow> (framing_error, agent_request) result" where
  "decode_request_body W body =
     rbind (rmap_err FrDecode (read_request W body)) (\<lambda>envelope.
     if vq_version envelope \<noteq> PROTOCOL_VERSION
     then Inl (UnsupportedVersion (vq_version envelope) PROTOCOL_VERSION)
     else Inr (vq_request envelope))"

definition decode_response_body :: "wire \<Rightarrow> bytes \<Rightarrow> (framing_error, agent_response) result" where
  "decode_response_body W body =
     rbind (rmap_err FrDecode (read_response W body)) (\<lambda>envelope.
     if vr_version envelope \<noteq> PROTOCOL_VERSION
     then Inl (UnsupportedVersion (vr_version envelope) PROTOCOL_VERSION)
     else Inr (vr_response envelope))"

definition encode_request :: "wire \<Rightarrow> agent_request \<Rightarrow> (framing_error, bytes) result" where
  "encode_request W req = rbind (encode_request_body W req) frame_payload"

definition encode_response :: "wire \<Rightarrow> agent_response \<Rightarrow> (framing_error, bytes) result" where
  "encode_response W resp = rbind (encode_response_body W resp) frame_payload"

definition split_frame :: "bytes \<Rightarrow> (framing_error, bytes) result" where
  "split_frame frame =
     (if length frame < 4 then Inl Truncated
      else let len = unat (from_be_bytes (take 4 frame))
           in if len > FRAME_LIMIT then Inl (FrameTooLarge len FRAME_LIMIT)
              else if length frame < 4 + len then Inl Truncated
              else Inr (take len (drop 4 frame)))"

definition decode_request :: "wire \<Rightarrow> bytes \<Rightarrow> (framing_error, agent_request) result" where
  "decode_request W frame = rbind (split_frame frame) (decode_request_body W)"

definition decode_response :: "wire \<Rightarrow> bytes \<Rightarrow> (framing_error, agent_response) result" where
  "decode_response W frame = rbind (split_frame frame) (decode_response_body W)"

text \<open>
  A reader holds the bytes still to come and the error the stream ends with,
  \<open>None\<close> for the end of the file. A writer holds what was written and, when the
  other side goes away, how many more bytes it takes.
\<close>

record reader =
  rd_bytes :: bytes
  rd_error :: "string option"

record writer =
  wr_bytes :: bytes
  wr_room :: "nat option"
  wr_error :: string

text \<open>\<open>read_exact\<close> and \<open>write_all\<close>, with \<open>From<io::Error>\<close> applied to their errors.\<close>

definition read_exact :: "reader \<Rightarrow> nat \<Rightarrow> reader \<times> (framing_error, bytes) result" where
  "read_exact r n =
     (if n \<le> length (rd_bytes r)
      then (r\<lparr>rd_bytes := drop n (rd_bytes r)\<rparr>, Inr (take n (rd_bytes r)))
      else (r\<lparr>rd_bytes := []\<rparr>, Inl (case rd_error r of None \<Rightarrow> Truncated | Some m \<Rightarrow> FrIo m)))"

definition write_all :: "writer \<Rightarrow> bytes \<Rightarrow> writer \<times> (framing_error, unit) result" where
  "write_all w b =
     (case wr_room w of
        None \<Rightarrow> (w\<lparr>wr_bytes := wr_bytes w @ b\<rparr>, Inr ())
      | Some n \<Rightarrow>
          (w\<lparr>wr_bytes := wr_bytes w @ take n b, wr_room := Some (n - length b)\<rparr>,
           if length b \<le> n then Inr () else Inl (FrIo (wr_error w))))"

definition write_frame :: "writer \<Rightarrow> bytes \<Rightarrow> writer \<times> (framing_error, unit) result" where
  "write_frame w payload =
     (case frame_len payload of
        Inl e \<Rightarrow> (w, Inl e)
      | Inr len \<Rightarrow>
          case write_all w (to_be_bytes len) of
            (w1, Inl e) \<Rightarrow> (w1, Inl e)
          | (w1, Inr _) \<Rightarrow> write_all w1 payload)"

definition read_frame :: "reader \<Rightarrow> reader \<times> (framing_error, bytes) result" where
  "read_frame r =
     (case read_exact r 4 of
        (r1, Inl e) \<Rightarrow> (r1, Inl e)
      | (r1, Inr len_bytes) \<Rightarrow>
          let len = unat (from_be_bytes len_bytes)
          in if len > FRAME_LIMIT then (r1, Inl (FrameTooLarge len FRAME_LIMIT))
             else read_exact r1 len)"

end
