(* ===== verification/Proto_Props.thy ===== *)
theory Proto_Props
  imports Proto
begin

text \<open>
  Correctness of the wire protocol: the four length bytes, frames one by one and
  in a stream, and the codec of a versioned message as a locale that is
  interpreted for requests and for responses.
\<close>

section \<open>Length bytes\<close>

lemma length_to_be_bytes [simp]: "length (to_be_bytes n) = 4"
  by (simp add: to_be_bytes_def)

lemma from_to_be_bytes [simp]: "from_be_bytes (to_be_bytes n @ xs) = n"
proof -
  have "bit (push_bit 24 (ucast (ucast (drop_bit 24 n) :: u8)) OR push_bit 16 (ucast (ucast (drop_bit 16 n) :: u8))
     OR push_bit 8 (ucast (ucast (drop_bit 8 n) :: u8)) OR ucast (ucast n :: u8) :: u32) k = bit n k" if "k < 32" for k
    using that by (cases "k < 8"; cases "k < 16"; cases "k < 24") (auto simp: bit_simps)
  then show ?thesis
    by (auto simp: from_be_bytes_def to_be_bytes_def intro!: bit_word_eqI)
qed

lemma from_to_be_bytes_nil [simp]: "from_be_bytes (to_be_bytes n) = n"
  using from_to_be_bytes [of n "[]"] by simp

lemma to_from_be_bytes:
  assumes "length b = 4"
  shows "to_be_bytes (from_be_bytes b) = b"
proof -
  from assms obtain a0 a1 a2 a3 where b: "b = [a0, a1, a2, a3]"
    by (auto simp: length_Suc_conv numeral_eq_Suc)
  let ?w = "push_bit 24 (ucast a0) OR push_bit 16 (ucast a1) OR push_bit 8 (ucast a2) OR ucast a3 :: u32"
  have "\<not> bit a1 (8 + k)" "\<not> bit a2 (8 + k)" "\<not> bit a2 (16 + k)" "\<not> bit a3 (8 + k)" "\<not> bit a3 (16 + k)"
    "\<not> bit a3 (24 + k)" for k
    by (auto dest: bit_imp_le_length)
  then have "bit (ucast (drop_bit 24 ?w) :: u8) k = bit a0 k" "bit (ucast (drop_bit 16 ?w) :: u8) k = bit a1 k"
    "bit (ucast (drop_bit 8 ?w) :: u8) k = bit a2 k" "bit (ucast ?w :: u8) k = bit a3 k" if "k < 8" for k
    using that by (auto simp: bit_simps ac_simps dest: bit_imp_le_length)
  then show ?thesis
    by (auto simp: b from_be_bytes_def to_be_bytes_def intro!: bit_word_eqI)
qed

section \<open>Single frames\<close>

lemma frame_len_Inr: "frame_len p = Inr l \<longleftrightarrow> length p \<le> FRAME_LIMIT \<and> l = of_nat (length p)"
  by (auto simp: frame_len_def FRAME_LIMIT_def split: if_splits)

lemma unat_frame_len: "n \<le> FRAME_LIMIT \<Longrightarrow> unat (of_nat n :: u32) = n"
  by (simp add: unat_of_nat FRAME_LIMIT_def)

lemma frame_payload_Inr:
  "frame_payload p = Inr f \<longleftrightarrow> length p \<le> FRAME_LIMIT \<and> f = to_be_bytes (of_nat (length p)) @ p"
  by (auto simp: frame_payload_def frame_len_Inr)

lemma split_frame_payload: "frame_payload p = Inr f \<Longrightarrow> split_frame (f @ rest) = Inr p"
  by (auto simp: frame_payload_Inr split_frame_def unat_frame_len)

lemma read_frame_payload:
  "frame_payload p = Inr f \<Longrightarrow>
     read_frame \<lparr>rd_bytes = f @ rest, rd_error = e\<rparr> = (\<lparr>rd_bytes = rest, rd_error = e\<rparr>, Inr p)"
  by (auto simp: frame_payload_Inr read_frame_def read_exact_def unat_frame_len Let_def)

lemma write_frame_payload:
  "write_frame w p = (w', Inr ()) \<Longrightarrow>
     \<exists>f. frame_payload p = Inr f \<and> wr_bytes w' = wr_bytes w @ f"
  by (auto simp: write_frame_def frame_payload_def write_all_def split: sum.splits option.splits if_splits prod.splits)

lemma read_frame_end:
  "snd (read_frame \<lparr>rd_bytes = b, rd_error = None\<rparr>) = split_frame b"
  by (auto simp: read_frame_def read_exact_def split_frame_def Let_def)

lemma split_frame_Inr:
  "split_frame b = Inr p \<longleftrightarrow> (\<exists>rest f. frame_payload p = Inr f \<and> b = f @ rest)"
proof
  assume s: "split_frame b = Inr p"
  let ?len = "unat (from_be_bytes (take 4 b))"
  from s have l: "4 \<le> length b" "?len \<le> FRAME_LIMIT" "4 + ?len \<le> length b" and p: "p = take ?len (drop 4 b)"
    by (auto simp: split_frame_def Let_def split: if_splits)
  from l p have lp: "length p = ?len" by simp
  have "to_be_bytes (of_nat (length p)) = take 4 b"
    unfolding lp using l(1) by (simp add: to_from_be_bytes)
  then have "frame_payload p = Inr (take 4 b @ p)" using l lp by (simp add: frame_payload_Inr)
  moreover have "b = (take 4 b @ p) @ drop ?len (drop 4 b)" unfolding p by (metis append.assoc append_take_drop_id)
  ultimately show "\<exists>rest f. frame_payload p = Inr f \<and> b = f @ rest" by blast
qed (auto simp: split_frame_payload)

text \<open>
  C6. A frame is accepted exactly when it is one the sender can produce: the
  accepted payload is within the limit, and the accepted bytes are its encoding
  followed by what comes after it. Reading from a stream that ends there gives
  the same answer as cutting the bytes, and a cut anywhere inside a frame is
  reported as a truncated frame.
\<close>

theorem frames_canonical:
  "(split_frame b = Inr p \<longleftrightarrow> length p \<le> FRAME_LIMIT
      \<and> (\<exists>f rest. frame_payload p = Inr f \<and> length f = 4 + length p \<and> b = f @ rest))
   \<and> snd (read_frame \<lparr>rd_bytes = b, rd_error = None\<rparr>) = split_frame b
   \<and> (split_frame b = Inr p \<and> n < 4 + length p \<longrightarrow> split_frame (take n b) = Inl Truncated)"
proof (intro conjI impI)
  show "split_frame b = Inr p \<longleftrightarrow> length p \<le> FRAME_LIMIT
      \<and> (\<exists>f rest. frame_payload p = Inr f \<and> length f = 4 + length p \<and> b = f @ rest)"
    by (auto simp: split_frame_Inr frame_payload_Inr)
  show "snd (read_frame \<lparr>rd_bytes = b, rd_error = None\<rparr>) = split_frame b" by (rule read_frame_end)
  assume a: "split_frame b = Inr p \<and> n < 4 + length p"
  then obtain rest where b: "b = to_be_bytes (of_nat (length p)) @ p @ rest" and l: "length p \<le> FRAME_LIMIT"
    by (auto simp: split_frame_Inr frame_payload_Inr)
  show "split_frame (take n b) = Inl Truncated"
    using a l by (cases "n < 4") (auto simp: split_frame_def b unat_frame_len)
qed

theorem frames_canonical_witness:
  "split_frame [0, 0, 0, 2, 7, 8, 9] = Inr [7, 8] \<and> split_frame (take 5 [0, 0, 0, 2, 7, 8, 9]) = Inl Truncated"
proof -
  have "split_frame [0, 0, 0, 2, 7, 8, 9] = Inr [7, 8]"
    by (simp add: split_frame_def from_be_bytes_def FRAME_LIMIT_def)
  with frames_canonical [of "[0, 0, 0, 2, 7, 8, 9]" "[7, 8]" 5] show ?thesis by simp
qed

section \<open>Streams of frames\<close>

fun write_frames :: "writer \<Rightarrow> bytes list \<Rightarrow> writer \<times> (framing_error, unit) result" where
  "write_frames w [] = (w, Inr ())"
| "write_frames w (p # ps) =
     (case write_frame w p of (w1, Inl e) \<Rightarrow> (w1, Inl e) | (w1, Inr _) \<Rightarrow> write_frames w1 ps)"

fun read_frames :: "nat \<Rightarrow> reader \<Rightarrow> reader \<times> (framing_error, bytes list) result" where
  "read_frames 0 r = (r, Inr [])"
| "read_frames (Suc n) r =
     (case read_frame r of
        (r1, Inl e) \<Rightarrow> (r1, Inl e)
      | (r1, Inr p) \<Rightarrow> let (r2, q) = read_frames n r1 in (r2, rbind q (\<lambda>ps. Inr (p # ps))))"

text \<open>
  Frames do not run into each other: whatever sequence of payloads one side
  wrote without an error, the other side reads back in order, whatever the
  payloads contain, and is left exactly at the bytes that follow.
\<close>

theorem frame_stream:
  assumes "write_frames w ps = (w', Inr ())"
  shows "\<exists>bs. wr_bytes w' = wr_bytes w @ bs
    \<and> (\<forall>rest e. read_frames (length ps) \<lparr>rd_bytes = bs @ rest, rd_error = e\<rparr>
         = (\<lparr>rd_bytes = rest, rd_error = e\<rparr>, Inr ps))"
  using assms
proof (induction ps arbitrary: w)
  case (Cons p ps)
  from Cons.prems obtain w1 where w1: "write_frame w p = (w1, Inr ())" "write_frames w1 ps = (w', Inr ())"
    by (auto split: prod.splits sum.splits)
  from write_frame_payload [OF w1(1)] obtain f where f: "frame_payload p = Inr f" "wr_bytes w1 = wr_bytes w @ f" by blast
  from Cons.IH [OF w1(2)] obtain bs where bs: "wr_bytes w' = wr_bytes w1 @ bs"
    "\<And>rest e. read_frames (length ps) \<lparr>rd_bytes = bs @ rest, rd_error = e\<rparr>
         = (\<lparr>rd_bytes = rest, rd_error = e\<rparr>, Inr ps)" by blast
  have "wr_bytes w' = wr_bytes w @ (f @ bs)" using f bs by simp
  moreover have "read_frames (length (p # ps)) \<lparr>rd_bytes = (f @ bs) @ rest, rd_error = e\<rparr>
         = (\<lparr>rd_bytes = rest, rd_error = e\<rparr>, Inr (p # ps))" for rest e
    using read_frame_payload [OF f(1), of "bs @ rest" e] bs(2) [of rest e] by simp
  ultimately show ?case by blast
qed simp

theorem frame_stream_witness:
  "\<exists>w' bs. write_frames \<lparr>wr_bytes = [], wr_room = Some 11, wr_error = ''''\<rparr> [[1, 2], [0]] = (w', Inr ())
     \<and> wr_bytes w' = bs \<and> read_frames 2 \<lparr>rd_bytes = bs, rd_error = None\<rparr>
         = (\<lparr>rd_bytes = [], rd_error = None\<rparr>, Inr [[1, 2], [0]])"
proof -
  obtain w' where w: "write_frames \<lparr>wr_bytes = [], wr_room = Some 11, wr_error = ''''\<rparr> [[1, 2], [0]] = (w', Inr ())"
    by (simp add: write_frame_def frame_len_def FRAME_LIMIT_def write_all_def)
  from frame_stream [OF w] obtain bs where "wr_bytes w' = bs"
    "\<forall>rest e. read_frames 2 \<lparr>rd_bytes = bs @ rest, rd_error = e\<rparr> = (\<lparr>rd_bytes = rest, rd_error = e\<rparr>, Inr [[1, 2], [0]])"
    by (auto simp: numeral_2_eq_2)
  with w show ?thesis by (metis append.right_neutral)
qed

section \<open>Messages\<close>

definition wire_ok :: "wire \<Rightarrow> bool" where
  "wire_ok W \<longleftrightarrow>
     (\<forall>v b. write_request W v = Inr b \<longrightarrow> read_request W b = Inr v)
   \<and> (\<forall>v b. write_response W v = Inr b \<longrightarrow> read_response W b = Inr v)"

text \<open>What both message types share: a body that decodes to its message.\<close>

locale versioned_codec =
  fixes lawful :: "'w \<Rightarrow> bool"
    and body_of :: "'w \<Rightarrow> 'm \<Rightarrow> (framing_error, bytes) result"
    and message_of :: "'w \<Rightarrow> bytes \<Rightarrow> (framing_error, 'm) result"
  assumes body_back: "lawful W \<Longrightarrow> body_of W m = Inr b \<Longrightarrow> message_of W b = Inr m"
begin

lemma frame_back:
  "lawful W \<Longrightarrow> rbind (body_of W m) frame_payload = Inr f
   \<Longrightarrow> rbind (split_frame (f @ rest)) (message_of W) = Inr m"
  using split_frame_payload body_back by fastforce

lemma frame_injective:
  "lawful W \<Longrightarrow> rbind (body_of W m) frame_payload = Inr f \<Longrightarrow> rbind (body_of W m') frame_payload = Inr f' \<Longrightarrow>
   f @ rest = f' @ rest' \<Longrightarrow> m = m'"
  using frame_back [of W m f rest] frame_back [of W m' f' rest'] by simp

end

interpretation vq: versioned_codec wire_ok encode_request_body decode_request_body
  by unfold_locales (auto simp: wire_ok_def encode_request_body_def decode_request_body_def)

interpretation vr: versioned_codec wire_ok encode_response_body decode_response_body
  by unfold_locales (auto simp: wire_ok_def encode_response_body_def decode_response_body_def)

text \<open>
  An encoded request decodes to itself and so does an encoded response,
  whatever follows the frame, so two frames that begin the same byte stream carry
  the same message.
\<close>

theorem messages_roundtrip:
  assumes "wire_ok W" and "encode_request W q = Inr f" and "encode_response W a = Inr g"
  shows "decode_request W (f @ rest) = Inr q \<and> decode_response W (g @ rest) = Inr a
    \<and> (\<forall>q' f' rest'. encode_request W q' = Inr f' \<and> f @ rest = f' @ rest' \<longrightarrow> q' = q)"
  using assms vq.frame_back vr.frame_back vq.frame_injective
  unfolding encode_request_def encode_response_def decode_request_def decode_response_def by metis

text \<open>A two-byte wire format for the messages without a payload.\<close>

definition ex_requests :: "agent_request list" where
  "ex_requests = [Ping, GetProfile, Lock, Exit, Status]"

definition ex_responses :: "agent_response list" where
  "ex_responses = [Pong, Unlocked, Updated, Locked, Exited]"

fun index_of :: "'a \<Rightarrow> 'a list \<Rightarrow> nat option" where
  "index_of x [] = None"
| "index_of x (y # ys) = (if x = y then Some 0 else map_option Suc (index_of x ys))"

lemma index_of_Some: "index_of x ys = Some i \<Longrightarrow> i < length ys \<and> ys ! i = x"
  by (induction ys arbitrary: i) (auto split: if_splits)

definition ex_wire :: wire where
  "ex_wire = \<lparr>
     write_request = (\<lambda>v. case index_of (vq_request v) ex_requests of
        None \<Rightarrow> Inl ''not supported'' | Some i \<Rightarrow>
          if vq_version v = 1 then Inr [1, of_nat i] else Inl ''not supported''),
     read_request = (\<lambda>b. if length b = 2 \<and> unat (b ! 1) < 5
        then Inr \<lparr>vq_version = ucast (b ! 0), vq_request = ex_requests ! unat (b ! 1)\<rparr> else Inl ''bad''),
     write_response = (\<lambda>v. case index_of (vr_response v) ex_responses of
        None \<Rightarrow> Inl ''not supported'' | Some i \<Rightarrow>
          if vr_version v = 1 then Inr [1, of_nat i] else Inl ''not supported''),
     read_response = (\<lambda>b. if length b = 2 \<and> unat (b ! 1) < 5
        then Inr \<lparr>vr_version = ucast (b ! 0), vr_response = ex_responses ! unat (b ! 1)\<rparr> else Inl ''bad'')\<rparr>"

lemma ex_wire_ok: "wire_ok ex_wire"
proof -
  have q: "length ex_requests = 5" "length ex_responses = 5" by (simp_all add: ex_requests_def ex_responses_def)
  have u: "unat (of_nat i :: u8) = i" if "i < 5" for i using that by (simp add: unat_of_nat)
  show ?thesis
    unfolding wire_ok_def ex_wire_def
    using q by (auto simp: u dest!: index_of_Some split: option.splits if_splits)
qed

theorem messages_roundtrip_witness:
  "decode_request ex_wire ([0, 0, 0, 2, 1, 4] @ [9]) = Inr Status \<and> decode_response ex_wire ([0, 0, 0, 2, 1, 0] @ [9]) = Inr Pong"
proof -
  have "encode_request ex_wire Status = Inr [0, 0, 0, 2, 1, 4]" "encode_response ex_wire Pong = Inr [0, 0, 0, 2, 1, 0]"
    by (simp_all add: encode_request_def encode_request_body_def encode_response_def encode_response_body_def
        ex_wire_def ex_requests_def ex_responses_def PROTOCOL_VERSION_def frame_payload_def frame_len_def FRAME_LIMIT_def to_be_bytes_def)
  from messages_roundtrip [OF ex_wire_ok this, of "[9]"] show ?thesis by simp
qed

end
