(* ===== verification/List_Cache.thy ===== *)
theory List_Cache
  imports Proto
begin

text \<open>
  The agent's cache of remote listings (src/agent/list_cache.rs): entries keyed by
  prefix and kind filter, dropped lazily when older than 60 seconds, and purged
  from a prefix up to the root after an upload. The clock is an argument: the
  nanoseconds since the epoch that the call reads, possibly going backwards.
\<close>

section \<open>State and operations\<close>

abbreviation NANOS :: int where "NANOS \<equiv> 1000000000"

definition DEFAULT_TTL :: nat where "DEFAULT_TTL = nat (60 * NANOS)"

datatype kind_key = KindFile | KindDirectory | KindBoth

definition kind_key_of :: "entry_kind_filter \<Rightarrow> kind_key" where
  "kind_key_of k = (case k of FilterFile \<Rightarrow> KindFile | FilterDirectory \<Rightarrow> KindDirectory | FilterBoth \<Rightarrow> KindBoth)"

record cache_key =
  ck_prefix :: "string option"
  ck_kind :: kind_key

record cache_entry =
  ce_fetched_at :: int
  ce_entries :: "remote_list_entry list"
  ce_truncated :: bool

text \<open>A \<open>Hit\<close> has the fields of the entry it was served from.\<close>

type_synonym cache_hit = cache_entry

record list_cache =
  lc_map :: "cache_key \<Rightarrow> cache_entry option"
  lc_ttl :: nat

definition lc_default :: list_cache where
  "lc_default = \<lparr>lc_map = Map.empty, lc_ttl = DEFAULT_TTL\<rparr>"

definition make_key :: "string option \<Rightarrow> entry_kind_filter \<Rightarrow> cache_key" where
  "make_key p k = \<lparr>ck_prefix = p, ck_kind = kind_key_of k\<rparr>"

text \<open>\<open>duration_since(..).unwrap_or(ZERO)\<close>.\<close>

definition duration_since :: "int \<Rightarrow> int \<Rightarrow> nat" where
  "duration_since now t = nat (now - t)"

definition lc_get :: "list_cache \<Rightarrow> int \<Rightarrow> string option \<Rightarrow> entry_kind_filter \<Rightarrow> list_cache \<times> cache_hit option" where
  "lc_get c now p k =
     (let key = make_key p k
      in case lc_map c key of
           Some entry \<Rightarrow>
             if duration_since now (ce_fetched_at entry) > lc_ttl c
             then (c\<lparr>lc_map := (lc_map c)(key := None)\<rparr>, None)
             else (c, Some entry)
         | None \<Rightarrow> (c, None))"

definition lc_put ::
  "list_cache \<Rightarrow> int \<Rightarrow> string option \<Rightarrow> entry_kind_filter \<Rightarrow> remote_list_entry list \<Rightarrow> bool \<Rightarrow> list_cache" where
  "lc_put c now p k entries truncated =
     c\<lparr>lc_map := (lc_map c)(make_key p k \<mapsto>
        \<lparr>ce_fetched_at = now, ce_entries = entries, ce_truncated = truncated\<rparr>)\<rparr>"

definition path_segments :: "string \<Rightarrow> string list" where
  "path_segments p =
     filter (\<lambda>s. s \<noteq> [] \<and> s \<noteq> ''.'' \<and> s \<noteq> ''..'') (split_on CHR ''/'' (trim_matches CHR ''/'' p))"

definition walk_to_root :: "string option \<Rightarrow> string option list" where
  "walk_to_root target =
     (case target of
        None \<Rightarrow> []
      | Some p \<Rightarrow>
          let segments = path_segments p
          in map (\<lambda>i. Some (join ''/'' (take i segments))) (rev [1..<length segments + 1]))
     @ [None]"

definition retain_prefix_not :: "list_cache \<Rightarrow> string option \<Rightarrow> list_cache" where
  "retain_prefix_not c prefix =
     c\<lparr>lc_map := (\<lambda>key. if ck_prefix key \<noteq> prefix then lc_map c key else None)\<rparr>"

definition invalidate_prefix_to_root :: "list_cache \<Rightarrow> string option \<Rightarrow> list_cache" where
  "invalidate_prefix_to_root c target = foldl retain_prefix_not c (walk_to_root target)"

definition lc_clear :: "list_cache \<Rightarrow> list_cache" where
  "lc_clear c = c\<lparr>lc_map := Map.empty\<rparr>"

definition epoch_secs :: "int \<Rightarrow> u64" where
  "epoch_secs t = (if 0 \<le> t then word_of_int (t div NANOS) else 0)"

section \<open>The contract of an expiring cache\<close>

text \<open>
  What the agent relies on: what is stored, and what each operation does to it.
\<close>

locale expiring_cache =
  fixes stored :: "'c \<Rightarrow> 'k \<Rightarrow> (int \<times> 'v) option"
    and life :: "'c \<Rightarrow> int"
    and get :: "'c \<Rightarrow> int \<Rightarrow> 'k \<Rightarrow> 'c \<times> (int \<times> 'v) option"
    and put :: "'c \<Rightarrow> int \<Rightarrow> 'k \<Rightarrow> 'v \<Rightarrow> 'c"
    and drop_keys :: "'c \<Rightarrow> 'd \<Rightarrow> 'c"
    and dropped :: "'d \<Rightarrow> 'k \<Rightarrow> bool"
  assumes get_hit: "snd (get c now k) = Some (t, v) \<longleftrightarrow> stored c k = Some (t, v) \<and> now - t \<le> life c"
    and get_keeps: "stored (fst (get c now k)) k' = stored c k' \<or> stored (fst (get c now k)) k' = None"
    and get_hit_keeps: "snd (get c now k) \<noteq> None \<Longrightarrow> fst (get c now k) = c"
    and put_stored: "stored (put c now k v) = (stored c)(k \<mapsto> (now, v))"
    and drop_stored: "stored (drop_keys c d) k = (if dropped d k then None else stored c k)"
    and life_get: "life (fst (get c now k)) = life c"
    and life_put: "life (put c now k v) = life c"
    and life_drop: "life (drop_keys c d) = life c"
begin

lemma put_then_get: "now - t \<le> life c \<Longrightarrow> snd (get (put c t k v) now k) = Some (t, v)"
  by (simp add: get_hit put_stored life_put)

lemma drop_then_get: "dropped d k \<Longrightarrow> snd (get (drop_keys c d) now k) = None"
proof (rule ccontr)
  assume d: "dropped d k" and "snd (get (drop_keys c d) now k) \<noteq> None"
  then obtain t v where "snd (get (drop_keys c d) now k) = Some (t, v)" by auto
  then show False by (simp add: get_hit drop_stored d)
qed

end

text \<open>The sequences of calls an agent makes, and the listing that is live after them.\<close>

datatype ('k, 'v, 'd) cache_call = CallGet int 'k | CallPut int 'k 'v | CallDrop 'd

fun live :: "('d \<Rightarrow> 'k \<Rightarrow> bool) \<Rightarrow> ('k, 'v, 'd) cache_call list \<Rightarrow> 'k \<Rightarrow> (int \<times> 'v) option" where
  "live dr [] k = None"
| "live dr (CallGet now k' # older) k = live dr older k"
| "live dr (CallPut now k' v # older) k = (if k = k' then Some (now, v) else live dr older k)"
| "live dr (CallDrop d # older) k = (if dr d k then None else live dr older k)"

context expiring_cache
begin

fun after :: "'c \<Rightarrow> ('k, 'v, 'd) cache_call list \<Rightarrow> 'c" where
  "after c [] = c"
| "after c (CallGet now k # older) = fst (get (after c older) now k)"
| "after c (CallPut now k v # older) = put (after c older) now k v"
| "after c (CallDrop d # older) = drop_keys (after c older) d"

lemma life_after: "life (after c calls) = life c"
  by (induction c calls rule: after.induct) (simp_all add: life_get life_put life_drop)

lemma stored_live:
  "stored c = Map.empty \<Longrightarrow> stored (after c calls) k = None \<or> stored (after c calls) k = live dropped calls k"
proof (induction calls arbitrary: k)
  case (Cons call older)
  show ?case
  proof (cases call)
    case (CallGet now k')
    with get_keeps [of "after c older" now k' k] Cons.IH [OF Cons.prems, of k] show ?thesis by auto
  qed (use Cons in \<open>auto simp: put_stored drop_stored\<close>)
qed simp

text \<open>A hit is always the latest listing put under the key, and a fresh one.\<close>

lemma hit_is_live:
  assumes "stored c = Map.empty" and "snd (get (after c calls) now k) = Some (t, v)"
  shows "live dropped calls k = Some (t, v) \<and> now - t \<le> life c"
proof -
  from assms(2) have "stored (after c calls) k = Some (t, v)" "now - t \<le> life (after c calls)"
    by (auto simp: get_hit)
  with stored_live [OF assms(1), of calls k] show ?thesis by (simp add: life_after)
qed

end

section \<open>The agent's cache meets it\<close>

text \<open>What an invalidation is: an upload below a target, or a change of the provider.\<close>

datatype cache_drop = DropTo "string option" | DropAll

definition stored_at :: "list_cache \<Rightarrow> string option \<times> entry_kind_filter \<Rightarrow> (int \<times> remote_list_entry list \<times> bool) option" where
  "stored_at c = (\<lambda>(p, k). map_option (\<lambda>e. (ce_fetched_at e, ce_entries e, ce_truncated e)) (lc_map c (make_key p k)))"

definition get_at :: "list_cache \<Rightarrow> int \<Rightarrow> string option \<times> entry_kind_filter
    \<Rightarrow> list_cache \<times> (int \<times> remote_list_entry list \<times> bool) option" where
  "get_at c now = (\<lambda>(p, k). let (c', hit) = lc_get c now p k
     in (c', map_option (\<lambda>e. (ce_fetched_at e, ce_entries e, ce_truncated e)) hit))"

definition put_at :: "list_cache \<Rightarrow> int \<Rightarrow> string option \<times> entry_kind_filter
    \<Rightarrow> remote_list_entry list \<times> bool \<Rightarrow> list_cache" where
  "put_at c now = (\<lambda>(p, k) (entries, truncated). lc_put c now p k entries truncated)"

definition drop_at :: "list_cache \<Rightarrow> cache_drop \<Rightarrow> list_cache" where
  "drop_at c d = (case d of DropTo target \<Rightarrow> invalidate_prefix_to_root c target | DropAll \<Rightarrow> lc_clear c)"

definition dropped_at :: "cache_drop \<Rightarrow> string option \<times> entry_kind_filter \<Rightarrow> bool" where
  "dropped_at d = (\<lambda>(p, k). case d of DropTo target \<Rightarrow> p \<in> set (walk_to_root target) | DropAll \<Rightarrow> True)"

lemma make_key_eq [simp]: "make_key p k = make_key p' k' \<longleftrightarrow> p = p' \<and> k = k'"
  by (auto simp: make_key_def kind_key_of_def split: entry_kind_filter.splits)

lemma ck_prefix_make_key [simp]: "ck_prefix (make_key p k) = p"
  by (simp add: make_key_def)

lemma foldl_retain:
  "lc_map (foldl retain_prefix_not c ps) key = (if ck_prefix key \<in> set ps then None else lc_map c key)"
  "lc_ttl (foldl retain_prefix_not c ps) = lc_ttl c"
  by (induction ps arbitrary: c) (auto simp: retain_prefix_not_def)

lemma invalidate_map [simp]:
  "lc_map (invalidate_prefix_to_root c target) key
     = (if ck_prefix key \<in> set (walk_to_root target) then None else lc_map c key)"
  "lc_ttl (invalidate_prefix_to_root c target) = lc_ttl c"
  by (simp_all add: invalidate_prefix_to_root_def foldl_retain)

lemma age_le: "ttl < duration_since now t \<longleftrightarrow> int ttl < now - t"
  by (auto simp: duration_since_def)

lemma lc_get_ttl [simp]: "lc_ttl (fst (lc_get c now p k)) = lc_ttl c"
  by (simp add: lc_get_def Let_def split: option.splits)

interpretation lc: expiring_cache stored_at "\<lambda>c. int (lc_ttl c)" get_at put_at drop_at dropped_at
proof
  fix c :: list_cache and now t :: int and k k' :: "string option \<times> entry_kind_filter"
    and v :: "remote_list_entry list \<times> bool" and d :: cache_drop
  show "snd (get_at c now k) = Some (t, v) \<longleftrightarrow> stored_at c k = Some (t, v) \<and> now - t \<le> int (lc_ttl c)"
    by (cases k; cases v) (auto simp: get_at_def stored_at_def lc_get_def Let_def age_le split: option.splits)
  show "stored_at (fst (get_at c now k)) k' = stored_at c k' \<or> stored_at (fst (get_at c now k)) k' = None"
    by (cases k; cases k') (auto simp: get_at_def stored_at_def lc_get_def Let_def split: option.splits)
  show "snd (get_at c now k) \<noteq> None \<Longrightarrow> fst (get_at c now k) = c"
    by (cases k) (auto simp: get_at_def lc_get_def Let_def split: option.splits if_splits)
  show "stored_at (put_at c now k v) = (stored_at c)(k \<mapsto> (now, v))"
    by (cases k; cases v) (auto simp: put_at_def stored_at_def lc_put_def fun_eq_iff)
  show "stored_at (drop_at c d) k = (if dropped_at d k then None else stored_at c k)"
    by (cases k; cases d) (auto simp: drop_at_def dropped_at_def stored_at_def lc_clear_def)
  show "int (lc_ttl (fst (get_at c now k))) = int (lc_ttl c)"
    by (cases k) (simp add: get_at_def Let_def split_beta)
  show "int (lc_ttl (put_at c now k v)) = int (lc_ttl c)"
    by (cases k; cases v) (simp add: put_at_def lc_put_def)
  show "int (lc_ttl (drop_at c d)) = int (lc_ttl c)"
    by (cases d) (simp_all add: drop_at_def lc_clear_def)
qed

text \<open>The same calls on the cache itself.\<close>

type_synonym list_cache_call =
  "(string option \<times> entry_kind_filter, remote_list_entry list \<times> bool, cache_drop) cache_call"

fun run_cache :: "list_cache \<Rightarrow> list_cache_call list \<Rightarrow> list_cache" where
  "run_cache c [] = c"
| "run_cache c (CallGet now (p, k) # older) = fst (lc_get (run_cache c older) now p k)"
| "run_cache c (CallPut now (p, k) (entries, truncated) # older) = lc_put (run_cache c older) now p k entries truncated"
| "run_cache c (CallDrop (DropTo target) # older) = invalidate_prefix_to_root (run_cache c older) target"
| "run_cache c (CallDrop DropAll # older) = lc_clear (run_cache c older)"

lemma at_simps:
  "get_at c now (p, k) = (fst (lc_get c now p k),
     map_option (\<lambda>e. (ce_fetched_at e, ce_entries e, ce_truncated e)) (snd (lc_get c now p k)))"
  "put_at c now (p, k) (entries, truncated) = lc_put c now p k entries truncated"
  "drop_at c (DropTo target) = invalidate_prefix_to_root c target"
  "drop_at c DropAll = lc_clear c"
  by (simp_all add: get_at_def put_at_def drop_at_def Let_def split_beta)

lemma run_cache_after: "run_cache c calls = lc.after c calls"
  by (induction c calls rule: run_cache.induct) (simp_all add: at_simps)

text \<open>
  C12. The cache never makes a listing up and never serves a stale one: after
  any sequence of calls, whatever the clock did, a hit is the listing most recently
  stored under that prefix and filter, not covered by an invalidation since, and
  its age is at most 60 seconds.
\<close>

theorem cache_hit_is_live:
  assumes "snd (lc_get (run_cache lc_default calls) now p k) = Some hit"
  shows "live dropped_at calls (p, k) = Some (ce_fetched_at hit, ce_entries hit, ce_truncated hit)
    \<and> now - ce_fetched_at hit \<le> 60 * NANOS"
proof -
  have empty: "stored_at lc_default = Map.empty" by (simp add: stored_at_def lc_default_def fun_eq_iff)
  from assms have "snd (get_at (lc.after lc_default calls) now (p, k))
      = Some (ce_fetched_at hit, ce_entries hit, ce_truncated hit)"
    by (simp add: run_cache_after at_simps)
  from lc.hit_is_live [OF empty this] show ?thesis by (simp add: lc_default_def DEFAULT_TTL_def)
qed

definition ex_entry :: "string \<Rightarrow> remote_list_entry" where
  "ex_entry n = \<lparr>re_name = n, re_size = None, re_kind = RFile, re_mtime_secs = None\<rparr>"

definition ex_calls :: "list_cache_call list" where
  "ex_calls = [CallPut 100 (Some ''docs'', FilterBoth) ([ex_entry ''new''], False),
     CallDrop (DropTo (Some ''docs/a'')),
     CallPut 50 (Some ''docs'', FilterBoth) ([ex_entry ''old''], False)]"

theorem cache_hit_is_live_witness:
  "\<exists>hit. snd (lc_get (run_cache lc_default ex_calls) 200 (Some ''docs'') FilterBoth) = Some hit
     \<and> live dropped_at ex_calls (Some ''docs'', FilterBoth) = Some (100, [ex_entry ''new''], False)
     \<and> ce_entries hit = [ex_entry ''new'']"
proof -
  obtain hit where h: "snd (lc_get (run_cache lc_default ex_calls) 200 (Some ''docs'') FilterBoth) = Some hit"
    by (auto simp: ex_calls_def lc_get_def lc_put_def Let_def lc_default_def DEFAULT_TTL_def duration_since_def)
  from cache_hit_is_live [OF h] show ?thesis using h by (simp add: ex_calls_def)
qed

section \<open>Invalidation towards the root\<close>

definition path_segment :: "string \<Rightarrow> bool" where
  "path_segment s \<longleftrightarrow> s \<noteq> [] \<and> CHR ''/'' \<notin> set s \<and> s \<noteq> ''.'' \<and> s \<noteq> ''..''"

lemma path_segments_ok: "s \<in> set (path_segments p) \<Longrightarrow> path_segment s"
  by (auto simp: path_segments_def path_segment_def dest: split_on_no_sep)

lemma join_ends:
  assumes "ws \<noteq> []" "\<forall>w \<in> set ws. path_segment w"
  shows "join ''/'' ws \<noteq> []" "hd (join ''/'' ws) \<noteq> CHR ''/''" "last (join ''/'' ws) \<noteq> CHR ''/''"
proof -
  show n: "join ''/'' ws \<noteq> []" using assms by (intro join_eq_Nil) (auto simp: path_segment_def)
  show "hd (join ''/'' ws) \<noteq> CHR ''/''"
  proof -
    obtain w us where ws: "ws = w # us" "path_segment w" using assms by (cases ws) auto
    then have "hd (join ''/'' ws) = hd w" by (cases us) (auto simp: path_segment_def)
    with ws(2) show ?thesis unfolding path_segment_def by (metis hd_in_set)
  qed
  have "ws \<noteq> [] \<Longrightarrow> \<forall>w \<in> set ws. path_segment w \<Longrightarrow> last (join ''/'' ws) \<noteq> CHR ''/''"
  proof (induction "''/''" ws rule: join.induct)
    case (2 w)
    then show ?case by (simp add: path_segment_def) (metis last_in_set)
  next
    case (3 w v ws)
    then show ?case using join_eq_Nil [of "v # ws" "''/''"] by (auto simp: path_segment_def)
  qed simp
  with assms show "last (join ''/'' ws) \<noteq> CHR ''/''" by blast
qed

lemma path_segments_join:
  assumes "\<forall>w \<in> set ws. path_segment w"
  shows "path_segments (join ''/'' ws) = ws"
proof (cases "ws = []")
  case True
  then show ?thesis by (simp add: path_segments_def trim_matches_id)
next
  case False
  have "trim_matches CHR ''/'' (join ''/'' ws) = join ''/'' ws"
    using join_ends [OF False assms] by (intro trim_matches_id) auto
  moreover have "split_on CHR ''/'' (join ''/'' ws) = ws"
    using assms by (intro split_on_join False) (auto simp: path_segment_def)
  moreover have "filter (\<lambda>s. s \<noteq> [] \<and> s \<noteq> ''.'' \<and> s \<noteq> ''..'') ws = ws"
    using assms by (intro filter_True) (auto simp: path_segment_def)
  ultimately show ?thesis by (simp add: path_segments_def)
qed

lemma walk_to_root_members:
  "x \<in> set (walk_to_root (Some p)) \<longleftrightarrow>
     x = None \<or> (\<exists>us vs. us \<noteq> [] \<and> path_segments p = us @ vs \<and> x = Some (join ''/'' us))"
proof -
  let ?s = "path_segments p"
  have "(\<exists>i \<in> {1..length ?s}. x = Some (join ''/'' (take i ?s)))
      \<longleftrightarrow> (\<exists>us vs. us \<noteq> [] \<and> ?s = us @ vs \<and> x = Some (join ''/'' us))"
  proof
    assume "\<exists>i \<in> {1..length ?s}. x = Some (join ''/'' (take i ?s))"
    then obtain i where "1 \<le> i" "i \<le> length ?s" "x = Some (join ''/'' (take i ?s))" by auto
    then show "\<exists>us vs. us \<noteq> [] \<and> ?s = us @ vs \<and> x = Some (join ''/'' us)"
      by (intro exI [of _ "take i ?s"] exI [of _ "drop i ?s"]) auto
  next
    assume "\<exists>us vs. us \<noteq> [] \<and> ?s = us @ vs \<and> x = Some (join ''/'' us)"
    then obtain us vs where "us \<noteq> []" "?s = us @ vs" "x = Some (join ''/'' us)" by blast
    then show "\<exists>i \<in> {1..length ?s}. x = Some (join ''/'' (take i ?s))"
      by (intro bexI [of _ "length us"]) (auto simp: Suc_le_eq)
  qed
  then show ?thesis by (auto simp: walk_to_root_def Let_def image_iff simp flip: atLeastLessThanSuc_atLeastAtMost)
qed

text \<open>
  C13. An upload below a directory invalidates exactly its ancestors: after
  invalidating a directory given by its segments, a listing of a directory misses
  if the directory is that one, one of its parents or the root, whatever the kind
  filter, and every other listing is served as before.
\<close>

theorem invalidation_exact:
  assumes "\<forall>w \<in> set target. path_segment w" and "\<forall>w \<in> set dir. path_segment w" and "dir \<noteq> []"
  shows "snd (lc_get (invalidate_prefix_to_root c (Some (join ''/'' target))) now (Some (join ''/'' dir)) k)
      = (if \<exists>rest. target = dir @ rest then None else snd (lc_get c now (Some (join ''/'' dir)) k))
    \<and> snd (lc_get (invalidate_prefix_to_root c (Some (join ''/'' target))) now None k) = None"
proof -
  have "Some (join ''/'' dir) \<in> set (walk_to_root (Some (join ''/'' target))) \<longleftrightarrow> (\<exists>rest. target = dir @ rest)"
  proof -
    have "us = dir" if "join ''/'' us = join ''/'' dir" "target = us @ vs" for us vs
    proof -
      from that(2) assms(1) have "\<forall>w \<in> set us. path_segment w" by simp
      from path_segments_join [OF this] path_segments_join [OF assms(2)] that(1) show ?thesis by metis
    qed
    with assms(3) show ?thesis by (auto simp: walk_to_root_members path_segments_join [OF assms(1)])
  qed
  then show ?thesis
    by (auto simp: lc_get_def Let_def walk_to_root_members split: option.splits)
qed

theorem invalidation_exact_witness:
  "snd (lc_get (invalidate_prefix_to_root (lc_put lc_default 0 (Some ''a'') FilterFile [] False) (Some ''a/b'')) 1 (Some ''a'') FilterFile) = None"
  using invalidation_exact [of "[''a'', ''b'']" "[''a'']" "lc_put lc_default 0 (Some ''a'') FilterFile [] False" 1 FilterFile]
  by (simp add: path_segment_def)

text \<open>
  The key of an entry is the prefix as the client sent it while an
  invalidation walks normalised paths, so a listing cached under a prefix with a
  leading or trailing slash, or under the empty prefix, survives every
  invalidation by path, including one of that same prefix.
\<close>

theorem slashed_prefix_never_invalidated:
  assumes "p = [] \<or> hd p = CHR ''/'' \<or> last p = CHR ''/''"
  shows "lc_get (invalidate_prefix_to_root c target) now (Some p) k
     = (let (c', hit) = lc_get c now (Some p) k in (invalidate_prefix_to_root c' target, hit))"
proof -
  have "Some p \<notin> set (walk_to_root target)"
  proof (cases target)
    case (Some t)
    have "p \<noteq> join ''/'' us" if "us \<noteq> []" "path_segments t = us @ vs" for us vs
      using join_ends [OF that(1)] path_segments_ok [of _ t] that(2) assms by auto
    with Some show ?thesis by (auto simp: walk_to_root_members)
  qed (simp add: walk_to_root_def)
  moreover have "invalidate_prefix_to_root (c\<lparr>lc_map := (lc_map c)(key := None)\<rparr>) target
    = (invalidate_prefix_to_root c target)\<lparr>lc_map := (lc_map (invalidate_prefix_to_root c target))(key := None)\<rparr>" for key
    by (rule list_cache.equality) (auto simp: fun_eq_iff)
  ultimately show ?thesis
    by (auto simp: lc_get_def Let_def split: option.splits)
qed

theorem slashed_prefix_never_invalidated_witness:
  "snd (lc_get (invalidate_prefix_to_root (lc_put lc_default 0 (Some ''docs/'') FilterBoth [] False) (Some ''docs/''))
      0 (Some ''docs/'') FilterBoth) \<noteq> None"
  using slashed_prefix_never_invalidated [of "''docs/''" "lc_put lc_default 0 (Some ''docs/'') FilterBoth [] False" "Some ''docs/''" 0 FilterBoth]
  by (simp add: lc_get_def lc_put_def duration_since_def make_key_def Let_def)

end
