(* ===== verification/Agent.thy ===== *)
theory Agent
  imports List_Cache
begin

text \<open>
  The agent: the process that keeps the decrypted container and its key in memory
  (src/agent/state.rs), the warm provider client (src/agent/remote_client.rs), the
  authentication of a connection (src/agent/security.rs) and the request loop
  (src/agent/server.rs). What the outside world decides during a call (clocks,
  nonces, the file system, what a provider answers) is its \<open>agent_env\<close>; a
  provider client is what it was opened from.
\<close>

section \<open>Providers, as the agent sees them (commands/mod.rs, remote_fs.rs)\<close>

record remote_entry =
  rm_name :: string
  rm_size :: "u64 option"
  rm_is_directory :: bool

datatype any_remote =
    AnyNextcloud nextcloud_profile
  | AnyGoogleDrive google_drive_profile
  | AnyOneDrive one_drive_profile
  | AnyDropbox dropbox_profile

text \<open>
  The environment of one call. \<open>ae_opens\<close> is the diagnosis of a client's
  \<open>from_profile\<close>, if it fails; \<open>ae_list\<close> is what \<open>RemoteFs::list\<close> answers.
\<close>

record agent_env =
  ae_prims :: prims
  ae_nonce :: bytes
  ae_io :: io_plan
  ae_now :: nat
  ae_cache_get :: int
  ae_cache_put :: int
  ae_hit_at :: int
  ae_opens :: "any_remote \<Rightarrow> string option"
  ae_list :: "any_remote \<Rightarrow> string list \<Rightarrow> (string, remote_entry list) result"

definition opened_remote :: "agent_env \<Rightarrow> any_remote \<Rightarrow> (string, any_remote) result" where
  "opened_remote E r = (case ae_opens E r of None \<Rightarrow> Inr r | Some diagnosis \<Rightarrow> Inl diagnosis)"

text \<open>\<open>UnknownProvider::diagnose\<close>, with its dash in UTF-8.\<close>

definition unknown_provider_diagnose :: string where
  "unknown_provider_diagnose = ''this alias was set up by a newer zz-drop ''
     @ [CHR 0xE2, CHR 0x80, CHR 0x94] @ '' upgrade zz-drop to use it''"

definition build_remote :: "agent_env \<Rightarrow> plain_profile \<Rightarrow> (string, any_remote) result" where
  "build_remote E profile =
     (case pp_providers profile of
        [] \<Rightarrow> Inl ''no provider configured in profile''
      | first # _ \<Rightarrow>
          (case first of
             Nextcloud nc \<Rightarrow> opened_remote E (AnyNextcloud nc)
           | GoogleDrive gd \<Rightarrow> opened_remote E (AnyGoogleDrive gd)
           | OneDrive od \<Rightarrow> opened_remote E (AnyOneDrive od)
           | Dropbox db \<Rightarrow> opened_remote E (AnyDropbox db)
           | Unknown _ \<Rightarrow> Inl unknown_provider_diagnose))"

record slot =
  sl_profile_id :: string
  sl_client :: any_remote

text \<open>\<open>with_client\<close>: the slot afterwards, and the client the closure runs on.\<close>

definition with_client ::
  "agent_env \<Rightarrow> slot option \<Rightarrow> plain_profile \<Rightarrow> (any_remote \<Rightarrow> 'r) \<Rightarrow> slot option \<times> (string, 'r) result" where
  "with_client E guard profile f =
     (let rebuild =
            (case build_remote E profile of
               Inl e \<Rightarrow> (guard, Inl e)
             | Inr client \<Rightarrow>
                 (Some \<lparr>sl_profile_id = pp_profile_id profile, sl_client = client\<rparr>, Inr (f client)))
      in case guard of
           Some s \<Rightarrow> if sl_profile_id s \<noteq> pp_profile_id profile then rebuild else (guard, Inr (f (sl_client s)))
         | None \<Rightarrow> rebuild)"

section \<open>State (state.rs)\<close>

record inner =
  in_profile_set :: "profile_set option"
  in_kek :: "profile_kek option"
  in_active_alias :: "string option"
  in_mtime_at_unlock :: "int option"
  in_unlocked_at :: "nat option"
  in_ttl :: nat
  in_last_activity :: nat

record agent =
  ag_inner :: inner
  ag_path :: string
  ag_exit :: bool
  ag_cache :: list_cache
  ag_slot :: "slot option"
  ag_disk :: disk

datatype update_error = UpNotUnlocked | UpAliasNotFound | UpIo string | UpCrypto

datatype list_error = LsNotUnlocked | LsProvider string

definition MAX_LIST_RESULTS :: nat where "MAX_LIST_RESULTS = 200"

definition effective_cap :: "u32 \<Rightarrow> nat" where
  "effective_cap max_results = min (unat max_results) MAX_LIST_RESULTS"

definition fnv64 :: "bytes \<Rightarrow> u64" where
  "fnv64 b = foldl (\<lambda>h x. (h XOR ucast x) * 0x100000001b3) 0xcbf29ce484222325 b"

definition locked_inner :: "nat \<Rightarrow> nat \<Rightarrow> inner" where
  "locked_inner ttl now = \<lparr>in_profile_set = None, in_kek = None, in_active_alias = None,
     in_mtime_at_unlock = None, in_unlocked_at = None, in_ttl = ttl, in_last_activity = now\<rparr>"

definition agent_new :: "nat \<Rightarrow> nat \<Rightarrow> string \<Rightarrow> disk \<Rightarrow> agent" where
  "agent_new ttl now path d = \<lparr>ag_inner = locked_inner ttl now, ag_path = path, ag_exit = False,
     ag_cache = lc_default, ag_slot = None, ag_disk = d\<rparr>"

definition unlock ::
  "agent_env \<Rightarrow> profile_set \<Rightarrow> profile_kek \<Rightarrow> string \<Rightarrow> nat option \<Rightarrow> agent \<Rightarrow> agent" where
  "unlock E s kek alias ttl_override st = st\<lparr>ag_inner := \<lparr>
     in_profile_set = Some s,
     in_kek = Some kek,
     in_active_alias = Some alias,
     in_mtime_at_unlock = fs_mtime (ae_io E) (ag_disk st) (ag_path st),
     in_unlocked_at = Some (ae_now E),
     in_ttl = (case ttl_override of Some ttl \<Rightarrow> ttl | None \<Rightarrow> in_ttl (ag_inner st)),
     in_last_activity = ae_now E\<rparr>\<rparr>"

definition drop_completion_caches :: "agent \<Rightarrow> agent" where
  "drop_completion_caches st = st\<lparr>ag_cache := lc_clear (ag_cache st), ag_slot := None\<rparr>"

definition lock_agent :: "agent_env \<Rightarrow> agent \<Rightarrow> agent" where
  "lock_agent E st = drop_completion_caches
     (st\<lparr>ag_inner := locked_inner (in_ttl (ag_inner st)) (ae_now E)\<rparr>)"

definition is_unlocked :: "agent \<Rightarrow> bool" where
  "is_unlocked st = (in_profile_set (ag_inner st) \<noteq> None)"

definition touch :: "agent_env \<Rightarrow> agent \<Rightarrow> agent" where
  "touch E st = st\<lparr>ag_inner := (ag_inner st)\<lparr>in_last_activity := ae_now E\<rparr>\<rparr>"

definition get_active_profile_renewing_ttl :: "agent_env \<Rightarrow> agent \<Rightarrow> agent \<times> plain_profile option" where
  "get_active_profile_renewing_ttl E st =
     (let i = (ag_inner st)\<lparr>in_last_activity := ae_now E,
                in_unlocked_at := (if in_unlocked_at (ag_inner st) \<noteq> None then Some (ae_now E) else None)\<rparr>
      in (st\<lparr>ag_inner := i\<rparr>,
          case in_active_alias i of None \<Rightarrow> None | Some alias \<Rightarrow>
          case in_profile_set i of None \<Rightarrow> None | Some s \<Rightarrow> find_by_alias s alias))"

definition set_active_alias :: "agent_env \<Rightarrow> string \<Rightarrow> agent \<Rightarrow> agent \<times> (update_error, unit) result" where
  "set_active_alias E alias st =
     (case in_profile_set (ag_inner st) of
        None \<Rightarrow> (st, Inl UpNotUnlocked)
      | Some s \<Rightarrow>
          if \<not> contains_alias s alias then (st, Inl UpAliasNotFound)
          else (drop_completion_caches (st\<lparr>ag_inner := (ag_inner st)\<lparr>in_active_alias := Some alias,
                  in_last_activity := ae_now E\<rparr>\<rparr>), Inr ()))"

text \<open>\<open>persist\<close>: the failure points are in the code's order.\<close>

definition persist_files :: "io_plan \<Rightarrow> disk \<Rightarrow> string \<Rightarrow> string \<Rightarrow> disk \<times> (update_error, unit) result" where
  "persist_files pl d path envelope =
     (if \<not> pl_mkdir pl then (d, Inl (UpIo (pl_msg pl)))
      else let tmp = with_extension path ''zz.tmp''; (d1, written) = fs_write MODE_DEFAULT pl d tmp envelope
      in if \<not> written then (d1, Inl (UpIo (pl_msg pl)))
      else let (d2, changed) = fs_chmod MODE_0600 pl d1 tmp
      in if \<not> changed then (d2, Inl (UpIo (pl_msg pl)))
      else let (d3, renamed) = fs_rename pl d2 tmp path
      in if \<not> renamed then (d3, Inl (UpIo (pl_msg pl))) else (d3, Inr ()))"

definition persist :: "agent_env \<Rightarrow> profile_set \<Rightarrow> agent \<Rightarrow> agent \<times> (update_error, unit) result" where
  "persist E s st =
     (case in_kek (ag_inner st) of
        None \<Rightarrow> (st, Inl UpNotUnlocked)
      | Some kek \<Rightarrow>
          case encrypt_set_with_kek (ae_prims E) (ae_nonce E) s kek of
            Inl _ \<Rightarrow> (st, Inl UpCrypto)
          | Inr envelope \<Rightarrow>
              let (d, r) = persist_files (ae_io E) (ag_disk st) (ag_path st) envelope;
                  st' = st\<lparr>ag_disk := d\<rparr>
              in case r of
                   Inl e \<Rightarrow> (st', Inl e)
                 | Inr _ \<Rightarrow>
                     (case fs_mtime (ae_io E) d (ag_path st) of
                        Some new_mt \<Rightarrow> st'\<lparr>ag_inner := (ag_inner st')\<lparr>in_mtime_at_unlock := Some new_mt\<rparr>\<rparr>
                      | None \<Rightarrow> st', Inr ()))"

definition update_profile :: "agent_env \<Rightarrow> plain_profile \<Rightarrow> agent \<Rightarrow> agent \<times> (update_error, unit) result" where
  "update_profile E profile st =
     (case in_profile_set (ag_inner st) of
        None \<Rightarrow> (st, Inl UpNotUnlocked)
      | Some s \<Rightarrow>
          case assign_by_alias s (pp_alias profile) profile of
            None \<Rightarrow> (st, Inl UpAliasNotFound)
          | Some snapshot \<Rightarrow>
              let active_alias_was_target = in_active_alias (ag_inner st) = Some (pp_alias profile);
                  st' = st\<lparr>ag_inner := (ag_inner st)\<lparr>in_profile_set := Some snapshot\<rparr>\<rparr>;
                  st'' = if active_alias_was_target then drop_completion_caches st' else st'
              in persist E snapshot st'')"

definition update_profile_set :: "agent_env \<Rightarrow> profile_set \<Rightarrow> agent \<Rightarrow> agent \<times> (update_error, unit) result" where
  "update_profile_set E s st =
     (case in_profile_set (ag_inner st) of
        None \<Rightarrow> (st, Inl UpNotUnlocked)
      | Some _ \<Rightarrow>
          let still_valid = (case in_active_alias (ag_inner st) of Some a \<Rightarrow> contains_alias s a | None \<Rightarrow> False);
              i = (ag_inner st)\<lparr>
                in_active_alias := if still_valid then in_active_alias (ag_inner st) else None,
                in_profile_set := Some s, in_last_activity := ae_now E\<rparr>
          in persist E s (drop_completion_caches (st\<lparr>ag_inner := i\<rparr>)))"

text \<open>\<open>Instant::elapsed\<close> saturates at zero, as subtraction on \<open>nat\<close> does.\<close>

definition check_ttl_and_lock :: "agent_env \<Rightarrow> agent \<Rightarrow> agent \<times> bool" where
  "check_ttl_and_lock E st =
     (case in_unlocked_at (ag_inner st) of
        Some unlocked_at \<Rightarrow>
          if ae_now E - unlocked_at > in_ttl (ag_inner st)
          then (drop_completion_caches (st\<lparr>ag_inner :=
                  locked_inner (in_ttl (ag_inner st)) (in_last_activity (ag_inner st))\<rparr>), True)
          else (st, False)
      | None \<Rightarrow> (st, False))"

definition ttl_remaining_secs :: "agent_env \<Rightarrow> agent \<Rightarrow> u64 option" where
  "ttl_remaining_secs E st =
     (case in_unlocked_at (ag_inner st) of
        None \<Rightarrow> None
      | Some unlocked_at \<Rightarrow>
          let elapsed = ae_now E - unlocked_at
          in if elapsed \<ge> in_ttl (ag_inner st) then Some 0
             else Some (of_nat ((in_ttl (ag_inner st) - elapsed) div nat NANOS)))"

definition idle_for :: "agent_env \<Rightarrow> agent \<Rightarrow> nat" where
  "idle_for E st = ae_now E - in_last_activity (ag_inner st)"

definition request_exit :: "agent \<Rightarrow> agent" where
  "request_exit st = st\<lparr>ag_exit := True\<rparr>"

definition list_segments :: "string option \<Rightarrow> string list" where
  "list_segments prefix = (case prefix of Some p \<Rightarrow> path_segments p | None \<Rightarrow> [])"

definition kind_matches :: "entry_kind_filter \<Rightarrow> remote_entry \<Rightarrow> bool" where
  "kind_matches k e = (case k of
     FilterFile \<Rightarrow> \<not> rm_is_directory e | FilterDirectory \<Rightarrow> rm_is_directory e | FilterBoth \<Rightarrow> True)"

definition shape_entry :: "remote_entry \<Rightarrow> remote_list_entry" where
  "shape_entry e = \<lparr>re_name = rm_name e, re_size = rm_size e,
     re_kind = (if rm_is_directory e then RDirectory else RFile), re_mtime_secs = None\<rparr>"

definition list_remote ::
  "agent_env \<Rightarrow> string option \<Rightarrow> entry_kind_filter \<Rightarrow> u32 \<Rightarrow> agent \<Rightarrow> agent \<times> (list_error, cache_hit) result" where
  "list_remote E prefix kind_filter max_results st =
     (let (c1, hit) = lc_get (ag_cache st) (ae_cache_get E) prefix kind_filter;
          st1 = st\<lparr>ag_cache := c1\<rparr>
      in case hit of
           Some h \<Rightarrow> (st1, Inr h)
         | None \<Rightarrow>
             let (st2, active) = get_active_profile_renewing_ttl E st1
             in case active of
                  None \<Rightarrow> (st2, Inl LsNotUnlocked)
                | Some profile \<Rightarrow>
                    let (guard, raw) = with_client E (ag_slot st2) profile
                                         (\<lambda>client. ae_list E client (list_segments prefix));
                        st3 = st2\<lparr>ag_slot := guard\<rparr>
                    in case raw of
                         Inl e \<Rightarrow> (st3, Inl (LsProvider e))
                       | Inr (Inl e) \<Rightarrow> (st3, Inl (LsProvider e))
                       | Inr (Inr entries_raw) \<Rightarrow>
                           let cap = effective_cap max_results;
                               truncated = cap < length entries_raw;
                               shaped = take cap (map shape_entry (filter (kind_matches kind_filter) entries_raw))
                           in (st3\<lparr>ag_cache := lc_put (ag_cache st3) (ae_cache_put E) prefix kind_filter shaped truncated\<rparr>,
                               Inr \<lparr>ce_fetched_at = ae_hit_at E, ce_entries = shaped, ce_truncated = truncated\<rparr>))"

definition invalidate_remote_prefix :: "string option \<Rightarrow> agent \<Rightarrow> agent" where
  "invalidate_remote_prefix prefix st =
     st\<lparr>ag_cache := invalidate_prefix_to_root (ag_cache st) prefix\<rparr>"

section \<open>Requests (server.rs)\<close>

definition update_response :: "(update_error, unit) result \<Rightarrow> agent_response" where
  "update_response r =
     (case r of
        Inr _ \<Rightarrow> Updated
      | Inl UpNotUnlocked \<Rightarrow> Error NotUnlocked
      | Inl UpAliasNotFound \<Rightarrow> Error AliasNotFound
      | Inl (UpIo m) \<Rightarrow> Error (AgentIo m)
      | Inl UpCrypto \<Rightarrow> Error (AgentIo ''re-encrypt failed''))"

definition alias_response :: "(update_error, unit) result \<Rightarrow> agent_response" where
  "alias_response r =
     (case r of
        Inr _ \<Rightarrow> Updated
      | Inl UpNotUnlocked \<Rightarrow> Error NotUnlocked
      | Inl UpAliasNotFound \<Rightarrow> Error AliasNotFound
      | Inl _ \<Rightarrow> Error NotUnlocked)"

definition list_response :: "(list_error, cache_hit) result \<Rightarrow> agent_response" where
  "list_response r =
     (case r of
        Inr hit \<Rightarrow> RemoteList (ce_entries hit) (epoch_secs (ce_fetched_at hit)) (ce_truncated hit)
      | Inl LsNotUnlocked \<Rightarrow> Error NotUnlocked
      | Inl (LsProvider m) \<Rightarrow> Error (AgentIo m))"

text \<open>\<open>Duration::from_secs\<close> in nanoseconds.\<close>

definition from_secs :: "u64 \<Rightarrow> nat" where
  "from_secs n = unat n * nat NANOS"

fun dispatch :: "agent_env \<Rightarrow> agent_request \<Rightarrow> agent \<Rightarrow> agent \<times> agent_response" where
  "dispatch E Ping st = (st, Pong)"
| "dispatch E (Unlock s kek active_alias ttl_secs) st =
     (if \<not> contains_alias s active_alias then (st, Error AliasNotFound)
      else (unlock E s (into_kek kek) active_alias (map_option from_secs ttl_secs) st, Unlocked))"
| "dispatch E GetProfile st =
     (let (st', p) = get_active_profile_renewing_ttl E st
      in (st', case p of Some p \<Rightarrow> ProfileIs p | None \<Rightarrow> Error NotUnlocked))"
| "dispatch E (UpdateProfile p) st = (let (st', r) = update_profile E p st in (st', update_response r))"
| "dispatch E (UpdateProfileSet s) st = (let (st', r) = update_profile_set E s st in (st', update_response r))"
| "dispatch E (SetActiveAlias a) st = (let (st', r) = set_active_alias E a st in (st', alias_response r))"
| "dispatch E (ListRemote prefix k n) st = (let (st', r) = list_remote E prefix k n st in (st', list_response r))"
| "dispatch E (InvalidateRemote prefix) st = (invalidate_remote_prefix prefix st, Updated)"
| "dispatch E Lock st = (lock_agent E st, Locked)"
| "dispatch E Exit st = (st, Exited)"
| "dispatch E Status st = (st, StatusIs (is_unlocked st) (ttl_remaining_secs E st))"

section \<open>Connections\<close>

text \<open>
  A connection as \<open>handle_connection\<close> sees it. Switching the accepted stream to blocking mode
  is taken to work; when it fails the connection is dropped before anything is read, like
  one that sends nothing.
\<close>

definition TOKEN_LEN :: nat where "TOKEN_LEN = 32"

datatype security_error = SecIo string | SecUnauthorized

definition token_matches :: "bytes \<Rightarrow> bytes \<Rightarrow> bool" where
  "token_matches a b = (a = b)"

text \<open>The peer's user id as the kernel reports it, or the error of asking.\<close>

definition check_peer_uid :: "(string, u32) result \<Rightarrow> u32 \<Rightarrow> (security_error, unit) result" where
  "check_peer_uid peer expected =
     rbind (rmap_err SecIo peer) (\<lambda>uid. if uid = expected then Inr () else Inl SecUnauthorized)"

datatype conn_error = CeUnauthorized | CeIo | CeDecode | CeEncode

text \<open>
  The request loop. Every served frame shortens the input, which bounds it. The
  environments are those of the successive points at which the clock is read.
\<close>

lemma read_frame_shrinks: "read_frame r = (r', Inr b) \<Longrightarrow> length (rd_bytes r') < length (rd_bytes r)"
  by (auto simp: read_frame_def read_exact_def Let_def split: if_splits)

function (sequential) serve ::
  "wire \<Rightarrow> (nat \<Rightarrow> agent_env) \<Rightarrow> agent \<Rightarrow> reader \<Rightarrow> writer \<Rightarrow> agent \<times> writer \<times> (conn_error, unit) result" where
  "serve W E st r w =
     (case read_frame r of
        (_, Inl _) \<Rightarrow> (st, w, Inr ())
      | (r1, Inr body) \<Rightarrow>
          case decode_request_body W body of
            Inl _ \<Rightarrow> (st, w, Inl CeDecode)
          | Inr request \<Rightarrow>
              let (st1, response) = dispatch (E 1) request (touch (E 0) st)
              in case encode_response_body W response of
                   Inl _ \<Rightarrow> (st1, w, Inl CeEncode)
                 | Inr response_body \<Rightarrow>
                     case write_frame w response_body of
                       (w1, Inl _) \<Rightarrow> (st1, w1, Inl CeIo)
                     | (w1, Inr _) \<Rightarrow>
                         if request = Exit then (request_exit st1, w1, Inr ())
                         else serve W (\<lambda>n. E (n + 2)) st1 r1 w1)"
  by pat_completeness auto
termination
  by (relation "measure (\<lambda>(W, E, st, r, w). length (rd_bytes r))") (auto dest: read_frame_shrinks [OF sym])

declare serve.simps [simp del]

definition handle_connection ::
  "wire \<Rightarrow> (nat \<Rightarrow> agent_env) \<Rightarrow> (string, u32) result \<Rightarrow> u32 \<Rightarrow> bytes \<Rightarrow> agent \<Rightarrow> reader \<Rightarrow> writer
     \<Rightarrow> agent \<times> writer \<times> (conn_error, unit) result" where
  "handle_connection W E peer expected_euid expected_token st r w =
     (case check_peer_uid peer expected_euid of
        Inl _ \<Rightarrow> (st, w, Inl CeUnauthorized)
      | Inr _ \<Rightarrow>
          case read_frame r of
            (_, Inl _) \<Rightarrow> (st, w, Inl CeUnauthorized)
          | (r1, Inr received) \<Rightarrow>
              if length received \<noteq> TOKEN_LEN then (st, w, Inl CeUnauthorized)
              else if \<not> token_matches received expected_token then (st, w, Inl CeUnauthorized)
              else serve W (\<lambda>n. E (Suc n)) (touch (E 0) st) r1 w)"

section \<open>The server loop\<close>

definition DEFAULT_TTL_SECS :: nat where "DEFAULT_TTL_SECS = 600"
definition DEFAULT_IDLE_EXIT_SECS :: nat where "DEFAULT_IDLE_EXIT_SECS = 300"

datatype exit_reason = ExitRequest | IdleExit

record incoming =
  ic_peer :: "(string, u32) result"
  ic_reader :: reader
  ic_writer :: writer

text \<open>One turn of the loop in \<open>run\<close>: \<open>None\<close> as incoming is a poll that found nothing.\<close>

definition server_turn ::
  "wire \<Rightarrow> nat \<Rightarrow> u32 \<Rightarrow> bytes \<Rightarrow> (nat \<Rightarrow> agent_env) \<Rightarrow> incoming option \<Rightarrow> agent
     \<Rightarrow> agent \<times> exit_reason option" where
  "server_turn W idle_exit euid token E conn st =
     (if ag_exit st then (st, Some ExitRequest)
      else let (st1, _) = check_ttl_and_lock (E 0) st
      in if \<not> is_unlocked st1 \<and> idle_for (E 1) st1 > idle_exit then (st1, Some IdleExit)
      else case conn of
             None \<Rightarrow> (st1, None)
           | Some i \<Rightarrow> (fst (handle_connection W (\<lambda>n. E (n + 2)) (ic_peer i) euid token st1 (ic_reader i) (ic_writer i)), None))"

end
