(* ===== verification/Agent_Props.thy ===== *)
theory Agent_Props
  imports Agent Container_Props Proto_Props
begin

text \<open>
  Correctness of the agent: the steps it takes and the states it reaches, its
  invariant, what a locked agent gives away, when the caches are dropped, what an
  update leaves on disk, and what a connection answers.
\<close>

section \<open>Steps and reachable states\<close>

inductive agent_step :: "agent \<Rightarrow> agent \<Rightarrow> bool" where
  request: "dispatch E q st = (st', a) \<Longrightarrow> agent_step st st'"
| activity: "agent_step st (touch E st)"
| ttl_check: "check_ttl_and_lock E st = (st', b) \<Longrightarrow> agent_step st st'"
| exit_asked: "agent_step st (request_exit st)"

inductive agent_start :: "agent \<Rightarrow> bool" where
  fresh: "agent_start (agent_new ttl now path d)"

inductive reaches :: "('s \<Rightarrow> bool) \<Rightarrow> ('s \<Rightarrow> 's \<Rightarrow> bool) \<Rightarrow> 's \<Rightarrow> bool" for init step where
  start: "init st \<Longrightarrow> reaches init step st"
| step: "reaches init step st \<Longrightarrow> step st st' \<Longrightarrow> reaches init step st'"

abbreviation reachable :: "agent \<Rightarrow> bool" where
  "reachable \<equiv> reaches agent_start agent_step"

inductive_cases agent_stepE: "agent_step st st'"
inductive_cases agent_startE: "agent_start st"

lemma reaches_run: "reaches init step st \<Longrightarrow> step\<^sup>*\<^sup>* st st' \<Longrightarrow> reaches init step st'"
  by (rotate_tac 1, induction rule: rtranclp_induct) (auto intro: reaches.step)

text \<open>Invariants of a machine: true at the start, kept by every step, so true of every state.\<close>

locale machine_invariant =
  fixes init :: "'s \<Rightarrow> bool" and step :: "'s \<Rightarrow> 's \<Rightarrow> bool" and good :: "'s \<Rightarrow> bool"
  assumes at_start: "init st \<Longrightarrow> good st"
    and keeps: "good st \<Longrightarrow> step st st' \<Longrightarrow> good st'"
begin

lemma always: "reaches init step st \<Longrightarrow> good st"
  by (induction rule: reaches.induct) (auto intro: at_start keeps)

end

section \<open>The invariant\<close>

definition kind_shown :: "kind_key \<Rightarrow> remote_list_entry \<Rightarrow> bool" where
  "kind_shown k e = (case k of KindFile \<Rightarrow> re_kind e = RFile | KindDirectory \<Rightarrow> re_kind e = RDirectory | KindBoth \<Rightarrow> True)"

definition cache_ok :: "list_cache \<Rightarrow> bool" where
  "cache_ok c \<longleftrightarrow> lc_ttl c = DEFAULT_TTL
     \<and> (\<forall>key e. lc_map c key = Some e \<longrightarrow> length (ce_entries e) \<le> MAX_LIST_RESULTS
          \<and> list_all (kind_shown (ck_kind key)) (ce_entries e))"

definition inner_ok :: "inner \<Rightarrow> bool" where
  "inner_ok i \<longleftrightarrow>
     (case in_profile_set i of
        None \<Rightarrow> in_kek i = None \<and> in_active_alias i = None \<and> in_mtime_at_unlock i = None \<and> in_unlocked_at i = None
      | Some s \<Rightarrow> in_kek i \<noteq> None \<and> in_unlocked_at i \<noteq> None
          \<and> (\<forall>a. in_active_alias i = Some a \<longrightarrow> contains_alias s a))"

definition caches_empty :: "agent \<Rightarrow> bool" where
  "caches_empty st \<longleftrightarrow> lc_map (ag_cache st) = Map.empty \<and> ag_slot st = None"

definition agent_ok :: "agent \<Rightarrow> bool" where
  "agent_ok st \<longleftrightarrow> inner_ok (ag_inner st) \<and> cache_ok (ag_cache st)
     \<and> (in_active_alias (ag_inner st) = None \<longrightarrow> caches_empty st)"

lemma cache_ok_default: "cache_ok lc_default"
  by (simp add: cache_ok_def lc_default_def)

lemma cache_ok_clear [zz_inv]: "cache_ok c \<Longrightarrow> cache_ok (lc_clear c)"
  by (simp add: cache_ok_def lc_clear_def)

lemma cache_ok_get [zz_inv]: "cache_ok c \<Longrightarrow> cache_ok (fst (lc_get c now p k))"
  by (auto simp: cache_ok_def lc_get_def Let_def split: option.splits if_splits)

lemma cache_ok_invalidate [zz_inv]: "cache_ok c \<Longrightarrow> cache_ok (invalidate_prefix_to_root c p)"
  by (auto simp: cache_ok_def split: if_splits)

lemma shape_entry_shown: "kind_matches k e \<Longrightarrow> kind_shown (kind_key_of k) (shape_entry e)"
  by (cases k) (simp_all add: kind_matches_def kind_shown_def kind_key_of_def shape_entry_def)

lemma cache_ok_put [zz_inv]:
  "cache_ok c \<Longrightarrow> length es \<le> MAX_LIST_RESULTS \<Longrightarrow> list_all (kind_shown (kind_key_of k)) es
   \<Longrightarrow> cache_ok (lc_put c now p k es t)"
  by (auto simp: cache_ok_def lc_put_def make_key_def split: if_splits)

lemma caches_empty_drop [simp]: "caches_empty (drop_completion_caches st)"
  by (simp add: caches_empty_def drop_completion_caches_def lc_clear_def)

lemma drop_sel [simp]:
  "ag_inner (drop_completion_caches st) = ag_inner st"
  "ag_disk (drop_completion_caches st) = ag_disk st"
  "ag_path (drop_completion_caches st) = ag_path st"
  "ag_exit (drop_completion_caches st) = ag_exit st"
  "ag_cache (drop_completion_caches st) = lc_clear (ag_cache st)"
  "ag_slot (drop_completion_caches st) = None"
  by (simp_all add: drop_completion_caches_def)

text \<open>Writing back only touches the disk and the remembered modification time.\<close>

lemma persist_frame:
  assumes "persist E s st = (st', r)"
  shows "\<exists>d m. st' = st\<lparr>ag_disk := d, ag_inner := (ag_inner st)\<lparr>in_mtime_at_unlock := m\<rparr>\<rparr>
     \<and> (in_kek (ag_inner st) = None \<longrightarrow> m = in_mtime_at_unlock (ag_inner st))"
proof -
  have id: "\<exists>d m. st\<lparr>ag_disk := d0\<rparr> = st\<lparr>ag_disk := d, ag_inner := (ag_inner st)\<lparr>in_mtime_at_unlock := m\<rparr>\<rparr>
     \<and> (in_kek (ag_inner st) = None \<longrightarrow> m = in_mtime_at_unlock (ag_inner st))" for d0
    by (intro exI [of _ d0] exI [of _ "in_mtime_at_unlock (ag_inner st)"]) simp
  show ?thesis
  proof (cases "in_kek (ag_inner st)")
    case None
    with assms id [of "ag_disk st"] show ?thesis by (simp add: persist_def)
  next
    case (Some kek)
    show ?thesis
    proof (cases "encrypt_set_with_kek (ae_prims E) (ae_nonce E) s kek")
      case (Inl e)
      with Some assms id [of "ag_disk st"] show ?thesis by (simp add: persist_def)
    next
      case (Inr env)
      obtain d q where p: "persist_files (ae_io E) (ag_disk st) (ag_path st) env = (d, q)" by fastforce
      show ?thesis
      proof (cases q)
        case (Inl e)
        with Some Inr p assms id [of d] show ?thesis by (simp add: persist_def)
      next
        case q: (Inr u)
        show ?thesis
        proof (cases "fs_mtime (ae_io E) d (ag_path st)")
          case None
          with Some Inr p q assms id [of d] show ?thesis by (simp add: persist_def)
        next
          case m: (Some m)
          from Some Inr p q m assms have "st' = st\<lparr>ag_disk := d, ag_inner := (ag_inner st)\<lparr>in_mtime_at_unlock := Some m\<rparr>\<rparr>"
            by (simp add: persist_def)
          then show ?thesis by (intro exI [of _ d] exI [of _ "Some m"]) (simp add: Some)
        qed
      qed
    qed
  qed
qed

lemma agent_ok_persist [zz_inv]: "persist E s st = (st', r) \<Longrightarrow> agent_ok st \<Longrightarrow> agent_ok st'"
  by (auto simp: agent_ok_def inner_ok_def caches_empty_def dest!: persist_frame split: option.splits)

lemma persist_keeps:
  assumes "persist E s st = (st', r)"
  shows "ag_cache st' = ag_cache st" "ag_slot st' = ag_slot st" "ag_path st' = ag_path st"
    "in_profile_set (ag_inner st') = in_profile_set (ag_inner st)"
    "in_active_alias (ag_inner st') = in_active_alias (ag_inner st)" "in_kek (ag_inner st') = in_kek (ag_inner st)"
  using persist_frame [OF assms] by auto

lemma agent_ok_new: "agent_ok (agent_new ttl now path d)"
  by (simp add: agent_ok_def agent_new_def locked_inner_def inner_ok_def caches_empty_def cache_ok_default)
    (simp add: lc_default_def)

lemma agent_ok_touch [zz_inv]: "agent_ok st \<Longrightarrow> agent_ok (touch E st)"
  by (auto simp: agent_ok_def inner_ok_def caches_empty_def touch_def split: option.splits)

lemma agent_ok_lock [zz_inv]: "agent_ok st \<Longrightarrow> agent_ok (lock_agent E st)"
  by (auto simp: agent_ok_def inner_ok_def lock_agent_def locked_inner_def intro: zz_inv)

lemma agent_ok_ttl [zz_inv]: "check_ttl_and_lock E st = (st', b) \<Longrightarrow> agent_ok st \<Longrightarrow> agent_ok st'"
  by (auto simp: check_ttl_and_lock_def agent_ok_def inner_ok_def locked_inner_def intro: zz_inv
      split: option.splits if_splits)

lemma agent_ok_unlock [zz_inv]: "agent_ok st \<Longrightarrow> contains_alias s a \<Longrightarrow> agent_ok (unlock E s kek a ttl st)"
  by (auto simp: agent_ok_def inner_ok_def unlock_def)

lemma agent_ok_get_active [zz_inv]:
  "get_active_profile_renewing_ttl E st = (st', p) \<Longrightarrow> agent_ok st \<Longrightarrow> agent_ok st'"
  by (auto simp: get_active_profile_renewing_ttl_def Let_def agent_ok_def inner_ok_def caches_empty_def
      split: option.splits if_splits)

lemma agent_ok_set_active [zz_inv]: "set_active_alias E a st = (st', r) \<Longrightarrow> agent_ok st \<Longrightarrow> agent_ok st'"
  by (auto simp: set_active_alias_def agent_ok_def inner_ok_def intro: zz_inv split: option.splits if_splits)

lemma agent_ok_update_set [zz_inv]:
  assumes "update_profile_set E s st = (st', r)" and "agent_ok st"
  shows "agent_ok st'"
proof (cases "in_profile_set (ag_inner st)")
  case (Some t)
  let ?i = "(ag_inner st)\<lparr>in_active_alias := if (case in_active_alias (ag_inner st) of Some a \<Rightarrow> contains_alias s a | None \<Rightarrow> False)
      then in_active_alias (ag_inner st) else None, in_profile_set := Some s, in_last_activity := ae_now E\<rparr>"
  have "agent_ok (drop_completion_caches (st\<lparr>ag_inner := ?i\<rparr>))"
    using assms(2) Some by (auto simp: agent_ok_def inner_ok_def intro: zz_inv split: option.splits)
  with assms(1) Some show ?thesis by (auto simp: update_profile_set_def Let_def intro: zz_inv)
qed (use assms in \<open>simp add: update_profile_set_def\<close>)

lemma agent_ok_update [zz_inv]:
  assumes "update_profile E p st = (st', r)" and "agent_ok st"
  shows "agent_ok st'"
proof (cases "in_profile_set (ag_inner st)")
  case (Some s)
  show ?thesis
  proof (cases "assign_by_alias s (pp_alias p) p")
    case a: (Some t)
    let ?st = "st\<lparr>ag_inner := (ag_inner st)\<lparr>in_profile_set := Some t\<rparr>\<rparr>"
    have "agent_ok ?st" using assms(2) Some assign_by_alias_contains [OF a]
      by (auto simp: agent_ok_def inner_ok_def caches_empty_def split: option.splits)
    moreover from this have "agent_ok (drop_completion_caches ?st)"
      by (auto simp: agent_ok_def intro: zz_inv)
    ultimately show ?thesis using assms(1) Some a
      by (auto simp: update_profile_def Let_def intro: zz_inv split: if_splits)
  qed (use assms Some in \<open>simp add: update_profile_def del: assign_by_alias_None\<close>)
qed (use assms in \<open>simp add: update_profile_def\<close>)

lemma agent_ok_invalidate [zz_inv]: "agent_ok st \<Longrightarrow> agent_ok (invalidate_remote_prefix p st)"
  by (auto simp: agent_ok_def invalidate_remote_prefix_def caches_empty_def fun_eq_iff intro: zz_inv)

lemma shaped_ok:
  "length (take (effective_cap n) (map shape_entry (filter (kind_matches k) es))) \<le> MAX_LIST_RESULTS"
  "list_all (kind_shown (kind_key_of k)) (take (effective_cap n) (map shape_entry (filter (kind_matches k) es)))"
  by (auto simp: effective_cap_def list_all_iff dest!: in_set_takeD intro: shape_entry_shown)

text \<open>\<open>list_remote\<close> by its four outcomes.\<close>

lemma list_remote_cases:
  assumes "list_remote E prefix k n st = (st', r)"
  obtains
    (Hit) h where "lc_get (ag_cache st) (ae_cache_get E) prefix k = (ag_cache st, Some h)" "st' = st" "r = Inr h"
  | (Locked) c where "lc_get (ag_cache st) (ae_cache_get E) prefix k = (c, None)"
      "get_active_profile_renewing_ttl E (st\<lparr>ag_cache := c\<rparr>) = (st', None)" "r = Inl LsNotUnlocked"
  | (Failed) c st2 p guard e where "lc_get (ag_cache st) (ae_cache_get E) prefix k = (c, None)"
      "get_active_profile_renewing_ttl E (st\<lparr>ag_cache := c\<rparr>) = (st2, Some p)"
      "fst (with_client E (ag_slot st2) p (\<lambda>client. ae_list E client (list_segments prefix))) = guard"
      "st' = st2\<lparr>ag_slot := guard\<rparr>" "r = Inl (LsProvider e)"
  | (Listed) c st2 p guard es where "lc_get (ag_cache st) (ae_cache_get E) prefix k = (c, None)"
      "get_active_profile_renewing_ttl E (st\<lparr>ag_cache := c\<rparr>) = (st2, Some p)"
      "with_client E (ag_slot st2) p (\<lambda>client. ae_list E client (list_segments prefix)) = (guard, Inr (Inr es))"
      "st' = st2\<lparr>ag_slot := guard, ag_cache := lc_put (ag_cache st2) (ae_cache_put E) prefix k
         (take (effective_cap n) (map shape_entry (filter (kind_matches k) es))) (effective_cap n < length es)\<rparr>"
      "r = Inr \<lparr>ce_fetched_at = ae_hit_at E,
         ce_entries = take (effective_cap n) (map shape_entry (filter (kind_matches k) es)),
         ce_truncated = effective_cap n < length es\<rparr>"
proof -
  obtain c h where g: "lc_get (ag_cache st) (ae_cache_get E) prefix k = (c, h)" by fastforce
  show ?thesis
  proof (cases h)
    case (Some hit)
    with g have "c = ag_cache st" by (auto simp: lc_get_def Let_def split: option.splits if_splits)
    with g Some assms have "st' = st" "r = Inr hit" by (simp_all add: list_remote_def)
    with g Some \<open>c = ag_cache st\<close> show ?thesis by (intro Hit) auto
  next
    case None
    obtain st2 a where a: "get_active_profile_renewing_ttl E (st\<lparr>ag_cache := c\<rparr>) = (st2, a)" by fastforce
    show ?thesis
    proof (cases a)
      case None
      with g \<open>h = None\<close> a assms have "st' = st2" "r = Inl LsNotUnlocked" by (simp_all add: list_remote_def)
      with g \<open>h = None\<close> a None show ?thesis by (intro Locked) auto
    next
      case (Some p)
      obtain guard raw where w: "with_client E (ag_slot st2) p (\<lambda>client. ae_list E client (list_segments prefix)) = (guard, raw)"
        by fastforce
      consider e where "raw = Inl e" | e where "raw = Inr (Inl e)" | es where "raw = Inr (Inr es)"
        by (metis sum.exhaust)
      then show ?thesis
      proof cases
        case 1
        with g \<open>h = None\<close> a Some w assms have "st' = st2\<lparr>ag_slot := guard\<rparr>" "r = Inl (LsProvider e)"
          by (simp_all add: list_remote_def)
        with g \<open>h = None\<close> a Some w show ?thesis by (intro Failed) auto
      next
        case 2
        with g \<open>h = None\<close> a Some w assms have "st' = st2\<lparr>ag_slot := guard\<rparr>" "r = Inl (LsProvider e)"
          by (simp_all add: list_remote_def)
        with g \<open>h = None\<close> a Some w show ?thesis by (intro Failed) auto
      next
        case 3
        with g \<open>h = None\<close> a Some w assms show ?thesis by (intro Listed) (auto simp: list_remote_def Let_def)
      qed
    qed
  qed
qed

lemma get_active_keeps:
  assumes "get_active_profile_renewing_ttl E st = (st', p)"
  shows "ag_cache st' = ag_cache st" "ag_slot st' = ag_slot st" "ag_disk st' = ag_disk st" "ag_path st' = ag_path st"
    "in_profile_set (ag_inner st') = in_profile_set (ag_inner st)" "in_kek (ag_inner st') = in_kek (ag_inner st)"
    "in_active_alias (ag_inner st') = in_active_alias (ag_inner st)"
  using assms by (auto simp: get_active_profile_renewing_ttl_def Let_def)

lemma get_active_Some:
  "get_active_profile_renewing_ttl E st = (st', Some p) \<Longrightarrow> \<exists>s a. in_profile_set (ag_inner st) = Some s
     \<and> in_active_alias (ag_inner st) = Some a \<and> find_by_alias s a = Some p"
  by (auto simp: get_active_profile_renewing_ttl_def Let_def split: option.splits)

lemma list_remote_keeps:
  assumes "list_remote E prefix k n st = (st', r)"
  shows "in_profile_set (ag_inner st') = in_profile_set (ag_inner st)"
    and "in_active_alias (ag_inner st') = in_active_alias (ag_inner st)"
proof -
  have "in_profile_set (ag_inner st') = in_profile_set (ag_inner st)
      \<and> in_active_alias (ag_inner st') = in_active_alias (ag_inner st)"
    using assms
  proof (cases rule: list_remote_cases)
    case (Locked c)
    with get_active_keeps [OF Locked(2)] show ?thesis by simp
  next
    case (Failed c st2 p guard e)
    with get_active_keeps [OF Failed(2)] show ?thesis by simp
  next
    case (Listed c st2 p guard es)
    with get_active_keeps [OF Listed(2)] show ?thesis by simp
  qed simp
  then show "in_profile_set (ag_inner st') = in_profile_set (ag_inner st)"
    "in_active_alias (ag_inner st') = in_active_alias (ag_inner st)" by blast+
qed

lemma agent_ok_list [zz_inv]:
  assumes "list_remote E prefix k n st = (st', r)" and ok: "agent_ok st"
  shows "agent_ok st'"
proof -
  have c: "agent_ok (st\<lparr>ag_cache := c\<rparr>)" if "lc_get (ag_cache st) (ae_cache_get E) prefix k = (c, None)" for c
    using ok cache_ok_get [of "ag_cache st" "ae_cache_get E" prefix k] that
    by (auto simp: agent_ok_def caches_empty_def lc_get_def Let_def split: option.splits if_splits)
  from assms(1) show ?thesis
  proof (cases rule: list_remote_cases)
    case (Failed c st2 p guard e)
    with c have "agent_ok st2" by (blast intro: zz_inv)
    with Failed get_active_Some [OF Failed(2)] get_active_keeps [OF Failed(2)] show ?thesis
      by (auto simp: agent_ok_def)
  next
    case (Listed c st2 p guard es)
    with c have "agent_ok st2" by (blast intro: zz_inv)
    with Listed get_active_Some [OF Listed(2)] get_active_keeps [OF Listed(2)] show ?thesis
      by (auto simp: agent_ok_def intro!: cache_ok_put shaped_ok)
  qed (use c ok in \<open>auto intro: zz_inv\<close>)
qed

lemma agent_ok_dispatch [zz_inv]:
  assumes "dispatch E q st = (st', a)" and "agent_ok st"
  shows "agent_ok st'"
  using assms by (cases q) (auto intro: zz_inv split: if_splits prod.splits)

lemma agent_ok_exit [zz_inv]: "agent_ok st \<Longrightarrow> agent_ok (request_exit st)"
  by (auto simp: agent_ok_def request_exit_def caches_empty_def)

interpretation am: machine_invariant agent_start agent_step agent_ok
proof
  show "agent_ok st \<Longrightarrow> agent_step st st' \<Longrightarrow> agent_ok st'" for st st'
    by (erule agent_stepE) (auto intro: zz_inv)
qed (auto elim!: agent_startE intro: agent_ok_new)

section \<open>Connections and turns of the server are steps\<close>

lemma touch_dispatch_steps: "dispatch E' q (touch E st) = (st', a) \<Longrightarrow> agent_step\<^sup>*\<^sup>* st st'"
  by (meson agent_step.request agent_step.activity rtranclp.rtrancl_into_rtrancl rtranclp.rtrancl_refl)

text \<open>The request loop, turn by turn.\<close>

lemma serve_end: "read_frame r = (r1, Inl e) \<Longrightarrow> serve W E st r w = (st, w, Inr ())"
  by (subst serve.simps) simp

lemma serve_bad_body:
  "read_frame r = (r1, Inr b) \<Longrightarrow> decode_request_body W b = Inl e \<Longrightarrow> serve W E st r w = (st, w, Inl CeDecode)"
  by (subst serve.simps) simp

lemma serve_bad_answer:
  "read_frame r = (r1, Inr b) \<Longrightarrow> decode_request_body W b = Inr q \<Longrightarrow>
   dispatch (E 1) q (touch (E 0) st) = (st1, a) \<Longrightarrow> encode_response_body W a = Inl e \<Longrightarrow>
   serve W E st r w = (st1, w, Inl CeEncode)"
  by (subst serve.simps) simp

lemma serve_no_room:
  "read_frame r = (r1, Inr b) \<Longrightarrow> decode_request_body W b = Inr q \<Longrightarrow>
   dispatch (E 1) q (touch (E 0) st) = (st1, a) \<Longrightarrow> encode_response_body W a = Inr c \<Longrightarrow>
   write_frame w c = (w1, Inl e) \<Longrightarrow> serve W E st r w = (st1, w1, Inl CeIo)"
  by (subst serve.simps) simp

lemma serve_answered:
  "read_frame r = (r1, Inr b) \<Longrightarrow> decode_request_body W b = Inr q \<Longrightarrow>
   dispatch (E 1) q (touch (E 0) st) = (st1, a) \<Longrightarrow> encode_response_body W a = Inr c \<Longrightarrow>
   write_frame w c = (w1, Inr u) \<Longrightarrow>
   serve W E st r w = (if q = Exit then (request_exit st1, w1, Inr ()) else serve W (\<lambda>n. E (n + 2)) st1 r1 w1)"
  by (subst serve.simps) simp

lemma serve_steps: "agent_step\<^sup>*\<^sup>* st (fst (serve W E st r w))"
proof (induction "length (rd_bytes r)" arbitrary: E st r w rule: less_induct)
  case less
  obtain r1 f where rf: "read_frame r = (r1, f)" by fastforce
  show ?case
  proof (cases f)
    case (Inl e)
    with rf show ?thesis by (simp add: serve_end)
  next
    case (Inr b)
    note rf = rf [unfolded Inr]
    show ?thesis
    proof (cases "decode_request_body W b")
      case (Inl e)
      with rf show ?thesis by (simp add: serve_bad_body)
    next
      case q: (Inr q)
      obtain st1 a where d: "dispatch (E 1) q (touch (E 0) st) = (st1, a)" by fastforce
      have st1: "agent_step\<^sup>*\<^sup>* st st1" by (rule touch_dispatch_steps [OF d])
      show ?thesis
      proof (cases "encode_response_body W a")
        case (Inl e)
        with st1 show ?thesis by (simp add: serve_bad_answer [where E = E, OF rf q d])
      next
        case c: (Inr c)
        obtain w1 x where wf: "write_frame w c = (w1, x)" by fastforce
        have "agent_step\<^sup>*\<^sup>* st1 (fst (serve W (\<lambda>n. E (n + 2)) st1 r1 w1))"
          by (rule less) (rule read_frame_shrinks [OF rf])
        with st1 show ?thesis
          using serve_no_room [where E = E, OF rf q d c] serve_answered [where E = E, OF rf q d c] wf
          by (cases x) (auto intro: rtranclp_trans rtranclp.rtrancl_into_rtrancl agent_step.exit_asked)
      qed
    qed
  qed
qed

lemma handle_connection_steps:
  "agent_step\<^sup>*\<^sup>* st (fst (handle_connection W E peer uid token st r w))"
proof -
  have "agent_step\<^sup>*\<^sup>* st (fst (serve W E' (touch (E 0) st) r' w))" for E' r'
    by (rule converse_rtranclp_into_rtranclp [OF agent_step.activity serve_steps])
  then show ?thesis by (auto simp: handle_connection_def split: sum.splits prod.splits)
qed

lemma server_turn_steps: "agent_step\<^sup>*\<^sup>* st (fst (server_turn W idle uid token E conn st))"
proof -
  obtain st1 b where t: "check_ttl_and_lock (E 0) st = (st1, b)" by fastforce
  then have "agent_step\<^sup>*\<^sup>* st st1" by (blast intro: agent_step.ttl_check)
  with t handle_connection_steps show ?thesis
    by (auto simp: server_turn_def split: option.splits intro: rtranclp_trans)
qed

section \<open>Properties of the agent's states\<close>

definition wiped :: "agent \<Rightarrow> bool" where
  "wiped st \<longleftrightarrow> in_profile_set (ag_inner st) = None \<and> in_kek (ag_inner st) = None
     \<and> in_active_alias (ag_inner st) = None \<and> in_mtime_at_unlock (ag_inner st) = None
     \<and> in_unlocked_at (ag_inner st) = None \<and> caches_empty st"

definition active_profile :: "agent \<Rightarrow> plain_profile option" where
  "active_profile st =
     (case in_active_alias (ag_inner st) of None \<Rightarrow> None | Some a \<Rightarrow>
      case in_profile_set (ag_inner st) of None \<Rightarrow> None | Some s \<Rightarrow> find_by_alias s a)"

lemma active_profile_cong:
  "in_profile_set (ag_inner st1) = in_profile_set (ag_inner st2) \<Longrightarrow>
   in_active_alias (ag_inner st1) = in_active_alias (ag_inner st2) \<Longrightarrow> active_profile st1 = active_profile st2"
  by (simp only: active_profile_def)

lemma active_profile_other [simp]:
  "active_profile (st\<lparr>ag_slot := x\<rparr>) = active_profile st"
  "active_profile (st\<lparr>ag_cache := c\<rparr>) = active_profile st"
  "active_profile (st\<lparr>ag_disk := d\<rparr>) = active_profile st"
  by (rule active_profile_cong; simp)+

lemma agent_ok_wiped: "agent_ok st \<Longrightarrow> in_profile_set (ag_inner st) = None \<Longrightarrow> wiped st"
  by (simp add: agent_ok_def inner_ok_def wiped_def)

lemma get_active_profile: "snd (get_active_profile_renewing_ttl E st) = active_profile st"
  by (auto simp: get_active_profile_renewing_ttl_def active_profile_def Let_def split: option.splits)

text \<open>
  C2. However the server is driven, it keeps its secrets together: after any
  number of turns the container, its key and the unlock time are there together or
  not at all, without them nothing is cached and no provider client is open, and
  the active alias always names a profile of the container.
\<close>

theorem server_keeps_invariant:
  assumes "reachable st" and "server_turn W idle uid token E conn st = (st', x)"
  shows "reachable st'
    \<and> (in_profile_set (ag_inner st') = None \<longleftrightarrow> in_kek (ag_inner st') = None)
    \<and> (in_profile_set (ag_inner st') = None \<longleftrightarrow> in_unlocked_at (ag_inner st') = None)
    \<and> (in_profile_set (ag_inner st') = None \<longrightarrow> wiped st')
    \<and> (\<forall>a. in_active_alias (ag_inner st') = Some a \<longrightarrow> active_profile st' \<noteq> None)"
proof -
  have r: "reachable st'" using reaches_run [OF assms(1) server_turn_steps] assms(2) by (metis fst_conv)
  then have ok: "agent_ok st'" by (rule am.always)
  then have "inner_ok (ag_inner st')" by (simp add: agent_ok_def)
  with r show ?thesis using agent_ok_wiped [OF ok]
    by (auto simp: inner_ok_def active_profile_def split: option.splits dest: find_by_alias_ex)
qed

definition ex_env :: "nat \<Rightarrow> agent_env" where
  "ex_env now = \<lparr>ae_prims = ex_prims, ae_nonce = replicate 24 1, ae_io = io_all_ok (int now), ae_now = now,
     ae_cache_get = int now, ae_cache_put = int now, ae_hit_at = int now, ae_opens = (\<lambda>_. None),
     ae_list = (\<lambda>r segs. Inr [\<lparr>rm_name = (case r of AnyNextcloud nc \<Rightarrow> nc_username nc | _ \<Rightarrow> ''f''),
       rm_size = None, rm_is_directory = False\<rparr>])\<rparr>"

definition ex_agent :: agent where
  "ex_agent = agent_new (600 * nat NANOS) 0 ''/cfg/profiles-local.zz'' empty_disk"

lemma ex_agent_reachable: "reachable ex_agent"
  unfolding ex_agent_def by (rule reaches.start) (rule fresh)

theorem server_keeps_invariant_witness:
  "reachable (fst (server_turn ex_wire 0 0 [] ex_env None ex_agent))"
proof -
  obtain st' x where t: "server_turn ex_wire 0 0 [] ex_env None ex_agent = (st', x)" by fastforce
  with server_keeps_invariant [OF ex_agent_reachable t] show ?thesis by simp
qed

text \<open>
  C8. A locked agent gives nothing away and changes nothing: every request but
  an unlock leaves it locked and its files alone, and is answered with an error or
  an empty acknowledgement.
\<close>

theorem locked_agent_is_closed:
  assumes "reachable st" and l: "\<not> is_unlocked st" and d: "dispatch E q st = (st', a)"
    and q: "\<forall>s k al t. q \<noteq> Unlock s k al t"
  shows "\<not> is_unlocked st' \<and> ag_disk st' = ag_disk st
    \<and> a \<in> {Pong, Locked, Exited, Updated, Error NotUnlocked, StatusIs False None}
    \<and> (a = Updated \<longrightarrow> (\<exists>p. q = InvalidateRemote p))"
proof -
  have "agent_ok st" using assms(1) by (rule am.always)
  with l have w: "wiped st" by (auto simp: is_unlocked_def dest: agent_ok_wiped)
  have n: "in_profile_set (ag_inner st) = None" "in_active_alias (ag_inner st) = None" "in_unlocked_at (ag_inner st) = None"
    "lc_map (ag_cache st) = Map.empty"
    using w by (auto simp: wiped_def caches_empty_def)
  show ?thesis
  proof (cases q)
    case (ListRemote p k m)
    have "lc_get (ag_cache st) (ae_cache_get E) p k = (ag_cache st, None)" using n by (simp add: lc_get_def Let_def)
    with ListRemote d n show ?thesis
      by (auto simp: list_remote_def get_active_profile_renewing_ttl_def Let_def list_response_def is_unlocked_def)
  qed (use q d n in \<open>auto simp: is_unlocked_def get_active_profile_renewing_ttl_def Let_def update_profile_def
      update_profile_set_def set_active_alias_def update_response_def alias_response_def lock_agent_def locked_inner_def
      invalidate_remote_prefix_def ttl_remaining_secs_def\<close>)
qed

theorem locked_agent_is_closed_witness:
  "\<exists>st'. dispatch (ex_env 5) GetProfile ex_agent = (st', Error NotUnlocked) \<and> \<not> is_unlocked st'"
proof -
  have l: "\<not> is_unlocked ex_agent" by (simp add: ex_agent_def agent_new_def locked_inner_def is_unlocked_def)
  obtain st' a where d: "dispatch (ex_env 5) GetProfile ex_agent = (st', a)" by fastforce
  then have "a = Error NotUnlocked"
    by (auto simp: get_active_profile_renewing_ttl_def ex_agent_def agent_new_def locked_inner_def Let_def)
  with locked_agent_is_closed [OF ex_agent_reachable l d] d show ?thesis by simp
qed

section \<open>When the agent locks itself\<close>

text \<open>
  The life of an agent as a history: the requests it was given, with the time and whether
  the listing cache answered, and the times at which the loop checked the time to live.
\<close>

datatype agent_event = Asked nat agent_request bool | Checked nat






text \<open>
  What the documentation promises, in terms of the history alone. An accepted unlock
  grants access. It ends with a lock, and with a check that finds more than the time to
  live since the last renewal. An unlock renews, and so does every request for which the
  agent needs the profile: reading it, and a listing that the cache does not have.
\<close>

fun granted :: "agent_event \<Rightarrow> bool" where
  "granted (Asked t (Unlock s k a ttl) c) = contains_alias s a"
| "granted _ = False"

fun renewed_at :: "agent_event \<Rightarrow> nat list" where
  "renewed_at (Asked t (Unlock s k a ttl) c) = (if contains_alias s a then [t] else [])"
| "renewed_at (Asked t GetProfile c) = [t]"
| "renewed_at (Asked t (ListRemote p k n) c) = (if c then [] else [t])"
| "renewed_at _ = []"

fun ttl_given :: "agent_event \<Rightarrow> nat list" where
  "ttl_given (Asked t (Unlock s k a (Some ttl)) c) = (if contains_alias s a then [from_secs ttl] else [])"
| "ttl_given _ = []"

definition last_renewal :: "agent_event list \<Rightarrow> nat" where
  "last_renewal h = last (0 # concat (map renewed_at h))"

definition ttl_in_force :: "nat \<Rightarrow> agent_event list \<Rightarrow> nat" where
  "ttl_in_force ttl0 h = last (ttl0 # concat (map ttl_given h))"

fun ends_access :: "nat \<Rightarrow> agent_event list \<Rightarrow> agent_event \<Rightarrow> bool" where
  "ends_access ttl0 past (Checked t) = (ttl_in_force ttl0 past < t - last_renewal past)"
| "ends_access ttl0 past (Asked t q c) = (q = Lock)"

definition access :: "nat \<Rightarrow> agent_event list \<Rightarrow> bool" where
  "access ttl0 h \<longleftrightarrow> (\<exists>pre u post. h = pre @ u # post \<and> granted u
     \<and> (\<forall>mid e rest. post = mid @ e # rest \<longrightarrow> \<not> ends_access ttl0 (pre @ u # mid) e))"

lemma access_Nil [simp]: "\<not> access ttl0 []"
  by (simp add: access_def)


lemma last_renewal_snoc [simp]: "last_renewal (h @ [e]) = (if renewed_at e = [] then last_renewal h else last (renewed_at e))"
  by (simp add: last_renewal_def)

lemma ttl_in_force_snoc [simp]: "ttl_in_force ttl0 (h @ [e]) = (if ttl_given e = [] then ttl_in_force ttl0 h else last (ttl_given e))"
  by (simp add: ttl_in_force_def)










definition ex_key :: kek_payload where
  "ex_key = from_kek (ex_kek (replicate 16 0))"

definition ex_unlocked :: agent where
  "ex_unlocked = fst (dispatch (ex_env 0) (Unlock ex_set ex_key ''nc'' None) ex_agent)"

lemma ex_unlocked_eq:
  "ex_unlocked = unlock (ex_env 0) ex_set (into_kek ex_key) ''nc'' None ex_agent"
  by (simp add: ex_unlocked_def contains_alias_def ex_set_def ex_profile_def)


section \<open>The caches and the active profile\<close>

lemma persist_empties: "persist E s (drop_completion_caches st) = (st', r) \<Longrightarrow> caches_empty st'"
  by (simp add: caches_empty_def persist_keeps lc_clear_def)

lemma assign_by_alias_other:
  "assign_by_alias s (pp_alias p) p = Some t \<Longrightarrow> a \<noteq> pp_alias p \<Longrightarrow> find_by_alias t a = find_by_alias s a"
  by (simp add: assign_by_alias_find)

lemma caches_follow_profile_core:
  assumes d: "dispatch E q st = (st', a)" and q: "\<forall>s k al t. q \<noteq> Unlock s k al t"
    and c: "active_profile st' \<noteq> active_profile st"
  shows "caches_empty st'"
proof -
  have keep: "active_profile st1 = active_profile st2"
    if "in_profile_set (ag_inner st1) = in_profile_set (ag_inner st2)" "in_active_alias (ag_inner st1) = in_active_alias (ag_inner st2)"
    for st1 st2 unfolding active_profile_def that ..
  show ?thesis
  proof (cases q)
    case GetProfile
    with d obtain p where "get_active_profile_renewing_ttl E st = (st', p)" by (auto split: prod.splits)
    from get_active_keeps [OF this] c keep show ?thesis by blast
  next
    case (UpdateProfile p)
    with d obtain r where u: "update_profile E p st = (st', r)" by (auto split: prod.splits)
    show ?thesis
    proof (cases "in_profile_set (ag_inner st)")
      case (Some s)
      show ?thesis
      proof (cases "assign_by_alias s (pp_alias p) p")
        case t: (Some t)
        let ?st = "st\<lparr>ag_inner := (ag_inner st)\<lparr>in_profile_set := Some t\<rparr>\<rparr>"
        let ?st1 = "if in_active_alias (ag_inner st) = Some (pp_alias p) then drop_completion_caches ?st else ?st"
        have e: "persist E t ?st1 = (st', r)" using u Some t by (simp add: update_profile_def Let_def)
        have "in_active_alias (ag_inner st) = Some (pp_alias p)"
          using c persist_keeps [OF e] Some assign_by_alias_other [OF t]
          by (auto simp: active_profile_def split: option.splits if_splits)
        with persist_keeps [OF e] show ?thesis by (simp add: caches_empty_def lc_clear_def)
      next
        case None
        with u Some c show ?thesis by (simp add: update_profile_def del: assign_by_alias_None)
      qed
    qed (use u c in \<open>simp add: update_profile_def\<close>)
  next
    case (UpdateProfileSet s)
    with d obtain r where u: "update_profile_set E s st = (st', r)" by (auto split: prod.splits)
    with c show ?thesis
      by (auto simp: update_profile_set_def Let_def split: option.splits intro: persist_empties)
  next
    case (SetActiveAlias al)
    with d obtain r where u: "set_active_alias E al st = (st', r)" by (auto split: prod.splits)
    with c show ?thesis by (auto simp: set_active_alias_def split: option.splits if_splits)
  next
    case (ListRemote p k n)
    with d obtain r where "list_remote E p k n st = (st', r)" by (auto split: prod.splits)
    from keep [OF list_remote_keeps(1,2) [OF this]] c show ?thesis by blast
  next
    case (InvalidateRemote p)
    with d have "active_profile st' = active_profile st" by (intro keep) (auto simp: invalidate_remote_prefix_def)
    with c show ?thesis by blast
  next
    case Lock
    with d show ?thesis by (auto simp: lock_agent_def)
  qed (use d q c in simp_all)
qed

text \<open>
  C11. A request that changes which profile is active, or anything in it, leaves
  no cached listing and no open client of the old one: true of every request but
  an unlock.
\<close>

theorem caches_follow_profile:
  assumes d: "dispatch E q st = (st', a)" and q: "\<forall>s k al t. q \<noteq> Unlock s k al t"
    and c: "active_profile st' \<noteq> active_profile st"
  shows "caches_empty st'"
  using assms by (rule caches_follow_profile_core)

theorem caches_follow_profile_witness:
  "\<exists>st' a. dispatch (ex_env 1) (SetActiveAlias ''fut'') ex_unlocked = (st', a) \<and> caches_empty st'
     \<and> active_profile st' \<noteq> active_profile ex_unlocked"
proof -
  obtain st' a where d: "dispatch (ex_env 1) (SetActiveAlias ''fut'') ex_unlocked = (st', a)" by fastforce
  have "active_profile st' \<noteq> active_profile ex_unlocked"
    using d by (auto simp: ex_unlocked_eq unlock_def set_active_alias_def active_profile_def contains_alias_def
        find_by_alias_def ex_set_def ex_profile_def ex_nextcloud_def ex_foreign_def)
  with caches_follow_profile [OF d] d show ?thesis by simp
qed

text \<open>
  An unlock is the exception: it replaces the container, the key and the
  active profile but not the listings cached for the previous one. A listing that
  was cached and is still fresh is what a completion after the unlock is given,
  whatever the new profile is and however many results the client asks for.
\<close>

theorem unlock_serves_previous_listing:
  assumes "snd (lc_get (ag_cache st) (ae_cache_get E') prefix k) = Some h" and "contains_alias s al"
  shows "snd (dispatch E' (ListRemote prefix k n) (fst (dispatch E (Unlock s kek al ttl) st)))
       = RemoteList (ce_entries h) (epoch_secs (ce_fetched_at h)) (ce_truncated h)
    \<and> active_profile (fst (dispatch E (Unlock s kek al ttl) st)) = find_by_alias s al"
proof -
  obtain c where "lc_get (ag_cache st) (ae_cache_get E') prefix k = (c, Some h)"
    using assms(1) by (metis prod.collapse)
  with assms(2) show ?thesis
    by (simp add: list_remote_def unlock_def list_response_def active_profile_def)
qed

definition ex_listed :: agent where
  "ex_listed = fst (dispatch (ex_env 1) (ListRemote None FilterBoth 5) ex_unlocked)"

definition ex_other_set :: profile_set where
  "ex_other_set = \<lparr>ps_schema_version = 2, ps_profiles = [ex_profile ''other'' (Nextcloud
     \<lparr>nc_server_url = ''https://y'', nc_username = ''v'', nc_auth = AppPassword ''s2'', nc_remote_root = ''/''\<rparr>)]\<rparr>"

lemma ex_listed_cache:
  "lc_get (ag_cache ex_listed) 2 None FilterBoth = (ag_cache ex_listed,
     Some \<lparr>ce_fetched_at = 1, ce_entries = [\<lparr>re_name = ''u'', re_size = None, re_kind = RFile, re_mtime_secs = None\<rparr>],
       ce_truncated = False\<rparr>)"
  by (simp add: ex_listed_def ex_unlocked_eq list_remote_def unlock_def ex_agent_def agent_new_def lc_get_def
      lc_default_def Let_def get_active_profile_renewing_ttl_def find_by_alias_def ex_set_def ex_profile_def
      with_client_def build_remote_def opened_remote_def ex_nextcloud_def ex_env_def list_segments_def
      effective_cap_def MAX_LIST_RESULTS_def kind_matches_def shape_entry_def lc_put_def DEFAULT_TTL_def
      duration_since_def locked_inner_def)

theorem unlock_serves_previous_listing_witness:
  "snd (dispatch (ex_env 2) (ListRemote None FilterBoth 0) (fst (dispatch (ex_env 2) (Unlock ex_other_set ex_key ''other'' None) ex_listed)))
     = RemoteList [\<lparr>re_name = ''u'', re_size = None, re_kind = RFile, re_mtime_secs = None\<rparr>] 0 False"
  using unlock_serves_previous_listing [of ex_listed "ex_env 2" None FilterBoth _ ex_other_set "''other''" 0 "ex_env 2" ex_key None]
  by (simp add: ex_listed_cache ex_env_def ex_other_set_def contains_alias_def ex_profile_def epoch_secs_def)

text \<open>
  A completion is bounded and of the kind asked for, whether it comes from
  the provider or the cache: at most 200 entries, and only files or only
  directories when the filter says so. A failed listing is not cached.
\<close>

theorem listing_bounded:
  assumes "reachable st" and d: "dispatch E (ListRemote prefix k n) st = (st', a)"
  shows "(\<forall>es t tr. a = RemoteList es t tr \<longrightarrow> length es \<le> 200 \<and> list_all (kind_shown (kind_key_of k)) es)
    \<and> (\<forall>e key h. a = Error e \<and> lc_map (ag_cache st') key = Some h \<longrightarrow> lc_map (ag_cache st) key = Some h)"
proof -
  have ok: "cache_ok (ag_cache st)" using am.always [OF assms(1)] by (simp add: agent_ok_def)
  from d obtain r where l: "list_remote E prefix k n st = (st', r)" and a: "a = list_response r"
    by (auto split: prod.splits)
  have shrink: "lc_map c key = Some h \<Longrightarrow> lc_map (ag_cache st) key = Some h"
    if "lc_get (ag_cache st) (ae_cache_get E) prefix k = (c, None)" for c key h
    using that by (auto simp: lc_get_def Let_def split: option.splits if_splits)
  from l show ?thesis
  proof (cases rule: list_remote_cases)
    case (Hit h)
    then have "lc_map (ag_cache st) (make_key prefix k) = Some h"
      by (auto simp: lc_get_def Let_def split: option.splits if_splits)
    with ok have "length (ce_entries h) \<le> MAX_LIST_RESULTS \<and> list_all (kind_shown (ck_kind (make_key prefix k))) (ce_entries h)"
      unfolding cache_ok_def by blast
    then have "length (ce_entries h) \<le> 200" "list_all (kind_shown (kind_key_of k)) (ce_entries h)"
      by (simp_all add: MAX_LIST_RESULTS_def make_key_def)
    with Hit a show ?thesis by (auto simp: list_response_def)
  next
    case (Locked c)
    with a shrink get_active_keeps [OF Locked(2)] show ?thesis by (auto simp: list_response_def)
  next
    case (Failed c st2 p guard e)
    with a shrink get_active_keeps [OF Failed(2)] show ?thesis by (auto simp: list_response_def)
  next
    case (Listed c st2 p guard es)
    with a shaped_ok [where n = n and k = k and es = es] show ?thesis by (auto simp: list_response_def MAX_LIST_RESULTS_def)
  qed
qed

theorem listing_bounded_witness:
  "\<exists>st' a. dispatch (ex_env 1) (ListRemote None FilterBoth 5) ex_agent = (st', a)
     \<and> (\<forall>es t tr. a = RemoteList es t tr \<longrightarrow> length es \<le> 200)"
proof -
  obtain st' a where d: "dispatch (ex_env 1) (ListRemote None FilterBoth 5) ex_agent = (st', a)" by fastforce
  with listing_bounded [OF ex_agent_reachable d] show ?thesis by blast
qed

text \<open>
  Sessions in which an unlock is only served to a locked agent: what the command
  line does except for a repeated unlock command.
\<close>

inductive orderly_step :: "agent \<Rightarrow> agent \<Rightarrow> bool" where
  request: "dispatch E q st = (st', a) \<Longrightarrow> (\<forall>s k al t. q = Unlock s k al t \<longrightarrow> \<not> is_unlocked st)
     \<Longrightarrow> orderly_step st st'"
| activity: "orderly_step st (touch E st)"
| ttl_check: "check_ttl_and_lock E st = (st', b) \<Longrightarrow> orderly_step st st'"
| exit_asked: "orderly_step st (request_exit st)"

definition remote_of :: "plain_profile \<Rightarrow> any_remote option" where
  "remote_of p = (case pp_providers p of
     Nextcloud x # _ \<Rightarrow> Some (AnyNextcloud x) | GoogleDrive x # _ \<Rightarrow> Some (AnyGoogleDrive x)
   | OneDrive x # _ \<Rightarrow> Some (AnyOneDrive x) | Dropbox x # _ \<Rightarrow> Some (AnyDropbox x) | _ \<Rightarrow> None)"

definition slot_coherent :: "agent \<Rightarrow> bool" where
  "slot_coherent st \<longleftrightarrow> (\<forall>sl. ag_slot st = Some sl \<longrightarrow>
     (\<exists>p. active_profile st = Some p \<and> sl_profile_id sl = pp_profile_id p \<and> remote_of p = Some (sl_client sl)))"

lemma build_remote_Inr: "build_remote E p = Inr r \<Longrightarrow> remote_of p = Some r"
  by (auto simp: build_remote_def remote_of_def opened_remote_def split: list.splits provider_profile.splits option.splits)

lemma with_client_coherent:
  assumes "with_client E g p f = (g', r)"
    and "\<forall>sl. g = Some sl \<longrightarrow> sl_profile_id sl = pp_profile_id p \<and> remote_of p = Some (sl_client sl)"
  shows "(\<forall>sl. g' = Some sl \<longrightarrow> sl_profile_id sl = pp_profile_id p \<and> remote_of p = Some (sl_client sl))
    \<and> (\<forall>x. r = Inr x \<longrightarrow> (\<exists>c. remote_of p = Some c \<and> x = f c))"
  using assms by (auto simp: with_client_def Let_def dest: build_remote_Inr split: option.splits sum.splits)

lemma slot_coherent_list:
  assumes "list_remote E prefix k n st = (st', r)" and co: "slot_coherent st"
  shows "slot_coherent st'
    \<and> (snd (lc_get (ag_cache st) (ae_cache_get E) prefix k) = None \<longrightarrow> (\<forall>h. r = Inr h \<longrightarrow>
        (\<exists>p c es. active_profile st = Some p \<and> remote_of p = Some c \<and> ae_list E c (list_segments prefix) = Inr es
          \<and> ce_entries h = take (min (unat n) 200) (map shape_entry (filter (kind_matches k) es))
          \<and> (ce_truncated h \<longleftrightarrow> min (unat n) 200 < length es))))"
proof -
  have act: "active_profile st2 = active_profile st \<and> x = active_profile st \<and> ag_slot st2 = ag_slot st"
    if "get_active_profile_renewing_ttl E (st\<lparr>ag_cache := c\<rparr>) = (st2, x)" for c st2 x
  proof -
    have "active_profile (st\<lparr>ag_cache := c\<rparr>) = active_profile st" by (rule active_profile_cong) simp_all
    moreover have "active_profile st2 = active_profile (st\<lparr>ag_cache := c\<rparr>)"
      using get_active_keeps [OF that] by (intro active_profile_cong) simp_all
    ultimately show ?thesis
      using get_active_profile [of E "st\<lparr>ag_cache := c\<rparr>"] that get_active_keeps [OF that] by simp
  qed
  have slot2: "\<forall>sl. ag_slot st2 = Some sl \<longrightarrow> sl_profile_id sl = pp_profile_id p \<and> remote_of p = Some (sl_client sl)"
    if "get_active_profile_renewing_ttl E (st\<lparr>ag_cache := c\<rparr>) = (st2, Some p)" for c st2 p
    using act [OF that] co by (auto simp: slot_coherent_def)
  from assms(1) show ?thesis
  proof (cases rule: list_remote_cases)
    case (Locked c)
    with act [OF Locked(2)] co show ?thesis by (simp add: slot_coherent_def)
  next
    case (Failed c st2 p guard e)
    obtain x where "with_client E (ag_slot st2) p (\<lambda>client. ae_list E client (list_segments prefix)) = (guard, x)"
      using Failed(3) by (metis prod.collapse)
    note w = with_client_coherent [OF this slot2 [OF Failed(2)]]
    have "active_profile st' = Some p"
      using act [OF Failed(2)] Failed(4) active_profile_cong [of st' st2] by simp
    with w Failed show ?thesis by (auto simp: slot_coherent_def)
  next
    case (Listed c st2 p guard es)
    note w = with_client_coherent [OF Listed(3) slot2 [OF Listed(2)]]
    have p: "active_profile st' = Some p" "active_profile st = Some p"
      using act [OF Listed(2)] Listed(4) active_profile_cong [of st' st2] by simp_all
    from w p(1) Listed(4) have "slot_coherent st'" by (simp add: slot_coherent_def)
    moreover from w obtain r where "remote_of p = Some r" "ae_list E r (list_segments prefix) = Inr es" by auto
    ultimately show ?thesis using p(2) Listed(5) by (auto simp: effective_cap_def MAX_LIST_RESULTS_def)
  qed (use co in simp)
qed

lemma slot_coherent_empty: "caches_empty st \<Longrightarrow> slot_coherent st"
  by (simp add: slot_coherent_def caches_empty_def)

lemma slot_coherent_same:
  "ag_slot st' = ag_slot st \<or> ag_slot st' = None \<Longrightarrow> active_profile st' = active_profile st \<Longrightarrow> slot_coherent st \<Longrightarrow> slot_coherent st'"
  by (auto simp: slot_coherent_def)

lemma slot_coherent_dispatch:
  assumes d: "dispatch E q st = (st', a)" and q: "\<forall>s k al t. q = Unlock s k al t \<longrightarrow> \<not> is_unlocked st"
    and ok: "agent_ok st" and co: "slot_coherent st"
  shows "slot_coherent st'"
proof (cases "\<exists>s k al t. q = Unlock s k al t")
  case True
  then obtain s k al t where u: "q = Unlock s k al t" by blast
  with q ok have "caches_empty st" by (auto simp: is_unlocked_def wiped_def dest: agent_ok_wiped)
  with u d have "caches_empty st'" by (auto simp: unlock_def caches_empty_def split: if_splits)
  then show ?thesis by (rule slot_coherent_empty)
next
  case nu: False
  show ?thesis
  proof (cases "active_profile st' = active_profile st")
    case False
    with caches_follow_profile_core [OF d] nu show ?thesis by (blast intro: slot_coherent_empty)
  next
    case same: True
    show ?thesis
    proof (cases "\<exists>p k n. q = ListRemote p k n")
      case True
      with d slot_coherent_list [OF _ co] show ?thesis by (auto split: prod.splits)
    next
      case False
      with d nu have "ag_slot st' = ag_slot st \<or> ag_slot st' = None"
        by (cases q) (auto simp: lock_agent_def invalidate_remote_prefix_def update_profile_def update_profile_set_def
            set_active_alias_def Let_def persist_keeps get_active_keeps split: option.splits if_splits prod.splits)
      then show ?thesis by (rule slot_coherent_same [OF _ same co])
    qed
  qed
qed

interpretation om: machine_invariant agent_start orderly_step "\<lambda>st. agent_ok st \<and> slot_coherent st"
proof
  show "agent_ok st \<and> slot_coherent st" if "agent_start st" for st
    using that by (auto elim!: agent_startE intro: agent_ok_new simp: slot_coherent_def agent_new_def)
  show "agent_ok st' \<and> slot_coherent st'" if g: "agent_ok st \<and> slot_coherent st" and "orderly_step st st'" for st st'
    using that(2)
  proof (cases rule: orderly_step.cases)
    case (request E q a)
    with g slot_coherent_dispatch [OF request(1,2)] show ?thesis by (blast intro: agent_ok_dispatch)
  next
    case (activity E)
    have "slot_coherent (touch E st)"
      by (rule slot_coherent_same [of _ st]) (use g in \<open>auto simp: touch_def intro: active_profile_cong\<close>)
    with activity g show ?thesis by (blast intro: agent_ok_touch)
  next
    case (ttl_check E b)
    have "slot_coherent st'"
      using ttl_check g by (auto simp: check_ttl_and_lock_def intro: slot_coherent_empty split: option.splits if_splits)
    with ttl_check g show ?thesis by (blast intro: agent_ok_ttl)
  next
    case exit_asked
    have "slot_coherent (request_exit st)"
      by (rule slot_coherent_same [of _ st]) (use g in \<open>auto simp: request_exit_def intro: active_profile_cong\<close>)
    with exit_asked g show ?thesis by (blast intro: agent_ok_exit)
  qed
qed

text \<open>
  As long as no unlock is served to an agent that is already unlocked, a
  listing that is not in the cache is always fetched with a client opened from the
  first provider of the active profile, and the answer is that provider's entries
  of the wanted kind, cut at the smaller of the client's limit and 200.
\<close>

theorem listing_uses_active_profile:
  assumes r: "reaches agent_start orderly_step st"
    and m: "snd (lc_get (ag_cache st) (ae_cache_get E) prefix k) = None"
    and d: "dispatch E (ListRemote prefix k n) st = (st', RemoteList shown t truncated)"
  shows "\<exists>p c es. active_profile st = Some p \<and> remote_of p = Some c \<and> ae_list E c (list_segments prefix) = Inr es
    \<and> shown = take (min (unat n) 200) (map shape_entry (filter (kind_matches k) es))
    \<and> (truncated \<longleftrightarrow> min (unat n) 200 < length es)"
proof -
  from om.always [OF r] have co: "slot_coherent st" by blast
  from d obtain x where l: "list_remote E prefix k n st = (st', x)" and x: "list_response x = RemoteList shown t truncated"
    by (auto split: prod.splits)
  then obtain h where "x = Inr h" "shown = ce_entries h" "truncated = ce_truncated h"
    by (auto simp: list_response_def split: sum.splits list_error.splits)
  with slot_coherent_list [OF l co] m show ?thesis by blast
qed

theorem listing_uses_active_profile_witness:
  "\<exists>p c es. active_profile ex_unlocked = Some p \<and> remote_of p = Some c \<and> ae_list (ex_env 1) c [] = Inr es
     \<and> [\<lparr>re_name = ''u'', re_size = None, re_kind = RFile, re_mtime_secs = None\<rparr>] = take 5 (map shape_entry es)"
proof -
  have "orderly_step ex_agent ex_unlocked"
    unfolding ex_unlocked_def
    by (rule orderly_step.request [of "ex_env 0" "Unlock ex_set ex_key ''nc'' None" _ _ "snd (dispatch (ex_env 0) (Unlock ex_set ex_key ''nc'' None) ex_agent)"])
      (simp_all add: is_unlocked_def ex_agent_def agent_new_def locked_inner_def)
  moreover have "agent_start ex_agent" by (simp add: ex_agent_def fresh)
  ultimately have r: "reaches agent_start orderly_step ex_unlocked" by (blast intro: reaches.intros)
  have m: "snd (lc_get (ag_cache ex_unlocked) (ae_cache_get (ex_env 1)) None FilterBoth) = None"
    by (simp add: ex_unlocked_eq unlock_def ex_agent_def agent_new_def lc_default_def lc_get_def Let_def)
  have "dispatch (ex_env 1) (ListRemote None FilterBoth 5) ex_unlocked
      = (ex_listed, RemoteList [\<lparr>re_name = ''u'', re_size = None, re_kind = RFile, re_mtime_secs = None\<rparr>] 0 False)"
    unfolding ex_listed_def
    by (simp add: ex_unlocked_eq list_remote_def unlock_def ex_agent_def agent_new_def lc_get_def
      lc_default_def Let_def get_active_profile_renewing_ttl_def find_by_alias_def ex_set_def ex_profile_def
      with_client_def build_remote_def opened_remote_def ex_nextcloud_def ex_env_def list_segments_def
      effective_cap_def MAX_LIST_RESULTS_def kind_matches_def shape_entry_def lc_put_def DEFAULT_TTL_def
      duration_since_def locked_inner_def list_response_def epoch_secs_def)
  from listing_uses_active_profile [OF r m this] show ?thesis
    by (auto simp: list_segments_def kind_matches_def)
qed

end
