(* ===== verification/Agent_Serve.thy ===== *)
theory Agent_Serve
  imports Agent_Props
begin

text \<open>
  What the agent does to the outside: the container file after an update, whose
  writer implements atomic replacement, and the bytes a connection answers.
\<close>

section \<open>The container file of the agent\<close>

lemma persist_files_outcome:
  assumes p: "persist_files pl d path s = (d', r)" and ne: "with_extension path ''zz.tmp'' \<noteq> path"
  shows "only_old_or_new d d' path (\<lambda>f. f_data f = s \<and> f_mode f = MODE_0600)"
    and "r = Inr () \<Longrightarrow> \<exists>f. d_files d' path = Some f \<and> f_data f = s \<and> f_mode f = MODE_0600"
    and "r \<noteq> Inr () \<Longrightarrow> d_files d' path = d_files d path"
proof -
  define tmp where "tmp = with_extension path ''zz.tmp''"
  have ne': "path \<noteq> tmp" using ne by (simp add: tmp_def)
  note p' = p [unfolded persist_files_def, folded tmp_def]
  show "only_old_or_new d d' path (\<lambda>f. f_data f = s \<and> f_mode f = MODE_0600)"
    and "r = Inr () \<Longrightarrow> \<exists>f. d_files d' path = Some f \<and> f_data f = s \<and> f_mode f = MODE_0600"
    and "r \<noteq> Inr () \<Longrightarrow> d_files d' path = d_files d path"
    using p' ne'
    by (auto simp: fs_defs Let_def only_old_or_new_def split: if_splits write_outcome.splits)
qed

interpretation agent_write: atomic_replacement persist_files "\<lambda>path. with_extension path ''zz.tmp'' \<noteq> path"
  by unfold_locales (auto intro: persist_files_outcome(1,2) persist_files_outcome(3) [simplified])

text \<open>The temporary file of the agent's container.\<close>

lemma container_tmp: "with_extension (dir @ ''/profiles-local.zz'') ''zz.tmp'' = dir @ ''/profiles-local.zz.tmp''"
  by (simp add: with_extension_def file_name_def file_stem_def Let_def)

section \<open>Updates reach the disk\<close>

definition load_file :: "prims \<Rightarrow> string \<Rightarrow> string option \<Rightarrow> (crypto_error, profile_set \<times> profile_kek) result" where
  "load_file P pw data = rbind (ok_or CryptoIo data) (\<lambda>envelope. decrypt_set P envelope pw)"

lemma load_set_zz_file: "load_set_zz P d path pw = load_file P pw (map_option f_data (d_files d path))"
  by (simp add: load_set_zz_def load_file_def)

lemma persist_cases:
  assumes "persist E s st = (st', r)" and k: "in_kek (ag_inner st) = Some kek"
  shows "(ag_disk st' = ag_disk st \<and> (\<exists>e. r = Inl e))
    \<or> (\<exists>env. encrypt_set_with_kek (ae_prims E) (ae_nonce E) s kek = Inr env
         \<and> persist_files (ae_io E) (ag_disk st) (ag_path st) env = (ag_disk st', r))"
  using assms by (auto simp: persist_def Let_def split: sum.splits prod.splits option.splits)

lemma persist_atomic:
  assumes p: "persist E s st = (st', r)" and k: "in_kek (ag_inner st) = Some kek"
    and path: "ag_path st = dir @ ''/profiles-local.zz''"
    and ok: "prims_ok (ae_prims E)" "length (ae_nonce E) = NONCE_LEN" "kek_derives (ae_prims E) pw kek"
      "storable (ae_prims E) s"
    and old: "load_set_zz (ae_prims E) (ag_disk st) (ag_path st) pw = Inr old"
  shows "load_set_zz (ae_prims E) (ag_disk st') (ag_path st) pw = Inr (if r = Inr () then (s, kek) else old)
    \<and> (\<exists>ts. d_trace (ag_disk st') = d_trace (ag_disk st) @ ts \<and>
         (\<forall>fs \<in> set ts. load_set_zz (ae_prims E) ((ag_disk st)\<lparr>d_files := fs\<rparr>) (ag_path st) pw \<in> {Inr old, Inr (s, kek)}))"
  using persist_cases [OF p k]
proof (elim disjE)
  assume "\<exists>env. encrypt_set_with_kek (ae_prims E) (ae_nonce E) s kek = Inr env
         \<and> persist_files (ae_io E) (ag_disk st) (ag_path st) env = (ag_disk st', r)"
  then obtain env where e: "encrypt_set_with_kek (ae_prims E) (ae_nonce E) s kek = Inr env"
    and w: "persist_files (ae_io E) (ag_disk st) (ag_path st) env = (ag_disk st', r)" by blast
  have a: "with_extension (ag_path st) ''zz.tmp'' \<noteq> ag_path st" unfolding path by (simp add: container_tmp)
  have n: "load_file (ae_prims E) pw (Some env) = Inr (s, kek)"
    using sc.open_sealed [OF ok(1,4,2,3) e] by (simp add: load_file_def)
  from agent_write.crash_readings [OF a w old [unfolded load_set_zz_file] n]
    agent_write.final_reading [OF a w old [unfolded load_set_zz_file] n]
  show ?thesis by (simp add: load_set_zz_file)
qed (use old in auto)

text \<open>What the two update requests have in common: they fail early or write back.\<close>

lemma update_writes_back:
  assumes q: "q = UpdateProfile p \<or> q = UpdateProfileSet s" and d: "dispatch E q st = (st', a)"
  shows "(st' = st \<and> a \<noteq> Updated) \<or> (\<exists>st1 t r. persist E t st1 = (st', r) \<and> a = update_response r
      \<and> in_profile_set (ag_inner st1) = Some t \<and> in_kek (ag_inner st1) = in_kek (ag_inner st)
      \<and> ag_path st1 = ag_path st \<and> ag_disk st1 = ag_disk st)"
proof (cases "in_profile_set (ag_inner st)")
  case None
  with q d show ?thesis by (auto simp: update_profile_def update_profile_set_def update_response_def)
next
  case (Some t0)
  from q show ?thesis
  proof
    assume "q = UpdateProfile p"
    with d obtain r where u: "update_profile E p st = (st', r)" "a = update_response r" by (auto split: prod.splits)
    show ?thesis
    proof (cases "assign_by_alias t0 (pp_alias p) p")
      case None
      with u \<open>in_profile_set (ag_inner st) = Some t0\<close> show ?thesis
        by (auto simp: update_profile_def update_response_def simp del: assign_by_alias_None)
    next
      case t: (Some t)
      let ?st = "st\<lparr>ag_inner := (ag_inner st)\<lparr>in_profile_set := Some t\<rparr>\<rparr>"
      let ?st1 = "if in_active_alias (ag_inner st) = Some (pp_alias p) then drop_completion_caches ?st else ?st"
      from u t Some have "persist E t ?st1 = (st', r)" by (simp add: update_profile_def Let_def)
      with u show ?thesis by (intro disjI2 exI [of _ ?st1] exI [of _ t] exI [of _ r]) auto
    qed
  next
    assume "q = UpdateProfileSet s"
    with d obtain r where u: "update_profile_set E s st = (st', r)" "a = update_response r" by (auto split: prod.splits)
    with Some obtain i where i: "persist E s (drop_completion_caches (st\<lparr>ag_inner := i\<rparr>)) = (st', r)"
      "in_profile_set i = Some s" "in_kek i = in_kek (ag_inner st)"
      by (auto simp: update_profile_set_def Let_def)
    with u show ?thesis
      by (intro disjI2 exI [of _ "drop_completion_caches (st\<lparr>ag_inner := i\<rparr>)"] exI [of _ s] exI [of _ r]) auto
  qed
qed

text \<open>
  C3. An update is atomic on disk: if the container file opens under the
  passphrase before it, then at every point where a crash could strike it opens to
  the old container or to the updated one the agent now holds, and it is the
  updated one exactly when the client is told so.
\<close>

theorem update_is_atomic:
  assumes ok: "prims_ok (ae_prims E)" "length (ae_nonce E) = NONCE_LEN" "kek_derives (ae_prims E) pw kek"
    and k: "in_kek (ag_inner st) = Some kek" and path: "ag_path st = dir @ ''/profiles-local.zz''"
    and old: "load_set_zz (ae_prims E) (ag_disk st) (ag_path st) pw = Inr old"
    and q: "q = UpdateProfile p \<or> q = UpdateProfileSet s"
    and d: "dispatch E q st = (st', a)"
    and new: "in_profile_set (ag_inner st') = Some s'" "storable (ae_prims E) s'"
  shows "load_set_zz (ae_prims E) (ag_disk st') (ag_path st) pw = Inr (if a = Updated then (s', kek) else old)
    \<and> (\<exists>ts. d_trace (ag_disk st') = d_trace (ag_disk st) @ ts \<and>
         (\<forall>fs \<in> set ts. load_set_zz (ae_prims E) ((ag_disk st)\<lparr>d_files := fs\<rparr>) (ag_path st) pw \<in> {Inr old, Inr (s', kek)}))"
  using update_writes_back [OF q d]
proof (elim disjE exE conjE)
  fix st1 t r
  assume p: "persist E t st1 = (st', r)" and a: "a = update_response r"
    and f: "in_profile_set (ag_inner st1) = Some t" "in_kek (ag_inner st1) = in_kek (ag_inner st)"
      "ag_path st1 = ag_path st" "ag_disk st1 = ag_disk st"
  have "update_response r = Updated \<longleftrightarrow> r = Inr ()"
    by (auto simp: update_response_def split: sum.splits update_error.splits)
  moreover have "t = s'" using persist_keeps(4) [OF p] f(1) new(1) by simp
  moreover have "in_kek (ag_inner st1) = Some kek" using f(2) k by simp
  ultimately show ?thesis using persist_atomic [OF p _ _ ok(1,2,3), of dir old] new(2) old path f(3,4) a by simp
qed (use old in auto)

text \<open>An agent whose container is on disk, sealed under the key it holds.\<close>

definition ex_sealed :: "string \<Rightarrow> agent" where
  "ex_sealed env = ex_unlocked\<lparr>ag_disk := \<lparr>d_files = [''/cfg/profiles-local.zz'' \<mapsto>
     \<lparr>f_data = env, f_mode = MODE_0600, f_mtime = 0\<rparr>], d_trace = []\<rparr>\<rparr>"

lemma ex_kek_derives: "kek_derives ex_prims ''pw'' (ex_kek (replicate 16 0))"
  using ex_validate(1) by (simp add: kek_derives_def ex_kek_def derive_key_def SALT_LEN_def ex_prims_def)

lemma ex_other_storable: "storable ex_prims ex_other_set"
  by (auto simp: storable_def canonical_set_def canonical_provider_def ex_other_set_def ex_profile_def
      PROFILE_SET_SCHEMA_V2_def ex_prims_def)

theorem update_is_atomic_witness:
  "\<exists>env st' a. dispatch (ex_env 3) (UpdateProfileSet ex_other_set) (ex_sealed env) = (st', a)
     \<and> load_set_zz ex_prims (ag_disk st') ''/cfg/profiles-local.zz'' ''pw''
         = Inr (if a = Updated then (ex_other_set, ex_kek (replicate 16 0)) else (ex_set, ex_kek (replicate 16 0)))"
proof -
  obtain env where e: "encrypt_set_with_kek ex_prims (replicate 24 1) ex_set (ex_kek (replicate 16 0)) = Inr env"
    using ex_set_plaintext by (auto simp: encrypt_set_with_kek_def aead_encrypt_def ex_prims_def)
  let ?st = "ex_sealed env"
  have n: "length (ae_nonce (ex_env 3)) = NONCE_LEN" "length (replicate 24 1 :: bytes) = NONCE_LEN"
    by (simp_all add: ex_env_def NONCE_LEN_def)
  have f: "ag_path ?st = ''/cfg'' @ ''/profiles-local.zz''" "in_kek (ag_inner ?st) = Some (ex_kek (replicate 16 0))"
    "in_profile_set (ag_inner ?st) = Some ex_set"
    by (simp_all add: ex_sealed_def ex_unlocked_eq unlock_def ex_agent_def agent_new_def ex_key_def)
  have "decrypt_set ex_prims env ''pw'' = Inr (ex_set, ex_kek (replicate 16 0))"
    by (rule sc.open_sealed [OF ex_prims_ok ex_set_storable n(2) ex_kek_derives e])
  then have old: "load_set_zz ex_prims (ag_disk ?st) (ag_path ?st) ''pw'' = Inr (ex_set, ex_kek (replicate 16 0))"
    unfolding f(1) by (simp add: load_set_zz_def ex_sealed_def)
  obtain st' a where d: "dispatch (ex_env 3) (UpdateProfileSet ex_other_set) ?st = (st', a)" by fastforce
  then have new: "in_profile_set (ag_inner st') = Some ex_other_set"
    using f(3) by (auto simp: update_profile_set_def Let_def persist_keeps split: prod.splits)
  have P: "ae_prims (ex_env 3) = ex_prims" by (simp add: ex_env_def)
  from update_is_atomic [where E = "ex_env 3", unfolded P, OF ex_prims_ok n(1) ex_kek_derives f(2,1) old _ d new ex_other_storable]
  have "load_set_zz ex_prims (ag_disk st') (ag_path ?st) ''pw''
      = Inr (if a = Updated then (ex_other_set, ex_kek (replicate 16 0)) else (ex_set, ex_kek (replicate 16 0)))" by blast
  then have "load_set_zz ex_prims (ag_disk st') ''/cfg/profiles-local.zz'' ''pw''
      = Inr (if a = Updated then (ex_other_set, ex_kek (replicate 16 0)) else (ex_set, ex_kek (replicate 16 0)))"
    unfolding f(1) by simp
  with d show ?thesis by blast
qed

section \<open>Connections\<close>

text \<open>
  C9. Nobody is served who is not the agent's own user or does not begin with
  its token: unless the peer has the expected user id and the first frame is
  exactly the token, nothing is written, and the agent's state is untouched.
\<close>

theorem unauthorized_untouched:
  assumes "peer \<noteq> Inr uid \<or> snd (read_frame r) \<noteq> Inr token \<or> length token \<noteq> TOKEN_LEN"
  shows "handle_connection W E peer uid token st r w = (st, w, Inl CeUnauthorized)"
  using assms
  by (auto simp: handle_connection_def check_peer_uid_def token_matches_def rbind_def rmap_err_def
      split: sum.splits prod.splits if_splits)

theorem unauthorized_untouched_witness:
  "handle_connection ex_wire ex_env (Inr 1000) 1000 (replicate 32 7) ex_unlocked
     \<lparr>rd_bytes = [0, 0, 0, 1, 7, 0, 0, 0, 2, 1, 1], rd_error = None\<rparr>
     \<lparr>wr_bytes = [], wr_room = None, wr_error = []\<rparr>
   = (ex_unlocked, \<lparr>wr_bytes = [], wr_room = None, wr_error = []\<rparr>, Inl CeUnauthorized)"
proof (rule unauthorized_untouched)
  have "snd (read_frame \<lparr>rd_bytes = [0, 0, 0, 1, 7, 0, 0, 0, 2, 1, 1], rd_error = None\<rparr>) = Inr [7]"
    by (simp add: read_frame_def read_exact_def from_be_bytes_def FRAME_LIMIT_def Let_def)
  moreover have "[7] \<noteq> (replicate 32 7 :: bytes)" by (rule notI, drule arg_cong [of _ _ length]) simp
  ultimately show "Inr 1000 \<noteq> (Inr 1000 :: (string, u32) result)
      \<or> snd (read_frame \<lparr>rd_bytes = [0, 0, 0, 1, 7, 0, 0, 0, 2, 1, 1], rd_error = None\<rparr>) \<noteq> Inr (replicate 32 7)
      \<or> length (replicate 32 7 :: bytes) \<noteq> TOKEN_LEN" by simp
qed

text \<open>The requests of a connection, served one after the other.\<close>

fun answers :: "(nat \<Rightarrow> agent_env) \<Rightarrow> agent \<Rightarrow> agent_request list \<Rightarrow> agent \<times> agent_response list" where
  "answers E st [] = (st, [])"
| "answers E st (q # qs) =
     (let (st1, a) = dispatch (E 1) q (touch (E 0) st);
          (st2, as) = answers (\<lambda>n. E (n + 2)) st1 qs
      in (st2, a # as))"

lemma write_frame_room:
  "wr_room w = None \<Longrightarrow> frame_payload p = Inr f \<Longrightarrow> write_frame w p = (w\<lparr>wr_bytes := wr_bytes w @ f\<rparr>, Inr ())"
  by (auto simp: write_frame_def frame_payload_def write_all_def)

lemma serve_answers:
  assumes W: "wire_ok W" and "list_all2 (\<lambda>q f. encode_request W q = Inr f) qs fs" and "Exit \<notin> set qs"
    and "answers E st qs = (st', as)" and "list_all2 (\<lambda>a g. encode_response W a = Inr g) as gs" and "wr_room w = None"
  shows "serve W E st \<lparr>rd_bytes = concat fs, rd_error = None\<rparr> w = (st', w\<lparr>wr_bytes := wr_bytes w @ concat gs\<rparr>, Inr ())"
  using assms(2-)
proof (induction qs fs arbitrary: E st as gs w rule: list_all2_induct)
  case Nil
  have "read_frame \<lparr>rd_bytes = [], rd_error = None\<rparr> = (\<lparr>rd_bytes = [], rd_error = None\<rparr>, Inl Truncated)"
    by (simp add: read_frame_def read_exact_def)
  with Nil show ?case by (simp add: serve_end)
next
  case (Cons q qs f fs)
  obtain st1 a where d: "dispatch (E 1) q (touch (E 0) st) = (st1, a)" by fastforce
  with Cons.prems obtain as1 where as1: "answers (\<lambda>n. E (n + 2)) st1 qs = (st', as1)" "as = a # as1"
    by (auto split: prod.splits)
  with Cons.prems obtain g gs1 where g: "gs = g # gs1" "encode_response W a = Inr g"
    "list_all2 (\<lambda>a g. encode_response W a = Inr g) as1 gs1" by (auto simp: list_all2_Cons1)
  from \<open>encode_request W q = Inr f\<close> obtain b where b: "encode_request_body W q = Inr b" "frame_payload b = Inr f"
    by (auto simp: encode_request_def)
  from g(2) obtain c where c: "encode_response_body W a = Inr c" "frame_payload c = Inr g"
    by (auto simp: encode_response_def)
  have r: "read_frame \<lparr>rd_bytes = concat (f # fs), rd_error = None\<rparr> = (\<lparr>rd_bytes = concat fs, rd_error = None\<rparr>, Inr b)"
    using read_frame_payload [OF b(2)] by simp
  have q: "decode_request_body W b = Inr q" by (rule vq.body_back [OF W b(1)])
  have "serve W E st \<lparr>rd_bytes = concat (f # fs), rd_error = None\<rparr> w
      = serve W (\<lambda>n. E (n + 2)) st1 \<lparr>rd_bytes = concat fs, rd_error = None\<rparr> (w\<lparr>wr_bytes := wr_bytes w @ g\<rparr>)"
    using serve_answered [where E = E, OF r q d c(1) write_frame_room [OF Cons.prems(4) c(2)]] Cons.prems(1) by auto
  also have "\<dots> = (st', w\<lparr>wr_bytes := (wr_bytes w @ g) @ concat gs1\<rparr>, Inr ())"
    using Cons.IH [OF _ as1(1) g(3), of "w\<lparr>wr_bytes := wr_bytes w @ g\<rparr>"] Cons.prems by simp
  finally show ?case using g(1) by simp
qed

text \<open>
  C7. A connection answers every request, in order: the peer that authenticates
  and sends the frames of some requests finds on the stream exactly the frames of
  their responses, those of serving the requests one after the other, and the agent
  is left in the state that this leads to.
\<close>

theorem connection_answers:
  assumes "wire_ok W" and "list_all2 (\<lambda>q f. encode_request W q = Inr f) qs fs" and "Exit \<notin> set qs"
    and "length token = TOKEN_LEN" and "frame_payload token = Inr tf"
    and "answers (\<lambda>n. E (Suc n)) (touch (E 0) st) qs = (st', as)"
    and "list_all2 (\<lambda>a g. encode_response W a = Inr g) as gs" and "wr_room w = None"
  shows "handle_connection W E (Inr uid) uid token st \<lparr>rd_bytes = tf @ concat fs, rd_error = None\<rparr> w
    = (st', w\<lparr>wr_bytes := wr_bytes w @ concat gs\<rparr>, Inr ())"
  using serve_answers [OF assms(1,2,3,6,7,8)] read_frame_payload [OF assms(5), of "concat fs" None] assms(4)
  by (simp add: handle_connection_def check_peer_uid_def token_matches_def)

theorem connection_answers_witness:
  "fst (snd (handle_connection ex_wire ex_env (Inr 1000) 1000 (replicate 32 7) ex_unlocked
     \<lparr>rd_bytes = [0, 0, 0, 32] @ replicate 32 7 @ [0, 0, 0, 2, 1, 0, 0, 0, 0, 2, 1, 2], rd_error = None\<rparr>
     \<lparr>wr_bytes = [], wr_room = None, wr_error = ''''\<rparr>)) =
   \<lparr>wr_bytes = [0, 0, 0, 2, 1, 0, 0, 0, 0, 2, 1, 3], wr_room = None, wr_error = ''''\<rparr>"
proof -
  have enc: "encode_request ex_wire Ping = Inr [0, 0, 0, 2, 1, 0]" "encode_request ex_wire Lock = Inr [0, 0, 0, 2, 1, 2]"
    "encode_response ex_wire Pong = Inr [0, 0, 0, 2, 1, 0]" "encode_response ex_wire Locked = Inr [0, 0, 0, 2, 1, 3]"
    by (simp_all add: encode_request_def encode_request_body_def encode_response_def encode_response_body_def
        ex_wire_def ex_requests_def ex_responses_def PROTOCOL_VERSION_def frame_payload_def frame_len_def FRAME_LIMIT_def to_be_bytes_def)
  have t: "length (replicate 32 7 :: bytes) = TOKEN_LEN" "frame_payload (replicate 32 7) = Inr ([0, 0, 0, 32] @ replicate 32 7)"
    by (simp_all add: TOKEN_LEN_def frame_payload_def frame_len_def FRAME_LIMIT_def to_be_bytes_def)
  obtain st' where a: "answers (\<lambda>n. ex_env (Suc n)) (touch (ex_env 0) ex_unlocked) [Ping, Lock] = (st', [Pong, Locked])"
    by simp
  have qs: "list_all2 (\<lambda>q f. encode_request ex_wire q = Inr f) [Ping, Lock] [[0, 0, 0, 2, 1, 0], [0, 0, 0, 2, 1, 2]]"
    and gs: "list_all2 (\<lambda>a g. encode_response ex_wire a = Inr g) [Pong, Locked] [[0, 0, 0, 2, 1, 0], [0, 0, 0, 2, 1, 3]]"
    by (simp_all add: enc)
  from connection_answers [OF ex_wire_ok qs _ t a gs, of "\<lparr>wr_bytes = [], wr_room = None, wr_error = ''''\<rparr>" 1000]
  show ?thesis by simp
qed

text \<open>
  Inside a connection the time to live is not checked: however long ago the
  agent was unlocked, asking for the profile returns it and starts the time to live
  again, although the next turn of the server would have locked the agent.
\<close>

theorem open_connection_outlives_ttl:
  assumes "active_profile st = Some p" and "in_unlocked_at (ag_inner st) = Some t"
    and "in_ttl (ag_inner st) < ae_now E - t"
  shows "snd (check_ttl_and_lock E st) = True
    \<and> (\<exists>st'. dispatch E GetProfile (touch E' st) = (st', ProfileIs p)
         \<and> in_unlocked_at (ag_inner st') = Some (ae_now E) \<and> snd (check_ttl_and_lock E st') = False)"
proof -
  have a: "active_profile (touch E' st) = Some p"
    using assms(1) by (simp add: touch_def active_profile_cong [of "st\<lparr>ag_inner := (ag_inner st)\<lparr>in_last_activity := x\<rparr>\<rparr>" st for x])
  obtain st' x where g: "get_active_profile_renewing_ttl E (touch E' st) = (st', x)" by fastforce
  with a have "x = Some p" using get_active_profile [of E "touch E' st"] by simp
  moreover have "in_unlocked_at (ag_inner st') = Some (ae_now E)"
    using g assms(2) by (auto simp: get_active_profile_renewing_ttl_def touch_def Let_def)
  ultimately show ?thesis using g assms(2,3) by (simp add: check_ttl_and_lock_def)
qed

theorem open_connection_outlives_ttl_witness:
  "\<exists>st' p. dispatch (ex_env (601 * nat NANOS)) GetProfile (touch (ex_env 5) ex_unlocked) = (st', ProfileIs p)
     \<and> snd (check_ttl_and_lock (ex_env (601 * nat NANOS)) ex_unlocked) = True"
proof -
  obtain p where p: "active_profile ex_unlocked = Some p"
    by (simp add: ex_unlocked_eq unlock_def active_profile_def find_by_alias_def ex_set_def ex_profile_def)
  have "in_unlocked_at (ag_inner ex_unlocked) = Some 0" "in_ttl (ag_inner ex_unlocked) = 600 * nat NANOS"
    by (simp_all add: ex_unlocked_eq unlock_def ex_env_def ex_agent_def agent_new_def locked_inner_def)
  with open_connection_outlives_ttl [OF p, of 0 "ex_env (601 * nat NANOS)"] show ?thesis
    by (simp add: ex_env_def) blast
qed

text \<open>
  An automatic lock does not count as activity: when the agent has been idle
  for longer than the idle limit, the turn of the server that locks it is also the
  one that ends it. With the default limits, that is every automatic lock that no
  request preceded in the last 300 seconds.
\<close>

theorem auto_lock_may_end_agent:
  assumes "ag_exit st = False" and "in_unlocked_at (ag_inner st) = Some t"
    and "in_ttl (ag_inner st) < ae_now (E 0) - t" and "idle < ae_now (E 1) - in_last_activity (ag_inner st)"
  shows "\<exists>st'. server_turn W idle uid token E conn st = (st', Some IdleExit) \<and> wiped st'"
  using assms
  by (simp add: server_turn_def check_ttl_and_lock_def is_unlocked_def idle_for_def locked_inner_def wiped_def
      caches_empty_def lc_clear_def)

theorem auto_lock_may_end_agent_witness:
  "\<exists>st'. server_turn ex_wire (DEFAULT_IDLE_EXIT_SECS * nat NANOS) 1000 [] (\<lambda>n. ex_env ((601 + n) * nat NANOS)) None ex_unlocked
     = (st', Some IdleExit)"
proof -
  have "ag_exit ex_unlocked = False" "in_unlocked_at (ag_inner ex_unlocked) = Some 0" "in_ttl (ag_inner ex_unlocked) = 600 * nat NANOS"
    "in_last_activity (ag_inner ex_unlocked) = 0"
    by (simp_all add: ex_unlocked_eq unlock_def ex_env_def ex_agent_def agent_new_def locked_inner_def)
  then show ?thesis
    using auto_lock_may_end_agent [of ex_unlocked 0 "\<lambda>n. ex_env ((601 + n) * nat NANOS)" "DEFAULT_IDLE_EXIT_SECS * nat NANOS" ex_wire 1000 "[]" None]
    by (auto simp: ex_env_def DEFAULT_IDLE_EXIT_SECS_def)
qed

end
