(* ===== verification/Cli.thy ===== *)
theory Cli
  imports Prelude
begin

text \<open>
  The command line (src/cli/mod.rs and parser.rs): one-letter verbs, the composite
  tokens of \<open>s\<close> and \<open>d\<close> with their modifier letters, and the trailing-slash
  convention for destinations. Arguments and paths are strings. A result of
  \<open>None\<close> is the \<open>unreachable!\<close> of the code, a panic.
\<close>

section \<open>Commands and errors\<close>

datatype container_source = SourceLocal | SourceRemote

datatype remote_selector = EmailSelector string | AliasSelector string

datatype command =
    Upload (up_files: "string list") (up_compress: bool) (up_dest_remote: "string option")
  | SaveAll bool string "string option"
  | SaveAllRecursive bool string "string option"
  | Download (dl_files: "string list") (dl_decompress: bool) (dl_dest_local: "string option")
  | DownloadAll bool "string option" "string option"
  | DownloadAllRecursive bool "string option" "string option"
  | ContainerUnlock "container_source option"
  | RemoteUnlock remote_selector
  | LockAgent
  | Wipe
  | OpenTui
  | Doctor

datatype parse_error =
    NoArgs
  | MissingArgument string
  | UnexpectedArgument string
  | UnknownModifier string char
  | EncryptNotInV1 string
  | DuplicateModifier string char

type_synonym 'a parsed = "(parse_error, 'a) result"

section \<open>Modifiers\<close>

definition ATOM_RESERVED :: "string list" where
  "ATOM_RESERVED = [''q'', ''w'', ''kalvasflam'', ''z'', ''c'', ''f'']"

definition VALID_MODIFIERS :: "char list" where
  "VALID_MODIFIERS = [CHR ''a'', CHR ''r'', CHR ''x'']"

record modifiers =
  mod_a :: bool
  mod_r :: bool
  mod_x :: bool

definition modifiers_default :: modifiers where
  "modifiers_default = \<lparr>mod_a = False, mod_r = False, mod_x = False\<rparr>"

text \<open>The loop of \<open>parse_modifiers\<close>; \<open>token\<close> is what its errors quote.\<close>

fun modifiers_loop :: "string \<Rightarrow> modifiers \<Rightarrow> string \<Rightarrow> modifiers parsed" where
  "modifiers_loop token m [] = Inr m"
| "modifiers_loop token m (c # cs) =
     (if c = CHR ''e'' then Inl (EncryptNotInV1 token)
      else if c = CHR ''a'' \<and> \<not> mod_a m then modifiers_loop token (m\<lparr>mod_a := True\<rparr>) cs
      else if c = CHR ''r'' \<and> \<not> mod_r m then modifiers_loop token (m\<lparr>mod_r := True\<rparr>) cs
      else if c = CHR ''x'' \<and> \<not> mod_x m then modifiers_loop token (m\<lparr>mod_x := True\<rparr>) cs
      else if c = CHR ''a'' \<or> c = CHR ''r'' \<or> c = CHR ''x'' then Inl (DuplicateModifier token c)
      else Inl (UnknownModifier token c))"

definition parse_modifiers :: "char \<Rightarrow> string \<Rightarrow> modifiers parsed" where
  "parse_modifiers verb tail = modifiers_loop (verb # tail) modifiers_default tail"

definition is_reserved :: "string \<Rightarrow> bool" where
  "is_reserved arg =
     (if arg \<in> set ATOM_RESERVED then True
      else case arg of
        [] \<Rightarrow> False
      | c # tail \<Rightarrow> (c = CHR ''s'' \<or> c = CHR ''d'')
          \<and> list_all (\<lambda>c. c \<in> set VALID_MODIFIERS \<or> c = CHR ''e'') tail)"

section \<open>Positional arguments\<close>

definition strip_trailing_slash :: "string \<Rightarrow> string" where
  "strip_trailing_slash s = (case strip_suffix ''/'' s of Some r \<Rightarrow> r | None \<Rightarrow> s)"

definition normalise_local :: "string \<Rightarrow> string" where
  "normalise_local s = strip_trailing_slash s"

definition normalise_remote_prefix :: "string \<Rightarrow> string" where
  "normalise_remote_prefix s = trim_matches CHR ''/'' s"

definition require_no_args :: "string \<Rightarrow> string list \<Rightarrow> unit parsed" where
  "require_no_args cmd tail = (if tail = [] then Inr () else Inl (UnexpectedArgument cmd))"

definition require_local_then_optional_remote ::
  "string \<Rightarrow> string list \<Rightarrow> (string \<times> string option) parsed" where
  "require_local_then_optional_remote cmd tail =
     (case tail of
        [] \<Rightarrow> Inl (MissingArgument cmd)
      | [d] \<Rightarrow> Inr (normalise_local d, None)
      | [d, p] \<Rightarrow> Inr (normalise_local d, Some (normalise_remote_prefix p))
      | _ \<Rightarrow> Inl (UnexpectedArgument cmd))"

definition parse_optional_local_remote ::
  "string \<Rightarrow> string list \<Rightarrow> (string option \<times> string option) parsed" where
  "parse_optional_local_remote cmd tail =
     (case tail of
        [] \<Rightarrow> Inr (None, None)
      | [d] \<Rightarrow> Inr (Some (normalise_local d), None)
      | [d, p] \<Rightarrow> Inr (Some (normalise_local d), Some (normalise_remote_prefix p))
      | _ \<Rightarrow> Inl (UnexpectedArgument cmd))"

definition split_trailing_dir_dest ::
  "string \<Rightarrow> string list \<Rightarrow> (string list \<times> string option) parsed" where
  "split_trailing_dir_dest cmd tail =
     (if tail = [] then Inl (MissingArgument cmd)
      else if ends_with (last tail) CHR ''/''
      then if length tail = 1 then Inl (MissingArgument cmd)
           else Inr (butlast tail, Some (strip_trailing_slash (last tail)))
      else Inr (tail, None))"

section \<open>The parser\<close>

definition parse_save :: "string \<Rightarrow> string \<Rightarrow> string list \<Rightarrow> command parsed" where
  "parse_save head rest tail =
     rbind (parse_modifiers CHR ''s'' rest) (\<lambda>m.
     if mod_a m then
       rbind (require_local_then_optional_remote (if mod_r m then ''sar'' else ''sa'') tail) (\<lambda>(dir, dest_remote).
       Inr (if mod_r m then SaveAllRecursive (mod_x m) dir dest_remote else SaveAll (mod_x m) dir dest_remote))
     else if mod_r m then Inl (UnknownModifier head CHR ''r'')
     else if tail = [] then Inl (MissingArgument ''s'')
     else rbind (split_trailing_dir_dest ''s'' tail) (\<lambda>(sources, dest_remote).
       Inr (Upload sources (mod_x m) dest_remote)))"

definition parse_fetch :: "string \<Rightarrow> string \<Rightarrow> string list \<Rightarrow> command parsed" where
  "parse_fetch head rest tail =
     rbind (parse_modifiers CHR ''d'' rest) (\<lambda>m.
     if mod_a m then
       rbind (parse_optional_local_remote (if mod_r m then ''dar'' else ''da'') tail) (\<lambda>(dest_local, src_remote).
       Inr (if mod_r m then DownloadAllRecursive (mod_x m) dest_local src_remote
            else DownloadAll (mod_x m) dest_local src_remote))
     else if mod_r m then Inl (UnknownModifier head CHR ''r'')
     else if tail = [] then Inl (MissingArgument ''d'')
     else rbind (split_trailing_dir_dest ''d'' tail) (\<lambda>(sources, dest_local).
       Inr (Download sources (mod_x m) dest_local)))"

definition parse_unlock :: "string list \<Rightarrow> command parsed" where
  "parse_unlock tail =
     (case tail of
        [] \<Rightarrow> Inr (ContainerUnlock None)
      | [other] \<Rightarrow>
          if other = ''local'' then Inr (ContainerUnlock (Some SourceLocal))
          else if other = ''remote'' then Inr (ContainerUnlock (Some SourceRemote))
          else if CHR ''@'' \<in> set other then Inr (RemoteUnlock (EmailSelector other))
          else if other \<noteq> [] then Inr (RemoteUnlock (AliasSelector other))
          else Inl (UnexpectedArgument ''z'')
      | _ \<Rightarrow> Inl (UnexpectedArgument ''z''))"

definition bare :: "string \<Rightarrow> command \<Rightarrow> string list \<Rightarrow> command parsed" where
  "bare cmd c tail = rbind (require_no_args cmd tail) (\<lambda>_. Inr c)"

definition parse_args :: "string list \<Rightarrow> command parsed option" where
  "parse_args args =
     (case args of
        [] \<Rightarrow> Some (Inl NoArgs)
      | head # tail \<Rightarrow>
          if \<not> is_reserved head then Some (Inr (Upload args False None))
          else case strip_prefix ''s'' head of Some rest \<Rightarrow> Some (parse_save head rest tail) | None \<Rightarrow>
          case strip_prefix ''d'' head of Some rest \<Rightarrow> Some (parse_fetch head rest tail) | None \<Rightarrow>
          if head = ''q'' then Some (bare ''q'' LockAgent tail)
          else if head = ''w'' then Some (bare ''w'' Wipe tail)
          else if head = ''kalvasflam'' then Some (bare ''kalvasflam'' Wipe tail)
          else if head = ''z'' then Some (parse_unlock tail)
          else if head = ''c'' then Some (bare ''c'' OpenTui tail)
          else if head = ''f'' then Some (bare ''f'' Doctor tail)
          else None)"

section \<open>Modifiers are a set\<close>

definition modifiers_of :: "string \<Rightarrow> modifiers" where
  "modifiers_of t = \<lparr>mod_a = CHR ''a'' \<in> set t, mod_r = CHR ''r'' \<in> set t, mod_x = CHR ''x'' \<in> set t\<rparr>"

definition join_modifiers :: "modifiers \<Rightarrow> modifiers \<Rightarrow> modifiers" where
  "join_modifiers m n = \<lparr>mod_a = mod_a m \<or> mod_a n, mod_r = mod_r m \<or> mod_r n, mod_x = mod_x m \<or> mod_x n\<rparr>"

lemma modifiers_loop_Inr:
  "modifiers_loop token m t = Inr n \<longleftrightarrow> set t \<subseteq> set VALID_MODIFIERS \<and> distinct t
     \<and> (CHR ''a'' \<in> set t \<longrightarrow> \<not> mod_a m) \<and> (CHR ''r'' \<in> set t \<longrightarrow> \<not> mod_r m) \<and> (CHR ''x'' \<in> set t \<longrightarrow> \<not> mod_x m)
     \<and> n = join_modifiers m (modifiers_of t)"
proof (induction t arbitrary: m)
  case Nil
  then show ?case by (auto simp: join_modifiers_def modifiers_of_def)
next
  case (Cons c cs)
  have valid: "CHR ''a'' \<in> set VALID_MODIFIERS" "CHR ''r'' \<in> set VALID_MODIFIERS" "CHR ''x'' \<in> set VALID_MODIFIERS"
    by (simp_all add: VALID_MODIFIERS_def)
  consider (a) "c = CHR ''a''" | (r) "c = CHR ''r''" | (x) "c = CHR ''x''" | (no) "c \<notin> set VALID_MODIFIERS"
    by (auto simp: VALID_MODIFIERS_def)
  then show ?case
  proof cases
    case a
    have "join_modifiers (m\<lparr>mod_a := True\<rparr>) (modifiers_of cs) = join_modifiers m (modifiers_of (CHR ''a'' # cs))"
      by (simp add: join_modifiers_def modifiers_of_def)
    with Cons.IH [of "m\<lparr>mod_a := True\<rparr>"] show ?thesis unfolding a by (cases "mod_a m") (simp_all add: valid conj_ac, blast?)
  next
    case r
    have "join_modifiers (m\<lparr>mod_r := True\<rparr>) (modifiers_of cs) = join_modifiers m (modifiers_of (CHR ''r'' # cs))"
      by (simp add: join_modifiers_def modifiers_of_def)
    with Cons.IH [of "m\<lparr>mod_r := True\<rparr>"] show ?thesis unfolding r by (cases "mod_r m") (simp_all add: valid conj_ac, blast?)
  next
    case x
    have "join_modifiers (m\<lparr>mod_x := True\<rparr>) (modifiers_of cs) = join_modifiers m (modifiers_of (CHR ''x'' # cs))"
      by (simp add: join_modifiers_def modifiers_of_def)
    with Cons.IH [of "m\<lparr>mod_x := True\<rparr>"] show ?thesis unfolding x by (cases "mod_x m") (simp_all add: valid conj_ac, blast?)
  next
    case no
    then show ?thesis by (auto simp: VALID_MODIFIERS_def)
  qed
qed

lemma parse_modifiers_Inr:
  "parse_modifiers v t = Inr n \<longleftrightarrow> set t \<subseteq> set VALID_MODIFIERS \<and> distinct t \<and> n = modifiers_of t"
  by (auto simp: parse_modifiers_def modifiers_loop_Inr modifiers_default_def join_modifiers_def modifiers_of_def)

lemma modifiers_loop_unknown:
  "modifiers_loop token m t = Inl (UnknownModifier u c) \<Longrightarrow> c \<in> set t \<and> c \<notin> set VALID_MODIFIERS \<and> c \<noteq> CHR ''e''"
  by (induction t arbitrary: m) (auto simp: VALID_MODIFIERS_def split: if_splits)

lemma reserved_composite:
  "v = CHR ''s'' \<or> v = CHR ''d'' \<Longrightarrow> is_reserved (v # t) \<longleftrightarrow> set t \<subseteq> set VALID_MODIFIERS \<union> {CHR ''e''}"
  by (elim disjE; simp only: is_reserved_def list_all_iff subset_iff Un_iff insert_iff empty_iff list.case)
    (simp_all add: ATOM_RESERVED_def Ball_def)

lemma parse_args_save: "parse_args ((CHR ''s'' # t) # tail) =
    Some (if set t \<subseteq> set VALID_MODIFIERS \<union> {CHR ''e''} then parse_save (CHR ''s'' # t) t tail
          else Inr (Upload ((CHR ''s'' # t) # tail) False None))"
  by (simp add: parse_args_def reserved_composite)

lemma parse_args_fetch: "parse_args ((CHR ''d'' # t) # tail) =
    Some (if set t \<subseteq> set VALID_MODIFIERS \<union> {CHR ''e''} then parse_fetch (CHR ''d'' # t) t tail
          else Inr (Upload ((CHR ''d'' # t) # tail) False None))"
  by (simp add: parse_args_def reserved_composite)

lemma parse_args_atom:
  "parse_args (''q'' # tail) = Some (bare ''q'' LockAgent tail)"
  "parse_args (''w'' # tail) = Some (bare ''w'' Wipe tail)"
  "parse_args (''kalvasflam'' # tail) = Some (bare ''kalvasflam'' Wipe tail)"
  "parse_args (''z'' # tail) = Some (parse_unlock tail)"
  "parse_args (''c'' # tail) = Some (bare ''c'' OpenTui tail)"
  "parse_args (''f'' # tail) = Some (bare ''f'' Doctor tail)"
  by (simp_all add: parse_args_def is_reserved_def ATOM_RESERVED_def)

lemma is_reserved_cases:
  assumes "is_reserved h"
  obtains t where "h = CHR ''s'' # t" "set t \<subseteq> set VALID_MODIFIERS \<union> {CHR ''e''}"
  | t where "h = CHR ''d'' # t" "set t \<subseteq> set VALID_MODIFIERS \<union> {CHR ''e''}"
  | "h \<in> set ATOM_RESERVED"
proof (cases "h \<in> set ATOM_RESERVED")
  case False
  with assms show ?thesis using that(1,2)
    by (cases h) (auto simp: is_reserved_def list_all_iff)
qed (rule that(3))

text \<open>
  The modifier letters of a token are a set: two spellings of the same
  distinct letters mean the same command with the same arguments, for uploads and
  for downloads, errors included, as long as the combination is a valid one.
\<close>

theorem modifier_order_irrelevant:
  assumes "set t = set u" and "distinct t" and "distinct u" and "set t \<subseteq> set VALID_MODIFIERS"
    and "CHR ''r'' \<in> set t \<longrightarrow> CHR ''a'' \<in> set t"
  shows "parse_args ((CHR ''s'' # t) # tail) = parse_args ((CHR ''s'' # u) # tail)
    \<and> parse_args ((CHR ''d'' # t) # tail) = parse_args ((CHR ''d'' # u) # tail)"
proof -
  let ?n = "modifiers_of t"
  have n: "parse_modifiers v t = Inr ?n" "parse_modifiers v u = Inr ?n" for v
    using assms(1-4) by (simp_all add: parse_modifiers_Inr modifiers_of_def)
  have r: "mod_r ?n \<longrightarrow> mod_a ?n" using assms(5) by (simp add: modifiers_of_def)
  have "set t \<subseteq> set VALID_MODIFIERS \<union> {CHR ''e''}" "set u \<subseteq> set VALID_MODIFIERS \<union> {CHR ''e''}"
    using assms(1,4) by blast+
  then show ?thesis using r
    by (simp add: parse_args_save parse_args_fetch parse_save_def parse_fetch_def n)
qed

theorem modifier_order_irrelevant_witness:
  "parse_args [''sarx'', ''dir''] = parse_args [''sxra'', ''dir'']
    \<and> parse_args [''darx''] = parse_args [''dxra'']"
  using modifier_order_irrelevant [of "''arx''" "''xra''" "[''dir'']"]
    modifier_order_irrelevant [of "''arx''" "''xra''" "[]"]
  by (auto simp: VALID_MODIFIERS_def insert_commute)

lemma rbind_unknown:
  "rbind r f = Inl e \<Longrightarrow> (r = Inl e \<Longrightarrow> P) \<Longrightarrow> (\<And>a. r = Inr a \<Longrightarrow> f a = Inl e \<Longrightarrow> P) \<Longrightarrow> P"
  by (auto simp: rbind_eq_Inl)

lemma composite_unknown:
  assumes "set t \<subseteq> set VALID_MODIFIERS \<union> {CHR ''e''}"
  shows "parse_save h t tail = Inl (UnknownModifier u c) \<Longrightarrow> u = h \<and> c = CHR ''r'' \<and> CHR ''r'' \<in> set t"
    and "parse_fetch h t tail = Inl (UnknownModifier u c) \<Longrightarrow> u = h \<and> c = CHR ''r'' \<and> CHR ''r'' \<in> set t"
proof -
  have no: "parse_modifiers v t \<noteq> Inl (UnknownModifier u c)" for v
    using modifiers_loop_unknown [of _ modifiers_default t u c] assms by (auto simp: parse_modifiers_def)
  have r: "parse_modifiers v t = Inr m \<Longrightarrow> mod_r m \<Longrightarrow> CHR ''r'' \<in> set t" for v m
    by (simp add: parse_modifiers_Inr modifiers_of_def)
  show "parse_save h t tail = Inl (UnknownModifier u c) \<Longrightarrow> u = h \<and> c = CHR ''r'' \<and> CHR ''r'' \<in> set t"
    using no r
    by (auto simp: parse_save_def require_local_then_optional_remote_def split_trailing_dir_dest_def
        elim!: rbind_unknown split: if_splits list.splits)
  show "parse_fetch h t tail = Inl (UnknownModifier u c) \<Longrightarrow> u = h \<and> c = CHR ''r'' \<and> CHR ''r'' \<in> set t"
    using no r
    by (auto simp: parse_fetch_def parse_optional_local_remote_def split_trailing_dir_dest_def
        elim!: rbind_unknown split: if_splits list.splits)
qed

lemma bare_known: "bare cmd c tail \<noteq> Inl (UnknownModifier u m)"
  by (auto simp: bare_def require_no_args_def)

lemma parse_unlock_known: "parse_unlock tail \<noteq> Inl (UnknownModifier u m)"
  by (auto simp: parse_unlock_def split: list.splits)

text \<open>
  The parser always answers: its \<open>unreachable!\<close> is unreachable. And its error
  about an unknown modifier is never about an unknown letter, for a token with one
  is taken as a file name: it only ever complains of the letter \<open>r\<close>, which it
  lists as valid, in a token without \<open>a\<close>.
\<close>

theorem parser_total:
  "\<exists>r. parse_args args = Some r
     \<and> (\<forall>u c. r = Inl (UnknownModifier u c) \<longrightarrow> c = CHR ''r'' \<and> (\<exists>tail. args = u # tail \<and> CHR ''r'' \<in> set u))"
proof (cases args)
  case (Cons h tail)
  show ?thesis
  proof (cases "is_reserved h")
    case True
    then show ?thesis
    proof (cases rule: is_reserved_cases)
      case (1 t)
      with Cons composite_unknown(1) [OF 1(2), of h tail] show ?thesis by (auto simp: parse_args_save)
    next
      case (2 t)
      with Cons composite_unknown(2) [OF 2(2), of h tail] show ?thesis by (auto simp: parse_args_fetch)
    next
      case 3
      with Cons show ?thesis
        by (auto simp: ATOM_RESERVED_def parse_args_atom bare_known parse_unlock_known)
    qed
  qed (simp add: Cons parse_args_def)
qed (simp add: parse_args_def)

theorem parser_total_witness:
  "parse_args [''sr'', ''x''] = Some (Inl (UnknownModifier ''sr'' (CHR ''r'')))
    \<and> parse_args [''sq'', ''x''] = Some (Inr (Upload [''sq'', ''x''] False None))"
proof -
  obtain r where r: "parse_args [''sq'', ''x''] = Some r" using parser_total [of "[''sq'', ''x'']"] by blast
  show ?thesis
    by (simp add: parse_args_save parse_save_def parse_modifiers_def modifiers_default_def VALID_MODIFIERS_def)
qed

section \<open>Commands can be written out and read back\<close>

definition modifier_letters :: "bool \<Rightarrow> bool \<Rightarrow> bool \<Rightarrow> string" where
  "modifier_letters a r x = (if a then ''a'' else []) @ (if r then ''r'' else []) @ (if x then ''x'' else [])"

definition opt_arg :: "string option \<Rightarrow> string list" where
  "opt_arg x = (case x of None \<Rightarrow> [] | Some s \<Rightarrow> [s])"

definition slash_arg :: "string option \<Rightarrow> string list" where
  "slash_arg x = (case x of None \<Rightarrow> [] | Some s \<Rightarrow> [s @ ''/''])"

fun unparse :: "command \<Rightarrow> string list" where
  "unparse (Upload fs x d) = (CHR ''s'' # modifier_letters False False x) # fs @ slash_arg d"
| "unparse (SaveAll x d p) = (CHR ''s'' # modifier_letters True False x) # d # opt_arg p"
| "unparse (SaveAllRecursive x d p) = (CHR ''s'' # modifier_letters True True x) # d # opt_arg p"
| "unparse (Download fs x d) = (CHR ''d'' # modifier_letters False False x) # fs @ slash_arg d"
| "unparse (DownloadAll x d p) = (CHR ''d'' # modifier_letters True False x) # opt_arg d @ opt_arg p"
| "unparse (DownloadAllRecursive x d p) = (CHR ''d'' # modifier_letters True True x) # opt_arg d @ opt_arg p"
| "unparse (ContainerUnlock w) = ''z'' # (case w of None \<Rightarrow> [] | Some SourceLocal \<Rightarrow> [''local''] | Some SourceRemote \<Rightarrow> [''remote''])"
| "unparse (RemoteUnlock (EmailSelector s)) = [''z'', s]"
| "unparse (RemoteUnlock (AliasSelector s)) = [''z'', s]"
| "unparse LockAgent = [''q'']"
| "unparse Wipe = [''w'']"
| "unparse OpenTui = [''c'']"
| "unparse Doctor = [''f'']"

text \<open>What can be said: no empty file list, no name that reads as a destination, no outer slashes.\<close>

definition plain_dir :: "string \<Rightarrow> bool" where
  "plain_dir d \<longleftrightarrow> \<not> ends_with d CHR ''/''"

definition plain_prefix :: "string \<Rightarrow> bool" where
  "plain_prefix p \<longleftrightarrow> p = [] \<or> hd p \<noteq> CHR ''/'' \<and> last p \<noteq> CHR ''/''"

definition files_ok :: "string list \<Rightarrow> string option \<Rightarrow> bool" where
  "files_ok fs d \<longleftrightarrow> fs \<noteq> [] \<and> (d = None \<longrightarrow> plain_dir (last fs))"

fun sayable :: "command \<Rightarrow> bool" where
  "sayable (Upload fs x d) = files_ok fs d"
| "sayable (SaveAll x d p) = (plain_dir d \<and> (\<forall>q. p = Some q \<longrightarrow> plain_prefix q))"
| "sayable (SaveAllRecursive x d p) = (plain_dir d \<and> (\<forall>q. p = Some q \<longrightarrow> plain_prefix q))"
| "sayable (Download fs x d) = files_ok fs d"
| "sayable (DownloadAll x d p) = ((d = None \<longrightarrow> p = None) \<and> (\<forall>e. d = Some e \<longrightarrow> plain_dir e) \<and> (\<forall>q. p = Some q \<longrightarrow> plain_prefix q))"
| "sayable (DownloadAllRecursive x d p) = ((d = None \<longrightarrow> p = None) \<and> (\<forall>e. d = Some e \<longrightarrow> plain_dir e) \<and> (\<forall>q. p = Some q \<longrightarrow> plain_prefix q))"
| "sayable (RemoteUnlock (EmailSelector s)) = (CHR ''@'' \<in> set s)"
| "sayable (RemoteUnlock (AliasSelector s)) = (CHR ''@'' \<notin> set s \<and> s \<notin> {[], ''local'', ''remote''})"
| "sayable _ = True"

lemma strip_trailing_slash_simps:
  "strip_trailing_slash (d @ ''/'') = d" "plain_dir d \<Longrightarrow> strip_trailing_slash d = d"
proof -
  have "strip_suffix ''/'' (d @ ''/'') = Some d" by (simp only: strip_suffix_Some)
  then show "strip_trailing_slash (d @ ''/'') = d" by (simp only: strip_trailing_slash_def option.case)
  assume "plain_dir d"
  then have "strip_suffix ''/'' d = None" by (auto simp: strip_suffix_None plain_dir_def ends_with_def)
  then show "strip_trailing_slash d = d" by (simp add: strip_trailing_slash_def)
qed

lemma normalise_prefix_id: "plain_prefix p \<Longrightarrow> normalise_remote_prefix p = p"
  by (simp add: normalise_remote_prefix_def plain_prefix_def trim_matches_id)

lemma split_trailing_slash_arg:
  "files_ok fs d \<Longrightarrow> split_trailing_dir_dest cmd (fs @ slash_arg d) = Inr (fs, d)"
  by (cases d) (auto simp: files_ok_def split_trailing_dir_dest_def slash_arg_def ends_with_def plain_dir_def
      strip_trailing_slash_simps)

lemma modifier_letters_ok:
  "set (modifier_letters a r x) \<subseteq> set VALID_MODIFIERS" "distinct (modifier_letters a r x)"
  "modifiers_of (modifier_letters a r x) = \<lparr>mod_a = a, mod_r = r, mod_x = x\<rparr>"
  by (auto simp: modifier_letters_def VALID_MODIFIERS_def modifiers_of_def)

lemma parse_letters:
  "parse_modifiers v (modifier_letters a r x) = Inr \<lparr>mod_a = a, mod_r = r, mod_x = x\<rparr>"
  by (simp add: parse_modifiers_Inr modifier_letters_ok)

lemma letters_reserved: "set (modifier_letters a r x) \<subseteq> set VALID_MODIFIERS \<union> {CHR ''e''}"
  using modifier_letters_ok(1) [of a r x] by blast

lemma parse_args_letters:
  "parse_args ((CHR ''s'' # modifier_letters a r x) # tail) =
     Some (parse_save (CHR ''s'' # modifier_letters a r x) (modifier_letters a r x) tail)"
  "parse_args ((CHR ''d'' # modifier_letters a r x) # tail) =
     Some (parse_fetch (CHR ''d'' # modifier_letters a r x) (modifier_letters a r x) tail)"
  by (simp_all only: parse_args_save parse_args_fetch letters_reserved if_True)

lemmas unparse_simps = parse_args_letters parse_save_def parse_fetch_def parse_letters
  split_trailing_slash_arg require_local_then_optional_remote_def parse_optional_local_remote_def normalise_local_def
  strip_trailing_slash_simps normalise_prefix_id opt_arg_def parse_args_atom parse_unlock_def bare_def require_no_args_def

text \<open>
  Every command the grammar can express is expressed by the words that
  writing it out gives: parsing them gives the command back, files, destination,
  compression and recursion included.
\<close>

lemma parse_unparse:
  assumes "sayable c"
  shows "parse_args (unparse c) = Some (Inr c)"
  using assms
proof (cases c rule: unparse.cases)
  case (1 fs x d)
  with assms have "files_ok fs d" by simp
  then have "fs @ slash_arg d \<noteq> []" by (simp add: files_ok_def)
  with 1 \<open>files_ok fs d\<close> show ?thesis by (simp add: unparse_simps)
next
  case (4 fs x d)
  with assms have "files_ok fs d" by simp
  then have "fs @ slash_arg d \<noteq> []" by (simp add: files_ok_def)
  with 4 \<open>files_ok fs d\<close> show ?thesis by (simp add: unparse_simps)
qed (use assms in \<open>auto simp: unparse_simps split: option.splits container_source.splits\<close>)

lemma split_trailing_args:
  assumes "split_trailing_dir_dest cmd tail = Inr (fs, d)"
  shows "fs \<noteq> [] \<and> tail = fs @ slash_arg d"
proof (cases "ends_with (last tail) CHR ''/''")
  case True
  then have l: "strip_trailing_slash (last tail) @ ''/'' = last tail"
    using strip_trailing_slash_simps(1) [of "butlast (last tail)"] by (metis append_butlast_last_id ends_with_def)
  from True assms have d: "fs = butlast tail" "d = Some (strip_trailing_slash (last tail))" "tail \<noteq> []" "length tail \<noteq> 1"
    by (auto simp: split_trailing_dir_dest_def split: if_splits)
  then have "fs \<noteq> []" by (cases tail) auto
  moreover have "tail = fs @ slash_arg d" using d l by (simp add: slash_arg_def)
  ultimately show ?thesis ..
qed (use assms in \<open>auto simp: split_trailing_dir_dest_def slash_arg_def split: if_splits\<close>)

lemma parse_plain_modifiers:
  assumes "set t \<subseteq> {CHR ''x''}" and "parse_modifiers v t = Inr n"
  shows "n = \<lparr>mod_a = False, mod_r = False, mod_x = (t = ''x'')\<rparr>"
proof -
  from assms(2) have n: "distinct t" "n = modifiers_of t" by (simp_all add: parse_modifiers_Inr)
  have "t = [] \<or> t = ''x''"
  proof (cases t)
    case (Cons c cs)
    with assms(1) n(1) have "c = CHR ''x''" "cs = []" by (cases cs; auto)+
    with Cons show ?thesis by simp
  qed simp
  with n(2) show ?thesis by (auto simp: modifiers_of_def)
qed

lemma root_stripped: "strip_trailing_slash ''/'' = []"
  using strip_trailing_slash_simps(1) [of "[]"] by simp

text \<open>
  No file is lost on the way in and none is made up: the arguments after
  \<open>s\<close> or \<open>d\<close>, compressing or not, are the files of the parsed command followed by
  its destination with the slash put back.
\<close>

theorem arguments_preserved:
  assumes "parse_args ((v # t) # tail) = Some (Inr c)" and "set t \<subseteq> {CHR ''x''}" and "v = CHR ''s'' \<or> v = CHR ''d''"
  shows "\<exists>fs d. c = (if v = CHR ''s'' then Upload else Download) fs (t = ''x'') d \<and> fs \<noteq> [] \<and> tail = fs @ slash_arg d"
proof -
  have sub: "set t \<subseteq> set VALID_MODIFIERS \<union> {CHR ''e''}" using assms(2) by (auto simp: VALID_MODIFIERS_def)
  note plain = parse_plain_modifiers [OF assms(2)]
  from assms(3) show ?thesis
  proof
    assume v: "v = CHR ''s''"
    with assms(1) sub have "parse_save (v # t) t tail = Inr c" by (simp only: parse_args_save if_True option.inject)
    then show ?thesis using v
      by (auto simp: parse_save_def dest!: plain split_trailing_args split: if_splits)
  next
    assume v: "v = CHR ''d''"
    with assms(1) sub have "parse_fetch (v # t) t tail = Inr c" by (simp only: parse_args_fetch if_True option.inject)
    then show ?thesis using v
      by (auto simp: parse_fetch_def dest!: plain split_trailing_args split: if_splits)
  qed
qed

theorem arguments_preserved_witness:
  "\<exists>fs d. Upload [''a''] True (Some ''b'') = Upload fs True d \<and> [''a'', ''b/''] = fs @ slash_arg d"
proof -
  have "parse_args ((CHR ''s'' # ''x'') # [''a'', ''b/'']) = Some (Inr (Upload [''a''] True (Some ''b'')))"
    by (simp add: parse_args_save parse_save_def parse_modifiers_def modifiers_default_def VALID_MODIFIERS_def
        split_trailing_dir_dest_def ends_with_def strip_trailing_slash_def strip_suffix_def)
  from arguments_preserved [OF this] show ?thesis by auto
qed

text \<open>
  Stripping the trailing slash changes the meaning of one local directory:
  the root, given to save or to download everything, becomes the empty path, which
  is the current directory. Every other directory keeps its name.
\<close>

theorem root_directory_lost:
  "parse_args [''sa'', d] = Some (Inr (SaveAll False (if d = ''/'' then [] else normalise_local d) None))
   \<and> parse_args [''da'', d] = Some (Inr (DownloadAll False (Some (if d = ''/'' then [] else normalise_local d)) None))
   \<and> (normalise_local d = [] \<longleftrightarrow> d = [] \<or> d = ''/'')"
proof -
  have e: "normalise_local d = [] \<longleftrightarrow> d = [] \<or> d = ''/''"
  proof (cases "plain_dir d")
    case False
    then obtain p where "d = p @ ''/''" by (metis append_butlast_last_id ends_with_def plain_dir_def)
    then show ?thesis by (simp add: normalise_local_def strip_trailing_slash_simps)
  qed (auto simp: normalise_local_def strip_trailing_slash_simps(2) plain_dir_def ends_with_def)
  have "parse_args (''sa'' # tail) = Some (parse_save ''sa'' ''a'' tail)"
    "parse_args (''da'' # tail) = Some (parse_fetch ''da'' ''a'' tail)" for tail
    using parse_args_letters [of True False False] by (simp_all add: modifier_letters_def)
  moreover have "parse_modifiers v ''a'' = Inr \<lparr>mod_a = True, mod_r = False, mod_x = False\<rparr>" for v
    using parse_letters [of v True False False] by (simp add: modifier_letters_def)
  ultimately show ?thesis using e
    by (auto simp: parse_save_def parse_fetch_def require_local_then_optional_remote_def
        parse_optional_local_remote_def normalise_local_def root_stripped)
qed

end
