(* ===== verification/Flags.thy ===== *)
theory Flags
  imports Cli
begin

text \<open>
  The global flags (src/runtime.rs): they are taken out of the command line wherever
  they stand, up to a bare \<open>--\<close>, and merged with the environment. The environment is
  a lookup function, as the code passes one.
\<close>

section \<open>State and errors\<close>

datatype output_mode = TextMode | JsonMode | QuietMode

definition is_non_interactive :: "output_mode \<Rightarrow> bool" where
  "is_non_interactive m \<longleftrightarrow> m = JsonMode \<or> m = QuietMode"

record global_flags =
  gf_output :: output_mode
  gf_passphrase_file :: "string option"
  gf_alias :: "string option"
  gf_container :: "container_source option"
  gf_yes :: bool

definition flags_default :: global_flags where
  "flags_default = \<lparr>gf_output = TextMode, gf_passphrase_file = None, gf_alias = None, gf_container = None, gf_yes = False\<rparr>"

datatype flag_error =
    QuietJsonConflict
  | MissingValue string
  | EmptyValue string
  | ContainerConflict
  | UnknownFlag string
  | BadEnvValue string string

section \<open>Helpers\<close>

definition split_eq :: "string \<Rightarrow> string \<times> string option" where
  "split_eq tok =
     (case find_sub ''='' tok of
        Some i \<Rightarrow> (take i tok, Some (drop (i + 1) tok))
      | None \<Rightarrow> (tok, None))"

definition reject_inline :: "string \<Rightarrow> string option \<Rightarrow> (flag_error, unit) result" where
  "reject_inline name inline =
     (case inline of
        Some v \<Rightarrow> if v \<noteq> [] then Inl (UnknownFlag (name @ ''='' @ v)) else Inr ()
      | None \<Rightarrow> Inr ())"

text \<open>The value and what is left of the iterator.\<close>

definition take_value :: "string \<Rightarrow> string option \<Rightarrow> string list \<Rightarrow> (flag_error, string \<times> string list) result" where
  "take_value name inline iter =
     rbind (case inline of
              Some v \<Rightarrow> Inr (v, iter)
            | None \<Rightarrow> (case iter of [] \<Rightarrow> Inl (MissingValue name) | v # rest \<Rightarrow> Inr (v, rest)))
       (\<lambda>(raw, rest). if raw = [] then Inl (EmptyValue name) else Inr (raw, rest))"

section \<open>Taking the flags out\<close>

definition starts_dashed :: "string \<Rightarrow> bool" where
  "starts_dashed tok \<longleftrightarrow> strip_prefix ''--'' tok \<noteq> None"

text \<open>One token that starts with two dashes.\<close>

definition flag_step :: "global_flags \<Rightarrow> string \<Rightarrow> string list \<Rightarrow> (flag_error, global_flags \<times> string list) result" where
  "flag_step flags tok iter =
     (let (name, inline_value) = split_eq tok in
      if name = ''--json'' then
        rbind (reject_inline ''--json'' inline_value) (\<lambda>_.
          if gf_output flags = QuietMode then Inl QuietJsonConflict
          else Inr (flags\<lparr>gf_output := JsonMode\<rparr>, iter))
      else if name = ''--quiet'' then
        rbind (reject_inline ''--quiet'' inline_value) (\<lambda>_.
          if gf_output flags = JsonMode then Inl QuietJsonConflict
          else Inr (flags\<lparr>gf_output := QuietMode\<rparr>, iter))
      else if name = ''--passphrase-file'' then
        rbind (take_value ''--passphrase-file'' inline_value iter) (\<lambda>(v, rest).
          Inr (flags\<lparr>gf_passphrase_file := Some v\<rparr>, rest))
      else if name = ''--alias'' then
        rbind (take_value ''--alias'' inline_value iter) (\<lambda>(v, rest).
          Inr (flags\<lparr>gf_alias := Some v\<rparr>, rest))
      else if name = ''--local'' then
        rbind (reject_inline ''--local'' inline_value) (\<lambda>_.
          if gf_container flags = Some SourceRemote then Inl ContainerConflict
          else Inr (flags\<lparr>gf_container := Some SourceLocal\<rparr>, iter))
      else if name = ''--remote'' then
        rbind (reject_inline ''--remote'' inline_value) (\<lambda>_.
          if gf_container flags = Some SourceLocal then Inl ContainerConflict
          else Inr (flags\<lparr>gf_container := Some SourceRemote\<rparr>, iter))
      else if name = ''--yes'' then
        rbind (reject_inline ''--yes'' inline_value) (\<lambda>_. Inr (flags\<lparr>gf_yes := True\<rparr>, iter))
      else Inl (UnknownFlag tok))"

lemma take_value_rest: "take_value name inline iter = Inr (v, rest) \<Longrightarrow> length rest \<le> length iter"
  by (auto simp: take_value_def split: option.splits list.splits if_splits)

lemma flag_step_rest: "flag_step flags tok iter = Inr (flags', rest) \<Longrightarrow> length rest \<le> length iter"
  by (auto simp: flag_step_def Let_def split: prod.splits if_splits dest!: take_value_rest)

function (sequential) extract_loop :: "global_flags \<Rightarrow> string list \<Rightarrow> string list \<Rightarrow> (flag_error, global_flags \<times> string list) result" where
  "extract_loop flags residual [] = Inr (flags, residual)"
| "extract_loop flags residual (tok # iter) =
     (if tok = ''--'' then Inr (flags, residual @ iter)
      else if \<not> starts_dashed tok then extract_loop flags (residual @ [tok]) iter
      else case flag_step flags tok iter of
             Inl e \<Rightarrow> Inl e
           | Inr (flags', rest) \<Rightarrow> extract_loop flags' residual rest)"
  by pat_completeness auto
termination
  by (relation "measure (\<lambda>(flags, residual, iter). length iter)") (auto simp: less_Suc_eq_le dest: flag_step_rest)

definition extract_flags :: "string list \<Rightarrow> (flag_error, global_flags \<times> string list) result" where
  "extract_flags argv = extract_loop flags_default [] argv"

section \<open>The environment\<close>

definition merge_env :: "global_flags \<Rightarrow> bool \<Rightarrow> bool \<Rightarrow> bool \<Rightarrow> bool \<Rightarrow> (string \<Rightarrow> string option) \<Rightarrow> (flag_error, global_flags) result" where
  "merge_env flags explicit_output explicit_passphrase explicit_alias explicit_container lookup =
     rbind (if \<not> explicit_output then
              (case lookup ''ZZ_OUTPUT'' of
                 Some s \<Rightarrow> if s = ''text'' then Inr (flags\<lparr>gf_output := TextMode\<rparr>)
                           else if s = ''json'' then Inr (flags\<lparr>gf_output := JsonMode\<rparr>)
                           else Inl (BadEnvValue ''ZZ_OUTPUT'' s)
               | None \<Rightarrow> Inr flags)
            else Inr flags) (\<lambda>flags.
     let flags = (if \<not> explicit_passphrase then
              (case lookup ''ZZ_PASSPHRASE_FILE'' of
                 Some s \<Rightarrow> if s \<noteq> [] then flags\<lparr>gf_passphrase_file := Some s\<rparr> else flags
               | None \<Rightarrow> flags) else flags);
         flags = (if \<not> explicit_alias then
              (case lookup ''ZZ_ALIAS'' of
                 Some s \<Rightarrow> if s \<noteq> [] then flags\<lparr>gf_alias := Some s\<rparr> else flags
               | None \<Rightarrow> flags) else flags)
     in if \<not> explicit_container then
          (case lookup ''ZZ_CONTAINER'' of
             Some s \<Rightarrow> if s = ''local'' then Inr (flags\<lparr>gf_container := Some SourceLocal\<rparr>)
                       else if s = ''remote'' then Inr (flags\<lparr>gf_container := Some SourceRemote\<rparr>)
                       else Inl (BadEnvValue ''ZZ_CONTAINER'' s)
           | None \<Rightarrow> Inr flags)
        else Inr flags)"

definition parse_global :: "(string \<Rightarrow> string option) \<Rightarrow> string list \<Rightarrow> (flag_error, global_flags \<times> string list) result" where
  "parse_global env argv =
     rbind (extract_flags argv) (\<lambda>(flags, residual).
     rbind (merge_env flags (gf_output flags \<noteq> TextMode) (gf_passphrase_file flags \<noteq> None)
              (gf_alias flags \<noteq> None) (gf_container flags \<noteq> None) env) (\<lambda>merged.
     Inr (merged, residual)))"

text \<open>
  \<open>main\<close>: the flags first, then the command. \<open>None\<close> is the parser's \<open>unreachable!\<close>.
\<close>

datatype usage_error = FlagUsage flag_error | CommandUsage parse_error

definition parse_invocation :: "(string \<Rightarrow> string option) \<Rightarrow> string list \<Rightarrow> (usage_error, global_flags \<times> command) result option" where
  "parse_invocation env argv =
     (case parse_global env argv of
        Inl e \<Rightarrow> Some (Inl (FlagUsage e))
      | Inr (flags, residual) \<Rightarrow>
          map_option (\<lambda>r. rbind (rmap_err CommandUsage r) (\<lambda>cmd. Inr (flags, cmd))) (parse_args residual))"

section \<open>Writing the flags out\<close>

definition render_flags :: "global_flags \<Rightarrow> string list" where
  "render_flags f =
     (case gf_output f of TextMode \<Rightarrow> [] | JsonMode \<Rightarrow> [''--json''] | QuietMode \<Rightarrow> [''--quiet''])
     @ (case gf_passphrase_file f of None \<Rightarrow> [] | Some v \<Rightarrow> [''--passphrase-file'', v])
     @ (case gf_alias f of None \<Rightarrow> [] | Some v \<Rightarrow> [''--alias='' @ v])
     @ (case gf_container f of None \<Rightarrow> [] | Some SourceLocal \<Rightarrow> [''--local''] | Some SourceRemote \<Rightarrow> [''--remote''])
     @ (if gf_yes f then [''--yes''] else [])"

definition flags_ok :: "global_flags \<Rightarrow> bool" where
  "flags_ok f \<longleftrightarrow> gf_passphrase_file f \<noteq> Some [] \<and> gf_alias f \<noteq> Some []"

lemma extract_words:
  "\<forall>u \<in> set us. \<not> starts_dashed u \<Longrightarrow> extract_loop f res (us @ vs) = extract_loop f (res @ us) vs"
proof (induction us arbitrary: res)
  case (Cons u us)
  then have "u \<noteq> ''--''" by (auto simp: starts_dashed_def)
  with Cons show ?case by simp
qed simp

lemma extract_flag:
  assumes "tok \<noteq> ''--''" "starts_dashed tok" "flag_step f tok iter = Inr (f', rest)"
  shows "extract_loop f res (tok # iter) = extract_loop f' res rest"
  using assms by simp

lemma split_eq_plain: "CHR ''='' \<notin> set t \<Longrightarrow> split_eq t = (t, None)"
proof -
  assume "CHR ''='' \<notin> set t"
  then have "\<not> occurs ''='' t" by (auto simp: occurs_def)
  then have "find_sub ''='' t = None" by (simp only: find_sub_None not_False_eq_True)
  then show ?thesis by (simp add: split_eq_def)
qed

lemma split_eq_alias: "split_eq (''--alias='' @ v) = (''--alias'', Some v)"
  by (simp add: split_eq_def)

lemma step_json: "gf_output f \<noteq> QuietMode \<Longrightarrow> flag_step f ''--json'' iter = Inr (f\<lparr>gf_output := JsonMode\<rparr>, iter)"
  by (simp add: flag_step_def split_eq_plain reject_inline_def)

lemma step_quiet: "gf_output f \<noteq> JsonMode \<Longrightarrow> flag_step f ''--quiet'' iter = Inr (f\<lparr>gf_output := QuietMode\<rparr>, iter)"
  by (simp add: flag_step_def split_eq_plain reject_inline_def)

lemma step_file: "v \<noteq> [] \<Longrightarrow> flag_step f ''--passphrase-file'' (v # iter) = Inr (f\<lparr>gf_passphrase_file := Some v\<rparr>, iter)"
  by (simp add: flag_step_def split_eq_plain take_value_def)

lemma step_alias: "v \<noteq> [] \<Longrightarrow> flag_step f (''--alias='' @ v) iter = Inr (f\<lparr>gf_alias := Some v\<rparr>, iter)"
  unfolding flag_step_def split_eq_alias by (simp add: take_value_def)

lemma step_local: "gf_container f \<noteq> Some SourceRemote \<Longrightarrow> flag_step f ''--local'' iter = Inr (f\<lparr>gf_container := Some SourceLocal\<rparr>, iter)"
  by (simp add: flag_step_def split_eq_plain reject_inline_def)

lemma step_remote: "gf_container f \<noteq> Some SourceLocal \<Longrightarrow> flag_step f ''--remote'' iter = Inr (f\<lparr>gf_container := Some SourceRemote\<rparr>, iter)"
  by (simp add: flag_step_def split_eq_plain reject_inline_def)

lemma step_yes: "flag_step f ''--yes'' iter = Inr (f\<lparr>gf_yes := True\<rparr>, iter)"
  by (simp add: flag_step_def split_eq_plain reject_inline_def)

lemmas flag_steps = step_json step_quiet step_file step_alias step_local step_remote step_yes

lemma same_flags:
  "gf_output g = m \<Longrightarrow> g\<lparr>gf_output := m\<rparr> = g" "gf_passphrase_file g = p \<Longrightarrow> g\<lparr>gf_passphrase_file := p\<rparr> = g"
  "gf_alias g = a \<Longrightarrow> g\<lparr>gf_alias := a\<rparr> = g" "gf_container g = c \<Longrightarrow> g\<lparr>gf_container := c\<rparr> = g"
  "gf_yes g = y \<Longrightarrow> g\<lparr>gf_yes := y\<rparr> = g"
  by auto

lemma extract_render:
  assumes "flags_ok f"
  shows "extract_loop flags_default res (render_flags f @ ''--'' # ws) = Inr (f, res @ ws)"
proof -
  have out: "extract_loop g res ((case gf_output f of TextMode \<Rightarrow> [] | JsonMode \<Rightarrow> [''--json''] | QuietMode \<Rightarrow> [''--quiet'']) @ vs)
    = extract_loop (g\<lparr>gf_output := gf_output f\<rparr>) res vs" if "gf_output g = TextMode" for g vs
    using that by (cases "gf_output f") (simp_all add: starts_dashed_def step_json step_quiet same_flags)
  have pfile: "extract_loop g res ((case gf_passphrase_file f of None \<Rightarrow> [] | Some v \<Rightarrow> [''--passphrase-file'', v]) @ vs)
    = extract_loop (g\<lparr>gf_passphrase_file := gf_passphrase_file f\<rparr>) res vs" if "gf_passphrase_file g = None" for g vs
    using assms that by (cases "gf_passphrase_file f")
      (simp_all add: starts_dashed_def step_file flags_ok_def same_flags)
  have als: "extract_loop g res ((case gf_alias f of None \<Rightarrow> [] | Some v \<Rightarrow> [''--alias='' @ v]) @ vs)
    = extract_loop (g\<lparr>gf_alias := gf_alias f\<rparr>) res vs" if "gf_alias g = None" for g vs
    using assms that extract_flag [OF _ _ step_alias]
    by (cases "gf_alias f") (simp_all add: starts_dashed_def flags_ok_def same_flags)
  have cont: "extract_loop g res ((case gf_container f of None \<Rightarrow> [] | Some SourceLocal \<Rightarrow> [''--local''] | Some SourceRemote \<Rightarrow> [''--remote'']) @ vs)
    = extract_loop (g\<lparr>gf_container := gf_container f\<rparr>) res vs" if "gf_container g = None" for g vs
    using that by (auto simp: starts_dashed_def step_local step_remote same_flags split: option.splits container_source.splits)
  have yes: "extract_loop g res ((if gf_yes f then [''--yes''] else []) @ vs)
    = extract_loop (g\<lparr>gf_yes := gf_yes f\<rparr>) res vs" if "\<not> gf_yes g" for g vs
    using that by (simp add: starts_dashed_def step_yes same_flags)
  have "extract_loop flags_default res (render_flags f @ ''--'' # ws)
    = extract_loop \<lparr>gf_output = gf_output f, gf_passphrase_file = gf_passphrase_file f, gf_alias = gf_alias f,
        gf_container = gf_container f, gf_yes = gf_yes f\<rparr> res (''--'' # ws)"
    unfolding render_flags_def append_assoc
    by (simp add: out pfile als cont yes flags_default_def del: extract_loop.simps)
  then show ?thesis by simp
qed

text \<open>
  The global flags can be given anywhere and are understood as written: after any
  words that do not begin with two dashes, every combination of flags that is
  written out and closed by a bare \<open>--\<close> is read back as it was, and the words before
  it and whatever follows it, dashes or not, are the command line of the verb.
\<close>
theorem flags_roundtrip:
  assumes "flags_ok f" and "\<forall>u \<in> set us. \<not> starts_dashed u"
  shows "extract_flags (us @ render_flags f @ ''--'' # ws) = Inr (f, us @ ws)"
  using extract_render [OF assms(1), of us ws]
  by (simp add: extract_flags_def extract_words [OF assms(2)] del: extract_loop.simps)

theorem flags_roundtrip_witness:
  "extract_flags [''s'', ''a.md'', ''--json'', ''--passphrase-file'', ''--yes'', ''--alias=w'', ''--local'', ''--'', ''--b'']
     = Inr (\<lparr>gf_output = JsonMode, gf_passphrase_file = Some ''--yes'', gf_alias = Some ''w'',
              gf_container = Some SourceLocal, gf_yes = False\<rparr>, [''s'', ''a.md'', ''--b''])"
  using flags_roundtrip [of "\<lparr>gf_output = JsonMode, gf_passphrase_file = Some ''--yes'', gf_alias = Some ''w'',
              gf_container = Some SourceLocal, gf_yes = False\<rparr>" "[''s'', ''a.md'']" "[''--b'']"]
  by (simp add: flags_ok_def starts_dashed_def render_flags_def)

text \<open>
  What the user can say is what the program does: every command the grammar can
  express, with every combination of global flags, is expressed by the words that
  writing both out gives, file names that look like flags included.
\<close>
theorem invocation_roundtrip:
  assumes "flags_ok f" and "sayable c"
  shows "parse_invocation (\<lambda>_. None) (render_flags f @ ''--'' # unparse c) = Some (Inr (f, c))"
proof -
  have "merge_env f o1 o2 o3 o4 (\<lambda>_. None) = Inr f" for o1 o2 o3 o4 by (simp add: merge_env_def)
  then have "parse_global (\<lambda>_. None) (render_flags f @ ''--'' # unparse c) = Inr (f, unparse c)"
    by (simp add: parse_global_def extract_flags_def extract_render [OF assms(1)])
  then show ?thesis by (simp add: parse_invocation_def parse_unparse [OF assms(2)])
qed

theorem invocation_roundtrip_witness:
  "parse_invocation (\<lambda>_. None) [''--quiet'', ''--yes'', ''--'', ''sx'', ''--a.md'', ''docs/'']
     = Some (Inr (\<lparr>gf_output = QuietMode, gf_passphrase_file = None, gf_alias = None, gf_container = None, gf_yes = True\<rparr>,
                  Upload [''--a.md''] True (Some ''docs'')))"
  using invocation_roundtrip [of "\<lparr>gf_output = QuietMode, gf_passphrase_file = None, gf_alias = None, gf_container = None, gf_yes = True\<rparr>"
      "Upload [''--a.md''] True (Some ''docs'')"]
  by (simp add: flags_ok_def render_flags_def files_ok_def modifier_letters_def slash_arg_def)

section \<open>Precedence\<close>

text \<open>The first of a flag and a variable that is set to something.\<close>

definition or_env :: "string option \<Rightarrow> string option \<Rightarrow> string option" where
  "or_env flag var = (if flag \<noteq> None then flag else if var = Some [] then None else var)"

text \<open>
  A flag beats the environment, which beats the default. A variable that a flag
  overrides is not looked at, so it may hold anything; otherwise the output mode and
  the container must be one of the documented words, and a variable that is set to
  the empty string counts as unset for the passphrase file and the alias but is an
  error for the other two.
\<close>
theorem flag_precedence:
  assumes "extract_flags argv = Inr (f, rest)"
  shows "parse_global env argv =
    (if gf_output f = TextMode \<and> env ''ZZ_OUTPUT'' \<notin> {None, Some ''text'', Some ''json''}
     then Inl (BadEnvValue ''ZZ_OUTPUT'' (the (env ''ZZ_OUTPUT'')))
     else if gf_container f = None \<and> env ''ZZ_CONTAINER'' \<notin> {None, Some ''local'', Some ''remote''}
     then Inl (BadEnvValue ''ZZ_CONTAINER'' (the (env ''ZZ_CONTAINER'')))
     else Inr (\<lparr>gf_output = (if gf_output f = TextMode \<and> env ''ZZ_OUTPUT'' = Some ''json'' then JsonMode else gf_output f),
                gf_passphrase_file = or_env (gf_passphrase_file f) (env ''ZZ_PASSPHRASE_FILE''),
                gf_alias = or_env (gf_alias f) (env ''ZZ_ALIAS''),
                gf_container = (if gf_container f \<noteq> None then gf_container f
                  else if env ''ZZ_CONTAINER'' = Some ''local'' then Some SourceLocal
                  else if env ''ZZ_CONTAINER'' = Some ''remote'' then Some SourceRemote else None),
                gf_yes = gf_yes f\<rparr>, rest))"
proof -
  obtain out pf al ct ye where f: "f = \<lparr>gf_output = out, gf_passphrase_file = pf, gf_alias = al, gf_container = ct, gf_yes = ye\<rparr>"
    by (cases f)
  show ?thesis
    unfolding parse_global_def assms f
    by (cases "env ''ZZ_OUTPUT''"; cases "env ''ZZ_PASSPHRASE_FILE''"; cases "env ''ZZ_ALIAS''"; cases "env ''ZZ_CONTAINER''";
        cases pf; cases al; cases ct)
      (simp_all add: merge_env_def or_env_def Let_def)
qed

theorem flag_precedence_witness:
  "parse_global (\<lambda>v. if v = ''ZZ_OUTPUT'' then Some ''yaml'' else if v = ''ZZ_ALIAS'' then Some ''home'' else None) [''--json'', ''f'']
     = Inr (\<lparr>gf_output = JsonMode, gf_passphrase_file = None, gf_alias = Some ''home'', gf_container = None, gf_yes = False\<rparr>, [''f''])"
proof -
  have "extract_flags [''--json'', ''f''] = Inr (flags_default\<lparr>gf_output := JsonMode\<rparr>, [''f''])"
    by (simp add: extract_flags_def starts_dashed_def step_json flags_default_def)
  from flag_precedence [OF this, of "\<lambda>v. if v = ''ZZ_OUTPUT'' then Some ''yaml'' else if v = ''ZZ_ALIAS'' then Some ''home'' else None"]
  show ?thesis by (simp add: flags_default_def or_env_def)
qed

end
