(* ===== verification/Rc_Block.thy ===== *)
theory Rc_Block
  imports Disk
begin

text \<open>
  The delimited block that the completion setup keeps in a shell's rc file
  (core/src/completions/rc_block.rs, markers in completions/mod.rs). The text part
  of each operation is a function of its own; a Rust string slice that does not
  fall on a character boundary panics, which is \<open>None\<close> here.
\<close>

section \<open>Operations on the text\<close>

definition BLOCK_START :: string where "BLOCK_START = ''# >>> zz-drop SACS >>>''"
definition BLOCK_END :: string where "BLOCK_END = ''# <<< zz-drop SACS <<<''"

abbreviation NL :: char where "NL \<equiv> CHR 0x0A"

datatype rc_action = RcInserted | RcUpdated | RcUnchanged | RcNotNeeded

definition render_block :: "string \<Rightarrow> string" where
  "render_block body =
     BLOCK_START @ [NL] @ body @ (if ends_with body NL then [] else [NL]) @ BLOCK_END @ [NL]"

definition find_block :: "string \<Rightarrow> (nat \<times> nat) option" where
  "find_block body =
     Option.bind (find_sub BLOCK_START body) (\<lambda>s.
     let after = s + length BLOCK_START in
     Option.bind (find_sub BLOCK_END (drop after body)) (\<lambda>e_rel.
     Some (s, after + e_rel + length BLOCK_END)))"

text \<open>\<open>str::trim_end\<close> on text that ends in ASCII.\<close>

definition is_space :: "char \<Rightarrow> bool" where
  "is_space c \<longleftrightarrow> c \<in> {CHR 0x09, CHR 0x0A, CHR 0x0B, CHR 0x0C, CHR 0x0D, CHR '' ''}"

definition trim_end :: "string \<Rightarrow> string" where
  "trim_end s = rev (dropWhile is_space (rev s))"

text \<open>What \<open>write_block\<close> answers and the new text, if it writes one.\<close>

definition write_text :: "string \<Rightarrow> string \<Rightarrow> rc_action \<times> string option" where
  "write_text existing body =
     (let desired_block = render_block body in
      case find_block existing of
        Some (s, e) \<Rightarrow>
          let on_disk = trim_end (take (e - s) (drop s existing));
              desired_trimmed = trim_end desired_block
          in if on_disk = desired_trimmed then (RcUnchanged, None)
             else let replacement = (if e < length existing \<and> existing ! e = NL then desired_trimmed else desired_block)
                  in (RcUpdated, Some (take s existing @ replacement @ drop e existing))
      | None \<Rightarrow>
          let n1 = (if existing \<noteq> [] \<and> \<not> ends_with existing NL then existing @ [NL] else existing);
              n2 = (if n1 \<noteq> [] then n1 @ [NL] else n1)
          in (RcInserted, Some (n2 @ desired_block)))"

text \<open>\<open>is_char_boundary\<close>: not before a UTF-8 continuation byte.\<close>

definition is_char_boundary :: "string \<Rightarrow> nat \<Rightarrow> bool" where
  "is_char_boundary s i \<longleftrightarrow> i = 0 \<or> i = length s \<or>
     (i < length s \<and> \<not> (128 \<le> (of_char (s ! i) :: nat) \<and> (of_char (s ! i) :: nat) < 192))"

text \<open>
  \<open>remove_block\<close>: \<open>None\<close> if it panics, else whether it removed anything, and the
  text it leaves. The slice before the block is the only one whose bounds are not
  the ends of an ASCII marker.
\<close>

definition remove_text :: "string \<Rightarrow> (bool \<times> string) option" where
  "remove_text existing =
     (case find_block existing of
        None \<Rightarrow> Some (False, existing)
      | Some (s, e) \<Rightarrow>
          let e' = (if e < length existing \<and> existing ! e = NL then e + 1 else e) in
          if 2 \<le> s \<and> \<not> is_char_boundary existing (s - 2) then None
          else let s' = (if 2 \<le> s \<and> take 2 (drop (s - 2) existing) = [NL, NL] then s - 1
                         else if 1 \<le> s \<and> existing ! (s - 1) = NL
                              \<and> (s - 2 < length existing \<and> existing ! (s - 2) = NL) then s - 1
                         else s)
               in Some (True, take s' existing @ drop e' existing))"

section \<open>Operations on the file\<close>

datatype rc_error = RcIo string | RcPanic

text \<open>\<open>fs::read_to_string\<close>; \<open>readable\<close> is false for any error but a missing file.\<close>

definition read_or_empty :: "bool \<Rightarrow> io_plan \<Rightarrow> disk \<Rightarrow> string \<Rightarrow> (rc_error, string) result" where
  "read_or_empty readable pl d rc =
     (case d_files d rc of
        None \<Rightarrow> Inr []
      | Some f \<Rightarrow> if readable then Inr (f_data f) else Inl (RcIo (pl_msg pl)))"

definition contains_block :: "bool \<Rightarrow> io_plan \<Rightarrow> disk \<Rightarrow> string \<Rightarrow> (rc_error, bool) result" where
  "contains_block readable pl d rc =
     rbind (read_or_empty readable pl d rc) (\<lambda>body. Inr (find_block body \<noteq> None))"

text \<open>\<open>with_extension("zzdrop.tmp")\<close> of an rc file, whose name has no extension.\<close>

definition rc_tmp :: "string \<Rightarrow> string" where
  "rc_tmp rc = rc @ ''.zzdrop.tmp''"

definition rc_atomic_write :: "io_plan \<Rightarrow> disk \<Rightarrow> string \<Rightarrow> string \<Rightarrow> disk \<times> (rc_error, unit) result" where
  "rc_atomic_write pl d path content =
     (if \<not> pl_mkdir pl then (d, Inl (RcIo (pl_msg pl)))
      else let (d1, written) = fs_write MODE_DEFAULT pl d (rc_tmp path) content
      in if \<not> written then (d1, Inl (RcIo (pl_msg pl)))
      else let d2 = (case (if pl_stat pl then d_files d1 path else None) of
                       Some f \<Rightarrow> fst (fs_chmod (f_mode f) pl d1 (rc_tmp path))
                     | None \<Rightarrow> d1);
               (d3, renamed) = fs_rename pl d2 (rc_tmp path) path
      in (d3, if renamed then Inr () else Inl (RcIo (pl_msg pl))))"

definition write_block ::
  "bool \<Rightarrow> io_plan \<Rightarrow> disk \<Rightarrow> string \<Rightarrow> string \<Rightarrow> disk \<times> (rc_error, rc_action) result" where
  "write_block readable pl d rc body =
     (case read_or_empty readable pl d rc of
        Inl e \<Rightarrow> (d, Inl e)
      | Inr existing \<Rightarrow>
          (case write_text existing body of
             (action, None) \<Rightarrow> (d, Inr action)
           | (action, Some next) \<Rightarrow>
               let (d', r) = rc_atomic_write pl d rc next in (d', rbind r (\<lambda>_. Inr action))))"

definition remove_block :: "bool \<Rightarrow> io_plan \<Rightarrow> disk \<Rightarrow> string \<Rightarrow> disk \<times> (rc_error, bool) result" where
  "remove_block readable pl d rc =
     (case d_files d rc of
        None \<Rightarrow> (d, Inr False)
      | Some f \<Rightarrow>
          if \<not> readable then (d, Inl (RcIo (pl_msg pl)))
          else (case remove_text (f_data f) of
                  None \<Rightarrow> (d, Inl RcPanic)
                | Some (False, _) \<Rightarrow> (d, Inr False)
                | Some (True, next) \<Rightarrow>
                    let (d', r) = rc_atomic_write pl d rc next in (d', rbind r (\<lambda>_. Inr True))))"

section \<open>Finding the block\<close>

text \<open>The markers start with a character they do not repeat, so they cannot overlap.\<close>

lemma find_sub_first:
  assumes "p \<noteq> []" and "hd p \<notin> set (tl p)" and "\<not> occurs p u"
  shows "find_sub p (u @ p @ v) = Some (length u)"
  using assms(3)
proof (induction u)
  case Nil
  show ?case using find_sub_here [OF assms(1)] by simp
next
  case (Cons x u)
  have "strip_prefix p (x # u @ p @ v) = None"
  proof (rule ccontr)
    assume "strip_prefix p (x # u @ p @ v) \<noteq> None"
    then obtain w where w: "(x # u) @ p @ v = p @ w" by auto
    obtain us where us: "(x # u = p @ us) \<or> ((x # u) @ us = p \<and> p @ v = us @ w)"
      using append_eq_append_conv2 [THEN iffD1, OF w] by blast
    consider z where "x # u = p @ z" | z where "z \<noteq> []" "p = (x # u) @ z" "p @ v = z @ w"
    proof (cases "x # u = p @ us \<or> us = []")
      case True
      with us have "\<exists>z. x # u = p @ z" by (metis append_Nil2)
      with that(1) show ?thesis by blast
    next
      case False
      with us that(2) [of us] show ?thesis by blast
    qed
    then show False
    proof cases
      case 1
      with Cons.prems show False unfolding occurs_def by (metis append_Nil)
    next
      case 2
      from 2(1,3) assms(1) have "hd z = hd p" by (metis hd_append2)
      moreover from 2(1,2) have "hd z \<in> set (tl p)" by (cases z) auto
      ultimately show False using assms(2) by simp
    qed
  qed
  moreover from Cons.prems have "\<not> occurs p u" by (simp add: occurs_Cons)
  ultimately show ?case by (simp add: Cons.IH)
qed

lemma find_sub_Some: "find_sub p s = Some i \<Longrightarrow> \<exists>v. s = take i s @ p @ v \<and> i \<le> length s"
proof (induction s arbitrary: i)
  case Nil
  then show ?case by (auto split: if_splits)
next
  case (Cons x xs)
  show ?case
  proof (cases "strip_prefix p (x # xs)")
    case None
    with Cons.prems obtain j where "find_sub p xs = Some j" "i = Suc j" by auto
    with Cons.IH show ?thesis by auto
  next
    case (Some r)
    with Cons.prems have "i = 0" by auto
    with Some show ?thesis by auto
  qed
qed

lemma find_sub_Some_first: "find_sub p s = Some i \<Longrightarrow> p \<noteq> [] \<Longrightarrow> \<not> occurs p (take i s)"
proof (induction s arbitrary: i)
  case Nil
  then show ?case by (auto split: if_splits)
next
  case (Cons x xs)
  show ?case
  proof (cases "strip_prefix p (x # xs)")
    case None
    with Cons.prems obtain j where j: "find_sub p xs = Some j" "i = Suc j" by auto
    have "\<not> (\<exists>v. x # take j xs = p @ v)"
    proof
      assume "\<exists>v. x # take j xs = p @ v"
      then obtain v where "x # take j xs = p @ v" by blast
      then have "x # xs = p @ v @ drop j xs" by (metis append.assoc append_Cons append_take_drop_id)
      with None show False by (metis option.distinct(1) strip_prefix_Some)
    qed
    with Cons.IH [OF j(1) Cons.prems(2)] j(2) show ?thesis by (simp add: occurs_Cons)
  next
    case (Some r)
    with Cons.prems have "i = 0" by auto
    with Cons.prems(2) show ?thesis by (simp add: occurs_def)
  qed
qed

lemma markers [simp]:
  "BLOCK_START \<noteq> []" "BLOCK_END \<noteq> []" "hd BLOCK_START \<notin> set (tl BLOCK_START)" "hd BLOCK_END \<notin> set (tl BLOCK_END)"
  "NL \<notin> set BLOCK_START" "NL \<notin> set BLOCK_END"
  by (simp_all add: BLOCK_START_def BLOCK_END_def)

lemma find_block_here:
  "\<not> occurs BLOCK_START u \<Longrightarrow> \<not> occurs BLOCK_END m \<Longrightarrow>
   find_block (u @ BLOCK_START @ m @ BLOCK_END @ v) = Some (length u, length (u @ BLOCK_START @ m @ BLOCK_END))"
  using find_sub_first [of BLOCK_START u "m @ BLOCK_END @ v"] find_sub_first [of BLOCK_END m v]
  by (simp add: find_block_def Let_def)

lemma find_block_split:
  assumes "find_block s = Some (i, j)"
  obtains u m v where "s = u @ BLOCK_START @ m @ BLOCK_END @ v" "\<not> occurs BLOCK_START u" "\<not> occurs BLOCK_END m"
    "i = length u" "j = length (u @ BLOCK_START @ m @ BLOCK_END)"
proof -
  from assms obtain e where i: "find_sub BLOCK_START s = Some i"
    and e: "find_sub BLOCK_END (drop (i + length BLOCK_START) s) = Some e"
    and j: "j = i + length BLOCK_START + e + length BLOCK_END"
    by (auto simp: find_block_def Let_def split: bind_splits)
  from find_sub_Some [OF i] obtain r where r: "s = take i s @ BLOCK_START @ r" "i \<le> length s" by blast
  then have d: "drop (i + length BLOCK_START) s = r"
    by (metis add.commute append.assoc append_eq_conv_conj drop_drop length_append length_take min.absorb2 append_eq_append_conv)
  from find_sub_Some [OF e [unfolded d]] obtain v where v: "r = take e r @ BLOCK_END @ v" "e \<le> length r" by blast
  show ?thesis
  proof
    show "s = take i s @ BLOCK_START @ take e r @ BLOCK_END @ v" using r(1) v(1) by metis
    show "\<not> occurs BLOCK_START (take i s)" by (rule find_sub_Some_first [OF i]) simp
    show "\<not> occurs BLOCK_END (take e r)" by (rule find_sub_Some_first [OF e [unfolded d]]) simp
    show "i = length (take i s)" using r(2) by simp
    show "j = length (take i s @ BLOCK_START @ take e r @ BLOCK_END)" using r(2) v(2) j by simp
  qed
qed

section \<open>Installing and removing\<close>

lemma occurs_snoc_sep: "c \<notin> set p \<Longrightarrow> p \<noteq> [] \<Longrightarrow> occurs p (u @ [c]) \<longleftrightarrow> occurs p u"
proof
  assume c: "c \<notin> set p" "p \<noteq> []" and "occurs p (u @ [c])"
  then obtain a b where ab: "u @ [c] = a @ p @ b" by (auto simp: occurs_def)
  with c have "b \<noteq> []" by (metis append_Nil2 last_appendR last_in_set last_snoc)
  with ab have "u = a @ p @ butlast b" by (metis append_assoc butlast_append butlast_snoc)
  then show "occurs p u" by (auto simp: occurs_def)
next
  assume "occurs p u"
  then obtain a b where "u = a @ p @ b" by (auto simp: occurs_def)
  then have "u @ [c] = a @ p @ (b @ [c])" by simp
  then show "occurs p (u @ [c])" unfolding occurs_def by blast
qed

lemma occurs_cons_sep: "c \<notin> set p \<Longrightarrow> p \<noteq> [] \<Longrightarrow> occurs p (c # u) \<longleftrightarrow> occurs p u"
  by (auto simp: occurs_Cons) (cases p; auto)

lemma occurs_sep: "c \<notin> set p \<Longrightarrow> p \<noteq> [] \<Longrightarrow> occurs p (u @ c # s) \<longleftrightarrow> occurs p u \<or> occurs p s"
proof (cases "occurs p u")
  case True
  then obtain a b where "u = a @ p @ b" by (auto simp: occurs_def)
  then have "u @ c # s = a @ p @ (b @ c # s)" by simp
  with True show ?thesis unfolding occurs_def by blast
next
  case False
  assume "c \<notin> set p" "p \<noteq> []"
  from find_sub_skip [OF this False, of s] have "find_sub p (u @ c # s) = None \<longleftrightarrow> find_sub p s = None" by simp
  with False show ?thesis by (simp add: find_sub_None)
qed

text \<open>What lies between the markers of a rendered block.\<close>

definition inner_of :: "string \<Rightarrow> string" where
  "inner_of body = NL # body @ (if ends_with body NL then [] else [NL])"

lemma render_block_inner: "render_block body = BLOCK_START @ inner_of body @ BLOCK_END @ [NL]"
  by (simp add: render_block_def inner_of_def)

lemma inner_no_end: "\<not> occurs BLOCK_END body \<Longrightarrow> \<not> occurs BLOCK_END (inner_of body)"
  by (simp add: inner_of_def occurs_cons_sep occurs_snoc_sep)

lemma inner_injective: "ends_with b NL \<longleftrightarrow> ends_with c NL \<Longrightarrow> inner_of b = inner_of c \<longleftrightarrow> b = c"
  by (auto simp: inner_of_def)

lemma trim_end_marked: "trim_end (x @ BLOCK_END) = x @ BLOCK_END" "trim_end (x @ BLOCK_END @ [NL]) = x @ BLOCK_END"
  by (simp_all add: trim_end_def BLOCK_END_def is_space_def)

lemma write_text_block:
  assumes "\<not> occurs BLOCK_START u" "\<not> occurs BLOCK_END m"
  shows "write_text (u @ BLOCK_START @ m @ BLOCK_END @ v) body =
     (if m = inner_of body then (RcUnchanged, None)
      else (RcUpdated, Some (u @ BLOCK_START @ inner_of body @ BLOCK_END @ (if v \<noteq> [] \<and> hd v = NL then [] else [NL]) @ v)))"
proof -
  let ?s = "u @ BLOCK_START @ m @ BLOCK_END @ v"
  let ?j = "length (u @ BLOCK_START @ m @ BLOCK_END)"
  have t: "take (?j - length u) (drop (length u) ?s) = BLOCK_START @ m @ BLOCK_END" by simp
  have c: "trim_end (BLOCK_START @ m @ BLOCK_END) = BLOCK_START @ m @ BLOCK_END"
    "trim_end (render_block body) = BLOCK_START @ inner_of body @ BLOCK_END"
    using trim_end_marked(1) [of "BLOCK_START @ m"] trim_end_marked(2) [of "BLOCK_START @ inner_of body"]
    by (simp_all add: render_block_inner)
  have e: "?j < length ?s \<and> ?s ! ?j = NL \<longleftrightarrow> v \<noteq> [] \<and> hd v = NL"
    by (cases v) (auto simp: nth_append)
  have d: "drop ?j ?s = v" "take (length u) ?s = u" by simp_all
  show ?thesis
    unfolding write_text_def find_block_here [OF assms] Let_def option.case prod.case t c e d
    by (simp add: render_block_inner)
qed

lemma write_text_fresh:
  assumes "\<not> occurs BLOCK_START s"
  shows "write_text s body = (RcInserted, Some
     ((if s = [] then [] else if ends_with s NL then s @ [NL] else s @ [NL, NL]) @ render_block body))"
proof -
  have "find_block s = None" using assms by (simp add: find_block_def find_sub_None [THEN iffD2])
  then show ?thesis by (auto simp: write_text_def Let_def)
qed

text \<open>A UTF-8 continuation byte.\<close>

definition continuation :: "char \<Rightarrow> bool" where
  "continuation c \<longleftrightarrow> 128 \<le> (of_char c :: nat) \<and> (of_char c :: nat) < 192"

lemma remove_text_block:
  assumes "\<not> occurs BLOCK_START u" "\<not> occurs BLOCK_END m"
  shows "remove_text (u @ BLOCK_START @ m @ BLOCK_END @ v) =
     (if 2 < length u \<and> continuation (u ! (length u - 2)) then None
      else Some (True, (if u = [NL] \<or> (\<exists>w. u = w @ [NL, NL]) then butlast u else u)
                       @ (if v \<noteq> [] \<and> hd v = NL then tl v else v)))"
proof -
  let ?s = "u @ BLOCK_START @ m @ BLOCK_END @ v"
  let ?i = "length u"
  let ?j = "length (u @ BLOCK_START @ m @ BLOCK_END)"
  have e: "?j < length ?s \<and> ?s ! ?j = NL \<longleftrightarrow> v \<noteq> [] \<and> hd v = NL"
    by (cases v) (auto simp: nth_append)
  have d: "drop (if v \<noteq> [] \<and> hd v = NL then ?j + 1 else ?j) ?s = (if v \<noteq> [] \<and> hd v = NL then tl v else v)"
    by (cases v) auto
  have b: "2 \<le> ?i \<and> \<not> is_char_boundary ?s (?i - 2) \<longleftrightarrow> 2 < ?i \<and> continuation (u ! (?i - 2))"
    by (auto simp: is_char_boundary_def continuation_def nth_append)
  let ?two = "2 \<le> ?i \<and> take 2 (drop (?i - 2) ?s) = [NL, NL]"
  let ?one = "1 \<le> ?i \<and> ?s ! (?i - 1) = NL \<and> (?i - 2 < length ?s \<and> ?s ! (?i - 2) = NL)"
  have k: "?two \<or> ?one \<longleftrightarrow> u = [NL] \<or> (\<exists>w. u = w @ [NL, NL])"
  proof (cases u rule: rev_cases)
    case u: (snoc u' y)
    then show ?thesis
    proof (cases u' rule: rev_cases)
      case (snoc w x)
      with u show ?thesis by (auto simp: nth_append)
    qed (auto simp: nth_append)
  qed simp
  have s: "take (if ?two then ?i - 1 else if ?one then ?i - 1 else ?i) ?s
      = (if u = [NL] \<or> (\<exists>w. u = w @ [NL, NL]) then butlast u else u)"
    unfolding k [symmetric] by (auto simp: butlast_conv_take)
  show ?thesis
    unfolding remove_text_def find_block_here [OF assms] Let_def option.case prod.case e b s d by simp
qed

text \<open>
  Installing and then removing the completion block restores the rc file: a
  file without the markers comes back byte for byte, except that a last line
  without a newline is given one.
\<close>

theorem install_uninstall:
  assumes "\<not> occurs BLOCK_START s" and "\<not> occurs BLOCK_END body"
  shows "\<exists>installed. write_text s body = (RcInserted, Some installed)
    \<and> find_block installed \<noteq> None
    \<and> remove_text installed = Some (True, if s = [] \<or> ends_with s NL then s else s @ [NL])"
proof -
  let ?u = "if s = [] then [] else if ends_with s NL then s @ [NL] else s @ [NL, NL]"
  have "\<not> occurs BLOCK_START (s @ [NL])" "\<not> occurs BLOCK_START ((s @ [NL]) @ [NL])"
    using assms(1) by (simp_all only: occurs_snoc_sep markers simp_thms)
  then have u: "\<not> occurs BLOCK_START ?u" using assms(1) by auto
  have m: "\<not> occurs BLOCK_END (inner_of body)" by (rule inner_no_end [OF assms(2)])
  have r: "?u @ render_block body = ?u @ BLOCK_START @ inner_of body @ BLOCK_END @ [NL]"
    by (simp add: render_block_inner)
  have two: "\<not> (2 < length ?u \<and> continuation (?u ! (length ?u - 2)))"
  proof (cases "s = []")
    case False
    have "?u ! (length ?u - 2) = NL"
      using False by (cases s rule: rev_cases) (auto simp: ends_with_def nth_append)
    then show ?thesis by (simp add: continuation_def)
  qed simp
  have b: "(if ?u = [NL] \<or> (\<exists>w. ?u = w @ [NL, NL]) then butlast ?u else ?u) = (if s = [] \<or> ends_with s NL then s else s @ [NL])"
  proof (cases "s = []")
    case False
    show ?thesis
    proof (cases "ends_with s NL")
      case True
      then have "s = butlast s @ [NL]" by (metis append_butlast_last_id ends_with_def)
      then have "s @ [NL] = butlast s @ [NL, NL]" by (metis append.assoc append_Cons append_Nil)
      with True False show ?thesis by auto
    qed (use False in \<open>auto simp: butlast_append\<close>)
  qed simp
  show ?thesis
    using find_block_here [OF u m, of "[NL]"] remove_text_block [OF u m, of "[NL]"] two
    unfolding write_text_fresh [OF assms(1)] r b by simp
qed

theorem install_uninstall_witness:
  "\<exists>installed. write_text ''export A=1'' ''source zz'' = (RcInserted, Some installed)
     \<and> remove_text installed = Some (True, ''export A=1'' @ [NL])"
proof -
  have "\<not> occurs BLOCK_START ''export A=1''" "\<not> occurs BLOCK_END ''source zz''"
    by (simp_all add: find_sub_None [symmetric] BLOCK_START_def BLOCK_END_def)
  from install_uninstall [OF this] show ?thesis by (auto simp: ends_with_def)
qed

text \<open>
  Writing the block is idempotent and local: after it, a second write with the
  same body changes nothing, and where a block was already there the text before
  its start marker and the text after its end marker are kept, up to one newline.
\<close>

theorem write_block_idempotent:
  assumes w: "write_text s body = (action, Some t)" and b: "\<not> occurs BLOCK_END body" and f: "find_block s = Some (i, j)"
  shows "write_text t body = (RcUnchanged, None)
    \<and> (\<exists>v'. v' \<in> {drop j s, NL # drop j s} \<and> t = take i s @ BLOCK_START @ inner_of body @ BLOCK_END @ v')"
proof -
  from find_block_split [OF f] obtain u m v where s: "s = u @ BLOCK_START @ m @ BLOCK_END @ v"
    and u: "\<not> occurs BLOCK_START u" and m: "\<not> occurs BLOCK_END m" and ij: "i = length u" "j = length (u @ BLOCK_START @ m @ BLOCK_END)"
    by blast
  let ?v = "(if v \<noteq> [] \<and> hd v = NL then [] else [NL]) @ v"
  from w have t: "t = u @ BLOCK_START @ inner_of body @ BLOCK_END @ ?v"
    unfolding s write_text_block [OF u m] by (auto split: if_splits)
  have "write_text t body = (RcUnchanged, None)"
    unfolding t write_text_block [OF u inner_no_end [OF b]] by simp
  moreover have "take i s = u" "drop j s = v" unfolding s ij by simp_all
  ultimately show ?thesis using t by auto
qed

theorem write_block_idempotent_witness:
  "\<exists>t. write_text (''A'' @ [NL] @ BLOCK_START @ inner_of ''old'' @ BLOCK_END @ ''Z'') ''new'' = (RcUpdated, Some t)
     \<and> write_text t ''new'' = (RcUnchanged, None)"
proof -
  have n: "\<not> occurs BLOCK_START (''A'' @ [NL])" "\<not> occurs BLOCK_END ''new''" "\<not> occurs BLOCK_END ''old''"
    by (simp_all add: find_sub_None [symmetric] BLOCK_START_def BLOCK_END_def)
  note m = inner_no_end [OF n(3)]
  have "inner_of ''old'' \<noteq> inner_of ''new''" by (simp add: inner_of_def ends_with_def)
  then obtain t where w: "write_text ((''A'' @ [NL]) @ BLOCK_START @ inner_of ''old'' @ BLOCK_END @ ''Z'') ''new'' = (RcUpdated, Some t)"
    unfolding write_text_block [OF n(1) m] by simp
  from write_block_idempotent [OF w n(2) find_block_here [OF n(1) m]] w show ?thesis by simp
qed

text \<open>
  A start marker that lost its end marker is dangerous: the setup does not
  see a block and appends a new one, and from then on everything between the orphan
  marker and the new block counts as the block, so that removing it deletes the
  user's lines in between.
\<close>

theorem orphan_marker_swallows:
  assumes "\<not> occurs BLOCK_START u" and "\<not> occurs BLOCK_END v" and "\<not> occurs BLOCK_END body"
    and "u = [] \<or> (\<exists>w. u = w @ [NL] \<and> 1 < length w \<and> last w \<noteq> NL \<and> \<not> continuation (last w))" and "ends_with v NL"
  shows "\<exists>t. write_text (u @ BLOCK_START @ v) body = (RcInserted, Some t) \<and> remove_text t = Some (True, u)"
proof -
  have "find_block (u @ BLOCK_START @ v) = None"
    using find_sub_first [OF markers(1,3) assms(1), of v] assms(2)
    by (simp add: find_block_def find_sub_None [THEN iffD2])
  moreover have "ends_with (u @ BLOCK_START @ v) NL" using assms(5) by (simp add: ends_with_def)
  ultimately have w: "write_text (u @ BLOCK_START @ v) body
      = (RcInserted, Some (u @ BLOCK_START @ (v @ [NL] @ BLOCK_START @ inner_of body) @ BLOCK_END @ [NL]))"
    by (simp add: write_text_def render_block_inner)
  have sep: "\<not> occurs BLOCK_END (v @ [NL] @ BLOCK_START @ inner_of body)"
  proof -
    have "\<not> occurs BLOCK_END BLOCK_START"
      by (simp add: find_sub_None [symmetric] BLOCK_START_def BLOCK_END_def)
    moreover have "\<not> occurs BLOCK_END (body @ (if ends_with body NL then [] else [NL]))"
      using assms(3) by (simp add: occurs_snoc_sep)
    ultimately show ?thesis using assms(2) by (simp add: inner_of_def occurs_sep)
  qed
  have n: "\<not> (2 < length u \<and> continuation (u ! (length u - 2)))" "\<not> (u = [NL] \<or> (\<exists>w. u = w @ [NL, NL]))"
  proof -
    have "u ! (length u - 2) = last w" if "u = w @ [NL]" "1 < length w" for w
      using that by (cases w rule: rev_cases) (auto simp: nth_append)
    with assms(4) show "\<not> (2 < length u \<and> continuation (u ! (length u - 2)))" by auto
    show "\<not> (u = [NL] \<or> (\<exists>w. u = w @ [NL, NL]))" using assms(4) by auto
  qed
  show ?thesis
    using w remove_text_block [OF assms(1) sep, of "[NL]"] n by simp
qed

text \<open>
  Removing the block panics in exactly one situation: the second byte before
  the start marker is inside a character, as when the line before it ends in a
  letter outside ASCII and no empty line separates the two.
\<close>

theorem uninstall_panics_iff:
  "remove_text s = None \<longleftrightarrow> (\<exists>i j. find_block s = Some (i, j) \<and> 2 < i \<and> continuation (s ! (i - 2)))"
proof (cases "find_block s")
  case (Some ij)
  obtain i j where ij: "ij = (i, j)" by fastforce
  obtain u m v where s: "s = u @ BLOCK_START @ m @ BLOCK_END @ v"
    and u: "\<not> occurs BLOCK_START u" "\<not> occurs BLOCK_END m" and i: "i = length u"
    by (rule find_block_split [OF Some [unfolded ij]])
  have n: "s ! (i - 2) = u ! (i - 2)" if "2 < i"
  proof -
    from that i have "i - 2 < length u" by simp
    then show ?thesis unfolding s by (rule nth_append_left)
  qed
  have "remove_text s = None \<longleftrightarrow> 2 < i \<and> continuation (u ! (i - 2))"
    using remove_text_block [OF u, of v] unfolding s i by simp
  moreover have "(\<exists>i' j'. find_block s = Some (i', j') \<and> 2 < i' \<and> continuation (s ! (i' - 2)))
      \<longleftrightarrow> 2 < i \<and> continuation (s ! (i - 2))"
    unfolding Some ij by simp
  moreover have "2 < i \<and> continuation (u ! (i - 2)) \<longleftrightarrow> 2 < i \<and> continuation (s ! (i - 2))" using n by auto
  ultimately show ?thesis by (simp only:)
qed (simp add: remove_text_def)

theorem orphan_marker_swallows_witness:
  "\<exists>t. write_text (BLOCK_START @ [NL] @ ''export A=1'' @ [NL]) ''x'' = (RcInserted, Some t) \<and> remove_text t = Some (True, [])"
proof -
  have n: "\<not> occurs BLOCK_START []" "\<not> occurs BLOCK_END ''x''" "\<not> occurs BLOCK_END ([NL] @ ''export A=1'' @ [NL])"
    by (simp_all add: find_sub_None [symmetric] BLOCK_START_def BLOCK_END_def)
  from orphan_marker_swallows [OF n(1,3,2)] show ?thesis by (simp add: ends_with_def)
qed

end
