(* ===== verification/Remote_Path.thy ===== *)
theory Remote_Path
  imports Prelude
begin

text \<open>
  Remote names (core/src/providers/nextcloud/path.rs and collision.rs): the
  validation and percent-encoding of path segments, and the renaming of a file
  that collides with one that is already there. The percent encoder of the crate
  \<open>percent_encoding\<close> is a parameter; \<open>percent_ok\<close> is what its documentation says.
\<close>

section \<open>Path segments (path.rs)\<close>

datatype path_error = PathEmpty | HasSeparator | ParentReference | HasNul

text \<open>The set a segment's characters must not be in: \<open>CONTROLS\<close> and the additions.\<close>

definition SEGMENT_RESERVED :: "char \<Rightarrow> bool" where
  "SEGMENT_RESERVED c \<longleftrightarrow> (of_char c :: nat) < 32 \<or> (of_char c :: nat) = 127
     \<or> c \<in> set '' #<>?`{}%^|[]@:;=&+'' \<or> c = CHR 0x22 \<or> c = CHR 0x5C"

type_synonym percent_encoder = "(char \<Rightarrow> bool) \<Rightarrow> string \<Rightarrow> string"

definition validate_filename :: "string \<Rightarrow> (path_error, unit) result" where
  "validate_filename name =
     (if name = [] then Inl PathEmpty
      else if name = ''.'' \<or> name = ''..'' then Inl ParentReference
      else if CHR ''/'' \<in> set name \<or> CHR 0x5C \<in> set name then Inl HasSeparator
      else if CHR 0x00 \<in> set name then Inl HasNul
      else Inr ())"

definition encode_segment :: "percent_encoder \<Rightarrow> string \<Rightarrow> string" where
  "encode_segment pct segment = pct SEGMENT_RESERVED segment"

fun encode_segments :: "percent_encoder \<Rightarrow> bool \<Rightarrow> string \<Rightarrow> string list \<Rightarrow> (path_error, string) result" where
  "encode_segments pct first out [] = Inr out"
| "encode_segments pct first out (seg # segs) =
     rbind (validate_filename seg) (\<lambda>_.
     encode_segments pct False (out @ (if first then [] else ''/'') @ encode_segment pct seg) segs)"

definition encode_path :: "percent_encoder \<Rightarrow> string list \<Rightarrow> (path_error, string) result" where
  "encode_path pct segments =
     (if segments = [] then Inl PathEmpty else encode_segments pct True [] segments)"

definition encode_remote_root :: "percent_encoder \<Rightarrow> string \<Rightarrow> (path_error, string) result" where
  "encode_remote_root pct root =
     (let trimmed = trim_matches CHR ''/'' root in
      if trimmed = [] then Inr ''/''
      else rbind (encode_path pct (split_on CHR ''/'' trimmed)) (\<lambda>body. Inr (''/'' @ body)))"

section \<open>Collisions (collision.rs)\<close>

text \<open>Zero padding to a width, \<open>{:04}\<close>.\<close>

definition pad :: "nat \<Rightarrow> nat \<Rightarrow> string" where
  "pad w n = replicate (w - length (show_nat n)) CHR ''0'' @ show_nat n"

text \<open>
  The civil date of a day number. The epoch is unsigned, so the code's signed
  intermediate values are never negative; the year is cut to 32 bits.
\<close>

definition civil_from_days :: "nat \<Rightarrow> nat \<times> nat \<times> nat" where
  "civil_from_days days =
     (let z = days + 719468;
          era = z div 146097;
          doe = z - era * 146097;
          yoe = (doe - doe div 1460 + doe div 36524 - doe div 146096) div 365;
          doy = doe - (365 * yoe + yoe div 4 - yoe div 100);
          mp = (5 * doy + 2) div 153;
          day = doy - (153 * mp + 2) div 5 + 1;
          month = (if mp < 10 then mp + 3 else mp - 9);
          year = yoe + era * 400 + (if month \<le> 2 then 1 else 0)
      in (year, month, day))"

definition iso_basic_utc :: "nat \<Rightarrow> string" where
  "iso_basic_utc epoch_secs =
     (let s = epoch_secs mod 60;
          mi = (epoch_secs div 60) mod 60;
          h = (epoch_secs div 3600) mod 24;
          (year, month, day) = civil_from_days (epoch_secs div 86400)
      in pad 4 (year mod 2 ^ 32) @ pad 2 month @ pad 2 day @ ''T'' @ pad 2 h @ pad 2 mi @ pad 2 s @ ''Z'')"

definition rename_with_suffix_at :: "string \<Rightarrow> nat \<Rightarrow> nat \<Rightarrow> string" where
  "rename_with_suffix_at original n epoch_secs =
     (if n = 0 then original
      else let timestamp = iso_basic_utc epoch_secs;
               suffix = (if n = 1 then ''-'' @ timestamp else ''-'' @ timestamp @ ''-'' @ show_nat n)
           in if original = [] \<or> original = ''.'' \<or> original = ''..'' then original @ suffix
              else case file_extension original of
                     Some e \<Rightarrow> file_stem original @ suffix @ ''.'' @ e
                   | None \<Rightarrow> file_stem original @ suffix)"

section \<open>The percent encoder\<close>

definition hex_digit :: "nat \<Rightarrow> char" where
  "hex_digit n = char_of (if n < 10 then 48 + n else 55 + n)"

definition percent_byte :: "char \<Rightarrow> string" where
  "percent_byte c = [CHR ''%'', hex_digit (of_char c div 16), hex_digit (of_char c mod 16)]"

definition percent_spec :: percent_encoder where
  "percent_spec S s = concat (map (\<lambda>c. if S c \<or> 128 \<le> (of_char c :: nat) then percent_byte c else [c]) s)"

definition percent_ok :: "percent_encoder \<Rightarrow> bool" where
  "percent_ok pct \<longleftrightarrow> (\<forall>S s. pct S s = percent_spec S s)"

lemma hex_digit_inject: "m < 16 \<Longrightarrow> n < 16 \<Longrightarrow> hex_digit m = hex_digit n \<longleftrightarrow> m = n"
proof
  assume "m < 16" "n < 16" "hex_digit m = hex_digit n"
  then have "of_char (hex_digit m) = (of_char (hex_digit n) :: nat)" by simp
  with \<open>m < 16\<close> \<open>n < 16\<close> show "m = n" by (auto simp: hex_digit_def split: if_splits)
qed simp

lemma hex_digit_plain: "n < 16 \<Longrightarrow> hex_digit n \<noteq> CHR ''/''"
proof
  assume "n < 16" "hex_digit n = CHR ''/''"
  then have "of_char (hex_digit n) = (of_char CHR ''/'' :: nat)" by simp
  with \<open>n < 16\<close> show False by (auto simp: hex_digit_def split: if_splits)
qed

lemma of_char_hex: "(of_char c :: nat) div 16 < 16" "(of_char c :: nat) mod 16 < 16"
proof -
  have "(of_char c :: nat) < 16 * 16" by simp
  then show "(of_char c :: nat) div 16 < 16" by (rule less_mult_imp_div_less)
  show "(of_char c :: nat) mod 16 < 16" by simp
qed

lemma percent_byte_inject: "percent_byte c = percent_byte d \<longleftrightarrow> c = d"
proof
  assume "percent_byte c = percent_byte d"
  then have "(of_char c :: nat) div 16 = of_char d div 16" "(of_char c :: nat) mod 16 = of_char d mod 16"
    by (auto simp: percent_byte_def hex_digit_inject of_char_hex)
  then have "(of_char c :: nat) = of_char d" by (metis div_mult_mod_eq)
  then show "c = d" by simp
qed simp

lemma percent_spec_Cons:
  "percent_spec S (c # s) = (if S c \<or> 128 \<le> (of_char c :: nat) then percent_byte c else [c]) @ percent_spec S s"
  by (simp add: percent_spec_def)

lemma percent_spec_inject:
  assumes "S CHR ''%''"
  shows "percent_spec S s = percent_spec S t \<Longrightarrow> s = t"
proof (induction s arbitrary: t)
  case Nil
  then show ?case by (cases t) (auto simp: percent_spec_Cons percent_byte_def percent_spec_def split: if_splits)
next
  case (Cons c s)
  then obtain d u where t: "t = d # u"
    by (cases t) (auto simp: percent_spec_Cons percent_byte_def percent_spec_def split: if_splits)
  from Cons.prems assms have "c = d \<and> percent_spec S s = percent_spec S u"
    using percent_byte_inject [of c d]
    by (auto simp: t percent_spec_Cons percent_byte_def split: if_splits)
  with Cons.IH t show ?case by blast
qed

lemma slash_not_in_percent_byte: "CHR ''/'' \<notin> set (percent_byte c)"
  using hex_digit_plain [OF of_char_hex(1)] hex_digit_plain [OF of_char_hex(2)]
  by (simp add: percent_byte_def eq_commute [of "CHR ''/''"])

lemma percent_spec_no_slash: "CHR ''/'' \<notin> set s \<Longrightarrow> CHR ''/'' \<notin> set (percent_spec S s)"
  by (induction s) (auto simp: percent_spec_def slash_not_in_percent_byte split: if_splits)

lemma percent_spec_plain:
  "\<forall>c \<in> set s. \<not> S c \<and> (of_char c :: nat) < 128 \<Longrightarrow> percent_spec S s = s"
  by (induction s) (auto simp: percent_spec_def)

lemma SEGMENT_RESERVED_chars: "SEGMENT_RESERVED CHR ''%''" "\<not> SEGMENT_RESERVED CHR ''.''" "\<not> SEGMENT_RESERVED CHR ''/''"
  by (simp_all add: SEGMENT_RESERVED_def)

lemma encode_segment_spec: "percent_ok pct \<Longrightarrow> encode_segment pct s = percent_spec SEGMENT_RESERVED s"
  by (simp add: encode_segment_def percent_ok_def)

lemma encode_segment_inject:
  "percent_ok pct \<Longrightarrow> encode_segment pct s = encode_segment pct t \<longleftrightarrow> s = t"
  using percent_spec_inject [of SEGMENT_RESERVED s t] by (auto simp: encode_segment_spec SEGMENT_RESERVED_chars)

lemma encode_segment_dots:
  assumes "percent_ok pct" "set d \<subseteq> {CHR ''.''}"
  shows "encode_segment pct s = d \<longleftrightarrow> s = d"
proof -
  have "percent_spec SEGMENT_RESERVED d = d"
    using assms(2) by (intro percent_spec_plain) (auto simp: SEGMENT_RESERVED_chars)
  then have "encode_segment pct d = d" using assms(1) by (simp add: encode_segment_spec)
  then show ?thesis using encode_segment_inject [OF assms(1), of s d] by simp
qed

lemma validate_filename_ok:
  "validate_filename s = Inr u \<longleftrightarrow>
     s \<noteq> [] \<and> s \<noteq> ''.'' \<and> s \<noteq> ''..'' \<and> CHR ''/'' \<notin> set s \<and> CHR 0x5C \<notin> set s \<and> CHR 0x00 \<notin> set s"
  by (simp add: validate_filename_def)

lemma encode_segments_Inr:
  "encode_segments pct first out segs = Inr r \<Longrightarrow>
     (\<forall>s \<in> set segs. validate_filename s = Inr ())
     \<and> r = out @ (if segs = [] then [] else (if first then [] else ''/'') @ join ''/'' (map (encode_segment pct) segs))"
proof (induction segs arbitrary: first out)
  case (Cons s segs)
  have "validate_filename s = Inr ()"
    and rest: "encode_segments pct False (out @ (if first then [] else ''/'') @ encode_segment pct s) segs = Inr r"
    using Cons.prems by (cases "validate_filename s"; simp)+
  with Cons.IH [OF rest] show ?case by (cases segs) simp_all
qed simp

lemma encode_path_Inr:
  "encode_path pct segs = Inr r \<Longrightarrow>
     segs \<noteq> [] \<and> (\<forall>s \<in> set segs. validate_filename s = Inr ()) \<and> r = join ''/'' (map (encode_segment pct) segs)"
  using encode_segments_Inr [of pct True "[]" segs r] by (auto simp: encode_path_def split: if_splits)

lemma split_encoded:
  assumes "percent_ok pct" "segs \<noteq> []" "\<forall>s \<in> set segs. validate_filename s = Inr ()"
  shows "split_on CHR ''/'' (join ''/'' (map (encode_segment pct) segs)) = map (encode_segment pct) segs"
  using assms percent_spec_no_slash
  by (intro split_on_join) (auto simp: encode_segment_spec validate_filename_ok)

text \<open>
  A path that is accepted is encoded faithfully: the server, splitting the
  result at the slashes, sees exactly one piece per segment, none of them empty,
  \<open>.\<close> or \<open>..\<close>; and no other list of segments has the same encoding, so two
  different remote files never share a URL.
\<close>
theorem encode_path_faithful:
  assumes pct: "percent_ok pct" and enc: "encode_path pct segs = Inr url"
  shows "split_on CHR ''/'' url = map (encode_segment pct) segs
    \<and> set (split_on CHR ''/'' url) \<inter> {'''', ''.'', ''..''} = {}
    \<and> (\<forall>other. encode_path pct other = Inr url \<longrightarrow> other = segs)"
proof (intro conjI allI impI)
  note e = encode_path_Inr [OF enc]
  show split: "split_on CHR ''/'' url = map (encode_segment pct) segs"
    using split_encoded [OF pct] e by blast
  show "set (split_on CHR ''/'' url) \<inter> {'''', ''.'', ''..''} = {}"
  proof -
    have "encode_segment pct s \<notin> {'''', ''.'', ''..''}" if "s \<in> set segs" for s
      using e that by (simp add: encode_segment_dots [OF pct] validate_filename_ok)
    then have "x \<notin> {'''', ''.'', ''..''}" if "x \<in> set (map (encode_segment pct) segs)" for x
      using that by (metis (no_types) imageE set_map)
    then show ?thesis unfolding split disjoint_iff by (intro allI impI)
  qed
  fix other assume other: "encode_path pct other = Inr url"
  note o = encode_path_Inr [OF other]
  have "map (encode_segment pct) other = map (encode_segment pct) segs"
    using split_encoded [OF pct, of other] o split by simp
  then show "other = segs"
    using encode_segment_inject [OF pct] by (auto intro: inj_onI dest!: map_inj_on)
qed

theorem encode_path_faithful_witness:
  "split_on CHR ''/'' ''a%20b/..c'' = map (encode_segment percent_spec) [''a b'', ''..c'']"
proof -
  have "encode_path percent_spec [''a b'', ''..c''] = Inr ''a%20b/..c''"
    by (simp add: encode_path_def encode_segment_def validate_filename_def percent_spec_def percent_byte_def
        hex_digit_def SEGMENT_RESERVED_def char_of_def bit_iff_odd)
  from encode_path_faithful [OF _ this] show ?thesis by (simp add: percent_ok_def)
qed

text \<open>The counter and the timestamp of a renamed file.\<close>

definition rename_suffix :: "nat \<Rightarrow> nat \<Rightarrow> string" where
  "rename_suffix n t = (if n = 0 then [] else if n = 1 then ''-'' @ iso_basic_utc t
     else ''-'' @ iso_basic_utc t @ ''-'' @ show_nat n)"

lemma rename_suffix_inject: "rename_suffix m t = rename_suffix n t \<longleftrightarrow> m = n"
  by (auto simp: rename_suffix_def)

lemma rename_parts:
  "rename_with_suffix_at name n t =
     (if n = 0 then name
      else if name = [] \<or> name = ''.'' \<or> name = ''..'' then name @ rename_suffix n t
      else file_stem name @ rename_suffix n t @ (case file_extension name of Some e \<Rightarrow> ''.'' @ e | None \<Rightarrow> []))"
  by (simp add: rename_with_suffix_at_def rename_suffix_def Let_def split: option.splits)

lemma pad_chars: "c \<in> set (pad w n) \<Longrightarrow> 48 \<le> (of_char c :: nat) \<and> (of_char c :: nat) \<le> 57"
  by (auto simp: pad_def dest: show_nat_digits)

lemma iso_chars: "c \<in> set (iso_basic_utc t) \<Longrightarrow> c \<noteq> CHR ''.'' \<and> c \<noteq> CHR ''/''"
  by (auto simp: iso_basic_utc_def Let_def split: prod.splits dest: pad_chars)

lemma rename_suffix_chars: "c \<in> set (rename_suffix n t) \<Longrightarrow> c \<noteq> CHR ''.'' \<and> c \<noteq> CHR ''/''"
  by (auto simp: rename_suffix_def split: if_splits dest: iso_chars show_nat_digits)

lemma file_stem_undotted: "CHR ''.'' \<notin> set s \<Longrightarrow> file_stem s = s"
proof -
  assume "CHR ''.'' \<notin> set s"
  then have "dropWhile (\<lambda>c. c \<noteq> CHR ''.'') (rev s) = []" by (auto simp: dropWhile_eq_Nil_conv)
  then show ?thesis by (simp only: file_stem_def drop_Nil rev.simps Let_def simp_thms if_True)
qed

text \<open>
  Renaming a file that collides never loops on one name: the candidates for
  different attempts differ (also from the original), each one keeps the
  extension of the file, and none of them introduces a path separator.
\<close>
theorem rename_distinct:
  "(\<forall>m n. rename_with_suffix_at name m t = rename_with_suffix_at name n t \<longleftrightarrow> m = n)
   \<and> (\<forall>n e. file_extension name = Some e \<longrightarrow> file_extension (rename_with_suffix_at name n t) = Some e)
   \<and> (\<forall>n. CHR ''/'' \<in> set (rename_with_suffix_at name n t) \<longleftrightarrow> CHR ''/'' \<in> set name)"
proof (intro conjI allI impI)
  define ext where "ext = (case file_extension name of Some e \<Rightarrow> ''.'' @ e | None \<Rightarrow> [])"
  have name: "name = file_stem name @ ext" using file_stem_cases [of name] by (auto simp: ext_def)
  have uniform: "rename_with_suffix_at name n t =
    (if name = [] \<or> name = ''.'' \<or> name = ''..'' then name @ rename_suffix n t
     else file_stem name @ rename_suffix n t @ ext)" for n
    using name by (simp add: rename_parts rename_suffix_def ext_def)
  show "rename_with_suffix_at name m t = rename_with_suffix_at name n t \<longleftrightarrow> m = n" for m n
    by (simp add: uniform rename_suffix_inject)
  show "CHR ''/'' \<in> set (rename_with_suffix_at name n t) \<longleftrightarrow> CHR ''/'' \<in> set name" for n
    using rename_suffix_chars [of "CHR ''/''" n t] arg_cong [OF name, of set] by (auto simp: uniform)
  fix n e assume e: "file_extension name = Some e"
  then have stem: "file_stem name \<noteq> []" "CHR ''.'' \<notin> set e" using file_stem_cases [of name] by auto
  have not_dots: "name \<notin> {[], ''.'', ''..''}"
    using e by (auto simp: file_extension_def file_stem_def)
  then have "file_stem name @ rename_suffix n t @ ''.'' @ e \<noteq> ''..''"
    using name e rename_suffix_chars [of "CHR ''.''" n t] stem
    by (cases "rename_suffix n t") (auto simp: ext_def append_eq_Cons_conv)
  then have "file_stem (file_stem name @ rename_suffix n t @ ''.'' @ e) = file_stem name @ rename_suffix n t"
    using file_stem_dotted [of "file_stem name @ rename_suffix n t" e] stem by simp
  then have "file_extension (file_stem name @ rename_suffix n t @ ''.'' @ e) = Some e"
    by (simp add: file_extension_def)
  with not_dots show "file_extension (rename_with_suffix_at name n t) = Some e"
    using e by (simp add: uniform ext_def)
qed

theorem rename_distinct_witness:
  "file_extension (rename_with_suffix_at ''a.md'' 2 0) = Some ''md''
   \<and> rename_with_suffix_at ''a.md'' 2 0 \<noteq> ''a.md''"
proof -
  have e: "file_extension ''a.md'' = Some ''md''" by (simp add: file_extension_def file_stem_def)
  have "rename_with_suffix_at ''a.md'' 0 0 = ''a.md''" by (simp add: rename_with_suffix_at_def)
  with e rename_distinct [of "''a.md''" 0] show ?thesis by (metis zero_neq_numeral)
qed

end
