(* ===== verification/Walk.thy ===== *)
theory Walk
  imports Prelude "HOL-Library.Char_ord" "HOL-Library.List_Lexorder"
begin

text \<open>
  What the transfer commands share: the counters of a batch (src/commands/batch.rs),
  the selection of local files for an upload and the splitting of a path argument
  (src/commands/walk.rs).
\<close>

section \<open>Batches (batch.rs)\<close>

definition EXIT_OK :: int where "EXIT_OK = 0"
definition EXIT_PROVIDER_ERROR :: int where "EXIT_PROVIDER_ERROR = 9"
definition EXIT_NOT_IMPLEMENTED :: int where "EXIT_NOT_IMPLEMENTED = 3"

record batch_summary =
  bs_successes :: u32
  bs_failures :: u32
  bs_skipped :: u32

definition bs_default :: batch_summary where
  "bs_default = \<lparr>bs_successes = 0, bs_failures = 0, bs_skipped = 0\<rparr>"

definition record_success :: "batch_summary \<Rightarrow> batch_summary" where
  "record_success s = s\<lparr>bs_successes := bs_successes s + 1\<rparr>"

definition record_failure :: "batch_summary \<Rightarrow> batch_summary" where
  "record_failure s = s\<lparr>bs_failures := bs_failures s + 1\<rparr>"

definition record_skip :: "batch_summary \<Rightarrow> batch_summary" where
  "record_skip s = s\<lparr>bs_skipped := bs_skipped s + 1\<rparr>"

definition total_attempted :: "batch_summary \<Rightarrow> u32" where
  "total_attempted s = bs_successes s + bs_failures s"

definition exit_code :: "batch_summary \<Rightarrow> int" where
  "exit_code s = (if 0 < bs_failures s then EXIT_PROVIDER_ERROR else EXIT_OK)"

section \<open>Selecting local files (walk.rs)\<close>

record local_file =
  lf_absolute :: string
  lf_relative_segments :: "string list"

datatype skip_reason = Dotfile | Symlink | NotRegularFile | NonUtf8

text \<open>
  What the file system shows the walk. \<open>FNoType\<close> is an entry whose \<open>file_type\<close>
  fails; a directory that cannot be read is \<open>FDir None\<close>, and an entry that cannot be
  read is \<open>None\<close> in its directory's list. A name is \<open>None\<close> when it is not UTF-8.
\<close>

datatype fs_node = FFile | FSymlink | FOther | FNoType
  | FDir "(string option \<times> fs_node) option list option"

text \<open>
  \<open>walk_inner\<close>: the loop over a directory's entries appends to \<open>out\<close>. An
  unreadable directory or entry ends the whole walk.
\<close>

function (sequential) walk_inner :: "string \<Rightarrow> string list \<Rightarrow> bool \<Rightarrow> fs_node \<Rightarrow> local_file list \<Rightarrow> local_file list option"
  and walk_entries :: "string \<Rightarrow> string list \<Rightarrow> bool \<Rightarrow> (string option \<times> fs_node) option list \<Rightarrow> local_file list \<Rightarrow> local_file list option"
where
  "walk_inner dir rel_prefix recursive (FDir (Some entries)) out = walk_entries dir rel_prefix recursive entries out"
| "walk_inner dir rel_prefix recursive _ out = None"
| "walk_entries dir rel_prefix recursive [] out = Some out"
| "walk_entries dir rel_prefix recursive (None # entries) out = None"
| "walk_entries dir rel_prefix recursive (Some (None, node) # entries) out = walk_entries dir rel_prefix recursive entries out"
| "walk_entries dir rel_prefix recursive (Some (Some name, node) # entries) out =
     (if name \<noteq> [] \<and> hd name = CHR ''.'' then walk_entries dir rel_prefix recursive entries out
      else case node of
        FNoType \<Rightarrow> walk_entries dir rel_prefix recursive entries out
      | FSymlink \<Rightarrow> walk_entries dir rel_prefix recursive entries out
      | FOther \<Rightarrow> walk_entries dir rel_prefix recursive entries out
      | FDir _ \<Rightarrow>
          (if \<not> recursive then walk_entries dir rel_prefix recursive entries out
           else case walk_inner (path_join dir name) (rel_prefix @ [name]) recursive node out of
                  None \<Rightarrow> None
                | Some out' \<Rightarrow> walk_entries dir rel_prefix recursive entries out')
      | FFile \<Rightarrow> walk_entries dir rel_prefix recursive entries
          (out @ [\<lparr>lf_absolute = path_join dir name, lf_relative_segments = rel_prefix @ [name]\<rparr>]))"
  by pat_completeness auto
termination
  by (relation "measure (case_sum (\<lambda>(_, _, _, n, _). size n) (\<lambda>(_, _, _, es, _). size_list (size_option (size_prod (\<lambda>_. 0) size)) es))")
    auto

definition walk_local :: "string \<Rightarrow> bool \<Rightarrow> fs_node \<Rightarrow> local_file list option" where
  "walk_local root recursive tree =
     map_option (sort_key lf_relative_segments) (walk_inner root [] recursive tree [])"

fun split_parts :: "string list \<Rightarrow> string list \<Rightarrow> (skip_reason, string list) result" where
  "split_parts parts [] = Inr parts"
| "split_parts parts (part # rest) =
     (if part = [] \<or> part = ''.'' then split_parts parts rest
      else if part = ''..'' then Inl NotRegularFile
      else if hd part = CHR ''.'' then Inl Dotfile
      else split_parts (parts @ [part]) rest)"

definition split_user_path :: "string \<Rightarrow> (skip_reason, string list) result" where
  "split_user_path arg =
     (if arg = [] then Inl NotRegularFile
      else rbind (split_parts [] (split_on CHR ''/'' arg))
             (\<lambda>parts. if parts = [] then Inl NotRegularFile else Inr parts))"

section \<open>What the walk selects\<close>

definition dotted :: "string \<Rightarrow> bool" where
  "dotted n \<longleftrightarrow> n \<noteq> [] \<and> hd n = CHR ''.''"

inductive reaches :: "fs_node \<Rightarrow> string list \<Rightarrow> fs_node \<Rightarrow> bool" where
  here: "Some (Some n, t) \<in> set es \<Longrightarrow> reaches (FDir (Some es)) [n] t"
| down: "Some (Some n, t) \<in> set es \<Longrightarrow> reaches t ns u \<Longrightarrow> reaches (FDir (Some es)) (n # ns) u"

inductive_cases reaches_dirE: "reaches (FDir es) ns u"
inductive_simps reaches_Nil [simp]: "reaches t [] u"
inductive_simps reaches_dir: "reaches (FDir (Some es)) ns u"
inductive_simps reaches_leaf [simp]: "reaches FFile ns u" "reaches FSymlink ns u" "reaches FOther ns u" "reaches FNoType ns u" "reaches (FDir None) ns u"

text \<open>The file at \<open>ns\<close> below a node is one the walk wants.\<close>

definition wanted :: "bool \<Rightarrow> fs_node \<Rightarrow> string list \<Rightarrow> bool" where
  "wanted recursive t ns \<longleftrightarrow> reaches t ns FFile \<and> (\<forall>n \<in> set ns. \<not> dotted n) \<and> (recursive \<or> length ns = 1)"

definition wanted_file :: "string \<Rightarrow> string list \<Rightarrow> string list \<Rightarrow> local_file" where
  "wanted_file dir pre ns = \<lparr>lf_absolute = foldl path_join dir ns, lf_relative_segments = pre @ ns\<rparr>"

lemma wanted_no_entries: "\<not> wanted r (FDir (Some [])) ns"
  by (auto simp: wanted_def elim: reaches_dirE)

lemma reaches_Cons_entry:
  "reaches (FDir (Some (e # es))) ns u \<longleftrightarrow>
     (\<exists>n t. e = Some (Some n, t) \<and> (ns = [n] \<and> u = t \<or> (\<exists>ms. ns = n # ms \<and> reaches t ms u)))
     \<or> reaches (FDir (Some es)) ns u"
  by (auto simp: reaches_dir)

lemma wanted_nameless: "wanted r (FDir (Some (Some (None, t) # es))) ns = wanted r (FDir (Some es)) ns"
  by (simp add: wanted_def reaches_Cons_entry)

lemma wanted_entry:
  "wanted r (FDir (Some (Some (Some n, t) # es))) ns \<longleftrightarrow>
     \<not> dotted n \<and> (ns = [n] \<and> t = FFile \<or> r \<and> (\<exists>ms. ns = n # ms \<and> wanted r t ms)) \<or> wanted r (FDir (Some es)) ns"
  by (cases "ns = []") (auto simp: wanted_def reaches_Cons_entry)

lemma wanted_set:
  "{ns. wanted r (FDir (Some (Some (Some n, t) # es))) ns} =
     (if dotted n then {} else if t = FFile then {[n]} else if r then (#) n ` {ns. wanted r t ns} else {})
     \<union> {ns. wanted r (FDir (Some es)) ns}"
  by (auto simp: wanted_entry) (auto simp: wanted_def)

lemma wanted_leaf: "Collect (wanted r FSymlink) = {}" "Collect (wanted r FOther) = {}" "Collect (wanted r FNoType) = {}"
  by (simp_all add: wanted_def)

text \<open>
  A walk enters the root and, with the recursive flag, every directory below it whose path
  has no dotted component. It needs all of them to be readable, entry by entry. File
  systems do not list a name twice.
\<close>

definition listable :: "fs_node \<Rightarrow> bool" where
  "listable t \<longleftrightarrow> (\<exists>es. t = FDir (Some es) \<and> None \<notin> set es)"

definition walkable :: "bool \<Rightarrow> fs_node \<Rightarrow> bool" where
  "walkable recursive t \<longleftrightarrow> listable t
     \<and> (\<forall>ns d. recursive \<and> reaches t ns (FDir d) \<and> (\<forall>n \<in> set ns. \<not> dotted n) \<longrightarrow> listable (FDir d))"

fun entry_names :: "(string option \<times> fs_node) option list \<Rightarrow> string list" where
  "entry_names [] = []"
| "entry_names (Some (Some n, _) # es) = n # entry_names es"
| "entry_names (_ # es) = entry_names es"

definition unique_names :: "fs_node \<Rightarrow> bool" where
  "unique_names t \<longleftrightarrow> (\<forall>es. t = FDir (Some es) \<or> (\<exists>ns. reaches t ns (FDir (Some es))) \<longrightarrow> distinct (entry_names es))"

lemma listable_simps [simp]:
  "\<not> listable FFile" "\<not> listable FSymlink" "\<not> listable FOther" "\<not> listable FNoType" "\<not> listable (FDir None)"
  "listable (FDir (Some es)) \<longleftrightarrow> None \<notin> set es"
  by (simp_all add: listable_def)

lemma walkable_simps [simp]:
  "\<not> walkable r FFile" "\<not> walkable r FSymlink" "\<not> walkable r FOther" "\<not> walkable r FNoType" "\<not> walkable r (FDir None)"
  "walkable r (FDir (Some []))" "\<not> walkable r (FDir (Some (None # es)))"
  "walkable r (FDir (Some (Some (None, t) # es))) = walkable r (FDir (Some es))"
  by (simp_all add: walkable_def reaches_dir)

lemma walkable_entry:
  "walkable r (FDir (Some (Some (Some n, t) # es))) \<longleftrightarrow>
     walkable r (FDir (Some es)) \<and> (r \<and> \<not> dotted n \<and> (\<exists>d. t = FDir d) \<longrightarrow> walkable r t)"
proof -
  have "(\<forall>ns d. r \<and> reaches (FDir (Some (Some (Some n, t) # es))) ns (FDir d) \<and> (\<forall>n \<in> set ns. \<not> dotted n) \<longrightarrow> listable (FDir d))
      \<longleftrightarrow> (\<forall>ns d. r \<and> reaches (FDir (Some es)) ns (FDir d) \<and> (\<forall>n \<in> set ns. \<not> dotted n) \<longrightarrow> listable (FDir d))
        \<and> (r \<and> \<not> dotted n \<longrightarrow> (\<forall>d. t = FDir d \<longrightarrow> listable t)
             \<and> (\<forall>ns d. reaches t ns (FDir d) \<and> (\<forall>n \<in> set ns. \<not> dotted n) \<longrightarrow> listable (FDir d)))" (is "?a \<longleftrightarrow> ?b \<and> ?c")
  proof (intro iffI conjI)
    assume ?a
    then show ?b unfolding reaches_Cons_entry by blast
    have "listable (FDir d)" if "r" "\<not> dotted n" "reaches t ns (FDir d)" "\<forall>n \<in> set ns. \<not> dotted n" for ns d
      using \<open>?a\<close> [rule_format, of "n # ns" d] that by (auto simp: reaches_Cons_entry)
    moreover have "listable t" if "r" "\<not> dotted n" "t = FDir d" for d
      using \<open>?a\<close> [rule_format, of "[n]" d] that by (auto simp: reaches_Cons_entry)
    ultimately show ?c by blast
  next
    assume "?b \<and> ?c"
    then show ?a unfolding reaches_Cons_entry by force
  qed
  then show ?thesis by (cases t) (auto simp: walkable_def)
qed

lemma walk_ends:
  "walk_inner dir pre r t out \<noteq> None \<longleftrightarrow> walkable r t"
  "walk_entries dir pre r es out \<noteq> None \<longleftrightarrow> walkable r (FDir (Some es))"
proof (induction dir pre r t out and dir pre r es out rule: walk_inner_walk_entries.induct)
  case (6 dir pre r n t es out)
  then show ?case
    by (cases t) (auto simp: walkable_entry dotted_def split: option.split)
qed simp_all

lemma entry_names_reach: "reaches (FDir (Some es)) ns u \<Longrightarrow> hd ns \<in> set (entry_names es)"
  by (induction es rule: entry_names.induct) (auto simp: reaches_Cons_entry elim: reaches_dirE)

lemma unique_names_top: "unique_names (FDir (Some es)) \<Longrightarrow> distinct (entry_names es)"
  by (simp add: unique_names_def)

lemma entry_names_Cons: "distinct (entry_names (e # es)) \<Longrightarrow> distinct (entry_names es)"
  by (induction "e # es" arbitrary: e es rule: entry_names.induct) auto

lemma unique_names_entry:
  "unique_names (FDir (Some (e # es))) \<Longrightarrow> unique_names (FDir (Some es))"
  "unique_names (FDir (Some (Some (Some n, t) # es))) \<Longrightarrow> unique_names t \<and> n \<notin> set (entry_names es)"
proof -
  assume u: "unique_names (FDir (Some (e # es)))"
  from entry_names_Cons [OF unique_names_top [OF u]] have "distinct (entry_names es)" .
  with u show "unique_names (FDir (Some es))" unfolding unique_names_def reaches_Cons_entry by blast
next
  assume u: "unique_names (FDir (Some (Some (Some n, t) # es)))"
  from unique_names_top [OF u] have "n \<notin> set (entry_names es)" by simp
  moreover have "unique_names t" using u unfolding unique_names_def reaches_Cons_entry by blast
  ultimately show "unique_names t \<and> n \<notin> set (entry_names es)" by simp
qed

lemma wanted_name: "wanted r (FDir (Some es)) ns \<Longrightarrow> hd ns \<in> set (entry_names es)"
  by (auto simp: wanted_def dest: entry_names_reach)

lemma wanted_file_eq [simp]: "wanted_file dir pre ns = wanted_file dir pre ms \<longleftrightarrow> ns = ms"
  by (auto simp: wanted_file_def)

lemma walk_entries_dir:
  assumes "\<not> dotted n" "t = FDir d" "r" "walk_entries dir pre r (Some (Some n, t) # es) out = Some out'"
  obtains mid where "walk_inner (path_join dir n) (pre @ [n]) r t out = Some mid"
    and "walk_entries dir pre r es mid = Some out'"
  using assms by (auto simp: dotted_def split: option.splits)

lemma walk_collects:
  "walk_inner dir pre r t out = Some out' \<Longrightarrow>
     \<exists>new. out' = out @ new \<and> set new = wanted_file dir pre ` {ns. wanted r t ns} \<and> (unique_names t \<longrightarrow> distinct new)"
  "walk_entries dir pre r es out = Some out' \<Longrightarrow>
     \<exists>new. out' = out @ new \<and> set new = wanted_file dir pre ` {ns. wanted r (FDir (Some es)) ns}
       \<and> (unique_names (FDir (Some es)) \<longrightarrow> distinct new)"
proof (induction dir pre r t out and dir pre r es out arbitrary: out' and out' rule: walk_inner_walk_entries.induct)
  case (3 dir pre r out)
  then show ?case by (simp add: wanted_no_entries)
next
  case (5 dir pre r t es out)
  then show ?case using unique_names_entry(1) by (fastforce simp: wanted_nameless)
next
  case (6 dir pre r n t es out)
  let ?rest = "wanted_file dir pre ` {ns. wanted r (FDir (Some es)) ns}" and ?es = "Some (Some n, t) # es"
  have fresh: "n \<notin> set (entry_names es)" "unique_names t" "unique_names (FDir (Some es))" if "unique_names (FDir (Some ?es))"
    using unique_names_entry [OF that] by blast+
  have other: "hd ns \<noteq> n" if "unique_names (FDir (Some ?es))" "wanted r (FDir (Some es)) ns" for ns
    using fresh(1) [OF that(1)] wanted_name [OF that(2)] by blast
  show ?case
  proof (cases "dotted n")
    case True
    with 6 fresh(3) show ?thesis by (auto simp: wanted_set dotted_def)
  next
    case plain: False
    then have nd: "\<not> (n \<noteq> [] \<and> hd n = CHR ''.'')" by (simp add: dotted_def)
    have skip: ?thesis if "walk_entries dir pre r es out = Some out'" "{ns. wanted r (FDir (Some ?es)) ns} = {ns. wanted r (FDir (Some es)) ns}"
      "\<exists>new. out' = out @ new \<and> set new = ?rest \<and> (unique_names (FDir (Some es)) \<longrightarrow> distinct new)"
      using that fresh(3) by auto
    show ?thesis
    proof (cases t)
      case FFile
      let ?f = "\<lparr>lf_absolute = path_join dir n, lf_relative_segments = pre @ [n]\<rparr>"
      have f: "?f = wanted_file dir pre [n]" by (simp add: wanted_file_def)
      have "walk_entries dir pre r es (out @ [?f]) = Some out'" using "6.prems" nd FFile by simp
      then obtain new where new: "out' = (out @ [?f]) @ new" "set new = ?rest" "unique_names (FDir (Some es)) \<longrightarrow> distinct new"
        using "6.IH"(2) [OF nd FFile] by blast
      moreover have "wanted_file dir pre ` {ns. wanted r (FDir (Some ?es)) ns} = insert ?f ?rest"
        using plain FFile by (simp add: wanted_set f)
      moreover have "?f \<notin> set new" if "unique_names (FDir (Some ?es))"
        using other [OF that] unfolding new(2) f by fastforce
      ultimately show ?thesis using fresh(3) by (intro exI [of _ "?f # new"]) simp
    next
      case (FDir d)
      show ?thesis
      proof (cases r)
        case False
        have "walk_entries dir pre r es out = Some out'" using "6.prems" nd FDir False by simp
        then show ?thesis using "6.IH"(6) [OF nd FDir False] FDir False fresh(3) by (auto simp: wanted_set)
      next
        case True
        obtain mid where mid: "walk_inner (path_join dir n) (pre @ [n]) r t out = Some mid"
          and tl: "walk_entries dir pre r es mid = Some out'"
          by (rule walk_entries_dir [OF plain FDir True "6.prems"])
        have nnr: "\<not> \<not> r" using True by simp
        from "6.IH"(7) [OF nd FDir nnr mid] obtain new1 where
          n1: "mid = out @ new1" "set new1 = wanted_file (path_join dir n) (pre @ [n]) ` {ns. wanted r t ns}"
            "unique_names t \<longrightarrow> distinct new1" by blast
        from "6.IH"(8) [OF nd FDir nnr mid tl] obtain new2 where
          n2: "out' = mid @ new2" "set new2 = ?rest" "unique_names (FDir (Some es)) \<longrightarrow> distinct new2" by blast
        have step: "wanted_file (path_join dir n) (pre @ [n]) ns = wanted_file dir pre (n # ns)" for ns
          by (simp add: wanted_file_def)
        have "wanted_file dir pre ` {ns. wanted r (FDir (Some ?es)) ns} = set new1 \<union> set new2"
          using plain FDir True by (simp add: n1 n2 wanted_set image_Un image_image step)
        moreover have "distinct (new1 @ new2)" if "unique_names (FDir (Some ?es))"
          using fresh [OF that] other [OF that] n1(3) n2(3) by (fastforce simp: n1(2) n2(2) step)
        ultimately show ?thesis by (intro exI [of _ "new1 @ new2"]) (auto simp: n1(1) n2(1))
      qed
    next
      case FSymlink
      have "walk_entries dir pre r es out = Some out'" using "6.prems" nd FSymlink by simp
      from skip [OF this] this "6.IH"(3) [OF nd FSymlink] FSymlink show ?thesis by (cases r) (simp_all add: wanted_set wanted_leaf)
    next
      case FOther
      have "walk_entries dir pre r es out = Some out'" using "6.prems" nd FOther by simp
      from skip [OF this] this "6.IH"(4) [OF nd FOther] FOther show ?thesis by (cases r) (simp_all add: wanted_set wanted_leaf)
    next
      case FNoType
      have "walk_entries dir pre r es out = Some out'" using "6.prems" nd FNoType by simp
      from skip [OF this] this "6.IH"(5) [OF nd FNoType] FNoType show ?thesis by (cases r) (simp_all add: wanted_set wanted_leaf)
    qed
  qed
qed simp_all

text \<open>
  C15. A walk ends without an error exactly when it can read the root and, with the
  recursive flag, every directory below it that has no dotted component in its path.
  It then lists exactly the regular files below the root none of whose components starts
  with a dot (only those directly in the root without the recursive flag), each once, in
  the order of their relative paths, each with the absolute path that its segments name.
  Nothing is reached through a symbolic link. This is for file systems that list no name
  of a directory twice.
\<close>
theorem walk_local_exact:
  assumes "unique_names tree"
  shows "case walk_local root recursive tree of
           None \<Rightarrow> \<not> walkable recursive tree
         | Some files \<Rightarrow> walkable recursive tree \<and> distinct files \<and> sorted (map lf_relative_segments files)
             \<and> set files = {\<lparr>lf_absolute = foldl path_join root ns, lf_relative_segments = ns\<rparr> | ns.
                 reaches tree ns FFile \<and> (\<forall>n \<in> set ns. \<not> dotted n) \<and> (recursive \<or> length ns = 1)}"
proof (cases "walk_inner root [] recursive tree []")
  case None
  with walk_ends(1) [of root "[]" recursive tree "[]"] show ?thesis by (simp add: walk_local_def)
next
  case (Some out)
  with walk_ends(1) [of root "[]" recursive tree "[]"] have "walkable recursive tree" by simp
  moreover from walk_collects(1) [OF Some] assms
  have "distinct out" "set out = wanted_file root [] ` {ns. wanted recursive tree ns}" by auto
  moreover have "walk_local root recursive tree = Some (sort_key lf_relative_segments out)" using Some by (simp add: walk_local_def)
  ultimately show ?thesis by (auto simp: wanted_file_def wanted_def)
qed

text \<open>A tree with a hidden directory that cannot be read, and a link.\<close>

definition example_tree :: fs_node where
  "example_tree = FDir (Some [Some (Some ''c'', FFile), Some (Some ''.git'', FDir None),
     Some (Some ''b'', FDir (Some [Some (Some ''x'', FFile), Some (Some ''l'', FSymlink)]))])"

theorem walk_local_exact_witness:
  "\<exists>files. walk_local ''w'' True example_tree = Some files \<and> distinct files
     \<and> \<lparr>lf_absolute = ''w/b/x'', lf_relative_segments = [''b'', ''x'']\<rparr> \<in> set files
     \<and> \<lparr>lf_absolute = ''w/b/l'', lf_relative_segments = [''b'', ''l'']\<rparr> \<notin> set files"
proof -
  have u: "unique_names example_tree"
    by (auto simp: unique_names_def example_tree_def reaches_dir)
  obtain files where w: "walk_local ''w'' True example_tree = Some files"
    by (simp add: walk_local_def example_tree_def)
  have "reaches example_tree [''b'', ''x''] FFile" "\<not> reaches example_tree [''b'', ''l''] FFile"
    by (auto simp: example_tree_def reaches_dir)
  with walk_local_exact [where recursive = True and root = "''w''", OF u] w show ?thesis
    by (auto simp: dotted_def path_join_def ends_with_def)
qed

end
