(* ===== verification/Download.thy ===== *)
theory Download
  imports Walk Agent
begin

text \<open>
  Downloads (src/commands/download.rs), with the detection of compressed and
  archived payloads (core crypto/compression.rs). The server is an adversary: what it
  answers to a request may depend on how many requests went before. zstd and tar are
  parameters, and so is whether a local call succeeds. The world also carries the
  files and directories, the messages printed and the counters of the batch.

  \<open>download_dir\<close> recurses as deep as the server's listings go, so it takes a fuel; the
  flag of its result says whether it came to an end.
\<close>

section \<open>Payload detection (compression.rs)\<close>

definition ZSTD_MAGIC :: string where
  "ZSTD_MAGIC = [CHR 0x28, CHR 0xB5, CHR 0x2F, CHR 0xFD]"

definition TAR_USTAR_MAGIC :: string where
  "TAR_USTAR_MAGIC = ''ustar'' @ [CHR 0x00]"

definition TAR_USTAR_MAGIC_GNU :: string where
  "TAR_USTAR_MAGIC_GNU = ''ustar ''"

definition MAX_DECOMPRESSED_BYTES :: nat where
  "MAX_DECOMPRESSED_BYTES = 512 * 1024 * 1024"

definition is_zstd_magic :: "string \<Rightarrow> bool" where
  "is_zstd_magic bytes \<longleftrightarrow> length ZSTD_MAGIC \<le> length bytes \<and> take (length ZSTD_MAGIC) bytes = ZSTD_MAGIC"

definition is_tar_ustar :: "string \<Rightarrow> bool" where
  "is_tar_ustar bytes =
     (if length bytes < 257 + 6 then False
      else let window = take 6 (drop 257 bytes)
           in window = TAR_USTAR_MAGIC \<or> window = TAR_USTAR_MAGIC_GNU)"

text \<open>
  A decoder is what it produces before it ends or fails. The code reads at most one
  byte more than the limit from it, so a later failure is not seen.
\<close>

type_synonym decoder = "string \<Rightarrow> string \<times> string option"

definition decompress_capped :: "decoder \<Rightarrow> string \<Rightarrow> nat \<Rightarrow> (string, string) result" where
  "decompress_capped zstd ciphertext max_bytes =
     (let (produced, failure) = zstd ciphertext;
          limit = min (max_bytes + 1) (2 ^ 64 - 1)
      in if length produced < limit \<and> failure \<noteq> None then Inl (the failure)
         else let out = take limit produced
              in if max_bytes < length out then Inl ''decompressed output exceeds limit'' else Inr out)"

section \<open>The world of a transfer\<close>

datatype event =
    FailedFile string string
  | FailedBare string
  | Downloaded string nat
  | ErrLine string
  | OutLine string

record transfer_env =
  te_list :: "nat \<Rightarrow> string list \<Rightarrow> (string, remote_entry list) result"
  te_get :: "nat \<Rightarrow> string list \<Rightarrow> (string, string) result"
  te_read :: "nat \<Rightarrow> bool"
  te_write :: "nat \<Rightarrow> write_outcome"
  te_mkdir :: "nat \<Rightarrow> bool"
  te_zstd :: decoder
  te_untar :: "string \<Rightarrow> (string list \<times> string) list \<times> string option"
  te_text :: bool

record world =
  w_files :: "string \<Rightarrow> string option"
  w_dirs :: "string list"
  w_tick :: nat
  w_out :: "event list"
  w_sum :: batch_summary

definition emit :: "event \<Rightarrow> world \<Rightarrow> world" where
  "emit e w = w\<lparr>w_out := w_out w @ [e]\<rparr>"

definition tick :: "world \<Rightarrow> world" where
  "tick w = w\<lparr>w_tick := w_tick w + 1\<rparr>"

definition count :: "(batch_summary \<Rightarrow> batch_summary) \<Rightarrow> world \<Rightarrow> world" where
  "count f w = w\<lparr>w_sum := f (w_sum w)\<rparr>"

definition fail_file :: "string \<Rightarrow> string \<Rightarrow> world \<Rightarrow> world" where
  "fail_file name detail w = count record_failure (emit (FailedFile name detail) w)"

text \<open>\<open>fs::write\<close>: creates or truncates; a failed write may leave a part.\<close>

definition local_write :: "transfer_env \<Rightarrow> string \<Rightarrow> string \<Rightarrow> world \<Rightarrow> world \<times> bool" where
  "local_write E p s w =
     (case te_write E (w_tick w) of
        Written \<Rightarrow> (tick (w\<lparr>w_files := (w_files w)(p \<mapsto> s)\<rparr>), True)
      | Refused \<Rightarrow> (tick w, False)
      | Partial u \<Rightarrow> (tick (w\<lparr>w_files := (w_files w)(p \<mapsto> u)\<rparr>), False))"

text \<open>The directories a \<open>create_dir_all\<close> makes: the path and every parent of it.\<close>

definition dir_prefixes :: "string \<Rightarrow> string list" where
  "dir_prefixes p = filter (\<lambda>q. q \<noteq> []) (map (\<lambda>i. take i p) (filter (\<lambda>i. i = length p \<or> p ! i = CHR ''/'') [0..<Suc (length p)]))"

definition create_dir_all :: "transfer_env \<Rightarrow> string \<Rightarrow> world \<Rightarrow> world \<times> bool" where
  "create_dir_all E p w =
     (if te_mkdir E (w_tick w) then (tick (w\<lparr>w_dirs := w_dirs w @ dir_prefixes p\<rparr>), True) else (tick w, False))"

definition path_exists :: "string \<Rightarrow> world \<Rightarrow> bool" where
  "path_exists p w \<longleftrightarrow> w_files w p \<noteq> None \<or> p \<in> set (w_dirs w)"

text \<open>
  \<open>RemoteFs::download\<close>: every client fetches the body and writes it to the local
  path in one \<open>fs::write\<close>.
\<close>

definition remote_download :: "transfer_env \<Rightarrow> string list \<Rightarrow> string \<Rightarrow> world \<Rightarrow> world \<times> (string, nat) result" where
  "remote_download E segments dest w =
     (case te_get E (w_tick w) segments of
        Inl e \<Rightarrow> (tick w, Inl e)
      | Inr body \<Rightarrow>
          (let (w', ok) = local_write E dest body (tick w)
           in (w', if ok then Inr (length body) else Inl ''local file error'')))"

definition remote_list :: "transfer_env \<Rightarrow> string list \<Rightarrow> world \<Rightarrow> world \<times> (string, remote_entry list) result" where
  "remote_list E segments w = (tick w, te_list E (w_tick w) segments)"

section \<open>Names and patterns (download.rs)\<close>

definition ZSTD_SUFFIX :: string where "ZSTD_SUFFIX = ''.zst''"
definition DECOMPRESSED_FALLBACK_SUFFIX :: string where "DECOMPRESSED_FALLBACK_SUFFIX = ''.dec''"

definition has_glob :: "string \<Rightarrow> bool" where
  "has_glob s \<longleftrightarrow> CHR ''*'' \<in> set s \<or> CHR ''?'' \<in> set s"

definition is_safe_local_component :: "string \<Rightarrow> bool" where
  "is_safe_local_component name \<longleftrightarrow>
     name \<noteq> [] \<and> name \<noteq> ''.'' \<and> name \<noteq> ''..'' \<and> CHR ''/'' \<notin> set name \<and> CHR 0x5C \<notin> set name
     \<and> CHR 0x00 \<notin> set name \<and> \<not> has_control name"

fun glob_match :: "string \<Rightarrow> string \<Rightarrow> bool" where
  "glob_match [] n = (n = [])"
| "glob_match (c # p) n =
     (if c = CHR ''*'' then
        glob_match p n \<or> (case n of [] \<Rightarrow> False | d # n' \<Rightarrow> glob_match (c # p) n')
      else if c = CHR ''?'' then (case n of [] \<Rightarrow> False | d # n' \<Rightarrow> glob_match p n')
      else (case n of [] \<Rightarrow> False | d # n' \<Rightarrow> c = d \<and> glob_match p n'))"

text \<open>\<open>rfind('/')\<close>: what is before the last slash and after it.\<close>

definition split_last_slash :: "string \<Rightarrow> string \<times> string" where
  "split_last_slash arg =
     (if CHR ''/'' \<in> set arg then (take (length arg - length (file_name arg) - 1) arg, file_name arg) else ([], arg))"

definition expand_remote_glob :: "transfer_env \<Rightarrow> string \<Rightarrow> world \<Rightarrow> world \<times> (string, string list) result" where
  "expand_remote_glob E arg w =
     (let (parent, pattern) = split_last_slash arg in
      if has_glob parent then (w, Inr [arg])
      else let (w', r) = remote_list E (filter (\<lambda>s. s \<noteq> []) (split_on CHR ''/'' parent)) w
           in (w', rbind r (\<lambda>entries. Inr (sort
                 (map (\<lambda>e. if parent = [] then rm_name e else parent @ ''/'' @ rm_name e)
                   (filter (\<lambda>e. glob_match pattern (rm_name e)) (filter (\<lambda>e. \<not> rm_is_directory e) entries)))))))"

definition parent_dir :: "string \<Rightarrow> string" where
  "parent_dir p =
     (let d = take (length p - length (file_name p)) p; t = trim_end_matches CHR ''/'' d
      in if t = [] \<and> d \<noteq> [] then ''/'' else t)"

definition decompressed_sibling_path :: "string \<Rightarrow> string" where
  "decompressed_sibling_path blob =
     (let name = file_name blob;
          new_name = (case strip_suffix ZSTD_SUFFIX name of
                        Some s \<Rightarrow> if s \<noteq> [] then s else name @ DECOMPRESSED_FALLBACK_SUFFIX
                      | None \<Rightarrow> name @ DECOMPRESSED_FALLBACK_SUFFIX)
      in path_join (parent_dir blob) new_name)"

section \<open>Decompression\<close>

definition extract_dest :: "string \<Rightarrow> string" where
  "extract_dest blob =
     (let name = file_name blob;
          stem = (case strip_suffix ''.tar.zst'' name of
                    Some s \<Rightarrow> s
                  | None \<Rightarrow> (case strip_suffix ZSTD_SUFFIX name of Some s \<Rightarrow> s | None \<Rightarrow> name));
          stem = (if stem = [] then ''extracted'' else stem)
      in path_join (parent_dir blob) stem)"

text \<open>\<open>Archive::unpack\<close>: the files it yields before it ends or fails, below \<open>dest\<close>.\<close>

definition unpack :: "string \<Rightarrow> (string list \<times> string) list \<Rightarrow> world \<Rightarrow> world" where
  "unpack dest members w = foldl (\<lambda>w (path, body). w\<lparr>w_files := (w_files w)(foldl path_join dest path \<mapsto> body)\<rparr>) w members"

definition extract_tar_alongside :: "transfer_env \<Rightarrow> string \<Rightarrow> string \<Rightarrow> world \<Rightarrow> world" where
  "extract_tar_alongside E blob tar_bytes w =
     (let dest = extract_dest blob in
      if path_exists dest w then
        (if te_text E then emit (ErrLine (''refusing to extract: '' @ dest @ '' already exists'')) w
         else emit (FailedFile blob (''refusing to extract: '' @ dest @ '' already exists'')) w)
      else if \<not> te_mkdir E (w_tick w) then emit (FailedFile blob (''mkdir '' @ dest)) (tick w)
      else let w1 = tick (w\<lparr>w_dirs := w_dirs w @ [dest]\<rparr>);
               (members, failure) = te_untar E tar_bytes;
               w2 = unpack dest members w1
           in case failure of
                Some e \<Rightarrow> emit (FailedFile blob (''untar into '' @ dest)) w2
              | None \<Rightarrow> if te_text E then emit (OutLine (''extracted bundle into '' @ dest)) w2 else w2)"

definition decompress_alongside :: "transfer_env \<Rightarrow> string \<Rightarrow> world \<Rightarrow> world" where
  "decompress_alongside E blob w =
     (case (if te_read E (w_tick w) then w_files w blob else None) of
        None \<Rightarrow> emit (FailedFile blob ''read for decompress'') (tick w)
      | Some bytes \<Rightarrow>
          (let w = tick w in
           if \<not> is_zstd_magic bytes then
             (if te_text E then emit (ErrLine (blob @ '' is not zstd-compressed; skipped decompress'')) w else w)
           else case decompress_capped (te_zstd E) bytes MAX_DECOMPRESSED_BYTES of
                  Inl e \<Rightarrow> emit (FailedFile blob (''zstd decode: '' @ e)) w
                | Inr decoded \<Rightarrow>
                    if is_tar_ustar decoded then extract_tar_alongside E blob decoded w
                    else let out_path = decompressed_sibling_path blob;
                             (w', ok) = local_write E out_path decoded w
                         in if \<not> ok then emit (FailedFile blob (''write '' @ out_path)) w'
                            else if te_text E then emit (OutLine (''decompressed to '' @ out_path)) w' else w'))"

section \<open>The commands\<close>

definition download_one :: "transfer_env \<Rightarrow> string \<Rightarrow> bool \<Rightarrow> string \<Rightarrow> world \<Rightarrow> world" where
  "download_one E dest_dir decompress_flag arg w =
     (case split_user_path arg of
        Inl Dotfile \<Rightarrow> count record_skip (emit (FailedFile arg ''dotfile'') w)
      | Inl _ \<Rightarrow> fail_file arg ''invalid path'' w
      | Inr segments \<Rightarrow>
          (let basename = last segments; dest = path_join dest_dir basename;
               (w', r) = remote_download E segments dest w
           in case r of
                Inr n \<Rightarrow>
                  (let w'' = count record_success (emit (Downloaded basename n) w')
                   in if decompress_flag then decompress_alongside E dest w'' else w'')
              | Inl e \<Rightarrow> fail_file arg e w'))"

fun download_each :: "transfer_env \<Rightarrow> string \<Rightarrow> bool \<Rightarrow> string list \<Rightarrow> world \<Rightarrow> world" where
  "download_each E dest_dir decompress_flag [] w = w"
| "download_each E dest_dir decompress_flag (arg # args) w =
     download_each E dest_dir decompress_flag args (download_one E dest_dir decompress_flag arg w)"

definition download_arg :: "transfer_env \<Rightarrow> string \<Rightarrow> bool \<Rightarrow> string \<Rightarrow> world \<Rightarrow> world" where
  "download_arg E dest_dir decompress_flag f w =
     (if has_glob f then
        (case expand_remote_glob E f w of
           (w', Inl e) \<Rightarrow> fail_file f e w'
         | (w', Inr matches) \<Rightarrow>
             if matches = [] then fail_file f ''no remote matches'' w'
             else download_each E dest_dir decompress_flag matches w')
      else download_one E dest_dir decompress_flag f w)"

fun download_args :: "transfer_env \<Rightarrow> string \<Rightarrow> bool \<Rightarrow> string list \<Rightarrow> world \<Rightarrow> world" where
  "download_args E dest_dir decompress_flag [] w = w"
| "download_args E dest_dir decompress_flag (f # files) w =
     download_args E dest_dir decompress_flag files (download_arg E dest_dir decompress_flag f w)"

definition run_download :: "transfer_env \<Rightarrow> string list \<Rightarrow> string \<Rightarrow> bool \<Rightarrow> world \<Rightarrow> world \<times> int" where
  "run_download E files dest_dir decompress_flag w =
     (let w' = download_args E dest_dir decompress_flag files (w\<lparr>w_sum := bs_default\<rparr>)
      in (w', exit_code (w_sum w')))"

text \<open>A file of a listing.\<close>

definition download_entry :: "transfer_env \<Rightarrow> string list \<Rightarrow> string \<Rightarrow> string \<Rightarrow> world \<Rightarrow> world" where
  "download_entry E remote_segments local_dir name w =
     (let full = remote_segments @ [name];
          (w', r) = remote_download E full (path_join local_dir name) w
      in case r of
           Inr n \<Rightarrow> count record_success (emit (Downloaded (join ''/'' full) n) w')
         | Inl e \<Rightarrow> fail_file (join ''/'' full) e w')"

text \<open>
  The loop over the entries is given the recursive call. It stops where a nested
  directory does not come to an end.
\<close>

fun download_entries :: "(string list \<Rightarrow> string \<Rightarrow> world \<Rightarrow> world \<times> bool) \<Rightarrow> transfer_env \<Rightarrow> bool \<Rightarrow> string list \<Rightarrow> string
    \<Rightarrow> remote_entry list \<Rightarrow> world \<Rightarrow> world \<times> bool" where
  "download_entries nested E recursive segs local_dir [] w = (w, True)"
| "download_entries nested E recursive segs local_dir (e # es) w =
     (if \<not> is_safe_local_component (rm_name e) then
        download_entries nested E recursive segs local_dir es (fail_file (rm_name e) ''unsafe remote name'' w)
      else if rm_is_directory e then
        (if \<not> recursive then download_entries nested E recursive segs local_dir es w
         else case nested (segs @ [rm_name e]) (path_join local_dir (rm_name e)) w of
                (w', False) \<Rightarrow> (w', False)
              | (w', True) \<Rightarrow> download_entries nested E recursive segs local_dir es w')
      else download_entries nested E recursive segs local_dir es (download_entry E segs local_dir (rm_name e) w))"

fun download_dir :: "nat \<Rightarrow> transfer_env \<Rightarrow> bool \<Rightarrow> string list \<Rightarrow> string \<Rightarrow> world \<Rightarrow> world \<times> bool" where
  "download_dir 0 E recursive segs local_dir w = (w, False)"
| "download_dir (Suc fuel) E recursive segs local_dir w =
     (case remote_list E segs w of
        (w1, Inl e) \<Rightarrow> (fail_file (if segs = [] then ''/'' else join ''/'' segs) e w1, True)
      | (w1, Inr entries) \<Rightarrow>
          (case create_dir_all E local_dir w1 of
             (w2, False) \<Rightarrow> (count record_failure (emit (FailedBare (''could not create local dir '' @ local_dir)) w2), True)
           | (w2, True) \<Rightarrow> download_entries (download_dir fuel E recursive) E recursive segs local_dir entries w2))"

definition prefix_segments :: "string option \<Rightarrow> string list" where
  "prefix_segments src_remote = (case src_remote of None \<Rightarrow> [] | Some p \<Rightarrow> filter (\<lambda>s. s \<noteq> []) (split_on CHR ''/'' p))"

text \<open>\<open>None\<close> is a run that has not ended within the fuel.\<close>

definition run_download_all :: "nat \<Rightarrow> transfer_env \<Rightarrow> string \<Rightarrow> bool \<Rightarrow> bool \<Rightarrow> string option \<Rightarrow> world \<Rightarrow> world \<times> int option" where
  "run_download_all fuel E dest_dir recursive decompress_flag src_remote w =
     (if decompress_flag then
        (emit (FailedBare ''`x` on `da` / `dar` (bulk decompress) is planned for a later release'') w, Some EXIT_NOT_IMPLEMENTED)
      else case download_dir fuel E recursive (prefix_segments src_remote) dest_dir (w\<lparr>w_sum := bs_default\<rparr>) of
             (w', ended) \<Rightarrow> (w', if ended then Some (exit_code (w_sum w')) else None))"

end
