(* ===== verification/Download_Props.thy ===== *)
theory Download_Props
  imports Download
begin

text \<open>
  What downloads do: the patterns they expand, the local paths they touch, when they
  end and what their counters say.
\<close>

section \<open>Patterns\<close>

text \<open>The words one character of a pattern stands for.\<close>

definition stands_for :: "char \<Rightarrow> string \<Rightarrow> bool" where
  "stands_for c w \<longleftrightarrow> (if c = CHR ''*'' then True else if c = CHR ''?'' then length w = 1 else w = [c])"

definition in_pattern :: "string \<Rightarrow> string \<Rightarrow> bool" where
  "in_pattern p n \<longleftrightarrow> (\<exists>ws. list_all2 stands_for p ws \<and> concat ws = n)"

lemma in_pattern_Nil: "in_pattern [] n \<longleftrightarrow> n = []"
  by (auto simp: in_pattern_def)

lemma in_pattern_Cons: "in_pattern (c # p) n \<longleftrightarrow> (\<exists>u v. n = u @ v \<and> stands_for c u \<and> in_pattern p v)"
  by (fastforce simp: in_pattern_def list_all2_Cons1 intro: exI [of _ "_ # _"])

lemma in_pattern_star:
  "in_pattern (CHR ''*'' # p) n \<longleftrightarrow> in_pattern p n \<or> (\<exists>d n'. n = d # n' \<and> in_pattern (CHR ''*'' # p) n')"
proof -
  have "(\<exists>u v. n = u @ v \<and> in_pattern p v) \<longleftrightarrow> in_pattern p n \<or> (\<exists>d n'. n = d # n' \<and> (\<exists>u v. n' = u @ v \<and> in_pattern p v))"
    by (metis append_Cons append_Nil neq_Nil_conv)
  then show ?thesis by (simp add: in_pattern_Cons stands_for_def)
qed

lemma in_pattern_letter:
  "c \<noteq> CHR ''*'' \<Longrightarrow> in_pattern (c # p) n \<longleftrightarrow> (\<exists>d n'. n = d # n' \<and> (c = CHR ''?'' \<or> c = d) \<and> in_pattern p n')"
proof
  assume "c \<noteq> CHR ''*''" "in_pattern (c # p) n"
  then show "\<exists>d n'. n = d # n' \<and> (c = CHR ''?'' \<or> c = d) \<and> in_pattern p n'"
    by (auto simp: in_pattern_Cons stands_for_def length_Suc_conv split: if_splits)
next
  assume "c \<noteq> CHR ''*''" "\<exists>d n'. n = d # n' \<and> (c = CHR ''?'' \<or> c = d) \<and> in_pattern p n'"
  then obtain d n' where "n = [d] @ n'" "stands_for c [d]" "in_pattern p n'"
    by (auto simp: stands_for_def)
  then show "in_pattern (c # p) n" unfolding in_pattern_Cons by blast
qed

text \<open>
  C18. The matcher decides the language of the pattern: a name matches exactly when it
  can be cut into one piece per character of the pattern, a star standing for any
  piece, a question mark for a piece of one byte and every other character for itself.
\<close>
theorem glob_match_correct:
  "glob_match p n \<longleftrightarrow>
     (\<exists>ws. concat ws = n \<and> list_all2 (\<lambda>c w. if c = CHR ''*'' then True else if c = CHR ''?'' then length w = 1 else w = [c]) p ws)"
proof -
  have "glob_match p n = in_pattern p n"
  proof (induction p n rule: glob_match.induct)
    case (1 n)
    then show ?case by (simp add: in_pattern_Nil)
  next
    case (2 c p n)
    show ?case
    proof (cases "c = CHR ''*''")
      case True
      with 2 show ?thesis by (cases n) (simp_all add: in_pattern_star [of p "[]"] in_pattern_star [of p "_ # _"])
    next
      case False
      with 2 show ?thesis by (cases n) (simp_all add: in_pattern_letter [OF False])
    qed
  qed
  then show ?thesis by (auto simp: in_pattern_def stands_for_def [abs_def])
qed

section \<open>Effects of a recursive download\<close>

text \<open>
  The shape of an argument about a recursive download: a relation between the world
  before and after that every single effect of it respects, in the directories that
  it can be in.
\<close>

locale download_effect =
  fixes E :: transfer_env and R :: "world \<Rightarrow> world \<Rightarrow> bool" and at :: "string \<Rightarrow> bool"
  assumes R_refl: "R w w"
    and R_trans: "R w w' \<Longrightarrow> R w' w'' \<Longrightarrow> R w w''"
    and R_list: "R w (tick w)"
    and R_fail: "R w (fail_file name detail w)"
    and R_mkdir: "at d \<Longrightarrow> create_dir_all E d w = (w', True) \<Longrightarrow> R w w'"
    and R_no_mkdir: "at d \<Longrightarrow> create_dir_all E d w = (w', False)
      \<Longrightarrow> R w (count record_failure (emit (FailedBare (''could not create local dir '' @ d)) w'))"
    and R_entry: "at d \<Longrightarrow> is_safe_local_component name \<Longrightarrow> R w (download_entry E segs d name w)"
    and at_child: "at d \<Longrightarrow> is_safe_local_component name \<Longrightarrow> at (path_join d name)"
begin

lemma entries_effect:
  assumes nested: "\<And>segs d w w' b. at d \<Longrightarrow> nested segs d w = (w', b) \<Longrightarrow> R w w'"
  shows "at d \<Longrightarrow> download_entries nested E recursive segs d es w = (w', b) \<Longrightarrow> R w w'"
proof (induction es arbitrary: w)
  case Nil
  then show ?case by (simp add: R_refl)
next
  case (Cons e es)
  note IH = Cons.IH [OF Cons.prems(1)]
  show ?case
  proof (cases "is_safe_local_component (rm_name e)")
    case False
    with Cons.prems have "download_entries nested E recursive segs d es (fail_file (rm_name e) ''unsafe remote name'' w) = (w', b)" by simp
    from R_trans [OF R_fail IH [OF this]] show ?thesis .
  next
    case safe: True
    consider "\<not> rm_is_directory e" | "rm_is_directory e" "\<not> recursive"
      | w1 b1 where "rm_is_directory e" "recursive" "nested (segs @ [rm_name e]) (path_join d (rm_name e)) w = (w1, b1)"
      by (metis surj_pair)
    then show ?thesis
    proof cases
      case 1
      with safe Cons.prems have "download_entries nested E recursive segs d es (download_entry E segs d (rm_name e) w) = (w', b)" by simp
      from R_trans [OF R_entry [OF Cons.prems(1) safe] IH [OF this]] show ?thesis .
    next
      case 2
      with safe Cons.prems show ?thesis by (intro IH) simp
    next
      case 3
      have R1: "R w w1" using nested [OF at_child [OF Cons.prems(1) safe] 3(3)] .
      show ?thesis
      proof (cases b1)
        case True
        with 3 safe Cons.prems have "download_entries nested E recursive segs d es w1 = (w', b)" by simp
        from R_trans [OF R1 IH [OF this]] show ?thesis .
      next
        case False
        with 3 safe Cons.prems R1 show ?thesis by simp
      qed
    qed
  qed
qed

lemma dir_effect: "at d \<Longrightarrow> download_dir fuel E recursive segs d w = (w', b) \<Longrightarrow> R w w'"
proof (induction fuel arbitrary: segs d w w' b)
  case 0
  then show ?case by (simp add: R_refl)
next
  case (Suc fuel)
  show ?case
  proof (cases "te_list E (w_tick w) segs")
    case (Inl e)
    with Suc.prems R_trans [OF R_list R_fail] show ?thesis by (auto simp: remote_list_def)
  next
    case (Inr entries)
    obtain w2 ok where mk: "create_dir_all E d (tick w) = (w2, ok)" by fastforce
    show ?thesis
    proof (cases ok)
      case False
      with Inr mk Suc.prems R_trans [OF R_list R_no_mkdir] show ?thesis by (auto simp: remote_list_def)
    next
      case True
      with Inr mk Suc.prems
      have "download_entries (download_dir fuel E recursive) E recursive segs d entries w2 = (w', b)"
        by (simp add: remote_list_def)
      from entries_effect [OF _ Suc.prems(1) this] have "R w2 w'" using Suc.IH by blast
      moreover have "R (tick w) w2" using R_mkdir [OF Suc.prems(1)] mk True by simp
      ultimately show ?thesis using R_trans [OF R_list] R_trans by meson
    qed
  qed
qed

end

section \<open>Confinement\<close>

text \<open>The paths that safe names below a directory lead to.\<close>

definition below :: "string \<Rightarrow> string \<Rightarrow> bool" where
  "below dest p \<longleftrightarrow> (\<exists>ns. ns \<noteq> [] \<and> list_all is_safe_local_component ns \<and> p = foldl path_join dest ns)"

definition confined :: "string \<Rightarrow> world \<Rightarrow> world \<Rightarrow> bool" where
  "confined dest w w' \<longleftrightarrow>
     (\<forall>p. w_files w' p \<noteq> w_files w p \<longrightarrow> below dest p)
     \<and> (\<forall>d \<in> set (w_dirs w'). d \<in> set (w_dirs w) \<or> d \<in> set (dir_prefixes dest) \<or> below dest d)"

lemma confined_trans: "confined dest w w' \<Longrightarrow> confined dest w' w'' \<Longrightarrow> confined dest w w''"
  unfolding confined_def by metis

lemma confined_quiet: "w_files w' = w_files w \<Longrightarrow> w_dirs w' = w_dirs w \<Longrightarrow> confined dest w w'"
  by (simp add: confined_def)

lemma quiet [simp]:
  "w_files (tick w) = w_files w" "w_dirs (tick w) = w_dirs w" "w_out (tick w) = w_out w" "w_sum (tick w) = w_sum w"
  "w_files (emit e w) = w_files w" "w_dirs (emit e w) = w_dirs w" "w_out (emit e w) = w_out w @ [e]" "w_sum (emit e w) = w_sum w"
  "w_files (count f w) = w_files w" "w_dirs (count f w) = w_dirs w" "w_out (count f w) = w_out w" "w_sum (count f w) = f (w_sum w)"
  "w_files (fail_file n d w) = w_files w" "w_dirs (fail_file n d w) = w_dirs w"
  "w_out (fail_file n d w) = w_out w @ [FailedFile n d]" "w_sum (fail_file n d w) = record_failure (w_sum w)"
  by (simp_all add: tick_def emit_def count_def fail_file_def)

lemma local_write_effect:
  assumes "local_write E p s w = (w', b)"
  shows "w_dirs w' = w_dirs w" "w_out w' = w_out w" "w_sum w' = w_sum w"
    and "q \<noteq> p \<Longrightarrow> w_files w' q = w_files w q" and "b \<Longrightarrow> w_files w' p = Some s"
  using assms by (auto simp: local_write_def tick_def split: write_outcome.splits)

lemma remote_download_effect:
  assumes "remote_download E segs p w = (w', r)"
  shows "w_dirs w' = w_dirs w" "w_out w' = w_out w" "w_sum w' = w_sum w"
    and "q \<noteq> p \<Longrightarrow> w_files w' q = w_files w q"
  using assms by (auto simp: remote_download_def split: sum.splits prod.splits dest: local_write_effect)

lemma in_dir_prefixes:
  "q \<in> set (dir_prefixes p) \<longleftrightarrow> q \<noteq> [] \<and> (\<exists>i \<le> length p. q = take i p \<and> (i = length p \<or> p ! i = CHR ''/''))"
  unfolding dir_prefixes_def by (auto simp del: upt_Suc simp: less_Suc_eq_le)

lemma dir_prefixes_child:
  assumes "CHR ''/'' \<notin> set n" "n \<noteq> []" "q \<in> set (dir_prefixes (path_join d n))"
  shows "q = path_join d n \<or> q \<in> set (dir_prefixes d)"
proof -
  define p where "p = path_join d n"
  from assms(3) obtain i where q: "q = take i p" "q \<noteq> []" "i \<le> length p" "i = length p \<or> p ! i = CHR ''/''"
    unfolding in_dir_prefixes p_def by blast
  show ?thesis
  proof (cases "i = length p")
    case True
    with q show ?thesis by (simp add: p_def)
  next
    case False
    with q have slash: "i < length p" "p ! i = CHR ''/''" by auto
    have no_slash: "k < length n \<Longrightarrow> n ! k \<noteq> CHR ''/''" for k using assms(1) by (metis nth_mem)
    have hd: "hd n \<noteq> CHR ''/''" using assms(1,2) by (cases n) auto
    then consider "p = d @ n" "d = [] \<or> ends_with d CHR ''/''" | "p = (d @ ''/'') @ n" "d \<noteq> []"
      using assms(2) by (cases "d = [] \<or> ends_with d CHR ''/''") (auto simp: p_def path_join_def)
    then have "i \<le> length d \<and> (i = length d \<or> d ! i = CHR ''/'')"
    proof cases
      case 1
      have "\<not> length d \<le> i" using slash no_slash [of "i - length d"] by (auto simp: 1(1) nth_append)
      with slash show ?thesis by (auto simp: 1(1) nth_append)
    next
      case 2
      have "\<not> length d < i"
      proof
        assume "length d < i"
        then obtain k where k: "i = Suc (length d) + k" by (metis less_eqE Suc_le_eq)
        with slash have "k < length n" "n ! k = CHR ''/''" by (simp_all add: 2(1) nth_append)
        with no_slash show False by blast
      qed
      with slash show ?thesis by (auto simp: 2(1) nth_append split: if_splits)
    qed
    moreover have "q = take i d"
      using calculation q(1) slash(1) hd by (auto simp: p_def path_join_def split: if_splits)
    ultimately show ?thesis using q(2) unfolding in_dir_prefixes by blast
  qed
qed

lemma below_child: "is_safe_local_component n \<Longrightarrow> d = dest \<or> below dest d \<Longrightarrow> below dest (path_join d n)"
proof (elim disjE)
  assume n: "is_safe_local_component n"
  show "d = dest \<Longrightarrow> below dest (path_join d n)"
    unfolding below_def by (rule exI [of _ "[n]"]) (simp add: n)
  assume "below dest d"
  then obtain ns where "list_all is_safe_local_component ns" "d = foldl path_join dest ns" by (auto simp: below_def)
  then show "below dest (path_join d n)"
    unfolding below_def by (intro exI [of _ "ns @ [n]"]) (simp add: n)
qed

lemma below_prefixes:
  "d = dest \<or> below dest d \<Longrightarrow> q \<in> set (dir_prefixes d) \<Longrightarrow> q \<in> set (dir_prefixes dest) \<or> below dest q"
proof (elim disjE)
  assume "below dest d" "q \<in> set (dir_prefixes d)"
  then obtain ns where "list_all is_safe_local_component ns" "q \<in> set (dir_prefixes (foldl path_join dest ns))"
    by (auto simp: below_def)
  then show ?thesis
  proof (induction ns rule: rev_induct)
    case (snoc n ns)
    then have n: "is_safe_local_component n" by simp
    then have "CHR ''/'' \<notin> set n" "n \<noteq> []" by (simp_all add: is_safe_local_component_def)
    with snoc.prems(2) have "q = path_join (foldl path_join dest ns) n \<or> q \<in> set (dir_prefixes (foldl path_join dest ns))"
      using dir_prefixes_child by simp
    moreover have "foldl path_join dest ns = dest \<or> below dest (foldl path_join dest ns)"
      using snoc.prems(1) by (cases "ns = []") (auto simp: below_def)
    ultimately show ?case using below_child [OF n] snoc.IH snoc.prems(1) by auto
  qed simp
qed simp

lemma confined_entry:
  assumes "d = dest \<or> below dest d" "is_safe_local_component n"
  shows "confined dest w (download_entry E segs d n w)"
proof -
  obtain w1 r where dl: "remote_download E (segs @ [n]) (path_join d n) w = (w1, r)" by fastforce
  have "w_files (download_entry E segs d n w) = w_files w1" "w_dirs (download_entry E segs d n w) = w_dirs w1"
    by (simp_all add: download_entry_def dl Let_def split: sum.splits)
  with remote_download_effect [OF dl] below_child [OF assms(2,1)] show ?thesis
    unfolding confined_def by metis
qed

interpretation confine: download_effect E "confined dest" "\<lambda>d. d = dest \<or> below dest d" for E dest
proof
  fix d w w' assume "d = dest \<or> below dest d"
  note prefixes = below_prefixes [OF this]
  show "create_dir_all E d w = (w', True) \<Longrightarrow> confined dest w w'"
    by (auto simp: create_dir_all_def confined_def split: if_splits dest: prefixes)
  show "create_dir_all E d w = (w', False) \<Longrightarrow> confined dest w (count record_failure (emit (FailedBare (''could not create local dir '' @ d)) w'))"
    by (auto simp: create_dir_all_def confined_def split: if_splits)
qed (auto intro: confined_trans confined_entry confined_quiet below_child)

text \<open>
  C16. A recursive download cannot be made to write anywhere else: whatever the
  server answers, for as long as it runs and wherever it is cut off, the only files
  that change are those that safe names lead to below the destination, and the only
  directories it makes are those, the destination and its parents.
\<close>
theorem downloads_confined:
  assumes "download_dir fuel E recursive segs dest w = (w', ended)"
  shows "(\<forall>p. w_files w' p \<noteq> w_files w p \<longrightarrow>
           (\<exists>ns. ns \<noteq> [] \<and> list_all is_safe_local_component ns \<and> p = foldl path_join dest ns))
       \<and> (\<forall>d \<in> set (w_dirs w'). d \<in> set (w_dirs w) \<or> d \<in> set (dir_prefixes dest)
           \<or> (\<exists>ns. ns \<noteq> [] \<and> list_all is_safe_local_component ns \<and> d = foldl path_join dest ns))"
  using confine.dir_effect [OF _ assms] unfolding confined_def below_def by blast

section \<open>Whether a recursive download ends\<close>

lemma entries_end:
  assumes "\<And>n w. \<lbrakk>recursive; \<exists>e \<in> set es. rm_name e = n \<and> rm_is_directory e \<and> is_safe_local_component n\<rbrakk>
             \<Longrightarrow> snd (nested (segs @ [n]) (path_join d n) w)"
  shows "snd (download_entries nested E recursive segs d es w)"
  using assms
proof (induction es arbitrary: w)
  case (Cons e es)
  have IH: "snd (download_entries nested E recursive segs d es w)" for w
    using Cons.prems by (intro Cons.IH) auto
  obtain w' b where nb: "nested (segs @ [rm_name e]) (path_join d (rm_name e)) w = (w', b)" by fastforce
  have "b" if "recursive" "rm_is_directory e" "is_safe_local_component (rm_name e)"
    using Cons.prems [of "rm_name e" w] that nb by auto
  with IH nb show ?case by (cases b) auto
qed simp

lemma dir_ends:
  assumes "\<And>t s es e. te_list E t s = Inr es \<Longrightarrow> k \<le> length s \<Longrightarrow> e \<in> set es
             \<Longrightarrow> is_safe_local_component (rm_name e) \<Longrightarrow> \<not> rm_is_directory e"
  shows "k < fuel + length segs \<Longrightarrow> 0 < fuel \<Longrightarrow> snd (download_dir fuel E recursive segs d w)"
proof (induction fuel arbitrary: segs d w)
  case (Suc fuel)
  have "snd (download_entries (download_dir fuel E recursive) E recursive segs d entries w2)"
    if "te_list E (w_tick w) segs = Inr entries" for entries w2
  proof (rule entries_end)
    fix n w'
    assume "\<exists>e \<in> set entries. rm_name e = n \<and> rm_is_directory e \<and> is_safe_local_component n"
    with assms [OF that] have "length segs < k" by (metis not_le)
    with Suc.prems show "snd (download_dir fuel E recursive (segs @ [n]) (path_join d n) w')"
      by (intro Suc.IH) auto
  qed
  then show ?case by (auto simp: remote_list_def split: sum.splits prod.splits bool.splits)
qed simp

lemma endless:
  assumes "\<And>t s. te_list E t s = Inr [\<lparr>rm_name = n, rm_size = None, rm_is_directory = True\<rparr>]"
    and "\<And>t. te_mkdir E t" and "is_safe_local_component n"
  shows "\<not> snd (download_dir fuel E True segs d w)"
proof (induction fuel arbitrary: segs d w)
  case (Suc fuel)
  obtain w' b where "download_dir fuel E True (segs @ [n]) (path_join d n)
      (tick ((tick w)\<lparr>w_dirs := w_dirs (tick w) @ dir_prefixes d\<rparr>)) = (w', b)" by fastforce
  with Suc [of "segs @ [n]"] assms show ?case
    by (auto simp: remote_list_def create_dir_all_def split: prod.splits bool.splits)
      (metis snd_conv)+
qed simp

text \<open>
  C17. A recursive download ends as soon as the server's tree does: if no listing of a
  directory at depth k or below names a directory, it comes to an end, with a
  recursion of at most k + 1 levels. There is no limit of its own: against a server
  that lists a directory in every directory it never ends.
\<close>
theorem download_ends_with_tree:
  "((\<forall>t s es e. te_list E t s = Inr es \<and> k \<le> length s \<and> e \<in> set es \<and> is_safe_local_component (rm_name e)
       \<longrightarrow> \<not> rm_is_directory e) \<longrightarrow>
      snd (download_dir (k + 1) E recursive segs dest w))
   \<and> ((\<forall>t s. te_list E t s = Inr [\<lparr>rm_name = n, rm_size = None, rm_is_directory = True\<rparr>]) \<and> (\<forall>t. te_mkdir E t)
       \<and> is_safe_local_component n \<longrightarrow>
      (\<forall>fuel. \<not> snd (download_dir fuel E True segs dest w)))"
  using dir_ends [of E k "k + 1" segs recursive dest w] endless [of E n _ segs dest w] by auto

section \<open>What the counters say\<close>

fun is_downloaded :: "event \<Rightarrow> bool" where
  "is_downloaded (Downloaded n s) = True"
| "is_downloaded _ = False"

fun is_failed :: "event \<Rightarrow> bool" where
  "is_failed (FailedFile n d) = True"
| "is_failed (FailedBare d) = True"
| "is_failed _ = False"

definition counted :: "world \<Rightarrow> bool" where
  "counted w \<longleftrightarrow> bs_successes (w_sum w) = of_nat (length (filter is_downloaded (w_out w)))
     \<and> bs_failures (w_sum w) + bs_skipped (w_sum w) = of_nat (length (filter is_failed (w_out w)))"

lemmas record_defs = record_success_def record_failure_def record_skip_def

lemma counted_steps [zz_inv]:
  "counted w \<Longrightarrow> counted (tick w)"
  "counted w \<Longrightarrow> counted (fail_file n d w)"
  "counted w \<Longrightarrow> counted (count record_failure (emit (FailedBare d) w))"
  "counted w \<Longrightarrow> counted (count record_skip (emit (FailedFile n d) w))"
  "counted w \<Longrightarrow> counted (count record_success (emit (Downloaded n s) w))"
  by (simp_all add: counted_def record_defs algebra_simps)

lemma counted_cong: "w_sum w' = w_sum w \<Longrightarrow> w_out w' = w_out w \<Longrightarrow> counted w' = counted w"
  by (simp add: counted_def)

lemma counted_entry [zz_inv]: "counted w \<Longrightarrow> counted (download_entry E segs d n w)"
proof -
  assume w: "counted w"
  obtain w1 r where dl: "remote_download E (segs @ [n]) (path_join d n) w = (w1, r)" by fastforce
  have "counted w1" using w remote_download_effect(2,3) [OF dl] by (simp add: counted_def)
  then show ?thesis by (auto simp: download_entry_def dl Let_def intro: zz_inv split: sum.splits)
qed

interpretation counting: download_effect E "\<lambda>w w'. counted w \<longrightarrow> counted w'" "\<lambda>_. True" for E
proof
  fix d w w'
  show "create_dir_all E d w = (w', True) \<Longrightarrow> counted w \<longrightarrow> counted w'"
    by (auto simp: create_dir_all_def counted_def split: if_splits)
  show "create_dir_all E d w = (w', False) \<Longrightarrow> counted w \<longrightarrow> counted (count record_failure (emit (FailedBare (''could not create local dir '' @ d)) w'))"
    by (auto simp: create_dir_all_def intro: zz_inv split: if_splits)
qed (auto intro: zz_inv)

lemma counted_one [zz_inv]: "counted w \<Longrightarrow> counted (download_one E dest False arg w)"
proof -
  assume w: "counted w"
  show ?thesis
  proof (cases "split_user_path arg")
    case (Inl r)
    with w show ?thesis by (cases r) (auto simp: download_one_def intro: zz_inv)
  next
    case (Inr segs)
    obtain w1 r where dl: "remote_download E segs (path_join dest (last segs)) w = (w1, r)" by fastforce
    have "counted w1" using w remote_download_effect(2,3) [OF dl] by (simp add: counted_def)
    with Inr dl show ?thesis by (auto simp: download_one_def Let_def intro: zz_inv split: sum.splits)
  qed
qed

lemma counted_each [zz_inv]: "counted w \<Longrightarrow> counted (download_each E dest False args w)"
  by (induction args arbitrary: w) (auto intro: zz_inv)

lemma counted_arg [zz_inv]: "counted w \<Longrightarrow> counted (download_arg E dest False f w)"
  unfolding download_arg_def expand_remote_glob_def remote_list_def
  by (auto simp: Let_def intro: zz_inv split: prod.splits sum.splits)

lemma counted_args: "counted w \<Longrightarrow> counted (download_args E dest False files w)"
  by (induction files arbitrary: w) (auto intro: zz_inv)

lemma counted_start: "w_out w = [] \<Longrightarrow> counted (w\<lparr>w_sum := bs_default\<rparr>)"
  by (simp add: counted_def bs_default_def)

text \<open>
  The summary of a batch agrees with what was printed: its successes are the
  files announced as downloaded and its failures and skips are the failures
  announced, and the exit status is zero exactly when no failure was counted. So for
  a list of files and for a whole directory, which also only ever exits with 0 or 9.
\<close>
theorem summary_matches_output:
  assumes "w_out w = []"
    and "run_download E files dest False w = (w', code)
      \<or> run_download_all fuel E dest recursive False src w = (w', Some code)"
  shows "bs_successes (w_sum w') = of_nat (length (filter is_downloaded (w_out w')))
      \<and> bs_failures (w_sum w') + bs_skipped (w_sum w') = of_nat (length (filter is_failed (w_out w')))
      \<and> code = (if bs_failures (w_sum w') = 0 then 0 else 9)"
proof -
  have code: "exit_code s = (if bs_failures s = 0 then 0 else 9)" for s
    by (simp add: exit_code_def EXIT_OK_def EXIT_PROVIDER_ERROR_def word_gt_0)
  from assms(2) have "counted w' \<and> code = exit_code (w_sum w')"
  proof
    assume "run_download E files dest False w = (w', code)"
    then show ?thesis using counted_args [OF counted_start [OF assms(1)]] by (auto simp: run_download_def Let_def)
  next
    assume "run_download_all fuel E dest recursive False src w = (w', Some code)"
    then have dir: "download_dir fuel E recursive (prefix_segments src) dest (w\<lparr>w_sum := bs_default\<rparr>) = (w', True)"
      and "code = exit_code (w_sum w')"
      by (auto simp: run_download_all_def split: prod.splits if_splits)
    with counting.dir_effect [OF _ dir] counted_start [OF assms(1)] show ?thesis by simp
  qed
  then show ?thesis by (simp add: counted_def code)
qed

section \<open>Examples\<close>

definition ex_name :: "string \<Rightarrow> bool \<Rightarrow> remote_entry" where
  "ex_name n d = \<lparr>rm_name = n, rm_size = None, rm_is_directory = d\<rparr>"

text \<open>A server with a file, a directory and a name that climbs out of the destination.\<close>

definition ex_server :: transfer_env where
  "ex_server = \<lparr>te_list = (\<lambda>t s. if s = [] then Inr [ex_name ''../evil'' False, ex_name ''a'' False, ex_name ''d'' True]
        else Inr [ex_name ''b'' False]),
     te_get = (\<lambda>t s. Inr ''body''), te_read = (\<lambda>t. True), te_write = (\<lambda>t. Written), te_mkdir = (\<lambda>t. True),
     te_zstd = (\<lambda>s. ([], None)), te_untar = (\<lambda>s. ([], None)), te_text = True\<rparr>"

definition ex_loop :: transfer_env where
  "ex_loop = ex_server\<lparr>te_list := (\<lambda>t s. Inr [ex_name ''d'' True])\<rparr>"

definition ex_world :: world where
  "ex_world = \<lparr>w_files = (\<lambda>_. None), w_dirs = [], w_tick = 0, w_out = [], w_sum = bs_default\<rparr>"

lemma ex_safe:
  "is_safe_local_component ''a''" "is_safe_local_component ''b''" "is_safe_local_component ''d''"
  "\<not> is_safe_local_component ''../evil''"
  by (simp_all add: is_safe_local_component_def)

lemmas ex_defs = ex_server_def ex_name_def remote_list_def create_dir_all_def remote_download_def local_write_def
  download_entry_def path_join_def ends_with_def ex_safe ex_world_def tick_def emit_def count_def fail_file_def
  record_defs bs_default_def Let_def

theorem downloads_confined_witness:
  "\<exists>w'. download_dir 2 ex_server True [] ''out'' ex_world = (w', True)
     \<and> w_files w' ''out/d/b'' = Some ''body''
     \<and> (\<exists>ns. ns \<noteq> [] \<and> list_all is_safe_local_component ns \<and> ''out/d/b'' = foldl path_join ''out'' ns)"
proof -
  obtain w' ended where run: "download_dir (Suc (Suc 0)) ex_server True [] ''out'' ex_world = (w', ended)" by fastforce
  then have b: "w_files w' ''out/d/b'' = Some ''body''" "ended" by (auto simp: ex_defs)
  have "w_files ex_world ''out/d/b'' = None" by (simp add: ex_world_def)
  with downloads_confined [OF run] run b show ?thesis by (auto simp: numeral_2_eq_2)
qed

theorem download_ends_with_tree_witness:
  "snd (download_dir 2 ex_server True [] ''out'' ex_world)
   \<and> (\<forall>fuel. \<not> snd (download_dir fuel ex_loop True [] ''out'' ex_world))"
proof
  have "snd (download_dir (1 + 1) ex_server True [] ''out'' ex_world)"
    by (rule conjunct1 [OF download_ends_with_tree, THEN mp])
      (auto simp: ex_server_def ex_name_def split: if_splits)
  then show "snd (download_dir 2 ex_server True [] ''out'' ex_world)" by (simp only: one_add_one)
  show "\<forall>fuel. \<not> snd (download_dir fuel ex_loop True [] ''out'' ex_world)"
    by (rule conjunct2 [OF download_ends_with_tree, THEN mp])
      (auto simp: ex_server_def ex_loop_def ex_name_def ex_safe)
qed

theorem summary_matches_output_witness:
  "\<exists>w' code. run_download_all 2 ex_server ''out'' True False None ex_world = (w', Some code)
     \<and> bs_successes (w_sum w') = 2 \<and> code = 9"
proof -
  have dir: "snd (download_dir (Suc (Suc 0)) ex_server True [] ''out'' (ex_world\<lparr>w_sum := bs_default\<rparr>))"
    by (simp add: ex_defs)
  obtain w' where d: "download_dir (Suc (Suc 0)) ex_server True [] ''out'' (ex_world\<lparr>w_sum := bs_default\<rparr>) = (w', True)"
    using dir by (metis prod.collapse)
  then have run: "run_download_all 2 ex_server ''out'' True False None ex_world = (w', Some (exit_code (w_sum w')))"
    by (simp add: run_download_all_def prefix_segments_def numeral_2_eq_2)
  have "w_out ex_world = []" by (simp add: ex_world_def)
  from summary_matches_output [OF this disjI2 [OF run]] d run show ?thesis by (auto simp: ex_defs)
qed

section \<open>Single files\<close>

definition local_name :: "string \<Rightarrow> bool" where
  "local_name n \<longleftrightarrow> n \<noteq> [] \<and> hd n \<noteq> CHR ''.'' \<and> CHR ''/'' \<notin> set n"

definition untar_inside :: "transfer_env \<Rightarrow> bool" where
  "untar_inside E \<longleftrightarrow> (\<forall>s. \<forall>(path, body) \<in> set (fst (te_untar E s)). list_all (\<lambda>c. c \<noteq> [] \<and> c \<noteq> ''..'' \<and> CHR ''/'' \<notin> set c) path)"

definition inside :: "string \<Rightarrow> string \<Rightarrow> bool" where
  "inside dest p \<longleftrightarrow> (\<exists>n ns. local_name n \<and> list_all (\<lambda>c. c \<noteq> [] \<and> c \<noteq> ''..'' \<and> CHR ''/'' \<notin> set c) ns \<and> p = foldl path_join dest (n # ns))"

definition only_inside :: "string \<Rightarrow> world \<Rightarrow> world \<Rightarrow> bool" where
  "only_inside dest w w' \<longleftrightarrow> (\<forall>p. w_files w' p \<noteq> w_files w p \<longrightarrow> inside dest p)"

lemma only_inside_trans: "only_inside dest w w' \<Longrightarrow> only_inside dest w' w'' \<Longrightarrow> only_inside dest w w''"
  unfolding only_inside_def by metis

lemma only_inside_quiet: "w_files w' = w_files w \<Longrightarrow> only_inside dest w w'"
  by (simp add: only_inside_def)

lemma inside_name: "local_name n \<Longrightarrow> inside dest (path_join dest n)"
  unfolding inside_def by (rule exI [of _ n], rule exI [of _ "[]"]) simp

lemma file_name_slash: "CHR ''/'' \<notin> set n \<Longrightarrow> file_name (d @ ''/'' @ n) = n"
  unfolding file_name_def by (subst rev_append, simp, subst takeWhile_append2) auto

lemma file_name_plain: "CHR ''/'' \<notin> set n \<Longrightarrow> file_name n = n"
proof (simp only: file_name_def)
  assume "CHR ''/'' \<notin> set n"
  then have "takeWhile (\<lambda>c. c \<noteq> CHR ''/'') (rev n) = rev n" by (auto simp: takeWhile_eq_all_conv)
  then show "rev (takeWhile (\<lambda>c. c \<noteq> CHR ''/'') (rev n)) = n" by (simp only: rev_rev_ident)
qed

lemma path_of_name:
  assumes "\<not> ends_with d CHR ''/''" "local_name n"
  shows "file_name (path_join d n) = n" "parent_dir (path_join d n) = d"
proof -
  have n: "CHR ''/'' \<notin> set n" "n \<noteq> []" "hd n \<noteq> CHR ''/''"
    using assms(2) unfolding local_name_def by (blast, blast, metis hd_in_set)
  show fn: "file_name (path_join d n) = n"
    using assms(1) n file_name_slash [of n d] file_name_plain [of n] by (simp add: path_join_def)
  show "parent_dir (path_join d n) = d"
  proof (cases "d = []")
    case True
    with n fn show ?thesis by (simp add: parent_dir_def path_join_def trim_end_matches_def)
  next
    case False
    then have "path_join d n = d @ ''/'' @ n" using assms(1) n by (simp add: path_join_def)
    moreover have "trim_end_matches CHR ''/'' (d @ ''/'') = d"
      using False assms(1) by (cases d rule: rev_cases) (auto simp: trim_end_matches_def ends_with_def)
    ultimately show ?thesis using fn False by (simp add: parent_dir_def Let_def)
  qed
qed

lemma local_name_prefix: "local_name (s @ t) \<Longrightarrow> s \<noteq> [] \<Longrightarrow> local_name s"
  by (cases s) (auto simp: local_name_def)

lemma sibling_inside:
  assumes "\<not> ends_with d CHR ''/''" "local_name n"
  shows "inside d (decompressed_sibling_path (path_join d n))"
proof -
  have dec: "local_name (n @ DECOMPRESSED_FALLBACK_SUFFIX)"
    using assms(2) by (cases n) (auto simp: local_name_def DECOMPRESSED_FALLBACK_SUFFIX_def)
  show ?thesis
    using path_of_name [OF assms] local_name_prefix assms(2) dec
    by (auto simp: decompressed_sibling_path_def Let_def intro!: inside_name split: option.splits)
qed

lemma extract_name:
  assumes "\<not> ends_with d CHR ''/''" "local_name n"
  shows "\<exists>m. local_name m \<and> extract_dest (path_join d n) = path_join d m"
proof -
  have ex: "local_name ''extracted''" by (simp add: local_name_def)
  define stem where "stem = (case strip_suffix ''.tar.zst'' n of Some s \<Rightarrow> s
    | None \<Rightarrow> (case strip_suffix ZSTD_SUFFIX n of Some s \<Rightarrow> s | None \<Rightarrow> n))"
  have "\<exists>t. n = stem @ t" by (auto simp: stem_def split: option.splits)
  then have "stem \<noteq> [] \<Longrightarrow> local_name stem" using assms(2) local_name_prefix by blast
  then have "local_name (if stem = [] then ''extracted'' else stem)" using ex by simp
  moreover have "extract_dest (path_join d n) = path_join d (if stem = [] then ''extracted'' else stem)"
    using path_of_name [OF assms] by (simp add: extract_dest_def stem_def Let_def)
  ultimately show ?thesis by blast
qed

lemma unpack_inside:
  assumes "local_name m"
  shows "\<forall>(path, body) \<in> set members. list_all (\<lambda>c. c \<noteq> [] \<and> c \<noteq> ''..'' \<and> CHR ''/'' \<notin> set c) path
     \<Longrightarrow> only_inside d w (unpack (path_join d m) members w)"
proof (induction members arbitrary: w)
  case Nil
  then show ?case by (simp add: unpack_def only_inside_def)
next
  case (Cons e es)
  obtain path body where e: "e = (path, body)" by fastforce
  let ?w = "w\<lparr>w_files := (w_files w)(foldl path_join (path_join d m) path \<mapsto> body)\<rparr>"
  have "inside d (foldl path_join (path_join d m) path)"
    unfolding inside_def using assms Cons.prems e by (intro exI [of _ m] exI [of _ path]) auto
  then have "only_inside d w ?w" by (auto simp: only_inside_def)
  moreover have "only_inside d ?w (unpack (path_join d m) es ?w)" using Cons by auto
  ultimately show ?case using only_inside_trans by (simp add: e unpack_def)
qed

lemma split_parts_names:
  "split_parts parts ws = Inr r \<Longrightarrow> \<forall>w \<in> set ws. CHR ''/'' \<notin> set w \<Longrightarrow> list_all local_name parts \<Longrightarrow> list_all local_name r"
  by (induction parts ws rule: split_parts.induct) (auto simp: local_name_def split: if_splits)

lemma split_user_path_names:
  assumes "split_user_path arg = Inr segs"
  shows "segs \<noteq> [] \<and> list_all local_name segs"
proof -
  have "split_parts [] (split_on CHR ''/'' arg) = Inr segs" "segs \<noteq> []"
    using assms by (auto simp: split_user_path_def split: if_splits)
  moreover have "\<forall>w \<in> set (split_on CHR ''/'' arg). CHR ''/'' \<notin> set w"
    by (intro ballI) (rule split_on_no_sep)
  ultimately show ?thesis using split_parts_names by force
qed

lemma extract_inside:
  assumes "\<not> ends_with d CHR ''/''" "local_name n" "untar_inside E"
  shows "only_inside d w (extract_tar_alongside E (path_join d n) s w)"
proof -
  obtain m where m: "local_name m" "extract_dest (path_join d n) = path_join d m"
    using extract_name [OF assms(1,2)] by blast
  obtain members failure where u: "te_untar E s = (members, failure)" by fastforce
  define w1 where "w1 = tick (w\<lparr>w_dirs := w_dirs w @ [path_join d m]\<rparr>)"
  have "\<forall>(path, body) \<in> set members. list_all (\<lambda>c. c \<noteq> [] \<and> c \<noteq> ''..'' \<and> CHR ''/'' \<notin> set c) path"
    using spec [OF assms(3) [unfolded untar_inside_def], of s] by (simp add: u)
  from unpack_inside [OF m(1) this, of d w1]
  have "only_inside d w (unpack (path_join d m) members w1)"
    by (simp add: only_inside_def w1_def)
  then show ?thesis
    by (auto simp: extract_tar_alongside_def m Let_def u w1_def [symmetric] only_inside_def split: option.splits)
qed

lemma decompress_inside:
  assumes "\<not> ends_with d CHR ''/''" "local_name n" "untar_inside E"
  shows "only_inside d w (decompress_alongside E (path_join d n) w)"
proof (cases "if te_read E (w_tick w) then w_files w (path_join d n) else None")
  case None
  then show ?thesis by (simp add: decompress_alongside_def only_inside_def)
next
  case (Some bytes)
  show ?thesis
  proof (cases "is_zstd_magic bytes")
    case False
    with Some show ?thesis by (simp add: decompress_alongside_def Let_def only_inside_def)
  next
    case magic: True
    show ?thesis
    proof (cases "decompress_capped (te_zstd E) bytes MAX_DECOMPRESSED_BYTES")
      case (Inl e)
      with Some magic show ?thesis by (simp add: decompress_alongside_def Let_def only_inside_def)
    next
      case (Inr decoded)
      obtain w1 ok where wr: "local_write E (decompressed_sibling_path (path_join d n)) decoded (tick w) = (w1, ok)" by fastforce
      have "only_inside d w w1"
        using sibling_inside [OF assms(1,2)] local_write_effect(4) [OF wr] unfolding only_inside_def by (metis quiet(1))
      moreover have "only_inside d w (extract_tar_alongside E (path_join d n) decoded (tick w))"
        using extract_inside [OF assms, of "tick w" decoded] by (simp add: only_inside_def)
      ultimately show ?thesis
        using Some magic Inr wr by (simp add: decompress_alongside_def Let_def only_inside_def)
    qed
  qed
qed

lemma one_inside:
  assumes "\<not> ends_with d CHR ''/''" "untar_inside E"
  shows "only_inside d w (download_one E d dec arg w)"
proof (cases "split_user_path arg")
  case (Inl r)
  then show ?thesis by (cases r) (simp_all add: download_one_def only_inside_def)
next
  case (Inr segs)
  then have n: "local_name (last segs)" using split_user_path_names by (metis last_in_set list_all_iff)
  obtain w1 r where dl: "remote_download E segs (path_join d (last segs)) w = (w1, r)" by fastforce
  have w1: "only_inside d w w1"
    using remote_download_effect(4) [OF dl] inside_name [OF n] unfolding only_inside_def by metis
  have "only_inside d w (decompress_alongside E (path_join d (last segs)) (count record_success (emit e w1)))" for e
    using only_inside_trans [OF w1] decompress_inside [OF assms(1) n assms(2), of "count record_success (emit e w1)"]
    by (simp add: only_inside_def)
  with w1 show ?thesis
    by (simp add: download_one_def Inr dl Let_def only_inside_def split: sum.splits)
qed

lemma args_inside:
  assumes "\<not> ends_with d CHR ''/''" "untar_inside E"
  shows "only_inside d w (download_args E d dec files w)"
proof -
  have each: "only_inside d w (download_each E d dec args w)" for args w
    by (induction args arbitrary: w)
      (auto intro: only_inside_quiet only_inside_trans [OF one_inside [OF assms]])
  have arg: "only_inside d w (download_arg E d dec f w)" for f w
  proof (cases "has_glob f")
    case True
    obtain w1 r where ex: "expand_remote_glob E f w = (w1, r)" by fastforce
    have "w_files w1 = w_files w" using ex
      by (auto simp: expand_remote_glob_def remote_list_def Let_def split: prod.splits if_splits)
    with True ex each [of w1] show ?thesis
      by (cases r) (auto simp: download_arg_def only_inside_def)
  next
    case False
    with one_inside [OF assms] show ?thesis by (simp add: download_arg_def)
  qed
  show ?thesis
    by (induction files arbitrary: w) (auto intro: only_inside_quiet only_inside_trans [OF arg])
qed

text \<open>
  A download of single files stays below the destination too, with its
  decompressed copies and extracted archives: provided that the tar crate keeps its
  promise to unpack nothing outside the directory it is given, every file that
  changes is one component below the destination, or below a directory that is,
  whatever names the server's listing offered to a pattern and whatever it sent.
\<close>
theorem single_downloads_confined:
  assumes "\<not> ends_with dest CHR ''/''" and "untar_inside E"
    and "run_download E files dest decompress w = (w', code)"
    and "w_files w' p \<noteq> w_files w p"
  shows "\<exists>n ns. n \<noteq> [] \<and> hd n \<noteq> CHR ''.'' \<and> CHR ''/'' \<notin> set n
           \<and> list_all (\<lambda>c. c \<noteq> [] \<and> c \<noteq> ''..'' \<and> CHR ''/'' \<notin> set c) ns \<and> p = foldl path_join dest (n # ns)"
proof -
  from assms(3) have "w' = download_args E dest decompress files (w\<lparr>w_sum := bs_default\<rparr>)"
    by (simp add: run_download_def Let_def)
  with args_inside [OF assms(1,2), of "w\<lparr>w_sum := bs_default\<rparr>"] assms(4) have "inside dest p"
    by (simp add: only_inside_def)
  then show ?thesis unfolding inside_def local_name_def by blast
qed

theorem single_downloads_confined_witness:
  "\<exists>w' code. run_download ex_server [''d/b''] ''out'' True ex_world = (w', code)
     \<and> w_files w' ''out/b'' = Some ''body''
     \<and> (\<exists>n ns. CHR ''/'' \<notin> set n \<and> ''out/b'' = foldl path_join ''out'' (n # ns))"
proof -
  obtain w' code where run: "run_download ex_server [''d/b''] ''out'' True ex_world = (w', code)" by fastforce
  have split: "split_user_path ''d/b'' = Inr [''d'', ''b'']" by (simp add: split_user_path_def)
  have b: "w_files w' ''out/b'' = Some ''body''"
    using run by (auto simp: run_download_def download_arg_def has_glob_def download_one_def split
        decompress_alongside_def is_zstd_magic_def ZSTD_MAGIC_def ex_defs)
  have "\<not> ends_with ''out'' CHR ''/''" "untar_inside ex_server"
    by (simp_all add: ends_with_def untar_inside_def ex_server_def)
  from single_downloads_confined [OF this run, of "''out/b''"] b run show ?thesis
    by (auto simp: ex_world_def)
qed

section \<open>Three divergences\<close>

text \<open>
  A name with a control character is skipped in a recursive download but not when a
  pattern matches it: the file is written under that name.
\<close>

lemma glob_keeps_control_names:
  assumes "has_control n" "local_name n"
    and "\<And>t s. te_list E t s = Inr [ex_name n False]" "\<And>t s. te_get E t s = Inr body" "\<And>t. te_write E t = Written"
  shows "w_files (fst (run_download E [''*''] dest False w)) (path_join dest n) = Some body"
    and "w_files (fst (download_dir fuel E recursive [] dest w)) = w_files w"
proof -
  have m: "glob_match ''*'' n" by (induction n) auto
  have "split_user_path n = Inr [n]"
    using assms(2) by (cases n) (auto simp: local_name_def split_user_path_def)
  with assms m show "w_files (fst (run_download E [''*''] dest False w)) (path_join dest n) = Some body"
    by (simp add: run_download_def download_arg_def has_glob_def expand_remote_glob_def split_last_slash_def
        remote_list_def download_one_def remote_download_def local_write_def ex_name_def tick_def emit_def count_def Let_def)
  have "\<not> is_safe_local_component n" using assms(1) by (simp add: is_safe_local_component_def)
  then show "w_files (fst (download_dir fuel E recursive [] dest w)) = w_files w"
    using assms(3) by (cases fuel) (auto simp: remote_list_def create_dir_all_def ex_name_def tick_def split: prod.splits bool.splits)
qed

text \<open>
  A payload that cannot be decompressed is reported as a failure and not counted as
  one: the summary and the exit status of the batch do not see it.
\<close>

lemma decompress_never_counts: "w_sum (decompress_alongside E blob w) = w_sum w"
proof -
  have "w_sum (unpack dest members w) = w_sum w" for dest members w
    by (induction members arbitrary: w) (auto simp: unpack_def)
  then show ?thesis
    by (auto simp: decompress_alongside_def extract_tar_alongside_def Let_def
        dest: local_write_effect(3) split: option.splits sum.splits prod.splits)
qed

text \<open>
  An archive whose name does not end in \<open>.zst\<close> is never extracted: the directory it
  would be extracted to is its own path, which exists.
\<close>

lemma bare_archive_never_extracted:
  assumes "\<not> ends_with d CHR ''/''" "local_name n" "strip_suffix ZSTD_SUFFIX n = None"
    and "w_files w (path_join d n) \<noteq> None"
  shows "w_files (extract_tar_alongside E (path_join d n) s w) = w_files w"
proof -
  have "strip_suffix ''.tar.zst'' n = None"
  proof (rule ccontr)
    assume "strip_suffix ''.tar.zst'' n \<noteq> None"
    then obtain r where "n = (r @ ''.tar'') @ ZSTD_SUFFIX" by (auto simp: ZSTD_SUFFIX_def)
    then have "strip_suffix ZSTD_SUFFIX n = Some (r @ ''.tar'')" by simp
    with assms(3) show False by simp
  qed
  with assms have "extract_dest (path_join d n) = path_join d n"
    using path_of_name [OF assms(1,2)] by (simp add: extract_dest_def local_name_def Let_def)
  with assms(4) show ?thesis by (simp add: extract_tar_alongside_def path_exists_def Let_def)
qed

end
