(* ===== verification/Passphrase.thy ===== *)
theory Passphrase
  imports Prelude
begin

text \<open>
  Reading the passphrase from a file (src/passphrase.rs). What the two system calls
  return, the metadata of the path itself and then the contents, is an argument:
  between the two the file may have changed.
\<close>

record file_meta =
  fm_is_file :: bool
  fm_mode :: u32
  fm_uid :: u32
  fm_len :: u64

datatype io_error = IoNotFound | IoOther string

record passphrase_env =
  pe_meta :: "string \<Rightarrow> (io_error, file_meta) result"
  pe_read :: "string \<Rightarrow> (string, string) result"

definition MAX_PASSPHRASE_FILE_BYTES :: u64 where
  "MAX_PASSPHRASE_FILE_BYTES = 4 * 1024"

datatype passphrase_error =
    PfNotFound string
  | PfNotRegular string
  | PfInsecurePermissions string u32
  | PfOwnerMismatch string u32 u32
  | PfTooLarge string nat
  | PfEmbeddedNul string
  | PfEmpty string
  | PfIo string string

definition is_insecure :: "passphrase_error \<Rightarrow> bool" where
  "is_insecure e = (case e of PfInsecurePermissions _ _ \<Rightarrow> True | PfOwnerMismatch _ _ _ \<Rightarrow> True | _ \<Rightarrow> False)"

abbreviation newline :: char where "newline \<equiv> CHR 0x0A"

definition read_passphrase_file :: "passphrase_env \<Rightarrow> string \<Rightarrow> u32 \<Rightarrow> (passphrase_error, string) result" where
  "read_passphrase_file E path current_uid =
     (case pe_meta E path of
        Inl IoNotFound \<Rightarrow> Inl (PfNotFound path)
      | Inl (IoOther e) \<Rightarrow> Inl (PfIo path e)
      | Inr meta \<Rightarrow>
          if \<not> fm_is_file meta then Inl (PfNotRegular path)
          else if and (fm_mode meta) 63 \<noteq> 0 then Inl (PfInsecurePermissions path (fm_mode meta))
          else if fm_uid meta \<noteq> current_uid then Inl (PfOwnerMismatch path (fm_uid meta) current_uid)
          else if fm_len meta > MAX_PASSPHRASE_FILE_BYTES then Inl (PfTooLarge path (unat (fm_len meta)))
          else case pe_read E path of
                 Inl e \<Rightarrow> Inl (PfIo path e)
               | Inr raw_bytes \<Rightarrow>
                   if length raw_bytes > unat MAX_PASSPHRASE_FILE_BYTES then Inl (PfTooLarge path (length raw_bytes))
                   else if CHR 0x00 \<in> set raw_bytes then Inl (PfEmbeddedNul path)
                   else if \<not> utf8_ok raw_bytes then Inl (PfIo path ''content is not valid UTF-8'')
                   else let s = (if ends_with raw_bytes newline then butlast raw_bytes else raw_bytes)
                        in if s = [] then Inl (PfEmpty path) else Inr s)"

lemma max_bytes: "unat MAX_PASSPHRASE_FILE_BYTES = 4096"
  by (simp add: MAX_PASSPHRASE_FILE_BYTES_def)

text \<open>Permission bits, by their numbers: 0 to 5 are those of the group and of others.\<close>

lemma private_mode: "and m (63 :: u32) = 0 \<longleftrightarrow> (\<forall>n < 6. \<not> bit m n)"
proof -
  have "(63 :: u32) = mask 6" by (simp add: mask_eq_exp_minus_1)
  then have "and m 63 = take_bit 6 m" by (simp add: take_bit_eq_mask)
  moreover have "take_bit 6 m = 0 \<longleftrightarrow> (\<forall>n < 6. \<not> bit m n)"
    by (auto simp: bit_eq_iff bit_take_bit_iff)
  ultimately show ?thesis by simp
qed

text \<open>
  A passphrase is only ever taken from a private file: a regular file, not a
  link, owned by the user, with no permission for the group or others, of at most
  4096 bytes; and the passphrase is its contents without one final newline, valid
  UTF-8, without a NUL and not empty. And the error that the caller turns into the
  exit status for insecure files is given exactly to a regular file that somebody else
  owns or may touch.
\<close>
theorem passphrase_file_private:
  "(read_passphrase_file E path uid = Inr pw \<longleftrightarrow>
      (\<exists>meta raw. pe_meta E path = Inr meta \<and> fm_is_file meta \<and> (\<forall>n < 6. \<not> bit (fm_mode meta) n)
         \<and> fm_uid meta = uid \<and> unat (fm_len meta) \<le> 4096 \<and> pe_read E path = Inr raw \<and> length raw \<le> 4096
         \<and> utf8_ok raw \<and> CHR 0x00 \<notin> set raw \<and> pw \<noteq> []
         \<and> (raw = pw @ [newline] \<or> raw = pw \<and> last pw \<noteq> newline)))
   \<and> ((\<exists>e. read_passphrase_file E path uid = Inl e \<and> is_insecure e) \<longleftrightarrow>
      (\<exists>meta. pe_meta E path = Inr meta \<and> fm_is_file meta \<and> ((\<exists>n < 6. bit (fm_mode meta) n) \<or> fm_uid meta \<noteq> uid)))"
proof (cases "pe_meta E path")
  case (Inl e)
  then show ?thesis by (cases e) (auto simp: read_passphrase_file_def is_insecure_def)
next
  case (Inr meta)
  have len: "fm_len meta > MAX_PASSPHRASE_FILE_BYTES \<longleftrightarrow> \<not> unat (fm_len meta) \<le> 4096"
    by (simp add: word_less_nat_alt max_bytes not_le)
  show ?thesis
  proof (cases "fm_is_file meta \<and> (\<forall>n < 6. \<not> bit (fm_mode meta) n) \<and> fm_uid meta = uid")
    case False
    with Inr show ?thesis
      by (auto simp: read_passphrase_file_def is_insecure_def private_mode)
  next
    case True
    show ?thesis
    proof (cases "pe_read E path")
      case (Inl e)
      with Inr True show ?thesis
        by (simp add: read_passphrase_file_def is_insecure_def private_mode len)
    next
      case raw: (Inr raw)
      with Inr True show ?thesis
        by (cases raw rule: rev_cases)
          (auto simp: read_passphrase_file_def is_insecure_def private_mode len max_bytes Let_def ends_with_def)
    qed
  qed
qed

theorem passphrase_file_private_witness:
  "read_passphrase_file \<lparr>pe_meta = (\<lambda>_. Inr \<lparr>fm_is_file = True, fm_mode = 0x8180, fm_uid = 1000, fm_len = 4\<rparr>),
      pe_read = (\<lambda>_. Inr [CHR ''a'', CHR ''b'', newline, newline])\<rparr> ''/p'' 1000 = Inr [CHR ''a'', CHR ''b'', newline]
   \<and> (\<exists>e. read_passphrase_file \<lparr>pe_meta = (\<lambda>_. Inr \<lparr>fm_is_file = True, fm_mode = 0x81A4, fm_uid = 1000, fm_len = 4\<rparr>),
      pe_read = (\<lambda>_. Inr [])\<rparr> ''/p'' 1000 = Inl e \<and> is_insecure e)"
proof
  have "\<not> bit (0x8180 :: u32) n" if "n < 6" for n
    using private_mode [of "0x8180"] that by simp
  then show "read_passphrase_file \<lparr>pe_meta = (\<lambda>_. Inr \<lparr>fm_is_file = True, fm_mode = 0x8180, fm_uid = 1000, fm_len = 4\<rparr>),
      pe_read = (\<lambda>_. Inr [CHR ''a'', CHR ''b'', newline, newline])\<rparr> ''/p'' 1000 = Inr [CHR ''a'', CHR ''b'', newline]"
    by (subst conjunct1 [OF passphrase_file_private]) (simp add: byte_in_def)
  have "bit (0x81A4 :: u32) 2" by (simp add: bit_numeral_word_iff)
  then show "\<exists>e. read_passphrase_file \<lparr>pe_meta = (\<lambda>_. Inr \<lparr>fm_is_file = True, fm_mode = 0x81A4, fm_uid = 1000, fm_len = 4\<rparr>),
      pe_read = (\<lambda>_. Inr [])\<rparr> ''/p'' 1000 = Inl e \<and> is_insecure e"
    by (subst conjunct2 [OF passphrase_file_private]) (auto intro: exI [of _ 2])
qed

end
