(* ===== verification/Sidecars.thy ===== *)
theory Sidecars
  imports Disk
begin

text \<open>
  The sidecar files that remember the last alias (core sidecars.rs): validated on the
  way in and on the way out, written through a temporary file. \<open>readable\<close> says whether
  reading the contents of an existing file succeeds.
\<close>

definition MAX_SIDECAR_BYTES :: nat where "MAX_SIDECAR_BYTES = 256"
definition MAX_ALIAS_LEN :: nat where "MAX_ALIAS_LEN = 64"
definition MAX_EMAIL_LEN :: nat where "MAX_EMAIL_LEN = 254"

record local_default =
  ld_alias :: string

record remote_default =
  rd_email :: string
  rd_alias :: "string option"

datatype sidecar_error = SidecarNotFound | SidecarInvalid | SidecarIo

abbreviation nl :: char where "nl \<equiv> CHR 0x0A"

section \<open>Validation\<close>

definition validate_alias :: "string \<Rightarrow> bool" where
  "validate_alias s =
     (if s = [] \<or> length s > MAX_ALIAS_LEN then False
      else if s = ''.'' \<or> s = ''..'' \<or> find_sub ''..'' s \<noteq> None then False
      else if CHR ''/'' \<in> set s \<or> CHR 0x00 \<in> set s \<or> CHR 0x5C \<in> set s then False
      else list_all (\<lambda>c. (33 \<le> (of_char c :: nat) \<and> (of_char c :: nat) \<le> 126) \<or> c = CHR '' '') s)"

definition validate_email :: "string \<Rightarrow> bool" where
  "validate_email s =
     (if s = [] \<or> length s > MAX_EMAIL_LEN then False
      else if CHR ''@'' \<notin> set s then False
      else \<not> has_whitespace s \<and> \<not> has_control s \<and> CHR 0x00 \<notin> set s)"

section \<open>Reading\<close>

definition read_capped :: "bool \<Rightarrow> io_plan \<Rightarrow> disk \<Rightarrow> string \<Rightarrow> (sidecar_error, string) result" where
  "read_capped readable pl d path =
     (case d_files d path of
        None \<Rightarrow> Inl SidecarNotFound
      | Some f \<Rightarrow>
          if \<not> pl_stat pl then Inl SidecarIo
          else if length (f_data f) > MAX_SIDECAR_BYTES then Inl SidecarInvalid
          else if \<not> readable then Inl SidecarIo
          else if \<exists>b \<in> set (f_data f). b \<noteq> nl \<and> ((of_char b :: nat) < 32 \<or> (of_char b :: nat) = 127) then Inl SidecarInvalid
          else if utf8_ok (f_data f) then Inr (f_data f) else Inl SidecarInvalid)"

text \<open>\<open>lines.next().unwrap_or("")\<close> for the first lines.\<close>

definition line_at :: "nat \<Rightarrow> string list \<Rightarrow> string" where
  "line_at i ws = (if i < length ws then ws ! i else [])"

definition read_local_default :: "bool \<Rightarrow> io_plan \<Rightarrow> disk \<Rightarrow> string \<Rightarrow> (sidecar_error, local_default) result" where
  "read_local_default readable pl d path =
     rbind (read_capped readable pl d path) (\<lambda>raw.
       let lines = split_on nl raw; alias = line_at 0 lines; trailing = line_at 1 lines
       in if trailing \<noteq> [] \<or> 2 < length lines then Inl SidecarInvalid
          else if \<not> validate_alias alias then Inl SidecarInvalid
          else Inr \<lparr>ld_alias = alias\<rparr>)"

definition read_remote_default :: "bool \<Rightarrow> io_plan \<Rightarrow> disk \<Rightarrow> string \<Rightarrow> (sidecar_error, remote_default) result" where
  "read_remote_default readable pl d path =
     rbind (read_capped readable pl d path) (\<lambda>raw.
       let lines = split_on nl raw; email = line_at 0 lines; alias = line_at 1 lines; trailing = line_at 2 lines
       in if trailing \<noteq> [] \<or> 3 < length lines then Inl SidecarInvalid
          else if \<not> validate_email email then Inl SidecarInvalid
          else if alias = [] then Inr \<lparr>rd_email = email, rd_alias = None\<rparr>
          else if validate_alias alias then Inr \<lparr>rd_email = email, rd_alias = Some alias\<rparr>
          else Inl SidecarInvalid)"

section \<open>Writing\<close>

definition sidecar_write_atomic :: "io_plan \<Rightarrow> disk \<Rightarrow> string \<Rightarrow> string \<Rightarrow> disk \<times> (string, unit) result" where
  "sidecar_write_atomic pl d path body =
     (if \<not> pl_mkdir pl then (d, Inl (pl_msg pl))
      else let tmp = with_extension path ''tmp''; (d1, written) = fs_write MODE_DEFAULT pl d tmp body
      in if \<not> written then (d1, Inl (pl_msg pl))
      else let (d2, changed) = fs_chmod MODE_0600 pl d1 tmp
      in if \<not> changed then (d2, Inl (pl_msg pl))
      else let (d3, renamed) = fs_rename pl d2 tmp path
      in if \<not> renamed then (d3, Inl (pl_msg pl)) else (d3, Inr ()))"

definition write_local_default :: "io_plan \<Rightarrow> disk \<Rightarrow> string \<Rightarrow> string \<Rightarrow> disk \<times> (string, unit) result" where
  "write_local_default pl d path alias =
     (if \<not> validate_alias alias then (d, Inl ''alias rejected'')
      else sidecar_write_atomic pl d path (alias @ [nl]))"

definition write_remote_default :: "io_plan \<Rightarrow> disk \<Rightarrow> string \<Rightarrow> string \<Rightarrow> string option \<Rightarrow> disk \<times> (string, unit) result" where
  "write_remote_default pl d path email alias =
     (if \<not> validate_email email then (d, Inl ''email rejected'')
      else case alias of
             Some a \<Rightarrow> if \<not> validate_alias a then (d, Inl ''alias rejected'')
                       else sidecar_write_atomic pl d path (email @ [nl] @ a @ [nl])
           | None \<Rightarrow> sidecar_write_atomic pl d path (email @ [nl]))"

section \<open>Atomicity\<close>

lemma sidecar_write_outcome:
  assumes p: "sidecar_write_atomic pl d path s = (d', r)" and ne: "with_extension path ''tmp'' \<noteq> path"
  shows "only_old_or_new d d' path (\<lambda>f. f_data f = s \<and> f_mode f = MODE_0600)"
    and "r = Inr () \<Longrightarrow> \<exists>f. d_files d' path = Some f \<and> f_data f = s \<and> f_mode f = MODE_0600"
    and "r \<noteq> Inr () \<Longrightarrow> d_files d' path = d_files d path"
proof -
  define tmp where "tmp = with_extension path ''tmp''"
  have ne': "path \<noteq> tmp" using ne by (simp add: tmp_def)
  note p' = p [unfolded sidecar_write_atomic_def, folded tmp_def]
  show "only_old_or_new d d' path (\<lambda>f. f_data f = s \<and> f_mode f = MODE_0600)"
    and "r = Inr () \<Longrightarrow> \<exists>f. d_files d' path = Some f \<and> f_data f = s \<and> f_mode f = MODE_0600"
    and "r \<noteq> Inr () \<Longrightarrow> d_files d' path = d_files d path"
    using p' ne'
    by (auto simp: fs_defs Let_def only_old_or_new_def split: if_splits write_outcome.splits)
qed

interpretation sidecar_write: atomic_replacement sidecar_write_atomic "\<lambda>path. with_extension path ''tmp'' \<noteq> path"
  by unfold_locales (auto intro: sidecar_write_outcome(1,2) sidecar_write_outcome(3) [simplified])

section \<open>Round trips\<close>

lemma has_whitespace_nl: "\<not> has_whitespace s \<Longrightarrow> nl \<notin> set s"
  by (induction s) (auto simp: is_ws_char_def)

lemma has_control_bytes: "\<not> has_control s \<Longrightarrow> b \<in> set s \<Longrightarrow> 32 \<le> (of_char b :: nat) \<and> (of_char b :: nat) \<noteq> 127"
  by (induction s) auto

lemma alias_bytes:
  assumes "validate_alias a"
  shows "\<forall>b \<in> set a. 32 \<le> (of_char b :: nat) \<and> (of_char b :: nat) \<noteq> 127" and "nl \<notin> set a" and "utf8_ok a"
proof -
  have bytes: "\<forall>b \<in> set a. 32 \<le> (of_char b :: nat) \<and> (of_char b :: nat) < 127"
    using assms by (auto simp: validate_alias_def list_all_iff split: if_splits)
  then show "\<forall>b \<in> set a. 32 \<le> (of_char b :: nat) \<and> (of_char b :: nat) \<noteq> 127" by auto
  from bytes show "nl \<notin> set a" by force
  have "\<forall>b \<in> set a. byte_in 0 127 b" using bytes by (auto simp: byte_in_def)
  from utf8_ok_ascii [OF this, of "[]"] show "utf8_ok a" by simp
qed

lemma read_capped_written:
  assumes "d_files d path = Some f" "pl_stat pl" "utf8_ok (f_data f)"
    and "\<forall>b \<in> set (f_data f). b \<noteq> nl \<longrightarrow> 32 \<le> (of_char b :: nat) \<and> (of_char b :: nat) \<noteq> 127"
  shows "read_capped True pl d path = (if length (f_data f) \<le> 256 then Inr (f_data f) else Inl SidecarInvalid)"
  using assms by (force simp: read_capped_def MAX_SIDECAR_BYTES_def)

lemma utf8_ok_nl: "utf8_ok (nl # s) = utf8_ok s"
  by (simp add: byte_in_def)

text \<open>
  A remembered default is read back as it was written, and only by its owner:
  after a successful write the file has mode 0600 and reading it gives the alias, or
  the address and the alias. One case is lost: an address and an alias that are both
  valid but do not fit in 256 bytes together are written and can never be read again.
\<close>
theorem sidecar_roundtrip:
  assumes "with_extension path ''tmp'' \<noteq> path" and "pl_stat pl2"
  shows "(write_local_default pl d path alias = (d', Inr ()) \<longrightarrow>
           read_local_default True pl2 d' path = Inr \<lparr>ld_alias = alias\<rparr>
           \<and> map_option f_mode (d_files d' path) = Some MODE_0600)
     \<and> (utf8_ok email \<and> write_remote_default pl d path email (Some alias) = (d', Inr ()) \<longrightarrow>
           read_remote_default True pl2 d' path =
             (if length email + length alias + 2 \<le> 256 then Inr \<lparr>rd_email = email, rd_alias = Some alias\<rparr>
              else Inl SidecarInvalid))"
proof (rule conjI)
  show "write_local_default pl d path alias = (d', Inr ()) \<longrightarrow>
           read_local_default True pl2 d' path = Inr \<lparr>ld_alias = alias\<rparr>
           \<and> map_option f_mode (d_files d' path) = Some MODE_0600"
  proof
    assume w: "write_local_default pl d path alias = (d', Inr ())"
    then have a: "validate_alias alias" and wr: "sidecar_write_atomic pl d path (alias @ [nl]) = (d', Inr ())"
      by (auto simp: write_local_default_def split: if_splits)
    from sidecar_write.replaced [OF assms(1) wr] obtain f where
      f: "d_files d' path = Some f" "f_data f = alias @ [nl]" "f_mode f = MODE_0600" by blast
    have "length alias \<le> 64" using a by (auto simp: validate_alias_def MAX_ALIAS_LEN_def split: if_splits)
    then have "read_capped True pl2 d' path = Inr (alias @ [nl])"
      using read_capped_written [OF f(1) assms(2)] alias_bytes [OF a]
      by (auto simp: f utf8_ok_append utf8_ok_nl simp del: utf8_ok.simps(2))
    moreover have "split_on nl (alias @ [nl]) = [alias, []]"
      using split_on_append_sep [of nl "alias" "[]"] alias_bytes [OF a] by simp
    ultimately show "read_local_default True pl2 d' path = Inr \<lparr>ld_alias = alias\<rparr>
           \<and> map_option f_mode (d_files d' path) = Some MODE_0600"
      by (simp add: read_local_default_def line_at_def a f Let_def)
  qed
  show "utf8_ok email \<and> write_remote_default pl d path email (Some alias) = (d', Inr ()) \<longrightarrow>
           read_remote_default True pl2 d' path =
             (if length email + length alias + 2 \<le> 256 then Inr \<lparr>rd_email = email, rd_alias = Some alias\<rparr>
              else Inl SidecarInvalid)"
  proof
    assume w: "utf8_ok email \<and> write_remote_default pl d path email (Some alias) = (d', Inr ())"
    then have e: "validate_email email" and a: "validate_alias alias" "alias \<noteq> []"
      and wr: "sidecar_write_atomic pl d path (email @ [nl] @ alias @ [nl]) = (d', Inr ())"
      by (auto simp: write_remote_default_def validate_alias_def split: if_splits)
    from sidecar_write.replaced [OF assms(1) wr] obtain f where
      f: "d_files d' path = Some f" "f_data f = email @ [nl] @ alias @ [nl]" by blast
    have ws: "\<not> has_whitespace email" "\<not> has_control email"
      using e by (auto simp: validate_email_def split: if_splits)
    have "\<forall>b \<in> set (f_data f). b \<noteq> nl \<longrightarrow> 32 \<le> (of_char b :: nat) \<and> (of_char b :: nat) \<noteq> 127"
      using alias_bytes(1) [OF a(1)] has_control_bytes [OF ws(2)] by (auto simp: f)
    moreover have "utf8_ok (f_data f)"
      using alias_bytes(3) [OF a(1)] w by (simp add: f utf8_ok_append utf8_ok_nl del: utf8_ok.simps(2))
    ultimately have "read_capped True pl2 d' path =
        (if length email + length alias + 2 \<le> 256 then Inr (email @ [nl] @ alias @ [nl]) else Inl SidecarInvalid)"
      using read_capped_written [OF f(1) assms(2)] by (simp add: f)
    moreover have "split_on nl (email @ [nl] @ alias @ [nl]) = [email, alias, []]"
      using split_on_append_sep [of nl email "alias @ [nl]"] split_on_append_sep [of nl "alias" "[]"]
        alias_bytes [OF a(1)] has_whitespace_nl [OF ws(1)] by simp
    ultimately show "read_remote_default True pl2 d' path =
             (if length email + length alias + 2 \<le> 256 then Inr \<lparr>rd_email = email, rd_alias = Some alias\<rparr>
              else Inl SidecarInvalid)"
      using a e by (simp add: read_remote_default_def line_at_def Let_def del: append.simps)
  qed
qed

theorem sidecar_roundtrip_witness:
  "\<exists>d'. write_local_default (io_all_ok 0) \<lparr>d_files = (\<lambda>_. None), d_trace = []\<rparr> ''/c/last-default-local'' ''work'' = (d', Inr ())
     \<and> read_local_default True (io_all_ok 1) d' ''/c/last-default-local'' = Inr \<lparr>ld_alias = ''work''\<rparr>"
proof -
  have ne: "with_extension ''/c/last-default-local'' ''tmp'' \<noteq> ''/c/last-default-local''"
    by (simp add: with_extension_def file_name_def file_stem_def)
  obtain d' r where w: "write_local_default (io_all_ok 0) \<lparr>d_files = (\<lambda>_. None), d_trace = []\<rparr> ''/c/last-default-local'' ''work'' = (d', r)"
    by fastforce
  then have "r = Inr ()"
    by (auto simp: write_local_default_def validate_alias_def MAX_ALIAS_LEN_def sidecar_write_atomic_def io_all_ok_def fs_defs Let_def
        split: if_splits)
  with sidecar_roundtrip [OF ne, of "io_all_ok 1"] w show ?thesis by (auto simp: io_all_ok_def)
qed

end
