(* ===== verification/Completions.thy ===== *)
theory Completions
  imports Rc_Block
begin

text \<open>
  Installing the shell completions (core completions/mod.rs, paths.rs, framework.rs,
  shell.rs): a script file, an alias of it under the other command name, and the
  block in the rc file. The disk is extended by symbolic links, which name a file of
  their own directory here, as those that the program makes do.
\<close>

section \<open>Shells and frameworks (shell.rs, framework.rs)\<close>

datatype shell = Bash | Zsh | Fish

fun shell_as_str :: "shell \<Rightarrow> string" where
  "shell_as_str Bash = ''bash''"
| "shell_as_str Zsh = ''zsh''"
| "shell_as_str Fish = ''fish''"

definition shell_parse :: "string \<Rightarrow> shell option" where
  "shell_parse s =
     (let name = (if file_name s = [] then s else file_name s)
      in if name = ''bash'' then Some Bash else if name = ''zsh'' then Some Zsh else if name = ''fish'' then Some Fish else None)"

datatype framework = NoFramework | OhMyZsh | Prezto | Zinit | Antibody | Antidote | Znap | Zimfw | Zplug

fun framework_as_str :: "framework \<Rightarrow> string" where
  "framework_as_str NoFramework = ''none''"
| "framework_as_str OhMyZsh = ''oh-my-zsh''"
| "framework_as_str Prezto = ''prezto''"
| "framework_as_str Zinit = ''zinit''"
| "framework_as_str Antibody = ''antibody''"
| "framework_as_str Antidote = ''antidote''"
| "framework_as_str Znap = ''znap''"
| "framework_as_str Zimfw = ''zimfw''"
| "framework_as_str Zplug = ''zplug''"

definition framework_is_some :: "framework \<Rightarrow> bool" where
  "framework_is_some f = (f \<noteq> NoFramework)"

definition zsh_needles :: "(string \<times> framework) list" where
  "zsh_needles = [(''oh-my-zsh'', OhMyZsh), (''ohmyzsh'', OhMyZsh), (''prezto'', Prezto), (''zinit'', Zinit),
     (''antibody'', Antibody), (''antidote'', Antidote), (''znap'', Znap), (''zimfw'', Zimfw), (''zplug'', Zplug)]"

definition detect_zsh :: "(string \<Rightarrow> bool) \<Rightarrow> disk \<Rightarrow> string \<Rightarrow> framework" where
  "detect_zsh readable d zshrc =
     (case d_files d zshrc of
        None \<Rightarrow> NoFramework
      | Some f \<Rightarrow> if \<not> readable zshrc then NoFramework
                  else (case List.find (\<lambda>(needle, _). find_sub needle (f_data f) \<noteq> None) zsh_needles of
                          Some (_, fw) \<Rightarrow> fw | None \<Rightarrow> NoFramework))"

definition bash_completion_loaded :: "(string \<Rightarrow> string option) \<Rightarrow> (string \<Rightarrow> bool) \<Rightarrow> bool" where
  "bash_completion_loaded env present =
     (let prefix = (case env ''HOMEBREW_PREFIX'' of Some p \<Rightarrow> p | None \<Rightarrow> ''/opt/homebrew'')
      in list_ex present [''/usr/share/bash-completion/bash_completion'', ''/etc/bash_completion.d'',
           ''/etc/profile.d/bash_completion.sh'', ''/etc/bash_completion'',
           prefix @ ''/etc/bash_completion'', ''/usr/local/etc/bash_completion''])"

section \<open>Paths (paths.rs)\<close>

record path_env =
  xdg_data_home :: "string option"
  zdotdir :: "string option"
  xdg_config_home :: "string option"

definition or_else :: "string option \<Rightarrow> string \<Rightarrow> string" where
  "or_else v d = (case v of Some p \<Rightarrow> p | None \<Rightarrow> d)"

definition xdg_data :: "string \<Rightarrow> path_env \<Rightarrow> string" where
  "xdg_data home env = or_else (xdg_data_home env) (path_join home ''.local/share'')"

definition xdg_config :: "string \<Rightarrow> path_env \<Rightarrow> string" where
  "xdg_config home env = or_else (xdg_config_home env) (path_join home ''.config'')"

definition zsh_zfunc_dir :: "string \<Rightarrow> string option \<Rightarrow> string" where
  "zsh_zfunc_dir home dotdir = path_join (or_else dotdir home) ''.zfunc''"

fun completion_file :: "shell \<Rightarrow> string \<Rightarrow> path_env \<Rightarrow> string" where
  "completion_file Bash home env = path_join (xdg_data home env) ''bash-completion/completions/zz-drop''"
| "completion_file Zsh home env = path_join (zsh_zfunc_dir home (zdotdir env)) ''_zz''"
| "completion_file Fish home env = path_join (xdg_config home env) ''fish/completions/zz.fish''"

fun completion_aliases :: "shell \<Rightarrow> string \<Rightarrow> path_env \<Rightarrow> string list" where
  "completion_aliases Bash home env = [path_join (xdg_data home env) ''bash-completion/completions/zz'']"
| "completion_aliases Fish home env = [path_join (xdg_config home env) ''fish/completions/zz-drop.fish'']"
| "completion_aliases Zsh home env = []"

definition bashrc_path :: "string \<Rightarrow> string" where
  "bashrc_path home = path_join home ''.bashrc''"

definition zshrc_path :: "string \<Rightarrow> string option \<Rightarrow> string" where
  "zshrc_path home dotdir = path_join (or_else dotdir home) ''.zshrc''"

section \<open>Files and links\<close>

record linked_disk =
  ld_disk :: disk
  ld_links :: "string \<Rightarrow> string option"

definition sibling :: "string \<Rightarrow> string \<Rightarrow> string" where
  "sibling p name = take (length p - length (file_name p)) p @ name"

definition resolve :: "linked_disk \<Rightarrow> string \<Rightarrow> string" where
  "resolve st p = (case ld_links st p of Some name \<Rightarrow> sibling p name | None \<Rightarrow> p)"

text \<open>\<open>Path::exists\<close> follows a link, \<open>path_present\<close> does not.\<close>

definition path_exists :: "linked_disk \<Rightarrow> string \<Rightarrow> bool" where
  "path_exists st p = (d_files (ld_disk st) (resolve st p) \<noteq> None)"

definition path_present :: "linked_disk \<Rightarrow> string \<Rightarrow> bool" where
  "path_present st p = (ld_links st p \<noteq> None \<or> d_files (ld_disk st) p \<noteq> None)"

definition ld_write :: "io_plan \<Rightarrow> linked_disk \<Rightarrow> string \<Rightarrow> string \<Rightarrow> linked_disk \<times> bool" where
  "ld_write pl st p s = (let (d, written) = fs_write MODE_DEFAULT pl (ld_disk st) (resolve st p) s in (st\<lparr>ld_disk := d\<rparr>, written))"

text \<open>\<open>remove_file\<close> removes the link and not what it names; \<open>removable\<close> is false if it fails.\<close>

definition ld_remove :: "bool \<Rightarrow> linked_disk \<Rightarrow> string \<Rightarrow> linked_disk \<times> bool" where
  "ld_remove removable st p =
     (if \<not> removable then (st, False)
      else if ld_links st p \<noteq> None then (st\<lparr>ld_links := (ld_links st)(p := None)\<rparr>, True)
      else (st\<lparr>ld_disk := fs_remove (ld_disk st) p\<rparr>, True))"

text \<open>What the calls answer: one plan per group of calls, and the paths that can be read or removed.\<close>

record setup_env =
  se_script :: io_plan
  se_alias :: io_plan
  se_symlink :: bool
  se_rc :: io_plan
  se_readable :: "string \<Rightarrow> bool"
  se_removable :: "string \<Rightarrow> bool"
  se_bash_loaded :: bool

section \<open>Installing (mod.rs)\<close>

record install_request =
  iq_shell :: shell
  iq_script :: string
  iq_home :: string
  iq_xdg_data_home :: "string option"
  iq_zdotdir :: "string option"
  iq_xdg_config_home :: "string option"

definition request_env :: "install_request \<Rightarrow> path_env" where
  "request_env q = \<lparr>xdg_data_home = iq_xdg_data_home q, zdotdir = iq_zdotdir q, xdg_config_home = iq_xdg_config_home q\<rparr>"

datatype file_action = FileCreated | FileUpdated | FileUnchanged

record install_outcome =
  io_shell :: shell
  io_framework :: framework
  io_completion_path :: string
  io_completion_action :: file_action
  io_rc_path :: "string option"
  io_rc_action :: rc_action
  io_hint :: "string option"

definition write_completion_file ::
  "setup_env \<Rightarrow> linked_disk \<Rightarrow> string \<Rightarrow> string \<Rightarrow> linked_disk \<times> (rc_error, file_action) result" where
  "write_completion_file E st path script =
     (let pl = se_script E; fail = Inl (RcIo (pl_msg pl)) in
      if \<not> pl_mkdir pl then (st, fail)
      else if path_exists st path then
        if \<not> se_readable E path then (st, fail)
        else if map_option f_data (d_files (ld_disk st) (resolve st path)) = Some script then (st, Inr FileUnchanged)
        else let (st1, written) = ld_write pl st path script in (st1, if written then Inr FileUpdated else fail)
      else let (st1, written) = ld_write pl st path script in (st1, if written then Inr FileCreated else fail))"

text \<open>The end of \<open>write_alias_file\<close>: a link, or else a copy.\<close>

definition place_alias ::
  "setup_env \<Rightarrow> linked_disk \<Rightarrow> string \<Rightarrow> string \<Rightarrow> string \<Rightarrow> linked_disk \<times> (rc_error, unit) result" where
  "place_alias E st alias primary_name script =
     (if se_symlink E \<and> \<not> path_present st alias then (st\<lparr>ld_links := (ld_links st)(alias \<mapsto> primary_name)\<rparr>, Inr ())
      else let (st1, written) = ld_write (se_alias E) st alias script
           in (st1, if written then Inr () else Inl (RcIo (pl_msg (se_alias E)))))"

definition write_alias_file ::
  "setup_env \<Rightarrow> linked_disk \<Rightarrow> string \<Rightarrow> string \<Rightarrow> string \<Rightarrow> linked_disk \<times> (rc_error, unit) result" where
  "write_alias_file E st alias primary script =
     (let fail = Inl (RcIo (pl_msg (se_alias E))); primary_name = file_name primary in
      if \<not> pl_mkdir (se_alias E) then (st, fail)
      else case ld_links st alias of
        Some existing_target \<Rightarrow>
          if existing_target = primary_name then (st, Inr ())
          else let (st1, removed) = ld_remove (se_removable E alias) st alias
               in if removed then place_alias E st1 alias primary_name script else (st1, fail)
      | None \<Rightarrow>
          (case d_files (ld_disk st) alias of
             Some f \<Rightarrow>
               let existing = (if se_readable E alias then f_data f else []) in
               if existing = script then (st, Inr ())
               else let (st1, removed) = ld_remove (se_removable E alias) st alias
                    in if removed then place_alias E st1 alias primary_name script else (st1, fail)
           | None \<Rightarrow> place_alias E st alias primary_name script))"

fun write_aliases ::
  "setup_env \<Rightarrow> linked_disk \<Rightarrow> string list \<Rightarrow> string \<Rightarrow> string \<Rightarrow> linked_disk \<times> (rc_error, unit) result" where
  "write_aliases E st [] primary script = (st, Inr ())"
| "write_aliases E st (a # as) primary script =
     (case write_alias_file E st a primary script of
        (st1, Inl e) \<Rightarrow> (st1, Inl e)
      | (st1, Inr _) \<Rightarrow> write_aliases E st1 as primary script)"

definition shell_quote :: "string \<Rightarrow> string" where
  "shell_quote s =
     [CHR 0x22] @ concat (map (\<lambda>c. if c \<in> {CHR 0x22, CHR 0x5C, CHR ''$'', CHR ''`''} then [CHR 0x5C, c] else [c]) s) @ [CHR 0x22]"

abbreviation dash_utf8 :: string where "dash_utf8 \<equiv> [CHR 0xE2, CHR 0x80, CHR 0x94]"

definition bash_block :: "string \<Rightarrow> string" where
  "bash_block completion_path =
     (let q = shell_quote completion_path in
      ''# Added by `zz --setup-completions` '' @ dash_utf8 @ '' to remove, delete this block.'' @ [NL]
        @ ''[ -f '' @ q @ '' ] && . '' @ q @ [NL])"

definition zsh_block :: "framework \<Rightarrow> string \<Rightarrow> string" where
  "zsh_block fw zfunc =
     (if framework_is_some fw then
        ''# Added by `zz --setup-completions` '' @ dash_utf8 @ '' framework detected ('' @ framework_as_str fw @ '').'' @ [NL]
          @ ''# Compinit is handled by the framework; we only ensure ~/.zfunc is in fpath.'' @ [NL]
          @ ''fpath=('' @ shell_quote zfunc @ '' $fpath)'' @ [NL]
      else
        ''# Added by `zz --setup-completions` '' @ dash_utf8 @ '' to remove, delete this block.'' @ [NL]
          @ ''fpath=('' @ shell_quote zfunc @ '' $fpath)'' @ [NL]
          @ ''autoload -U compinit && compinit -i'' @ [NL])"

definition bash_hint :: string where
  "bash_hint = ''bash-completion framework not detected; install it via your package manager (apt / dnf / pacman / apk / brew install bash-completion) for nicer rendering. The block we just added sources the file directly, so SACS works either way.''"

definition zsh_hint :: string where
  "zsh_hint = ''open a new terminal (or run `exec zsh -l`) for completions to load.''"

type_synonym rc_update = "(rc_error, string option \<times> rc_action \<times> string option) result"

definition bash_rc_update ::
  "setup_env \<Rightarrow> linked_disk \<Rightarrow> install_request \<Rightarrow> string \<Rightarrow> linked_disk \<times> rc_update" where
  "bash_rc_update E st q completion_path =
     (if se_bash_loaded E then (st, Inr (None, RcNotNeeded, None))
      else let rc = bashrc_path (iq_home q);
               (d, r) = write_block (se_readable E rc) (se_rc E) (ld_disk st) rc (bash_block completion_path)
           in (st\<lparr>ld_disk := d\<rparr>, rbind r (\<lambda>action. Inr (Some rc, action, Some bash_hint))))"

definition zsh_rc_update ::
  "setup_env \<Rightarrow> linked_disk \<Rightarrow> install_request \<Rightarrow> framework \<Rightarrow> linked_disk \<times> rc_update" where
  "zsh_rc_update E st q fw =
     (let rc = zshrc_path (iq_home q) (iq_zdotdir q);
          (d, r) = write_block (se_readable E rc) (se_rc E) (ld_disk st) rc (zsh_block fw (zsh_zfunc_dir (iq_home q) (iq_zdotdir q)))
      in (st\<lparr>ld_disk := d\<rparr>, rbind r (\<lambda>action. Inr (Some rc, action, Some zsh_hint))))"

definition install :: "setup_env \<Rightarrow> linked_disk \<Rightarrow> install_request \<Rightarrow> linked_disk \<times> (rc_error, install_outcome) result" where
  "install E st q =
     (let env = request_env q; completion_path = completion_file (iq_shell q) (iq_home q) env in
      case write_completion_file E st completion_path (iq_script q) of
        (st1, Inl e) \<Rightarrow> (st1, Inl e)
      | (st1, Inr completion_action) \<Rightarrow>
          (case write_aliases E st1 (completion_aliases (iq_shell q) (iq_home q) env) completion_path (iq_script q) of
             (st2, Inl e) \<Rightarrow> (st2, Inl e)
           | (st2, Inr _) \<Rightarrow>
               let fw = (if iq_shell q = Zsh then detect_zsh (se_readable E) (ld_disk st2) (zshrc_path (iq_home q) (iq_zdotdir q))
                         else NoFramework);
                   (st3, r) = (case iq_shell q of
                       Fish \<Rightarrow> (st2, Inr (None, RcNotNeeded, None))
                     | Bash \<Rightarrow> bash_rc_update E st2 q completion_path
                     | Zsh \<Rightarrow> zsh_rc_update E st2 q fw)
               in (st3, rbind r (\<lambda>(rc_path, action, hint). Inr \<lparr>io_shell = iq_shell q, io_framework = fw,
                    io_completion_path = completion_path, io_completion_action = completion_action,
                    io_rc_path = rc_path, io_rc_action = action, io_hint = hint\<rparr>))))"

section \<open>Status and removal\<close>

datatype completions_status =
    Wired shell string "string option"
  | NeedsRcBlock shell string string
  | Missing shell string

definition is_wired :: "completions_status \<Rightarrow> bool" where
  "is_wired s = (case s of Wired _ _ _ \<Rightarrow> True | _ \<Rightarrow> False)"

fun status_shell :: "completions_status \<Rightarrow> shell" where
  "status_shell (Wired s _ _) = s"
| "status_shell (NeedsRcBlock s _ _) = s"
| "status_shell (Missing s _) = s"

text \<open>\<open>contains_block(..).unwrap_or(false)\<close>, and the status that it decides.\<close>

definition rc_status :: "setup_env \<Rightarrow> linked_disk \<Rightarrow> shell \<Rightarrow> string \<Rightarrow> string \<Rightarrow> completions_status" where
  "rc_status E st sh completion_path rc =
     (if contains_block (se_readable E rc) (se_rc E) (ld_disk st) rc = Inr True
      then Wired sh completion_path (Some rc) else NeedsRcBlock sh completion_path rc)"

definition status :: "setup_env \<Rightarrow> linked_disk \<Rightarrow> install_request \<Rightarrow> completions_status" where
  "status E st q =
     (let sh = iq_shell q; completion_path = completion_file sh (iq_home q) (request_env q) in
      if \<not> path_exists st completion_path then Missing sh completion_path
      else case sh of
        Fish \<Rightarrow> Wired sh completion_path None
      | Bash \<Rightarrow> if se_bash_loaded E then Wired sh completion_path None
                else rc_status E st sh completion_path (bashrc_path (iq_home q))
      | Zsh \<Rightarrow> rc_status E st sh completion_path (zshrc_path (iq_home q) (iq_zdotdir q)))"

record uninstall_outcome =
  uo_completion_path :: string
  uo_file_removed :: bool
  uo_rc_path :: "string option"
  uo_rc_block_removed :: bool

fun remove_present :: "setup_env \<Rightarrow> linked_disk \<Rightarrow> string list \<Rightarrow> linked_disk \<times> (rc_error, unit) result" where
  "remove_present E st [] = (st, Inr ())"
| "remove_present E st (a # as) =
     (if path_present st a then
        (case ld_remove (se_removable E a) st a of
           (st1, True) \<Rightarrow> remove_present E st1 as
         | (st1, False) \<Rightarrow> (st1, Inl (RcIo (pl_msg (se_alias E)))))
      else remove_present E st as)"

definition uninstall :: "setup_env \<Rightarrow> linked_disk \<Rightarrow> install_request \<Rightarrow> linked_disk \<times> (rc_error, uninstall_outcome) result" where
  "uninstall E st q =
     (let env = request_env q; completion_path = completion_file (iq_shell q) (iq_home q) env;
          file_removed = path_present st completion_path in
      case remove_present E st [completion_path] of
        (st1, Inl e) \<Rightarrow> (st1, Inl e)
      | (st1, Inr _) \<Rightarrow>
          (case remove_present E st1 (completion_aliases (iq_shell q) (iq_home q) env) of
             (st2, Inl e) \<Rightarrow> (st2, Inl e)
           | (st2, Inr _) \<Rightarrow>
               let rc_path = (case iq_shell q of
                       Fish \<Rightarrow> None
                     | Bash \<Rightarrow> Some (bashrc_path (iq_home q))
                     | Zsh \<Rightarrow> Some (zshrc_path (iq_home q) (iq_zdotdir q)));
                   (d, r) = (case rc_path of
                       Some rc \<Rightarrow> if path_exists st2 rc then remove_block (se_readable E rc) (se_rc E) (ld_disk st2) rc
                                  else (ld_disk st2, Inr False)
                     | None \<Rightarrow> (ld_disk st2, Inr False))
               in (st2\<lparr>ld_disk := d\<rparr>, rbind r (\<lambda>removed. Inr \<lparr>uo_completion_path = completion_path,
                    uo_file_removed = file_removed, uo_rc_path = rc_path, uo_rc_block_removed = removed\<rparr>))))"

end
