(* ===== verification/Output.thy ===== *)
theory Output
  imports Flags Completions Remote_Path Walk Profile
begin

text \<open>
  What a command prints (src/output.rs, src/color.rs, core output/json.rs and
  scriptable/schema.rs). In JSON mode every result is one line of JSON on the standard
  output; \<open>serde_json\<close> is a parameter, \<open>json_ok\<close> what its documentation says. The escape
  sequences of \<open>owo_colors\<close> are a parameter as well.
\<close>

section \<open>Reasons and exit codes (schema.rs, commands/mod.rs)\<close>

datatype reason =
    Usage | NotImplemented | AgentUnreachable | ProfileMissing | DecryptFailed | WipeCancelled
  | ProviderError | AgentLocked | PassphraseFilePermissions | InteractiveRequired
  | InteractiveOnly | AliasAmbiguous | ContainerAmbiguous | CompletionsInstallFailed

fun reason_as_str :: "reason \<Rightarrow> string" where
  "reason_as_str Usage = ''usage''"
| "reason_as_str NotImplemented = ''not_implemented''"
| "reason_as_str AgentUnreachable = ''agent_unreachable''"
| "reason_as_str ProfileMissing = ''profile_missing''"
| "reason_as_str DecryptFailed = ''decrypt_failed''"
| "reason_as_str WipeCancelled = ''wipe_cancelled''"
| "reason_as_str ProviderError = ''provider_error''"
| "reason_as_str AgentLocked = ''agent_locked''"
| "reason_as_str PassphraseFilePermissions = ''passphrase_file_permissions''"
| "reason_as_str InteractiveRequired = ''interactive_required''"
| "reason_as_str InteractiveOnly = ''interactive_only''"
| "reason_as_str AliasAmbiguous = ''alias_ambiguous''"
| "reason_as_str ContainerAmbiguous = ''container_ambiguous''"
| "reason_as_str CompletionsInstallFailed = ''completions_install_failed''"

definition EXIT_USAGE :: int where "EXIT_USAGE = 2"
definition EXIT_AGENT_UNREACHABLE :: int where "EXIT_AGENT_UNREACHABLE = 5"
definition EXIT_PROFILE_MISSING :: int where "EXIT_PROFILE_MISSING = 6"
definition EXIT_DECRYPT_FAILED :: int where "EXIT_DECRYPT_FAILED = 7"
definition EXIT_WIPE_CANCELLED :: int where "EXIT_WIPE_CANCELLED = 8"
definition EXIT_AGENT_LOCKED :: int where "EXIT_AGENT_LOCKED = 10"
definition EXIT_PASSPHRASE_FILE_INSECURE :: int where "EXIT_PASSPHRASE_FILE_INSECURE = 11"
definition EXIT_COMPLETIONS_FAILED :: int where "EXIT_COMPLETIONS_FAILED = 12"

text \<open>The exit code that the documentation of each reason names.\<close>

fun reason_exit :: "reason \<Rightarrow> int" where
  "reason_exit NotImplemented = EXIT_NOT_IMPLEMENTED"
| "reason_exit AgentUnreachable = EXIT_AGENT_UNREACHABLE"
| "reason_exit ProfileMissing = EXIT_PROFILE_MISSING"
| "reason_exit DecryptFailed = EXIT_DECRYPT_FAILED"
| "reason_exit WipeCancelled = EXIT_WIPE_CANCELLED"
| "reason_exit ProviderError = EXIT_PROVIDER_ERROR"
| "reason_exit AgentLocked = EXIT_AGENT_LOCKED"
| "reason_exit PassphraseFilePermissions = EXIT_PASSPHRASE_FILE_INSECURE"
| "reason_exit CompletionsInstallFailed = EXIT_COMPLETIONS_FAILED"
| "reason_exit _ = EXIT_USAGE"

lemmas exit_defs = EXIT_OK_def EXIT_USAGE_def EXIT_NOT_IMPLEMENTED_def EXIT_AGENT_UNREACHABLE_def
  EXIT_PROFILE_MISSING_def EXIT_DECRYPT_FAILED_def EXIT_WIPE_CANCELLED_def EXIT_PROVIDER_ERROR_def
  EXIT_AGENT_LOCKED_def EXIT_PASSPHRASE_FILE_INSECURE_def EXIT_COMPLETIONS_FAILED_def

section \<open>Time stamps (json.rs)\<close>

type_synonym i32 = "32 word"

text \<open>The year is cut to \<open>i32\<close>; \<open>{:04}\<close> counts the sign of a negative one.\<close>

definition civil_from_unix :: "u64 \<Rightarrow> int \<times> nat \<times> nat \<times> nat \<times> nat \<times> nat" where
  "civil_from_unix secs =
     (let days = unat secs div 86400; secs_of_day = unat secs mod 86400;
          hh = secs_of_day div 3600; mm = (secs_of_day div 60) mod 60; ss = secs_of_day mod 60;
          (y, m, d) = civil_from_days days
      in (sint (of_nat y :: i32), m, d, hh, mm, ss))"

definition pad_int :: "nat \<Rightarrow> int \<Rightarrow> string" where
  "pad_int w i = (if i < 0 then ''-'' @ pad (w - 1) (nat (- i)) else pad w (nat i))"

definition rfc3339_from_unix :: "u64 \<Rightarrow> string" where
  "rfc3339_from_unix secs =
     (let (y, mo, d, h, m, s) = civil_from_unix secs
      in pad_int 4 y @ ''-'' @ pad 2 mo @ ''-'' @ pad 2 d @ ''T'' @ pad 2 h @ '':'' @ pad 2 m @ '':'' @ pad 2 s @ ''Z'')"

section \<open>Records (json.rs)\<close>

datatype json = JBool bool | JNum int | JStr string | JArr "json list" | JObj "(string \<times> json) list"

definition SCHEMA_V :: string where "SCHEMA_V = ''1''"

definition opt_field :: "string \<Rightarrow> string option \<Rightarrow> (string \<times> json) list" where
  "opt_field k v = (case v of None \<Rightarrow> [] | Some s \<Rightarrow> [(k, JStr s)])"

definition json_record :: "string \<Rightarrow> u64 \<Rightarrow> (string \<times> json) list \<Rightarrow> json" where
  "json_record event now rest =
     JObj ([(''v'', JStr SCHEMA_V), (''event'', JStr event), (''ts'', JStr (rfc3339_from_unix now))] @ rest)"

definition uploaded_new :: "u64 \<Rightarrow> string \<Rightarrow> u64 \<Rightarrow> u32 option \<Rightarrow> string \<Rightarrow> string \<Rightarrow> json" where
  "uploaded_new now name bytes compressed_pct alias target = json_record ''uploaded'' now
     ([(''file'', JStr name), (''bytes'', JNum (uint bytes))]
      @ (case compressed_pct of None \<Rightarrow> [] | Some p \<Rightarrow> [(''compressed_pct'', JNum (uint p))])
      @ [(''alias'', JStr alias), (''target'', JStr target)])"

definition downloaded_new :: "u64 \<Rightarrow> string \<Rightarrow> u64 \<Rightarrow> string \<Rightarrow> string \<Rightarrow> json" where
  "downloaded_new now name bytes alias target = json_record ''downloaded'' now
     [(''file'', JStr name), (''bytes'', JNum (uint bytes)), (''alias'', JStr alias), (''target'', JStr target)]"

record failed_event =
  fe_ts :: u64
  fe_file :: "string option"
  fe_reason :: reason
  fe_detail :: "string option"
  fe_candidates :: "string list option"
  fe_alias :: "string option"
  fe_target :: "string option"

definition failed_json :: "failed_event \<Rightarrow> json" where
  "failed_json e = json_record ''failed'' (fe_ts e)
     (opt_field ''file'' (fe_file e) @ [(''reason'', JStr (reason_as_str (fe_reason e)))]
      @ opt_field ''detail'' (fe_detail e)
      @ (case fe_candidates e of None \<Rightarrow> [] | Some cs \<Rightarrow> [(''candidates'', JArr (map JStr cs))])
      @ opt_field ''alias'' (fe_alias e) @ opt_field ''target'' (fe_target e))"

definition failed_bare :: "u64 \<Rightarrow> reason \<Rightarrow> failed_event" where
  "failed_bare now r = \<lparr>fe_ts = now, fe_file = None, fe_reason = r, fe_detail = None,
     fe_candidates = None, fe_alias = None, fe_target = None\<rparr>"

definition failed_with_detail :: "u64 \<Rightarrow> reason \<Rightarrow> string \<Rightarrow> failed_event" where
  "failed_with_detail now r detail = \<lparr>fe_ts = now, fe_file = None, fe_reason = r, fe_detail = Some detail,
     fe_candidates = None, fe_alias = None, fe_target = None\<rparr>"

definition failed_for_file :: "u64 \<Rightarrow> string \<Rightarrow> reason \<Rightarrow> string option \<Rightarrow> string \<Rightarrow> string \<Rightarrow> failed_event" where
  "failed_for_file now name r detail alias target = \<lparr>fe_ts = now, fe_file = Some name, fe_reason = r,
     fe_detail = detail, fe_candidates = None, fe_alias = Some alias, fe_target = Some target\<rparr>"

definition failed_alias_ambiguous :: "u64 \<Rightarrow> string list \<Rightarrow> failed_event" where
  "failed_alias_ambiguous now candidates = \<lparr>fe_ts = now, fe_file = None, fe_reason = AliasAmbiguous,
     fe_detail = None, fe_candidates = Some candidates, fe_alias = None, fe_target = None\<rparr>"

definition batch_summary_new :: "u64 \<Rightarrow> u32 \<Rightarrow> u32 \<Rightarrow> u32 \<Rightarrow> int \<Rightarrow> json" where
  "batch_summary_new now n_total ok failed code = json_record ''batch_summary'' now
     [(''total'', JNum (uint n_total)), (''ok'', JNum (uint ok)), (''failed'', JNum (uint failed)), (''exit_code'', JNum code)]"

definition unlocked_new :: "u64 \<Rightarrow> string \<Rightarrow> string \<Rightarrow> json" where
  "unlocked_new now alias target = json_record ''unlocked'' now [(''alias'', JStr alias), (''target'', JStr target)]"

definition locked_new :: "u64 \<Rightarrow> json" where
  "locked_new now = json_record ''locked'' now []"

definition wiped_new :: "u64 \<Rightarrow> json" where
  "wiped_new now = json_record ''wiped'' now []"

definition doctor_check_new :: "u64 \<Rightarrow> string \<Rightarrow> bool \<Rightarrow> string option \<Rightarrow> json" where
  "doctor_check_new now name ok detail = json_record ''doctor_check'' now
     ([(''name'', JStr name), (''ok'', JBool ok)] @ opt_field ''detail'' detail)"

definition doctor_summary_new :: "u64 \<Rightarrow> bool \<Rightarrow> string list \<Rightarrow> json" where
  "doctor_summary_new now ok failed = json_record ''doctor_summary'' now
     [(''ok'', JBool ok), (''failed'', JArr (map JStr failed))]"

definition completions_setup_new ::
  "u64 \<Rightarrow> string \<Rightarrow> string \<Rightarrow> string \<Rightarrow> string option \<Rightarrow> string \<Rightarrow> string \<Rightarrow> string option \<Rightarrow> json" where
  "completions_setup_new now sh completion_path completion_action rc_path rc_act fw hint =
     json_record ''completions_setup'' now
       ([(''shell'', JStr sh), (''completion_path'', JStr completion_path), (''completion_action'', JStr completion_action)]
        @ opt_field ''rc_path'' rc_path @ [(''rc_action'', JStr rc_act), (''framework'', JStr fw)]
        @ opt_field ''hint'' hint)"

definition completions_status_new ::
  "u64 \<Rightarrow> string \<Rightarrow> bool \<Rightarrow> string \<Rightarrow> string \<Rightarrow> string option \<Rightarrow> json" where
  "completions_status_new now sh wired label completion_path rc_path = json_record ''completions_status'' now
     ([(''shell'', JStr sh), (''wired'', JBool wired), (''status'', JStr label), (''completion_path'', JStr completion_path)]
      @ opt_field ''rc_path'' rc_path)"

section \<open>Colour (color.rs)\<close>

datatype colour = Green | Red | Cyan

text \<open>\<open>ColorPolicy::from_parts\<close>, for an environment and whether the output is a terminal.\<close>

definition color_from_parts :: "(string \<Rightarrow> string option) \<Rightarrow> bool \<Rightarrow> bool" where
  "color_from_parts env tty =
     (if \<exists>v. env ''NO_COLOR'' = Some v \<and> v \<noteq> [] then False
      else if env ''CLICOLOR'' = Some ''0'' then False
      else if \<exists>v. env ''FORCE_COLOR'' = Some v \<and> v \<noteq> [] then True
      else tty)"

definition paint :: "(colour \<Rightarrow> string \<Rightarrow> string) \<Rightarrow> bool \<Rightarrow> colour \<Rightarrow> string \<Rightarrow> string" where
  "paint ansi enabled c s = (if enabled then ansi c s else s)"

section \<open>Rendering (output.rs)\<close>

abbreviation arrow_right :: string where "arrow_right \<equiv> [CHR 0xE2, CHR 0x86, CHR 0x92]"
abbreviation arrow_left :: string where "arrow_left \<equiv> [CHR 0xE2, CHR 0x86, CHR 0x90]"
abbreviation middle_dot :: string where "middle_dot \<equiv> [CHR 0xC2, CHR 0xB7]"
abbreviation em_dash :: string where "em_dash \<equiv> [CHR 0xE2, CHR 0x80, CHR 0x94]"
abbreviation replacement_char :: string where "replacement_char \<equiv> [CHR 0xEF, CHR 0xBF, CHR 0xBD]"

text \<open>\<open>term_safe\<close> on UTF-8: a C1 control is two bytes.\<close>

fun term_safe :: "string \<Rightarrow> string" where
  "term_safe [] = []"
| "term_safe [c] = (if (of_char c :: nat) < 32 \<or> (of_char c :: nat) = 127 then replacement_char else [c])"
| "term_safe (c # d # s) =
     (if (of_char c :: nat) < 32 \<or> (of_char c :: nat) = 127 then replacement_char @ term_safe (d # s)
      else if c = CHR 0xC2 \<and> 128 \<le> (of_char d :: nat) \<and> (of_char d :: nat) < 160 then replacement_char @ term_safe s
      else c # term_safe (d # s))"

record target_label =
  tl_alias :: string
  tl_target :: string

definition render_uploaded ::
  "string \<Rightarrow> string \<Rightarrow> u32 option \<Rightarrow> target_label \<Rightarrow> (colour \<Rightarrow> string \<Rightarrow> string) \<Rightarrow> string" where
  "render_uploaded name sz compression_pct scope c =
     (let comp = (case compression_pct of Some p \<Rightarrow> '' ('' @ show_nat (unat p) @ ''% compressed)'' | None \<Rightarrow> [])
      in c Green ''uploaded'' @ '' '' @ name @ '' '' @ sz @ comp @ '' '' @ arrow_right @ '' ''
         @ c Cyan (tl_alias scope) @ '' '' @ middle_dot @ '' '' @ tl_target scope)"

definition render_downloaded ::
  "string \<Rightarrow> string \<Rightarrow> target_label \<Rightarrow> (colour \<Rightarrow> string \<Rightarrow> string) \<Rightarrow> string" where
  "render_downloaded name sz scope c =
     c Green ''downloaded'' @ '' '' @ name @ '' '' @ sz @ '' '' @ arrow_left @ '' ''
       @ c Cyan (tl_alias scope) @ '' '' @ middle_dot @ '' '' @ tl_target scope"

definition render_failed ::
  "string \<Rightarrow> string \<Rightarrow> target_label option \<Rightarrow> (colour \<Rightarrow> string \<Rightarrow> string) \<Rightarrow> string" where
  "render_failed name why scope c =
     (case scope of
        Some s \<Rightarrow> c Red ''failed'' @ '' '' @ name @ '' '' @ why @ '' ('' @ c Cyan (tl_alias s) @ '' '' @ middle_dot @ '' ''
                    @ tl_target s @ '')''
      | None \<Rightarrow> c Red ''failed'' @ '' '' @ name @ '' '' @ why)"

definition under_root :: "string \<Rightarrow> string \<Rightarrow> string" where
  "under_root host folder = (let root = trim_matches CHR ''/'' folder in if root = [] then host else host @ ''/'' @ root)"

definition profile_target :: "plain_profile \<Rightarrow> string" where
  "profile_target profile =
     (case pp_providers profile of
        Nextcloud nc # _ \<Rightarrow>
          let host = trim_end_matches CHR ''/''
                (case strip_prefix ''https://'' (nc_server_url nc) of
                   Some h \<Rightarrow> h
                 | None \<Rightarrow> (case strip_prefix ''http://'' (nc_server_url nc) of Some h \<Rightarrow> h | None \<Rightarrow> nc_server_url nc))
          in under_root host (nc_remote_root nc)
      | GoogleDrive gd # _ \<Rightarrow> under_root ''gdrive'' (gd_root_folder gd)
      | OneDrive od # _ \<Rightarrow> under_root ''onedrive'' (od_root_folder od)
      | Dropbox db # _ \<Rightarrow> under_root ''dropbox'' (db_root_folder db)
      | Unknown u # _ \<Rightarrow> up_tag u @ '' (unsupported)''
      | [] \<Rightarrow> em_dash)"

definition render_hint :: "string \<Rightarrow> string" where
  "render_hint command = ''run: '' @ command"

text \<open>\<open>{:<n}\<close> counts characters: bytes that do not continue one.\<close>

definition char_count :: "string \<Rightarrow> nat" where
  "char_count s = length (filter (\<lambda>c. \<not> byte_in 128 191 c) s)"

definition pad_right :: "nat \<Rightarrow> string \<Rightarrow> string" where
  "pad_right n s = s @ replicate (n - char_count s) CHR '' ''"

definition pad_left :: "nat \<Rightarrow> string \<Rightarrow> string" where
  "pad_left n s = replicate (n - char_count s) CHR '' '' @ s"

definition render_list_entry :: "string \<Rightarrow> string \<Rightarrow> string \<Rightarrow> string" where
  "render_list_entry alias sz path = pad_right 10 alias @ '' '' @ '' '' @ pad_left 6 sz @ '' '' @ '' '' @ [CHR 0x27] @ path @ [CHR 0x27]"

text \<open>
  \<open>human_size\<close>. The conversion to \<open>f64\<close> rounds to 53 binary digits and to even; the
  division by a power of two is exact; \<open>{:.1}\<close> rounds the exact quotient to even.
\<close>

fun bit_length :: "nat \<Rightarrow> nat" where
  "bit_length n = (if n = 0 then 0 else Suc (bit_length (n div 2)))"

declare bit_length.simps [simp del]

definition round_div :: "nat \<Rightarrow> nat \<Rightarrow> nat" where
  "round_div n d = (let q = n div d; r = n mod d in if 2 * r > d \<or> (2 * r = d \<and> odd q) then q + 1 else q)"

definition f64_of_u64 :: "nat \<Rightarrow> nat" where
  "f64_of_u64 n = (let e = bit_length n - 53 in round_div n (2 ^ e) * 2 ^ e)"

definition one_decimal :: "nat \<Rightarrow> nat \<Rightarrow> string" where
  "one_decimal n d = (let tenths = round_div (10 * n) d in show_nat (tenths div 10) @ ''.'' @ show_nat (tenths mod 10))"

definition scaled_size :: "nat \<Rightarrow> nat \<Rightarrow> string \<Rightarrow> string" where
  "scaled_size n d unit_name =
     (if f64_of_u64 n \<ge> 10 * d then show_nat (n div d) else one_decimal (f64_of_u64 n) d) @ unit_name"

definition human_size :: "u64 \<Rightarrow> string" where
  "human_size bytes =
     (let n = unat bytes in
      if n < 1024 then show_nat n @ '' B''
      else if n < 1024 ^ 2 then scaled_size n 1024 '' KiB''
      else if n < 1024 ^ 3 then scaled_size n (1024 ^ 2) '' MiB''
      else if n < 1024 ^ 4 then scaled_size n (1024 ^ 3) '' GiB''
      else one_decimal (f64_of_u64 n) (1024 ^ 4) @ '' TiB'')"

section \<open>Emitters (output.rs)\<close>

text \<open>
  The two streams of the process, as the text written so far. \<open>oe_ser\<close> is
  \<open>serde_json::to_string\<close>, which cannot fail on the records; \<open>oe_colour\<close> is the colour
  policy of the call and \<open>oe_secs\<close> its time.
\<close>

record console =
  co_out :: string
  co_err :: string

record out_env =
  oe_mode :: output_mode
  oe_secs :: u64
  oe_ser :: "json \<Rightarrow> string"
  oe_colour :: "colour \<Rightarrow> string \<Rightarrow> string"

definition out_line :: "string \<Rightarrow> console \<Rightarrow> console" where
  "out_line s c = c\<lparr>co_out := co_out c @ s @ [NL]\<rparr>"

definition err_line :: "string \<Rightarrow> console \<Rightarrow> console" where
  "err_line s c = c\<lparr>co_err := co_err c @ s @ [NL]\<rparr>"

definition write_json_line :: "out_env \<Rightarrow> json \<Rightarrow> console \<Rightarrow> console" where
  "write_json_line X event = out_line (oe_ser X event)"

definition emit_uploaded :: "out_env \<Rightarrow> string \<Rightarrow> u64 \<Rightarrow> u32 option \<Rightarrow> target_label \<Rightarrow> console \<Rightarrow> console" where
  "emit_uploaded X name bytes pct scope =
     (case oe_mode X of
        TextMode \<Rightarrow> out_line (render_uploaded (term_safe name) (human_size bytes) pct scope (oe_colour X))
      | QuietMode \<Rightarrow> out_line (term_safe name)
      | JsonMode \<Rightarrow> write_json_line X (uploaded_new (oe_secs X) name bytes pct (tl_alias scope) (tl_target scope)))"

definition emit_downloaded :: "out_env \<Rightarrow> string \<Rightarrow> u64 \<Rightarrow> target_label \<Rightarrow> console \<Rightarrow> console" where
  "emit_downloaded X name bytes scope =
     (case oe_mode X of
        TextMode \<Rightarrow> out_line (render_downloaded (term_safe name) (human_size bytes) scope (oe_colour X))
      | QuietMode \<Rightarrow> out_line (term_safe name)
      | JsonMode \<Rightarrow> write_json_line X (downloaded_new (oe_secs X) name bytes (tl_alias scope) (tl_target scope)))"

definition emit_failed_file :: "out_env \<Rightarrow> string \<Rightarrow> reason \<Rightarrow> string \<Rightarrow> target_label \<Rightarrow> console \<Rightarrow> console" where
  "emit_failed_file X name r detail scope =
     (case oe_mode X of
        TextMode \<Rightarrow> err_line (render_failed (term_safe name) (term_safe detail) (Some scope) (oe_colour X))
      | QuietMode \<Rightarrow> err_line (''failed '' @ term_safe name @ '': '' @ term_safe detail)
      | JsonMode \<Rightarrow> write_json_line X (failed_json
            (failed_for_file (oe_secs X) name r (Some detail) (tl_alias scope) (tl_target scope))))"

definition emit_failed_bare :: "out_env \<Rightarrow> reason \<Rightarrow> string option \<Rightarrow> console \<Rightarrow> console" where
  "emit_failed_bare X r detail =
     (case oe_mode X of
        TextMode \<Rightarrow> err_line (case detail of Some d \<Rightarrow> d | None \<Rightarrow> reason_as_str r)
      | QuietMode \<Rightarrow> err_line (''failed: '' @ (case detail of Some d \<Rightarrow> d | None \<Rightarrow> reason_as_str r))
      | JsonMode \<Rightarrow> write_json_line X (failed_json
            (case detail of Some d \<Rightarrow> failed_with_detail (oe_secs X) r d | None \<Rightarrow> failed_bare (oe_secs X) r)))"

definition emit_failed_alias_ambiguous :: "out_env \<Rightarrow> string list \<Rightarrow> console \<Rightarrow> console" where
  "emit_failed_alias_ambiguous X candidates =
     (if oe_mode X = JsonMode then write_json_line X (failed_json (failed_alias_ambiguous (oe_secs X) candidates))
      else err_line (''alias ambiguous; choose one of: '' @ join '', '' candidates))"

definition emit_batch_summary :: "out_env \<Rightarrow> u32 \<Rightarrow> u32 \<Rightarrow> u32 \<Rightarrow> int \<Rightarrow> console \<Rightarrow> console" where
  "emit_batch_summary X n_total ok failed code c =
     (if oe_mode X = JsonMode then write_json_line X (batch_summary_new (oe_secs X) n_total ok failed code) c else c)"

definition emit_unlocked :: "out_env \<Rightarrow> string \<Rightarrow> string \<Rightarrow> console \<Rightarrow> console" where
  "emit_unlocked X alias target =
     (case oe_mode X of
        TextMode \<Rightarrow> out_line (''unlocked '' @ middle_dot @ '' '' @ alias @ '' '' @ middle_dot @ '' '' @ target)
      | QuietMode \<Rightarrow> out_line (''unlocked '' @ alias)
      | JsonMode \<Rightarrow> write_json_line X (unlocked_new (oe_secs X) alias target))"

definition emit_locked :: "out_env \<Rightarrow> bool \<Rightarrow> console \<Rightarrow> console" where
  "emit_locked X idempotent =
     (case oe_mode X of
        TextMode \<Rightarrow> out_line (if idempotent then ''already locked'' else ''locked'')
      | QuietMode \<Rightarrow> out_line ''locked''
      | JsonMode \<Rightarrow> write_json_line X (locked_new (oe_secs X)))"

definition emit_wiped :: "out_env \<Rightarrow> console \<Rightarrow> console" where
  "emit_wiped X = (if oe_mode X = JsonMode then write_json_line X (wiped_new (oe_secs X)) else out_line ''wiped'')"

definition emit_doctor_check :: "out_env \<Rightarrow> string \<Rightarrow> bool \<Rightarrow> string option \<Rightarrow> console \<Rightarrow> console" where
  "emit_doctor_check X name ok detail =
     (let st = (if ok then ''ok'' else ''fail'') in
      case oe_mode X of
        TextMode \<Rightarrow> out_line (''  '' @ pad_right 22 name @ '' '' @ (case detail of Some d \<Rightarrow> pad_right 4 st @ '' '' @ d | None \<Rightarrow> st))
      | QuietMode \<Rightarrow> out_line (name @ '' '' @ st)
      | JsonMode \<Rightarrow> write_json_line X (doctor_check_new (oe_secs X) name ok detail))"

definition emit_doctor_summary :: "out_env \<Rightarrow> bool \<Rightarrow> string list \<Rightarrow> console \<Rightarrow> console" where
  "emit_doctor_summary X ok failed =
     (case oe_mode X of
        TextMode \<Rightarrow> out_line (if ok then ''doctor: all checks passed'' else ''doctor: failed checks: '' @ join '', '' failed)
      | QuietMode \<Rightarrow> out_line (if ok then ''ok'' else ''fail'')
      | JsonMode \<Rightarrow> write_json_line X (doctor_summary_new (oe_secs X) ok failed))"

fun file_action_static :: "file_action \<Rightarrow> string" where
  "file_action_static FileCreated = ''created''"
| "file_action_static FileUpdated = ''updated''"
| "file_action_static FileUnchanged = ''unchanged''"

fun rc_action_static :: "rc_action \<Rightarrow> string" where
  "rc_action_static RcInserted = ''inserted''"
| "rc_action_static RcUpdated = ''updated''"
| "rc_action_static RcUnchanged = ''unchanged''"
| "rc_action_static RcNotNeeded = ''not_needed''"

definition emit_completions_setup :: "out_env \<Rightarrow> install_outcome \<Rightarrow> console \<Rightarrow> console" where
  "emit_completions_setup X r c =
     (let sh = shell_as_str (io_shell r); completion_action = file_action_static (io_completion_action r);
          rc_act = rc_action_static (io_rc_action r); fw = framework_as_str (io_framework r) in
      case oe_mode X of
        TextMode \<Rightarrow>
          let c1 = out_line (''shell completion '' @ middle_dot @ '' '' @ sh @ [NL] @ ''  file  '' @ pad_right 9 completion_action
                     @ '' '' @ io_completion_path r) c;
              c2 = (case io_rc_path r of Some rc \<Rightarrow> out_line (''  rc    '' @ pad_right 9 rc_act @ '' '' @ rc) c1 | None \<Rightarrow> c1);
              c3 = (if framework_is_some (io_framework r) then out_line (''  framework detected: '' @ fw) c2 else c2)
          in (case io_hint r of Some h \<Rightarrow> out_line (arrow_right @ '' '' @ h) c3 | None \<Rightarrow> c3)
      | QuietMode \<Rightarrow> out_line (sh @ '':'' @ completion_action @ ''+'' @ rc_act) c
      | JsonMode \<Rightarrow> write_json_line X (completions_setup_new (oe_secs X) sh (io_completion_path r) completion_action
                       (io_rc_path r) rc_act fw (io_hint r)) c)"

fun status_fields :: "completions_status \<Rightarrow> string \<times> string \<times> string option" where
  "status_fields (Wired _ p rc) = (''wired'', p, rc)"
| "status_fields (NeedsRcBlock _ p rc) = (''needs_rc_block'', p, Some rc)"
| "status_fields (Missing _ p) = (''missing'', p, None)"

definition emit_completions_status :: "out_env \<Rightarrow> completions_status \<Rightarrow> console \<Rightarrow> console" where
  "emit_completions_status X s c =
     (let sh = shell_as_str (status_shell s); (status_label, completion_path, rc_path) = status_fields s in
      case oe_mode X of
        TextMode \<Rightarrow>
          let c1 = out_line (''shell completion '' @ middle_dot @ '' '' @ sh @ '' '' @ em_dash @ '' '' @ status_label) c;
              c2 = out_line (''  file  '' @ completion_path) c1;
              c3 = (case rc_path of Some rc \<Rightarrow> out_line (''  rc    '' @ rc) c2 | None \<Rightarrow> c2)
          in (if is_wired s then c3 else out_line (arrow_right @ '' run `zz --setup-completions` to fix.'') c3)
      | QuietMode \<Rightarrow> out_line (sh @ '':'' @ status_label) c
      | JsonMode \<Rightarrow> write_json_line X (completions_status_new (oe_secs X) sh (is_wired s) status_label completion_path rc_path) c)"

end
