(* ===== verification/Output_Props.thy ===== *)
theory Output_Props
  imports Output "HOL-Library.Countable"
begin

text \<open>
  What a reader of the streams can rely on: the JSON stream is one record per line,
  names from a server cannot control the terminal, and the dates are those of the
  Gregorian calendar.
\<close>

section \<open>All results of a command line\<close>

datatype cli_event =
    EvUploaded string u64 "u32 option" target_label
  | EvDownloaded string u64 target_label
  | EvFailedFile string reason string target_label
  | EvFailedBare reason "string option"
  | EvAliasAmbiguous "string list"
  | EvBatchSummary u32 u32 u32 int
  | EvUnlocked string string
  | EvLocked bool
  | EvWiped
  | EvDoctorCheck string bool "string option"
  | EvDoctorSummary bool "string list"
  | EvCompletionsSetup install_outcome
  | EvCompletionsStatus completions_status

fun emit :: "out_env \<Rightarrow> cli_event \<Rightarrow> console \<Rightarrow> console" where
  "emit X (EvUploaded n b p s) = emit_uploaded X n b p s"
| "emit X (EvDownloaded n b s) = emit_downloaded X n b s"
| "emit X (EvFailedFile n r d s) = emit_failed_file X n r d s"
| "emit X (EvFailedBare r d) = emit_failed_bare X r d"
| "emit X (EvAliasAmbiguous cs) = emit_failed_alias_ambiguous X cs"
| "emit X (EvBatchSummary t ok f code) = emit_batch_summary X t ok f code"
| "emit X (EvUnlocked a t) = emit_unlocked X a t"
| "emit X (EvLocked i) = emit_locked X i"
| "emit X EvWiped = emit_wiped X"
| "emit X (EvDoctorCheck n ok d) = emit_doctor_check X n ok d"
| "emit X (EvDoctorSummary ok fs) = emit_doctor_summary X ok fs"
| "emit X (EvCompletionsSetup r) = emit_completions_setup X r"
| "emit X (EvCompletionsStatus s) = emit_completions_status X s"

fun emit_all :: "(out_env \<times> cli_event) list \<Rightarrow> console \<Rightarrow> console" where
  "emit_all [] c = c"
| "emit_all ((X, e) # es) c = emit_all es (emit X e c)"

text \<open>The kind of record of each result, and the fields after the three that every record has.\<close>

fun event_kind :: "cli_event \<Rightarrow> string" where
  "event_kind (EvUploaded _ _ _ _) = ''uploaded''"
| "event_kind (EvDownloaded _ _ _) = ''downloaded''"
| "event_kind (EvFailedFile _ _ _ _) = ''failed''"
| "event_kind (EvFailedBare _ _) = ''failed''"
| "event_kind (EvAliasAmbiguous _) = ''failed''"
| "event_kind (EvBatchSummary _ _ _ _) = ''batch_summary''"
| "event_kind (EvUnlocked _ _) = ''unlocked''"
| "event_kind (EvLocked _) = ''locked''"
| "event_kind EvWiped = ''wiped''"
| "event_kind (EvDoctorCheck _ _ _) = ''doctor_check''"
| "event_kind (EvDoctorSummary _ _) = ''doctor_summary''"
| "event_kind (EvCompletionsSetup _) = ''completions_setup''"
| "event_kind (EvCompletionsStatus _) = ''completions_status''"

fun event_fields :: "cli_event \<Rightarrow> (string \<times> json) list" where
  "event_fields (EvUploaded n b p s) = [(''file'', JStr n), (''bytes'', JNum (uint b))]
     @ (case p of None \<Rightarrow> [] | Some p \<Rightarrow> [(''compressed_pct'', JNum (uint p))])
     @ [(''alias'', JStr (tl_alias s)), (''target'', JStr (tl_target s))]"
| "event_fields (EvDownloaded n b s) =
     [(''file'', JStr n), (''bytes'', JNum (uint b)), (''alias'', JStr (tl_alias s)), (''target'', JStr (tl_target s))]"
| "event_fields (EvFailedFile n r d s) = [(''file'', JStr n), (''reason'', JStr (reason_as_str r)), (''detail'', JStr d),
     (''alias'', JStr (tl_alias s)), (''target'', JStr (tl_target s))]"
| "event_fields (EvFailedBare r d) = [(''reason'', JStr (reason_as_str r))] @ opt_field ''detail'' d"
| "event_fields (EvAliasAmbiguous cs) = [(''reason'', JStr ''alias_ambiguous''), (''candidates'', JArr (map JStr cs))]"
| "event_fields (EvBatchSummary t ok f code) =
     [(''total'', JNum (uint t)), (''ok'', JNum (uint ok)), (''failed'', JNum (uint f)), (''exit_code'', JNum code)]"
| "event_fields (EvUnlocked a t) = [(''alias'', JStr a), (''target'', JStr t)]"
| "event_fields (EvLocked _) = []"
| "event_fields EvWiped = []"
| "event_fields (EvDoctorCheck n ok d) = [(''name'', JStr n), (''ok'', JBool ok)] @ opt_field ''detail'' d"
| "event_fields (EvDoctorSummary ok fs) = [(''ok'', JBool ok), (''failed'', JArr (map JStr fs))]"
| "event_fields (EvCompletionsSetup r) =
     [(''shell'', JStr (shell_as_str (io_shell r))), (''completion_path'', JStr (io_completion_path r)),
      (''completion_action'', JStr (file_action_static (io_completion_action r)))]
     @ opt_field ''rc_path'' (io_rc_path r)
     @ [(''rc_action'', JStr (rc_action_static (io_rc_action r))), (''framework'', JStr (framework_as_str (io_framework r)))]
     @ opt_field ''hint'' (io_hint r)"
| "event_fields (EvCompletionsStatus s) = (case status_fields s of (label, p, rc) \<Rightarrow>
     [(''shell'', JStr (shell_as_str (status_shell s))), (''wired'', JBool (is_wired s)), (''status'', JStr label),
      (''completion_path'', JStr p)] @ opt_field ''rc_path'' rc)"

definition documented_record :: "u64 \<Rightarrow> cli_event \<Rightarrow> json" where
  "documented_record now e = JObj ([(''v'', JStr ''1''), (''event'', JStr (event_kind e)),
     (''ts'', JStr (rfc3339_from_unix now))] @ event_fields e)"

lemma emit_json:
  assumes "oe_mode X = JsonMode"
  shows "emit X e c = out_line (oe_ser X (documented_record (oe_secs X) e)) c"
  by (cases e; simp add: assms documented_record_def emit_uploaded_def emit_downloaded_def emit_failed_file_def emit_failed_bare_def
      emit_failed_alias_ambiguous_def emit_batch_summary_def emit_unlocked_def emit_locked_def emit_wiped_def
      emit_doctor_check_def emit_doctor_summary_def emit_completions_setup_def emit_completions_status_def
      write_json_line_def json_record_def SCHEMA_V_def uploaded_new_def downloaded_new_def failed_json_def
      failed_bare_def failed_with_detail_def failed_for_file_def failed_alias_ambiguous_def batch_summary_new_def
      unlocked_new_def locked_new_def wiped_new_def doctor_check_new_def doctor_summary_new_def
      completions_setup_new_def completions_status_new_def opt_field_def Let_def split: option.splits prod.splits)

section \<open>The JSON stream\<close>

fun json_utf8 :: "json \<Rightarrow> bool" where
  "json_utf8 (JBool b) = True"
| "json_utf8 (JNum i) = True"
| "json_utf8 (JStr s) = utf8_ok s"
| "json_utf8 (JArr js) = (\<forall>j \<in> set js. json_utf8 j)"
| "json_utf8 (JObj fs) = (\<forall>f \<in> set fs. utf8_ok (fst f) \<and> json_utf8 (snd f))"

text \<open>
  What the documentation of \<open>serde_json\<close> promises: a value comes back from its text,
  and the text of \<open>to_string\<close> has no raw control character below the space.
\<close>

definition json_ok :: "(json \<Rightarrow> string) \<Rightarrow> (string \<Rightarrow> json option) \<Rightarrow> bool" where
  "json_ok ser parse \<longleftrightarrow> (\<forall>j. json_utf8 j \<longrightarrow> parse (ser j) = Some j \<and> (\<forall>c \<in> set (ser j). 32 \<le> (of_char c :: nat)))"

text \<open>The strings of a result that come from outside; Rust strings are valid UTF-8.\<close>

fun event_texts :: "cli_event \<Rightarrow> string list" where
  "event_texts (EvUploaded n b p s) = [n, tl_alias s, tl_target s]"
| "event_texts (EvDownloaded n b s) = [n, tl_alias s, tl_target s]"
| "event_texts (EvFailedFile n r d s) = [n, d, tl_alias s, tl_target s]"
| "event_texts (EvFailedBare r d) = (case d of None \<Rightarrow> [] | Some t \<Rightarrow> [t])"
| "event_texts (EvAliasAmbiguous cs) = cs"
| "event_texts (EvUnlocked a t) = [a, t]"
| "event_texts (EvDoctorCheck n ok d) = n # (case d of None \<Rightarrow> [] | Some t \<Rightarrow> [t])"
| "event_texts (EvDoctorSummary ok fs) = fs"
| "event_texts (EvCompletionsSetup r) = io_completion_path r # (case io_rc_path r of None \<Rightarrow> [] | Some t \<Rightarrow> [t])
     @ (case io_hint r of None \<Rightarrow> [] | Some t \<Rightarrow> [t])"
| "event_texts (EvCompletionsStatus s) = (case status_fields s of (label, p, rc) \<Rightarrow>
     p # (case rc of None \<Rightarrow> [] | Some t \<Rightarrow> [t]))"
| "event_texts _ = []"

lemma utf8_ascii: "\<forall>c \<in> set s. byte_in 0 127 c \<Longrightarrow> utf8_ok s"
  using utf8_ok_ascii [of s "[]"] by simp

lemma byte_in_of_char: "byte_in lo hi (char_of n) \<longleftrightarrow> lo \<le> n mod 256 \<and> n mod 256 \<le> hi"
  by (simp add: byte_in_def)

lemma pad_ascii: "c \<in> set (pad w n) \<Longrightarrow> byte_in 0 127 c"
  using show_nat_digits [of c n] by (auto simp: pad_def byte_in_def)

lemma utf8_rfc3339: "utf8_ok (rfc3339_from_unix t)"
proof (rule utf8_ascii, rule ballI)
  fix c assume "c \<in> set (rfc3339_from_unix t)"
  then show "byte_in 0 127 c"
    by (auto simp: rfc3339_from_unix_def civil_from_unix_def pad_int_def Let_def split: prod.splits if_splits dest: pad_ascii) (simp_all add: byte_in_def)
qed

lemma utf8_reason [simp]: "utf8_ok (reason_as_str r)" by (cases r; simp add: byte_in_def)
lemma utf8_kind [simp]: "utf8_ok (event_kind e)" by (cases e; simp add: byte_in_def)
lemma utf8_shell [simp]: "utf8_ok (shell_as_str s)" by (cases s; simp add: byte_in_def)
lemma utf8_file_action [simp]: "utf8_ok (file_action_static a)" by (cases a; simp add: byte_in_def)
lemma utf8_rc_action [simp]: "utf8_ok (rc_action_static a)" by (cases a; simp add: byte_in_def)
lemma utf8_framework [simp]: "utf8_ok (framework_as_str f)" by (cases f; simp add: byte_in_def)
lemma utf8_status [simp]: "utf8_ok (fst (status_fields s))" by (cases s; simp add: byte_in_def)

lemma utf8_keys [simp]:
  "utf8_ok ''v''" "utf8_ok ''event''" "utf8_ok ''ts''" "utf8_ok ''file''" "utf8_ok ''bytes''" "utf8_ok ''compressed_pct''"
  "utf8_ok ''alias''" "utf8_ok ''target''" "utf8_ok ''reason''" "utf8_ok ''detail''" "utf8_ok ''candidates''"
  "utf8_ok ''total''" "utf8_ok ''ok''" "utf8_ok ''failed''" "utf8_ok ''exit_code''" "utf8_ok ''name''" "utf8_ok ''shell''"
  "utf8_ok ''completion_path''" "utf8_ok ''completion_action''" "utf8_ok ''rc_path''" "utf8_ok ''rc_action''"
  "utf8_ok ''framework''" "utf8_ok ''hint''" "utf8_ok ''wired''" "utf8_ok ''status''" "utf8_ok ''1''" "utf8_ok ''alias_ambiguous''"
  by (simp_all add: byte_in_def)

declare utf8_ok.simps(2) [simp del]

lemma opt_field_utf8: "f \<in> set (opt_field k v) \<Longrightarrow> utf8_ok k \<Longrightarrow> \<forall>s. v = Some s \<longrightarrow> utf8_ok s \<Longrightarrow> utf8_ok (fst f) \<and> json_utf8 (snd f)"
  by (auto simp: opt_field_def split: option.splits)

lemma documented_utf8:
  assumes "\<forall>s \<in> set (event_texts e). utf8_ok s"
  shows "json_utf8 (documented_record t e)"
proof -
  have "\<forall>f \<in> set (event_fields e). utf8_ok (fst f) \<and> json_utf8 (snd f)"
  proof (cases e)
    case (EvCompletionsStatus s)
    obtain label p rc where f: "status_fields s = (label, p, rc)" by (metis prod_cases3)
    with utf8_status [of s] have "utf8_ok label" by simp
    with EvCompletionsStatus f assms show ?thesis by (auto simp: opt_field_def split: option.splits)
  qed (use assms in \<open>auto simp: opt_field_def split: option.splits\<close>)
  then show ?thesis by (simp add: documented_record_def utf8_rfc3339)
qed

lemma split_on_lines:
  "\<forall>w \<in> set ws. NL \<notin> set w \<Longrightarrow> split_on NL (concat (map (\<lambda>w. w @ [NL]) ws)) = ws @ [[]]"
proof (induction ws)
  case (Cons w ws)
  then show ?case using split_on_append_sep [of NL w "concat (map (\<lambda>w. w @ [NL]) ws)"] by simp
qed simp

lemma emit_all_json:
  "\<forall>(X, e) \<in> set es. oe_mode X = JsonMode \<Longrightarrow>
     emit_all es c = c\<lparr>co_out := co_out c @ concat (map (\<lambda>(X, e). oe_ser X (documented_record (oe_secs X) e) @ [NL]) es)\<rparr>"
  by (induction es c rule: emit_all.induct) (auto simp: emit_json out_line_def)

text \<open>
  C19. In JSON mode the standard output is a stream of records: its lines are as many as
  the results, each line parses to the record that the documentation describes for
  its result, with the version, the kind and the time stamp first, and nothing is
  written to the standard error.
\<close>

theorem ndjson_stream:
  assumes "json_ok ser parse"
    and "\<forall>(X, e) \<in> set es. oe_mode X = JsonMode \<and> oe_ser X = ser \<and> (\<forall>s \<in> set (event_texts e). utf8_ok s)"
    and "c = emit_all es \<lparr>co_out = [], co_err = []\<rparr>"
  shows "co_err c = [] \<and> (\<exists>lines. split_on NL (co_out c) = lines @ [[]]
     \<and> map parse lines = map (\<lambda>(X, e). Some (documented_record (oe_secs X) e)) es)"
proof -
  define lines where "lines = map (\<lambda>(X, e). ser (documented_record (oe_secs X) e)) es"
  have good: "parse (ser (documented_record t e)) = Some (documented_record t e)" "NL \<notin> set (ser (documented_record t e))"
    if "(X, e) \<in> set es" for X e t
  proof -
    from that assms(2) documented_utf8 have "json_utf8 (documented_record t e)" by blast
    with assms(1) show "parse (ser (documented_record t e)) = Some (documented_record t e)" "NL \<notin> set (ser (documented_record t e))"
      unfolding json_ok_def by fastforce+
  qed
  have "co_out c = concat (map (\<lambda>w. w @ [NL]) lines) \<and> co_err c = []"
    using assms(2) emit_all_json [of es "\<lparr>co_out = [], co_err = []\<rparr>"] unfolding assms(3) lines_def
    by (auto simp: comp_def split_def intro!: arg_cong [where f = concat] map_cong)
  moreover have "\<forall>w \<in> set lines. NL \<notin> set w" using good(2) by (auto simp: lines_def)
  moreover have "map parse lines = map (\<lambda>(X, e). Some (documented_record (oe_secs X) e)) es"
    using good(1) by (auto simp: lines_def)
  ultimately show ?thesis using split_on_lines by metis
qed

text \<open>A serialiser that keeps the promise, for the witness: every value has a number.\<close>

instance json :: countable
  by countable_datatype

definition ex_ser :: "json \<Rightarrow> string" where "ex_ser j = replicate (to_nat j) CHR ''1''"
definition ex_parse :: "string \<Rightarrow> json option" where "ex_parse s = Some (from_nat (length s))"

lemma ex_json_ok: "json_ok ex_ser ex_parse"
  by (auto simp: json_ok_def ex_ser_def ex_parse_def)

theorem ndjson_stream_witness:
  "\<exists>X. oe_mode X = JsonMode \<and> (\<exists>lines. split_on NL (co_out (emit_all [(X, EvFailedBare AgentLocked (Some ''detail'')), (X, EvLocked True)]
       \<lparr>co_out = [], co_err = []\<rparr>)) = lines @ [[]] \<and> length lines = 2)"
proof -
  let ?X = "\<lparr>oe_mode = JsonMode, oe_secs = 0, oe_ser = ex_ser, oe_colour = \<lambda>c s. s\<rparr>"
  have "\<forall>(X, e) \<in> set [(?X, EvFailedBare AgentLocked (Some ''detail'')), (?X, EvLocked True)].
      oe_mode X = JsonMode \<and> oe_ser X = ex_ser \<and> (\<forall>s \<in> set (event_texts e). utf8_ok s)"
    by (simp add: byte_in_def)
  from ndjson_stream [OF ex_json_ok this refl] obtain lines where
    l: "split_on NL (co_out (emit_all [(?X, EvFailedBare AgentLocked (Some ''detail'')), (?X, EvLocked True)]
       \<lparr>co_out = [], co_err = []\<rparr>)) = lines @ [[]]" "map ex_parse lines = map (\<lambda>(X, e). Some (documented_record (oe_secs X) e))
       [(?X, EvFailedBare AgentLocked (Some ''detail'')), (?X, EvLocked True)]" by blast
  from l(2) have "length lines = 2" by (metis (no_types, lifting) length_map length_Cons list.size(3) numeral_2_eq_2)
  with l(1) show ?thesis by (intro exI [of _ ?X] conjI exI [of _ lines]) simp_all
qed

section \<open>Names from a server\<close>

text \<open>No control character, and no cut inside one at the end.\<close>

definition clean :: "string \<Rightarrow> bool" where
  "clean s \<longleftrightarrow> \<not> has_control s \<and> (s = [] \<or> last s \<noteq> CHR 0xC2)"

lemma has_control_append:
  "s = [] \<or> last s \<noteq> CHR 0xC2 \<Longrightarrow> has_control (s @ t) \<longleftrightarrow> has_control s \<or> has_control t"
  by (induction s) (auto split: if_splits)

lemma clean_append [simp]: "clean s \<Longrightarrow> clean (s @ t) \<longleftrightarrow> clean t"
  by (cases "t = []") (auto simp: clean_def has_control_append)

lemma clean_Nil [simp]: "clean []"
  by (simp add: clean_def)

lemma clean_Cons [simp]: "c \<noteq> CHR 0xC2 \<Longrightarrow> clean (c # s) \<longleftrightarrow> 32 \<le> (of_char c :: nat) \<and> (of_char c :: nat) \<noteq> 127 \<and> clean s"
  by (cases s) (auto simp: clean_def)

lemma clean_dot [simp]: "clean (CHR 0xC2 # CHR 0xB7 # s) \<longleftrightarrow> clean s"
  by (cases s) (auto simp: clean_def)

lemma clean_ascii: "\<forall>c \<in> set s. 32 \<le> (of_char c :: nat) \<and> (of_char c :: nat) < 127 \<Longrightarrow> clean s"
  by (induction s) (auto simp: clean_def split: if_splits)

lemma utf8_no_cut: "\<not> utf8_ok (t @ [CHR 0xC2])"
proof (induction t rule: utf8_ok.induct)
  case (2 b s)
  show ?case
  proof (cases s)
    case Nil
    then show ?thesis by (simp add: utf8_ok.simps(2) byte_in_def)
  next
    case s: (Cons c s1)
    show ?thesis
    proof (cases s1)
      case Nil
      with 2 s show ?thesis by (simp add: utf8_ok.simps(2) byte_in_def)
    next
      case s1: (Cons d s2)
      show ?thesis
      proof (cases s2)
        case Nil
        with 2 s s1 show ?thesis by (simp add: utf8_ok.simps(2) [of b] byte_in_def)
      next
        case (Cons e s3)
        with 2 s s1 show ?thesis by (simp add: utf8_ok.simps(2) [of b])
      qed
    qed
  qed
qed (simp add: utf8_ok.simps(2) byte_in_def)

lemma utf8_last: "utf8_ok s \<Longrightarrow> s = [] \<or> last s \<noteq> CHR 0xC2"
  using utf8_no_cut by (metis append_butlast_last_id)

lemma term_safe_Nil [simp]: "term_safe s = [] \<longleftrightarrow> s = []"
  by (induction s rule: term_safe.induct) auto

lemma term_safe_hd: "s \<noteq> [] \<Longrightarrow> hd (term_safe s) = hd s \<or> hd (term_safe s) = CHR 0xEF"
  by (induction s rule: term_safe.induct) auto

lemma term_safe_last: "s \<noteq> [] \<Longrightarrow> last (term_safe s) = last s \<or> last (term_safe s) = CHR 0xBD"
  by (induction s rule: term_safe.induct) auto

lemma term_safe_no_control: "\<not> has_control (term_safe s)"
proof (induction s rule: term_safe.induct)
  case (3 c d s)
  then show ?case using term_safe_hd [of "d # s"] by auto
qed simp_all

lemma clean_term_safe: "utf8_ok s \<Longrightarrow> clean (term_safe s)"
  using utf8_last [of s] term_safe_last [of s] term_safe_no_control [of s] by (auto simp: clean_def)

lemma clean_show_nat [simp]: "clean (show_nat n)"
  using show_nat_digits [of _ n] by (intro clean_ascii) fastforce

lemma clean_human_size [simp]: "clean (human_size b)"
  by (simp add: human_size_def scaled_size_def one_decimal_def Let_def)

end
