(* ===== verification/Calendar.thy ===== *)
theory Calendar
  imports Output
begin

text \<open>
  The date arithmetic of the time stamps (core output/json.rs) and of the names of
  renamed files (providers/nextcloud/collision.rs) against the Gregorian calendar,
  stated by the lengths of its years and months.
\<close>

section \<open>The calendar\<close>

definition leap :: "nat \<Rightarrow> bool" where
  "leap y \<longleftrightarrow> (y mod 4 = 0 \<and> y mod 100 \<noteq> 0) \<or> y mod 400 = 0"

definition leap_day :: "nat \<Rightarrow> nat" where
  "leap_day y = (if leap y then 1 else 0)"

definition month_days :: "nat \<Rightarrow> nat \<Rightarrow> nat" where
  "month_days y m = [31, 28 + leap_day y, 31, 30, 31, 30, 31, 31, 30, 31, 30, 31] ! (m - 1)"

text \<open>The days of a date after the first of January of the year 0.\<close>

definition days_to_year :: "nat \<Rightarrow> nat" where
  "days_to_year y = (\<Sum>i < y. 365 + leap_day i)"

definition days_to_month :: "nat \<Rightarrow> nat \<Rightarrow> nat" where
  "days_to_month y m = (\<Sum>i = 1..<m. month_days y i)"

definition day_number :: "nat \<Rightarrow> nat \<Rightarrow> nat \<Rightarrow> nat" where
  "day_number y m d = days_to_year y + days_to_month y m + (d - 1)"

definition valid_date :: "nat \<Rightarrow> nat \<Rightarrow> nat \<Rightarrow> bool" where
  "valid_date y m d \<longleftrightarrow> 1 \<le> m \<and> m \<le> 12 \<and> 1 \<le> d \<and> d \<le> month_days y m"

section \<open>Years that begin in March\<close>

text \<open>The first day of the \<open>k\<close>th year of a cycle of 400, all of them beginning in March.\<close>

definition year_start :: "nat \<Rightarrow> nat" where
  "year_start k = 365 * k + k div 4 - k div 100 + k div 400"

lemma div_step: "Suc k div n = k div n + of_bool (n dvd Suc k)"
  by (simp add: div_Suc mod_eq_0_iff_dvd)

lemma leap_day_dvd: "leap_day y = of_bool (4 dvd y) - of_bool (100 dvd y) + of_bool (400 dvd y)"
proof -
  have "400 dvd y \<Longrightarrow> 100 dvd y" "100 dvd y \<Longrightarrow> 4 dvd y"
    by (erule dvd_trans [rotated], simp)+
  then show ?thesis by (cases "4 dvd y"; cases "100 dvd y"; cases "400 dvd y") (simp_all add: leap_day_def leap_def mod_eq_0_iff_dvd)
qed

lemma centuries: "k div 100 \<le> k div (4 :: nat)"
  by (rule div_le_mono2) simp_all

lemma step_sum:
  "b \<le> a \<Longrightarrow> j \<le> i \<Longrightarrow> 365 * Suc k + (a + i) - (b + j) + (c + l) = 365 * k + a - b + c + 365 + (i - j + l :: nat)"
  by simp

lemma year_start_Suc: "year_start (Suc k) = year_start k + 365 + leap_day (Suc k)"
proof -
  have "100 dvd Suc k \<Longrightarrow> 4 dvd Suc k" by (erule dvd_trans [rotated]) simp
  then have "of_bool (100 dvd Suc k) \<le> (of_bool (4 dvd Suc k) :: nat)" by simp
  then show ?thesis
    unfolding year_start_def div_step leap_day_dvd by (rule step_sum [OF centuries])
qed

lemma cycle_sum:
  "b \<le> a \<Longrightarrow> 365 * (k + 400 * e) + (a + 100 * e) - (b + 4 * e) + (c + e) = 365 * k + a - b + c + 146097 * (e :: nat)"
  by simp

lemma year_start_cycle: "year_start (k + 400 * e) = year_start k + 146097 * e"
proof -
  have d: "(k + 400 * e) div 4 = k div 4 + 100 * e" "(k + 400 * e) div 100 = k div 100 + 4 * e" "(k + 400 * e) div 400 = k div 400 + e"
    by simp_all
  show ?thesis unfolding year_start_def d by (rule cycle_sum [OF centuries])
qed

lemma days_to_year_start: "days_to_year y + 59 + leap_day y = year_start y + 60"
proof (induction y)
  case 0
  show ?case by (simp add: days_to_year_def year_start_def leap_day_def leap_def)
next
  case (Suc y)
  have "days_to_year (Suc y) = days_to_year y + 365 + leap_day y" by (simp add: days_to_year_def)
  with Suc year_start_Suc [of y] show ?case by simp
qed

section \<open>The year of a day\<close>

text \<open>The dividend of the year: a day less than 365 for every leap day that is over.\<close>

definition plain_days :: "nat \<Rightarrow> nat" where
  "plain_days n = n - n div 1460 + n div 36524 - n div 146096"

lemma plain_days_Suc: "plain_days n \<le> plain_days (Suc n)"
proof -
  have "146096 dvd Suc n \<Longrightarrow> 36524 dvd Suc n" by (erule dvd_trans [rotated]) simp
  then have "of_bool (146096 dvd Suc n) \<le> (of_bool (36524 dvd Suc n) :: nat)" by simp
  moreover have "of_bool (1460 dvd Suc n) \<le> (1 :: nat)" by simp
  moreover have "n div 1460 \<le> n" "n div 146096 \<le> n div 36524" by (rule div_le_dividend, rule div_le_mono2) simp_all
  moreover have "n - a + b - c \<le> Suc n - (a + i) + (b + j) - (c + l)" if "l \<le> j" "i \<le> 1" "a \<le> n" "c \<le> b" for a b c i j l :: nat
    using that by simp
  ultimately show ?thesis unfolding plain_days_def div_step by blast
qed

lemma plain_days_mono: "m \<le> n \<Longrightarrow> plain_days m \<le> plain_days n"
  by (rule lift_Suc_mono_le [of plain_days]) (rule plain_days_Suc)

text \<open>A year by its century, its group of four years and its place in it.\<close>

lemma year_parts:
  assumes "c < 4" and "q < 25" and "r < 4" and "k = 100 * c + 4 * q + r"
  shows "year_start k = 36524 * c + 1461 * q + 365 * r"
    and "leap_day (Suc k) = of_bool (r = 3 \<and> (q < 24 \<or> c = 3))"
proof -
  have d: "k div 4 = 25 * c + q" "k div 100 = c" "k div 400 = 0"
    using assms by (auto intro!: div_nat_eqI)
  show "year_start k = 36524 * c + 1461 * q + 365 * r" unfolding year_start_def d using assms(4) by simp
  have m: "Suc k mod 4 = 0 \<longleftrightarrow> r = 3"
  proof -
    have "Suc k = Suc r + 4 * (25 * c + q)" using assms(4) by simp
    then have "Suc k mod 4 = Suc r mod 4" by (metis mod_mult_self2)
    moreover have "Suc r mod 4 = 0 \<longleftrightarrow> r = 3" using assms(3) by (cases "r = 3") simp_all
    ultimately show ?thesis by simp
  qed
  have h: "Suc k mod 100 = 0 \<longleftrightarrow> r = 3 \<and> q = 24" "Suc k mod 400 = 0 \<longleftrightarrow> r = 3 \<and> q = 24 \<and> c = 3"
  proof -
    consider "r = 3 \<and> q = 24" | "4 * q + r + 1 < 100" using assms(2,3) by linarith
    then have "(Suc k mod 100 = 0 \<longleftrightarrow> r = 3 \<and> q = 24) \<and> (Suc k mod 400 = 0 \<longleftrightarrow> r = 3 \<and> q = 24 \<and> c = 3)"
    proof cases
      case 1
      then have "Suc k = 100 * Suc c" using assms(4) by simp
      moreover have "100 * Suc c mod 400 = 0 \<longleftrightarrow> c = 3"
      proof (cases "c = 3")
        case False
        with assms(1) have "100 * Suc c mod 400 = 100 * Suc c" by (intro mod_less) simp
        with False show ?thesis by simp
      qed simp
      ultimately show ?thesis using 1 by simp
    next
      case 2
      then have "Suc k mod 100 = 4 * q + r + 1" using assms(4) by (metis Suc_eq_plus1 add.assoc mod_less mod_mult_self4)
      moreover have "Suc k < 400" using assms(1,4) 2 by simp
      ultimately show ?thesis using 2 by auto
    qed
    then show "Suc k mod 100 = 0 \<longleftrightarrow> r = 3 \<and> q = 24" "Suc k mod 400 = 0 \<longleftrightarrow> r = 3 \<and> q = 24 \<and> c = 3" by simp_all
  qed
  show "leap_day (Suc k) = of_bool (r = 3 \<and> (q < 24 \<or> c = 3))"
    unfolding leap_day_def leap_def m h using assms(2) by auto
qed

lemma plain_days_first:
  assumes "c < 4" and "q < 25" and "r < 4"
  shows "plain_days (36524 * c + 1461 * q + 365 * r) = 365 * (100 * c + 4 * q + r)"
proof -
  have "(36524 * c + 1461 * q + 365 * r) div 1460 = 25 * c + q" "(36524 * c + 1461 * q + 365 * r) div 36524 = c"
    "(36524 * c + 1461 * q + 365 * r) div 146096 = 0"
    using assms by (auto intro!: div_nat_eqI)
  then show ?thesis by (simp add: plain_days_def)
qed

lemma plain_days_last:
  assumes "c < 4" and "q < 25" and "r < 4" and "l = of_bool (r = 3 \<and> (q < 24 \<or> c = 3))"
  shows "plain_days (36524 * c + 1461 * q + 365 * r + 364 + l) < 365 * (100 * c + 4 * q + r) + 365"
proof -
  let ?n = "36524 * c + 1461 * q + 365 * r + 364 + l"
  consider "r < 3" | "r = 3" "q < 24" | "r = 3" "q = 24" "c < 3" | "r = 3" "q = 24" "c = 3" using assms by linarith
  then show ?thesis
  proof cases
    case 1
    then have "?n div 1460 = 25 * c + q" "?n div 36524 = c" "?n div 146096 = 0"
      using assms by (auto intro!: div_nat_eqI)
    with 1 assms(4) show ?thesis by (simp add: plain_days_def)
  next
    case 2
    then have "?n div 1460 = 25 * c + q + 1" "?n div 36524 = c" "?n div 146096 = 0"
      using assms by (auto intro!: div_nat_eqI)
    with 2 assms(4) show ?thesis by (simp add: plain_days_def)
  next
    case 3
    then have "?n div 1460 = 25 * c + q + 1" "?n div 36524 = c" "?n div 146096 = 0"
      using assms by (auto intro!: div_nat_eqI)
    with 3 assms(4) show ?thesis by (simp add: plain_days_def)
  next
    case 4
    with assms(4) show ?thesis by (simp add: plain_days_def)
  qed
qed

lemma year_ok:
  assumes "k < 400"
  shows "plain_days (year_start k) div 365 = k" and "plain_days (year_start (Suc k) - 1) div 365 \<le> k"
proof -
  define c q r where "c = k div 100" and "q = k mod 100 div 4" and "r = k mod 100 mod 4"
  have "k = 100 * c + k mod 100" "k mod 100 = 4 * q + r" unfolding c_def q_def r_def by (metis mult_div_mod_eq)+
  moreover have "k mod 100 < 100" "r < 4" by (simp_all add: r_def)
  ultimately have p: "c < 4" "q < 25" "r < 4" "k = 100 * c + 4 * q + r"
    using assms by linarith+
  have s: "year_start (Suc k) - 1 = 36524 * c + 1461 * q + 365 * r + 364 + of_bool (r = 3 \<and> (q < 24 \<or> c = 3))"
    unfolding year_start_Suc year_parts [OF p] by simp
  show "plain_days (year_start k) div 365 = k"
    unfolding year_parts(1) [OF p] plain_days_first [OF p(1-3)] p(4) [symmetric] by simp
  have "plain_days (year_start (Suc k) - 1) < 365 * Suc k"
    unfolding s using plain_days_last [OF p(1-3) refl] p(4) by simp
  then show "plain_days (year_start (Suc k) - 1) div 365 \<le> k"
    using less_mult_imp_div_less [of "plain_days (year_start (Suc k) - 1)" "Suc k" 365] by (simp add: mult.commute)
qed

lemma find_interval: "T 0 = 0 \<Longrightarrow> n < T m \<Longrightarrow> \<exists>k < m. T k \<le> n \<and> n < T (Suc k)" for n :: nat
proof (induction m)
  case (Suc m)
  then show ?case by (cases "n < T m") (auto intro: less_SucI)
qed simp

lemma year_of_day:
  assumes "doe < 146097"
  obtains k where "k < 400" "plain_days doe div 365 = k" "year_start k \<le> doe" "doe < year_start k + 365 + leap_day (Suc k)"
proof -
  have "\<exists>k < 400. year_start k \<le> doe \<and> doe < year_start (Suc k)"
  proof (rule find_interval)
    show "year_start 0 = 0" "doe < year_start 400" using assms by (simp_all add: year_start_def)
  qed
  then obtain k where k: "k < 400" "year_start k \<le> doe" "doe < year_start (Suc k)" by blast
  have "plain_days (year_start k) \<le> plain_days doe" "plain_days doe \<le> plain_days (year_start (Suc k) - 1)"
    using k by (simp_all add: plain_days_mono)
  then have "plain_days doe div 365 = k"
  proof -
    note y = year_ok [OF k(1)]
    have "plain_days (year_start k) div 365 \<le> plain_days doe div 365" by (rule div_le_mono) fact
    moreover have "plain_days doe div 365 \<le> plain_days (year_start (Suc k) - 1) div 365" by (rule div_le_mono) fact
    ultimately show ?thesis using y by linarith
  qed
  with k that show thesis by (simp add: year_start_Suc)
qed

section \<open>The month of a day\<close>

lemma month_starts [simplified One_nat_def, simp]:
  "days_to_month y 1 = 0" "days_to_month y 2 = 31" "days_to_month y 3 = 59 + leap_day y" "days_to_month y 4 = 90 + leap_day y"
  "days_to_month y 5 = 120 + leap_day y" "days_to_month y 6 = 151 + leap_day y" "days_to_month y 7 = 181 + leap_day y"
  "days_to_month y 8 = 212 + leap_day y" "days_to_month y 9 = 243 + leap_day y" "days_to_month y 10 = 273 + leap_day y"
  "days_to_month y 11 = 304 + leap_day y" "days_to_month y 12 = 334 + leap_day y"
  by (simp_all add: days_to_month_def month_days_def numeral_eq_Suc atLeastLessThanSuc)

lemma leap_day_cycle: "leap_day (y + 400 * e) = leap_day y"
proof -
  have m: "(y + 400 * e) mod n = y mod n" if "400 = n * m" for n m
    unfolding that by (simp add: mult.assoc)
  have "(y + 400 * e) mod 4 = y mod 4" by (rule m [of 4 100]) simp
  moreover have "(y + 400 * e) mod 100 = y mod 100" by (rule m [of 100 4]) simp
  moreover have "(y + 400 * e) mod 400 = y mod 400" by (rule m [of 400 1]) simp
  ultimately show ?thesis by (simp only: leap_day_def leap_def)
qed

lemma month_of_day:
  assumes "doy < 365 + leap_day (Suc y)" and "mp = (5 * doy + 2) div 153" and "day = doy - (153 * mp + 2) div 5 + 1"
  shows "mp < 10 \<Longrightarrow> valid_date y (mp + 3) day \<and> day_number y (mp + 3) day = days_to_year y + leap_day y + 59 + doy"
    and "\<not> mp < 10 \<Longrightarrow> valid_date (Suc y) (mp - 9) day
           \<and> day_number (Suc y) (mp - 9) day = days_to_year y + leap_day y + 59 + doy"
proof -
  have l: "leap_day (Suc y) \<le> 1" by (simp add: leap_day_def)
  have lo: "153 * mp \<le> 5 * doy + 2" "5 * doy + 2 < 153 * mp + 153" unfolding assms(2) by simp_all
  with l assms(1) have "mp < 12" by simp
  then have "mp = 0 \<or> mp = 1 \<or> mp = 2 \<or> mp = 3 \<or> mp = 4 \<or> mp = 5 \<or> mp = 6 \<or> mp = 7 \<or> mp = 8 \<or> mp = 9 \<or> mp = 10 \<or> mp = 11"
    by presburger
  then have "(mp < 10 \<longrightarrow> valid_date y (mp + 3) day \<and> day_number y (mp + 3) day = days_to_year y + leap_day y + 59 + doy)
      \<and> (\<not> mp < 10 \<longrightarrow> valid_date (Suc y) (mp - 9) day
           \<and> day_number (Suc y) (mp - 9) day = days_to_year y + leap_day y + 59 + doy)"
    by (elim disjE) (use lo assms(1,3) in \<open>simp_all add: valid_date_def day_number_def month_starts month_days_def days_to_year_def\<close>)
  then show "mp < 10 \<Longrightarrow> valid_date y (mp + 3) day \<and> day_number y (mp + 3) day = days_to_year y + leap_day y + 59 + doy"
    and "\<not> mp < 10 \<Longrightarrow> valid_date (Suc y) (mp - 9) day
           \<and> day_number (Suc y) (mp - 9) day = days_to_year y + leap_day y + 59 + doy"
    by blast+
qed

section \<open>The dates of the program\<close>

lemma civil_correct:
  assumes "civil_from_days n = (y, m, d)"
  shows "valid_date y m d \<and> day_number y m d = n + 719528"
proof -
  define z era doe where "z = n + 719468" and "era = z div 146097" and "doe = z - era * 146097"
  have doe: "doe = z mod 146097" unfolding doe_def era_def by (simp add: minus_div_mult_eq_mod)
  then have "doe < 146097" by simp
  then obtain k where k: "k < 400" "plain_days doe div 365 = k" "year_start k \<le> doe"
    "doe < year_start k + 365 + leap_day (Suc k)" by (rule year_of_day)
  define Y doy mp day where "Y = k + 400 * era" and "doy = doe - (365 * k + k div 4 - k div 100)"
    and "mp = (5 * doy + 2) div 153" and "day = doy - (153 * mp + 2) div 5 + 1"
  have dy: "doy = doe - year_start k" using k(1) by (simp add: year_start_def doy_def)
  have "leap_day (Suc Y) = leap_day (Suc k)" using leap_day_cycle [of "Suc k" era] by (simp add: Y_def)
  then have doy: "doe = year_start k + doy" "doy < 365 + leap_day (Suc Y)"
    using k(3,4) unfolding dy by linarith+
  have "z = 146097 * era + doe" unfolding doe era_def by simp
  then have "n + 719468 = year_start Y + doy" using doy(1) by (simp add: z_def Y_def year_start_cycle)
  with days_to_year_start [of Y] have total: "days_to_year Y + leap_day Y + 59 + doy = n + 719528" by simp
  have "(y, m, d) = (k + era * 400 + (if (if mp < 10 then mp + 3 else mp - 9) \<le> 2 then 1 else 0),
      if mp < 10 then mp + 3 else mp - 9, day)"
    unfolding assms [symmetric] civil_from_days_def Let_def z_def [symmetric] era_def [symmetric] doe_def [symmetric]
      plain_days_def [symmetric] k(2) doy_def [symmetric] mp_def [symmetric] day_def [symmetric] by simp
  moreover have "mp \<le> 11" using doy(2) by (simp add: mp_def leap_day_def split: if_splits)
  ultimately show ?thesis
    using month_of_day [OF doy(2) mp_def day_def] total by (cases "mp < 10") (auto simp: Y_def add.commute mult.commute)
qed

lemma civil_steps:
  assumes "z = days + 719468" and "era = z div 146097" and "doe = z - era * 146097"
    and "yoe = (doe - doe div 1460 + doe div 36524 - doe div 146096) div 365"
    and "doy = doe - (365 * yoe + yoe div 4 - yoe div 100)" and "mp = (5 * doy + 2) div 153"
    and "day = doy - (153 * mp + 2) div 5 + 1" and "month = (if mp < 10 then mp + 3 else mp - 9)"
    and "year = yoe + era * 400 + (if month \<le> 2 then 1 else 0)"
  shows "civil_from_days days = (year, month, day)"
  unfolding assms civil_from_days_def Let_def ..

lemma epoch: "civil_from_days 0 = (1970, 1, 1)"
  by (rule civil_steps [of 719468 0 4 135080 369 306 10 1 1 1970]) simp_all

text \<open>
  C21. The time stamps are right: they show a day that exists, a time of day, and the
  seconds from the first of January 1970 up to them are the seconds they were made
  from, at least for the first billion years.
\<close>

theorem timestamp_correct:
  assumes "civil_from_unix secs = (y, m, d, h, mi, s)" and "secs < 2 ^ 55"
  shows "valid_date (nat y) m d \<and> h < 24 \<and> mi < 60 \<and> s < 60
    \<and> (day_number (nat y) m d - day_number 1970 1 1) * 86400 + h * 3600 + mi * 60 + s = unat secs"
proof -
  obtain yy where c: "civil_from_days (unat secs div 86400) = (yy, m, d)" and y: "y = sint (of_nat yy :: i32)"
    and t: "h = unat secs mod 86400 div 3600" "mi = unat secs mod 86400 div 60 mod 60" "s = unat secs mod 86400 mod 60"
    using assms(1) by (auto simp: civil_from_unix_def Let_def split: prod.splits)
  note v = civil_correct [OF c]
  have "365 * yy \<le> days_to_year yy" by (induction yy) (simp_all add: days_to_year_def)
  moreover have "days_to_year yy \<le> unat secs div 86400 + 719528" using v by (simp add: day_number_def)
  moreover have "unat secs < 2 ^ 55" using assms(2) by (simp add: word_less_nat_alt)
  ultimately have "yy < 2 ^ 31" by simp
  then have "y = int yy" unfolding y by (simp add: signed_of_nat signed_take_bit_int_eq_self)
  moreover have "day_number 1970 1 1 = 719528"
    using civil_correct [OF epoch] by simp
  moreover define t where "t = unat secs mod 86400"
  have p: "unat secs = 86400 * (unat secs div 86400) + t" "t = 60 * (t div 60) + t mod 60" "t div 60 = 60 * (t div 60 div 60) + t div 60 mod 60"
    unfolding t_def by (metis mult_div_mod_eq)+
  have "t div 60 div 60 = t div 3600" by (simp add: div_mult2_eq [symmetric])
  with p have "unat secs div 86400 * 86400 + t div 3600 * 3600 + t div 60 mod 60 * 60 + t mod 60 = unat secs" by linarith
  moreover have "t div 3600 < 24" by (simp add: less_mult_imp_div_less t_def)
  moreover have "t mod 60 < 60" "t div 60 mod 60 < 60" by simp_all
  ultimately show ?thesis using v t unfolding t_def [symmetric] by simp
qed

theorem timestamp_correct_witness:
  "valid_date 2024 2 29 \<and> (day_number 2024 2 29 - day_number 1970 1 1) * 86400 = 1709164800"
proof -
  have c: "civil_from_days 19782 = (2024, 2, 29)"
    by (rule civil_steps [of 739250 19782 5 8765 23 365 11 29 2 2024]) simp_all
  have "civil_from_unix 1709164800 = (2024, 2, 29, 0, 0, 0)"
    by (simp add: civil_from_unix_def c)
  from timestamp_correct [OF this] show ?thesis by simp
qed

end
