(* ===== verification/Upload.thy ===== *)
theory Upload
  imports Output Passphrase
begin

text \<open>
  Uploads (src/commands/upload.rs) over an arbitrary provider: single files,
  directories file by file, directories as one compressed archive. The world carries
  the regular files, the two streams, the counters and every call of
  \<open>RemoteFs::upload\<close> with what it read, where it went and what came back. The provider,
  zstd, tar and the success of local calls are parameters; so is the percentage that
  is shown after a compression, which the code computes in floating point.
\<close>

section \<open>The world of an upload\<close>

datatype node_kind = NkFile | NkDir | NkSymlink | NkOther

record upload_outcome =
  ul_final_name :: string
  ul_size :: u64
  ul_renamed :: bool

record upload_call =
  uc_local :: string
  uc_content :: "string option"
  uc_segments :: "string list"
  uc_policy :: collision_policy
  uc_answer :: "(string, upload_outcome) result"

record upload_env =
  ue_out :: "nat \<Rightarrow> out_env"
  ue_lstat :: "nat \<Rightarrow> string \<Rightarrow> (io_error, node_kind \<times> u64) result"
  ue_read :: "nat \<Rightarrow> bool"
  ue_write :: "nat \<Rightarrow> write_outcome"
  ue_remove :: "nat \<Rightarrow> bool"
  ue_msg :: "nat \<Rightarrow> string"
  ue_compress :: "string \<Rightarrow> (string, string) result"
  ue_percent :: "nat \<Rightarrow> nat \<Rightarrow> u32"
  ue_tar_append :: "string \<Rightarrow> string \<Rightarrow> string option \<Rightarrow> (string, string) result"
  ue_tar_finish :: "string \<Rightarrow> (string, string) result"
  ue_canonical :: "string \<Rightarrow> string"
  ue_remote :: "nat \<Rightarrow> string option \<Rightarrow> string list \<Rightarrow> collision_policy \<Rightarrow> (string, upload_outcome) result"

record upload_world =
  uw_files :: "string \<Rightarrow> string option"
  uw_console :: console
  uw_sum :: batch_summary
  uw_tick :: nat
  uw_calls :: "upload_call list"

definition step :: "upload_world \<Rightarrow> upload_world" where
  "step w = w\<lparr>uw_tick := uw_tick w + 1\<rparr>"

definition say :: "upload_env \<Rightarrow> (out_env \<Rightarrow> console \<Rightarrow> console) \<Rightarrow> upload_world \<Rightarrow> upload_world" where
  "say E f w = step (w\<lparr>uw_console := f (ue_out E (uw_tick w)) (uw_console w)\<rparr>)"

definition tally :: "(batch_summary \<Rightarrow> batch_summary) \<Rightarrow> upload_world \<Rightarrow> upload_world" where
  "tally f w = w\<lparr>uw_sum := f (uw_sum w)\<rparr>"

text \<open>\<open>fs::read\<close>, \<open>fs::write\<close>, \<open>fs::remove_file\<close>.\<close>

definition up_read :: "upload_env \<Rightarrow> string \<Rightarrow> upload_world \<Rightarrow> upload_world \<times> (string, string) result" where
  "up_read E p w =
     (step w, case uw_files w p of
                Some s \<Rightarrow> if ue_read E (uw_tick w) then Inr s else Inl (ue_msg E (uw_tick w))
              | None \<Rightarrow> Inl (ue_msg E (uw_tick w)))"

definition up_write :: "upload_env \<Rightarrow> string \<Rightarrow> string \<Rightarrow> upload_world \<Rightarrow> upload_world \<times> (string, unit) result" where
  "up_write E p s w =
     (case ue_write E (uw_tick w) of
        Written \<Rightarrow> (step (w\<lparr>uw_files := (uw_files w)(p \<mapsto> s)\<rparr>), Inr ())
      | Refused \<Rightarrow> (step w, Inl (ue_msg E (uw_tick w)))
      | Partial u \<Rightarrow> (step (w\<lparr>uw_files := (uw_files w)(p \<mapsto> u)\<rparr>), Inl (ue_msg E (uw_tick w))))"

definition up_remove :: "upload_env \<Rightarrow> string \<Rightarrow> upload_world \<Rightarrow> upload_world" where
  "up_remove E p w = step (if ue_remove E (uw_tick w) then w\<lparr>uw_files := (uw_files w)(p := None)\<rparr> else w)"

text \<open>\<open>RemoteFs::upload\<close>, which reads the local file.\<close>

definition remote_upload ::
  "upload_env \<Rightarrow> string \<Rightarrow> string list \<Rightarrow> collision_policy \<Rightarrow> upload_world \<Rightarrow> upload_world \<times> (string, upload_outcome) result" where
  "remote_upload E local segments policy w =
     (let content = (if ue_read E (uw_tick w) then uw_files w local else None);
          answer = ue_remote E (uw_tick w) content segments policy
      in (step (w\<lparr>uw_calls := uw_calls w @ [\<lparr>uc_local = local, uc_content = content, uc_segments = segments,
                    uc_policy = policy, uc_answer = answer\<rparr>]\<rparr>), answer))"

section \<open>Paths\<close>

text \<open>
  \<open>Path::file_name\<close> and \<open>Path::parent\<close> of any path: empty and single-dot components
  do not count, and a path that ends in two dots has no name.
\<close>

definition rust_file_name :: "string \<Rightarrow> string option" where
  "rust_file_name p =
     (let cs = filter (\<lambda>c. c \<noteq> [] \<and> c \<noteq> ''.'') (split_on CHR ''/'' p)
      in if cs = [] \<or> last cs = ''..'' then None else Some (last cs))"

function strip_tail :: "string \<Rightarrow> string" where
  "strip_tail p =
     (if 1 < length p \<and> last p = CHR ''/'' then strip_tail (butlast p)
      else if 1 < length p \<and> last p = CHR ''.'' \<and> last (butlast p) = CHR ''/'' then strip_tail (butlast p)
      else p)"
  by auto
termination by (relation "measure length") auto

declare strip_tail.simps [simp del]

definition rust_parent :: "string \<Rightarrow> string option" where
  "rust_parent p =
     (let b = strip_tail p
      in if b = [] \<or> b = ''/'' then None else Some (strip_tail (take (length b - length (file_name b)) b)))"

definition parent_or_dot :: "string \<Rightarrow> string" where
  "parent_or_dot p = (case rust_parent p of Some d \<Rightarrow> d | None \<Rightarrow> ''.'')"

section \<open>One file\<close>

definition COMPRESS_SKIP_THRESHOLD_BYTES :: u64 where "COMPRESS_SKIP_THRESHOLD_BYTES = 4 * 1024"

definition UPLOAD_DEFAULT_POLICY :: collision_policy where "UPLOAD_DEFAULT_POLICY = Rename"
definition UPLOAD_ZSTD_SUFFIX :: string where "UPLOAD_ZSTD_SUFFIX = ''.zst''"

definition remote_prefix_segments :: "string option \<Rightarrow> string list" where
  "remote_prefix_segments dest_remote =
     (case dest_remote of None \<Rightarrow> [] | Some p \<Rightarrow> filter (\<lambda>s. s \<noteq> []) (split_on CHR ''/'' p))"

definition collision_policy_for :: "plain_profile \<Rightarrow> collision_policy" where
  "collision_policy_for profile = UPLOAD_DEFAULT_POLICY"

definition profile_scope :: "plain_profile \<Rightarrow> target_label" where
  "profile_scope profile = \<lparr>tl_alias = pp_alias profile, tl_target = profile_target profile\<rparr>"

definition perform_upload ::
  "upload_env \<Rightarrow> plain_profile \<Rightarrow> string \<Rightarrow> string list \<Rightarrow> u32 option \<Rightarrow> upload_world \<Rightarrow> upload_world" where
  "perform_upload E profile local segments compression_pct w =
     (let shown = join ''/'' segments; scope = profile_scope profile in
      case remote_upload E local segments (collision_policy_for profile) w of
        (w1, Inr outcome) \<Rightarrow>
          (let w2 = say E (\<lambda>X. emit_uploaded X (ul_final_name outcome) (ul_size outcome) compression_pct scope) w1;
               w3 = (if ul_renamed outcome
                     then say E (\<lambda>X c. if oe_mode X = TextMode then out_line (''  (renamed from '' @ shown @ '')'') c else c) w2
                     else w2)
           in tally record_success w3)
      | (w1, Inl e) \<Rightarrow> tally record_failure (say E (\<lambda>X. emit_failed_file X shown ProviderError e scope) w1))"

text \<open>A local failure of one file, and a file that is not sent.\<close>

definition upload_fails :: "upload_env \<Rightarrow> plain_profile \<Rightarrow> string \<Rightarrow> string \<Rightarrow> upload_world \<Rightarrow> upload_world" where
  "upload_fails E profile shown detail w =
     tally record_failure (say E (\<lambda>X. emit_failed_file X shown Usage detail (profile_scope profile)) w)"

definition upload_skips :: "upload_env \<Rightarrow> plain_profile \<Rightarrow> string \<Rightarrow> string \<Rightarrow> upload_world \<Rightarrow> upload_world" where
  "upload_skips E profile shown detail w =
     tally record_skip (say E (\<lambda>X. emit_failed_file X shown Usage detail (profile_scope profile)) w)"

definition staging_path :: "string \<Rightarrow> string \<Rightarrow> string" where
  "staging_path local basename = path_join (parent_or_dot local) (''.zz-'' @ basename @ ''.zst.tmp'')"

definition saved_percent :: "upload_env \<Rightarrow> string \<Rightarrow> string \<Rightarrow> u32" where
  "saved_percent E plain packed = (if plain = [] then 0 else ue_percent E (length plain) (length packed))"

definition upload_one_compressed ::
  "upload_env \<Rightarrow> plain_profile \<Rightarrow> string \<Rightarrow> string \<Rightarrow> string list \<Rightarrow> upload_world \<Rightarrow> upload_world" where
  "upload_one_compressed E profile local basename prefix_segs w =
     (case up_read E local w of
        (w1, Inl e) \<Rightarrow> upload_fails E profile local (''read: '' @ e) w1
      | (w1, Inr plaintext) \<Rightarrow>
          (case ue_compress E plaintext of
             Inl e \<Rightarrow> upload_fails E profile local (''zstd: '' @ e) w1
           | Inr compressed \<Rightarrow>
               (let tmp_path = staging_path local basename in
                case up_write E tmp_path compressed w1 of
                  (w2, Inl e) \<Rightarrow> upload_fails E profile local (''stage: '' @ e) w2
                | (w2, Inr _) \<Rightarrow>
                    up_remove E tmp_path
                      (perform_upload E profile tmp_path (prefix_segs @ [basename @ UPLOAD_ZSTD_SUFFIX])
                         (Some (saved_percent E plaintext compressed)) w2))))"

definition upload_one ::
  "upload_env \<Rightarrow> plain_profile \<Rightarrow> bool \<Rightarrow> string option \<Rightarrow> string \<Rightarrow> upload_world \<Rightarrow> upload_world" where
  "upload_one E profile compress_flag dest_remote local w =
     (case rust_file_name local of
        None \<Rightarrow> upload_fails E profile local ''invalid path'' w
      | Some basename \<Rightarrow>
          if hd basename = CHR ''.'' then upload_skips E profile local ''dotfile'' w
          else case ue_lstat E (uw_tick w) local of
            Inl IoNotFound \<Rightarrow> upload_fails E profile local ''not found'' (step w)
          | Inl _ \<Rightarrow> upload_fails E profile local ''io error'' (step w)
          | Inr (NkSymlink, _) \<Rightarrow> upload_skips E profile local ''symlink'' (step w)
          | Inr (NkDir, _) \<Rightarrow> upload_skips E profile local ''is a directory'' (step w)
          | Inr (NkOther, _) \<Rightarrow> upload_skips E profile local ''not a regular file'' (step w)
          | Inr (NkFile, len) \<Rightarrow>
              (let segments = remote_prefix_segments dest_remote in
               if compress_flag \<and> COMPRESS_SKIP_THRESHOLD_BYTES \<le> len
               then upload_one_compressed E profile local basename segments (step w)
               else perform_upload E profile local (segments @ [basename]) None (step w)))"

definition upload_walk_entry :: "upload_env \<Rightarrow> plain_profile \<Rightarrow> string option \<Rightarrow> local_file \<Rightarrow> upload_world \<Rightarrow> upload_world" where
  "upload_walk_entry E profile dest_remote entry w =
     perform_upload E profile (lf_absolute entry) (remote_prefix_segments dest_remote @ lf_relative_segments entry) None w"

section \<open>The commands\<close>

definition emit_and_exit_code :: "upload_env \<Rightarrow> upload_world \<Rightarrow> upload_world \<times> int" where
  "emit_and_exit_code E w =
     (let s = uw_sum w; code = exit_code s
      in (say E (\<lambda>X. emit_batch_summary X (total_attempted s) (bs_successes s) (bs_failures s) code) w, code))"

definition run_upload ::
  "upload_env \<Rightarrow> string list \<Rightarrow> plain_profile \<Rightarrow> bool \<Rightarrow> string option \<Rightarrow> upload_world \<Rightarrow> upload_world \<times> int" where
  "run_upload E files profile compress_flag dest_remote w =
     emit_and_exit_code E (fold (upload_one E profile compress_flag dest_remote) files (w\<lparr>uw_sum := bs_default\<rparr>))"

text \<open>A failure before anything was sent, and a directory with nothing to send.\<close>

definition usage_failure :: "upload_env \<Rightarrow> string \<Rightarrow> upload_world \<Rightarrow> upload_world \<times> int" where
  "usage_failure E detail w = (say E (\<lambda>X. emit_failed_bare X Usage (Some detail)) w, EXIT_USAGE)"

definition nothing_to_do :: "upload_env \<Rightarrow> string \<Rightarrow> upload_world \<Rightarrow> upload_world \<times> int" where
  "nothing_to_do E note w =
     emit_and_exit_code E (say E (\<lambda>X c. if oe_mode X = TextMode then out_line note c else c) (w\<lparr>uw_sum := bs_default\<rparr>))"

text \<open>\<open>tar::Builder\<close>: one member after the other; the first that fails ends it.\<close>

fun tar_entries :: "upload_env \<Rightarrow> local_file list \<Rightarrow> string \<Rightarrow> upload_world \<Rightarrow> upload_world \<times> (string \<times> string, string) result" where
  "tar_entries E [] acc w = (w, Inr acc)"
| "tar_entries E (entry # entries) acc w =
     (let archive_path = join ''/'' (lf_relative_segments entry);
          content = (if ue_read E (uw_tick w) then uw_files w (lf_absolute entry) else None)
      in case ue_tar_append E acc archive_path content of
           Inl e \<Rightarrow> (step w, Inl (archive_path, e))
         | Inr acc' \<Rightarrow> tar_entries E entries acc' (step w))"

definition bundle_leaf :: "upload_env \<Rightarrow> string \<Rightarrow> string" where
  "bundle_leaf E cwd = (case rust_file_name (ue_canonical E cwd) of Some n \<Rightarrow> n | None \<Rightarrow> ''snapshot'') @ ''.tar.zst''"

definition bundle_staging :: "upload_env \<Rightarrow> string \<Rightarrow> string" where
  "bundle_staging E cwd = path_join (parent_or_dot cwd) (''.zz-'' @ bundle_leaf E cwd @ ''.tmp'')"

definition upload_bundle ::
  "upload_env \<Rightarrow> string \<Rightarrow> plain_profile \<Rightarrow> string option \<Rightarrow> nat \<Rightarrow> string \<Rightarrow> string \<Rightarrow> upload_world \<Rightarrow> upload_world \<times> int" where
  "upload_bundle E cwd profile dest_remote n tar_bytes compressed w =
     (case up_write E (bundle_staging E cwd) compressed w of
        (w1, Inl e) \<Rightarrow> usage_failure E (''stage bundle: '' @ e) w1
      | (w1, Inr _) \<Rightarrow>
          (let leaf = bundle_leaf E cwd;
               w2 = perform_upload E profile (bundle_staging E cwd) (remote_prefix_segments dest_remote @ [leaf])
                      (Some (saved_percent E tar_bytes compressed)) (w1\<lparr>uw_sum := bs_default\<rparr>);
               w3 = up_remove E (bundle_staging E cwd) w2;
               w4 = say E (\<lambda>X c. if oe_mode X = TextMode
                      then out_line (''  '' @ middle_dot @ '' bundled '' @ show_nat n @ '' files into '' @ leaf) c else c) w3
           in emit_and_exit_code E w4))"

definition run_save_all_bundle ::
  "upload_env \<Rightarrow> string \<Rightarrow> fs_node \<Rightarrow> bool \<Rightarrow> plain_profile \<Rightarrow> string option \<Rightarrow> upload_world \<Rightarrow> upload_world \<times> int" where
  "run_save_all_bundle E cwd tree recursive profile dest_remote w =
     (case walk_local cwd recursive tree of
        None \<Rightarrow> usage_failure E (''could not walk '' @ cwd @ '': '' @ ue_msg E (uw_tick w)) w
      | Some [] \<Rightarrow> nothing_to_do E ''no files to bundle'' w
      | Some entries \<Rightarrow>
          (case tar_entries E entries [] w of
             (w1, Inl (path, e)) \<Rightarrow>
               (say E (\<lambda>X. emit_failed_file X path Usage (''tar: '' @ e) (profile_scope profile)) w1, EXIT_USAGE)
           | (w1, Inr acc) \<Rightarrow>
               (case ue_tar_finish E acc of
                  Inl e \<Rightarrow> usage_failure E (''tar finalize: '' @ e) w1
                | Inr tar_bytes \<Rightarrow>
                    (case ue_compress E tar_bytes of
                       Inl e \<Rightarrow> usage_failure E (''zstd: '' @ e) w1
                     | Inr compressed \<Rightarrow> upload_bundle E cwd profile dest_remote (length entries) tar_bytes compressed w1))))"

definition run_save_all ::
  "upload_env \<Rightarrow> string \<Rightarrow> fs_node \<Rightarrow> bool \<Rightarrow> plain_profile \<Rightarrow> bool \<Rightarrow> string option \<Rightarrow> upload_world \<Rightarrow> upload_world \<times> int" where
  "run_save_all E cwd tree recursive profile compress_flag dest_remote w =
     (if compress_flag then run_save_all_bundle E cwd tree recursive profile dest_remote w
      else case walk_local cwd recursive tree of
        None \<Rightarrow> usage_failure E (''could not walk '' @ cwd @ '': '' @ ue_msg E (uw_tick w)) w
      | Some [] \<Rightarrow> nothing_to_do E ''no files to upload'' w
      | Some entries \<Rightarrow>
          emit_and_exit_code E (fold (upload_walk_entry E profile dest_remote) entries (w\<lparr>uw_sum := bs_default\<rparr>)))"

end
