(* ===== verification/Upload_Props.thy ===== *)
theory Upload_Props
  imports Upload "HOL-Library.Sublist"
begin

text \<open>
  What an upload sends. Each step is described by what it adds to the list of calls
  and to the counters, and by the local files it leaves; the commands are folds of
  such steps.
\<close>

section \<open>The effect of a step\<close>

lemma step_simps [simp]:
  "uw_files (step w) = uw_files w" "uw_console (step w) = uw_console w" "uw_sum (step w) = uw_sum w"
  "uw_calls (step w) = uw_calls w" "uw_tick (step w) = Suc (uw_tick w)"
  by (simp_all add: step_def)

lemma say_simps [simp]:
  "uw_files (say E f w) = uw_files w" "uw_sum (say E f w) = uw_sum w" "uw_calls (say E f w) = uw_calls w"
  by (simp_all add: say_def)

lemma tally_simps [simp]:
  "uw_files (tally f w) = uw_files w" "uw_sum (tally f w) = f (uw_sum w)" "uw_calls (tally f w) = uw_calls w"
  by (simp_all add: tally_def)

lemma up_remove_simps [simp]:
  "uw_sum (up_remove E p w) = uw_sum w" "uw_calls (up_remove E p w) = uw_calls w"
  "q \<noteq> p \<Longrightarrow> uw_files (up_remove E p w) q = uw_files w q"
  by (simp_all add: up_remove_def)

text \<open>The call that one upload makes.\<close>

definition the_call :: "upload_env \<Rightarrow> plain_profile \<Rightarrow> string \<Rightarrow> string list \<Rightarrow> upload_world \<Rightarrow> upload_call" where
  "the_call E profile local segments w = last (uw_calls (fst (remote_upload E local segments (collision_policy_for profile) w)))"

definition tally_call :: "upload_call \<Rightarrow> batch_summary \<Rightarrow> batch_summary" where
  "tally_call c = (case uc_answer c of Inr _ \<Rightarrow> record_success | Inl _ \<Rightarrow> record_failure)"

lemma the_call_simps [simp]:
  "uc_local (the_call E pr l segs w) = l" "uc_segments (the_call E pr l segs w) = segs"
  "uc_policy (the_call E pr l segs w) = Rename"
  by (simp_all add: the_call_def remote_upload_def Let_def collision_policy_for_def UPLOAD_DEFAULT_POLICY_def)

lemma the_call_content: "uc_content (the_call E pr l segs w) \<in> {None, uw_files w l}"
  by (simp add: the_call_def remote_upload_def Let_def)

lemma perform_upload_simps [simp]:
  "uw_files (perform_upload E pr l segs pct w) = uw_files w"
  "uw_calls (perform_upload E pr l segs pct w) = uw_calls w @ [the_call E pr l segs w]"
  "uw_sum (perform_upload E pr l segs pct w) = tally_call (the_call E pr l segs w) (uw_sum w)"
  by (auto simp: perform_upload_def the_call_def remote_upload_def tally_call_def Let_def split: sum.splits)

lemma upload_fails_simps [simp]:
  "uw_files (upload_fails E pr s d w) = uw_files w" "uw_calls (upload_fails E pr s d w) = uw_calls w"
  "uw_sum (upload_fails E pr s d w) = record_failure (uw_sum w)"
  "uw_files (upload_skips E pr s d w) = uw_files w" "uw_calls (upload_skips E pr s d w) = uw_calls w"
  "uw_sum (upload_skips E pr s d w) = record_skip (uw_sum w)"
  by (simp_all add: upload_fails_def upload_skips_def)

section \<open>Whole directories, file by file\<close>

definition answered :: "upload_call \<Rightarrow> bool" where
  "answered c \<longleftrightarrow> (\<exists>u. uc_answer c = Inr u)"

definition agrees :: "batch_summary \<Rightarrow> nat \<Rightarrow> nat \<Rightarrow> bool" where
  "agrees s ok failed \<longleftrightarrow> bs_successes s = of_nat ok \<and> bs_failures s = of_nat failed"

lemma agrees_default [simp]: "agrees bs_default 0 0"
  by (simp add: agrees_def bs_default_def)

lemma agrees_tally:
  "agrees s ok failed \<Longrightarrow>
     agrees (tally_call c s) (if answered c then Suc ok else ok) (if answered c then failed else Suc failed)"
  by (auto simp: agrees_def tally_call_def answered_def record_success_def record_failure_def split: sum.splits)

lemma agrees_exit: "agrees s ok failed \<Longrightarrow> failed < 2 ^ 32 \<Longrightarrow> exit_code s = (if failed = 0 then EXIT_OK else EXIT_PROVIDER_ERROR)"
  by (auto simp: agrees_def exit_code_def word_gt_0 word_of_nat_eq_0_iff dest: nat_dvd_not_less)

lemma emit_and_exit_code_simps [simp]:
  "uw_files (fst (emit_and_exit_code E w)) = uw_files w" "uw_calls (fst (emit_and_exit_code E w)) = uw_calls w"
  "uw_sum (fst (emit_and_exit_code E w)) = uw_sum w" "snd (emit_and_exit_code E w) = exit_code (uw_sum w)"
  by (simp_all add: emit_and_exit_code_def Let_def)

lemma emit_and_exit_codeD:
  assumes "emit_and_exit_code E w = (w', code)"
  shows "uw_files w' = uw_files w" "uw_calls w' = uw_calls w" "uw_sum w' = uw_sum w" "code = exit_code (uw_sum w)"
  using emit_and_exit_code_simps [of E w] by (simp_all add: assms)

text \<open>What one file of a walk asks of the provider.\<close>

definition walk_request :: "string option \<Rightarrow> local_file \<Rightarrow> string \<times> string list \<times> collision_policy" where
  "walk_request dest_remote e = (lf_absolute e, remote_prefix_segments dest_remote @ lf_relative_segments e, Rename)"

definition request_of :: "upload_call \<Rightarrow> string \<times> string list \<times> collision_policy" where
  "request_of c = (uc_local c, uc_segments c, uc_policy c)"

definition sent_intact :: "(string \<Rightarrow> string option) \<Rightarrow> upload_call \<Rightarrow> bool" where
  "sent_intact fs c \<longleftrightarrow> uc_content c = None \<or> uc_content c = fs (uc_local c)"

lemma fold_walk_entries:
  assumes "agrees (uw_sum w) ok failed"
  shows "\<exists>calls. uw_calls (fold (upload_walk_entry E pr dest) es w) = uw_calls w @ calls
           \<and> map request_of calls = map (walk_request dest) es
           \<and> uw_files (fold (upload_walk_entry E pr dest) es w) = uw_files w
           \<and> (\<forall>c \<in> set calls. sent_intact (uw_files w) c)
           \<and> agrees (uw_sum (fold (upload_walk_entry E pr dest) es w))
               (ok + length (filter answered calls)) (failed + length (filter (\<lambda>c. \<not> answered c) calls))"
  using assms
proof (induction es arbitrary: w ok failed)
  case Nil
  then show ?case by simp
next
  case (Cons e es)
  let ?w = "upload_walk_entry E pr dest e w"
  let ?c = "the_call E pr (lf_absolute e) (remote_prefix_segments dest @ lf_relative_segments e) w"
  have w: "uw_calls ?w = uw_calls w @ [?c]" "uw_files ?w = uw_files w" "uw_sum ?w = tally_call ?c (uw_sum w)"
    by (simp_all add: upload_walk_entry_def)
  have "request_of ?c = walk_request dest e" "sent_intact (uw_files w) ?c"
    using the_call_content [of E pr "lf_absolute e" "remote_prefix_segments dest @ lf_relative_segments e" w]
    by (auto simp: request_of_def walk_request_def sent_intact_def)
  moreover have "agrees (uw_sum ?w) (if answered ?c then Suc ok else ok) (if answered ?c then failed else Suc failed)"
    unfolding w by (rule agrees_tally) (rule Cons.prems)
  from Cons.IH [OF this] obtain calls where
    "uw_calls (fold (upload_walk_entry E pr dest) es ?w) = uw_calls ?w @ calls"
    "map request_of calls = map (walk_request dest) es"
    "uw_files (fold (upload_walk_entry E pr dest) es ?w) = uw_files ?w"
    "\<forall>c \<in> set calls. sent_intact (uw_files ?w) c"
    "agrees (uw_sum (fold (upload_walk_entry E pr dest) es ?w))
       ((if answered ?c then Suc ok else ok) + length (filter answered calls))
       ((if answered ?c then failed else Suc failed) + length (filter (\<lambda>c. \<not> answered c) calls))"
    by blast
  ultimately show ?case using w by (intro exI [of _ "?c # calls"]) (auto split: if_splits)
qed

text \<open>
  Saving a directory without the compression modifier asks the provider for
  exactly the files of the walk, in its order, each under the remote prefix followed
  by its own path below the directory, always with the renaming policy. What each call
  reads is the file as it was before the command, no local file changes, and the exit
  code is 0 exactly when every call was answered with a success.
\<close>
theorem save_all_sends_walk:
  assumes "walk_local cwd recursive tree = Some entries" "length entries < 2 ^ 32"
    and "run_save_all E cwd tree recursive profile False dest_remote w = (w', code)"
  shows "uw_files w' = uw_files w \<and> (\<exists>calls. uw_calls w' = uw_calls w @ calls
           \<and> map (\<lambda>c. (uc_local c, uc_segments c, uc_policy c)) calls =
             map (\<lambda>e. (lf_absolute e, remote_prefix_segments dest_remote @ lf_relative_segments e, Rename)) entries
           \<and> (\<forall>c \<in> set calls. uc_content c = None \<or> uc_content c = uw_files w (uc_local c))
           \<and> code = (if \<forall>c \<in> set calls. \<exists>u. uc_answer c = Inr u then EXIT_OK else EXIT_PROVIDER_ERROR))"
proof -
  let ?w = "fold (upload_walk_entry E profile dest_remote) entries (w\<lparr>uw_sum := bs_default\<rparr>)"
  have start: "agrees (uw_sum (w\<lparr>uw_sum := bs_default\<rparr>)) 0 0" by simp
  obtain calls where calls: "uw_calls ?w = uw_calls w @ calls"
      "map request_of calls = map (walk_request dest_remote) entries"
      "uw_files ?w = uw_files w" "\<forall>c \<in> set calls. sent_intact (uw_files w) c"
      "agrees (uw_sum ?w) (length (filter answered calls)) (length (filter (\<lambda>c. \<not> answered c) calls))"
    using fold_walk_entries [OF start, of E profile dest_remote entries] by auto
  have len: "length calls = length entries" using arg_cong [OF calls(2), of length] by simp
  have few: "length (filter (\<lambda>c. \<not> answered c) calls) < 2 ^ 32"
    by (rule le_less_trans [OF length_filter_le]) (simp only: len assms)
  show ?thesis
  proof (cases "entries = []")
    case True
    then show ?thesis using assms(1,3) calls
      by (auto simp: run_save_all_def nothing_to_do_def exit_code_def bs_default_def emit_and_exit_code_def Let_def)
  next
    case False
    then have "run_save_all E cwd tree recursive profile False dest_remote w = emit_and_exit_code E ?w"
      using assms(1) by (simp add: run_save_all_def split: list.splits)
    then have w': "uw_calls w' = uw_calls ?w" "uw_files w' = uw_files ?w" "code = exit_code (uw_sum ?w)"
      using assms(3) emit_and_exit_codeD [of E ?w w' code] by simp_all
    have "code = (if \<forall>c \<in> set calls. \<exists>u. uc_answer c = Inr u then EXIT_OK else EXIT_PROVIDER_ERROR)"
      unfolding w'(3) agrees_exit [OF calls(5) few] by (simp add: filter_empty_conv answered_def)
    moreover have "map (\<lambda>c. (uc_local c, uc_segments c, uc_policy c)) calls =
        map (\<lambda>e. (lf_absolute e, remote_prefix_segments dest_remote @ lf_relative_segments e, Rename)) entries"
      using calls(2) by (simp add: request_of_def [abs_def] walk_request_def [abs_def])
    moreover have "\<forall>c \<in> set calls. uc_content c = None \<or> uc_content c = uw_files w (uc_local c)"
      using calls(4) by (simp add: sent_intact_def)
    ultimately show ?thesis using calls(1,3) w'(1,2) by (intro conjI exI [of _ calls]) simp_all
  qed
qed

section \<open>Single files, compressed or not\<close>

lemma set_split_on_name:
  assumes "CHR ''/'' \<notin> set n"
  shows "split_on CHR ''/'' (d @ ''/'' @ n) = split_on CHR ''/'' d @ [n]"
proof (induction d)
  case Nil
  then show ?case using assms by simp
next
  case (Cons x d)
  then show ?case by (cases "split_on CHR ''/'' d") auto
qed

lemma rust_file_name_slash:
  assumes "CHR ''/'' \<notin> set n" "n \<noteq> []" "n \<noteq> ''.''" "n \<noteq> ''..''"
  shows "rust_file_name (d @ ''/'' @ n) = Some n" "rust_file_name n = Some n"
  using assms by (simp_all add: rust_file_name_def set_split_on_name [OF assms(1)] del: append.simps)

lemma rust_file_name_no_slash: "rust_file_name p = Some n \<Longrightarrow> CHR ''/'' \<notin> set n"
proof -
  let ?cs = "filter (\<lambda>c. c \<noteq> [] \<and> c \<noteq> ''.'') (split_on CHR ''/'' p)"
  assume "rust_file_name p = Some n"
  then have "?cs \<noteq> []" "n = last ?cs" by (auto simp: rust_file_name_def Let_def split: if_splits)
  then have "n \<in> set ?cs" using last_in_set by blast
  then show ?thesis by (auto dest: split_on_no_sep)
qed

lemma ends_with_snoc: "ends_with d c \<Longrightarrow> \<exists>d'. d = d' @ [c]"
  by (cases d rule: rev_cases) (auto simp: ends_with_def)

lemma rust_file_name_join:
  assumes "CHR ''/'' \<notin> set n" "n \<noteq> []" "n \<noteq> ''.''" "n \<noteq> ''..''"
  shows "rust_file_name (path_join d n) = Some n"
proof -
  have "hd n \<noteq> CHR ''/''" using assms(1,2) by (cases n) auto
  then show ?thesis
    using rust_file_name_slash(2) [OF assms] rust_file_name_slash(1) [OF assms]
    by (auto simp: path_join_def dest!: ends_with_snoc)
qed

text \<open>A staging file is hidden, so no command sends it under its own name.\<close>

lemma staging_name:
  "rust_file_name p = Some n \<Longrightarrow> rust_file_name (staging_path p n) = Some (''.zz-'' @ n @ ''.zst.tmp'')"
  unfolding staging_path_def by (rule rust_file_name_join) (auto dest: rust_file_name_no_slash)

text \<open>A local file system on which writing is all or nothing and removal works.\<close>

definition tidy :: "upload_env \<Rightarrow> bool" where
  "tidy E \<longleftrightarrow> (\<forall>t. ue_remove E t) \<and> (\<forall>t u. ue_write E t \<noteq> Partial u)"

text \<open>
  What becomes of one file of the command line: it is sent by a call, it fails before
  anything is sent, or it is skipped.
\<close>

datatype upload_result = SentBy upload_call | FailedLocally | SkippedFile

fun calls_of :: "upload_result \<Rightarrow> upload_call list" where
  "calls_of (SentBy c) = [c]" | "calls_of _ = []"

fun tally_result :: "upload_result \<Rightarrow> batch_summary \<Rightarrow> batch_summary" where
  "tally_result (SentBy c) = tally_call c"
| "tally_result FailedLocally = record_failure"
| "tally_result SkippedFile = record_skip"

fun accepted :: "upload_result \<Rightarrow> bool" where
  "accepted (SentBy c) = answered c" | "accepted _ = False"

fun rejected :: "upload_result \<Rightarrow> bool" where
  "rejected (SentBy c) = (\<not> answered c)" | "rejected FailedLocally = True" | "rejected SkippedFile = False"

lemma agrees_result:
  "agrees s ok failed \<Longrightarrow>
     agrees (tally_result r s) (ok + length (filter accepted [r])) (failed + length (filter rejected [r]))"
  by (cases r) (auto simp: agrees_def tally_call_def answered_def record_success_def record_failure_def record_skip_def split: sum.splits)

text \<open>
  A step for one file: what it counts and calls, and the paths at which the local files
  may differ afterwards.
\<close>

definition one_step :: "upload_env \<Rightarrow> (upload_result \<Rightarrow> bool) \<Rightarrow> string set \<Rightarrow> upload_world \<Rightarrow> upload_world \<Rightarrow> bool" where
  "one_step E P T w w' \<longleftrightarrow>
     (\<exists>r. uw_calls w' = uw_calls w @ calls_of r \<and> uw_sum w' = tally_result r (uw_sum w) \<and> P r)
     \<and> (\<forall>p. p \<notin> T \<longrightarrow> uw_files w' p = uw_files w p)
     \<and> (tidy E \<longrightarrow> (\<forall>p. uw_files w' p \<in> {uw_files w p, None}))"

text \<open>The contents that a call reads are those of its file, unless reading fails.\<close>

definition read_as :: "upload_env \<Rightarrow> string option \<Rightarrow> upload_call \<Rightarrow> bool" where
  "read_as E s c \<longleftrightarrow> uc_content c = s \<or> uc_content c = None \<and> (\<exists>t. \<not> ue_read E t)"

lemma the_call_reads: "read_as E (uw_files w l) (the_call E pr l segs w)"
  by (auto simp: read_as_def the_call_def remote_upload_def Let_def)

definition staged_call :: "upload_env \<Rightarrow> (string \<Rightarrow> string option) \<Rightarrow> string \<Rightarrow> string \<Rightarrow> string list \<Rightarrow> upload_call \<Rightarrow> bool" where
  "staged_call E fs l n segs c \<longleftrightarrow>
     (\<exists>s z. fs l = Some s \<and> ue_compress E s = Inr z \<and> read_as E (Some z) c)
     \<and> uc_local c = staging_path l n \<and> uc_segments c = segs @ [n @ ''.zst''] \<and> uc_policy c = Rename"

definition packing_fails :: "upload_env \<Rightarrow> (string \<Rightarrow> string option) \<Rightarrow> string \<Rightarrow> bool" where
  "packing_fails E fs l \<longleftrightarrow> fs l = None \<or> (\<exists>t. \<not> ue_read E t) \<or> (\<exists>s e. fs l = Some s \<and> ue_compress E s = Inl e)
     \<or> (\<exists>t. ue_write E t \<noteq> Written)"

fun packed_fate :: "upload_env \<Rightarrow> (string \<Rightarrow> string option) \<Rightarrow> string \<Rightarrow> string \<Rightarrow> string list \<Rightarrow> upload_result \<Rightarrow> bool" where
  "packed_fate E fs l n segs (SentBy c) = staged_call E fs l n segs c"
| "packed_fate E fs l n segs FailedLocally = packing_fails E fs l"
| "packed_fate E fs l n segs SkippedFile = False"

lemma one_step_fails:
  "P FailedLocally \<Longrightarrow> one_step E P T w (upload_fails E pr s d w)" "P FailedLocally \<Longrightarrow> one_step E P T w (upload_fails E pr s d (step w))"
  "P SkippedFile \<Longrightarrow> one_step E P T w (upload_skips E pr s d w)" "P SkippedFile \<Longrightarrow> one_step E P T w (upload_skips E pr s d (step w))"
  unfolding one_step_def by (auto intro: exI [of _ FailedLocally] exI [of _ SkippedFile])

lemma up_read_simps: "up_read E p w = (step w, r) \<Longrightarrow> r = Inr s \<Longrightarrow> uw_files w p = Some s"
  by (auto simp: up_read_def split: option.splits if_splits)

lemma fst_up_read: "fst (up_read E p w) = step w"
  by (simp add: up_read_def)

lemma up_write_effect:
  assumes "up_write E p s w = (w', r)"
  shows "uw_calls w' = uw_calls w" "uw_sum w' = uw_sum w" "q \<noteq> p \<Longrightarrow> uw_files w' q = uw_files w q"
    "r = Inr () \<Longrightarrow> uw_files w' = (uw_files w)(p \<mapsto> s)" "tidy E \<Longrightarrow> r = Inl e \<Longrightarrow> uw_files w' = uw_files w"
  using assms by (auto simp: up_write_def tidy_def split: write_outcome.splits)

lemma up_write_fails: "up_write E p s w = (w', Inl e) \<Longrightarrow> \<exists>t. ue_write E t \<noteq> Written"
  by (rule exI [of _ "uw_tick w"]) (auto simp: up_write_def split: write_outcome.splits)

lemma up_read_fails: "up_read E p w = (w', Inl e) \<Longrightarrow> uw_files w p = None \<or> (\<exists>t. \<not> ue_read E t)"
  by (auto simp: up_read_def split: option.splits if_splits)

lemma compressed_step:
  "one_step E (packed_fate E (uw_files w) l n segs) {staging_path l n} w (upload_one_compressed E pr l n segs w)"
proof (cases "up_read E l w")
  case (Pair w1 r)
  have w1: "w1 = step w" using fst_up_read [of E l w] Pair by simp
  show ?thesis
  proof (cases r)
    case (Inl e)
    then have "packing_fails E (uw_files w) l" using Pair up_read_fails [of E l w] by (auto simp: packing_fails_def)
    then show ?thesis using Pair Inl by (simp add: upload_one_compressed_def w1 one_step_fails)
  next
    case s: (Inr s)
    with Pair w1 have fs: "uw_files w l = Some s" using up_read_simps by blast
    show ?thesis
    proof (cases "ue_compress E s")
      case (Inl e)
      then have "packing_fails E (uw_files w) l" using fs by (auto simp: packing_fails_def)
      then show ?thesis using Pair s Inl by (simp add: upload_one_compressed_def w1 one_step_fails)
    next
      case z: (Inr z)
      obtain w2 r2 where wr: "up_write E (staging_path l n) z w1 = (w2, r2)" by (cases "up_write E (staging_path l n) z w1")
      note eff = up_write_effect [OF wr]
      show ?thesis
      proof (cases r2)
        case (Inl e)
        then have "packing_fails E (uw_files w) l" using up_write_fails wr by (auto simp: packing_fails_def)
        then show ?thesis using Pair s z wr Inl eff
          by (auto simp: upload_one_compressed_def one_step_def w1 intro!: exI [of _ FailedLocally])
      next
        case (Inr u)
        let ?t = "staging_path l n"
        let ?c = "the_call E pr ?t (segs @ [n @ ''.zst'']) w2"
        let ?p = "perform_upload E pr ?t (segs @ [n @ ''.zst'']) (Some (saved_percent E s z)) w2"
        have eq: "upload_one_compressed E pr l n segs w = up_remove E ?t ?p"
          using Pair s z wr Inr by (simp add: upload_one_compressed_def UPLOAD_ZSTD_SUFFIX_def Let_def)
        have files: "uw_files w2 = (uw_files w)(?t \<mapsto> z)" using eff(4) Inr w1 by simp
        have "staged_call E (uw_files w) l n segs ?c"
          using the_call_reads [of E w2 ?t pr "segs @ [n @ ''.zst'']"] fs z by (simp add: staged_call_def files)
        moreover have "tidy E \<Longrightarrow> uw_files (up_remove E ?t ?p) = (uw_files w)(?t := None)"
          by (auto simp: up_remove_def tidy_def files)
        ultimately show ?thesis unfolding eq one_step_def
          using eff(1,2) w1 by (auto simp: files intro!: exI [of _ "SentBy ?c"])
      qed
    qed
  qed
qed

lemma one_step_mono: "one_step E P T w w' \<Longrightarrow> (\<And>r. P r \<Longrightarrow> Q r) \<Longrightarrow> T \<subseteq> U \<Longrightarrow> one_step E Q U w w'"
  unfolding one_step_def by blast

lemma one_step_start: "one_step E P T (step w) w' = one_step E P T w w'"
  by (simp add: one_step_def)

text \<open>
  What may become of a file of the command line: a regular file with a name that does not
  start with a dot is sent, whole or, with the compression modifier and from a certain
  size on, compressed; only what is no such file is skipped; and a failure has a reason.
\<close>

fun upload_fate :: "upload_env \<Rightarrow> bool \<Rightarrow> string option \<Rightarrow> (string \<Rightarrow> string option) \<Rightarrow> string \<Rightarrow> upload_result \<Rightarrow> bool" where
  "upload_fate E compress_flag dest_remote fs f (SentBy c) =
     (\<exists>n t len. rust_file_name f = Some n \<and> hd n \<noteq> CHR ''.'' \<and> ue_lstat E t f = Inr (NkFile, len)
        \<and> (if compress_flag \<and> COMPRESS_SKIP_THRESHOLD_BYTES \<le> len then staged_call E fs f n (remote_prefix_segments dest_remote) c
           else uc_local c = f \<and> uc_segments c = remote_prefix_segments dest_remote @ [n] \<and> uc_policy c = Rename \<and> read_as E (fs f) c))"
| "upload_fate E compress_flag dest_remote fs f SkippedFile =
     ((\<exists>n. rust_file_name f = Some n \<and> hd n = CHR ''.'') \<or> (\<exists>t k len. ue_lstat E t f = Inr (k, len) \<and> k \<noteq> NkFile))"
| "upload_fate E compress_flag dest_remote fs f FailedLocally =
     (rust_file_name f = None \<or> (\<exists>t e. ue_lstat E t f = Inl e)
      \<or> compress_flag \<and> (\<exists>n. rust_file_name f = Some n \<and> hd n \<noteq> CHR ''.'') \<and> packing_fails E fs f)"

definition staging_of :: "bool \<Rightarrow> string \<Rightarrow> string set" where
  "staging_of compress_flag f = {staging_path f n | n. compress_flag \<and> rust_file_name f = Some n}"

lemma upload_one_step:
  "one_step E (upload_fate E cf dest (uw_files w) f) (staging_of cf f) w (upload_one E pr cf dest f w)"
proof (cases "rust_file_name f")
  case None
  then show ?thesis by (simp add: upload_one_def one_step_fails)
next
  case n: (Some n)
  let ?segs = "remote_prefix_segments dest"
  show ?thesis
  proof (cases "hd n = CHR ''.''")
    case True
    then show ?thesis by (simp add: upload_one_def n one_step_fails)
  next
    case False
    show ?thesis
    proof (cases "ue_lstat E (uw_tick w) f")
      case (Inl e)
      then have "\<exists>t e. ue_lstat E t f = Inl e" by blast
      then show ?thesis using Inl by (cases e) (simp_all add: upload_one_def n False one_step_fails)
    next
      case (Inr x)
      obtain k len where x: "x = (k, len)" by (cases x)
      have skip: "\<exists>t k len. ue_lstat E t f = Inr (k, len) \<and> k \<noteq> NkFile" if "k \<noteq> NkFile" using Inr x that by blast
      have plain: "one_step E (upload_fate E cf dest (uw_files w) f) (staging_of cf f) w
          (perform_upload E pr f (?segs @ [n]) None (step w))"
        if "k = NkFile" "\<not> (cf \<and> COMPRESS_SKIP_THRESHOLD_BYTES \<le> len)"
      proof -
        let ?c = "the_call E pr f (?segs @ [n]) (step w)"
        have "upload_fate E cf dest (uw_files w) f (SentBy ?c)"
          using the_call_reads [of E "step w" f pr "?segs @ [n]"] that n False Inr x by auto
        then show ?thesis by (auto simp: one_step_def simp del: upload_fate.simps intro!: exI [of _ "SentBy ?c"])
      qed
      have packed: "one_step E (upload_fate E cf dest (uw_files w) f) (staging_of cf f) w
          (upload_one_compressed E pr f n ?segs (step w))"
        if "k = NkFile" "cf \<and> COMPRESS_SKIP_THRESHOLD_BYTES \<le> len"
      proof (rule one_step_mono [OF compressed_step [of E "step w" f n ?segs pr, unfolded one_step_start]])
        show "upload_fate E cf dest (uw_files w) f r" if "packed_fate E (uw_files (step w)) f n ?segs r" for r
          using that \<open>k = NkFile\<close> \<open>cf \<and> _\<close> n False Inr x by (cases r) auto
        show "{staging_path f n} \<subseteq> staging_of cf f" using that n by (simp add: staging_of_def)
      qed
      show ?thesis using Inr x skip plain packed by (cases k) (auto simp: upload_one_def n False Let_def one_step_fails)
    qed
  qed
qed

text \<open>What becomes of a file depends on that file only, which no staging replaces.\<close>

lemma upload_fate_cong:
  assumes "upload_fate E cf dest fs f r" "\<forall>n. rust_file_name f = Some n \<and> hd n \<noteq> CHR ''.'' \<longrightarrow> fs f = fs' f"
  shows "upload_fate E cf dest fs' f r"
  using assms
proof (cases r)
  case (SentBy c)
  then show ?thesis using assms by (auto simp: staged_call_def split: if_splits)
next
  case FailedLocally
  then show ?thesis using assms by (auto simp: packing_fails_def)
qed simp

lemma not_staged:
  assumes "rust_file_name f = Some n" "hd n \<noteq> CHR ''.''"
  shows "f \<notin> staging_of cf g"
proof
  assume "f \<in> staging_of cf g"
  then obtain m where "f = staging_path g m" "rust_file_name g = Some m" by (auto simp: staging_of_def)
  with staging_name [of g m] assms show False by auto
qed

lemma fold_upload_one:
  assumes "\<forall>f \<in> set files. staging_of cf f \<subseteq> S" "\<forall>f n. rust_file_name f = Some n \<and> hd n \<noteq> CHR ''.'' \<longrightarrow> f \<notin> S"
    and "\<forall>p. p \<notin> S \<longrightarrow> uw_files w p = fs p" "tidy E \<longrightarrow> (\<forall>p. uw_files w p \<in> {fs p, None})"
    and "agrees (uw_sum w) ok failed"
  shows "\<exists>res. list_all2 (upload_fate E cf dest fs) files res
           \<and> uw_calls (fold (upload_one E pr cf dest) files w) = uw_calls w @ concat (map calls_of res)
           \<and> (\<forall>p. p \<notin> S \<longrightarrow> uw_files (fold (upload_one E pr cf dest) files w) p = fs p)
           \<and> (tidy E \<longrightarrow> (\<forall>p. uw_files (fold (upload_one E pr cf dest) files w) p \<in> {fs p, None}))
           \<and> agrees (uw_sum (fold (upload_one E pr cf dest) files w)) (ok + length (filter accepted res)) (failed + length (filter rejected res))"
  using assms(1,3-5)
proof (induction files arbitrary: w ok failed)
  case Nil
  then show ?case by (intro exI [of _ "[]"]) simp
next
  case (Cons f files)
  let ?w = "upload_one E pr cf dest f w"
  have st: "one_step E (upload_fate E cf dest (uw_files w) f) (staging_of cf f) w ?w" by (rule upload_one_step)
  have S: "staging_of cf f \<subseteq> S" "\<forall>g \<in> set files. staging_of cf g \<subseteq> S" using Cons.prems(1) by auto
  have files: "\<forall>p. p \<notin> S \<longrightarrow> uw_files ?w p = fs p" using st S Cons.prems(2) by (auto simp: one_step_def)
  have tidy: "tidy E \<longrightarrow> (\<forall>p. uw_files ?w p \<in> {fs p, None})"
  proof (intro impI allI)
    fix p assume t: "tidy E"
    have "uw_files ?w p \<in> {uw_files w p, None}" using st t by (simp add: one_step_def)
    moreover have "uw_files w p \<in> {fs p, None}" using Cons.prems(3) t by simp
    ultimately show "uw_files ?w p \<in> {fs p, None}" by auto
  qed
  from st obtain r where r: "uw_calls ?w = uw_calls w @ calls_of r" "uw_sum ?w = tally_result r (uw_sum w)"
    "upload_fate E cf dest (uw_files w) f r" by (auto simp: one_step_def)
  have fate: "upload_fate E cf dest fs f r" using upload_fate_cong [OF r(3)] assms(2) Cons.prems(2) by blast
  from Cons.IH [OF S(2) files tidy agrees_result [OF Cons.prems(4), of r, folded r(2)]] obtain res where rest:
      "list_all2 (upload_fate E cf dest fs) files res"
      "uw_calls (fold (upload_one E pr cf dest) files ?w) = uw_calls ?w @ concat (map calls_of res)"
      "\<forall>p. p \<notin> S \<longrightarrow> uw_files (fold (upload_one E pr cf dest) files ?w) p = fs p"
      "tidy E \<longrightarrow> (\<forall>p. uw_files (fold (upload_one E pr cf dest) files ?w) p \<in> {fs p, None})"
      "agrees (uw_sum (fold (upload_one E pr cf dest) files ?w)) (ok + length (filter accepted [r]) + length (filter accepted res))
         (failed + length (filter rejected [r]) + length (filter rejected res))" by blast
  show ?case using rest(1,3-5) fate
    by (intro exI [of _ "r # res"]) (simp add: rest(2) r(1) add.assoc [symmetric] split: if_splits)
qed

text \<open>
  C22. An upload of named files deals with each of them once, in the order of the
  arguments. A regular file whose name does not start with a dot is sent by one call, with
  the renaming policy and below the remote prefix: under its own name with its contents as
  they were before the command, or, with the compression modifier and from 4 KiB on, under
  its name with the suffix \<open>.zst\<close> with the compression of those contents, from a hidden
  staging file. Nothing else is sent. Only dotfiles and what is no regular file are
  skipped, and a file fails before it is sent only for a path without a name, an error of
  the file system or of the compression. The exit code is 0 exactly if no file failed and
  every call was answered with a success. No other local file than a staging file differs
  afterwards, and when removal works and writes are all or nothing none of those is left.
\<close>
theorem upload_sends_originals:
  assumes "length files < 2 ^ 32" "run_upload E files profile compress_flag dest_remote w = (w', code)"
  shows "\<exists>res. list_all2 (upload_fate E compress_flag dest_remote (uw_files w)) files res
           \<and> uw_calls w' = uw_calls w @ concat (map calls_of res)
           \<and> (code = EXIT_OK \<longleftrightarrow> (\<forall>r \<in> set res. \<not> rejected r))
           \<and> (\<forall>p. (\<forall>f n. f \<in> set files \<longrightarrow> rust_file_name f = Some n \<longrightarrow> p \<noteq> staging_path f n) \<longrightarrow> uw_files w' p = uw_files w p)
           \<and> ((\<forall>t. ue_remove E t) \<and> (\<forall>t u. ue_write E t \<noteq> Partial u) \<longrightarrow> (\<forall>p. uw_files w' p \<in> {uw_files w p, None}))"
proof -
  let ?S = "\<Union>f \<in> set files. staging_of compress_flag f"
  let ?v = "w\<lparr>uw_sum := bs_default\<rparr>"
  let ?w = "fold (upload_one E profile compress_flag dest_remote) files ?v"
  have start: "\<forall>f \<in> set files. staging_of compress_flag f \<subseteq> ?S"
      "\<forall>f n. rust_file_name f = Some n \<and> hd n \<noteq> CHR ''.'' \<longrightarrow> f \<notin> ?S"
      "\<forall>p. p \<notin> ?S \<longrightarrow> uw_files ?v p = uw_files w p"
      "tidy E \<longrightarrow> (\<forall>p. uw_files ?v p \<in> {uw_files w p, None})" "agrees (uw_sum ?v) 0 0"
    by (blast, simp add: not_staged, simp_all)
  from fold_upload_one [OF start, of dest_remote profile] obtain res where c:
      "list_all2 (upload_fate E compress_flag dest_remote (uw_files w)) files res"
      "uw_calls ?w = uw_calls ?v @ concat (map calls_of res)" "\<forall>p. p \<notin> ?S \<longrightarrow> uw_files ?w p = uw_files w p"
      "tidy E \<longrightarrow> (\<forall>p. uw_files ?w p \<in> {uw_files w p, None})"
      "agrees (uw_sum ?w) (0 + length (filter accepted res)) (0 + length (filter rejected res))"
    by blast
  have w': "uw_files w' = uw_files ?w" "uw_calls w' = uw_calls ?w" "code = exit_code (uw_sum ?w)"
    using assms(2) emit_and_exit_codeD [of E ?w w' code] by (simp_all add: run_upload_def)
  have "0 + length (filter rejected res) < 2 ^ 32"
    using assms(1) length_filter_le [of rejected res] list_all2_lengthD [OF c(1)] by linarith
  from agrees_exit [OF c(5) this] have code: "code = EXIT_OK \<longleftrightarrow> (\<forall>r \<in> set res. \<not> rejected r)"
    using w'(3) by (auto simp: EXIT_OK_def EXIT_PROVIDER_ERROR_def filter_empty_conv split: if_splits)
  have files: "uw_files w' p = uw_files w p"
    if "\<forall>f n. f \<in> set files \<longrightarrow> rust_file_name f = Some n \<longrightarrow> p \<noteq> staging_path f n" for p
  proof -
    have "p \<notin> ?S" using that by (auto simp: staging_of_def)
    then show ?thesis using c(3) w'(1) by (simp del: UN_iff)
  qed
  have tidy: "(\<forall>t. ue_remove E t) \<and> (\<forall>t u. ue_write E t \<noteq> Partial u) \<longrightarrow> (\<forall>p. uw_files w' p \<in> {uw_files w p, None})"
    using c(4) w'(1) by (simp add: tidy_def)
  show ?thesis
    by (rule exI [of _ res], intro conjI) (rule c(1), use c(2) w'(2) in simp, rule code, use files in blast, rule tidy)
qed

section \<open>A directory and a provider\<close>

text \<open>
  Two files and a hidden one. The provider refuses names that begin with \<open>b\<close>; the compression is
  one byte in front of the contents.
\<close>

definition example_profile :: plain_profile where
  "example_profile = \<lparr>pp_profile_version = 1, pp_profile_id = ''p'', pp_alias = ''a'', pp_default_target = ''t'',
     pp_providers = [], pp_collision_policy = Fail, pp_settings = default_settings, pp_created_at = [], pp_updated_at = []\<rparr>"

definition example_env :: upload_env where
  "example_env = \<lparr>ue_out = (\<lambda>t. \<lparr>oe_mode = QuietMode, oe_secs = 0, oe_ser = (\<lambda>j. []), oe_colour = (\<lambda>k s. s)\<rparr>),
     ue_lstat = (\<lambda>t p. Inr (NkFile, 5000)), ue_read = (\<lambda>t. True), ue_write = (\<lambda>t. Written), ue_remove = (\<lambda>t. True),
     ue_msg = (\<lambda>t. []), ue_compress = (\<lambda>s. Inr (CHR ''z'' # s)), ue_percent = (\<lambda>m n. 0),
     ue_tar_append = (\<lambda>acc p c. Inr acc), ue_tar_finish = Inr, ue_canonical = (\<lambda>p. p),
     ue_remote = (\<lambda>t c segs pol. if hd (last segs) = CHR ''b'' then Inl ''refused''
                     else Inr \<lparr>ul_final_name = last segs, ul_size = 1, ul_renamed = False\<rparr>)\<rparr>"

definition example_world :: upload_world where
  "example_world = \<lparr>uw_files = [''d/a'' \<mapsto> ''x'', ''d/b'' \<mapsto> ''y''], uw_console = \<lparr>co_out = [], co_err = []\<rparr>,
     uw_sum = bs_default, uw_tick = 0, uw_calls = []\<rparr>"

lemmas upload_eval = example_profile_def example_env_def example_world_def run_upload_def run_save_all_def upload_one_def
  upload_one_compressed_def upload_walk_entry_def perform_upload_def remote_upload_def upload_fails_def upload_skips_def
  up_read_def up_write_def up_remove_def emit_and_exit_code_def say_def tally_def step_def staging_path_def
  rust_file_name_def parent_or_dot_def rust_parent_def file_name_def path_join_def ends_with_def
  remote_prefix_segments_def collision_policy_for_def UPLOAD_DEFAULT_POLICY_def UPLOAD_ZSTD_SUFFIX_def
  COMPRESS_SKIP_THRESHOLD_BYTES_def saved_percent_def profile_scope_def profile_target_def bs_default_def
  record_success_def record_failure_def record_skip_def exit_code_def exit_defs Let_def strip_tail.simps

lemma example_upload:
  "map (\<lambda>c. (uc_segments c, uc_content c)) (uw_calls (fst (run_upload example_env [''d/a'', ''d/.h'', ''d/b''] example_profile True
     (Some ''up//x'') example_world))) = [([''up'', ''x'', ''a.zst''], Some ''zx''), ([''up'', ''x'', ''b.zst''], Some ''zy'')]"
  "snd (run_upload example_env [''d/a'', ''d/.h'', ''d/b''] example_profile True (Some ''up//x'') example_world) = EXIT_PROVIDER_ERROR"
  by (simp_all add: upload_eval)

theorem upload_sends_originals_witness:
  "\<exists>res. list_all2 (upload_fate example_env True (Some ''up//x'') (uw_files example_world)) [''d/a'', ''d/.h'', ''d/b''] res
     \<and> map (\<lambda>c. (uc_segments c, uc_content c)) (concat (map calls_of res))
         = [([''up'', ''x'', ''a.zst''], Some ''zx''), ([''up'', ''x'', ''b.zst''], Some ''zy'')]
     \<and> (\<exists>r \<in> set res. rejected r)"
proof -
  let ?run = "run_upload example_env [''d/a'', ''d/.h'', ''d/b''] example_profile True (Some ''up//x'') example_world"
  have len: "length [''d/a'', ''d/.h'', ''d/b''] < 2 ^ 32" by simp
  obtain w' where r: "?run = (w', EXIT_PROVIDER_ERROR)" using example_upload(2) by (metis prod.collapse)
  have "uw_calls example_world = []" by (simp add: example_world_def)
  with upload_sends_originals [OF len r] example_upload(1) r show ?thesis
    by (auto simp: EXIT_OK_def EXIT_PROVIDER_ERROR_def)
qed

theorem save_all_sends_walk_witness:
  "uw_files (fst (run_save_all example_env ''d'' (FDir (Some [Some (Some ''b'', FFile), Some (Some ''a'', FFile)])) True example_profile
     False (Some ''up'') example_world)) = uw_files example_world
   \<and> map uc_segments (uw_calls (fst (run_save_all example_env ''d'' (FDir (Some [Some (Some ''b'', FFile), Some (Some ''a'', FFile)])) True
     example_profile False (Some ''up'') example_world))) = [[''up'', ''a''], [''up'', ''b'']]"
proof -
  let ?t = "FDir (Some [Some (Some ''b'', FFile), Some (Some ''a'', FFile)])"
  have w: "walk_local ''d'' True ?t = Some [\<lparr>lf_absolute = ''d/a'', lf_relative_segments = [''a'']\<rparr>,
         \<lparr>lf_absolute = ''d/b'', lf_relative_segments = [''b'']\<rparr>]"
    unfolding walk_local_def by (simp add: path_join_def ends_with_def less_char_def List_Lexorder.list_less_def)
  have "map uc_segments (uw_calls (fst (run_save_all example_env ''d'' ?t True example_profile False (Some ''up'') example_world)))
      = [[''up'', ''a''], [''up'', ''b'']]"
    by (simp add: w upload_eval)
  moreover have "uw_files (fst (run_save_all example_env ''d'' ?t True example_profile False (Some ''up'') example_world)) = uw_files example_world"
    using save_all_sends_walk [OF w, of example_env example_profile "Some ''up''" example_world, OF _ prod.collapse [symmetric]] by simp
  ultimately show ?thesis by simp
qed

end
