(* ===== verification/Http.thy ===== *)
theory Http
  imports Disk "HOL-Library.Sublist"
begin

text \<open>
  What every provider client uses of HTTP (core/src/http/mod.rs, http/tls_error.rs):
  which roots a connection trusts, the configuration of the agent, and how an error
  of the \<open>ureq\<close> crate reads. The crate, its error texts and the PEM parser are
  parameters. Requests are kept in a log; the answer to one may depend on all before it.
\<close>

section \<open>Trusted roots (http/mod.rs)\<close>

datatype root_certs = PlatformVerifier | OnlyRoots "string list"

datatype ssl_cert_file = CertUnset | Certs "string list" | Unusable

datatype pem_item = PemCertificate string | PemOther

definition certs_from_pem :: "(string \<Rightarrow> (string, pem_item) result list) \<Rightarrow> string \<Rightarrow> ssl_cert_file" where
  "certs_from_pem parse_pem bytes =
     (let certs = List.map_filter (\<lambda>i. case i of Inr (PemCertificate c) \<Rightarrow> Some c | _ \<Rightarrow> None) (parse_pem bytes)
      in if certs = [] then Unusable else Certs certs)"

definition ssl_cert_file_roots ::
  "(string \<Rightarrow> string option) \<Rightarrow> (string \<Rightarrow> string option) \<Rightarrow> (string \<Rightarrow> (string, pem_item) result list) \<Rightarrow> ssl_cert_file" where
  "ssl_cert_file_roots env read parse_pem =
     (case env ''SSL_CERT_FILE'' of
        None \<Rightarrow> CertUnset
      | Some path \<Rightarrow> if path = [] then CertUnset
                     else case read path of Some bytes \<Rightarrow> certs_from_pem parse_pem bytes | None \<Rightarrow> Unusable)"

definition build_tls_config ::
  "(string \<Rightarrow> string option) \<Rightarrow> (string \<Rightarrow> string option) \<Rightarrow> (string \<Rightarrow> (string, pem_item) result list) \<Rightarrow> root_certs" where
  "build_tls_config env read parse_pem =
     (case ssl_cert_file_roots env read parse_pem of
        CertUnset \<Rightarrow> PlatformVerifier
      | Certs certs \<Rightarrow> OnlyRoots certs
      | Unusable \<Rightarrow> OnlyRoots [])"

definition DEFAULT_CONNECT_TIMEOUT_SECS :: u64 where "DEFAULT_CONNECT_TIMEOUT_SECS = 10"

record agent_opts =
  timeout_resolve :: "u64 option"
  timeout_connect :: "u64 option"
  timeout_global :: "u64 option"
  http_status_as_error :: "bool option"
  allow_non_standard_methods :: bool

definition with_global_timeout :: "u64 \<Rightarrow> agent_opts" where
  "with_global_timeout secs =
     \<lparr>timeout_resolve = Some DEFAULT_CONNECT_TIMEOUT_SECS, timeout_connect = Some DEFAULT_CONNECT_TIMEOUT_SECS,
      timeout_global = Some secs, http_status_as_error = None, allow_non_standard_methods = False\<rparr>"

lemma certs_from_pem_nonempty: "certs_from_pem p b \<noteq> CertUnset" "certs_from_pem p b \<noteq> Certs []"
  by (auto simp: certs_from_pem_def Let_def)

lemma pinned_roots:
  "env ''SSL_CERT_FILE'' = Some path \<Longrightarrow> path \<noteq> [] \<Longrightarrow>
     build_tls_config env read parse_pem =
       OnlyRoots (case read path of None \<Rightarrow> []
                  | Some b \<Rightarrow> List.map_filter (\<lambda>i. case i of Inr (PemCertificate c) \<Rightarrow> Some c | _ \<Rightarrow> None) (parse_pem b))"
  by (auto simp: build_tls_config_def ssl_cert_file_roots_def certs_from_pem_def Let_def split: option.splits)

section \<open>Requests and answers\<close>

datatype http_method = GET | PUT | HEAD | DELETE | MKCOL | PROPFIND | POST | PATCH

record http_request =
  rq_method :: http_method
  rq_url :: string
  rq_headers :: "(string \<times> string) list"
  rq_body :: string

text \<open>An answer: the status, and the body unless reading it fails.\<close>

record http_response =
  rs_status :: u16
  rs_body :: "string option"

datatype ureq_error = StatusCode u16 | TlsFailure string | IoFailure string | OtherFailure string

type_synonym ureq_result = "(ureq_error, http_response) result"

record http_world =
  hw_log :: "http_request list"
  hw_files :: "string \<Rightarrow> string option"

text \<open>
  \<open>he_build\<close> is the error of \<open>Request::builder\<close> for a URL that is none; \<open>he_display\<close>
  the text of an error and \<open>he_text\<close> is \<open>read_to_string\<close> on a body; the tick of a local call is the length of the log.
\<close>

record http_env =
  he_build :: "string \<Rightarrow> string option"
  he_answer :: "nat \<Rightarrow> http_request \<Rightarrow> ureq_result"
  he_display :: "ureq_error \<Rightarrow> string"
  he_secs :: "nat \<Rightarrow> nat"
  he_read :: "nat \<Rightarrow> bool"
  he_write :: "nat \<Rightarrow> write_outcome"
  he_base64 :: "string \<Rightarrow> string"
  he_text :: "string \<Rightarrow> string option"

text \<open>
  One call of \<open>Agent::run\<close> is one request in the log. A redirect that the library follows by
  itself is part of its answer and not logged: the log is what this program asks for.
\<close>

definition http_run :: "http_env \<Rightarrow> http_request \<Rightarrow> http_world \<Rightarrow> http_world \<times> ureq_result" where
  "http_run H r w = (w\<lparr>hw_log := hw_log w @ [r]\<rparr>, he_answer H (length (hw_log w)) r)"

definition http_read_file :: "http_env \<Rightarrow> string \<Rightarrow> http_world \<Rightarrow> string option" where
  "http_read_file H p w = (if he_read H (length (hw_log w)) then hw_files w p else None)"

definition http_write_file :: "http_env \<Rightarrow> string \<Rightarrow> string \<Rightarrow> http_world \<Rightarrow> http_world \<times> bool" where
  "http_write_file H p s w =
     (case he_write H (length (hw_log w)) of
        Written \<Rightarrow> (w\<lparr>hw_files := (hw_files w)(p \<mapsto> s)\<rparr>, True)
      | Refused \<Rightarrow> (w, False)
      | Partial u \<Rightarrow> (w\<lparr>hw_files := (hw_files w)(p \<mapsto> u)\<rparr>, False))"

section \<open>Transport errors (http/tls_error.rs)\<close>

definition TLS_TRUST_HINT :: string where
  "TLS_TRUST_HINT = ''TLS verification failed. This often means a corporate proxy is ''
     @ ''intercepting HTTPS with a private root CA. Ask your administrator ''
     @ ''to install that CA in the system trust store, or export ''
     @ ''SSL_CERT_FILE=/path/to/corp-ca.pem and re-run.''"

text \<open>An \<open>IoFailure\<close> carries the text of the inner error.\<close>

fun looks_like_tls_trust_failure :: "ureq_error \<Rightarrow> bool" where
  "looks_like_tls_trust_failure (TlsFailure _) = True"
| "looks_like_tls_trust_failure (IoFailure s) = (sublist ''invalid peer certificate'' s \<or> sublist ''UnknownIssuer'' s)"
| "looks_like_tls_trust_failure _ = False"

definition tls_trust_hint :: "ureq_error \<Rightarrow> string option" where
  "tls_trust_hint e = (if looks_like_tls_trust_failure e then Some TLS_TRUST_HINT else None)"

definition transport_message :: "http_env \<Rightarrow> ureq_error \<Rightarrow> string" where
  "transport_message H e =
     (case tls_trust_hint e of
        Some hint \<Rightarrow> he_display H e @ '' '' @ [CHR 0xE2, CHR 0x80, CHR 0x94] @ '' '' @ hint
      | None \<Rightarrow> he_display H e)"

section \<open>Numbers in text\<close>

text \<open>\<open>str::parse\<close> of an unsigned type with values below \<open>bound\<close>.\<close>

definition parse_unsigned :: "nat \<Rightarrow> string \<Rightarrow> nat option" where
  "parse_unsigned bound s =
     (let d = (case s of c # t \<Rightarrow> if c = CHR ''+'' then t else s | [] \<Rightarrow> []) in
      if d = [] \<or> (\<exists>c \<in> set d. \<not> byte_in 48 57 c) then None
      else let n = read_nat d in if n < bound then Some n else None)"

end
