(* ===== verification/Nextcloud.thy ===== *)
theory Nextcloud
  imports Http Agent Remote_Path
begin

text \<open>
  The Nextcloud client (core/src/providers/nextcloud/webdav.rs, mod.rs, login_flow.rs):
  the WebDAV verbs and their status codes, the URLs, uploads under each collision
  policy, downloads, listings. The crates \<open>url\<close>, \<open>percent_encoding\<close>, \<open>quick_xml\<close> and
  \<open>serde_json\<close> are parameters.
\<close>

section \<open>WebDAV (webdav.rs)\<close>

datatype webdav_error = Unauthorized | NotFound | Conflict | ServerError u16 | Transport string
  | UnexpectedStatus u16 | WebDavIo | XmlParse

record basic_auth =
  ba_username :: string
  ba_password :: string

definition header_value :: "http_env \<Rightarrow> basic_auth \<Rightarrow> string" where
  "header_value H a = ''Basic '' @ he_base64 H (ba_username a @ '':'' @ ba_password a)"

definition classify :: "u16 \<Rightarrow> webdav_error" where
  "classify s =
     (if s = 401 \<or> s = 403 then Unauthorized
      else if s = 404 then NotFound
      else if s = 409 then Conflict
      else if 500 \<le> s \<and> s \<le> 599 then ServerError s
      else UnexpectedStatus s)"

definition check_2xx :: "http_env \<Rightarrow> ureq_result \<Rightarrow> (webdav_error, http_response) result" where
  "check_2xx H resp =
     (case resp of
        Inr r \<Rightarrow> if 200 \<le> rs_status r \<and> rs_status r \<le> 299 then Inr r else Inl (classify (rs_status r))
      | Inl (StatusCode s) \<Rightarrow> Inl (classify s)
      | Inl e \<Rightarrow> Inl (Transport (transport_message H e)))"

definition map_status :: "http_env \<Rightarrow> ureq_result \<Rightarrow> (webdav_error, u16) result" where
  "map_status H resp = rbind (check_2xx H resp) (\<lambda>r. Inr (rs_status r))"

text \<open>Building a request and running it; a URL that is none is a transport error.\<close>

definition send ::
  "http_env \<Rightarrow> basic_auth \<Rightarrow> http_method \<Rightarrow> string \<Rightarrow> (string \<times> string) list \<Rightarrow> string \<Rightarrow> http_world \<Rightarrow>
    http_world \<times> (webdav_error, ureq_result) result" where
  "send H auth meth url headers body w =
     (case he_build H url of
        Some e \<Rightarrow> (w, Inl (Transport e))
      | None \<Rightarrow>
          (let (w', resp) = http_run H \<lparr>rq_method = meth, rq_url = url,
                 rq_headers = (''Authorization'', header_value H auth) # headers, rq_body = body\<rparr> w
           in (w', Inr resp)))"

definition dav_put :: "http_env \<Rightarrow> basic_auth \<Rightarrow> string \<Rightarrow> string \<Rightarrow> http_world \<Rightarrow> http_world \<times> (webdav_error, unit) result" where
  "dav_put H auth url body w =
     (let (w', r) = send H auth PUT url [] body w
      in (w', rbind r (\<lambda>resp. rbind (check_2xx H resp) (\<lambda>_. Inr ()))))"

definition dav_get :: "http_env \<Rightarrow> basic_auth \<Rightarrow> string \<Rightarrow> http_world \<Rightarrow> http_world \<times> (webdav_error, string) result" where
  "dav_get H auth url w =
     (let (w', r) = send H auth GET url [] [] w
      in (w', rbind r (\<lambda>resp. rbind (check_2xx H resp)
                (\<lambda>response. case rs_body response of Some b \<Rightarrow> Inr b | None \<Rightarrow> Inl WebDavIo))))"

definition dav_mkcol :: "http_env \<Rightarrow> basic_auth \<Rightarrow> string \<Rightarrow> http_world \<Rightarrow> http_world \<times> (webdav_error, unit) result" where
  "dav_mkcol H auth url w =
     (let (w', r) = send H auth MKCOL url [] [] w
      in (w', rbind r (\<lambda>resp. case map_status H resp of
                Inr s \<Rightarrow> if s = 201 then Inr () else Inl (UnexpectedStatus s)
              | Inl e \<Rightarrow> Inl (if e = UnexpectedStatus 405 then Conflict else e))))"

definition dav_head :: "http_env \<Rightarrow> basic_auth \<Rightarrow> string \<Rightarrow> http_world \<Rightarrow> http_world \<times> (webdav_error, bool) result" where
  "dav_head H auth url w =
     (let (w', r) = send H auth HEAD url [] [] w
      in (w', rbind r (\<lambda>resp. case map_status H resp of
                Inr _ \<Rightarrow> Inr True
              | Inl e \<Rightarrow> if e = NotFound then Inr False else Inl e)))"

definition dav_delete :: "http_env \<Rightarrow> basic_auth \<Rightarrow> string \<Rightarrow> http_world \<Rightarrow> http_world \<times> (webdav_error, unit) result" where
  "dav_delete H auth url w =
     (let (w', r) = send H auth DELETE url [] [] w
      in (w', rbind r (\<lambda>resp. rbind (check_2xx H resp) (\<lambda>_. Inr ()))))"

definition PROPFIND_BODY :: string where
  "PROPFIND_BODY = ''<?xml version='' @ [CHR 0x22] @ ''1.0'' @ [CHR 0x22] @ '' encoding='' @ [CHR 0x22] @ ''utf-8'' @ [CHR 0x22]
     @ ''?>'' @ [CHR 0x0A] @ ''<d:propfind xmlns:d='' @ [CHR 0x22] @ ''DAV:'' @ [CHR 0x22] @ ''>'' @ [CHR 0x0A]
     @ ''  <d:prop>'' @ [CHR 0x0A] @ ''    <d:displayname/>'' @ [CHR 0x0A] @ ''    <d:getcontentlength/>'' @ [CHR 0x0A]
     @ ''    <d:resourcetype/>'' @ [CHR 0x0A] @ ''  </d:prop>'' @ [CHR 0x0A] @ ''</d:propfind>''"

text \<open>
  A listing is requested twice: the first answer is only looked at for its status, the
  second one is read.
\<close>

definition dav_propfind :: "http_env \<Rightarrow> basic_auth \<Rightarrow> string \<Rightarrow> string \<Rightarrow> http_world \<Rightarrow> http_world \<times> (webdav_error, string) result" where
  "dav_propfind H auth url depth w =
     (let headers = [(''Depth'', depth), (''Content-Type'', ''application/xml'')] in
      case send H auth PROPFIND url headers PROPFIND_BODY w of
        (w1, Inl e) \<Rightarrow> (w1, Inl e)
      | (w1, Inr resp) \<Rightarrow>
          (case map_status H resp of
             Inl e \<Rightarrow> (w1, Inl e)
           | Inr s \<Rightarrow>
               if s \<noteq> 207 then (w1, Inl (UnexpectedStatus s))
               else let (w2, r2) = send H auth PROPFIND url headers PROPFIND_BODY w1
                    in (w2, rbind r2 (\<lambda>resp2. case resp2 of
                              Inl e \<Rightarrow> Inl (Transport (he_display H e))
                            | Inr response \<Rightarrow> (case Option.bind (rs_body response) (he_text H) of Some b \<Rightarrow> Inr b | None \<Rightarrow> Inl WebDavIo)))))"
section \<open>The client (mod.rs)\<close>

datatype nextcloud_error = BadUrl | NcPath path_error | WebDav webdav_error | LocalIo | CollisionExists
  | RenameExhausted u32 | AuthNotSupported string

definition RENAME_MAX_TRIES :: u32 where "RENAME_MAX_TRIES = 100"

text \<open>
  The crate \<open>url\<close>. What it does to a path that is already encoded is in its
  documentation: \<open>url_ok\<close> below.
\<close>

record 'u url_crate =
  url_parse :: "string \<Rightarrow> 'u option"
  url_set_path :: "string \<Rightarrow> 'u \<Rightarrow> 'u"
  url_path :: "'u \<Rightarrow> string"
  url_as_str :: "'u \<Rightarrow> string"

record 'u nextcloud_client =
  ncc_server_url :: 'u
  ncc_username :: string
  ncc_remote_root :: string
  ncc_auth :: basic_auth

definition NON_ALPHANUMERIC :: "char \<Rightarrow> bool" where
  "NON_ALPHANUMERIC c \<longleftrightarrow> \<not> (byte_in 48 57 c \<or> byte_in 65 90 c \<or> byte_in 97 122 c)"

definition from_profile ::
  "percent_encoder \<Rightarrow> 'u url_crate \<Rightarrow> nextcloud_profile \<Rightarrow> (nextcloud_error, 'u nextcloud_client) result" where
  "from_profile pct U profile =
     (case url_parse U (nc_server_url profile) of
        None \<Rightarrow> Inl BadUrl
      | Some server \<Rightarrow>
          (case nc_auth profile of
             LoginFlowToken _ \<Rightarrow> Inl (AuthNotSupported ''login_flow_token (TASK 13)'')
           | AppPassword secret \<Rightarrow>
               (case encode_remote_root pct (nc_remote_root profile) of
                  Inl e \<Rightarrow> Inl (NcPath e)
                | Inr root \<Rightarrow> Inr \<lparr>ncc_server_url = server, ncc_username = nc_username profile,
                    ncc_remote_root = (if root = ''/'' then [] else trim_end_matches CHR ''/'' root),
                    ncc_auth = \<lparr>ba_username = nc_username profile, ba_password = secret\<rparr>\<rparr>)))"

definition dav_root_url :: "percent_encoder \<Rightarrow> 'u url_crate \<Rightarrow> 'u nextcloud_client \<Rightarrow> 'u" where
  "dav_root_url pct U c =
     url_set_path U (''/remote.php/dav/files/'' @ pct NON_ALPHANUMERIC (ncc_username c) @ ncc_remote_root c) (ncc_server_url c)"

fun validate_all :: "string list \<Rightarrow> (path_error, unit) result" where
  "validate_all [] = Inr ()"
| "validate_all (s # segs) = rbind (validate_filename s) (\<lambda>_. validate_all segs)"

definition url_for_segments ::
  "percent_encoder \<Rightarrow> 'u url_crate \<Rightarrow> 'u nextcloud_client \<Rightarrow> string list \<Rightarrow> (nextcloud_error, 'u) result" where
  "url_for_segments pct U c segments =
     (case validate_all segments of
        Inl e \<Rightarrow> Inl (NcPath e)
      | Inr _ \<Rightarrow>
          (let u = dav_root_url pct U c in
           if segments = [] then Inr u
           else case encode_path pct segments of
                  Inl e \<Rightarrow> Inl (NcPath e)
                | Inr encoded \<Rightarrow> Inr (url_set_path U (trim_end_matches CHR ''/'' (url_path U u) @ ''/'' @ encoded) u)))"

definition url_for_segments_with_collection_suffix ::
  "percent_encoder \<Rightarrow> 'u url_crate \<Rightarrow> 'u nextcloud_client \<Rightarrow> string list \<Rightarrow> (nextcloud_error, 'u) result" where
  "url_for_segments_with_collection_suffix pct U c segments =
     rbind (url_for_segments pct U c segments)
       (\<lambda>u. Inr (if ends_with (url_path U u) CHR ''/'' then u else url_set_path U (url_path U u @ ''/'') u))"

definition ensure_remote_root ::
  "http_env \<Rightarrow> percent_encoder \<Rightarrow> 'u url_crate \<Rightarrow> 'u nextcloud_client \<Rightarrow> http_world \<Rightarrow> http_world \<times> (nextcloud_error, unit) result" where
  "ensure_remote_root H pct U c w =
     (case dav_mkcol H (ncc_auth c) (url_as_str U (dav_root_url pct U c)) w of
        (w', Inr _) \<Rightarrow> (w', Inr ())
      | (w', Inl e) \<Rightarrow> (w', if e = Conflict then Inr () else Inl (WebDav e)))"

text \<open>One \<open>MKCOL\<close> for each prefix.\<close>

fun make_prefixes ::
  "http_env \<Rightarrow> percent_encoder \<Rightarrow> 'u url_crate \<Rightarrow> 'u nextcloud_client \<Rightarrow> string list list \<Rightarrow> http_world \<Rightarrow>
    http_world \<times> (nextcloud_error, unit) result" where
  "make_prefixes H pct U c [] w = (w, Inr ())"
| "make_prefixes H pct U c (p # ps) w =
     (case url_for_segments pct U c p of
        Inl e \<Rightarrow> (w, Inl e)
      | Inr url \<Rightarrow>
          (case dav_mkcol H (ncc_auth c) (url_as_str U url) w of
             (w', Inr _) \<Rightarrow> make_prefixes H pct U c ps w'
           | (w', Inl e) \<Rightarrow> if e = Conflict then make_prefixes H pct U c ps w' else (w', Inl (WebDav e))))"

definition ensure_dir_segments ::
  "http_env \<Rightarrow> percent_encoder \<Rightarrow> 'u url_crate \<Rightarrow> 'u nextcloud_client \<Rightarrow> string list \<Rightarrow> http_world \<Rightarrow>
    http_world \<times> (nextcloud_error, unit) result" where
  "ensure_dir_segments H pct U c segments w =
     (case validate_all segments of
        Inl e \<Rightarrow> (w, Inl (NcPath e))
      | Inr _ \<Rightarrow> make_prefixes H pct U c (map (\<lambda>i. take i segments) [1..<Suc (length segments)]) w)"

record nc_outcome =
  no_final_name :: string
  no_size :: u64
  no_renamed :: bool

definition put_named ::
  "http_env \<Rightarrow> 'u url_crate \<Rightarrow> 'u nextcloud_client \<Rightarrow> 'u \<Rightarrow> string \<Rightarrow> string \<Rightarrow> bool \<Rightarrow> http_world \<Rightarrow>
    http_world \<times> (nextcloud_error, nc_outcome) result" where
  "put_named H U c url body final renamed w =
     (case dav_put H (ncc_auth c) (url_as_str U url) body w of
        (w', Inl e) \<Rightarrow> (w', Inl (WebDav e))
      | (w', Inr _) \<Rightarrow> (w', Inr \<lparr>no_final_name = final, no_size = of_nat (length body), no_renamed = renamed\<rparr>))"

fun rename_loop ::
  "http_env \<Rightarrow> percent_encoder \<Rightarrow> 'u url_crate \<Rightarrow> 'u nextcloud_client \<Rightarrow> string list \<Rightarrow> string \<Rightarrow> string \<Rightarrow> nat list \<Rightarrow>
    http_world \<Rightarrow> http_world \<times> (nextcloud_error, nc_outcome) result" where
  "rename_loop H pct U c parent name body [] w = (w, Inl (RenameExhausted RENAME_MAX_TRIES))"
| "rename_loop H pct U c parent name body (n # ns) w =
     (let candidate = rename_with_suffix_at name n (he_secs H (length (hw_log w))) in
      case url_for_segments pct U c (parent @ [candidate]) of
        Inl e \<Rightarrow> (w, Inl e)
      | Inr url \<Rightarrow>
          (case dav_head H (ncc_auth c) (url_as_str U url) w of
             (w', Inl e) \<Rightarrow> (w', Inl (WebDav e))
           | (w', Inr True) \<Rightarrow> rename_loop H pct U c parent name body ns w'
           | (w', Inr False) \<Rightarrow> put_named H U c url body candidate (0 < n) w'))"

definition upload_body ::
  "http_env \<Rightarrow> percent_encoder \<Rightarrow> 'u url_crate \<Rightarrow> 'u nextcloud_client \<Rightarrow> string list \<Rightarrow> string \<Rightarrow> string \<Rightarrow> collision_policy \<Rightarrow>
    http_world \<Rightarrow> http_world \<times> (nextcloud_error, nc_outcome) result" where
  "upload_body H pct U c parent name body policy w =
     (case policy of
        Overwrite \<Rightarrow>
          (case url_for_segments pct U c (parent @ [name]) of
             Inl e \<Rightarrow> (w, Inl e)
           | Inr url \<Rightarrow> put_named H U c url body name False w)
      | Fail \<Rightarrow>
          (case url_for_segments pct U c (parent @ [name]) of
             Inl e \<Rightarrow> (w, Inl e)
           | Inr url \<Rightarrow>
               (case dav_head H (ncc_auth c) (url_as_str U url) w of
                  (w', Inl e) \<Rightarrow> (w', Inl (WebDav e))
                | (w', Inr True) \<Rightarrow> (w', Inl CollisionExists)
                | (w', Inr False) \<Rightarrow> put_named H U c url body name False w'))
      | Rename \<Rightarrow> rename_loop H pct U c parent name body [0..<Suc (unat RENAME_MAX_TRIES)] w)"

definition nc_upload_to ::
  "http_env \<Rightarrow> percent_encoder \<Rightarrow> 'u url_crate \<Rightarrow> 'u nextcloud_client \<Rightarrow> string \<Rightarrow> string list \<Rightarrow> collision_policy \<Rightarrow>
    http_world \<Rightarrow> http_world \<times> (nextcloud_error, nc_outcome) result" where
  "nc_upload_to H pct U c local segments policy w =
     (if segments = [] then (w, Inl (NcPath PathEmpty))
      else case validate_all segments of
        Inl e \<Rightarrow> (w, Inl (NcPath e))
      | Inr _ \<Rightarrow>
          (case (if 1 < length segments then ensure_dir_segments H pct U c (butlast segments) w else (w, Inr ())) of
             (w1, Inl e) \<Rightarrow> (w1, Inl e)
           | (w1, Inr _) \<Rightarrow>
               (case http_read_file H local w1 of
                  None \<Rightarrow> (w1, Inl LocalIo)
                | Some body \<Rightarrow> upload_body H pct U c (butlast segments) (last segments) body policy w1)))"

definition nc_download_from ::
  "http_env \<Rightarrow> percent_encoder \<Rightarrow> 'u url_crate \<Rightarrow> 'u nextcloud_client \<Rightarrow> string list \<Rightarrow> string \<Rightarrow>
    http_world \<Rightarrow> http_world \<times> (nextcloud_error, u64) result" where
  "nc_download_from H pct U c segments dest w =
     (if segments = [] then (w, Inl (NcPath PathEmpty))
      else case url_for_segments pct U c segments of
        Inl e \<Rightarrow> (w, Inl e)
      | Inr url \<Rightarrow>
          (case dav_get H (ncc_auth c) (url_as_str U url) w of
             (w', Inl e) \<Rightarrow> (w', Inl (WebDav e))
           | (w', Inr body) \<Rightarrow>
               (let (w2, ok) = http_write_file H dest body w'
                in (w2, if ok then Inr (of_nat (length body)) else Inl LocalIo))))"

definition nc_delete_at ::
  "http_env \<Rightarrow> percent_encoder \<Rightarrow> 'u url_crate \<Rightarrow> 'u nextcloud_client \<Rightarrow> string list \<Rightarrow> http_world \<Rightarrow>
    http_world \<times> (nextcloud_error, unit) result" where
  "nc_delete_at H pct U c segments w =
     (if segments = [] then (w, Inl (NcPath PathEmpty))
      else case url_for_segments pct U c segments of
        Inl e \<Rightarrow> (w, Inl e)
      | Inr url \<Rightarrow>
          (case dav_delete H (ncc_auth c) (url_as_str U url) w of
             (w', Inl e) \<Rightarrow> (w', Inl (WebDav e))
           | (w', Inr _) \<Rightarrow> (w', Inr ())))"

section \<open>Listings (mod.rs)\<close>

text \<open>The events of the reader; a name or a text is \<open>None\<close> when it is not valid text.\<close>

datatype xml_event = XStart "string option" | XEmpty "string option" | XEnd "string option"
  | XText "string option" | XOther | XError

datatype propfind_state = PsNone | PsHref | PsContentLength

record propfind_parser =
  pf_state :: propfind_state
  pf_saw_multistatus :: bool
  pf_in_response :: bool
  pf_href :: "string option"
  pf_size :: "u64 option"
  pf_is_dir :: bool
  pf_entries :: "remote_entry list"

definition propfind_start :: propfind_parser where
  "propfind_start = \<lparr>pf_state = PsNone, pf_saw_multistatus = False, pf_in_response = False, pf_href = None,
     pf_size = None, pf_is_dir = False, pf_entries = []\<rparr>"

definition start_tag :: "string \<Rightarrow> propfind_parser \<Rightarrow> propfind_parser" where
  "start_tag local s =
     (if local = ''multistatus'' then s\<lparr>pf_saw_multistatus := True\<rparr>
      else if local = ''response'' then s\<lparr>pf_in_response := True, pf_href := None, pf_size := None, pf_is_dir := False\<rparr>
      else if \<not> pf_in_response s then s
      else if local = ''href'' then s\<lparr>pf_state := PsHref\<rparr>
      else if local = ''getcontentlength'' then s\<lparr>pf_state := PsContentLength\<rparr>
      else if local = ''collection'' then s\<lparr>pf_is_dir := True\<rparr>
      else s)"

text \<open>\<open>decode\<close>: the percent decoder, lossy in what is not UTF-8.\<close>

definition end_tag :: "(string \<Rightarrow> string) \<Rightarrow> string \<Rightarrow> propfind_parser \<Rightarrow> propfind_parser" where
  "end_tag decode local s =
     (let s' = (if local = ''response'' then
                  (let s1 = (case pf_href s of
                       None \<Rightarrow> s
                     | Some href \<Rightarrow>
                         (let decoded = decode (file_name (trim_end_matches CHR ''/'' href)) in
                          if decoded = [] then s\<lparr>pf_href := None\<rparr>
                          else s\<lparr>pf_href := None, pf_size := None, pf_entries := pf_entries s @
                                 [\<lparr>rm_name = decoded, rm_size = pf_size s, rm_is_directory = pf_is_dir s\<rparr>]\<rparr>))
                   in s1\<lparr>pf_in_response := False, pf_is_dir := False\<rparr>)
                else s)
      in s'\<lparr>pf_state := PsNone\<rparr>)"

definition xml_text :: "string option \<Rightarrow> propfind_parser \<Rightarrow> propfind_parser option" where
  "xml_text t s =
     (case pf_state s of
        PsNone \<Rightarrow> Some s
      | PsHref \<Rightarrow> map_option (\<lambda>x. s\<lparr>pf_href := Some x\<rparr>) t
      | PsContentLength \<Rightarrow> map_option (\<lambda>x. s\<lparr>pf_size := map_option of_nat (parse_unsigned (2 ^ 64) (trim x))\<rparr>) t)"

fun xml_step :: "(string \<Rightarrow> string) \<Rightarrow> xml_event \<Rightarrow> propfind_parser \<Rightarrow> propfind_parser option" where
  "xml_step decode (XStart n) s = map_option (\<lambda>local. start_tag local s) n"
| "xml_step decode (XEmpty n) s =
     map_option (\<lambda>local. if local = ''collection'' \<and> pf_in_response s then s\<lparr>pf_is_dir := True\<rparr> else s) n"
| "xml_step decode (XEnd n) s = map_option (\<lambda>local. end_tag decode local s) n"
| "xml_step decode (XText t) s = xml_text t s"
| "xml_step decode XError s = None"
| "xml_step decode XOther s = Some s"

fun xml_run :: "(string \<Rightarrow> string) \<Rightarrow> xml_event list \<Rightarrow> propfind_parser \<Rightarrow> propfind_parser option" where
  "xml_run decode [] s = Some s"
| "xml_run decode (e # es) s = Option.bind (xml_step decode e s) (xml_run decode es)"

definition parse_propfind_multistatus ::
  "(string \<Rightarrow> xml_event list) \<Rightarrow> (string \<Rightarrow> string) \<Rightarrow> string \<Rightarrow> remote_entry list option" where
  "parse_propfind_multistatus events decode xml =
     (case xml_run decode (events xml) propfind_start of
        None \<Rightarrow> None
      | Some s \<Rightarrow> if pf_saw_multistatus s then Some (tl (pf_entries s)) else None)"

definition nc_list_at ::
  "http_env \<Rightarrow> percent_encoder \<Rightarrow> (string \<Rightarrow> xml_event list) \<Rightarrow> (string \<Rightarrow> string) \<Rightarrow> 'u url_crate \<Rightarrow> 'u nextcloud_client \<Rightarrow>
    string list \<Rightarrow> http_world \<Rightarrow> http_world \<times> (nextcloud_error, remote_entry list) result" where
  "nc_list_at H pct events decode U c segments w =
     (case url_for_segments_with_collection_suffix pct U c segments of
        Inl e \<Rightarrow> (w, Inl e)
      | Inr url \<Rightarrow>
          (case dav_propfind H (ncc_auth c) (url_as_str U url) ''1'' w of
             (w', Inl e) \<Rightarrow> (w', Inl (WebDav e))
           | (w', Inr xml) \<Rightarrow>
               (w', case parse_propfind_multistatus events decode xml of
                      Some es \<Rightarrow> Inr es
                    | None \<Rightarrow> Inl (WebDav XmlParse))))"

section \<open>Diagnoses (mod.rs)\<close>

fun diagnose :: "nextcloud_error \<Rightarrow> string" where
  "diagnose BadUrl = ''invalid server url''"
| "diagnose (NcPath _) = ''invalid remote path''"
| "diagnose (WebDav Unauthorized) = ''auth failed''"
| "diagnose (WebDav NotFound) = ''not found''"
| "diagnose (WebDav Conflict) = ''conflict''"
| "diagnose (WebDav (ServerError _)) = ''server error''"
| "diagnose (WebDav (Transport _)) = ''network error''"
| "diagnose (WebDav (UnexpectedStatus _)) = ''unexpected response''"
| "diagnose (WebDav WebDavIo) = ''io error''"
| "diagnose (WebDav XmlParse) = ''bad server response''"
| "diagnose LocalIo = ''local file error''"
| "diagnose CollisionExists = ''file already exists''"
| "diagnose (RenameExhausted _) = ''too many name conflicts''"
| "diagnose (AuthNotSupported _) = ''auth method not supported yet''"

definition diagnose_full :: "nextcloud_error \<Rightarrow> string" where
  "diagnose_full err =
     (case err of
        WebDav (Transport r) \<Rightarrow> ''network error: '' @ r
      | WebDav (ServerError s) \<Rightarrow> ''server error: HTTP '' @ show_nat (unat s)
      | WebDav (UnexpectedStatus s) \<Rightarrow> ''unexpected response: HTTP '' @ show_nat (unat s)
      | _ \<Rightarrow> diagnose err)"

section \<open>Signing in with a browser (login_flow.rs)\<close>

datatype login_flow_error = LfBadUrl | LfNetwork | LfTlsTrustFailed string | LfServerError u16 | LfDecode

record poll_info =
  pi_token :: string
  pi_endpoint :: string

record login_flow_init =
  lfi_poll :: poll_info
  lfi_login :: string

record login_flow_result =
  lfr_server :: string
  lfr_login_name :: string
  lfr_app_password :: string

definition from_ureq_transport :: "ureq_error \<Rightarrow> login_flow_error" where
  "from_ureq_transport e = (case tls_trust_hint e of Some hint \<Rightarrow> LfTlsTrustFailed hint | None \<Rightarrow> LfNetwork)"

definition login_initiate ::
  "http_env \<Rightarrow> (string \<Rightarrow> login_flow_init option) \<Rightarrow> string \<Rightarrow> http_world \<Rightarrow> http_world \<times> (login_flow_error, login_flow_init) result" where
  "login_initiate H decode_json server_url w =
     (let init_url = trim_end_matches CHR ''/'' server_url @ ''/index.php/login/v2'' in
      case he_build H init_url of
        Some _ \<Rightarrow> (w, Inl LfBadUrl)
      | None \<Rightarrow>
          (case http_run H \<lparr>rq_method = POST, rq_url = init_url,
                  rq_headers = [(''User-Agent'', ''zz-drop''), (''Content-Length'', ''0'')], rq_body = []\<rparr> w of
             (w', Inr r) \<Rightarrow>
               (w', if rs_status r \<noteq> 200 then Inl (LfServerError (rs_status r))
                    else case Option.bind (rs_body r) decode_json of Some i \<Rightarrow> Inr i | None \<Rightarrow> Inl LfDecode)
           | (w', Inl (StatusCode s)) \<Rightarrow> (w', Inl (LfServerError s))
           | (w', Inl e) \<Rightarrow> (w', Inl (from_ureq_transport e))))"

definition login_poll_once ::
  "http_env \<Rightarrow> (string \<Rightarrow> login_flow_result option) \<Rightarrow> poll_info \<Rightarrow> http_world \<Rightarrow>
    http_world \<times> (login_flow_error, login_flow_result option) result" where
  "login_poll_once H decode_json poll w =
     (case he_build H (pi_endpoint poll) of
        Some _ \<Rightarrow> (w, Inl LfBadUrl)
      | None \<Rightarrow>
          (case http_run H \<lparr>rq_method = POST, rq_url = pi_endpoint poll,
                  rq_headers = [(''Content-Type'', ''application/x-www-form-urlencoded''), (''User-Agent'', ''zz-drop'')],
                  rq_body = ''token='' @ pi_token poll\<rparr> w of
             (w', Inr r) \<Rightarrow>
               (w', if rs_status r = 200 then
                      (case Option.bind (rs_body r) decode_json of Some i \<Rightarrow> Inr (Some i) | None \<Rightarrow> Inl LfDecode)
                    else if rs_status r = 404 then Inr None
                    else Inl (LfServerError (rs_status r)))
           | (w', Inl (StatusCode s)) \<Rightarrow> (w', if s = 404 then Inr None else Inl (LfServerError s))
           | (w', Inl _) \<Rightarrow> (w', Inl LfNetwork)))"

end
