(* ===== verification/Nextcloud_Props.thy ===== *)
theory Nextcloud_Props
  imports Nextcloud
begin

text \<open>
  What the Nextcloud client asks of a server: no upload under the policies \<open>Rename\<close> and
  \<open>Fail\<close> replaces a file that the server reported, whatever the server answers; a listing
  is the responses of the server after the first; the URLs stay below the user's root.
\<close>

section \<open>Requests of a step\<close>

lemma http_run_simps [simp]:
  "hw_log (fst (http_run H r w)) = hw_log w @ [r]" "hw_files (fst (http_run H r w)) = hw_files w"
  "snd (http_run H r w) = he_answer H (length (hw_log w)) r"
  by (simp_all add: http_run_def)

text \<open>The request a verb sends.\<close>

definition verb :: "http_env \<Rightarrow> basic_auth \<Rightarrow> http_method \<Rightarrow> string \<Rightarrow> string \<Rightarrow> http_request" where
  "verb H auth meth url body =
     \<lparr>rq_method = meth, rq_url = url, rq_headers = [(''Authorization'', header_value H auth)], rq_body = body\<rparr>"

definition logged :: "http_request \<Rightarrow> http_world \<Rightarrow> http_world" where
  "logged q w = w\<lparr>hw_log := hw_log w @ [q]\<rparr>"

lemma logged_simps [simp]: "hw_log (logged q w) = hw_log w @ [q]" "hw_files (logged q w) = hw_files w"
  by (simp_all add: logged_def)

lemma send_plain:
  "send H auth meth url [] body w =
     (case he_build H url of
        Some e \<Rightarrow> (w, Inl (Transport e))
      | None \<Rightarrow> (logged (verb H auth meth url body) w, Inr (he_answer H (length (hw_log w)) (verb H auth meth url body))))"
  by (simp add: send_def http_run_def verb_def logged_def split: option.splits)

text \<open>Two consecutive requests of which the first found nothing and the second succeeded or not.\<close>

definition absent_then_put :: "http_env \<Rightarrow> nat \<Rightarrow> string \<Rightarrow> http_request \<Rightarrow> http_request \<Rightarrow> bool" where
  "absent_then_put H i body h p \<longleftrightarrow>
     rq_method h = HEAD \<and> rq_method p = PUT \<and> rq_url p = rq_url h \<and> rq_body p = body
     \<and> map_status H (he_answer H i h) = Inl NotFound"

definition no_put :: "http_request list \<Rightarrow> bool" where
  "no_put qs \<longleftrightarrow> (\<forall>q \<in> set qs. rq_method q \<noteq> PUT)"

text \<open>What an upload under a careful policy adds to the log, and what its success means.\<close>

definition careful :: "(nc_outcome \<Rightarrow> http_request \<Rightarrow> bool) \<Rightarrow> http_env \<Rightarrow> http_world \<Rightarrow> http_world \<Rightarrow> string \<Rightarrow> nat \<Rightarrow> (nextcloud_error, nc_outcome) result \<Rightarrow> bool" where
  "careful Q H w w' body k r \<longleftrightarrow>
     hw_files w' = hw_files w \<and>
     (\<exists>pre. no_put pre \<and> length pre \<le> k
        \<and> (hw_log w' = hw_log w @ pre \<and> (\<forall>x. r \<noteq> Inr x)
           \<or> (\<exists>h p. hw_log w' = hw_log w @ pre @ [h, p] \<and> absent_then_put H (length (hw_log w) + length pre) body h p
                \<and> (\<forall>x. r = Inr x \<longrightarrow> Q x p \<and> no_size x = of_nat (length body)
                     \<and> (\<exists>s. map_status H (he_answer H (length (hw_log w) + length pre + 1) p) = Inr s)))))"

lemma careful_fails: "careful Q H w w body k (Inl e)"
  by (auto simp: careful_def no_put_def intro: exI [of _ "[]"])

lemma careful_logged_fails: "rq_method q \<noteq> PUT \<Longrightarrow> 0 < k \<Longrightarrow> careful Q H w (logged q w) body k (Inl e)"
  by (auto simp: careful_def no_put_def intro!: exI [of _ "[q]"])

lemma careful_after:
  assumes "careful Q H w1 w2 body k r" "hw_log w1 = hw_log w @ qs" "hw_files w1 = hw_files w" "no_put qs"
    and "length qs + k \<le> m"
  shows "careful Q H w w2 body m r"
proof -
  from assms(1) obtain pre where pre: "hw_files w2 = hw_files w1" "no_put pre" "length pre \<le> k"
    and d: "hw_log w2 = hw_log w1 @ pre \<and> (\<forall>x. r \<noteq> Inr x)
           \<or> (\<exists>h p. hw_log w2 = hw_log w1 @ pre @ [h, p] \<and> absent_then_put H (length (hw_log w1) + length pre) body h p
                \<and> (\<forall>x. r = Inr x \<longrightarrow> Q x p \<and> no_size x = of_nat (length body)
                     \<and> (\<exists>s. map_status H (he_answer H (length (hw_log w1) + length pre + 1) p) = Inr s)))"
    unfolding careful_def by blast
  have "no_put (qs @ pre)" "length (qs @ pre) \<le> m" using assms(4,5) pre by (auto simp: no_put_def)
  moreover have "hw_log w2 = hw_log w @ (qs @ pre) \<and> (\<forall>x. r \<noteq> Inr x)
           \<or> (\<exists>h p. hw_log w2 = hw_log w @ (qs @ pre) @ [h, p] \<and> absent_then_put H (length (hw_log w) + length (qs @ pre)) body h p
                \<and> (\<forall>x. r = Inr x \<longrightarrow> Q x p \<and> no_size x = of_nat (length body)
                     \<and> (\<exists>s. map_status H (he_answer H (length (hw_log w) + length (qs @ pre) + 1) p) = Inr s)))"
    using d by (simp add: assms(2) add.assoc)
  ultimately show ?thesis unfolding careful_def using pre(1) assms(3) by metis
qed

lemma nc_careful_mono: "careful Q H w w' body k r \<Longrightarrow> (\<And>x p. Q x p \<Longrightarrow> Q' x p) \<Longrightarrow> careful Q' H w w' body k r"
  unfolding careful_def by meson

text \<open>A \<open>HEAD\<close> that found nothing, and the \<open>PUT\<close> after it.\<close>

lemma careful_put:
  assumes "map_status H (he_answer H (length (hw_log w)) (verb H (ncc_auth c) HEAD (url_as_str U url) [])) = Inl NotFound"
    and "he_build H (url_as_str U url) = None"
    and "put_named H U c url body final renamed (logged (verb H (ncc_auth c) HEAD (url_as_str U url) []) w) = (w', r)"
    and "\<And>x. no_final_name x = final \<Longrightarrow> no_renamed x = renamed \<Longrightarrow> Q x (verb H (ncc_auth c) PUT (url_as_str U url) body)"
  shows "careful Q H w w' body k r"
proof -
  let ?h = "verb H (ncc_auth c) HEAD (url_as_str U url) []" and ?p = "verb H (ncc_auth c) PUT (url_as_str U url) body"
  have w': "hw_log w' = hw_log w @ [?h, ?p]" "hw_files w' = hw_files w"
    and r: "\<forall>x. r = Inr x \<longrightarrow> Q x ?p \<and> no_size x = of_nat (length body)
                \<and> (\<exists>s. map_status H (he_answer H (length (hw_log w) + 1) ?p) = Inr s)"
    using assms(2,3) assms(4)
    by (auto simp: put_named_def dav_put_def send_plain map_status_def split: sum.splits)
  show ?thesis unfolding careful_def
    using w' r assms(1) by (intro conjI exI [of _ "[]"]) (auto simp: no_put_def absent_then_put_def verb_def)
qed

text \<open>The \<open>HEAD\<close> of one name, and what follows each answer.\<close>

lemma dav_head_cases:
  assumes "dav_head H auth url w = (w', r)"
  obtains (unbuilt) e where "he_build H url = Some e" "w' = w" "r = Inl (Transport e)"
  | (absent) "he_build H url = None" "w' = logged (verb H auth HEAD url []) w" "r = Inr False"
      "map_status H (he_answer H (length (hw_log w)) (verb H auth HEAD url [])) = Inl NotFound"
  | (present) "w' = logged (verb H auth HEAD url []) w" "r = Inr True"
  | (failed) e where "w' = logged (verb H auth HEAD url []) w" "r = Inl e"
  using assms by (auto simp: dav_head_def send_plain split: option.splits sum.splits if_splits)

definition names_target ::
  "percent_encoder \<Rightarrow> 'u url_crate \<Rightarrow> 'u nextcloud_client \<Rightarrow> string list \<Rightarrow> (string \<Rightarrow> bool \<Rightarrow> bool) \<Rightarrow> nc_outcome \<Rightarrow> http_request \<Rightarrow> bool" where
  "names_target pct U c parent N x p \<longleftrightarrow>
     N (no_final_name x) (no_renamed x)
     \<and> (\<exists>url. url_for_segments pct U c (parent @ [no_final_name x]) = Inr url \<and> rq_url p = url_as_str U url)"

lemma rename_loop_careful:
  assumes "rename_loop H pct U c parent name body ns w = (w', r)"
  shows "careful (names_target pct U c parent (\<lambda>f b. \<exists>n \<in> set ns. \<exists>t. f = rename_with_suffix_at name n t \<and> b = (0 < n)))
           H w w' body (length ns) r"
  using assms
proof (induction ns arbitrary: w)
  case Nil
  then show ?case by (auto intro: careful_fails)
next
  case (Cons n ns)
  let ?cand = "rename_with_suffix_at name n (he_secs H (length (hw_log w)))"
  let ?Q = "\<lambda>ns. names_target pct U c parent (\<lambda>f b. \<exists>n \<in> set ns. \<exists>t. f = rename_with_suffix_at name n t \<and> b = (0 < n))"
  show ?case
  proof (cases "url_for_segments pct U c (parent @ [?cand])")
    case (Inl e)
    then show ?thesis using Cons.prems by (auto intro: careful_fails)
  next
    case (Inr url)
    obtain w1 r1 where hd: "dav_head H (ncc_auth c) (url_as_str U url) w = (w1, r1)"
      by (cases "dav_head H (ncc_auth c) (url_as_str U url) w")
    from hd show ?thesis
    proof (cases rule: dav_head_cases)
      case (unbuilt e)
      then show ?thesis using Cons.prems Inr hd by (auto intro: careful_fails)
    next
      case absent
      have put: "put_named H U c url body ?cand (0 < n) (logged (verb H (ncc_auth c) HEAD (url_as_str U url) []) w) = (w', r)"
        using Cons.prems Inr hd absent by simp
      show ?thesis
        by (rule careful_put [OF absent(4) absent(1) put]) (auto simp: names_target_def Inr verb_def)
    next
      case present
      have "rename_loop H pct U c parent name body ns w1 = (w', r)" using Cons.prems Inr hd present by simp
      from Cons.IH [OF this] have "careful (?Q (n # ns)) H w1 w' body (length ns) r"
        by (rule nc_careful_mono) (auto simp: names_target_def)
      then show ?thesis
        by (rule careful_after [where qs = "[verb H (ncc_auth c) HEAD (url_as_str U url) []]"])
          (auto simp: present no_put_def verb_def)
    next
      case (failed e)
      then show ?thesis using Cons.prems Inr hd by (auto simp: verb_def intro!: careful_logged_fails)
    qed
  qed
qed

lemma upload_body_careful:
  assumes "upload_body H pct U c parent name body policy w = (w', r)" "policy \<noteq> Overwrite"
  shows "careful (names_target pct U c parent (\<lambda>f b. \<exists>n < 101. \<exists>t. f = rename_with_suffix_at name n t \<and> b = (0 < n)))
           H w w' body 101 r"
proof (cases policy)
  case Rename
  have ns: "[0..<Suc (unat RENAME_MAX_TRIES)] = [0..<101]" by (simp add: RENAME_MAX_TRIES_def del: upt.simps)
  have "rename_loop H pct U c parent name body [0..<101] w = (w', r)" using assms(1) Rename by (simp only: upload_body_def ns collision_policy.case)
  from rename_loop_careful [OF this] have "careful (names_target pct U c parent
      (\<lambda>f b. \<exists>n \<in> set [0..<101]. \<exists>t. f = rename_with_suffix_at name n t \<and> b = (0 < n))) H w w' body (length [0..<101]) r" .
  then have "careful (names_target pct U c parent
      (\<lambda>f b. \<exists>n \<in> set [0..<101]. \<exists>t. f = rename_with_suffix_at name n t \<and> b = (0 < n))) H w w' body 101 r" by (simp only: length_upt)  simp
  then show ?thesis by (rule nc_careful_mono) (fastforce simp: names_target_def simp del: upt.simps)
next
  case Fail
  show ?thesis
  proof (cases "url_for_segments pct U c (parent @ [name])")
    case (Inl e)
    then show ?thesis using assms(1) Fail by (auto simp: upload_body_def intro: careful_fails)
  next
    case (Inr url)
    obtain w1 r1 where hd: "dav_head H (ncc_auth c) (url_as_str U url) w = (w1, r1)"
      by (cases "dav_head H (ncc_auth c) (url_as_str U url) w")
    from hd show ?thesis
    proof (cases rule: dav_head_cases)
      case (unbuilt e)
      then show ?thesis using assms(1) Fail Inr hd by (auto simp: upload_body_def intro: careful_fails)
    next
      case absent
      have put: "put_named H U c url body name False (logged (verb H (ncc_auth c) HEAD (url_as_str U url) []) w) = (w', r)"
        using assms(1) Fail Inr hd absent by (simp add: upload_body_def)
      show ?thesis
        by (rule careful_put [OF absent(4) absent(1) put])
          (auto simp: names_target_def Inr verb_def rename_with_suffix_at_def intro!: exI [of _ 0])
    next
      case present
      then show ?thesis using assms(1) Fail Inr hd by (auto simp: upload_body_def verb_def intro!: careful_logged_fails)
    next
      case (failed e)
      then show ?thesis using assms(1) Fail Inr hd by (auto simp: upload_body_def verb_def intro!: careful_logged_fails)
    qed
  qed
next
  case Overwrite
  then show ?thesis using assms(2) by simp
qed

lemma make_prefixes_log:
  "make_prefixes H pct U c ps w = (w', r) \<Longrightarrow>
     \<exists>qs. hw_log w' = hw_log w @ qs \<and> (\<forall>q \<in> set qs. rq_method q = MKCOL) \<and> length qs \<le> length ps \<and> hw_files w' = hw_files w"
proof (induction ps arbitrary: w)
  case Nil
  then show ?case by simp
next
  case (Cons p ps)
  show ?case
  proof (cases "url_for_segments pct U c p")
    case (Inl e)
    then show ?thesis using Cons.prems by auto
  next
    case (Inr url)
    obtain w1 r1 where mk: "dav_mkcol H (ncc_auth c) (url_as_str U url) w = (w1, r1)"
      by (cases "dav_mkcol H (ncc_auth c) (url_as_str U url) w")
    then have w1: "w1 = w \<or> w1 = logged (verb H (ncc_auth c) MKCOL (url_as_str U url) []) w"
      by (auto simp: dav_mkcol_def send_plain split: option.splits)
    have "w' = w1 \<or> make_prefixes H pct U c ps w1 = (w', r)"
      using Cons.prems Inr mk by (auto split: sum.splits if_splits)
    then obtain qs where "hw_log w' = hw_log w1 @ qs" "\<forall>q \<in> set qs. rq_method q = MKCOL" "length qs \<le> length ps"
        "hw_files w' = hw_files w1"
      using Cons.IH [of w1] by fastforce
    with w1 show ?thesis
      by (elim disjE) (auto intro: exI [of _ qs] exI [of _ "verb H (ncc_auth c) MKCOL (url_as_str U url) [] # qs"] simp: verb_def)
  qed
qed

text \<open>
  C23. Uploading with the policies \<open>Rename\<close> and \<open>Fail\<close>, whatever the server answers: at
  most one request is a \<open>PUT\<close>; it is the last one, it carries the contents of the local
  file, and the request just before it is a \<open>HEAD\<close> of the same URL that was answered
  "not found". The other requests are at most one \<open>MKCOL\<close> for each directory of the path
  and 101 \<open>HEAD\<close>s. A success means that the \<open>PUT\<close> was answered with a 2xx status, that
  its URL is the one of the reported final name, which is the requested name or a
  time-stamped variant of it, and that the reported size is the file's.
\<close>
theorem upload_looks_before_put:
  assumes "nc_upload_to H pct U c local segments policy w = (w', r)" "policy \<noteq> Overwrite"
  shows "hw_files w' = hw_files w
    \<and> (\<exists>pre. (\<forall>q \<in> set pre. rq_method q \<noteq> PUT) \<and> length pre \<le> length segments + 101
        \<and> (hw_log w' = hw_log w @ pre \<and> (\<forall>x. r \<noteq> Inr x)
           \<or> (\<exists>h p body. hw_log w' = hw_log w @ pre @ [h, p] \<and> hw_files w local = Some body
                \<and> rq_method h = HEAD \<and> rq_method p = PUT \<and> rq_url p = rq_url h \<and> rq_body p = body
                \<and> map_status H (he_answer H (length (hw_log w) + length pre) h) = Inl NotFound
                \<and> (\<forall>x. r = Inr x \<longrightarrow> no_size x = of_nat (length body)
                     \<and> (\<exists>s. map_status H (he_answer H (length (hw_log w) + length pre + 1) p) = Inr s)
                     \<and> (\<exists>n < 101. \<exists>t. no_final_name x = rename_with_suffix_at (last segments) n t \<and> no_renamed x = (0 < n))
                     \<and> (\<exists>url. url_for_segments pct U c (butlast segments @ [no_final_name x]) = Inr url
                           \<and> rq_url p = url_as_str U url)))))"
proof -
  have nothing: ?thesis if "hw_files w' = hw_files w" "hw_log w' = hw_log w @ pre" "\<forall>q \<in> set pre. rq_method q \<noteq> PUT"
      "length pre \<le> length segments + 101" "\<forall>x. r \<noteq> Inr x" for pre
    using that by blast
  show ?thesis
  proof (cases "segments = [] \<or> (\<exists>e. validate_all segments = Inl e)")
    case True
    then have stopped: "w' = w" "\<forall>x. r \<noteq> Inr x" using assms(1) by (auto simp: nc_upload_to_def split: if_splits)
    show ?thesis by (rule nothing [of "[]"]) (simp_all add: stopped)
  next
    case False
    obtain w1 r1 where mk: "(if 1 < length segments then ensure_dir_segments H pct U c (butlast segments) w else (w, Inr ())) = (w1, r1)"
      by (cases "if 1 < length segments then ensure_dir_segments H pct U c (butlast segments) w else (w, Inr ())")
    have "\<exists>qs. hw_log w1 = hw_log w @ qs \<and> (\<forall>q \<in> set qs. rq_method q = MKCOL) \<and> length qs \<le> length segments \<and> hw_files w1 = hw_files w"
      using mk by (fastforce simp: ensure_dir_segments_def split: if_splits sum.splits dest!: make_prefixes_log)
    then obtain qs where qs: "hw_log w1 = hw_log w @ qs" "\<forall>q \<in> set qs. rq_method q = MKCOL" "length qs \<le> length segments"
      "hw_files w1 = hw_files w" by blast
    have nop: "no_put qs" using qs(2) by (auto simp: no_put_def)
    consider (stop) "w' = w1" "\<exists>e. r = Inl e"
      | (go) body where "hw_files w local = Some body"
          "upload_body H pct U c (butlast segments) (last segments) body policy w1 = (w', r)"
    proof -
      obtain v where "validate_all segments = Inr v" "segments \<noteq> []" using False by (cases "validate_all segments") auto
      then have "(case r1 of Inl e \<Rightarrow> (w1, Inl e)
           | Inr _ \<Rightarrow> (case http_read_file H local w1 of None \<Rightarrow> (w1, Inl LocalIo)
                | Some body \<Rightarrow> upload_body H pct U c (butlast segments) (last segments) body policy w1)) = (w', r)"
        using assms(1) by (simp add: nc_upload_to_def mk del: One_nat_def)
      then show ?thesis using stop go qs(4)
        by (cases r1; cases "http_read_file H local w1") (auto simp: http_read_file_def split: if_splits)
    qed
    then show ?thesis
    proof cases
      case stop
      have "hw_files w' = hw_files w" "hw_log w' = hw_log w @ qs" "\<forall>q \<in> set qs. rq_method q \<noteq> PUT"
          "length qs \<le> length segments + 101" "\<forall>x. r \<noteq> Inr x"
        using stop qs by auto
      then show ?thesis by blast
    next
      case (go body)
      from careful_after [OF upload_body_careful [OF go(2) assms(2)] qs(1,4) nop, of "length segments + 101"] qs(3)
      have "careful (names_target pct U c (butlast segments)
          (\<lambda>f b. \<exists>n < 101. \<exists>t. f = rename_with_suffix_at (last segments) n t \<and> b = (0 < n))) H w w' body (length segments + 101) r"
        by simp
      then show ?thesis using go(1) unfolding careful_def absent_then_put_def names_target_def no_put_def by blast
    qed
  qed
qed

section \<open>Listings\<close>

text \<open>The events of one response, as a server lays it out: text between the elements is blank.\<close>

record dav_response =
  dr_href :: string
  dr_length :: "u64 option"
  dr_collection :: bool

definition element :: "string \<Rightarrow> xml_event list \<Rightarrow> xml_event list" where
  "element n es = XStart (Some n) # es @ [XEnd (Some n)]"

definition blank :: xml_event where
  "blank = XText (Some [CHR 0x0A])"

definition response_events :: "dav_response \<Rightarrow> xml_event list" where
  "response_events d =
     element ''response'' ([blank] @ element ''href'' [XText (Some (dr_href d))] @ [blank]
       @ element ''propstat'' (element ''prop''
           ((case dr_length d of None \<Rightarrow> [] | Some n \<Rightarrow> element ''getcontentlength'' [XText (Some (show_nat (unat n)))])
            @ element ''resourcetype'' (if dr_collection d then [XEmpty (Some ''collection'')] else [])) @ [blank])) @ [blank]"

definition multistatus_events :: "dav_response list \<Rightarrow> xml_event list" where
  "multistatus_events ds = XOther # element ''multistatus'' (blank # concat (map response_events ds))"

definition response_entry :: "(string \<Rightarrow> string) \<Rightarrow> dav_response \<Rightarrow> remote_entry" where
  "response_entry decode d =
     \<lparr>rm_name = decode (file_name (trim_end_matches CHR ''/'' (dr_href d))), rm_size = dr_length d, rm_is_directory = dr_collection d\<rparr>"

lemma xml_run_append [simp]: "xml_run decode (xs @ ys) s = Option.bind (xml_run decode xs s) (xml_run decode ys)"
  by (induction xs arbitrary: s) (auto simp: bind_eq_Some_conv split: option.splits, (metis bind_assoc)?)

definition between :: "bool \<Rightarrow> remote_entry list \<Rightarrow> propfind_parser" where
  "between saw es = \<lparr>pf_state = PsNone, pf_saw_multistatus = saw, pf_in_response = False, pf_href = None,
     pf_size = None, pf_is_dir = False, pf_entries = es\<rparr>"

lemma digits_not_ws: "byte_in 48 57 c \<Longrightarrow> \<not> is_ws_char [c]"
  by (auto simp: is_ws_char_def byte_in_def)

lemma ws_char_last: "is_ws_char (xs @ [c]) \<Longrightarrow> \<not> byte_in 48 57 c"
  by (auto simp: is_ws_char_def byte_in_def append_eq_Cons_conv Cons_eq_append_conv nth_append split: if_splits)

lemma ws_char_first: "is_ws_char (c # xs) \<Longrightarrow> \<not> byte_in 48 57 c"
  by (auto simp: is_ws_char_def byte_in_def)

lemma trim_digits:
  assumes "s \<noteq> []" "\<forall>c \<in> set s. byte_in 48 57 c"
  shows "trim s = s"
proof -
  obtain c t where s: "s = c # t" using assms(1) by (cases s) auto
  obtain u d where s': "s = u @ [d]" using assms(1) by (cases s rule: rev_cases) auto
  have "front_ws s = 0" using assms(2) unfolding s front_ws_def by (auto dest: ws_char_first)
  moreover have "back_ws s = 0" using assms(2) unfolding s' back_ws_def
    using digits_not_ws [of d] by (auto simp: drop_Cons' dest!: ws_char_last split: if_splits)
  ultimately show ?thesis by (simp add: trim_def trim_front.simps trim_back.simps)
qed

lemma show_nat_bytes: "\<forall>c \<in> set (show_nat n). byte_in 48 57 c"
  using show_nat_digits by (auto simp: byte_in_def)

lemma parse_unsigned_show:
  assumes "n < bound"
  shows "parse_unsigned bound (trim (show_nat n)) = Some n"
proof -
  have "trim (show_nat n) = show_nat n" by (rule trim_digits) (simp_all add: show_nat_bytes)
  moreover obtain c t where ct: "show_nat n = c # t" by (cases "show_nat n") auto
  moreover have "c \<noteq> CHR ''+''" using show_nat_bytes [of n] by (auto simp: ct byte_in_def)
  ultimately show ?thesis using assms show_nat_bytes [of n] read_show_nat [of n] by (auto simp: parse_unsigned_def)
qed

lemma size_parsed: "parse_unsigned 18446744073709551616 (trim (show_nat (unat (n :: u64)))) = Some (unat n)"
  by (rule parse_unsigned_show) (use unsigned_less [of n] in simp)

lemma xml_run_response:
  assumes "rm_name (response_entry decode d) \<noteq> []"
  shows "xml_run decode (response_events d) (between saw es) = Some (between saw (es @ [response_entry decode d]))"
  using assms
  by (cases "dr_length d"; cases "dr_collection d")
    (simp_all add: response_events_def element_def blank_def between_def response_entry_def start_tag_def end_tag_def
       xml_text_def size_parsed del: xml_run_append)

lemma xml_run_responses:
  "\<forall>d \<in> set ds. rm_name (response_entry decode d) \<noteq> [] \<Longrightarrow>
     xml_run decode (concat (map response_events ds)) (between saw es) = Some (between saw (es @ map (response_entry decode) ds))"
  by (induction ds arbitrary: es) (simp_all add: xml_run_response)

text \<open>
  Reading back a listing: from the events of a multistatus document with the given
  responses the parser yields, in order, one entry for each response but the first (the
  directory itself), named by the decoded last component of its address, with the size
  and the directory flag the response states, provided that no name is empty.
\<close>
theorem listing_roundtrip:
  assumes "events xml = multistatus_events ds" "\<forall>d \<in> set ds. decode (file_name (trim_end_matches CHR ''/'' (dr_href d))) \<noteq> []"
  shows "parse_propfind_multistatus events decode xml =
           Some (map (\<lambda>d. \<lparr>rm_name = decode (file_name (trim_end_matches CHR ''/'' (dr_href d))),
                           rm_size = dr_length d, rm_is_directory = dr_collection d\<rparr>) (tl ds))"
proof -
  have ok: "\<forall>d \<in> set ds. rm_name (response_entry decode d) \<noteq> []" using assms(2) by (simp add: response_entry_def)
  have "propfind_start = between False []" by (simp add: propfind_start_def between_def)
  moreover have "start_tag ''multistatus'' (between False []) = between True []" by (simp add: start_tag_def between_def)
  moreover have "xml_text (Some x) (between b es) = Some (between b es)" for x b es by (simp add: xml_text_def between_def)
  moreover have "end_tag decode ''multistatus'' (between True es) = between True es" for es by (simp add: end_tag_def between_def)
  ultimately have "xml_run decode (events xml) propfind_start = Some (between True (map (response_entry decode) ds))"
    using xml_run_responses [OF ok, of True "[]"]
    by (simp add: assms(1) multistatus_events_def element_def blank_def)
  then show ?thesis by (simp add: parse_propfind_multistatus_def between_def map_tl [symmetric] response_entry_def)
qed

section \<open>A server\<close>

text \<open>
  A server that has the file \<open>/r/d/a.txt\<close> and the directory \<open>/r/d\<close>; a URL is the origin and
  a path.
\<close>

definition example_urls :: "(string \<times> string) url_crate" where
  "example_urls = \<lparr>url_parse = (\<lambda>s. Some (s, ''/'')), url_set_path = (\<lambda>p u. (fst u, p)), url_path = snd,
     url_as_str = (\<lambda>u. fst u @ snd u)\<rparr>"

definition example_http :: http_env where
  "example_http = \<lparr>he_build = (\<lambda>u. None),
     he_answer = (\<lambda>i q. case rq_method q of
         HEAD \<Rightarrow> if rq_url q = ''h/remote.php/dav/files/u/r/d/a.txt'' then Inr \<lparr>rs_status = 200, rs_body = Some []\<rparr> else Inl (StatusCode 404)
       | MKCOL \<Rightarrow> Inl (StatusCode 405)
       | _ \<Rightarrow> Inr \<lparr>rs_status = 201, rs_body = Some []\<rparr>),
     he_display = (\<lambda>e. []), he_secs = (\<lambda>i. 0), he_read = (\<lambda>i. True), he_write = (\<lambda>i. Written),
     he_base64 = (\<lambda>s. s), he_text = Some\<rparr>"

definition example_client :: "(string \<times> string) nextcloud_client" where
  "example_client = \<lparr>ncc_server_url = (''h'', ''/''), ncc_username = ''u'', ncc_remote_root = ''/r'',
     ncc_auth = \<lparr>ba_username = ''u'', ba_password = ''p''\<rparr>\<rparr>"

definition example_http_world :: http_world where
  "example_http_world = \<lparr>hw_log = [], hw_files = [''a.txt'' \<mapsto> ''xyz'']\<rparr>"

lemmas nextcloud_eval = example_urls_def example_http_def example_client_def example_http_world_def nc_upload_to_def
  ensure_dir_segments_def upload_body_def url_for_segments_def dav_root_url_def validate_filename_def encode_path_def
  encode_segment_def percent_spec_def dav_mkcol_def dav_head_def put_named_def dav_put_def send_plain logged_def verb_def
  map_status_def check_2xx_def classify_def http_read_file_def rename_with_suffix_at_def
  SEGMENT_RESERVED_def NON_ALPHANUMERIC_def trim_end_matches_def byte_in_def

lemma example_nc_upload:
  "map (\<lambda>q. (rq_method q, rq_url q)) (hw_log (fst (nc_upload_to example_http percent_spec example_urls example_client ''a.txt''
      [''d'', ''b.txt''] Rename example_http_world))) =
     [(MKCOL, ''h/remote.php/dav/files/u/r/d''), (HEAD, ''h/remote.php/dav/files/u/r/d/b.txt''),
      (PUT, ''h/remote.php/dav/files/u/r/d/b.txt'')]"
proof -
  have u: "[0..<Suc (unat RENAME_MAX_TRIES)] = 0 # [1..<101]" by (simp add: upt_rec RENAME_MAX_TRIES_def)
  have v: "[Suc 0..<Suc (Suc 0)] = [Suc 0]" by simp
  show ?thesis by (simp add: nextcloud_eval u v Let_def del: upt.simps upt_conv_Cons)
qed

theorem upload_looks_before_put_witness:
  "hw_files (fst (nc_upload_to example_http percent_spec example_urls example_client ''a.txt'' [''d'', ''b.txt''] Rename
       example_http_world)) = hw_files example_http_world
   \<and> map rq_method (hw_log (fst (nc_upload_to example_http percent_spec example_urls example_client ''a.txt'' [''d'', ''b.txt'']
       Rename example_http_world))) = [MKCOL, HEAD, PUT]"
proof
  show "hw_files (fst (nc_upload_to example_http percent_spec example_urls example_client ''a.txt'' [''d'', ''b.txt''] Rename
       example_http_world)) = hw_files example_http_world"
    by (rule conjunct1 [OF upload_looks_before_put [OF prod.collapse [symmetric]]]) simp
  show "map rq_method (hw_log (fst (nc_upload_to example_http percent_spec example_urls example_client ''a.txt'' [''d'', ''b.txt'']
       Rename example_http_world))) = [MKCOL, HEAD, PUT]"
    using arg_cong [OF example_nc_upload, of "map fst"] by (simp add: comp_def)
qed

theorem listing_roundtrip_witness:
  "parse_propfind_multistatus (\<lambda>x. multistatus_events [\<lparr>dr_href = ''/f/d/'', dr_length = None, dr_collection = True\<rparr>,
      \<lparr>dr_href = ''/f/d/s/'', dr_length = None, dr_collection = True\<rparr>, \<lparr>dr_href = ''/f/d/a'', dr_length = Some 12, dr_collection = False\<rparr>])
     (\<lambda>s. s) [] = Some [\<lparr>rm_name = ''s'', rm_size = None, rm_is_directory = True\<rparr>,
                        \<lparr>rm_name = ''a'', rm_size = Some 12, rm_is_directory = False\<rparr>]"
  by (subst listing_roundtrip [OF refl]) (auto simp: file_name_def trim_end_matches_def)

text \<open>
  \<open>MKCOL\<close> answers 405 where something exists and 409 where the parent is missing; both
  are taken for success.
\<close>

lemma missing_parent_accepted:
  assumes "he_build H (url_as_str U (dav_root_url pct U c)) = None"
    and "\<forall>i q. rq_method q = MKCOL \<longrightarrow> he_answer H i q = Inl (StatusCode 409)"
  shows "snd (ensure_remote_root H pct U c w) = Inr ()"
  using assms by (simp add: ensure_remote_root_def dav_mkcol_def send_plain verb_def map_status_def check_2xx_def classify_def)

end
