(* ===== verification/Paths.thy ===== *)
theory Paths
  imports Disk "HOL-Library.Sublist"
begin

text \<open>
  Where the program keeps its files (core/src/config/paths.rs), the check of the
  directory that holds the agent's socket, and the small configuration file
  (config/local_config.rs). The directories of the platform (crate \<open>directories\<close>) and
  the TOML codec are parameters.
\<close>

section \<open>The layout (paths.rs)\<close>

definition APP_DIR_NAME :: string where "APP_DIR_NAME = ''zz-drop''"
definition CONFIG_FILE_NAME :: string where "CONFIG_FILE_NAME = ''config.toml''"
definition PROFILES_LOCAL_FILE_NAME :: string where "PROFILES_LOCAL_FILE_NAME = ''profiles-local.zz''"
definition PROFILES_REMOTE_FILE_NAME :: string where "PROFILES_REMOTE_FILE_NAME = ''profiles-remote.zz''"
definition LAST_DEFAULT_LOCAL_FILE_NAME :: string where "LAST_DEFAULT_LOCAL_FILE_NAME = ''last-default-local''"
definition LAST_DEFAULT_REMOTE_FILE_NAME :: string where "LAST_DEFAULT_REMOTE_FILE_NAME = ''last-default-remote''"
definition AGENT_SOCKET_NAME :: string where "AGENT_SOCKET_NAME = ''agent.sock''"
definition TOKEN_FILE_NAME :: string where "TOKEN_FILE_NAME = ''token''"

record paths =
  p_config_dir :: string
  p_cache_dir :: string
  p_runtime_dir :: string
  p_config_file :: string
  p_profiles_local_file :: string
  p_profiles_remote_file :: string
  p_last_default_local_file :: string
  p_last_default_remote_file :: string
  p_agent_socket :: string
  p_token_file :: string

definition active_profile_file :: "(string \<Rightarrow> bool) \<Rightarrow> paths \<Rightarrow> string option" where
  "active_profile_file exists p =
     (if exists (p_profiles_remote_file p) then Some (p_profiles_remote_file p)
      else if exists (p_profiles_local_file p) then Some (p_profiles_local_file p)
      else None)"

definition debug_log_file :: "paths \<Rightarrow> string" where
  "debug_log_file p = path_join (p_cache_dir p) ''zz-drop.log''"

record path_overrides =
  po_config_dir :: "string option"
  po_cache_dir :: "string option"
  po_runtime_dir :: "string option"

datatype config_path_error = NoBaseDirs | PathIo string

definition config_root_from_env :: "(string \<Rightarrow> string option) \<Rightarrow> (config_path_error, path_overrides option) result" where
  "config_root_from_env lookup =
     (case lookup ''ZZ_CONFIG_DIR'' of
        None \<Rightarrow> Inr None
      | Some s \<Rightarrow>
          if s = [] then Inr None
          else if hd s \<noteq> CHR ''/'' then Inl (PathIo (''ZZ_CONFIG_DIR=`'' @ s @ ''` must be an absolute path''))
          else Inr (Some \<lparr>po_config_dir = Some (path_join s ''config''), po_cache_dir = Some (path_join s ''cache''),
                          po_runtime_dir = Some (path_join s ''runtime'')\<rparr>))"

text \<open>\<open>directories::BaseDirs\<close>; on some platforms there is no runtime directory.\<close>

record base_dirs =
  bd_config :: string
  bd_cache :: string
  bd_runtime :: "string option"

definition running_under_cargo_test :: "string option \<Rightarrow> bool" where
  "running_under_cargo_test exe =
     (case exe of None \<Rightarrow> False | Some s \<Rightarrow> sublist ''/target/'' s \<and> sublist ''/deps/'' s)"

definition in_test_binary :: "(string \<Rightarrow> string option) \<Rightarrow> string option \<Rightarrow> path_overrides \<Rightarrow> bool" where
  "in_test_binary env exe overrides \<longleftrightarrow>
     po_config_dir overrides = None \<and> env ''ZZ_DROP_TEST_ALLOW_REAL_CONFIG'' = None \<and> running_under_cargo_test exe"

definition TEST_BINARY_MESSAGE :: string where
  "TEST_BINARY_MESSAGE = ''discover_paths called without config_dir override from a test binary; ''
     @ ''tests must use an explicit tempdir to avoid clobbering the user'' @ [CHR 0x27] @ ''s ''
     @ ''profiles-local.zz (set ZZ_DROP_TEST_ALLOW_REAL_CONFIG=1 to bypass)''"

definition or_app_dir :: "string option \<Rightarrow> string \<Rightarrow> string" where
  "or_app_dir override base = (case override of Some p \<Rightarrow> p | None \<Rightarrow> path_join base APP_DIR_NAME)"

definition discover_paths ::
  "(string \<Rightarrow> string option) \<Rightarrow> string option \<Rightarrow> base_dirs option \<Rightarrow> nat \<Rightarrow> path_overrides \<Rightarrow> (config_path_error, paths) result" where
  "discover_paths env exe base uid overrides =
     (if in_test_binary env exe overrides then Inl (PathIo TEST_BINARY_MESSAGE)
      else case base of
        None \<Rightarrow> Inl NoBaseDirs
      | Some b \<Rightarrow>
          (let config_dir = or_app_dir (po_config_dir overrides) (bd_config b);
               cache_dir = or_app_dir (po_cache_dir overrides) (bd_cache b);
               runtime_dir = (case po_runtime_dir overrides of
                    Some p \<Rightarrow> p
                  | None \<Rightarrow> (case bd_runtime b of
                               Some p \<Rightarrow> path_join p APP_DIR_NAME
                             | None \<Rightarrow> ''/tmp/'' @ APP_DIR_NAME @ ''-'' @ show_nat uid))
           in Inr \<lparr>p_config_dir = config_dir, p_cache_dir = cache_dir, p_runtime_dir = runtime_dir,
                p_config_file = path_join config_dir CONFIG_FILE_NAME,
                p_profiles_local_file = path_join config_dir PROFILES_LOCAL_FILE_NAME,
                p_profiles_remote_file = path_join config_dir PROFILES_REMOTE_FILE_NAME,
                p_last_default_local_file = path_join config_dir LAST_DEFAULT_LOCAL_FILE_NAME,
                p_last_default_remote_file = path_join config_dir LAST_DEFAULT_REMOTE_FILE_NAME,
                p_agent_socket = path_join runtime_dir AGENT_SOCKET_NAME,
                p_token_file = path_join runtime_dir TOKEN_FILE_NAME\<rparr>))"

lemmas path_name_defs = APP_DIR_NAME_def CONFIG_FILE_NAME_def PROFILES_LOCAL_FILE_NAME_def PROFILES_REMOTE_FILE_NAME_def
  LAST_DEFAULT_LOCAL_FILE_NAME_def LAST_DEFAULT_REMOTE_FILE_NAME_def AGENT_SOCKET_NAME_def TOKEN_FILE_NAME_def

text \<open>The six files of the configuration directory are different files.\<close>

lemma path_join_inject:
  "hd m \<noteq> CHR ''/'' \<Longrightarrow> hd n \<noteq> CHR ''/'' \<Longrightarrow> path_join d m = path_join d n \<longleftrightarrow> m = n"
  by (auto simp: path_join_def)

lemma discovered_distinct:
  assumes "discover_paths env exe base uid overrides = Inr p"
  shows "distinct [p_config_file p, p_profiles_local_file p, p_profiles_remote_file p, p_last_default_local_file p,
           p_last_default_remote_file p]"
    and "p_agent_socket p \<noteq> p_token_file p"
  using assms
  by (auto simp: discover_paths_def Let_def path_join_inject path_name_defs split: if_splits option.splits)

section \<open>The private directory (paths.rs)\<close>

fun show_octal :: "nat \<Rightarrow> string" where
  "show_octal n = (if n < 8 then [char_of (48 + n)] else show_octal (n div 8) @ [char_of (48 + n mod 8)])"

declare show_octal.simps [simp del]

text \<open>\<open>symlink_metadata\<close>: a symbolic link is not a directory.\<close>

record dir_meta =
  dm_is_dir :: bool
  dm_uid :: u32
  dm_mode :: u32

definition verify_private_dir :: "(string, dir_meta) result \<Rightarrow> string \<Rightarrow> u32 \<Rightarrow> (config_path_error, unit) result" where
  "verify_private_dir lstat path uid =
     (case lstat of
        Inl e \<Rightarrow> Inl (PathIo e)
      | Inr meta \<Rightarrow>
          if \<not> dm_is_dir meta then Inl (PathIo (path @ '' is not a directory; refusing to use it for the agent socket''))
          else if dm_uid meta \<noteq> uid then
            Inl (PathIo (path @ '' is owned by uid '' @ show_nat (unat (dm_uid meta)) @ '' (expected '' @ show_nat (unat uid) @ ''); refusing''))
          else if and (dm_mode meta) 63 \<noteq> 0 then
            Inl (PathIo (path @ '' has group/other permission bits (mode 0'' @ show_octal (unat (and (dm_mode meta) 511)) @ ''); refusing''))
          else Inr ())"

section \<open>The configuration file (local_config.rs)\<close>

record local_config =
  lcf_server_base_url :: string
  lcf_default_alias :: "string option"

definition default_server_base_url :: string where
  "default_server_base_url = ''https://zz-drop.net''"

definition local_config_default :: local_config where
  "local_config_default = \<lparr>lcf_server_base_url = default_server_base_url, lcf_default_alias = None\<rparr>"

datatype config_error = ConfigIo string | ConfigMalformed string

text \<open>\<open>to_string\<close> and \<open>from_str\<close> of the crate \<open>toml\<close> on the record; comments are skipped.\<close>

record toml_codec =
  toml_write :: "local_config \<Rightarrow> (string, string) result"
  toml_read :: "string \<Rightarrow> (string, local_config) result"

definition CONFIG_HEADER :: string where
  "CONFIG_HEADER = ''# zz-drop config '' @ [CHR 0xE2, CHR 0x80, CHR 0x94] @ '' never put secrets here'' @ [CHR 0x0A]"

definition config_load :: "toml_codec \<Rightarrow> bool \<Rightarrow> io_plan \<Rightarrow> disk \<Rightarrow> string \<Rightarrow> (config_error, local_config) result" where
  "config_load T readable pl d path =
     (case d_files d path of
        Some f \<Rightarrow> if readable \<and> utf8_ok (f_data f) then rmap_err ConfigMalformed (toml_read T (f_data f)) else Inl (ConfigIo (pl_msg pl))
      | None \<Rightarrow> Inl (ConfigIo (pl_msg pl)))"

definition config_load_or_default :: "toml_codec \<Rightarrow> bool \<Rightarrow> io_plan \<Rightarrow> disk \<Rightarrow> string \<Rightarrow> (config_error, local_config) result" where
  "config_load_or_default T readable pl d path =
     (case d_files d path of
        None \<Rightarrow> Inr local_config_default
      | Some f \<Rightarrow> if readable \<and> utf8_ok (f_data f) then rmap_err ConfigMalformed (toml_read T (f_data f)) else Inl (ConfigIo (pl_msg pl)))"

definition config_save :: "toml_codec \<Rightarrow> io_plan \<Rightarrow> disk \<Rightarrow> string \<Rightarrow> local_config \<Rightarrow> disk \<times> (config_error, unit) result" where
  "config_save T pl d path c =
     (case toml_write T c of
        Inl e \<Rightarrow> (d, Inl (ConfigMalformed e))
      | Inr body \<Rightarrow>
          (let (d1, written) = fs_write MODE_DEFAULT pl d path (CONFIG_HEADER @ body) in
           if \<not> written then (d1, Inl (ConfigIo (pl_msg pl)))
           else let (d2, changed) = fs_chmod MODE_0600 pl d1 path
                in (d2, if changed then Inr () else Inl (ConfigIo (pl_msg pl)))))"

end
