(* ===== verification/Session.thy ===== *)
theory Session
  imports Paths Agent Passphrase Sidecars Output Http
begin

text \<open>
  The commands that open, close and erase a session: \<open>zz z\<close>, \<open>zz q\<close>, \<open>zz w\<close>
  (src/commands/z_unlock.rs, q_lock.rs, w_wipe.rs), the picker (src/picker.rs), the
  client side of the agent's socket (src/agent/client.rs) and the lock file that tells
  an agent of another build (src/agent/lock.rs). A session is the disk, the agent that
  listens on the socket if one does, and the two streams. What the world decides is the
  environment; the diagnostic log is left out.
\<close>

section \<open>The world of a session\<close>

record session =
  ss_disk :: disk
  ss_socket :: bool
  ss_agent :: "agent option"
  ss_killed :: "int list"
  ss_console :: console
  ss_tick :: nat

datatype client_error = SocketUnreachable string | HandshakeFailed | ClientIo string | ClientEncode string | ClientDecode string

text \<open>A request is answered, or lost before or after the agent served it.\<close>

datatype fate = Delivered | LostBefore client_error | LostAfter client_error

record session_env =
  se_flags :: global_flags
  se_out :: "nat \<Rightarrow> out_env"
  se_uid :: u32
  se_passphrase :: passphrase_env
  se_prompt :: "(string, string) result"
  se_line :: "string option"
  se_tty :: bool
  se_stderr :: bool
  se_prims :: prims
  se_salt :: bytes
  se_nonce :: bytes
  se_policy_io :: io_plan
  se_sidecar_io :: io_plan
  se_readable :: "string \<Rightarrow> bool"
  se_msg :: string
  se_build_id :: "string option"
  se_spawn :: "string option"
  se_boots :: bool
  se_pid :: nat
  se_token :: string
  se_lstat :: "(string, dir_meta) result"
  se_connects :: bool
  se_peer :: "(string, u32) result"
  se_sends :: bool
  se_fate :: fate
  se_agent_env :: "nat \<Rightarrow> agent_env"
  se_debug :: "agent_response \<Rightarrow> string"
  se_crypto_text :: "crypto_error \<Rightarrow> string"
  se_pass_text :: "passphrase_error \<Rightarrow> string"
  se_confirm :: "string option"
  se_removes :: "string \<Rightarrow> bool"
  se_rmdir :: "(io_error, unit) result"

definition announce :: "session_env \<Rightarrow> (out_env \<Rightarrow> console \<Rightarrow> console) \<Rightarrow> session \<Rightarrow> session" where
  "announce E f s = s\<lparr>ss_console := f (se_out E (ss_tick s)) (ss_console s), ss_tick := ss_tick s + 1\<rparr>"

definition fail_with :: "session_env \<Rightarrow> reason \<Rightarrow> string option \<Rightarrow> int \<Rightarrow> session \<Rightarrow> session \<times> int" where
  "fail_with E r detail code s = (announce E (\<lambda>X. emit_failed_bare X r detail) s, code)"

definition file_exists :: "session \<Rightarrow> string \<Rightarrow> bool" where
  "file_exists s p \<longleftrightarrow> d_files (ss_disk s) p \<noteq> None"

definition read_to_string :: "session_env \<Rightarrow> session \<Rightarrow> string \<Rightarrow> string option" where
  "read_to_string E s p =
     (case d_files (ss_disk s) p of
        Some f \<Rightarrow> if se_readable E p \<and> utf8_ok (f_data f) then Some (f_data f) else None
      | None \<Rightarrow> None)"

section \<open>The client of the agent (agent/client.rs)\<close>

fun client_error_text :: "client_error \<Rightarrow> string" where
  "client_error_text (SocketUnreachable e) = ''agent unreachable: '' @ e"
| "client_error_text HandshakeFailed = ''handshake failed''"
| "client_error_text (ClientIo e) = ''io: '' @ e"
| "client_error_text (ClientEncode e) = ''encode: '' @ e"
| "client_error_text (ClientDecode e) = ''decode: '' @ e"

fun path_error_text :: "config_path_error \<Rightarrow> string" where
  "path_error_text NoBaseDirs = ''could not resolve home directory for the current user''"
| "path_error_text (PathIo e) = ''io error: '' @ e"

definition read_token_file :: "session_env \<Rightarrow> session \<Rightarrow> string \<Rightarrow> (security_error, string) result" where
  "read_token_file E s p =
     (case d_files (ss_disk s) p of
        Some f \<Rightarrow> if \<not> se_readable E p then Inl (SecIo (se_msg E))
                  else if length (f_data f) \<noteq> TOKEN_LEN then Inl SecUnauthorized else Inr (f_data f)
      | None \<Rightarrow> Inl (SecIo (se_msg E)))"

text \<open>The parent of the socket is the runtime directory. The token is sent last.\<close>

definition client_connect :: "session_env \<Rightarrow> paths \<Rightarrow> session \<Rightarrow> (client_error, unit) result" where
  "client_connect E p s =
     (case verify_private_dir (se_lstat E) (p_runtime_dir p) (se_uid E) of
        Inl e \<Rightarrow> Inl (SocketUnreachable (path_error_text e))
      | Inr _ \<Rightarrow>
          if ss_agent s = None \<or> \<not> ss_socket s \<or> \<not> se_connects E then Inl (SocketUnreachable (se_msg E))
          else case check_peer_uid (se_peer E) (se_uid E) of
            Inl _ \<Rightarrow> Inl HandshakeFailed
          | Inr _ \<Rightarrow>
              (case read_token_file E s (p_token_file p) of
                 Inl _ \<Rightarrow> Inl HandshakeFailed
               | Inr token \<Rightarrow> if se_sends E then Inr () else Inl HandshakeFailed))"

text \<open>A request the agent serves; it sees the disk as it is.\<close>

definition served :: "session_env \<Rightarrow> agent_request \<Rightarrow> session \<Rightarrow> session \<times> agent_response option" where
  "served E req s =
     (case ss_agent s of
        None \<Rightarrow> (s, None)
      | Some st \<Rightarrow>
          (let (st', resp) = dispatch (se_agent_env E 1) req (touch (se_agent_env E 0) (st\<lparr>ag_disk := ss_disk s\<rparr>))
           in (s\<lparr>ss_agent := (if req = Exit then None else Some st'), ss_disk := ag_disk st'\<rparr>, Some resp)))"

definition client_request :: "session_env \<Rightarrow> agent_request \<Rightarrow> session \<Rightarrow> session \<times> (client_error, agent_response) result" where
  "client_request E req s =
     (case se_fate E of
        LostBefore e \<Rightarrow> (s, Inl e)
      | LostAfter e \<Rightarrow> (fst (served E req s), Inl e)
      | Delivered \<Rightarrow>
          (case served E req s of
             (s', Some resp) \<Rightarrow> (s', Inr resp)
           | (s', None) \<Rightarrow> (s', Inl (ClientIo (se_msg E)))))"

section \<open>The lock file (agent/lock.rs)\<close>

definition LOCK_FILE_NAME :: string where "LOCK_FILE_NAME = ''agent.lock''"

definition lock_path :: "string \<Rightarrow> string" where
  "lock_path runtime_dir = path_join runtime_dir LOCK_FILE_NAME"

definition write_lock :: "io_plan \<Rightarrow> disk \<Rightarrow> string \<Rightarrow> nat \<Rightarrow> string \<Rightarrow> disk \<times> bool" where
  "write_lock pl d runtime_dir pid build_id =
     (let path = lock_path runtime_dir;
          (d1, written) = fs_write MODE_0600 pl d path (show_nat pid @ [nl] @ build_id @ [nl])
      in if written then fs_chmod MODE_0600 pl d1 path else (d1, False))"

datatype stale_check = NoLock | LockMatch | KilledStale | LockUnreadable

text \<open>\<open>str::lines\<close>, and \<open>parse\<close> of an \<open>i32\<close>.\<close>

definition str_lines :: "string \<Rightarrow> string list" where
  "str_lines s =
     (let ws = split_on nl s; ws = (if last ws = [] then butlast ws else ws)
      in map (\<lambda>w. if w \<noteq> [] \<and> last w = CHR 0x0D then butlast w else w) ws)"

definition parse_i32 :: "string \<Rightarrow> int option" where
  "parse_i32 s =
     (if s \<noteq> [] \<and> hd s = CHR ''-'' then
        (if tl s = [] \<or> hd (tl s) = CHR ''+'' then None else map_option (\<lambda>n. - int n) (parse_unsigned (2 ^ 31 + 1) (tl s)))
      else map_option int (parse_unsigned (2 ^ 31) s))"

definition remove_file :: "session_env \<Rightarrow> string \<Rightarrow> session \<Rightarrow> session" where
  "remove_file E p s = (if se_removes E p \<and> file_exists s p then s\<lparr>ss_disk := fs_remove (ss_disk s) p\<rparr> else s)"

text \<open>The socket is not a regular file; an agent whose socket is gone cannot be reached.\<close>

definition remove_socket :: "session_env \<Rightarrow> string \<Rightarrow> session \<Rightarrow> session" where
  "remove_socket E p s = (if se_removes E p then s\<lparr>ss_socket := False, ss_agent := None\<rparr> else s)"

definition check_for_stale_agent :: "session_env \<Rightarrow> paths \<Rightarrow> session \<Rightarrow> session \<times> stale_check" where
  "check_for_stale_agent E p s =
     (let path = lock_path (p_runtime_dir p) in
      if \<not> file_exists s path then (s, NoLock)
      else case read_to_string E s path of
        None \<Rightarrow> (s, LockUnreadable)
      | Some raw \<Rightarrow>
          (case str_lines raw of
             [] \<Rightarrow> (s, LockUnreadable)
           | pid_line # rest \<Rightarrow>
               (case parse_i32 pid_line of
                  None \<Rightarrow> (s, LockUnreadable)
                | Some pid \<Rightarrow>
                    (case (rest, se_build_id E) of
                       (agent_build # _, Some our_build) \<Rightarrow>
                         if agent_build = our_build then (s, LockMatch)
                         else (remove_file E path (remove_file E (p_token_file p) (remove_socket E (p_agent_socket p)
                                 (if 0 < pid then s\<lparr>ss_killed := ss_killed s @ [pid]\<rparr> else s))), KilledStale)
                     | _ \<Rightarrow> (s, LockUnreadable)))))"

text \<open>
  A new agent (\<open>run\<close> in agent/server.rs, up to its loop): the token and the lock file,
  then an empty state on the local container.
\<close>

definition boot_agent :: "session_env \<Rightarrow> paths \<Rightarrow> session \<Rightarrow> session" where
  "boot_agent E p s =
     (let d1 = fs_commit (ss_disk s) ((d_files (ss_disk s))(p_token_file p \<mapsto> \<lparr>f_data = se_token E, f_mode = MODE_0600, f_mtime = 0\<rparr>));
          d2 = (case se_build_id E of
                  Some b \<Rightarrow> fst (write_lock (io_all_ok 0) d1 (p_runtime_dir p) (se_pid E) b)
                | None \<Rightarrow> d1)
      in s\<lparr>ss_disk := d2, ss_socket := True,
           ss_agent := Some (agent_new (from_secs (of_nat DEFAULT_TTL_SECS)) (ae_now (se_agent_env E 0)) (p_profiles_local_file p) d2)\<rparr>)"

section \<open>The picker (picker.rs)\<close>

datatype pick_error = InvalidIndex | PickStdin | EmptyList | NotInteractive

fun position_of :: "'a \<Rightarrow> 'a list \<Rightarrow> nat option" where
  "position_of d [] = None"
| "position_of d (a # rest) = (if a = d then Some 0 else map_option Suc (position_of d rest))"

fun picker_rows :: "nat \<Rightarrow> nat option \<Rightarrow> string list \<Rightarrow> string" where
  "picker_rows i default_idx [] = []"
| "picker_rows i default_idx (a # rest) =
     ''  ['' @ show_nat i @ ''] '' @ a @ (if Some i = default_idx then ''  (last used)'' else []) @ [nl]
       @ picker_rows (i + 1) default_idx rest"

text \<open>
  The result and what was printed. \<open>writes\<close> is the standard error stream taking text,
  \<open>line\<close> the line read, or \<open>None\<close> for an error.
\<close>

definition pick_alias_io ::
  "string list \<Rightarrow> string option \<Rightarrow> string option \<Rightarrow> bool \<Rightarrow> bool \<Rightarrow> (pick_error, string) result \<times> string" where
  "pick_alias_io names default_alias line writes interactive =
     (if names = [] then (Inl EmptyList, [])
      else if length names = 1 then (Inr (hd names), [])
      else
        let default_idx = Option.bind default_alias (\<lambda>d. map_option Suc (position_of d names)) in
        if \<not> interactive \<and> default_idx = None then (Inl NotInteractive, [])
        else if \<not> writes then (Inl PickStdin, [])
        else
          let shown = picker_rows 1 default_idx names @ ''select [1-'' @ show_nat (length names)
                @ (if default_idx \<noteq> None then ''] (Enter for last used): '' else '']: '')
          in (case line of
                None \<Rightarrow> Inl PickStdin
              | Some l \<Rightarrow>
                  if trim l = [] then
                    (case default_idx of Some idx \<Rightarrow> Inr (names ! (idx - 1)) | None \<Rightarrow> Inl InvalidIndex)
                  else case parse_unsigned (2 ^ 64) (trim l) of
                    None \<Rightarrow> Inl InvalidIndex
                  | Some idx \<Rightarrow> if idx = 0 \<or> length names < idx then Inl InvalidIndex else Inr (names ! (idx - 1)),
              shown))"

definition pick_alias :: "session_env \<Rightarrow> string list \<Rightarrow> string option \<Rightarrow> session \<Rightarrow> session \<times> (pick_error, string) result" where
  "pick_alias E names default_alias s =
     (let (r, shown) = pick_alias_io names default_alias (se_line E) (se_stderr E) (se_tty E)
      in (s\<lparr>ss_console := (ss_console s)\<lparr>co_err := co_err (ss_console s) @ shown\<rparr>\<rparr>, r))"

end
