(* ===== verification/Unlock.thy ===== *)
theory Unlock
  imports Session
begin

text \<open>
  The commands \<open>zz z\<close>, \<open>zz q\<close> and \<open>zz w\<close> (src/commands/z_unlock.rs, q_lock.rs,
  w_wipe.rs) over the world of a session. The build is the default one, without the
  \<open>remote\<close> feature.
\<close>

section \<open>Unlocking (z_unlock.rs)\<close>

definition UNLOCK_TTL_SECS :: u64 where "UNLOCK_TTL_SECS = 600"

definition scriptable :: "session_env \<Rightarrow> bool" where
  "scriptable E \<longleftrightarrow> gf_output (se_flags E) = JsonMode \<or> gf_output (se_flags E) = QuietMode"

definition obtain_passphrase :: "session_env \<Rightarrow> session \<Rightarrow> session \<times> (int, string) result" where
  "obtain_passphrase E s =
     (case gf_passphrase_file (se_flags E) of
        Some path \<Rightarrow>
          (case read_passphrase_file (se_passphrase E) path (se_uid E) of
             Inr pw \<Rightarrow> (s, Inr pw)
           | Inl e \<Rightarrow>
               (let (s', code) = fail_with E (if is_insecure e then PassphraseFilePermissions else Usage) (Some (se_pass_text E e))
                      (if is_insecure e then EXIT_PASSPHRASE_FILE_INSECURE else EXIT_USAGE) s
                in (s', Inl code)))
      | None \<Rightarrow>
          if scriptable E then
            (let (s', code) = fail_with E InteractiveRequired
                   (Some (''passphrase prompt would block in scriptable mode '' @ em_dash
                     @ '' pass `--passphrase-file <path>` or set ZZ_PASSPHRASE_FILE'')) EXIT_USAGE s
             in (s', Inl code))
          else case se_prompt E of
            Inr pw \<Rightarrow> (s, Inr pw)
          | Inl e \<Rightarrow>
              (let (s', code) = fail_with E Usage (Some (''could not read passphrase: '' @ e)) EXIT_USAGE s in (s', Inl code)))"

definition ambiguous :: "session_env \<Rightarrow> string list \<Rightarrow> session \<Rightarrow> session \<times> (int, string) result" where
  "ambiguous E names s = (announce E (\<lambda>X. emit_failed_alias_ambiguous X names) s, Inl EXIT_USAGE)"

definition choose_alias :: "session_env \<Rightarrow> string list \<Rightarrow> string option \<Rightarrow> session \<Rightarrow> session \<times> (int, string) result" where
  "choose_alias E names cached s =
     (if scriptable E then
        (case gf_alias (se_flags E) of
           Some flag \<Rightarrow> if flag \<in> set names then (s, Inr flag) else ambiguous E names s
         | None \<Rightarrow>
             (case cached of
                Some c \<Rightarrow> (s, Inr c)
              | None \<Rightarrow> if length names = 1 then (s, Inr (hd names)) else ambiguous E names s))
      else case pick_alias E names cached s of
        (s', Inr a) \<Rightarrow> (s', Inr a)
      | (s', Inl e) \<Rightarrow>
          (let (s'', code) = (case e of
               EmptyList \<Rightarrow> fail_with E DecryptFailed (Some ''profile container is empty'') EXIT_DECRYPT_FAILED s'
             | NotInteractive \<Rightarrow> fail_with E InteractiveRequired (Some ''no cached default and stdin is not a terminal'') EXIT_USAGE s'
             | InvalidIndex \<Rightarrow> fail_with E Usage (Some ''invalid selection'') EXIT_USAGE s'
             | PickStdin \<Rightarrow> fail_with E Usage (Some ''could not read selection'') EXIT_USAGE s')
           in (s'', Inl code)))"

definition decrypt_failure_text :: "session_env \<Rightarrow> crypto_error \<Rightarrow> string" where
  "decrypt_failure_text E e =
     (case e of
        Aead \<Rightarrow> ''decryption failed (wrong passphrase or corrupted container)''
      | LegacyFormat \<Rightarrow> ''legacy single-profile blob detected '' @ em_dash @ '' no in-place migration; run `zz w` and re-set up''
      | _ \<Rightarrow> ''decryption failed: '' @ se_crypto_text E e)"

text \<open>A rotation that fails leaves the unlock valid. Both notices are printed as they are.\<close>

definition maybe_rotate_kek ::
  "session_env \<Rightarrow> profile_set \<Rightarrow> profile_kek \<Rightarrow> string \<Rightarrow> string \<Rightarrow> session \<Rightarrow> session \<times> profile_kek" where
  "maybe_rotate_kek E set0 kek pw path s =
     (case rotate_set_if_needed (se_prims E) (se_salt E) (se_nonce E) (se_policy_io E) (ss_disk s) set0 kek pw path POLICY_V1 of
        (d, Inr (Some new_kek)) \<Rightarrow>
          (announce E (\<lambda>X. out_line ''unlock: rotated KDF parameters to v1 policy'') (s\<lparr>ss_disk := d\<rparr>), new_kek)
      | (d, Inr None) \<Rightarrow> (s\<lparr>ss_disk := d\<rparr>, kek)
      | (d, Inl e) \<Rightarrow>
          (announce E (\<lambda>X. err_line (''unlock: KDF rotation skipped: '' @ se_crypto_text E e @ '' (will retry on next unlock)''))
             (s\<lparr>ss_disk := d\<rparr>), kek))"

definition send_unlock ::
  "session_env \<Rightarrow> paths \<Rightarrow> profile_set \<Rightarrow> profile_kek \<Rightarrow> string \<Rightarrow> string \<Rightarrow> session \<Rightarrow> session \<times> int" where
  "send_unlock E p set0 kek alias target s =
     (case client_connect E p s of
        Inl e \<Rightarrow> fail_with E AgentUnreachable (Some (''could not connect to agent: '' @ client_error_text e)) EXIT_AGENT_UNREACHABLE s
      | Inr _ \<Rightarrow>
          (case client_request E (Unlock set0 (from_kek kek) alias (Some UNLOCK_TTL_SECS)) s of
             (s', Inr resp) \<Rightarrow>
               if resp = Unlocked then
                 (let d = fst (write_local_default (se_sidecar_io E) (ss_disk s') (p_last_default_local_file p) alias)
                  in (announce E (\<lambda>X. emit_unlocked X alias target) (s'\<lparr>ss_disk := d\<rparr>), EXIT_OK))
               else fail_with E AgentUnreachable (Some (''unexpected agent response: '' @ se_debug E resp)) EXIT_AGENT_UNREACHABLE s'
           | (s', Inl HandshakeFailed) \<Rightarrow>
               fail_with E AgentUnreachable (Some ''agent handshake failed (token mismatch)'') EXIT_AGENT_UNREACHABLE s'
           | (s', Inl e) \<Rightarrow>
               fail_with E AgentUnreachable (Some (''agent error: '' @ client_error_text e)) EXIT_AGENT_UNREACHABLE s'))"

definition hand_over ::
  "session_env \<Rightarrow> paths \<Rightarrow> profile_set \<Rightarrow> profile_kek \<Rightarrow> string \<Rightarrow> string \<Rightarrow> session \<Rightarrow> session \<times> int" where
  "hand_over E p set0 kek alias target s0 =
     (let s = fst (check_for_stale_agent E p s0) in
      if ss_socket s then send_unlock E p set0 kek alias target s
      else case se_spawn E of
        Some e \<Rightarrow> fail_with E AgentUnreachable (Some (''could not start agent: '' @ e)) EXIT_AGENT_UNREACHABLE s
      | None \<Rightarrow>
          if \<not> se_boots E then fail_with E AgentUnreachable (Some ''agent did not come up in time'') EXIT_AGENT_UNREACHABLE s
          else send_unlock E p set0 kek alias target (boot_agent E p s))"

text \<open>The alias of the sidecar counts if the container still has it.\<close>

definition cached_alias :: "session_env \<Rightarrow> paths \<Rightarrow> profile_set \<Rightarrow> session \<Rightarrow> string option" where
  "cached_alias E p set0 s =
     (case read_local_default (se_readable E (p_last_default_local_file p)) (se_sidecar_io E) (ss_disk s) (p_last_default_local_file p) of
        Inr d \<Rightarrow> if contains_alias set0 (ld_alias d) then Some (ld_alias d) else None
      | Inl _ \<Rightarrow> None)"

definition with_container ::
  "session_env \<Rightarrow> paths \<Rightarrow> profile_set \<Rightarrow> profile_kek \<Rightarrow> string \<Rightarrow> session \<Rightarrow> session \<times> int" where
  "with_container E p set0 kek0 pw s0 =
     (let (s, kek) = maybe_rotate_kek E set0 kek0 pw (p_profiles_local_file p) s0 in
      if set_is_empty set0 then
        fail_with E DecryptFailed (Some ''profile container is empty; run `zz c` to add a profile'') EXIT_DECRYPT_FAILED s
      else case choose_alias E (aliases set0) (cached_alias E p set0 s) s of
        (s', Inl code) \<Rightarrow> (s', code)
      | (s', Inr alias) \<Rightarrow>
          hand_over E p set0 kek alias (case find_by_alias set0 alias of Some pr \<Rightarrow> profile_target pr | None \<Rightarrow> []) s')"

definition unlock_local :: "session_env \<Rightarrow> paths \<Rightarrow> session \<Rightarrow> session \<times> int" where
  "unlock_local E p s =
     (let path = p_profiles_local_file p in
      if \<not> file_exists s path then
        fail_with E ProfileMissing (Some (''no local container at '' @ path @ ''; run `zz c` to configure one'')) EXIT_PROFILE_MISSING s
      else case read_to_string E s path of
        None \<Rightarrow> fail_with E ProfileMissing (Some (''could not read profile container: '' @ se_msg E)) EXIT_PROFILE_MISSING s
      | Some envelope \<Rightarrow>
          (case obtain_passphrase E s of
             (s', Inl code) \<Rightarrow> (s', code)
           | (s', Inr pw) \<Rightarrow>
               (case decrypt_set (se_prims E) envelope pw of
                  Inl e \<Rightarrow> fail_with E DecryptFailed (Some (decrypt_failure_text E e)) EXIT_DECRYPT_FAILED s'
                | Inr (set0, kek) \<Rightarrow> with_container E p set0 kek pw s')))"

definition unlock_remote :: "session_env \<Rightarrow> session \<Rightarrow> session \<times> int" where
  "unlock_remote E s =
     (announce E (\<lambda>X. err_line (''remote container not available in this build (v1 ships local-only; ''
        @ ''rebuild with `--features remote`)'')) s, EXIT_NOT_IMPLEMENTED)"

definition resolve_default_source :: "session_env \<Rightarrow> paths \<Rightarrow> session \<Rightarrow> session \<times> (int, container_source) result" where
  "resolve_default_source E p s =
     (case (file_exists s (p_profiles_local_file p), file_exists s (p_profiles_remote_file p)) of
        (False, False) \<Rightarrow>
          (let (s', code) = fail_with E ProfileMissing (Some (''no profile container at '' @ p_profiles_local_file p @ '' or ''
                 @ p_profiles_remote_file p @ ''; run `zz c` to configure one'')) EXIT_PROFILE_MISSING s
           in (s', Inl code))
      | (True, False) \<Rightarrow> (s, Inr SourceLocal)
      | (False, True) \<Rightarrow> (s, Inr SourceRemote)
      | (True, True) \<Rightarrow>
          if scriptable E then
            (let (s', code) = fail_with E ContainerAmbiguous
                   (Some (''two containers present '' @ em_dash @ '' pass `--local` or `--remote`'')) EXIT_USAGE s
             in (s', Inl code))
          else
            (let local_default = (\<exists>d. read_local_default (se_readable E (p_last_default_local_file p)) (se_sidecar_io E) (ss_disk s)
                     (p_last_default_local_file p) = Inr d);
                 remote_default = (\<exists>d. read_remote_default (se_readable E (p_last_default_remote_file p)) (se_sidecar_io E) (ss_disk s)
                     (p_last_default_remote_file p) = Inr d)
             in (s, Inr (if \<not> local_default \<and> remote_default then SourceRemote else SourceLocal))))"

definition run_unlock :: "session_env \<Rightarrow> paths \<Rightarrow> container_source option \<Rightarrow> session \<Rightarrow> session \<times> int" where
  "run_unlock E p which s =
     (case (case which of Some c \<Rightarrow> Some c | None \<Rightarrow> gf_container (se_flags E)) of
        Some SourceLocal \<Rightarrow> unlock_local E p s
      | Some SourceRemote \<Rightarrow> unlock_remote E s
      | None \<Rightarrow>
          (case resolve_default_source E p s of
             (s', Inl code) \<Rightarrow> (s', code)
           | (s', Inr SourceLocal) \<Rightarrow> unlock_local E p s'
           | (s', Inr SourceRemote) \<Rightarrow> unlock_remote E s'))"

section \<open>Locking (q_lock.rs)\<close>

definition run_lock :: "session_env \<Rightarrow> paths \<Rightarrow> session \<Rightarrow> session \<times> int" where
  "run_lock E p s =
     (if \<not> ss_socket s then (announce E (\<lambda>X. emit_locked X True) s, EXIT_OK)
      else case client_connect E p s of
        Inl (SocketUnreachable _) \<Rightarrow> (announce E (\<lambda>X. emit_locked X True) s, EXIT_OK)
      | Inl e \<Rightarrow> fail_with E AgentUnreachable (Some (''agent error: '' @ client_error_text e)) EXIT_AGENT_UNREACHABLE s
      | Inr _ \<Rightarrow>
          (case client_request E Lock s of
             (s', Inr resp) \<Rightarrow>
               if resp = Locked then (announce E (\<lambda>X. emit_locked X False) s', EXIT_OK)
               else fail_with E AgentUnreachable (Some (''unexpected agent response: '' @ se_debug E resp)) EXIT_AGENT_UNREACHABLE s'
           | (s', Inl e) \<Rightarrow> fail_with E AgentUnreachable (Some (''agent error: '' @ client_error_text e)) EXIT_AGENT_UNREACHABLE s'))"

section \<open>Wiping (w_wipe.rs)\<close>

definition confirm_wipe :: "session_env \<Rightarrow> session \<Rightarrow> session \<times> bool" where
  "confirm_wipe E s =
     (if gf_yes (se_flags E) \<or> se_confirm E = Some ''yes'' then (s, True)
      else if se_tty E then
        (s\<lparr>ss_console := (ss_console s)\<lparr>co_err := co_err (ss_console s) @ ''type '' @ [CHR 0x22] @ ''wipe'' @ [CHR 0x22] @ '' to confirm: ''\<rparr>\<rparr>,
         (case se_line E of Some l \<Rightarrow> trim l = ''wipe'' | None \<Rightarrow> False))
      else (s, False))"

definition below_dir :: "string \<Rightarrow> string \<Rightarrow> bool" where
  "below_dir dir q \<longleftrightarrow> prefix (dir @ ''/'') q"

text \<open>\<open>remove_dir_all\<close>; the socket is in the directory as well.\<close>

definition remove_dir_if_exists :: "session_env \<Rightarrow> string \<Rightarrow> session \<Rightarrow> session \<times> (string, unit) result" where
  "remove_dir_if_exists E dir s =
     (case se_rmdir E of
        Inr _ \<Rightarrow> (s\<lparr>ss_disk := fs_commit (ss_disk s) (\<lambda>q. if below_dir dir q then None else d_files (ss_disk s) q),
                    ss_socket := False, ss_agent := None\<rparr>, Inr ())
      | Inl IoNotFound \<Rightarrow> (s, Inr ())
      | Inl (IoOther e) \<Rightarrow> (s, Inl e))"

definition run_wipe :: "session_env \<Rightarrow> paths \<Rightarrow> session \<Rightarrow> session \<times> int" where
  "run_wipe E p s =
     (if scriptable E \<and> \<not> gf_yes (se_flags E) \<and> se_confirm E \<noteq> Some ''yes'' then
        fail_with E InteractiveRequired (Some (''`zz w` is destructive '' @ em_dash
          @ '' pass `--yes` to confirm in scriptable mode'')) EXIT_USAGE s
      else case confirm_wipe E s of
        (s1, False) \<Rightarrow> fail_with E WipeCancelled None EXIT_WIPE_CANCELLED s1
      | (s1, True) \<Rightarrow>
          (let s2 = (if ss_socket s1 \<and> client_connect E p s1 = Inr () then fst (client_request E Exit s1) else s1);
               s3 = fold (remove_file E) [p_profiles_local_file p, p_profiles_remote_file p, p_config_file p] s2;
               s4 = remove_file E (p_token_file p) (remove_socket E (p_agent_socket p) s3)
           in case remove_dir_if_exists E (p_runtime_dir p) s4 of
                (s5, Inr _) \<Rightarrow> (announce E (\<lambda>X. emit_wiped X) s5, EXIT_OK)
              | (s5, Inl e) \<Rightarrow> fail_with E Usage (Some (''runtime: '' @ e)) EXIT_USAGE s5))"

end
