(* ===== verification/Unlock_Props.thy ===== *)
theory Unlock_Props
  imports Unlock Container_Props
begin

text \<open>
  What the session commands leave behind: which agent is unlocked with what after
  \<open>zz z\<close>, that a refused attempt changes nothing, what \<open>zz q\<close> and \<open>zz w\<close> guarantee, and
  that in JSON mode every failure ends with a record whose reason has the exit code.
\<close>

section \<open>Steps\<close>

text \<open>Only the streams (and the time) differ.\<close>

definition quiet :: "session \<Rightarrow> session \<Rightarrow> bool" where
  "quiet s s' \<longleftrightarrow> ss_disk s' = ss_disk s \<and> ss_socket s' = ss_socket s \<and> ss_agent s' = ss_agent s \<and> ss_killed s' = ss_killed s"

lemma quiet_refl [simp]: "quiet s s"
  by (simp add: quiet_def)

lemma quiet_trans: "quiet s t \<Longrightarrow> quiet t u \<Longrightarrow> quiet s u"
  by (simp add: quiet_def)

lemma announce_simps [simp]:
  "ss_disk (announce E f s) = ss_disk s" "ss_socket (announce E f s) = ss_socket s"
  "ss_agent (announce E f s) = ss_agent s" "ss_killed (announce E f s) = ss_killed s"
  by (simp_all add: announce_def)

lemma fail_with_simps [simp]:
  "fst (fail_with E r d c s) = announce E (\<lambda>X. emit_failed_bare X r d) s" "snd (fail_with E r d c s) = c"
  by (simp_all add: fail_with_def)

lemma obtain_passphrase_quiet: "obtain_passphrase E s = (s', r) \<Longrightarrow> quiet s s'"
  by (auto simp: obtain_passphrase_def fail_with_def quiet_def split: option.splits sum.splits if_splits)

lemma pick_alias_quiet: "pick_alias E names c s = (s', r) \<Longrightarrow> quiet s s'"
  by (auto simp: pick_alias_def quiet_def split: prod.splits)

lemma choose_alias_quiet: "choose_alias E names c s = (s', r) \<Longrightarrow> quiet s s'"
proof -
  assume a: "choose_alias E names c s = (s', r)"
  obtain t q where pk: "pick_alias E names c s = (t, q)" by (cases "pick_alias E names c s")
  have t: "quiet s t" by (rule pick_alias_quiet [OF pk])
  show ?thesis
  proof (cases "scriptable E")
    case True
    then show ?thesis using a by (auto simp: choose_alias_def ambiguous_def quiet_def split: option.splits if_splits)
  next
    case False
    then show ?thesis using a t pk
      by (cases q) (auto simp: choose_alias_def fail_with_def quiet_def split: pick_error.splits)
  qed
qed

lemma position_of_nth: "position_of d as = Some i \<Longrightarrow> i < length as \<and> as ! i = d"
  by (induction as arbitrary: i) (auto split: if_splits)

lemma pick_alias_io_member:
  assumes "pick_alias_io names c line writes tty = (Inr a, shown)"
  shows "a \<in> set names"
proof -
  have default: "as ! (i - Suc 0) \<in> set as" if "Option.bind c (\<lambda>d. map_option Suc (position_of d as)) = Some i" for i as
    using that by (auto simp: bind_eq_Some_conv dest!: position_of_nth)
  show ?thesis using assms default
    by (auto simp: pick_alias_io_def Let_def hd_in_set split: if_splits option.splits)
qed

lemma choose_alias_member:
  assumes "choose_alias E names c s = (s', Inr a)" "\<And>d. c = Some d \<Longrightarrow> d \<in> set names" "names \<noteq> []"
  shows "a \<in> set names"
  using assms
  by (auto simp: choose_alias_def ambiguous_def fail_with_def pick_alias_def hd_in_set
      split: if_splits option.splits prod.splits sum.splits pick_error.splits dest!: pick_alias_io_member)

text \<open>Files that a step does not touch.\<close>

lemma fs_simps [simp]:
  "q \<noteq> p \<Longrightarrow> d_files (fst (fs_write m pl d p c)) q = d_files d q"
  "q \<noteq> p \<Longrightarrow> d_files (fst (fs_chmod m pl d p)) q = d_files d q"
  "q \<noteq> a \<Longrightarrow> q \<noteq> b \<Longrightarrow> d_files (fst (fs_rename pl d a b)) q = d_files d q"
  "q \<noteq> p \<Longrightarrow> d_files (fs_remove d p) q = d_files d q"
  by (auto simp: fs_defs Let_def split: write_outcome.splits option.splits)

lemma sidecar_write_frame:
  assumes "q \<noteq> path" "q \<noteq> with_extension path ''tmp''"
  shows "d_files (fst (sidecar_write_atomic pl d path c)) q = d_files d q"
  using assms by (auto simp: sidecar_write_atomic_def fs_defs Let_def split: if_splits write_outcome.splits)

lemma write_local_default_frame:
  assumes "q \<noteq> path" "q \<noteq> with_extension path ''tmp''"
  shows "d_files (fst (write_local_default pl d path a)) q = d_files d q"
  using sidecar_write_frame [OF assms] by (simp add: write_local_default_def)

lemma atomic_write_frame:
  assumes "q \<noteq> path" "q \<noteq> path @ ''.tmp''"
  shows "d_files (fst (atomic_write_0600 pl d path c)) q = d_files d q"
  using assms by (auto simp: atomic_write_0600_def fs_defs Let_def split: if_splits write_outcome.splits)

lemma remove_file_simps [simp]:
  "q \<noteq> p \<Longrightarrow> d_files (ss_disk (remove_file E p s)) q = d_files (ss_disk s) q"
  "ss_agent (remove_file E p s) = ss_agent s" "ss_socket (remove_file E p s) = ss_socket s"
  "ss_console (remove_file E p s) = ss_console s"
  by (simp_all add: remove_file_def)

lemma remove_socket_simps [simp]: "ss_disk (remove_socket E p s) = ss_disk s" "ss_console (remove_socket E p s) = ss_console s"
  by (simp_all add: remove_socket_def)

lemma stale_frame:
  assumes "check_for_stale_agent E p s = (s', r)" "q \<noteq> p_token_file p" "q \<noteq> lock_path (p_runtime_dir p)"
  shows "d_files (ss_disk s') q = d_files (ss_disk s) q"
  using assms by (auto simp: check_for_stale_agent_def Let_def split: if_splits option.splits list.splits)

lemma write_lock_frame:
  assumes "q \<noteq> lock_path dir"
  shows "d_files (fst (write_lock pl d dir pid b)) q = d_files d q"
proof -
  obtain d1 w where w: "fs_write MODE_0600 pl d (lock_path dir) (show_nat pid @ [nl] @ b @ [nl]) = (d1, w)" by fastforce
  have "d_files d1 q = d_files d q" by (metis fs_simps(1) assms w fst_conv)
  then show ?thesis using w assms by (simp add: write_lock_def Let_def)
qed

lemma boot_frame:
  assumes "q \<noteq> p_token_file p" "q \<noteq> lock_path (p_runtime_dir p)"
  shows "d_files (ss_disk (boot_agent E p s)) q = d_files (ss_disk s) q"
  using assms by (simp add: boot_agent_def fs_commit_def Let_def write_lock_frame split: option.split)

section \<open>Unlocking\<close>

text \<open>The agent holds this container under this key and alias for ten minutes.\<close>

definition holds_session :: "session \<Rightarrow> profile_set \<Rightarrow> profile_kek \<Rightarrow> string \<Rightarrow> bool" where
  "holds_session s set0 kek alias \<longleftrightarrow>
     (\<exists>st t. ss_agent s = Some st \<and> in_profile_set (ag_inner st) = Some set0 \<and> in_kek (ag_inner st) = Some kek
        \<and> in_active_alias (ag_inner st) = Some alias \<and> in_unlocked_at (ag_inner st) = Some t
        \<and> in_ttl (ag_inner st) = 600 * nat NANOS)"

lemma ttl_nanos: "from_secs UNLOCK_TTL_SECS = 600 * nat NANOS"
  by (simp add: from_secs_def UNLOCK_TTL_SECS_def)

lemma exit_ok_other: "EXIT_USAGE \<noteq> EXIT_OK" "EXIT_AGENT_UNREACHABLE \<noteq> EXIT_OK" "EXIT_PROFILE_MISSING \<noteq> EXIT_OK"
  "EXIT_DECRYPT_FAILED \<noteq> EXIT_OK" "EXIT_PASSPHRASE_FILE_INSECURE \<noteq> EXIT_OK" "EXIT_WIPE_CANCELLED \<noteq> EXIT_OK"
  "EXIT_NOT_IMPLEMENTED \<noteq> EXIT_OK"
  by (simp_all add: exit_defs)

lemma client_request_unlock:
  assumes "client_request E (Unlock set0 (from_kek kek) alias (Some UNLOCK_TTL_SECS)) s = (s', Inr Unlocked)"
  shows "holds_session s' set0 kek alias" and "contains_alias set0 alias" and "ss_disk s' = ss_disk s"
  using assms
  by (auto simp: client_request_def served_def Let_def unlock_def holds_session_def ttl_nanos touch_def
      split: fate.splits option.splits if_splits)

lemma send_unlock_ok:
  assumes "send_unlock E p set0 kek alias target s = (s', EXIT_OK)"
  shows "holds_session s' set0 kek alias" "contains_alias set0 alias"
    and "q \<noteq> p_last_default_local_file p \<Longrightarrow> q \<noteq> with_extension (p_last_default_local_file p) ''tmp'' \<Longrightarrow>
           d_files (ss_disk s') q = d_files (ss_disk s) q"
proof -
  obtain s1 r where rq: "client_request E (Unlock set0 (from_kek kek) alias (Some UNLOCK_TTL_SECS)) s = (s1, r)" by fastforce
  have r: "r = Inr Unlocked"
    using assms rq exit_ok_other
    by (auto simp: send_unlock_def fail_with_def split: sum.splits if_splits client_error.splits)
  have s': "s' = announce E (\<lambda>X. emit_unlocked X alias target)
      (s1\<lparr>ss_disk := fst (write_local_default (se_sidecar_io E) (ss_disk s1) (p_last_default_local_file p) alias)\<rparr>)"
    using assms rq r exit_ok_other by (auto simp: send_unlock_def fail_with_def Let_def split: sum.splits)
  note held = client_request_unlock [OF rq [unfolded r]]
  show "holds_session s' set0 kek alias" using held(1) by (simp add: s' holds_session_def)
  show "contains_alias set0 alias" by (rule held(2))
  show "d_files (ss_disk s') q = d_files (ss_disk s) q"
    if "q \<noteq> p_last_default_local_file p" "q \<noteq> with_extension (p_last_default_local_file p) ''tmp''"
    using write_local_default_frame [OF that] by (simp add: s' held(3))
qed

definition session_files :: "paths \<Rightarrow> string set" where
  "session_files p = {p_token_file p, lock_path (p_runtime_dir p), p_last_default_local_file p,
     with_extension (p_last_default_local_file p) ''tmp''}"

lemma hand_over_ok:
  assumes "hand_over E p set0 kek alias target s = (s', EXIT_OK)"
  shows "holds_session s' set0 kek alias" "contains_alias set0 alias"
    and "q \<notin> session_files p \<Longrightarrow> d_files (ss_disk s') q = d_files (ss_disk s) q"
proof -
  obtain s1 r where st: "check_for_stale_agent E p s = (s1, r)" by fastforce
  have "send_unlock E p set0 kek alias target s1 = (s', EXIT_OK)
      \<or> send_unlock E p set0 kek alias target (boot_agent E p s1) = (s', EXIT_OK)"
    using assms st exit_ok_other by (auto simp: hand_over_def fail_with_def Let_def split: if_splits option.splits)
  then show "holds_session s' set0 kek alias" "contains_alias set0 alias" by (auto dest: send_unlock_ok)
  show "d_files (ss_disk s') q = d_files (ss_disk s) q" if "q \<notin> session_files p"
  proof -
    from that have q: "q \<noteq> p_token_file p" "q \<noteq> lock_path (p_runtime_dir p)" "q \<noteq> p_last_default_local_file p"
      "q \<noteq> with_extension (p_last_default_local_file p) ''tmp''" by (auto simp: session_files_def)
    have "d_files (ss_disk s') q = d_files (ss_disk s1) q"
      using \<open>_ \<or> _\<close> send_unlock_ok(3) [OF _ q(3,4)] boot_frame [OF q(1,2)] by metis
    then show ?thesis using stale_frame [OF st q(1,2)] by simp
  qed
qed

text \<open>Whatever the rotation does, the passphrase opens the file to the container and the key handed on.\<close>

lemma maybe_rotate_opens:
  assumes "prims_ok (se_prims E)" "storable (se_prims E) set0" "length (se_salt E) = SALT_LEN" "length (se_nonce E) = NONCE_LEN"
    and "load_set_zz (se_prims E) (ss_disk s) path pw = Inr (set0, kek0)"
    and r: "maybe_rotate_kek E set0 kek0 pw path s = (s', kek)"
  shows "load_set_zz (se_prims E) (ss_disk s') path pw = Inr (set0, kek)"
proof -
  obtain d x where rot: "rotate_set_if_needed (se_prims E) (se_salt E) (se_nonce E) (se_policy_io E) (ss_disk s) set0 kek0 pw path
      POLICY_V1 = (d, x)" by fastforce
  have same: "load_set_zz (se_prims E) d path pw = load_set_zz (se_prims E) (ss_disk s) path pw" if "\<forall>k. x \<noteq> Inr (Some k)"
  proof -
    have "d_files d path = d_files (ss_disk s) path"
      using rotate_files [OF rot]
    proof (elim disjE)
      assume "\<exists>env new_kek. encrypt_set_with_config (se_prims E) (se_salt E) (se_nonce E) set0 pw POLICY_V1 = Inr (env, new_kek)
         \<and> (\<exists>w. atomic_write_0600 (se_policy_io E) (ss_disk s) path env = (d, w) \<and> x = rbind w (\<lambda>_. Inr (Some new_kek)))"
      then obtain env nk w where w: "atomic_write_0600 (se_policy_io E) (ss_disk s) path env = (d, w)"
        and "x = rbind w (\<lambda>_. Inr (Some nk))" by blast
      with that have "w \<noteq> Inr ()" by auto
      then show ?thesis by (rule atomic_write_files(3) [OF w])
    qed simp_all
    then show ?thesis by (simp add: load_set_zz_def)
  qed
  show ?thesis
  proof (cases "\<exists>k. x = Inr (Some k)")
    case True
    then obtain k where x: "x = Inr (Some k)" by blast
    have "load_set_zz (se_prims E) d path pw = Inr (set0, k)"
      using rotated_opens [OF assms(1-4) rot [unfolded x]] by simp
    then show ?thesis using r rot x by (auto simp: maybe_rotate_kek_def)
  next
    case False
    then show ?thesis using r rot same assms(5)
      by (auto simp: maybe_rotate_kek_def split: sum.splits option.splits)
  qed
qed

lemma decrypted_container:
  "d_files d path = Some f \<Longrightarrow> decrypt_set P (f_data f) pw = r \<Longrightarrow> load_set_zz P d path pw = r"
  by (simp add: load_set_zz_def)

text \<open>
  C24. When \<open>zz z\<close> succeeds on the local container, the passphrase it obtained opens the
  file that was there, and the agent is unlocked with exactly that container, for an
  alias of the container and for ten minutes; and whatever rotation did to the file,
  the passphrase now opens it to that container and to the key the agent holds.
\<close>
theorem unlock_opens_container:
  assumes "unlock_local E p s = (s', EXIT_OK)"
    and "prims_ok (se_prims E)" "length (se_salt E) = SALT_LEN" "length (se_nonce E) = NONCE_LEN"
    and "p_profiles_local_file p \<notin> {p_token_file p, lock_path (p_runtime_dir p), p_last_default_local_file p,
           with_extension (p_last_default_local_file p) ''tmp''}"
  shows "\<exists>pw f set0 kek0 kek alias st t.
           snd (obtain_passphrase E s) = Inr pw
         \<and> d_files (ss_disk s) (p_profiles_local_file p) = Some f \<and> decrypt_set (se_prims E) (f_data f) pw = Inr (set0, kek0)
         \<and> contains_alias set0 alias \<and> ss_agent s' = Some st
         \<and> in_profile_set (ag_inner st) = Some set0 \<and> in_kek (ag_inner st) = Some kek \<and> in_active_alias (ag_inner st) = Some alias
         \<and> in_unlocked_at (ag_inner st) = Some t \<and> in_ttl (ag_inner st) = 600 * nat NANOS
         \<and> (storable (se_prims E) set0 \<longrightarrow>
              load_set_zz (se_prims E) (ss_disk s') (p_profiles_local_file p) pw = Inr (set0, kek))"
proof -
  let ?path = "p_profiles_local_file p"
  obtain f where f: "d_files (ss_disk s) ?path = Some f" "read_to_string E s ?path = Some (f_data f)"
    using assms(1) exit_ok_other
    by (auto simp: unlock_local_def fail_with_def Let_def file_exists_def read_to_string_def split: if_splits)
  obtain s1 r where ob: "obtain_passphrase E s = (s1, r)" by fastforce
  have "\<exists>pw. r = Inr pw"
  proof (cases r)
    case (Inl code)
    then have "code = EXIT_OK" using assms(1) f ob by (simp add: unlock_local_def file_exists_def)
    then show ?thesis using ob Inl exit_ok_other
      by (auto simp: obtain_passphrase_def fail_with_def split: option.splits sum.splits if_splits)
  qed simp
  then obtain pw where pw: "r = Inr pw" by blast
  have "\<exists>set0 kek0. decrypt_set (se_prims E) (f_data f) pw = Inr (set0, kek0)"
    using assms(1) f ob pw exit_ok_other
    by (cases "decrypt_set (se_prims E) (f_data f) pw") (auto simp: unlock_local_def file_exists_def fail_with_def)
  then obtain set0 kek0 where dec: "decrypt_set (se_prims E) (f_data f) pw = Inr (set0, kek0)" by blast
  have wc: "with_container E p set0 kek0 pw s1 = (s', EXIT_OK)"
    using assms(1) f ob pw dec by (simp add: unlock_local_def file_exists_def)
  obtain s2 kek where rot: "maybe_rotate_kek E set0 kek0 pw ?path s1 = (s2, kek)" by fastforce
  obtain s3 c where ch: "choose_alias E (aliases set0) (cached_alias E p set0 s2) s2 = (s3, c)" by fastforce
  have "\<exists>alias. c = Inr alias"
  proof (cases c)
    case (Inl code)
    then have "code = EXIT_OK" using wc rot ch exit_ok_other by (auto simp: with_container_def fail_with_def split: if_splits)
    then show ?thesis using ch Inl exit_ok_other
      by (auto simp: choose_alias_def ambiguous_def fail_with_def split: if_splits option.splits prod.splits sum.splits pick_error.splits)
  qed simp
  then obtain a where a: "c = Inr a" by blast
  have "\<exists>target. hand_over E p set0 kek a target s3 = (s', EXIT_OK)"
    using wc rot ch a exit_ok_other by (auto simp: with_container_def fail_with_def split: if_splits)
  then obtain target where ho: "hand_over E p set0 kek a target s3 = (s', EXIT_OK)" by blast
  have disk1: "ss_disk s1 = ss_disk s" using obtain_passphrase_quiet [OF ob] by (simp add: quiet_def)
  have disk3: "ss_disk s3 = ss_disk s2" using choose_alias_quiet [OF ch] by (simp add: quiet_def)
  have path: "?path \<notin> session_files p" using assms(5) by (simp add: session_files_def)
  have load: "load_set_zz (se_prims E) (ss_disk s') ?path pw = Inr (set0, kek)" if "storable (se_prims E) set0"
  proof -
    have "load_set_zz (se_prims E) (ss_disk s1) ?path pw = Inr (set0, kek0)"
      unfolding disk1 by (rule decrypted_container [OF f(1) dec])
    from maybe_rotate_opens [OF assms(2) that assms(3,4) this rot]
    have "load_set_zz (se_prims E) (ss_disk s2) ?path pw = Inr (set0, kek)" .
    then show ?thesis using hand_over_ok(3) [OF ho path] by (simp add: load_set_zz_def disk3)
  qed
  show ?thesis using ob pw f(1) dec hand_over_ok(1,2) [OF ho] load unfolding holds_session_def by fastforce
qed

section \<open>Failures in JSON mode\<close>

definition json_run :: "session_env \<Rightarrow> bool" where
  "json_run E \<longleftrightarrow> (\<forall>t. oe_mode (se_out E t) = JsonMode) \<and> gf_output (se_flags E) = JsonMode"

text \<open>The last line of the standard output is a failure record whose reason has this exit code.\<close>

definition reported :: "session_env \<Rightarrow> int \<Rightarrow> session \<Rightarrow> bool" where
  "reported E code s \<longleftrightarrow>
     (\<exists>pre t ev. co_out (ss_console s) = pre @ oe_ser (se_out E t) (failed_json ev) @ [NL] \<and> reason_exit (fe_reason ev) = code)"

lemma bare_reported:
  assumes "json_run E" "reason_exit r = code"
  shows "reported E code (announce E (\<lambda>X. emit_failed_bare X r d) s)"
proof -
  let ?X = "se_out E (ss_tick s)"
  define ev where "ev = (case d of Some x \<Rightarrow> failed_with_detail (oe_secs ?X) r x | None \<Rightarrow> failed_bare (oe_secs ?X) r)"
  have "co_out (ss_console (announce E (\<lambda>X. emit_failed_bare X r d) s)) = co_out (ss_console s) @ oe_ser ?X (failed_json ev) @ [NL]"
    using assms(1) by (simp add: announce_def emit_failed_bare_def json_run_def write_json_line_def out_line_def ev_def)
  moreover have "fe_reason ev = r" by (simp add: ev_def failed_with_detail_def failed_bare_def split: option.split)
  ultimately show ?thesis using assms(2) unfolding reported_def by blast
qed

lemma fail_with_reported:
  "fail_with E r d code s = (s', c) \<Longrightarrow> json_run E \<Longrightarrow> reason_exit r = code \<Longrightarrow> reported E c s'"
  by (auto simp: fail_with_def intro: bare_reported)

lemma ambiguous_reported: "ambiguous E names s = (s', Inl c) \<Longrightarrow> json_run E \<Longrightarrow> reported E c s'"
  unfolding reported_def ambiguous_def json_run_def announce_def emit_failed_alias_ambiguous_def write_json_line_def out_line_def
  by (intro exI [of _ "co_out (ss_console s)"] exI [of _ "ss_tick s"]
      exI [of _ "failed_alias_ambiguous (oe_secs (se_out E (ss_tick s))) names"]) (auto simp: failed_alias_ambiguous_def)

lemma json_scriptable: "json_run E \<Longrightarrow> scriptable E"
  by (simp add: json_run_def scriptable_def)

lemma obtain_passphrase_reported:
  assumes "obtain_passphrase E s = (s', Inl c)" "json_run E"
  shows "reported E c s'"
  using assms
  by (auto simp: obtain_passphrase_def json_scriptable split: option.splits sum.splits if_splits prod.splits
      intro: fail_with_reported)

lemma choose_alias_reported:
  assumes "choose_alias E names d s = (s', Inl c)" "json_run E"
  shows "reported E c s'"
  using assms by (auto simp: choose_alias_def json_scriptable split: option.splits if_splits intro: ambiguous_reported)

lemma send_unlock_reported:
  assumes "send_unlock E p set0 kek alias target s = (s', c)" "c \<noteq> EXIT_OK" "json_run E"
  shows "reported E c s'"
  using assms
  by (auto simp: send_unlock_def Let_def split: sum.splits if_splits client_error.splits prod.splits intro: fail_with_reported)

lemma hand_over_reported:
  assumes "hand_over E p set0 kek alias target s = (s', c)" "c \<noteq> EXIT_OK" "json_run E"
  shows "reported E c s'"
  using assms
  by (auto simp: hand_over_def Let_def split: option.splits if_splits intro: fail_with_reported send_unlock_reported)

lemma with_container_reported:
  assumes "with_container E p set0 kek pw s = (s', c)" "c \<noteq> EXIT_OK" "json_run E"
  shows "reported E c s'"
  using assms
  by (auto simp: with_container_def split: prod.splits if_splits sum.splits
      intro: fail_with_reported hand_over_reported choose_alias_reported)

lemma unlock_local_reported:
  assumes "unlock_local E p s = (s', c)" "c \<noteq> EXIT_OK" "json_run E"
  shows "reported E c s'"
  using assms
  by (auto simp: unlock_local_def Let_def split: option.splits prod.splits if_splits sum.splits
      intro: fail_with_reported with_container_reported obtain_passphrase_reported)

lemma resolve_reported:
  assumes "resolve_default_source E p s = (s', Inl c)" "json_run E"
  shows "reported E c s'"
  using assms
  by (auto simp: resolve_default_source_def json_scriptable split: bool.splits prod.splits if_splits intro: fail_with_reported)

datatype session_command = UnlockRun "container_source option" | LockRun | WipeRun

text \<open>The remote container is asked for: by the argument, by the flag, or because it is the only one.\<close>

definition remote_asked :: "session_env \<Rightarrow> paths \<Rightarrow> container_source option \<Rightarrow> session \<Rightarrow> bool" where
  "remote_asked E p which s \<longleftrightarrow>
     (case (case which of Some c \<Rightarrow> Some c | None \<Rightarrow> gf_container (se_flags E)) of
        Some c \<Rightarrow> c = SourceRemote
      | None \<Rightarrow> \<not> file_exists s (p_profiles_local_file p) \<and> file_exists s (p_profiles_remote_file p))"

lemma run_unlock_remote:
  "remote_asked E p which s \<Longrightarrow> run_unlock E p which s = unlock_remote E s"
  by (auto simp: run_unlock_def remote_asked_def resolve_default_source_def split: option.splits container_source.splits)

lemma resolve_remote:
  "resolve_default_source E p s = (s', Inr SourceRemote) \<Longrightarrow> json_run E \<Longrightarrow>
     \<not> file_exists s (p_profiles_local_file p) \<and> file_exists s (p_profiles_remote_file p)"
  by (auto simp: resolve_default_source_def json_scriptable split: bool.splits prod.splits if_splits)

lemma run_unlock_reported:
  assumes "run_unlock E p which s = (s', c)" "c \<noteq> EXIT_OK" "\<not> remote_asked E p which s" "json_run E"
  shows "reported E c s'"
  using assms
  by (auto simp: run_unlock_def remote_asked_def split: option.splits container_source.splits prod.splits sum.splits
      intro: unlock_local_reported resolve_reported dest: resolve_remote)

lemma run_lock_reported:
  assumes "run_lock E p s = (s', c)" "c \<noteq> EXIT_OK" "json_run E"
  shows "reported E c s'"
  using assms
  by (auto simp: run_lock_def split: sum.splits if_splits client_error.splits prod.splits intro: fail_with_reported)

lemma run_wipe_reported:
  assumes "run_wipe E p s = (s', c)" "c \<noteq> EXIT_OK" "json_run E"
  shows "reported E c s'"
  using assms
  by (auto simp: run_wipe_def Let_def split: sum.splits if_splits prod.splits bool.splits intro: fail_with_reported)

text \<open>
  C25. In JSON mode, whenever \<open>zz q\<close> or \<open>zz w\<close> ends with an exit code other than success,
  the last line of the standard output is a failure record whose reason is one that the
  documentation gives this exit code. So does \<open>zz z\<close>, with one exception: when the remote
  container is asked for, which this build does not have, it ends with "not implemented"
  after a plain line on the standard error and without any record.
\<close>
theorem json_failures_reported:
  assumes "\<forall>t. oe_mode (se_out E t) = JsonMode" "gf_output (se_flags E) = JsonMode"
    and "(s', code) = (case cmd of UnlockRun which \<Rightarrow> run_unlock E p which s | LockRun \<Rightarrow> run_lock E p s | WipeRun \<Rightarrow> run_wipe E p s)"
  shows "if \<exists>which. cmd = UnlockRun which \<and> remote_asked E p which s
         then code = EXIT_NOT_IMPLEMENTED \<and> co_out (ss_console s') = co_out (ss_console s)
           \<and> (\<exists>line. co_err (ss_console s') = co_err (ss_console s) @ line @ [NL])
         else code = EXIT_OK \<or> (\<exists>pre t ev. co_out (ss_console s') = pre @ oe_ser (se_out E t) (failed_json ev) @ [NL]
           \<and> reason_exit (fe_reason ev) = code)"
proof (cases "\<exists>which. cmd = UnlockRun which \<and> remote_asked E p which s")
  case True
  then have "(s', code) = unlock_remote E s" using assms(3) by (auto simp: run_unlock_remote)
  then show ?thesis using True by (simp add: unlock_remote_def announce_def err_line_def)
next
  case False
  have j: "json_run E" using assms(1,2) by (simp add: json_run_def)
  have "code = EXIT_OK \<or> reported E code s'"
    using assms(3) False run_unlock_reported [OF _ _ _ j] run_lock_reported [OF _ _ j] run_wipe_reported [OF _ _ j]
    by (cases cmd) (simp_all, metis+)
  then show ?thesis unfolding if_not_P [OF False] reported_def .
qed

section \<open>Refused attempts\<close>

text \<open>
  An unlock that does not get past the passphrase (no container, no readable or
  private passphrase file, no prompt, a wrong passphrase, a damaged or hostile file)
  changes neither the disk nor the agent nor its socket, and ends with the exit code
  for a missing profile, wrong usage, an insecure passphrase file or a failed
  decryption.
\<close>
theorem refused_unlock_harmless:
  assumes "unlock_local E p s = (s', code)"
    and "\<forall>pw f. snd (obtain_passphrase E s) = Inr pw \<longrightarrow> d_files (ss_disk s) (p_profiles_local_file p) = Some f \<longrightarrow>
           (\<exists>e. decrypt_set (se_prims E) (f_data f) pw = Inl e)"
  shows "ss_disk s' = ss_disk s \<and> ss_agent s' = ss_agent s \<and> ss_socket s' = ss_socket s \<and> ss_killed s' = ss_killed s
    \<and> code \<in> {EXIT_PROFILE_MISSING, EXIT_USAGE, EXIT_PASSPHRASE_FILE_INSECURE, EXIT_DECRYPT_FAILED}"
proof -
  obtain s1 r where ob: "obtain_passphrase E s = (s1, r)" by fastforce
  have q: "quiet s s1" by (rule obtain_passphrase_quiet [OF ob])
  have codes: "c \<in> {EXIT_USAGE, EXIT_PASSPHRASE_FILE_INSECURE}" if "r = Inl c" for c
    using ob that by (auto simp: obtain_passphrase_def fail_with_def split: option.splits sum.splits if_splits)
  show ?thesis
  proof (cases "read_to_string E s (p_profiles_local_file p)")
    case None
    then show ?thesis using assms(1)
      by (auto simp: unlock_local_def fail_with_def Let_def split: if_splits)
  next
    case (Some env)
    then obtain f where f: "d_files (ss_disk s) (p_profiles_local_file p) = Some f" "env = f_data f"
      by (auto simp: read_to_string_def split: option.splits if_splits)
    show ?thesis
    proof (cases r)
      case (Inl c)
      then show ?thesis using assms(1) Some f ob q codes [OF Inl] by (auto simp: unlock_local_def file_exists_def quiet_def)
    next
      case (Inr pw)
      then obtain e where "decrypt_set (se_prims E) (f_data f) pw = Inl e" using assms(2) ob f by fastforce
      then show ?thesis using assms(1) Some f ob q Inr by (auto simp: unlock_local_def file_exists_def fail_with_def quiet_def)
    qed
  qed
qed

section \<open>Locking\<close>

lemma client_request_lock:
  assumes "client_request E Lock s = (s', Inr Locked)"
  shows "\<exists>st. ss_agent s' = Some st \<and> \<not> is_unlocked st \<and> in_kek (ag_inner st) = None \<and> ag_slot st = None
           \<and> ag_cache st = lc_clear (ag_cache st) \<and> ss_disk s' = ss_disk s"
  using assms
  by (auto simp: client_request_def served_def Let_def lock_agent_def drop_completion_caches_def locked_inner_def is_unlocked_def
      touch_def lc_clear_def split: fate.splits option.splits if_splits)

text \<open>
  When \<open>zz q\<close> succeeds, either it reached the agent, which then holds no container,
  no key, no listing and no open client; or there was no socket or the socket could not
  be reached, and nothing changed.
\<close>
theorem lock_ok_means_locked:
  assumes "run_lock E p s = (s', EXIT_OK)"
  shows "(\<exists>st. ss_socket s \<and> client_connect E p s = Inr () \<and> ss_agent s' = Some st \<and> \<not> is_unlocked st \<and> in_kek (ag_inner st) = None
           \<and> ag_slot st = None \<and> ag_cache st = lc_clear (ag_cache st) \<and> ss_disk s' = ss_disk s)
    \<or> (\<not> ss_socket s \<or> (\<exists>m. client_connect E p s = Inl (SocketUnreachable m)))
        \<and> ss_agent s' = ss_agent s \<and> ss_disk s' = ss_disk s"
proof (cases "ss_socket s \<and> client_connect E p s = Inr ()")
  case True
  obtain s1 r where rq: "client_request E Lock s = (s1, r)" by fastforce
  have r: "r = Inr Locked" "s' = announce E (\<lambda>X. emit_locked X False) s1"
    using assms True rq exit_ok_other by (auto simp: run_lock_def fail_with_def split: sum.splits if_splits)
  from client_request_lock [OF rq [unfolded r(1)]] show ?thesis using True by (auto simp: r(2))
next
  case False
  then show ?thesis using assms exit_ok_other
    by (cases "ss_socket s") (auto simp: run_lock_def fail_with_def split: sum.splits client_error.splits)
qed

text \<open>
  A runtime directory that others may read counts as an unreachable socket, so \<open>zz q\<close>
  then reports success and leaves an unlocked agent as it is.
\<close>

lemma lock_skips_agent:
  assumes "ss_socket s" "verify_private_dir (se_lstat E) (p_runtime_dir p) (se_uid E) = Inl e"
  shows "run_lock E p s = (announce E (\<lambda>X. emit_locked X True) s, EXIT_OK)"
  using assms by (simp add: run_lock_def client_connect_def)

section \<open>Wiping\<close>

lemma confirm_wipe_iff:
  "snd (confirm_wipe E s) \<longleftrightarrow> gf_yes (se_flags E) \<or> se_confirm E = Some ''yes''
     \<or> se_tty E \<and> (\<exists>l. se_line E = Some l \<and> trim l = ''wipe'')"
  by (auto simp: confirm_wipe_def split: option.splits)

lemma confirm_wipe_quiet: "quiet s (fst (confirm_wipe E s))"
  by (simp add: confirm_wipe_def quiet_def)

lemma exit_request_disk: "ss_disk (fst (client_request E Exit s)) = ss_disk s"
  by (auto simp: client_request_def served_def touch_def Let_def split: fate.splits option.splits)

lemma remove_file_files:
  "d_files (ss_disk (remove_file E p s)) q = (if q = p \<and> se_removes E p then None else d_files (ss_disk s) q)"
  by (auto simp: remove_file_def fs_remove_def fs_commit_def file_exists_def)

definition wiped_files :: "paths \<Rightarrow> string set" where
  "wiped_files p = {p_profiles_local_file p, p_profiles_remote_file p, p_config_file p, p_token_file p}"

text \<open>
  C26. A wipe that reports success was confirmed, and removed exactly this: what is below
  the runtime directory, if that directory existed, and of the two containers, the
  configuration file and the token those that could be removed. Every other file is
  still there, a container that could not be removed included. Without a confirmation
  it fails and changes nothing.
\<close>
theorem wipe_exact:
  assumes "run_wipe E p s = (s', code)"
  shows "(code = EXIT_OK \<longrightarrow>
            (gf_yes (se_flags E) \<or> se_confirm E = Some ''yes''
               \<or> \<not> scriptable E \<and> se_tty E \<and> (\<exists>l. se_line E = Some l \<and> trim l = ''wipe''))
          \<and> (\<forall>q. d_files (ss_disk s') q =
               (if se_rmdir E = Inr () \<and> below_dir (p_runtime_dir p) q
                   \<or> q \<in> {p_profiles_local_file p, p_profiles_remote_file p, p_config_file p, p_token_file p} \<and> se_removes E q
                then None else d_files (ss_disk s) q)))
    \<and> (\<not> (gf_yes (se_flags E) \<or> se_confirm E = Some ''yes''
           \<or> \<not> scriptable E \<and> se_tty E \<and> (\<exists>l. se_line E = Some l \<and> trim l = ''wipe'')) \<longrightarrow>
          code \<noteq> EXIT_OK \<and> ss_disk s' = ss_disk s \<and> ss_agent s' = ss_agent s \<and> ss_socket s' = ss_socket s)"
proof -
  let ?conf = "gf_yes (se_flags E) \<or> se_confirm E = Some ''yes''
           \<or> \<not> scriptable E \<and> se_tty E \<and> (\<exists>l. se_line E = Some l \<and> trim l = ''wipe'')"
  obtain s1 yes where cf: "confirm_wipe E s = (s1, yes)" by fastforce
  have yes: "yes \<longleftrightarrow> gf_yes (se_flags E) \<or> se_confirm E = Some ''yes'' \<or> se_tty E \<and> (\<exists>l. se_line E = Some l \<and> trim l = ''wipe'')"
    and q1: "quiet s s1"
    using confirm_wipe_iff [of E s] confirm_wipe_quiet [of s E] cf by simp_all
  show ?thesis
  proof (cases ?conf)
    case False
    then have "s' = fst (run_wipe E p s)" "quiet s (fst (run_wipe E p s))" "code \<noteq> EXIT_OK"
      using assms cf yes q1 exit_ok_other
      by (auto simp: run_wipe_def fail_with_def quiet_def split: if_splits bool.splits)
    then show ?thesis using False by (simp add: quiet_def)
  next
    case True
    then have y: "yes" "\<not> (scriptable E \<and> \<not> gf_yes (se_flags E) \<and> se_confirm E \<noteq> Some ''yes'')" using yes by auto
    have cf': "confirm_wipe E s = (s1, True)" using cf y(1) by simp
    define s2 where "s2 = (if ss_socket s1 \<and> client_connect E p s1 = Inr () then fst (client_request E Exit s1) else s1)"
    define s3 where "s3 = fold (remove_file E) [p_profiles_local_file p, p_profiles_remote_file p, p_config_file p] s2"
    define s4 where "s4 = remove_file E (p_token_file p) (remove_socket E (p_agent_socket p) s3)"
    have d2: "ss_disk s2 = ss_disk s" using q1 by (simp add: s2_def exit_request_disk quiet_def)
    have d4: "d_files (ss_disk s4) q = (if q \<in> {p_profiles_local_file p, p_profiles_remote_file p, p_config_file p, p_token_file p}
        \<and> se_removes E q then None else d_files (ss_disk s) q)" for q
      by (auto simp: s4_def s3_def remove_file_files d2)
    have run: "run_wipe E p s = (case remove_dir_if_exists E (p_runtime_dir p) s4 of
                (s5, Inr _) \<Rightarrow> (announce E (\<lambda>X. emit_wiped X) s5, EXIT_OK)
              | (s5, Inl e) \<Rightarrow> fail_with E Usage (Some (''runtime: '' @ e)) EXIT_USAGE s5)"
      unfolding run_wipe_def if_not_P [OF y(2)] cf' Let_def s2_def s3_def s4_def by (simp only: prod.case bool.case)
    have "d_files (ss_disk s') q = (if se_rmdir E = Inr () \<and> below_dir (p_runtime_dir p) q then None else d_files (ss_disk s4) q)"
      if "code = EXIT_OK" for q
      using assms that exit_ok_other unfolding run
      by (auto simp: remove_dir_if_exists_def fail_with_def fs_commit_def split: sum.splits io_error.splits)
    then show ?thesis using True by (simp add: d4)
  qed
qed

section \<open>A session\<close>

text \<open>A JSON run with a private passphrase file, no agent at first, and the configuration of one user.\<close>

definition ex_paths :: paths where
  "ex_paths = \<lparr>p_config_dir = ''/c'', p_cache_dir = ''/k'', p_runtime_dir = ''/r'', p_config_file = ''/c/t'',
     p_profiles_local_file = ''/c/l'', p_profiles_remote_file = ''/c/m'', p_last_default_local_file = ''/c/d'',
     p_last_default_remote_file = ''/c/e'', p_agent_socket = ''/r/s'', p_token_file = ''/r/t''\<rparr>"

definition ex_agent_env :: "nat \<Rightarrow> agent_env" where
  "ex_agent_env n = \<lparr>ae_prims = ex_prims, ae_nonce = [], ae_io = io_all_ok 0, ae_now = n, ae_cache_get = 0, ae_cache_put = 0,
     ae_hit_at = 0, ae_opens = (\<lambda>r. None), ae_list = (\<lambda>r p. Inr [])\<rparr>"

definition ex_session_env :: "bool \<Rightarrow> session_env" where
  "ex_session_env yes = \<lparr>
     se_flags = \<lparr>gf_output = JsonMode, gf_passphrase_file = Some ''/p'', gf_alias = Some ''nc'', gf_container = None, gf_yes = yes\<rparr>,
     se_out = (\<lambda>t. \<lparr>oe_mode = JsonMode, oe_secs = 0, oe_ser = (\<lambda>j. ''j''), oe_colour = (\<lambda>c s. s)\<rparr>),
     se_uid = 1, se_passphrase = \<lparr>pe_meta = (\<lambda>q. Inr \<lparr>fm_is_file = True, fm_mode = 0, fm_uid = 1, fm_len = 2\<rparr>),
       pe_read = (\<lambda>q. Inr ''pw'')\<rparr>,
     se_prompt = Inl [], se_line = None, se_tty = False, se_stderr = True, se_prims = ex_prims,
     se_salt = replicate 16 0, se_nonce = replicate 24 1, se_policy_io = io_all_ok 0, se_sidecar_io = io_all_ok 0,
     se_readable = (\<lambda>q. True), se_msg = [], se_build_id = None, se_spawn = None, se_boots = True, se_pid = 7,
     se_token = replicate 32 CHR ''k'', se_lstat = Inr \<lparr>dm_is_dir = True, dm_uid = 1, dm_mode = 0\<rparr>, se_connects = True,
     se_peer = Inr 1, se_sends = True, se_fate = Delivered, se_agent_env = ex_agent_env, se_debug = (\<lambda>r. []),
     se_crypto_text = (\<lambda>e. []), se_pass_text = (\<lambda>e. []), se_confirm = None, se_removes = (\<lambda>q. q \<noteq> ''/c/m''),
     se_rmdir = Inl IoNotFound\<rparr>"

definition ex_session :: "(string \<Rightarrow> fs_file option) \<Rightarrow> session" where
  "ex_session fs = \<lparr>ss_disk = \<lparr>d_files = fs, d_trace = []\<rparr>, ss_socket = False, ss_agent = None, ss_killed = [],
     ss_console = \<lparr>co_out = [], co_err = []\<rparr>, ss_tick = 0\<rparr>"

definition ex_file :: "string \<Rightarrow> fs_file" where
  "ex_file c = \<lparr>f_data = c, f_mode = MODE_0600, f_mtime = 0\<rparr>"

lemma ex_container: "\<exists>env kek. decrypt_set ex_prims env ''pw'' = Inr (ex_set, kek) \<and> kek_kdf_config kek = POLICY_V1 \<and> utf8_ok env"
proof -
  let ?salt = "replicate 16 0 :: bytes" and ?nonce = "replicate 24 1 :: bytes"
  obtain env kek where e: "encrypt_set_with_config ex_prims ?salt ?nonce ex_set ''pw'' POLICY_V1 = Inr (env, kek)"
    unfolding POLICY_V1_def using ex_encrypts [OF ex_validate(2)] by blast
  have k: "kek_derives ex_prims ''pw'' kek" "encrypt_set_with_kek ex_prims ?nonce ex_set kek = Inr env" "kek_kdf_config kek = POLICY_V1"
    using encrypt_set_with_config_derives [OF e] by (simp_all add: SALT_LEN_def)
  moreover have "length ?nonce = NONCE_LEN" by (simp add: NONCE_LEN_def)
  ultimately have "decrypt_set ex_prims env ''pw'' = Inr (ex_set, kek)"
    using sc.open_sealed [OF ex_prims_ok ex_set_storable] by blast
  moreover have "\<exists>n. env = replicate n CHR ''x''"
    using k(2) by (auto simp: encrypt_set_with_kek_def ex_prims_def code_text_def ok_or_def split: option.splits)
  then have "utf8_ok env" using utf8_ok_ascii [of env "[]"] by (auto simp: byte_in_def)
  ultimately show ?thesis using k(3) by blast
qed

lemmas session_eval = ex_session_env_def ex_session_def ex_paths_def ex_file_def unlock_local_def file_exists_def
  read_to_string_def obtain_passphrase_def read_passphrase_file_def MAX_PASSPHRASE_FILE_BYTES_def ends_with_def
  with_container_def maybe_rotate_kek_def rotate_set_if_needed_def needs_rotation_def choose_alias_def scriptable_def

lemma ex_unlock_runs:
  assumes "decrypt_set ex_prims env ''pw'' = Inr (ex_set, kek)" "kek_kdf_config kek = POLICY_V1" "utf8_ok env"
  shows "\<exists>s'. unlock_local (ex_session_env True) ex_paths (ex_session [''/c/l'' \<mapsto> ex_file env]) = (s', EXIT_OK)"
proof -
  let ?E = "ex_session_env True" and ?s = "ex_session [''/c/l'' \<mapsto> ex_file env]"
  have pw: "obtain_passphrase ?E ?s = (?s, Inr ''pw'')"
    by (simp add: session_eval byte_in_def)
  have rot: "maybe_rotate_kek ?E ex_set kek ''pw'' ''/c/l'' ?s = (?s, kek)"
    using assms(2) by (simp add: session_eval)
  have al: "choose_alias ?E (aliases ex_set) c s = (s, Inr ''nc'')" for c s
    by (simp add: choose_alias_def scriptable_def ex_session_env_def aliases_def ex_set_def ex_profile_def)
  have stale: "check_for_stale_agent ?E ex_paths ?s = (?s, NoLock)"
    by (simp add: check_for_stale_agent_def file_exists_def ex_session_def ex_paths_def lock_path_def LOCK_FILE_NAME_def
        path_join_def ends_with_def)
  have sent: "\<exists>s'. send_unlock ?E ex_paths ex_set kek ''nc'' t (boot_agent ?E ex_paths ?s) = (s', EXIT_OK)" for t
    by (simp add: send_unlock_def client_connect_def verify_private_dir_def boot_agent_def ex_session_env_def ex_session_def
        ex_paths_def check_peer_uid_def read_token_file_def TOKEN_LEN_def client_request_def served_def contains_alias_def
        ex_set_def ex_profile_def fs_commit_def Let_def)
  have parts: "p_profiles_local_file ex_paths = ''/c/l''" "file_exists ?s ''/c/l''" "read_to_string ?E ?s ''/c/l'' = Some env"
      "se_prims ?E = ex_prims" "set_is_empty ex_set = False" "ss_socket ?s = False" "se_spawn ?E = None" "se_boots ?E"
    using assms(3)
    by (simp_all add: ex_paths_def file_exists_def ex_session_def read_to_string_def ex_file_def ex_session_env_def
        set_is_empty_def ex_set_def)
  show ?thesis
    using sent by (simp add: unlock_local_def with_container_def hand_over_def parts pw rot al stale assms(1))
qed

theorem unlock_opens_container_witness:
  "\<exists>E p s s' st. unlock_local E p s = (s', EXIT_OK) \<and> ss_agent s' = Some st \<and> in_active_alias (ag_inner st) \<noteq> None"
proof -
  obtain env kek where dec: "decrypt_set ex_prims env ''pw'' = Inr (ex_set, kek)" "kek_kdf_config kek = POLICY_V1" "utf8_ok env"
    using ex_container by blast
  obtain s' where run: "unlock_local (ex_session_env True) ex_paths (ex_session [''/c/l'' \<mapsto> ex_file env]) = (s', EXIT_OK)"
    using ex_unlock_runs [OF dec] by blast
  have laws: "prims_ok (se_prims (ex_session_env True))" "length (se_salt (ex_session_env True)) = SALT_LEN"
      "length (se_nonce (ex_session_env True)) = NONCE_LEN"
      "p_profiles_local_file ex_paths \<notin> {p_token_file ex_paths, lock_path (p_runtime_dir ex_paths),
         p_last_default_local_file ex_paths, with_extension (p_last_default_local_file ex_paths) ''tmp''}"
    by (simp_all add: ex_session_env_def ex_prims_ok SALT_LEN_def NONCE_LEN_def ex_paths_def lock_path_def LOCK_FILE_NAME_def
        path_join_def ends_with_def with_extension_def file_name_def file_stem_def)
  from unlock_opens_container [OF run laws] show ?thesis using run by fastforce
qed

theorem json_failures_reported_witness:
  "(\<exists>pre t ev. co_out (ss_console (fst (run_wipe (ex_session_env False) ex_paths (ex_session Map.empty))))
       = pre @ oe_ser (se_out (ex_session_env False) t) (failed_json ev) @ [NL] \<and> reason_exit (fe_reason ev) = EXIT_USAGE)
   \<and> snd (run_unlock (ex_session_env False) ex_paths (Some SourceRemote) (ex_session Map.empty)) = EXIT_NOT_IMPLEMENTED"
proof -
  let ?E = "ex_session_env False" and ?s = "ex_session Map.empty"
  have code: "snd (run_wipe ?E ex_paths ?s) = EXIT_USAGE"
    by (simp add: run_wipe_def scriptable_def ex_session_env_def)
  have j: "\<forall>t. oe_mode (se_out ?E t) = JsonMode" "gf_output (se_flags ?E) = JsonMode" by (simp_all add: ex_session_env_def)
  let ?run = "\<lambda>cmd. case cmd of UnlockRun which \<Rightarrow> run_unlock ?E ex_paths which ?s
      | LockRun \<Rightarrow> run_lock ?E ex_paths ?s | WipeRun \<Rightarrow> run_wipe ?E ex_paths ?s"
  have w: "(fst (run_wipe ?E ex_paths ?s), snd (run_wipe ?E ex_paths ?s)) = ?run WipeRun" by simp
  have u: "(fst (run_unlock ?E ex_paths (Some SourceRemote) ?s), snd (run_unlock ?E ex_paths (Some SourceRemote) ?s))
      = ?run (UnlockRun (Some SourceRemote))" by simp
  have "remote_asked ?E ex_paths (Some SourceRemote) ?s" by (simp add: remote_asked_def)
  with json_failures_reported [OF j u] have "snd (run_unlock ?E ex_paths (Some SourceRemote) ?s) = EXIT_NOT_IMPLEMENTED" by simp
  moreover from json_failures_reported [OF j w] have
    "\<exists>pre t ev. co_out (ss_console (fst (run_wipe ?E ex_paths ?s))) = pre @ oe_ser (se_out ?E t) (failed_json ev) @ [NL]
      \<and> reason_exit (fe_reason ev) = EXIT_USAGE"
    unfolding code by (simp add: EXIT_USAGE_def EXIT_OK_def)
  ultimately show ?thesis by blast
qed

text \<open>A container whose envelope is of a later version: no passphrase opens it.\<close>

theorem refused_unlock_harmless_witness:
  "\<exists>env s' code. unlock_local (ex_session_env True) ex_paths (ex_session [''/c/l'' \<mapsto> ex_file env]) = (s', code)
     \<and> ss_disk s' = ss_disk (ex_session [''/c/l'' \<mapsto> ex_file env]) \<and> ss_agent s' = None"
proof -
  let ?e = "undefined\<lparr>ev_version := 2\<rparr> :: profile_envelope"
  let ?E = "ex_session_env True" and ?s = "ex_session [''/c/l'' \<mapsto> ex_file (code_text ?e)]"
  obtain s' code where r: "unlock_local ?E ex_paths ?s = (s', code)" by fastforce
  have "json_decode ex_prims (code_text ?e) = Some ?e" by (simp add: ex_prims_def)
  then have "\<exists>x. decrypt_set ex_prims (code_text ?e) pw = Inl x" for pw
    by (simp add: decrypt_set_def ok_or_def rbind_def check_header_def ENVELOPE_VERSION_V1_def)
  then have bad: "\<forall>pw f. snd (obtain_passphrase ?E ?s) = Inr pw \<longrightarrow> d_files (ss_disk ?s) (p_profiles_local_file ex_paths) = Some f \<longrightarrow>
           (\<exists>e. decrypt_set (se_prims ?E) (f_data f) pw = Inl e)"
    by (auto simp: ex_session_def ex_paths_def ex_file_def ex_session_env_def)
  from refused_unlock_harmless [OF r bad] r show ?thesis by (auto simp: ex_session_def)
qed

theorem lock_ok_means_locked_witness:
  "\<exists>s'. run_lock (ex_session_env True) ex_paths (ex_session Map.empty) = (s', EXIT_OK) \<and> ss_agent s' = None"
proof -
  obtain s' where r: "run_lock (ex_session_env True) ex_paths (ex_session Map.empty) = (s', EXIT_OK)"
    by (simp add: run_lock_def ex_session_def)
  from lock_ok_means_locked [OF r] r show ?thesis by (auto simp: ex_session_def)
qed

text \<open>A wipe that succeeds: the remote container cannot be removed, and the sidecar is not looked at.\<close>

theorem wipe_exact_witness:
  "\<exists>s'. run_wipe (ex_session_env True) ex_paths (ex_session [''/c/l'' \<mapsto> ex_file [], ''/c/m'' \<mapsto> ex_file [], ''/c/d'' \<mapsto> ex_file []])
       = (s', EXIT_OK)
     \<and> d_files (ss_disk s') ''/c/l'' = None \<and> d_files (ss_disk s') ''/c/m'' \<noteq> None \<and> d_files (ss_disk s') ''/c/d'' \<noteq> None"
proof -
  let ?s = "ex_session [''/c/l'' \<mapsto> ex_file [], ''/c/m'' \<mapsto> ex_file [], ''/c/d'' \<mapsto> ex_file []]"
  have code: "snd (run_wipe (ex_session_env True) ex_paths ?s) = EXIT_OK"
    by (simp add: run_wipe_def scriptable_def ex_session_env_def confirm_wipe_def remove_dir_if_exists_def Let_def)
  obtain s' where r: "run_wipe (ex_session_env True) ex_paths ?s = (s', EXIT_OK)" using code by (metis prod.collapse)
  from wipe_exact [OF r] have "\<forall>q. d_files (ss_disk s') q = (if q \<in> {''/c/l'', ''/c/m'', ''/c/t'', ''/r/t''} \<and> q \<noteq> ''/c/m''
      then None else d_files (ss_disk ?s) q)"
    by (simp add: ex_session_env_def ex_paths_def)
  then show ?thesis using r by (simp add: ex_session_def)
qed

end
