(* ===== verification/Sacs.thy ===== *)
theory Sacs
  imports Session "HOL-Library.Product_Lexorder"
begin

text \<open>
  The contextual suggestions of the shell (src/sacs): the state they depend on
  (state.rs), the candidates for a cursor position (complete.rs), the lines they are
  printed as (render.rs) and the bridge to the agent (agent_source.rs). What a directory
  holds is an argument; remote listings come from a source that may change its world.
\<close>

section \<open>The state (state.rs)\<close>

datatype sacs_state = S0Fresh | S1Down | S2Locked | S3Ready | S4ReadyDual

record signals =
  sg_profiles_local_exists :: bool
  sg_profiles_remote_exists :: bool
  sg_remote_feature_compiled_in :: bool
  sg_agent_socket_exists :: bool
  sg_agent_unlocked :: "bool option"

definition detect_signals :: "session \<Rightarrow> paths \<Rightarrow> bool \<Rightarrow> signals" where
  "detect_signals s p remote_feature =
     \<lparr>sg_profiles_local_exists = file_exists s (p_profiles_local_file p),
      sg_profiles_remote_exists = file_exists s (p_profiles_remote_file p),
      sg_remote_feature_compiled_in = remote_feature,
      sg_agent_socket_exists = ss_socket s, sg_agent_unlocked = None\<rparr>"

definition classify_state :: "signals \<Rightarrow> sacs_state" where
  "classify_state g =
     (let remote_usable = (sg_profiles_remote_exists g \<and> sg_remote_feature_compiled_in g);
          local_usable = sg_profiles_local_exists g in
      if \<not> (local_usable \<or> remote_usable) then S0Fresh
      else if \<not> sg_agent_socket_exists g then S1Down
      else case sg_agent_unlocked g of
        Some True \<Rightarrow> if local_usable \<and> remote_usable then S4ReadyDual else S3Ready
      | _ \<Rightarrow> S2Locked)"

section \<open>Candidates and their lines (render.rs)\<close>

datatype cand_kind = KVerb | KAtomic | KFileLocal | KDirLocal | KFileRemote | KDirRemote | KHelp | KFooter

fun kind_as_str :: "cand_kind \<Rightarrow> string" where
  "kind_as_str KVerb = ''verb''"
| "kind_as_str KAtomic = ''atomic''"
| "kind_as_str KFileLocal = ''file_local''"
| "kind_as_str KDirLocal = ''dir_local''"
| "kind_as_str KFileRemote = ''file_remote''"
| "kind_as_str KDirRemote = ''dir_remote''"
| "kind_as_str KHelp = ''help''"
| "kind_as_str KFooter = ''footer''"

record candidate =
  cd_value :: string
  cd_display :: string
  cd_description :: string
  cd_kind :: cand_kind
  cd_rank :: u32

definition QUOTE :: char where "QUOTE = CHR 0x22"
definition BACKSLASH :: char where "BACKSLASH = CHR 0x5C"

definition hex_digit :: "nat \<Rightarrow> char" where
  "hex_digit n = (if n < 10 then char_of (48 + n) else char_of (87 + n))"

text \<open>Only bytes below 128 are escaped, so the bytes of the text can be taken one by one.\<close>

definition escape_char :: "char \<Rightarrow> string" where
  "escape_char c =
     (if c = QUOTE then [BACKSLASH, QUOTE]
      else if c = BACKSLASH then [BACKSLASH, BACKSLASH]
      else if c = CHR 0x0A then [BACKSLASH, CHR ''n'']
      else if c = CHR 0x0D then [BACKSLASH, CHR ''r'']
      else if c = CHR 0x09 then [BACKSLASH, CHR ''t'']
      else if (of_char c :: nat) < 32 \<or> c = CHR 0x7F then
        [BACKSLASH, CHR ''u'', CHR ''0'', CHR ''0'', hex_digit (of_char c div 16), hex_digit (of_char c mod 16)]
      else [c])"

definition escape_into :: "string \<Rightarrow> string" where
  "escape_into s = concat (map escape_char s)"

definition write_kv :: "string \<Rightarrow> string \<Rightarrow> string" where
  "write_kv key v = [QUOTE] @ key @ [QUOTE] @ '': '' @ [QUOTE] @ escape_into v @ [QUOTE]"

definition emit_one :: "candidate \<Rightarrow> string" where
  "emit_one c =
     ''{'' @ write_kv ''value'' (cd_value c) @ '', '' @ write_kv ''display'' (cd_display c) @ '', ''
       @ write_kv ''description'' (cd_description c) @ '', ''
       @ [QUOTE] @ ''kind'' @ [QUOTE] @ '': '' @ [QUOTE] @ kind_as_str (cd_kind c) @ [QUOTE] @ '', ''
       @ [QUOTE] @ ''rank'' @ [QUOTE] @ '': '' @ show_nat (unat (cd_rank c)) @ ''}''"

definition sort_candidates :: "candidate list \<Rightarrow> candidate list" where
  "sort_candidates cs = sort_key (\<lambda>c. (cd_rank c, cd_value c)) cs"

definition render_candidates :: "candidate list \<Rightarrow> string" where
  "render_candidates cs = concat (map (\<lambda>c. emit_one c @ [NL]) (sort_candidates cs))"

section \<open>Arguments (complete.rs)\<close>

definition REMOTE_CANDIDATE_LIMIT :: nat where "REMOTE_CANDIDATE_LIMIT = 50"
definition LOCAL_CANDIDATE_LIMIT :: nat where "LOCAL_CANDIDATE_LIMIT = 50"

datatype remote_list_error = RlNotUnlocked | RlProvider | RlUnreachable

record complete_args =
  ca_cwd :: string
  ca_tokens :: "string list"

fun complete_words :: "string list \<Rightarrow> string option \<times> string list" where
  "complete_words [] = (None, [])"
| "complete_words [a] = (None, [a])"
| "complete_words (a # b # rest) =
     (if a = ''--cwd'' then (case complete_words rest of (Some c, ts) \<Rightarrow> (Some c, ts) | (None, ts) \<Rightarrow> (Some b, ts))
      else (case complete_words (b # rest) of (c, ts) \<Rightarrow> (c, a # ts)))"

text \<open>The last \<open>--cwd\<close> wins; without one, the directory of the process, or the dot.\<close>

definition parse_complete_args :: "string option \<Rightarrow> string list \<Rightarrow> complete_args" where
  "parse_complete_args current_dir argv =
     (case complete_words argv of (c, ts) \<Rightarrow>
        \<lparr>ca_cwd = (case c of Some d \<Rightarrow> d | None \<Rightarrow> (case current_dir of Some d \<Rightarrow> d | None \<Rightarrow> ''.'')), ca_tokens = ts\<rparr>)"

definition current_word :: "string list \<Rightarrow> string" where
  "current_word tokens = (if tokens = [] then [] else last tokens)"

definition previous_tokens :: "string list \<Rightarrow> string list" where
  "previous_tokens tokens = butlast tokens"

definition is_composite_token :: "string \<Rightarrow> bool" where
  "is_composite_token t =
     (case t of
        [] \<Rightarrow> False
      | c # cs \<Rightarrow> (c = CHR ''s'' \<or> c = CHR ''d'') \<and> list_all (\<lambda>x. x \<in> set ''arxe'') cs)"

text \<open>The letters of a token whose head is known.\<close>

definition verb_modifiers :: "string \<Rightarrow> modifiers" where
  "verb_modifiers verb =
     (let t = set (tl verb) in \<lparr>mod_a = (CHR ''a'' \<in> t), mod_r = (CHR ''r'' \<in> t), mod_x = (CHR ''x'' \<in> t)\<rparr>)"

section \<open>Verbs (complete.rs)\<close>

type_synonym raw_verb = "string \<times> cand_kind \<times> u32 \<times> string"

definition filter_atomic :: "raw_verb list \<Rightarrow> string \<Rightarrow> candidate list" where
  "filter_atomic raw cur =
     map (\<lambda>(v, kind, rank, description).
            \<lparr>cd_value = v, cd_display = ''zz '' @ v, cd_description = description, cd_kind = kind, cd_rank = rank\<rparr>)
       (filter (\<lambda>(v, _, _, _). cur = [] \<or> prefix cur v) raw)"

definition fresh_verbs :: "raw_verb list" where
  "fresh_verbs = [(''c'', KAtomic, 1, ''open the configuration TUI''), (''--help'', KHelp, 2, ''show the cheat sheet'')]"

definition down_verbs :: "raw_verb list" where
  "down_verbs =
     [(''z'', KAtomic, 1, ''unlock the active container''), (''c'', KAtomic, 2, ''open the configuration TUI''),
      (''q'', KAtomic, 3, ''lock the agent''), (''w'', KAtomic, 4, ''wipe local zz-drop state''),
      (''f'', KAtomic, 5, ''doctor / diagnostics'')]"

definition locked_verbs :: "raw_verb list" where
  "locked_verbs =
     [(''z'', KAtomic, 1, ''unlock the active container''), (''q'', KAtomic, 2, ''lock the agent''),
      (''c'', KAtomic, 3, ''open the configuration TUI''), (''w'', KAtomic, 4, ''wipe local zz-drop state''),
      (''f'', KAtomic, 5, ''doctor / diagnostics'')]"

definition setup_verbs_for_fresh :: "string \<Rightarrow> candidate list" where
  "setup_verbs_for_fresh cur = filter_atomic fresh_verbs cur"

definition setup_verbs_for_down :: "string \<Rightarrow> candidate list" where
  "setup_verbs_for_down cur = filter_atomic down_verbs cur"

definition setup_verbs_for_locked :: "string \<Rightarrow> candidate list" where
  "setup_verbs_for_locked cur = filter_atomic locked_verbs cur"

definition verb_rank_base :: u32 where "verb_rank_base = 100"

definition ready_verbs :: "raw_verb list" where
  "ready_verbs =
     [(''s'', KVerb, verb_rank_base, ''explicit upload '' @ middle_dot @ '' press space for files''),
      (''d'', KVerb, verb_rank_base + 1, ''download '' @ middle_dot @ '' press space for files''),
      (''sa'', KVerb, verb_rank_base + 2, ''+ bulk top-level (dir)''),
      (''sx'', KVerb, verb_rank_base + 3, ''+ zstd compress''),
      (''dx'', KVerb, verb_rank_base + 4, ''+ decompress''),
      (''sarx'', KVerb, verb_rank_base + 5, ''+ recursive bundle + zstd''),
      (''darx'', KVerb, verb_rank_base + 6, ''+ recursive + decompress'')]"

definition ready_atomics :: "raw_verb list" where
  "ready_atomics =
     [(''q'', KAtomic, 200, ''lock the agent''), (''c'', KAtomic, 201, ''open the configuration TUI''),
      (''f'', KAtomic, 202, ''doctor / diagnostics'')]"

definition unlock_verbs :: "sacs_state \<Rightarrow> raw_verb list" where
  "unlock_verbs st =
     (if st = S4ReadyDual then
        [(''z'', KAtomic, 210, ''unlock active container (auto)''), (''z local'', KAtomic, 211, ''unlock the local container''),
         (''z remote'', KAtomic, 212, ''unlock the remote container'')]
      else [(''z'', KAtomic, 210, ''unlock active container'')])"

definition z_argument :: "string list \<Rightarrow> string \<Rightarrow> sacs_state \<Rightarrow> candidate list" where
  "z_argument after cur st =
     (if after \<noteq> [] then []
      else filter_atomic
        ((''local'', KAtomic, 1, ''force the local container'')
          # (if st = S4ReadyDual then [(''remote'', KAtomic, 2, ''force the remote container'')] else [])) cur)"

section \<open>Local candidates (complete.rs)\<close>

text \<open>
  An entry of \<open>read_dir\<close>: its name where that is UTF-8, and its own metadata (a link is
  not followed). A time before the epoch is negative.
\<close>

record entry_meta =
  em_symlink :: bool
  em_dir :: bool
  em_len :: u64
  em_modified :: "int option"

record dir_entry =
  de_name :: "string option"
  de_meta :: "entry_meta option"

type_synonym read_dir = "string \<Rightarrow> dir_entry list option"

record local_entry =
  le_name :: string
  le_is_dir :: bool
  le_size :: u64
  le_mtime :: int

datatype entry_filter = FilesOnly | DirsOnly

definition split_path_prefix :: "string \<Rightarrow> string \<times> string" where
  "split_path_prefix p = (let base = file_name p in (take (length p - length base) p, base))"

definition local_entry_of :: "string \<Rightarrow> string \<Rightarrow> entry_filter \<Rightarrow> dir_entry \<Rightarrow> local_entry option" where
  "local_entry_of dir_part base f e =
     (case de_name e of
        None \<Rightarrow> None
      | Some name \<Rightarrow>
          if prefix ''.'' name then None
          else if base \<noteq> [] \<and> \<not> prefix base name then None
          else case de_meta e of
            None \<Rightarrow> None
          | Some meta \<Rightarrow>
              if em_symlink meta then None
              else if (case f of FilesOnly \<Rightarrow> em_dir meta | DirsOnly \<Rightarrow> \<not> em_dir meta) then None
              else Some \<lparr>le_name = dir_part @ name, le_is_dir = em_dir meta, le_size = em_len meta,
                     le_mtime = (case em_modified meta of Some t \<Rightarrow> t | None \<Rightarrow> 0)\<rparr>)"

definition collect_local :: "read_dir \<Rightarrow> string \<Rightarrow> string \<Rightarrow> entry_filter \<Rightarrow> local_entry list" where
  "collect_local rd cwd p f =
     (let (dir_part, base) = split_path_prefix p in
      case rd (if dir_part = [] then cwd else path_join cwd dir_part) of
        None \<Rightarrow> []
      | Some es \<Rightarrow> List.map_filter (local_entry_of dir_part base f) es)"

definition collect_local_files :: "read_dir \<Rightarrow> string \<Rightarrow> string \<Rightarrow> local_entry list" where
  "collect_local_files rd cwd p = collect_local rd cwd p FilesOnly"

text \<open>Newest first, then by name.\<close>

definition by_age :: "local_entry list \<Rightarrow> local_entry list" where
  "by_age es = sort_key (\<lambda>e. (- le_mtime e, le_name e)) es"

definition format_size :: "u64 \<Rightarrow> string" where
  "format_size bytes =
     (let n = unat bytes in
      if n < 1024 then show_nat n @ '' B''
      else if n < 1024 ^ 2 then one_decimal (f64_of_u64 n) 1024 @ '' KiB''
      else one_decimal (f64_of_u64 n) (1024 ^ 2) @ '' MiB'')"

definition footer :: "nat \<Rightarrow> nat \<Rightarrow> string \<Rightarrow> candidate" where
  "footer extra n_total label =
     \<lparr>cd_value = [], cd_display = [],
      cd_description = ''+'' @ show_nat extra @ '' more matches '' @ em_dash @ '' keep typing to narrow  '' @ show_nat n_total
        @ '' '' @ label @ '' total '' @ middle_dot @ '' newest first'',
      cd_kind = KFooter, cd_rank = - 1\<rparr>"

definition footer_if :: "nat \<Rightarrow> nat \<Rightarrow> string \<Rightarrow> candidate list" where
  "footer_if limit n_total label = (if limit < n_total then [footer (n_total - limit) n_total label] else [])"

definition numbered :: "nat \<Rightarrow> (nat \<Rightarrow> 'a \<Rightarrow> 'b) \<Rightarrow> 'a list \<Rightarrow> 'b list" where
  "numbered limit f xs = map2 f [0..<length (take limit xs)] (take limit xs)"

definition local_file_candidate :: "string \<Rightarrow> u32 \<Rightarrow> bool \<Rightarrow> nat \<Rightarrow> local_entry \<Rightarrow> candidate" where
  "local_file_candidate upload_label rank_base annotate_newest i e =
     (let v = (if le_is_dir e then le_name e @ ''/'' else le_name e) in
      \<lparr>cd_value = v, cd_display = ''zz '' @ v,
       cd_description = (if le_is_dir e then ''directory '' @ middle_dot @ '' navigate''
         else upload_label @ '' '' @ middle_dot @ '' '' @ format_size (le_size e)
                @ (if annotate_newest \<and> i = 0 then '' '' @ middle_dot @ '' newest'' else [])),
       cd_kind = (if le_is_dir e then KDirLocal else KFileLocal), cd_rank = rank_base + of_nat i\<rparr>)"

definition rank_local_files :: "local_entry list \<Rightarrow> string \<Rightarrow> u32 \<Rightarrow> bool \<Rightarrow> candidate list" where
  "rank_local_files es upload_label rank_base annotate_newest =
     numbered LOCAL_CANDIDATE_LIMIT (local_file_candidate upload_label rank_base annotate_newest) (by_age es)
       @ footer_if LOCAL_CANDIDATE_LIMIT (length es) ''files''"

definition local_dir_candidate :: "string \<Rightarrow> u32 \<Rightarrow> nat \<Rightarrow> local_entry \<Rightarrow> candidate" where
  "local_dir_candidate shown rank_base i e =
     \<lparr>cd_value = le_name e @ ''/'', cd_display = shown @ le_name e @ ''/'', cd_description = [],
      cd_kind = KDirLocal, cd_rank = rank_base + of_nat i\<rparr>"

text \<open>The directories that several positions list, from a rank on.\<close>

definition rank_local_dirs :: "string \<Rightarrow> u32 \<Rightarrow> local_entry list \<Rightarrow> candidate list" where
  "rank_local_dirs shown rank_base es =
     numbered LOCAL_CANDIDATE_LIMIT (local_dir_candidate shown rank_base) (by_age es)
       @ footer_if LOCAL_CANDIDATE_LIMIT (length es) ''directories''"

definition collect_local_dirs_ranked :: "read_dir \<Rightarrow> string \<Rightarrow> string \<Rightarrow> candidate list" where
  "collect_local_dirs_ranked rd cwd p = rank_local_dirs ''zz sa '' 1 (collect_local rd cwd p DirsOnly)"

definition saturating_add :: "u32 \<Rightarrow> u32 \<Rightarrow> u32" where
  "saturating_add a b = (if uint a + uint b < 2 ^ 32 then a + b else - 1)"

section \<open>Remote candidates (complete.rs)\<close>

type_synonym 'w list_source = "'w \<Rightarrow> string option \<Rightarrow> entry_kind_filter \<Rightarrow> 'w \<times> (remote_list_error, remote_list_entry list) result"

definition parent_for_remote_prefix :: "string \<Rightarrow> string option" where
  "parent_for_remote_prefix cur =
     (if cur = [] \<or> CHR ''/'' \<notin> set cur then None
      else let trimmed = trim_end_matches CHR ''/'' cur in
           if CHR ''/'' \<in> set trimmed then Some (take (length trimmed - length (file_name trimmed) - 1) trimmed)
           else None)"

definition try_list_remote :: "'w list_source option \<Rightarrow> string option \<Rightarrow> entry_kind_filter \<Rightarrow> 'w \<Rightarrow> 'w \<times> remote_list_entry list" where
  "try_list_remote source p kind w =
     (case source of
        None \<Rightarrow> (w, [])
      | Some s \<Rightarrow> (case s w p kind of (w', Inr es) \<Rightarrow> (w', es) | (w', Inl _) \<Rightarrow> (w', [])))"

definition cur_last_segment :: "string \<Rightarrow> string" where
  "cur_last_segment cur = file_name cur"

definition remote_join :: "string \<Rightarrow> string \<Rightarrow> string" where
  "remote_join cur child =
     (if CHR ''/'' \<in> set cur then take (length cur - length (file_name cur) - 1) cur @ ''/'' @ child else child)"

definition verb_display :: "string \<Rightarrow> string" where
  "verb_display verb = (if verb = [] then ''zz'' else ''zz '' @ verb)"

definition matching :: "remote_kind \<Rightarrow> string \<Rightarrow> remote_list_entry list \<Rightarrow> remote_list_entry list" where
  "matching kind cur es =
     sort_key re_name (filter (\<lambda>e. cur_last_segment cur = [] \<or> prefix (cur_last_segment cur) (re_name e))
       (filter (\<lambda>e. re_kind e = kind) es))"

definition remote_file_candidate :: "string \<Rightarrow> string \<Rightarrow> string \<Rightarrow> u32 \<Rightarrow> nat \<Rightarrow> remote_list_entry \<Rightarrow> candidate" where
  "remote_file_candidate verb cur label rank_base i e =
     \<lparr>cd_value = remote_join cur (re_name e), cd_display = verb_display verb @ '' '' @ re_name e,
      cd_description = (case re_size e of Some b \<Rightarrow> label @ '' '' @ middle_dot @ '' '' @ format_size b | None \<Rightarrow> label),
      cd_kind = KFileRemote, cd_rank = rank_base + of_nat i\<rparr>"

definition rank_remote_files :: "remote_list_entry list \<Rightarrow> string \<Rightarrow> string \<Rightarrow> string \<Rightarrow> u32 \<Rightarrow> candidate list" where
  "rank_remote_files es verb cur label rank_base =
     (let filtered = matching RFile cur es in
      numbered REMOTE_CANDIDATE_LIMIT (remote_file_candidate verb cur label rank_base) filtered
        @ footer_if REMOTE_CANDIDATE_LIMIT (length filtered) ''remote files'')"

definition with_slash :: "string \<Rightarrow> string" where
  "with_slash v = (if ends_with v CHR ''/'' then v else v @ ''/'')"

definition remote_dir_candidate :: "string \<Rightarrow> string \<Rightarrow> u32 \<Rightarrow> nat \<Rightarrow> remote_list_entry \<Rightarrow> candidate" where
  "remote_dir_candidate verb cur rank_base i e =
     \<lparr>cd_value = with_slash (remote_join cur (re_name e)), cd_display = verb_display verb @ '' '' @ re_name e @ ''/'',
      cd_description = [], cd_kind = KDirRemote, cd_rank = rank_base + of_nat i\<rparr>"

definition rank_remote_dirs :: "remote_list_entry list \<Rightarrow> string \<Rightarrow> string \<Rightarrow> u32 \<Rightarrow> candidate list" where
  "rank_remote_dirs es verb cur rank_base =
     (let filtered = matching RDirectory cur es in
      numbered REMOTE_CANDIDATE_LIMIT (remote_dir_candidate verb cur rank_base) filtered
        @ footer_if REMOTE_CANDIDATE_LIMIT (length filtered) ''remote dirs'')"

section \<open>The candidates of a position (complete.rs)\<close>

text \<open>The local part of a first source: files, then directories from a rank on.\<close>

definition local_sources :: "read_dir \<Rightarrow> string \<Rightarrow> string \<Rightarrow> string \<Rightarrow> bool \<Rightarrow> u32 \<Rightarrow> candidate list" where
  "local_sources rd cwd cur label annotate_newest dir_base =
     rank_local_files (collect_local_files rd cwd cur) label 1 annotate_newest
       @ rank_local_dirs ''zz '' dir_base (collect_local rd cwd cur DirsOnly)"

definition ready_first_arg :: "sacs_state \<Rightarrow> string \<Rightarrow> read_dir \<Rightarrow> string \<Rightarrow> candidate list" where
  "ready_first_arg st cur rd cwd =
     (let composing_verb = (cur \<noteq> [] \<and> is_composite_token cur) in
      (if composing_verb then [] else local_sources rd cwd cur ''upload'' True 50)
        @ filter_atomic ready_verbs cur @ filter_atomic ready_atomics cur @ filter_atomic (unlock_verbs st) cur)"

definition ready_after_s ::
  "string \<Rightarrow> string list \<Rightarrow> string \<Rightarrow> read_dir \<Rightarrow> string \<Rightarrow> 'w list_source option \<Rightarrow> 'w \<Rightarrow> 'w \<times> candidate list" where
  "ready_after_s verb after cur rd cwd source w =
     (if mod_a (verb_modifiers verb) then
        if after = [] then (w, collect_local_dirs_ranked rd cwd cur)
        else (let (w', es) = try_list_remote source (parent_for_remote_prefix cur) FilterDirectory w
              in (w', rank_remote_dirs es verb cur 1))
      else if after = [] then
        (w, local_sources rd cwd cur (if mod_x (verb_modifiers verb) then ''upload + zstd compress'' else ''upload'') True 100)
      else
        (let (w', es) = try_list_remote source (parent_for_remote_prefix cur) FilterDirectory w
         in (w', local_sources rd cwd cur ''add as source'' False 25 @ rank_remote_dirs es verb cur 50)))"

definition ready_after_d ::
  "string \<Rightarrow> string list \<Rightarrow> string \<Rightarrow> read_dir \<Rightarrow> string \<Rightarrow> 'w list_source option \<Rightarrow> 'w \<Rightarrow> 'w \<times> candidate list" where
  "ready_after_d verb after cur rd cwd source w =
     (if mod_a (verb_modifiers verb) then
        if after = [] then (w, collect_local_dirs_ranked rd cwd cur)
        else (let (w', es) = try_list_remote source (parent_for_remote_prefix cur) FilterDirectory w
              in (w', rank_remote_dirs es verb cur 1))
      else
        (let (w', es) = try_list_remote source (parent_for_remote_prefix cur) FilterBoth w in
         (w', if after = [] then
                rank_remote_files es verb cur
                    (if mod_x (verb_modifiers verb) then ''download + decompress '' @ middle_dot @ '' remote''
                     else ''download (raw bytes) '' @ middle_dot @ '' remote'') 1
                  @ rank_remote_dirs es verb cur 50
              else
                rank_remote_files es verb cur (''add as source '' @ middle_dot @ '' remote'') 1
                  @ map (\<lambda>c. c\<lparr>cd_rank := saturating_add (cd_rank c) 50\<rparr>) (collect_local_dirs_ranked rd cwd cur))))"

definition ready_after_default_upload ::
  "string \<Rightarrow> read_dir \<Rightarrow> string \<Rightarrow> 'w list_source option \<Rightarrow> 'w \<Rightarrow> 'w \<times> candidate list" where
  "ready_after_default_upload cur rd cwd source w =
     (let (w', es) = try_list_remote source (parent_for_remote_prefix cur) FilterDirectory w
      in (w', rank_local_files (collect_local_files rd cwd cur) ''add as source'' 1 False @ rank_remote_dirs es [] cur 50))"

definition complete_run ::
  "read_dir \<Rightarrow> sacs_state \<Rightarrow> complete_args \<Rightarrow> 'w list_source option \<Rightarrow> 'w \<Rightarrow> 'w \<times> candidate list" where
  "complete_run rd st args source w =
     (let cur = current_word (ca_tokens args); cwd = ca_cwd args in
      if st = S0Fresh then (w, setup_verbs_for_fresh cur)
      else if st = S1Down then (w, setup_verbs_for_down cur)
      else if st = S2Locked then (w, setup_verbs_for_locked cur)
      else case previous_tokens (ca_tokens args) of
        [] \<Rightarrow> (w, ready_first_arg st cur rd cwd)
      | head # after \<Rightarrow>
          if prefix ''s'' head \<and> is_composite_token head then ready_after_s head after cur rd cwd source w
          else if prefix ''d'' head \<and> is_composite_token head then ready_after_d head after cur rd cwd source w
          else if head \<in> {''q'', ''w'', ''kalvasflam'', ''c'', ''f''} then (w, [])
          else if head = ''z'' then (w, z_argument after cur st)
          else ready_after_default_upload cur rd cwd source w)"

section \<open>The bridge to the agent (agent_source.rs)\<close>

definition REMOTE_LIST_MAX :: u32 where "REMOTE_LIST_MAX = 200"

text \<open>The first component is a bridge, with what the agent said of its lock.\<close>

definition probe_agent :: "session_env \<Rightarrow> paths \<Rightarrow> session \<Rightarrow> session \<times> bool option" where
  "probe_agent E p s =
     (case client_connect E p s of
        Inl _ \<Rightarrow> (s, None)
      | Inr _ \<Rightarrow>
          (case client_request E Status s of
             (s', Inr (StatusIs unlocked _)) \<Rightarrow> (s', Some unlocked)
           | (s', _) \<Rightarrow> (s', Some False)))"

definition bridge_list :: "session_env \<Rightarrow> session list_source" where
  "bridge_list E s p kind =
     (case client_request E (ListRemote p kind REMOTE_LIST_MAX) s of
        (s', Inr (RemoteList es _ _)) \<Rightarrow> (s', Inr es)
      | (s', Inr (Error NotUnlocked)) \<Rightarrow> (s', Inl RlNotUnlocked)
      | (s', Inr _) \<Rightarrow> (s', Inl RlProvider)
      | (s', Inl (SocketUnreachable _)) \<Rightarrow> (s', Inl RlUnreachable)
      | (s', Inl _) \<Rightarrow> (s', Inl RlProvider))"

end
