(* ===== verification/Sacs_Tools.thy ===== *)
theory Sacs_Tools
  imports Sacs
begin

text \<open>
  The subcommands that are intercepted before the command line is parsed (src/sacs/mod.rs)
  and the cheat sheet (help.rs). The completion scripts, the version and the
  text of an installation error are arguments.
\<close>

section \<open>The cheat sheet (help.rs)\<close>

abbreviation identical :: string where "identical \<equiv> [CHR 0xE2, CHR 0x89, CHR 0xA1]"

definition WIDE_THRESHOLD :: nat where "WIDE_THRESHOLD = 72"

definition WIDE_LINES :: "string list" where
  "WIDE_LINES =
     [''zz-drop '' @ em_dash @ '' explicit one-shot file transfer'',
      [],
      ''UPLOAD'',
      ''  zz <file>...               upload (default verb)'',
      ''  zz s <file>... [<dir>/]    explicit alias (trailing-/ '' @ arrow_right @ '' remote dir)'',
      ''  zz sx <file> [<dir>/]      + zstd compress'',
      ''  zz sa <dir> [<prefix>]     bulk top-level (2nd arg = remote prefix)'',
      ''  zz sar <dir> [<prefix>]    recursive'',
      ''  zz sax <dir> [<prefix>]    '' @ arrow_right @ '' one .tar.zst'',
      ''  zz sarx <dir> [<prefix>]   recursive bundle'',
      [],
      ''DOWNLOAD'',
      ''  zz d <name>... [<dir>/]    download raw (trailing-/ '' @ arrow_right @ '' local dir)'',
      ''  zz dx <name> [<dir>/]      + decompress (or extract bundle)'',
      ''  zz da [<dest> [<prefix>]]  all top-level (zero-arg '' @ arrow_right @ '' cwd, full root)'',
      ''  zz dar [<dest> [<prefix>]] recursive'',
      [],
      ''ATOMIC'',
      ''  zz q                       lock the agent'',
      ''  zz w                       wipe local state (asks for confirmation)'',
      ''  zz z [local|remote]        unlock the active container'',
      ''  zz c                       open the configuration TUI (zz-tui)'',
      ''  zz f                       doctor / diagnostics'',
      [],
      ''MODIFIERS (s and d only, set semantics)'',
      ''  a  bulk         r  recursive (with a)'',
      ''  x  compress     e  encrypt (coming v1.1)'',
      [],
      ''set semantics: zz sarx . '' @ identical @ '' zz sxar . '' @ identical @ '' zz xars . '' @ identical @ '' zz rasx .'',
      [],
      ''EXIT CODES'',
      ''  0  ok            6  profile not found'',
      ''  2  usage         7  decryption failed'',
      ''  3  not impl      8  wipe cancelled'',
      ''  5  agent down    9  provider error    127 zz-tui not on PATH'',
      [],
      ''SHELL COMPLETIONS'',
      ''  zz --setup-completions [bash|zsh|fish]       # install (auto-detects $SHELL)'',
      ''  zz --check-completions [bash|zsh|fish]       # verify the install'',
      ''  zz --setup-completions zsh --uninstall       # remove rc block + file'',
      [],
      ''  See COMMANDS.md for the full grammar reference.'']"

definition NARROW_LINES :: "string list" where
  "NARROW_LINES =
     [''zz-drop '' @ em_dash @ '' explicit one-shot file transfer'',
      [],
      ''UPLOAD'',
      ''  zz <file>...'',
      ''  zz s <file>... [<dir>/]'',
      ''  zz sx <file> [<dir>/]'',
      ''  zz sa <dir> [<prefix>]'',
      ''  zz sar <dir> [<prefix>]'',
      ''  zz sax <dir> [<prefix>]'',
      ''  zz sarx <dir> [<prefix>]'',
      [],
      ''DOWNLOAD'',
      ''  zz d <name>... [<dir>/]'',
      ''  zz dx <name> [<dir>/]'',
      ''  zz da [<dest> [<prefix>]]'',
      ''  zz dar [<dest> [<prefix>]]'',
      [],
      ''ATOMIC'',
      ''  zz q  zz w  zz z [local|remote]  zz c  zz f'',
      [],
      ''MODIFIERS (s/d, set semantics)'',
      ''  a bulk '' @ middle_dot @ '' r recursive (with a)'',
      ''  x compress '' @ middle_dot @ '' e encrypt (v1.1)'',
      [],
      ''EXIT CODES'',
      ''  0 ok '' @ middle_dot @ '' 2 usage '' @ middle_dot @ '' 3 not impl '' @ middle_dot @ '' 5 agent down'',
      ''  6 profile '' @ middle_dot @ '' 7 decrypt '' @ middle_dot @ '' 8 wipe cancel'',
      ''  9 provider '' @ middle_dot @ '' 127 no zz-tui'',
      [],
      ''SHELL COMPLETIONS'',
      ''  zz --setup-completions [bash|zsh|fish]'',
      ''  zz --check-completions [bash|zsh|fish]'',
      [],
      ''See COMMANDS.md for the full grammar reference.'']"

definition detect_columns :: "(string \<Rightarrow> string option) \<Rightarrow> nat" where
  "detect_columns env =
     (case env ''COLUMNS'' of
        None \<Rightarrow> 80
      | Some v \<Rightarrow> (case parse_unsigned (2 ^ 64) v of None \<Rightarrow> 80 | Some n \<Rightarrow> if n > 0 then n else 80))"

definition render_help :: "nat \<Rightarrow> string" where
  "render_help columns = concat (map (\<lambda>l. l @ [NL]) (if columns \<ge> WIDE_THRESHOLD then WIDE_LINES else NARROW_LINES))"

section \<open>The tail of the completion subcommands (mod.rs)\<close>

record completions_tail =
  ct_shell :: "shell option"
  ct_output :: output_mode
  ct_uninstall :: bool

definition unsupported_shell :: "string \<Rightarrow> string" where
  "unsupported_shell v = ''unsupported shell `'' @ v @ ''` (supported: bash, zsh, fish)''"

definition EXCLUSIVE_MODES :: string where "EXCLUSIVE_MODES = ''--quiet and --json cannot be combined''"

fun tail_loop :: "completions_tail \<Rightarrow> string list \<Rightarrow> (string, completions_tail) result" where
  "tail_loop t [] = Inr t"
| "tail_loop t (tok # iter) =
     (if tok = ''--json'' then
        if ct_output t = QuietMode then Inl EXCLUSIVE_MODES else tail_loop (t\<lparr>ct_output := JsonMode\<rparr>) iter
      else if tok = ''--quiet'' then
        if ct_output t = JsonMode then Inl EXCLUSIVE_MODES else tail_loop (t\<lparr>ct_output := QuietMode\<rparr>) iter
      else if tok = ''--uninstall'' then tail_loop (t\<lparr>ct_uninstall := True\<rparr>) iter
      else if tok = ''--shell'' then
        (case iter of
           [] \<Rightarrow> Inl ''--shell requires a value''
         | v # rest \<Rightarrow>
             (case shell_parse v of
                None \<Rightarrow> Inl (unsupported_shell v)
              | Some sh \<Rightarrow> tail_loop (t\<lparr>ct_shell := Some sh\<rparr>) rest))
      else if prefix ''--'' tok then Inl (''unknown flag `'' @ tok @ ''`'')
      else if ct_shell t \<noteq> None then Inl (''unexpected extra argument `'' @ tok @ ''`'')
      else case shell_parse tok of
        None \<Rightarrow> Inl (unsupported_shell tok)
      | Some sh \<Rightarrow> tail_loop (t\<lparr>ct_shell := Some sh\<rparr>) iter)"

definition parse_completions_tail :: "string list \<Rightarrow> (string, completions_tail) result" where
  "parse_completions_tail ws = tail_loop \<lparr>ct_shell = None, ct_output = TextMode, ct_uninstall = False\<rparr> ws"

section \<open>The subcommands (mod.rs)\<close>

record tools_env =
  te_env :: "string \<Rightarrow> string option"
  te_secs :: u64
  te_ser :: "json \<Rightarrow> string"
  te_colour :: "colour \<Rightarrow> string \<Rightarrow> string"
  te_setup :: setup_env
  te_script :: "shell \<Rightarrow> string"
  te_error_text :: "rc_error \<Rightarrow> string"
  te_version :: string
  te_paths :: "paths option"
  te_session :: "nat \<Rightarrow> session_env"
  te_current_dir :: "string option"
  te_read_dir :: read_dir
  te_remote_feature :: bool

text \<open>The links that the completion setup makes stand beside the files of the session's disk.\<close>

record tool_world =
  tw_session :: session
  tw_links :: "string \<Rightarrow> string option"

definition tw_disk :: "tool_world \<Rightarrow> linked_disk" where
  "tw_disk w = \<lparr>ld_disk = ss_disk (tw_session w), ld_links = tw_links w\<rparr>"

definition put_disk :: "linked_disk \<Rightarrow> tool_world \<Rightarrow> tool_world" where
  "put_disk d w = w\<lparr>tw_session := (tw_session w)\<lparr>ss_disk := ld_disk d\<rparr>, tw_links := ld_links d\<rparr>"

definition tell :: "(console \<Rightarrow> console) \<Rightarrow> tool_world \<Rightarrow> tool_world" where
  "tell f w = w\<lparr>tw_session := (tw_session w)\<lparr>ss_console := f (ss_console (tw_session w))\<rparr>\<rparr>"

definition put_text :: "string \<Rightarrow> console \<Rightarrow> console" where
  "put_text t c = c\<lparr>co_out := co_out c @ t\<rparr>"

definition out_of :: "tools_env \<Rightarrow> output_mode \<Rightarrow> out_env" where
  "out_of T mode = \<lparr>oe_mode = mode, oe_secs = te_secs T, oe_ser = te_ser T, oe_colour = te_colour T\<rparr>"

definition emit_tail_error :: "tools_env \<Rightarrow> string \<Rightarrow> output_mode \<Rightarrow> tool_world \<Rightarrow> tool_world \<times> int" where
  "emit_tail_error T msg mode w =
     (tell (if mode = JsonMode then emit_failed_bare (out_of T JsonMode) Usage (Some msg) else err_line msg) w, EXIT_USAGE)"

definition emit_install_error :: "tools_env \<Rightarrow> string \<Rightarrow> output_mode \<Rightarrow> tool_world \<Rightarrow> tool_world \<times> int" where
  "emit_install_error T detail mode w =
     (tell (if mode = JsonMode then emit_failed_bare (out_of T JsonMode) CompletionsInstallFailed (Some detail)
            else err_line (''install failed: '' @ detail)) w, EXIT_COMPLETIONS_FAILED)"

definition NO_SHELL :: string where
  "NO_SHELL = ''shell not specified and $SHELL unset or unsupported (try `--shell bash|zsh|fish`)''"

definition detect_from_env :: "(string \<Rightarrow> string option) \<Rightarrow> shell option" where
  "detect_from_env env = Option.bind (env ''SHELL'') shell_parse"

definition install_request_for :: "tools_env \<Rightarrow> shell \<Rightarrow> string \<Rightarrow> install_request" where
  "install_request_for T sh home =
     \<lparr>iq_shell = sh, iq_script = te_script T sh, iq_home = home, iq_xdg_data_home = te_env T ''XDG_DATA_HOME'',
      iq_zdotdir = te_env T ''ZDOTDIR'', iq_xdg_config_home = te_env T ''XDG_CONFIG_HOME''\<rparr>"

text \<open>What both handlers do first: the tail, the shell, the home.\<close>

definition with_request ::
  "tools_env \<Rightarrow> string list \<Rightarrow> (completions_tail \<Rightarrow> install_request \<Rightarrow> tool_world \<Rightarrow> tool_world \<times> int) \<Rightarrow> tool_world \<Rightarrow> tool_world \<times> int" where
  "with_request T ws k w =
     (case parse_completions_tail ws of
        Inl msg \<Rightarrow> emit_tail_error T msg TextMode w
      | Inr t \<Rightarrow>
          (case (case ct_shell t of Some sh \<Rightarrow> Some sh | None \<Rightarrow> detect_from_env (te_env T)) of
             None \<Rightarrow> emit_tail_error T NO_SHELL (ct_output t) w
           | Some sh \<Rightarrow>
               (case te_env T ''HOME'' of
                  None \<Rightarrow> emit_tail_error T ''could not determine $HOME'' (ct_output t) w
                | Some home \<Rightarrow> k t (install_request_for T sh home) w)))"

definition handle_setup_completions :: "tools_env \<Rightarrow> string list \<Rightarrow> tool_world \<Rightarrow> tool_world \<times> int" where
  "handle_setup_completions T ws = with_request T ws (\<lambda>t q w.
     if ct_uninstall t then
       (case uninstall (te_setup T) (tw_disk w) q of
          (d, Inr _) \<Rightarrow> (put_disk d w, EXIT_OK)
        | (d, Inl e) \<Rightarrow> emit_install_error T (te_error_text T e) (ct_output t) (put_disk d w))
     else
       (case install (te_setup T) (tw_disk w) q of
          (d, Inr outcome) \<Rightarrow> (tell (emit_completions_setup (out_of T (ct_output t)) outcome) (put_disk d w), EXIT_OK)
        | (d, Inl e) \<Rightarrow> emit_install_error T (te_error_text T e) (ct_output t) (put_disk d w)))"

definition handle_check_completions :: "tools_env \<Rightarrow> string list \<Rightarrow> tool_world \<Rightarrow> tool_world \<times> int" where
  "handle_check_completions T ws = with_request T ws (\<lambda>t q w.
     (let st = status (te_setup T) (tw_disk w) q
      in (tell (emit_completions_status (out_of T (ct_output t)) st) w,
          if is_wired st then EXIT_OK else EXIT_COMPLETIONS_FAILED)))"

definition handle_completions :: "tools_env \<Rightarrow> string list \<Rightarrow> tool_world \<Rightarrow> tool_world \<times> int" where
  "handle_completions T ws w =
     (case ws of
        [] \<Rightarrow> (tell (err_line ''--completions requires a shell name (bash, zsh, or fish)'') w, EXIT_USAGE)
      | [s] \<Rightarrow>
          (case map_of [(''bash'', Bash), (''zsh'', Zsh), (''fish'', Fish)] s of
             Some sh \<Rightarrow> (tell (put_text (te_script T sh)) w, EXIT_OK)
           | None \<Rightarrow> (tell (err_line (''--completions: '' @ unsupported_shell s)) w, EXIT_USAGE))
      | _ \<Rightarrow> (tell (err_line ''--completions takes exactly one argument'') w, EXIT_USAGE))"

text \<open>The agent is asked at most twice: for its state, and for one listing.\<close>

definition handle_complete :: "tools_env \<Rightarrow> string list \<Rightarrow> tool_world \<Rightarrow> tool_world \<times> int" where
  "handle_complete T ws w =
     (let args = parse_complete_args (te_current_dir T) ws; s0 = tw_session w;
          sig0 = (case te_paths T of
                    Some p \<Rightarrow> detect_signals s0 p (te_remote_feature T)
                  | None \<Rightarrow> \<lparr>sg_profiles_local_exists = False, sg_profiles_remote_exists = False,
                      sg_remote_feature_compiled_in = te_remote_feature T, sg_agent_socket_exists = False,
                      sg_agent_unlocked = None\<rparr>);
          (s1, bridge) = (case te_paths T of
                    Some p \<Rightarrow> if sg_agent_socket_exists sig0 then probe_agent (te_session T 0) p s0 else (s0, None)
                  | None \<Rightarrow> (s0, None));
          st = classify_state (case bridge of Some u \<Rightarrow> sig0\<lparr>sg_agent_unlocked := Some u\<rparr> | None \<Rightarrow> sig0);
          (s2, cs) = complete_run (te_read_dir T) st args
             (if bridge = None then None else Some (bridge_list (te_session T 1))) s1
      in (tell (put_text (render_candidates cs)) (w\<lparr>tw_session := s2\<rparr>), EXIT_OK))"

text \<open>\<open>None\<close>: the words belong to the command line. Only the first word counts.\<close>

definition intercept :: "tools_env \<Rightarrow> string list \<Rightarrow> tool_world \<Rightarrow> (tool_world \<times> int) option" where
  "intercept T args w =
     (case args of
        [] \<Rightarrow> None
      | head # rest \<Rightarrow>
          if head = ''--help'' \<or> head = ''-h'' then Some (tell (put_text (render_help (detect_columns (te_env T)))) w, EXIT_OK)
          else if head = ''--version'' \<or> head = ''-V'' then Some (tell (put_text (''zz-drop '' @ te_version T @ [NL])) w, EXIT_OK)
          else if head = ''--completions'' then Some (handle_completions T rest w)
          else if head = ''--setup-completions'' then Some (handle_setup_completions T rest w)
          else if head = ''--check-completions'' then Some (handle_check_completions T rest w)
          else if head = ''__complete'' then Some (handle_complete T rest w)
          else None)"

end
