(* ===== verification/Sacs_Props.thy ===== *)
theory Sacs_Props
  imports Sacs_Tools Agent_Props "HOL-Library.Multiset"
begin

text \<open>
  The lines of the completion protocol can be read back; what is offered exists, is
  understood, and asking for it changes nothing.
\<close>

section \<open>Reading the lines\<close>

definition hex_value :: "char \<Rightarrow> nat option" where
  "hex_value c =
     (if byte_in 48 57 c then Some (of_char c - 48) else if byte_in 97 102 c then Some (of_char c - 87) else None)"

text \<open>A JSON string after its opening quote: its text, and what follows the closing one.\<close>

fun read_string :: "string \<Rightarrow> (string \<times> string) option" where
  "read_string [] = None"
| "read_string (c # cs) =
     (if c = QUOTE then Some ([], cs)
      else if c \<noteq> BACKSLASH then map_option (\<lambda>(v, r). (c # v, r)) (read_string cs)
      else case cs of
        CHR ''u'' # _ # _ # h # l # rest \<Rightarrow>
          (case (hex_value h, hex_value l) of
             (Some a, Some b) \<Rightarrow> map_option (\<lambda>(v, r). (char_of (16 * a + b) # v, r)) (read_string rest)
           | _ \<Rightarrow> None)
      | d # rest \<Rightarrow>
          (case map_of [(QUOTE, QUOTE), (BACKSLASH, BACKSLASH), (CHR ''n'', CHR 0x0A), (CHR ''r'', CHR 0x0D), (CHR ''t'', CHR 0x09)] d of
             Some x \<Rightarrow> map_option (\<lambda>(v, r). (x # v, r)) (read_string rest)
           | None \<Rightarrow> None)
      | [] \<Rightarrow> None)"

definition read_kv :: "string \<Rightarrow> string \<Rightarrow> (string \<times> string) option" where
  "read_kv key s = Option.bind (strip_prefix ([QUOTE] @ key @ [QUOTE] @ '': '' @ [QUOTE]) s) read_string"

definition kinds :: "cand_kind list" where
  "kinds = [KVerb, KAtomic, KFileLocal, KDirLocal, KFileRemote, KDirRemote, KHelp, KFooter]"

definition read_candidate :: "string \<Rightarrow> candidate option" where
  "read_candidate s =
     Option.bind (Option.bind (strip_prefix ''{'' s) (read_kv ''value'')) (\<lambda>(v, s).
     Option.bind (Option.bind (strip_prefix '', '' s) (read_kv ''display'')) (\<lambda>(d, s).
     Option.bind (Option.bind (strip_prefix '', '' s) (read_kv ''description'')) (\<lambda>(t, s).
     Option.bind (Option.bind (strip_prefix '', '' s) (read_kv ''kind'')) (\<lambda>(k, s).
     Option.bind (map_of (map (\<lambda>k. (kind_as_str k, k)) kinds) k) (\<lambda>k.
     Option.bind (strip_prefix ('', '' @ [QUOTE] @ ''rank'' @ [QUOTE] @ '': '') s) (\<lambda>s.
     map_option (\<lambda>n. \<lparr>cd_value = v, cd_display = d, cd_description = t, cd_kind = k, cd_rank = of_nat (read_nat n)\<rparr>)
       (strip_suffix ''}'' s)))))))"

definition read_candidates :: "string \<Rightarrow> candidate list option" where
  "read_candidates s = those (map read_candidate (butlast (split_on NL s)))"

lemma hex_value_digit: "n < 16 \<Longrightarrow> hex_value (hex_digit n) = Some n"
  by (auto simp: hex_value_def hex_digit_def byte_in_def)

lemma read_escaped_char: "read_string (escape_char c @ s) = map_option (\<lambda>(v, r). (c # v, r)) (read_string s)"
proof (cases "(of_char c :: nat) < 32 \<or> c = CHR 0x7F")
  case True
  have "16 * (of_char c div 16) + of_char c mod 16 = (of_char c :: nat)" by simp
  moreover have "(of_char c :: nat) div 16 < 16" using nat_of_char_less_256 [of c] by linarith
  ultimately show ?thesis
    by (auto simp: escape_char_def QUOTE_def BACKSLASH_def hex_value_digit)
next
  case False
  then show ?thesis by (auto simp: escape_char_def QUOTE_def BACKSLASH_def)
qed

lemma read_escaped: "read_string (escape_into v @ QUOTE # r) = Some (v, r)"
  by (induction v) (simp_all add: escape_into_def read_escaped_char)

lemma read_kv_write: "read_kv key (write_kv key v @ r) = Some (v, r)"
proof -
  have "strip_prefix ([QUOTE] @ key @ [QUOTE] @ '': '' @ [QUOTE]) (write_kv key v @ r) = Some (escape_into v @ QUOTE # r)"
    by (simp only: strip_prefix_Some write_kv_def) simp
  then show ?thesis by (simp only: read_kv_def Option.bind.simps read_escaped)
qed

lemma kind_read: "map_of (map (\<lambda>k. (kind_as_str k, k)) kinds) (kind_as_str k) = Some k"
  by (cases k) (simp_all add: kinds_def)

lemma kind_plain: "escape_into (kind_as_str k) = kind_as_str k"
  by (cases k) (simp_all add: escape_into_def escape_char_def QUOTE_def BACKSLASH_def)

lemma emit_one_kv:
  "emit_one c = ''{'' @ write_kv ''value'' (cd_value c) @ '', '' @ write_kv ''display'' (cd_display c) @ '', ''
     @ write_kv ''description'' (cd_description c) @ '', '' @ write_kv ''kind'' (kind_as_str (cd_kind c))
     @ ('', '' @ [QUOTE] @ ''rank'' @ [QUOTE] @ '': '') @ show_nat (unat (cd_rank c)) @ ''}''"
  unfolding emit_one_def write_kv_def [of "''kind''"] kind_plain by simp

lemma strip_prefix_append: "strip_prefix p (p @ r) = Some r"
  by simp

lemma strip_suffix_append: "strip_suffix p (r @ p) = Some r"
  by simp

lemma read_emitted: "read_candidate (emit_one c) = Some c"
  by (simp only: read_candidate_def emit_one_kv strip_prefix_append Option.bind.simps read_kv_write prod.case kind_read
      strip_suffix_append option.map read_show_nat) simp

lemma hex_digit_line: "n < 16 \<Longrightarrow> hex_digit n \<noteq> NL"
  using hex_value_digit [of n] by (auto simp: hex_value_def byte_in_def)

lemma escape_char_line: "NL \<notin> set (escape_char c)"
proof -
  have "(of_char c :: nat) div 16 < 16" using nat_of_char_less_256 [of c] by linarith
  then have "hex_digit (of_char c div 16) \<noteq> NL" "hex_digit (of_char c mod 16) \<noteq> NL" by (simp_all add: hex_digit_line)
  then show ?thesis by (auto simp: escape_char_def QUOTE_def BACKSLASH_def)
qed

lemma emitted_line: "NL \<notin> set (emit_one c)"
proof -
  have e: "NL \<notin> set (escape_into v)" for v by (auto simp: escape_into_def escape_char_line)
  have k: "NL \<notin> set (write_kv key v)" if "NL \<notin> set key" for key v using that e by (simp add: write_kv_def QUOTE_def)
  have n: "NL \<notin> set (show_nat m)" for m using show_nat_digits [of NL m] by auto
  show ?thesis by (simp add: emit_one_kv k n QUOTE_def)
qed

lemma split_rendered: "split_on NL (render_candidates cs) = map emit_one (sort_candidates cs) @ [[]]"
proof -
  have "split_on NL (concat (map (\<lambda>c. emit_one c @ [NL]) ds)) = map emit_one ds @ [[]]" for ds
    by (induction ds) (simp_all add: split_on_append_sep [OF emitted_line])
  then show ?thesis by (simp add: render_candidates_def)
qed

lemma those_Some: "\<forall>x \<in> set xs. f x = Some (g x) \<Longrightarrow> those (map f xs) = Some (map g xs)"
  by (induction xs) auto

text \<open>
  C28. What the completion prints can be read back line by line: one JSON object for each
  candidate, with all its texts, kinds and ranks, whatever bytes the names hold. The
  lines are the candidates by rank and then by value, and no candidate is lost.
\<close>
theorem completion_lines_roundtrip:
  "read_candidates (render_candidates cs) = Some (sort_candidates cs)
   \<and> length (split_on NL (render_candidates cs)) = length cs + 1
   \<and> mset (sort_candidates cs) = mset cs
   \<and> sorted_wrt (\<lambda>a b. cd_rank a < cd_rank b \<or> cd_rank a = cd_rank b \<and> cd_value a \<le> cd_value b) (sort_candidates cs)"
proof (intro conjI)
  show "read_candidates (render_candidates cs) = Some (sort_candidates cs)"
    using those_Some [of "sort_candidates cs" "\<lambda>c. read_candidate (emit_one c)" "\<lambda>c. c"]
    by (simp add: read_candidates_def split_rendered read_emitted comp_def)
  show "length (split_on NL (render_candidates cs)) = length cs + 1" by (simp add: split_rendered sort_candidates_def)
  show "mset (sort_candidates cs) = mset cs" by (simp add: sort_candidates_def)
  have "sorted (map (\<lambda>c. (cd_rank c, cd_value c)) (sort_candidates cs))" by (simp add: sort_candidates_def)
  then show "sorted_wrt (\<lambda>a b. cd_rank a < cd_rank b \<or> cd_rank a = cd_rank b \<and> cd_value a \<le> cd_value b) (sort_candidates cs)"
    by (auto simp: sorted_wrt_map less_eq_prod_def elim!: sorted_wrt_mono_rel [rotated])
qed

section \<open>What is offered\<close>

text \<open>A local candidate is an entry of the directory being typed, and extends its name.\<close>

definition offered_local :: "read_dir \<Rightarrow> string \<Rightarrow> string \<Rightarrow> candidate \<Rightarrow> bool" where
  "offered_local rd cwd cur c \<longleftrightarrow>
     (\<exists>dir_part base es name meta. split_path_prefix cur = (dir_part, base)
        \<and> rd (if dir_part = [] then cwd else path_join cwd dir_part) = Some es
        \<and> \<lparr>de_name = Some name, de_meta = Some meta\<rparr> \<in> set es
        \<and> \<not> prefix ''.'' name \<and> \<not> em_symlink meta \<and> prefix base name
        \<and> cd_kind c = (if em_dir meta then KDirLocal else KFileLocal)
        \<and> cd_value c = dir_part @ name @ (if em_dir meta then ''/'' else []))"

definition offered_remote :: "remote_list_entry list \<Rightarrow> string \<Rightarrow> candidate \<Rightarrow> bool" where
  "offered_remote es cur c \<longleftrightarrow>
     (\<exists>e \<in> set es. prefix (file_name cur) (re_name e)
        \<and> cd_kind c = (case re_kind e of RFile \<Rightarrow> KFileRemote | RDirectory \<Rightarrow> KDirRemote)
        \<and> cd_value c = (case re_kind e of RFile \<Rightarrow> remote_join cur (re_name e) | RDirectory \<Rightarrow> with_slash (remote_join cur (re_name e))))"

definition offered :: "read_dir \<Rightarrow> string \<Rightarrow> string \<Rightarrow> remote_list_entry list \<Rightarrow> candidate \<Rightarrow> bool" where
  "offered rd cwd cur es c \<longleftrightarrow>
     (cd_kind c \<in> {KFileLocal, KDirLocal} \<longrightarrow> offered_local rd cwd cur c)
     \<and> (cd_kind c \<in> {KFileRemote, KDirRemote} \<longrightarrow> offered_remote es cur c)"

lemma numbered_elem: "c \<in> set (numbered limit f xs) \<Longrightarrow> \<exists>i < limit. \<exists>x \<in> set xs. c = f i x"
  by (auto simp: numbered_def set_zip dest!: in_set_takeD) (metis nth_mem)

lemma numbered_length: "length (numbered limit f xs) = min limit (length xs)"
  by (simp add: numbered_def min.commute)

lemma footer_if_elem: "c \<in> set (footer_if n m l) \<Longrightarrow> cd_kind c = KFooter"
  by (auto simp: footer_if_def footer_def split: if_splits)

lemma footer_if_length: "length (footer_if n m l) \<le> 1"
  by (simp add: footer_if_def)

lemma map_filter_elem: "x \<in> set (List.map_filter f xs) \<longleftrightarrow> (\<exists>y \<in> set xs. f y = Some x)"
  by (induction xs) (auto simp: List.map_filter_def)

lemma collected:
  assumes "e \<in> set (collect_local rd cwd cur f)"
  shows "\<exists>dir_part base es name meta. split_path_prefix cur = (dir_part, base)
        \<and> rd (if dir_part = [] then cwd else path_join cwd dir_part) = Some es
        \<and> \<lparr>de_name = Some name, de_meta = Some meta\<rparr> \<in> set es
        \<and> \<not> prefix ''.'' name \<and> \<not> em_symlink meta \<and> prefix base name
        \<and> le_is_dir e = em_dir meta \<and> em_dir meta = (f = DirsOnly) \<and> le_name e = dir_part @ name"
proof -
  obtain dir_part base where sp: "split_path_prefix cur = (dir_part, base)" by fastforce
  obtain es y where es: "rd (if dir_part = [] then cwd else path_join cwd dir_part) = Some es" "y \<in> set es"
      "local_entry_of dir_part base f y = Some e"
    using assms by (cases "rd (if dir_part = [] then cwd else path_join cwd dir_part)") (auto simp: collect_local_def sp map_filter_elem)
  obtain name meta where y: "y = \<lparr>de_name = Some name, de_meta = Some meta\<rparr>" "\<not> prefix ''.'' name" "prefix base name"
      "\<not> em_symlink meta" "em_dir meta = (f = DirsOnly)" "e = \<lparr>le_name = dir_part @ name, le_is_dir = em_dir meta, le_size = em_len meta,
                     le_mtime = (case em_modified meta of Some t \<Rightarrow> t | None \<Rightarrow> 0)\<rparr>"
    using es(3) by (cases y; cases f) (auto simp: local_entry_of_def split: option.splits if_splits)
  show ?thesis using sp es(1,2) y by auto
qed

lemma ranked_elem:
  assumes "c \<in> set (numbered limit f xs @ footer_if n m l)"
  shows "cd_kind c = KFooter \<or> (\<exists>i. \<exists>x \<in> set xs. c = f i x)"
  using assms numbered_elem [of c limit f xs] footer_if_elem [of c n m l] by auto

lemma offered_footer: "cd_kind c = KFooter \<Longrightarrow> offered rd cwd cur es c"
  by (simp add: offered_def)

lemma candidate_fields:
  "cd_kind (local_file_candidate l b a i e) = (if le_is_dir e then KDirLocal else KFileLocal)"
  "cd_value (local_file_candidate l b a i e) = (if le_is_dir e then le_name e @ ''/'' else le_name e)"
  "cd_kind (local_dir_candidate shown b i e) = KDirLocal"
  "cd_value (local_dir_candidate shown b i e) = le_name e @ ''/''"
  by (simp_all add: local_file_candidate_def local_dir_candidate_def Let_def)

lemma offered_localI:
  assumes "split_path_prefix cur = (d, b)" "rd (if d = [] then cwd else path_join cwd d) = Some xs"
    "\<lparr>de_name = Some n, de_meta = Some m\<rparr> \<in> set xs" "\<not> prefix ''.'' n" "\<not> em_symlink m" "prefix b n"
    "cd_kind c = (if em_dir m then KDirLocal else KFileLocal)" "cd_value c = d @ n @ (if em_dir m then ''/'' else [])"
  shows "offered_local rd cwd cur c"
  unfolding offered_local_def using assms by blast

lemma offered_local_files:
  assumes "c \<in> set (rank_local_files (collect_local_files rd cwd cur) l b a)"
  shows "offered rd cwd cur es c"
proof -
  consider "cd_kind c = KFooter" | i e where "e \<in> set (collect_local rd cwd cur FilesOnly)" "c = local_file_candidate l b a i e"
    using ranked_elem [OF assms [unfolded rank_local_files_def]] by (auto simp: by_age_def collect_local_files_def)
  then show ?thesis
  proof cases
    case 2
    obtain d b' xs n m where h: "split_path_prefix cur = (d, b')" "rd (if d = [] then cwd else path_join cwd d) = Some xs"
        "\<lparr>de_name = Some n, de_meta = Some m\<rparr> \<in> set xs" "\<not> prefix ''.'' n" "\<not> em_symlink m" "prefix b' n"
      and e: "le_is_dir e = em_dir m" "em_dir m = False" "le_name e = d @ n"
      using collected [OF 2(1)] by auto
    have "offered_local rd cwd cur c"
      by (rule offered_localI [where rd = rd and cwd = cwd, OF h]) (simp_all add: 2(2) e candidate_fields)
    then show ?thesis by (simp add: offered_def 2(2) candidate_fields)
  qed (rule offered_footer)
qed

lemma offered_local_dirs:
  assumes "c \<in> set (rank_local_dirs shown b (collect_local rd cwd cur DirsOnly))"
  shows "offered rd cwd cur es c"
proof -
  consider "cd_kind c = KFooter" | i e where "e \<in> set (collect_local rd cwd cur DirsOnly)" "c = local_dir_candidate shown b i e"
    using ranked_elem [OF assms [unfolded rank_local_dirs_def]] by (auto simp: by_age_def)
  then show ?thesis
  proof cases
    case 2
    obtain d b' xs n m where h: "split_path_prefix cur = (d, b')" "rd (if d = [] then cwd else path_join cwd d) = Some xs"
        "\<lparr>de_name = Some n, de_meta = Some m\<rparr> \<in> set xs" "\<not> prefix ''.'' n" "\<not> em_symlink m" "prefix b' n"
      and e: "le_is_dir e = em_dir m" "em_dir m = True" "le_name e = d @ n"
      using collected [OF 2(1)] by auto
    have "offered_local rd cwd cur c"
      by (rule offered_localI [where rd = rd and cwd = cwd, OF h]) (simp_all add: 2(2) e candidate_fields)
    then show ?thesis by (simp add: offered_def 2(2) candidate_fields)
  qed (rule offered_footer)
qed

lemma matching_elem: "e \<in> set (matching kind cur es) \<longleftrightarrow> e \<in> set es \<and> re_kind e = kind \<and> prefix (file_name cur) (re_name e)"
  by (auto simp: matching_def cur_last_segment_def)

lemma offered_remote_files:
  assumes "c \<in> set (rank_remote_files es verb cur l b)"
  shows "offered rd cwd cur es c"
proof -
  consider "cd_kind c = KFooter" | i e where "e \<in> set (matching RFile cur es)" "c = remote_file_candidate verb cur l b i e"
    using ranked_elem [OF assms [unfolded rank_remote_files_def Let_def]] by auto
  then show ?thesis
  proof cases
    case 2
    then show ?thesis by (auto simp: offered_def offered_remote_def remote_file_candidate_def matching_elem intro: bexI [of _ e])
  qed (rule offered_footer)
qed

lemma offered_remote_dirs:
  assumes "c \<in> set (rank_remote_dirs es verb cur b)"
  shows "offered rd cwd cur es c"
proof -
  consider "cd_kind c = KFooter" | i e where "e \<in> set (matching RDirectory cur es)" "c = remote_dir_candidate verb cur b i e"
    using ranked_elem [OF assms [unfolded rank_remote_dirs_def Let_def]] by auto
  then show ?thesis
  proof cases
    case 2
    then show ?thesis by (auto simp: offered_def offered_remote_def remote_dir_candidate_def matching_elem intro: bexI [of _ e])
  qed (rule offered_footer)
qed

lemma offered_rank: "offered rd cwd cur es (c\<lparr>cd_rank := r\<rparr>) = offered rd cwd cur es c"
  by (simp add: offered_def offered_local_def offered_remote_def)

lemmas offers = offered_local_files offered_local_dirs offered_remote_files offered_remote_dirs

lemma offered_filter_atomic:
  "c \<in> set (filter_atomic raw cur) \<Longrightarrow> \<forall>(v, k, r, d) \<in> set raw. k \<in> {KVerb, KAtomic, KHelp} \<Longrightarrow> offered rd cwd cur' es c"
  by (auto simp: filter_atomic_def offered_def)

lemma offered_local_sources: "c \<in> set (local_sources rd cwd cur l a b) \<Longrightarrow> offered rd cwd cur es c"
  by (auto simp: local_sources_def intro: offers)

lemma offered_dirs_ranked: "c \<in> set (collect_local_dirs_ranked rd cwd cur) \<Longrightarrow> offered rd cwd cur es c"
  by (auto simp: collect_local_dirs_ranked_def intro: offers)

lemma offered_first: "c \<in> set (ready_first_arg st cur rd cwd) \<Longrightarrow> offered rd cwd cur es c"
  by (auto simp: ready_first_arg_def Let_def ready_verbs_def ready_atomics_def unlock_verbs_def
      intro: offered_local_sources split: if_splits elim!: offered_filter_atomic)

text \<open>What the source answered to the one question that a position asks.\<close>

definition answered :: "'w list_source option \<Rightarrow> string \<Rightarrow> 'w \<Rightarrow> 'w \<Rightarrow> remote_list_entry list \<Rightarrow> bool" where
  "answered source cur w w' es \<longleftrightarrow>
     w' = w \<and> es = []
     \<or> (\<exists>src kind r. source = Some src \<and> src w (parent_for_remote_prefix cur) kind = (w', r)
          \<and> es = (case r of Inr xs \<Rightarrow> xs | Inl _ \<Rightarrow> []))"

lemma answered_same: "answered source cur w w []"
  by (simp add: answered_def)

lemma answered_list: "try_list_remote source (parent_for_remote_prefix cur) kind w = (w', es) \<Longrightarrow> answered source cur w w' es"
  by (auto simp: try_list_remote_def answered_def split: option.splits prod.splits sum.splits)

lemma local_only:
  "w' = w \<Longrightarrow> (\<And>c. c \<in> set cs \<Longrightarrow> offered rd cwd cur [] c)
     \<Longrightarrow> \<exists>es. answered source cur w w' es \<and> (\<forall>c \<in> set cs. offered rd cwd cur es c)"
  by (rule exI [of _ "[]"]) (simp add: answered_same)

lemma listed:
  "try_list_remote source (parent_for_remote_prefix cur) kind w = (w', es) \<Longrightarrow> (\<And>c. c \<in> set cs \<Longrightarrow> offered rd cwd cur es c)
     \<Longrightarrow> \<exists>es. answered source cur w w' es \<and> (\<forall>c \<in> set cs. offered rd cwd cur es c)"
  by (rule exI [of _ es]) (simp add: answered_list)

lemmas all_offers = offers offered_local_sources offered_dirs_ranked

lemma after_s_offers:
  assumes "ready_after_s h after cur rd cwd source w = (w', cs)"
  shows "\<exists>es. answered source cur w w' es \<and> (\<forall>c \<in> set cs. offered rd cwd cur es c)"
proof (cases "after = []")
  case True
  then show ?thesis using assms by (intro local_only) (auto simp: ready_after_s_def split: if_splits intro: all_offers)
next
  case False
  obtain w1 es where q: "try_list_remote source (parent_for_remote_prefix cur) FilterDirectory w = (w1, es)" by fastforce
  then have "w' = w1" "c \<in> set cs \<Longrightarrow> offered rd cwd cur es c" for c
    using assms False by (auto simp: ready_after_s_def split: if_splits intro: all_offers)
  then show ?thesis using q by (intro listed) auto
qed

lemma after_d_shape:
  assumes "ready_after_d h after cur rd cwd source w = (w', cs)"
  shows "w' = w \<and> cs = collect_local_dirs_ranked rd cwd cur
    \<or> (\<exists>kind es l. try_list_remote source (parent_for_remote_prefix cur) kind w = (w', es)
         \<and> cs \<in> {rank_remote_dirs es h cur 1, rank_remote_files es h cur l 1 @ rank_remote_dirs es h cur 50,
              rank_remote_files es h cur l 1 @ map (\<lambda>c. c\<lparr>cd_rank := saturating_add (cd_rank c) 50\<rparr>) (collect_local_dirs_ranked rd cwd cur)})"
proof (cases "mod_a (verb_modifiers h) \<and> after = []")
  case True
  then show ?thesis using assms by (auto simp: ready_after_d_def)
next
  case False
  define kind where "kind = (if mod_a (verb_modifiers h) then FilterDirectory else FilterBoth)"
  obtain w1 es where q: "try_list_remote source (parent_for_remote_prefix cur) kind w = (w1, es)" by fastforce
  with assms False have "w' = w1 \<and> (\<exists>l. cs \<in> {rank_remote_dirs es h cur 1, rank_remote_files es h cur l 1 @ rank_remote_dirs es h cur 50,
              rank_remote_files es h cur l 1 @ map (\<lambda>c. c\<lparr>cd_rank := saturating_add (cd_rank c) 50\<rparr>) (collect_local_dirs_ranked rd cwd cur)})"
    by (auto simp: ready_after_d_def kind_def split: if_splits)
  with q show ?thesis by blast
qed

lemma after_d_offers:
  assumes "ready_after_d h after cur rd cwd source w = (w', cs)"
  shows "\<exists>es. answered source cur w w' es \<and> (\<forall>c \<in> set cs. offered rd cwd cur es c)"
  using after_d_shape [OF assms]
proof (elim disjE exE conjE)
  assume "w' = w" "cs = collect_local_dirs_ranked rd cwd cur"
  then show ?thesis by (intro local_only) (auto intro: all_offers)
next
  fix kind es l
  assume q: "try_list_remote source (parent_for_remote_prefix cur) kind w = (w', es)"
    and cs: "cs \<in> {rank_remote_dirs es h cur 1, rank_remote_files es h cur l 1 @ rank_remote_dirs es h cur 50,
       rank_remote_files es h cur l 1 @ map (\<lambda>c. c\<lparr>cd_rank := saturating_add (cd_rank c) 50\<rparr>) (collect_local_dirs_ranked rd cwd cur)}"
  have "offered rd cwd cur es c" if "c \<in> set cs" for c
    using cs that offered_remote_files [of c es h cur l 1 rd cwd] offered_remote_dirs [of c es h cur _ rd cwd]
      offered_dirs_ranked [of _ rd cwd cur es] by (auto simp: offered_rank)
  with q show ?thesis by (rule listed)
qed

lemma default_upload_offers:
  assumes "ready_after_default_upload cur rd cwd source w = (w', cs)"
  shows "\<exists>es. answered source cur w w' es \<and> (\<forall>c \<in> set cs. offered rd cwd cur es c)"
proof -
  obtain w1 es where q: "try_list_remote source (parent_for_remote_prefix cur) FilterDirectory w = (w1, es)" by fastforce
  then have "w' = w1" "c \<in> set cs \<Longrightarrow> offered rd cwd cur es c" for c
    using assms by (auto simp: ready_after_default_upload_def intro: all_offers)
  then show ?thesis using q by (intro listed) auto
qed

lemma offered_z: "c \<in> set (z_argument after cur st) \<Longrightarrow> offered rd cwd cur' es c"
  by (auto simp: z_argument_def split: if_splits elim!: offered_filter_atomic)

lemma offered_setup:
  "c \<in> set (setup_verbs_for_fresh cur) \<Longrightarrow> offered rd cwd cur' es c"
  "c \<in> set (setup_verbs_for_down cur) \<Longrightarrow> offered rd cwd cur' es c"
  "c \<in> set (setup_verbs_for_locked cur) \<Longrightarrow> offered rd cwd cur' es c"
  by (auto simp: setup_verbs_for_fresh_def setup_verbs_for_down_def setup_verbs_for_locked_def fresh_verbs_def down_verbs_def
      locked_verbs_def elim!: offered_filter_atomic)

text \<open>The answers a position gives, by its first word.\<close>

lemma run_cases:
  assumes "complete_run rd st args source w = (w', cs)" "cur = current_word (ca_tokens args)"
  obtains "w' = w" "st \<in> {S0Fresh, S1Down, S2Locked}" "cs \<in> {setup_verbs_for_fresh cur, setup_verbs_for_down cur, setup_verbs_for_locked cur}"
  | "w' = w" "cs = []"
  | "w' = w" "previous_tokens (ca_tokens args) = []" "cs = ready_first_arg st cur rd (ca_cwd args)"
  | h after where "ready_after_s h after cur rd (ca_cwd args) source w = (w', cs)"
  | h after where "ready_after_d h after cur rd (ca_cwd args) source w = (w', cs)"
  | "ready_after_default_upload cur rd (ca_cwd args) source w = (w', cs)"
  | after where "w' = w" "previous_tokens (ca_tokens args) = ''z'' # after" "cs = z_argument after cur st"
proof (cases "st \<in> {S0Fresh, S1Down, S2Locked}")
  case True
  then show thesis using assms that(1) by (auto simp: complete_run_def Let_def split: if_splits)
next
  case False
  show thesis
  proof (cases "previous_tokens (ca_tokens args)")
    case Nil
    then show thesis using assms False by (intro that(3)) (auto simp: complete_run_def Let_def)
  next
    case (Cons h after)
    let ?cwd = "ca_cwd args"
    note run = assms(1) [unfolded complete_run_def Let_def, folded assms(2), unfolded Cons list.case]
    show thesis
    proof (cases "prefix ''s'' h \<and> is_composite_token h")
      case True
      then show thesis using run False that(4) [of h after] by simp
    next
      case no_s: False
      show thesis
      proof (cases "prefix ''d'' h \<and> is_composite_token h")
        case True
        then show thesis using run False no_s that(5) [of h after] by simp
      next
        case no_d: False
        consider "h \<in> {''q'', ''w'', ''kalvasflam'', ''c'', ''f''}" | "h \<notin> {''q'', ''w'', ''kalvasflam'', ''c'', ''f''}" "h = ''z''"
          | "h \<notin> {''q'', ''w'', ''kalvasflam'', ''c'', ''f''}" "h \<noteq> ''z''" by blast
        then show thesis
        proof cases
          case 1
          then show thesis using run False that(2) unfolding if_not_P [OF no_s] if_not_P [OF no_d] by auto
        next
          case 2
          then show thesis using run False that(7) Cons unfolding if_not_P [OF no_s] if_not_P [OF no_d] by simp
        next
          case 3
          then show thesis using run False that(6) unfolding if_not_P [OF no_s] if_not_P [OF no_d] by simp
        qed
      qed
    qed
  qed
qed

lemma run_offers:
  assumes "complete_run rd st args source w = (w', cs)" "cur = current_word (ca_tokens args)"
  shows "\<exists>es. answered source cur w w' es \<and> (\<forall>c \<in> set cs. offered rd (ca_cwd args) cur es c)"
  using assms
proof (cases rule: run_cases)
  case 1
  then show ?thesis by (intro local_only) (auto intro: offered_setup)
next
  case 2
  then show ?thesis by (simp add: exI [of _ "[]"] answered_same)
next
  case 3
  then show ?thesis by (intro local_only) (auto intro: offered_first)
next
  case 7
  then show ?thesis by (intro local_only) (auto intro: offered_z)
qed (rule after_s_offers after_d_offers default_upload_offers, assumption)+

lemma split_path_whole: "split_path_prefix cur = (d, b) \<Longrightarrow> cur = d @ b \<and> CHR ''/'' \<notin> set b"
proof -
  assume s: "split_path_prefix cur = (d, b)"
  then have b: "b = rev (takeWhile (\<lambda>c. c \<noteq> CHR ''/'') (rev cur))" and d: "d = take (length cur - length b) cur"
    by (auto simp: split_path_prefix_def Let_def file_name_def)
  have "rev cur = takeWhile (\<lambda>c. c \<noteq> CHR ''/'') (rev cur) @ dropWhile (\<lambda>c. c \<noteq> CHR ''/'') (rev cur)" by simp
  then have "cur = rev (dropWhile (\<lambda>c. c \<noteq> CHR ''/'') (rev cur)) @ b" unfolding b by (metis rev_append rev_rev_ident)
  then have "cur = d @ b" unfolding d by (metis append_eq_conv_conj diff_add_inverse2 length_append)
  moreover have "CHR ''/'' \<notin> set b" unfolding b by (auto dest: set_takeWhileD)
  ultimately show "cur = d @ b \<and> CHR ''/'' \<notin> set b" by blast
qed

lemma rank_lengths:
  "length (rank_local_files es l b a) \<le> 51" "length (rank_local_dirs shown b es) \<le> 51"
  "length (rank_remote_files rs verb cur l b) \<le> 51" "length (rank_remote_dirs rs verb cur b) \<le> 51"
  using footer_if_length [of 50 "length es" "''files''"] footer_if_length [of 50 "length es" "''directories''"]
    footer_if_length [of 50 "length (matching RFile cur rs)" "''remote files''"]
    footer_if_length [of 50 "length (matching RDirectory cur rs)" "''remote dirs''"]
  by (simp_all add: rank_local_files_def rank_local_dirs_def rank_remote_files_def rank_remote_dirs_def Let_def numbered_length
      LOCAL_CANDIDATE_LIMIT_def REMOTE_CANDIDATE_LIMIT_def)

lemma filter_atomic_length: "length (filter_atomic raw cur) \<le> length raw"
  by (simp add: filter_atomic_def)

lemma local_sources_length: "length (local_sources rd cwd cur l a b) \<le> 102"
  using rank_lengths(1) [of "collect_local_files rd cwd cur" l 1 a] rank_lengths(2) [of "''zz ''" b "collect_local rd cwd cur DirsOnly"]
  by (simp add: local_sources_def)

lemma first_length: "length (ready_first_arg st cur rd cwd) \<le> 115"
  using local_sources_length [of rd cwd cur "''upload''" True 50] filter_atomic_length [of ready_verbs cur]
    filter_atomic_length [of ready_atomics cur] filter_atomic_length [of "unlock_verbs st" cur]
  by (auto simp: ready_first_arg_def Let_def ready_verbs_def ready_atomics_def unlock_verbs_def split: if_splits)

lemma dirs_ranked_length: "length (collect_local_dirs_ranked rd cwd cur) \<le> 51"
  by (simp add: collect_local_dirs_ranked_def rank_lengths)

lemma row_sums:
  "a \<le> 51 \<Longrightarrow> a \<le> (153 :: nat)" "a \<le> 102 \<Longrightarrow> a \<le> (153 :: nat)"
  "a \<le> 51 \<Longrightarrow> b \<le> 51 \<Longrightarrow> a + b \<le> (153 :: nat)" "a \<le> 102 \<Longrightarrow> b \<le> 51 \<Longrightarrow> a + b \<le> (153 :: nat)"
  by simp_all

lemma after_s_length:
  assumes "ready_after_s h after cur rd cwd source w = (w', cs)" shows "length cs \<le> 153"
proof -
  obtain w1 es where q: "try_list_remote source (parent_for_remote_prefix cur) FilterDirectory w = (w1, es)" by fastforce
  from assms q obtain l where "cs \<in> {collect_local_dirs_ranked rd cwd cur, rank_remote_dirs es h cur 1, local_sources rd cwd cur l True 100,
      local_sources rd cwd cur l False 25 @ rank_remote_dirs es h cur 50}"
    by (auto simp: ready_after_s_def split: if_splits)
  then show ?thesis
    using row_sums(1) [OF dirs_ranked_length] row_sums(1) [OF rank_lengths(4)] row_sums(2) [OF local_sources_length]
      row_sums(4) [OF local_sources_length rank_lengths(4)] by auto
qed

lemma after_d_length:
  assumes "ready_after_d h after cur rd cwd source w = (w', cs)" shows "length cs \<le> 153"
  using after_d_shape [OF assms] row_sums(1) [OF dirs_ranked_length] row_sums(1) [OF rank_lengths(4)]
    row_sums(3) [OF rank_lengths(3) rank_lengths(4)] row_sums(3) [OF rank_lengths(3) dirs_ranked_length] by auto

lemma default_upload_length:
  assumes "ready_after_default_upload cur rd cwd source w = (w', cs)" shows "length cs \<le> 153"
proof -
  obtain w1 es where "try_list_remote source (parent_for_remote_prefix cur) FilterDirectory w = (w1, es)" by fastforce
  with assms have "cs = rank_local_files (collect_local_files rd cwd cur) ''add as source'' 1 False @ rank_remote_dirs es [] cur 50"
    by (simp add: ready_after_default_upload_def)
  then show ?thesis using row_sums(3) [OF rank_lengths(1) rank_lengths(4)] by simp
qed

lemma setup_length: "length (setup_verbs_for_fresh cur) \<le> 153" "length (setup_verbs_for_down cur) \<le> 153" "length (setup_verbs_for_locked cur) \<le> 153"
  using filter_atomic_length [of fresh_verbs cur] filter_atomic_length [of down_verbs cur] filter_atomic_length [of locked_verbs cur]
  by (simp_all add: setup_verbs_for_fresh_def setup_verbs_for_down_def setup_verbs_for_locked_def fresh_verbs_def down_verbs_def locked_verbs_def)

lemma z_length: "length (z_argument after cur st) \<le> 153"
  by (auto simp: z_argument_def intro: order_trans [OF filter_atomic_length])

lemma run_length:
  assumes "complete_run rd st args source w = (w', cs)" shows "length cs \<le> 153"
  using assms refl
proof (cases rule: run_cases)
  case 1
  then show ?thesis using setup_length by auto
next
  case 2
  then show ?thesis by simp
next
  case 3
  then show ?thesis using first_length [of st "current_word (ca_tokens args)" rd "ca_cwd args"] by simp
next
  case 7
  then show ?thesis by (simp add: z_length)
qed (rule after_s_length after_d_length default_upload_length, assumption)+

section \<open>Properties of the candidates\<close>

text \<open>
  Every local candidate stands for an entry of the directory being typed that is
  neither hidden nor a symbolic link, a file or a directory as announced, and extends the
  typed word, so that inserting it never loses what was typed. The list never has more
  than 153 rows, whatever the directories and the server hold.
\<close>
theorem local_candidates_exist:
  assumes "complete_run rd st args source w = (w', cs)"
  shows "length cs \<le> 153 \<and> (\<forall>c \<in> set cs. cd_kind c \<in> {KFileLocal, KDirLocal} \<longrightarrow>
    offered_local rd (ca_cwd args) (current_word (ca_tokens args)) c \<and> prefix (current_word (ca_tokens args)) (cd_value c))"
proof -
  have "prefix cur (cd_value c)" if h: "offered_local rd cwd cur c" for rd cwd cur c
  proof -
    obtain d b n suffix where "split_path_prefix cur = (d, b)" "prefix b n" "cd_value c = d @ n @ suffix"
      using h unfolding offered_local_def by blast
    then show ?thesis using split_path_whole [of cur d b] by (auto simp: prefix_def)
  qed
  then show ?thesis using run_offers [OF assms refl] run_length [OF assms] by (auto simp: offered_def)
qed

lemma answered_elem:
  assumes "answered source cur w w' es" "e \<in> set es"
  shows "\<exists>src kind. source = Some src \<and> src w (parent_for_remote_prefix cur) kind = (w', Inr es)"
proof -
  from assms obtain src kind r where "source = Some src" "src w (parent_for_remote_prefix cur) kind = (w', r)"
      "es = (case r of Inr xs \<Rightarrow> xs | Inl _ \<Rightarrow> [])"
    by (auto simp: answered_def)
  with assms(2) show ?thesis by (cases r) auto
qed

lemma join_open:
  assumes "\<not> ends_with cur CHR ''/''"
  shows "remote_join cur n = (case parent_for_remote_prefix cur of None \<Rightarrow> n | Some d \<Rightarrow> d @ ''/'' @ n)"
proof (cases "CHR ''/'' \<in> set cur")
  case True
  then have "cur \<noteq> []" by auto
  with assms have "trim_end_matches CHR ''/'' cur = cur" by (intro trim_end_id) (auto simp: ends_with_def)
  with True \<open>cur \<noteq> []\<close> show ?thesis by (simp add: remote_join_def parent_for_remote_prefix_def Let_def)
qed (simp add: remote_join_def parent_for_remote_prefix_def)

lemma join_closed:
  assumes "d \<noteq> []" "CHR ''/'' \<notin> set d"
  shows "remote_join (d @ ''/'') n = d @ ''/'' @ n" "parent_for_remote_prefix (d @ ''/'') = None"
proof -
  have "hd (rev d) \<noteq> CHR ''/''" using assms by (metis hd_in_set rev_is_Nil_conv set_rev)
  then have "trim_end_matches CHR ''/'' (d @ ''/'') = d" using assms by (cases "rev d") (auto simp: trim_end_matches_def rev_swap)
  then show "remote_join (d @ ''/'') n = d @ ''/'' @ n" "parent_for_remote_prefix (d @ ''/'') = None"
    using assms by (simp_all add: remote_join_def parent_for_remote_prefix_def file_name_def Let_def)
qed

lemma prefix_with_slash [simp]: "prefix p v \<Longrightarrow> prefix p (with_slash v)"
  by (auto simp: with_slash_def prefix_def)

text \<open>
  C27. Every remote candidate is an entry of the one listing that was asked for, its name
  extends the segment being typed, and what is inserted is the path of that entry: the
  listed directory, a slash, the name. The exception is a word that ends with a slash,
  where a directory was just completed: after \<open>docs/\<close> the root is listed again and its
  entries are offered as if they were in \<open>docs\<close>.
\<close>
theorem remote_candidates_listed:
  assumes "complete_run rd st args source w = (w', cs)" "c \<in> set cs" "cd_kind c \<in> {KFileRemote, KDirRemote}"
    and "cur = current_word (ca_tokens args)"
  shows "\<exists>src kind es e full. source = Some src \<and> src w (parent_for_remote_prefix cur) kind = (w', Inr es) \<and> e \<in> set es
    \<and> prefix (file_name cur) (re_name e)
    \<and> cd_value c = (if cd_kind c = KFileRemote then full else with_slash full)
    \<and> (\<not> ends_with cur CHR ''/'' \<longrightarrow> full = (case parent_for_remote_prefix cur of None \<Rightarrow> re_name e | Some d \<Rightarrow> d @ ''/'' @ re_name e))
    \<and> (\<forall>d. cur = d @ ''/'' \<and> d \<noteq> [] \<and> CHR ''/'' \<notin> set d \<longrightarrow>
         parent_for_remote_prefix cur = None \<and> full = d @ ''/'' @ re_name e)"
proof -
  from run_offers [OF assms(1,4)] obtain es where es: "answered source cur w w' es" "offered rd (ca_cwd args) cur es c"
    using assms(2) by blast
  then obtain e where e: "e \<in> set es" "prefix (file_name cur) (re_name e)"
      "cd_kind c = (case re_kind e of RFile \<Rightarrow> KFileRemote | RDirectory \<Rightarrow> KDirRemote)"
      "cd_value c = (case re_kind e of RFile \<Rightarrow> remote_join cur (re_name e) | RDirectory \<Rightarrow> with_slash (remote_join cur (re_name e)))"
    using assms(3) by (auto simp: offered_def offered_remote_def)
  from es(1) e(1) obtain src kind where "source = Some src" "src w (parent_for_remote_prefix cur) kind = (w', Inr es)"
    using answered_elem by metis
  moreover have "cd_value c = (if cd_kind c = KFileRemote then remote_join cur (re_name e) else with_slash (remote_join cur (re_name e)))"
    using e(3,4) by (cases "re_kind e") simp_all
  ultimately show ?thesis
    using e(1,2) join_open [of cur "re_name e"] join_closed
    by (intro exI [of _ src] exI [of _ kind] exI [of _ es] exI [of _ e] exI [of _ "remote_join cur (re_name e)"]) auto
qed

section \<open>Asking changes nothing\<close>

lemma list_remote_disk:
  assumes "list_remote E p k n st = (st', r)"
  shows "ag_disk st' = ag_disk st"
  using assms by (cases rule: list_remote_cases) (auto dest: get_active_keeps(3))

text \<open>What the worlds before and after a question share.\<close>

definition unharmed :: "session \<Rightarrow> session \<Rightarrow> bool" where
  "unharmed s s' \<longleftrightarrow> ss_disk s' = ss_disk s \<and> ss_socket s' = ss_socket s \<and> ss_killed s' = ss_killed s \<and> ss_console s' = ss_console s
    \<and> (case ss_agent s of None \<Rightarrow> ss_agent s' = None
       | Some st \<Rightarrow> \<exists>st'. ss_agent s' = Some st' \<and> in_profile_set (ag_inner st') = in_profile_set (ag_inner st)
            \<and> in_active_alias (ag_inner st') = in_active_alias (ag_inner st))"

lemma unharmed_refl: "unharmed s s"
  by (simp add: unharmed_def split: option.split)

lemma unharmed_trans: "unharmed s t \<Longrightarrow> unharmed t u \<Longrightarrow> unharmed s u"
  by (auto simp: unharmed_def split: option.splits)

lemma served_harmless:
  assumes "served E req s = (s', r)" "req = Status \<or> (\<exists>p k n. req = ListRemote p k n)"
  shows "unharmed s s'"
proof (cases "ss_agent s")
  case None
  then show ?thesis using assms(1) by (simp add: served_def unharmed_refl)
next
  case (Some st)
  let ?st = "touch (se_agent_env E 0) (st\<lparr>ag_disk := ss_disk s\<rparr>)"
  obtain st' resp where d: "dispatch (se_agent_env E 1) req ?st = (st', resp)" by fastforce
  have "ag_disk st' = ss_disk s \<and> in_profile_set (ag_inner st') = in_profile_set (ag_inner st)
      \<and> in_active_alias (ag_inner st') = in_active_alias (ag_inner st)"
  proof (cases "req = Status")
    case True
    with d show ?thesis by (auto simp: touch_def)
  next
    case False
    with assms(2) obtain p k n where r: "req = ListRemote p k n" by blast
    obtain st2 q where l: "list_remote (se_agent_env E 1) p k n ?st = (st2, q)" by fastforce
    with d r have "st' = st2" by simp
    with list_remote_keeps [OF l] list_remote_disk [OF l] show ?thesis by (simp add: touch_def)
  qed
  then show ?thesis using assms d Some by (auto simp: served_def unharmed_def)
qed

lemma client_request_harmless:
  assumes "req = Status \<or> (\<exists>p k n. req = ListRemote p k n)"
  shows "unharmed s (fst (client_request E req s))"
proof -
  obtain s' r where v: "served E req s = (s', r)" by fastforce
  show ?thesis
    using served_harmless [OF v assms] v by (simp add: client_request_def unharmed_refl split: fate.split option.split)
qed

lemma probe_harmless: "probe_agent E p s = (s', b) \<Longrightarrow> unharmed s s'"
  using client_request_harmless [of Status s E]
  by (auto simp: probe_agent_def unharmed_refl split: sum.splits prod.splits agent_response.splits)

lemma bridge_harmless: "bridge_list E s p k = (s', r) \<Longrightarrow> unharmed s s'"
  using client_request_harmless [of "ListRemote p k REMOTE_LIST_MAX" s E]
  by (auto simp: bridge_list_def split: sum.splits prod.splits agent_response.splits agent_error.splits client_error.splits)

lemma run_harmless:
  assumes "complete_run rd st args source s = (s', cs)" "source = None \<or> source = Some (bridge_list E)"
  shows "unharmed s s'"
  using run_offers [OF assms(1) refl] assms(2) bridge_harmless unharmed_refl by (fastforce simp: answered_def)

text \<open>
  Completion answers with exit code 0 and nothing but its lines, whatever happens to
  the agent or the connection; and it leaves everything as it was: the files, the links,
  the socket, the standard error, and the container and profile that the agent holds.
\<close>
theorem completion_harmless:
  assumes "handle_complete T ws w = (w', code)"
  shows "code = EXIT_OK \<and> tw_links w' = tw_links w
    \<and> (\<exists>cs. ss_console (tw_session w') = put_text (render_candidates cs) (ss_console (tw_session w)))
    \<and> ss_disk (tw_session w') = ss_disk (tw_session w) \<and> ss_socket (tw_session w') = ss_socket (tw_session w)
    \<and> (case ss_agent (tw_session w) of None \<Rightarrow> ss_agent (tw_session w') = None
       | Some st \<Rightarrow> \<exists>st'. ss_agent (tw_session w') = Some st' \<and> in_profile_set (ag_inner st') = in_profile_set (ag_inner st)
            \<and> in_active_alias (ag_inner st') = in_active_alias (ag_inner st))"
proof -
  define sig0 where "sig0 = (case te_paths T of
        Some p \<Rightarrow> detect_signals (tw_session w) p (te_remote_feature T)
      | None \<Rightarrow> \<lparr>sg_profiles_local_exists = False, sg_profiles_remote_exists = False,
          sg_remote_feature_compiled_in = te_remote_feature T, sg_agent_socket_exists = False, sg_agent_unlocked = None\<rparr>)"
  obtain s1 bridge where fb: "(case te_paths T of
        Some p \<Rightarrow> if sg_agent_socket_exists sig0 then probe_agent (te_session T 0) p (tw_session w) else (tw_session w, None)
      | None \<Rightarrow> (tw_session w, None)) = (s1, bridge)" by fastforce
  then have first: "s1 = tw_session w \<or> (\<exists>p. probe_agent (te_session T 0) p (tw_session w) = (s1, bridge))"
    by (auto split: option.splits if_splits)
  obtain s2 cs where run: "complete_run (te_read_dir T)
        (classify_state (case bridge of Some u \<Rightarrow> sig0\<lparr>sg_agent_unlocked := Some u\<rparr> | None \<Rightarrow> sig0))
        (parse_complete_args (te_current_dir T) ws)
        (if bridge = None then None else Some (bridge_list (te_session T 1))) s1 = (s2, cs)" by fastforce
  have w': "w' = tell (put_text (render_candidates cs)) (w\<lparr>tw_session := s2\<rparr>)" "code = EXIT_OK"
    using assms unfolding handle_complete_def Let_def sig0_def [symmetric] fb prod.case run by simp_all
  have "unharmed (tw_session w) s1" using first probe_harmless unharmed_refl by blast
  moreover have "unharmed s1 s2" by (rule run_harmless [where E = "te_session T 1", OF run]) simp
  ultimately have "unharmed (tw_session w) s2" by (rule unharmed_trans)
  then have "unharmed (tw_session w) ((tw_session w')\<lparr>ss_console := ss_console (tw_session w)\<rparr>)"
    and "ss_console (tw_session w') = put_text (render_candidates cs) (ss_console (tw_session w))" "tw_links w' = tw_links w"
    by (auto simp: w' tell_def unharmed_def split: option.splits)
  then show ?thesis using w'(2) unfolding unharmed_def by (auto split: option.splits)
qed

section \<open>Verbs\<close>

text \<open>The completion's test for a composite verb is the one of the parser.\<close>

lemma composite_reserved: "is_composite_token t \<longleftrightarrow> is_reserved t \<and> t \<notin> set ATOM_RESERVED"
  by (cases t) (auto simp: is_composite_token_def is_reserved_def ATOM_RESERVED_def VALID_MODIFIERS_def list_all_iff)

definition understood :: "string list \<Rightarrow> string \<Rightarrow> bool" where
  "understood prev v \<longleftrightarrow> (\<exists>tail cmd. parse_args (prev @ split_on CHR '' '' v @ tail) = Some (Inr cmd))"

lemma understood_with: "parse_args (prev @ split_on CHR '' '' v @ tail) = Some (Inr cmd) \<Longrightarrow> understood prev v"
  unfolding understood_def by blast

definition verb_uses :: "(string list \<times> string \<times> string list \<times> command) list" where
  "verb_uses =
     [([], ''s'', [''x''], Upload [''x''] False None), ([], ''d'', [''x''], Download [''x''] False None),
      ([], ''sa'', [''x''], SaveAll False ''x'' None), ([], ''sx'', [''x''], Upload [''x''] True None),
      ([], ''dx'', [''x''], Download [''x''] True None), ([], ''sarx'', [''x''], SaveAllRecursive True ''x'' None),
      ([], ''darx'', [''x''], DownloadAllRecursive True (Some ''x'') None), ([], ''q'', [], LockAgent), ([], ''c'', [], OpenTui),
      ([], ''f'', [], Doctor), ([], ''w'', [], Wipe), ([], ''z'', [], ContainerUnlock None),
      ([], ''z local'', [], ContainerUnlock (Some SourceLocal)), ([], ''z remote'', [], ContainerUnlock (Some SourceRemote)),
      ([''z''], ''local'', [], ContainerUnlock (Some SourceLocal)), ([''z''], ''remote'', [], ContainerUnlock (Some SourceRemote))]"

lemma verb_uses_parse: "list_all (\<lambda>(prev, v, tail, cmd). parse_args (prev @ split_on CHR '' '' v @ tail) = Some (Inr cmd)) verb_uses"
  by code_simp

lemma understood_use: "(prev, v, tail, cmd) \<in> set verb_uses \<Longrightarrow> understood prev v"
  using verb_uses_parse unfolding list_all_iff by (blast intro: understood_with)

lemma understood_verbs:
  "v \<in> {''s'', ''d'', ''sa'', ''sx'', ''dx'', ''sarx'', ''darx'', ''q'', ''c'', ''f'', ''w'', ''z'', ''z local'', ''z remote''} \<Longrightarrow> understood [] v"
  "v \<in> {''local'', ''remote''} \<Longrightarrow> understood [''z''] v"
  by (auto simp: verb_uses_def intro: understood_use)

text \<open>The positions of paths offer no verbs.\<close>

definition for_path :: "candidate \<Rightarrow> bool" where
  "for_path c \<longleftrightarrow> cd_kind c \<notin> {KVerb, KAtomic}"

lemma ranked_for_path:
  assumes "c \<in> set (numbered limit f xs @ footer_if n m l)" "\<And>i x. for_path (f i x)"
  shows "for_path c"
  using ranked_elem [OF assms(1)] assms(2) by (auto simp: for_path_def)

lemma ranks_for_path:
  "c \<in> set (rank_local_files es l b a) \<Longrightarrow> for_path c" "c \<in> set (rank_local_dirs shown b es) \<Longrightarrow> for_path c"
  "c \<in> set (rank_remote_files rs verb cur l b) \<Longrightarrow> for_path c" "c \<in> set (rank_remote_dirs rs verb cur b) \<Longrightarrow> for_path c"
  unfolding rank_local_files_def rank_local_dirs_def rank_remote_files_def rank_remote_dirs_def Let_def
  by (erule ranked_for_path, simp add: for_path_def candidate_fields remote_file_candidate_def remote_dir_candidate_def)+

lemma sources_for_path:
  "c \<in> set (local_sources rd cwd cur l a b) \<Longrightarrow> for_path c" "c \<in> set (collect_local_dirs_ranked rd cwd cur) \<Longrightarrow> for_path c"
  by (auto simp: local_sources_def collect_local_dirs_ranked_def intro: ranks_for_path)

lemma after_s_for_path:
  assumes "ready_after_s h after cur rd cwd source w = (w', cs)" "c \<in> set cs" shows "for_path c"
proof -
  obtain w1 es where "try_list_remote source (parent_for_remote_prefix cur) FilterDirectory w = (w1, es)" by fastforce
  with assms show ?thesis by (auto simp: ready_after_s_def split: if_splits intro: ranks_for_path sources_for_path)
qed

lemma after_d_for_path:
  assumes "ready_after_d h after cur rd cwd source w = (w', cs)" "c \<in> set cs" shows "for_path c"
proof -
  have "for_path (x\<lparr>cd_rank := r\<rparr>) = for_path x" for x r by (simp add: for_path_def)
  then show ?thesis using after_d_shape [OF assms(1)] assms(2)
    by auto (blast intro: ranks_for_path sources_for_path)+
qed

lemma default_upload_for_path:
  assumes "ready_after_default_upload cur rd cwd source w = (w', cs)" "c \<in> set cs" shows "for_path c"
proof -
  obtain w1 es where "try_list_remote source (parent_for_remote_prefix cur) FilterDirectory w = (w1, es)" by fastforce
  with assms show ?thesis by (auto simp: ready_after_default_upload_def intro: ranks_for_path)
qed

lemma filter_atomic_understood:
  assumes "c \<in> set (filter_atomic raw cur)" "\<forall>(v, k, r, d) \<in> set raw. k \<in> {KVerb, KAtomic} \<longrightarrow> understood prev v" "\<not> for_path c"
  shows "understood prev (cd_value c)"
  using assms by (auto simp: filter_atomic_def for_path_def)

lemma setup_understood:
  assumes "cs \<in> {setup_verbs_for_fresh cur, setup_verbs_for_down cur, setup_verbs_for_locked cur}" "c \<in> set cs" "\<not> for_path c"
  shows "understood [] (cd_value c)"
  using assms by (auto simp: setup_verbs_for_fresh_def setup_verbs_for_down_def setup_verbs_for_locked_def fresh_verbs_def
      down_verbs_def locked_verbs_def understood_verbs elim!: filter_atomic_understood)

lemma first_understood:
  assumes "c \<in> set (ready_first_arg st cur rd cwd)" "\<not> for_path c"
  shows "understood [] (cd_value c)"
  using assms sources_for_path(1) [of c rd cwd cur "''upload''" True 50]
  by (auto simp: ready_first_arg_def Let_def ready_verbs_def ready_atomics_def unlock_verbs_def understood_verbs
      split: if_splits elim!: filter_atomic_understood)

lemma z_understood:
  assumes "c \<in> set (z_argument after cur st)" "\<not> for_path c"
  shows "after = [] \<and> understood [''z''] (cd_value c)"
  using assms by (auto simp: z_argument_def understood_verbs split: if_splits elim!: filter_atomic_understood)

text \<open>
  Every verb that is offered is one the parser understands: put after the words
  before it, with the arguments it needs, it makes a command. (With a container that is
  locked or missing the verbs are offered at every position, hence the second condition.)
\<close>
theorem offered_verbs_understood:
  assumes "complete_run rd st args source w = (w', cs)" "c \<in> set cs" "cd_kind c \<in> {KVerb, KAtomic}"
    and "st \<in> {S3Ready, S4ReadyDual} \<or> previous_tokens (ca_tokens args) = []"
  shows "\<exists>tail cmd. parse_args (previous_tokens (ca_tokens args) @ split_on CHR '' '' (cd_value c) @ tail) = Some (Inr cmd)"
proof -
  have verb: "\<not> for_path c" using assms(3) by (simp add: for_path_def)
  have "understood (previous_tokens (ca_tokens args)) (cd_value c)"
    using assms(1) refl
  proof (cases rule: run_cases)
    case 1
    then show ?thesis using setup_understood [OF 1(3) assms(2) verb] assms(4) by auto
  next
    case 3
    then show ?thesis using first_understood assms(2) verb by simp
  next
    case (7 after)
    then show ?thesis using z_understood [of c after] assms(2) verb by auto
  next
    case (4 h after)
    show ?thesis using after_s_for_path [OF 4 assms(2)] verb by simp
  next
    case (5 h after)
    show ?thesis using after_d_for_path [OF 5 assms(2)] verb by simp
  next
    case 6
    show ?thesis using default_upload_for_path [OF 6 assms(2)] verb by simp
  qed (use assms(2) in simp)
  then show ?thesis by (simp add: understood_def)
qed

section \<open>A directory, a server, an agent\<close>

definition ex_read_dir :: read_dir where
  "ex_read_dir p =
     (if p = ''/w'' then Some [\<lparr>de_name = Some ''notes.md'', de_meta = Some \<lparr>em_symlink = False, em_dir = False, em_len = 2048, em_modified = Some 7\<rparr>\<rparr>,
        \<lparr>de_name = Some ''.git'', de_meta = Some \<lparr>em_symlink = False, em_dir = True, em_len = 0, em_modified = None\<rparr>\<rparr>]
      else None)"

definition ex_source :: "unit list_source" where
  "ex_source w p k = ((), if p = None then Inr [\<lparr>re_name = ''a.md'', re_size = Some 3, re_kind = RFile, re_mtime_secs = None\<rparr>] else Inl RlProvider)"

theorem local_candidates_exist_witness:
  "\<exists>w' c cs. complete_run ex_read_dir S3Ready \<lparr>ca_cwd = ''/w'', ca_tokens = [''s'', ''no'']\<rparr> None () = (w', c # cs)
     \<and> offered_local ex_read_dir ''/w'' ''no'' c \<and> prefix ''no'' (cd_value c)"
proof -
  let ?args = "\<lparr>ca_cwd = ''/w'', ca_tokens = [''s'', ''no'']\<rparr>"
  obtain w' cs where run: "complete_run ex_read_dir S3Ready ?args None () = (w', cs)" by (rule prod.exhaust)
  have "cs = local_sources ex_read_dir ''/w'' ''no'' ''upload'' True 100"
    using run by (simp add: complete_run_def previous_tokens_def current_word_def is_composite_token_def ready_after_s_def
        verb_modifiers_def)
  moreover have "\<exists>c cs'. local_sources ex_read_dir ''/w'' ''no'' ''upload'' True 100 = c # cs' \<and> cd_kind c = KFileLocal"
    by (simp add: local_sources_def collect_local_files_def collect_local_def split_path_prefix_def file_name_def ex_read_dir_def
        List.map_filter_def local_entry_of_def rank_local_files_def by_age_def numbered_def LOCAL_CANDIDATE_LIMIT_def candidate_fields)
  ultimately obtain c cs' where cs: "cs = c # cs'" "cd_kind c = KFileLocal" by blast
  have "offered_local ex_read_dir ''/w'' ''no'' c \<and> prefix ''no'' (cd_value c)"
    using local_candidates_exist [OF run] cs by (simp add: current_word_def)
  then show ?thesis using run unfolding cs(1) by blast
qed

text \<open>The word \<open>docs/\<close>: the entry of the root is offered below \<open>docs\<close>.\<close>

theorem remote_candidates_listed_witness:
  "\<exists>w' c cs. complete_run ex_read_dir S3Ready \<lparr>ca_cwd = ''/w'', ca_tokens = [''d'', ''docs/'']\<rparr> (Some ex_source) () = (w', c # cs)
     \<and> cd_value c = ''docs/a.md'' \<and> ex_source () None FilterBoth = ((), Inr [\<lparr>re_name = ''a.md'', re_size = Some 3, re_kind = RFile, re_mtime_secs = None\<rparr>])"
proof -
  let ?args = "\<lparr>ca_cwd = ''/w'', ca_tokens = [''d'', ''docs/'']\<rparr>"
  obtain w' cs where run: "complete_run ex_read_dir S3Ready ?args (Some ex_source) () = (w', cs)" by (rule prod.exhaust)
  let ?es = "[\<lparr>re_name = ''a.md'', re_size = Some 3, re_kind = RFile, re_mtime_secs = None\<rparr>]"
  have "\<exists>l. cs = rank_remote_files ?es ''d'' ''docs/'' l 1 @ rank_remote_dirs ?es ''d'' ''docs/'' 50"
    using run
    by (simp add: complete_run_def Let_def previous_tokens_def current_word_def is_composite_token_def ready_after_d_def verb_modifiers_def
        try_list_remote_def join_closed(2) [of "''docs''", simplified] ex_source_def) blast
  moreover have "\<exists>c cs'. rank_remote_files ?es ''d'' ''docs/'' l 1 = c # cs' \<and> cd_kind c = KFileRemote" for l
    by (simp add: rank_remote_files_def matching_def cur_last_segment_def file_name_def numbered_def REMOTE_CANDIDATE_LIMIT_def
        remote_file_candidate_def)
  ultimately have "\<exists>c cs'. cs = c # cs' \<and> cd_kind c = KFileRemote" by (metis append_Cons)
  then obtain c cs' where cs: "cs = c # cs'" "cd_kind c = KFileRemote" by blast
  have cur: "''docs/'' = current_word (ca_tokens ?args)" "''docs/'' = ''docs'' @ ''/''" by (simp_all add: current_word_def)
  have "\<exists>kind es e. ex_source () None kind = ((), Inr es) \<and> e \<in> set es \<and> cd_value c = ''docs/'' @ re_name e"
    using remote_candidates_listed [OF run _ _ cur(1), of c] cs by auto metis
  then have "cd_value c = ''docs/a.md''" by (auto simp: ex_source_def)
  with run cs show ?thesis by (auto simp: ex_source_def)
qed

theorem offered_verbs_understood_witness:
  "\<exists>tail cmd. parse_args ([''z''] @ split_on CHR '' '' ''local'' @ tail) = Some (Inr cmd)"
proof -
  let ?c = "\<lparr>cd_value = ''local'', cd_display = ''zz local'', cd_description = ''force the local container'', cd_kind = KAtomic, cd_rank = 1\<rparr>"
  have "complete_run ex_read_dir S3Ready \<lparr>ca_cwd = ''/w'', ca_tokens = [''z'', ''lo'']\<rparr> None () = ((), [?c])"
    by (simp add: complete_run_def previous_tokens_def current_word_def is_composite_token_def z_argument_def filter_atomic_def)
  from offered_verbs_understood [OF this, of ?c] show ?thesis by (simp add: previous_tokens_def)
qed

definition ex_tools :: tools_env where
  "ex_tools = \<lparr>te_env = (\<lambda>v. None), te_secs = 0, te_ser = (\<lambda>j. ''j''), te_colour = (\<lambda>c s. s), te_setup = undefined,
     te_script = (\<lambda>sh. []), te_error_text = (\<lambda>e. []), te_version = ''1'', te_paths = None, te_session = undefined,
     te_current_dir = None, te_read_dir = ex_read_dir, te_remote_feature = False\<rparr>"

theorem completion_harmless_witness:
  "\<exists>w w' cs. handle_complete ex_tools [''c''] w = (w', EXIT_OK) \<and> ss_disk (tw_session w') = ss_disk (tw_session w)
     \<and> ss_console (tw_session w') = put_text (render_candidates cs) (ss_console (tw_session w))"
proof -
  let ?w = "\<lparr>tw_session = \<lparr>ss_disk = \<lparr>d_files = Map.empty, d_trace = []\<rparr>, ss_socket = False, ss_agent = None, ss_killed = [],
     ss_console = \<lparr>co_out = [], co_err = []\<rparr>, ss_tick = 0\<rparr>, tw_links = Map.empty\<rparr>"
  obtain w' code where r: "handle_complete ex_tools [''c''] ?w = (w', code)" by fastforce
  from completion_harmless [OF r] r show ?thesis by blast
qed

end
