(* ===== verification/Doctor.thy ===== *)
theory Doctor
  imports Unlock Sacs Upload
begin

text \<open>
  The commands around a session: the health check \<open>zz f\<close> (src/commands/doctor.rs), the
  launch of the configuration interface \<open>zz c\<close> (open_tui.rs) and the remote login of a
  build without the \<open>remote\<close> feature (z_remote.rs). What the platform says about a file,
  and what a started program returns, are arguments.
\<close>

section \<open>Writing lines\<close>

definition print_line :: "session_env \<Rightarrow> string \<Rightarrow> session \<Rightarrow> session" where
  "print_line E l s = announce E (\<lambda>X. out_line l) s"

definition print_lines :: "session_env \<Rightarrow> string list \<Rightarrow> session \<Rightarrow> session" where
  "print_lines E ls s = fold (print_line E) ls s"

definition print_err :: "session_env \<Rightarrow> string \<Rightarrow> session \<Rightarrow> session" where
  "print_err E l s = announce E (\<lambda>X. err_line l) s"

section \<open>Time stamps of the report (doctor.rs)\<close>

definition format_unix_secs :: "u64 \<Rightarrow> string" where
  "format_unix_secs secs =
     (let s = unat secs mod 60;
          mi = (unat secs div 60) mod 60;
          h = (unat secs div 3600) mod 24;
          days = unat secs div 86400;
          z = days + 719468;
          era = z div 146097;
          doe = z - era * 146097;
          yoe = (doe - doe div 1460 + doe div 36524 - doe div 146096) div 365;
          y_anchor = yoe + era * 400;
          doy = doe - (365 * yoe + yoe div 4 - yoe div 100);
          mp = (5 * doy + 2) div 153;
          d = doy - (153 * mp + 2) div 5 + 1;
          m = (if mp < 10 then mp + 3 else mp - 9);
          y = (if m \<le> 2 then y_anchor + 1 else y_anchor)
      in pad 4 y @ ''-'' @ pad 2 m @ ''-'' @ pad 2 d @ ''T'' @ pad 2 h @ '':'' @ pad 2 mi @ '':'' @ pad 2 s @ ''Z'')"

section \<open>The health check (doctor.rs)\<close>

text \<open>
  \<open>dc_stat\<close>: the metadata of an existing file, an error or its modification time in
  seconds since 1970 (\<open>None\<close> where the platform has none or it lies before).
\<close>

record doctor_env =
  dc_stat :: "string \<Rightarrow> (string, u64 option) result"
  dc_remote_feature :: bool
  dc_exe :: "string option"

definition or_question_mark :: "string option \<Rightarrow> string" where
  "or_question_mark v = (case v of Some s \<Rightarrow> s | None \<Rightarrow> ''?'')"

definition section_paths :: "session_env \<Rightarrow> paths \<Rightarrow> session \<Rightarrow> session" where
  "section_paths E p = print_lines E
     [[], ''paths:'',
      ''  config dir       '' @ p_config_dir p,
      ''  runtime dir      '' @ p_runtime_dir p,
      ''  profiles-local   '' @ p_profiles_local_file p,
      ''  profiles-remote  '' @ p_profiles_remote_file p,
      ''  agent socket     '' @ p_agent_socket p]"

definition report_container :: "session_env \<Rightarrow> doctor_env \<Rightarrow> string \<Rightarrow> string \<Rightarrow> session \<Rightarrow> session" where
  "report_container E D label path s =
     print_line E
       (case d_files (ss_disk s) path of
          None \<Rightarrow> ''  '' @ label @ ''  absent''
        | Some f \<Rightarrow>
            (case dc_stat D path of
               Inl e \<Rightarrow> ''  '' @ label @ ''  unreadable ('' @ e @ '')''
             | Inr modified \<Rightarrow> ''  '' @ label @ ''  present '' @ middle_dot @ '' '' @ show_nat (length (f_data f)) @ '' bytes ''
                 @ middle_dot @ '' modified '' @ or_question_mark (map_option format_unix_secs modified))) s"

definition section_containers :: "session_env \<Rightarrow> doctor_env \<Rightarrow> paths \<Rightarrow> session \<Rightarrow> session" where
  "section_containers E D p s =
     report_container E D ''remote'' (p_profiles_remote_file p)
       (report_container E D ''local '' (p_profiles_local_file p) (print_lines E [[], ''containers:''] s))"

fun provider_label :: "provider_profile \<Rightarrow> string" where
  "provider_label (Nextcloud _) = ''nextcloud''"
| "provider_label (GoogleDrive _) = ''google-drive''"
| "provider_label (OneDrive _) = ''onedrive''"
| "provider_label (Dropbox _) = ''dropbox''"
| "provider_label (Unknown u) = up_tag u @ '' (unsupported '' @ em_dash @ '' upgrade zz-drop)''"

definition describe_providers :: "provider_profile list \<Rightarrow> string" where
  "describe_providers providers =
     (let parts = map provider_label providers in if parts = [] then ''no provider configured'' else join '' + '' parts)"

text \<open>The lock file is only looked at; an agent of another build stays.\<close>

definition lock_report :: "session_env \<Rightarrow> paths \<Rightarrow> session \<Rightarrow> string list" where
  "lock_report E p s =
     (if file_exists s (lock_path (p_runtime_dir p)) then
        (case read_to_string E s (lock_path (p_runtime_dir p)) of
           None \<Rightarrow> [''  lock        unreadable ('' @ se_msg E @ '')'']
         | Some raw \<Rightarrow>
             (let ls = str_lines raw;
                  pid = (if ls = [] then ''?'' else hd ls);
                  recorded = (if length ls < 2 then ''?'' else ls ! 1);
                  our = or_question_mark (se_build_id E)
              in (''  lock        present '' @ middle_dot @ '' pid='' @ pid @ '' '' @ middle_dot @ '' build ''
                     @ (if recorded = our then ''match'' else ''mismatch''))
                 # (if recorded = our then []
                    else [''              recorded build differs from current binary '' @ em_dash,
                          ''              the next `zz z` will SIGTERM the stale agent.''])))
      else if ss_socket s then [''  lock        absent (agent predates lock-file support)'']
      else [''  lock        absent (no agent has ever run in this runtime dir)''])"

text \<open>\<open>E n\<close> is the environment of the n-th request to the agent.\<close>

definition status_report :: "(nat \<Rightarrow> session_env) \<Rightarrow> session \<Rightarrow> session \<times> bool option" where
  "status_report E s =
     (case client_request (E 0) Status s of
        (s1, Inr (StatusIs unlocked ttl)) \<Rightarrow>
          if unlocked then
            (let s2 = print_line (E 0) (''  status      unlocked '' @ middle_dot @ '' ttl ''
                        @ or_question_mark (map_option (\<lambda>n. show_nat (unat n) @ ''s'') ttl)) s1
             in case client_request (E 1) GetProfile s2 of
                  (s3, Inr (ProfileIs p)) \<Rightarrow>
                    (print_line (E 0) (''  active      '' @ pp_alias p @ '' '' @ middle_dot @ '' '' @ describe_providers (pp_providers p)) s3, Some True)
                | (s3, _) \<Rightarrow> (s3, Some True))
          else (print_line (E 0) ''  status      locked (run `zz z`)'' s1, Some False)
      | (s1, Inr other) \<Rightarrow> (print_line (E 0) (''  status      unexpected response: '' @ se_debug (E 0) other) s1, None)
      | (s1, Inl e) \<Rightarrow> (print_line (E 0) (''  status      RPC failed ('' @ client_error_text e @ '')'') s1, None))"

definition section_agent :: "(nat \<Rightarrow> session_env) \<Rightarrow> paths \<Rightarrow> session \<Rightarrow> session \<times> bool option" where
  "section_agent E p s =
     (let s1 = print_lines (E 0) (lock_report (E 0) p s) (print_lines (E 0) [[], ''agent:''] s) in
      if \<not> ss_socket s then (print_line (E 0) ''  socket      absent (run `zz z` to spawn the agent)'' s1, None)
      else
        let s2 = print_line (E 0) ''  socket      present'' s1 in
        case client_connect (E 0) p s2 of
          Inl e \<Rightarrow> (print_line (E 0) (''  status      could not connect ('' @ client_error_text e @ '')'') s2, None)
        | Inr _ \<Rightarrow> status_report E s2)"

definition doctor_signals :: "doctor_env \<Rightarrow> paths \<Rightarrow> bool option \<Rightarrow> session \<Rightarrow> signals" where
  "doctor_signals D p agent_unlocked s = (detect_signals s p (dc_remote_feature D))\<lparr>sg_agent_unlocked := agent_unlocked\<rparr>"

fun state_label :: "sacs_state \<Rightarrow> string" where
  "state_label S0Fresh = ''S0 (fresh '' @ em_dash @ '' no usable container)''"
| "state_label S1Down = ''S1 (container present, agent down)''"
| "state_label S2Locked = ''S2 (locked, or status not probed)''"
| "state_label S3Ready = ''S3 (ready, single container)''"
| "state_label S4ReadyDual = ''S4 (ready, two containers)''"

definition section_sacs :: "session_env \<Rightarrow> doctor_env \<Rightarrow> paths \<Rightarrow> bool option \<Rightarrow> session \<Rightarrow> session" where
  "section_sacs E D p agent_unlocked s = print_lines E
     [[], ''sacs:'',
      ''  state       '' @ state_label (classify_state (doctor_signals D p agent_unlocked s)),
      ''  remote feat '' @ (if dc_remote_feature D then ''compiled in'' else ''default build (off)''),
      ''  install     `zz --completions $SHELL` to install shell completion''] s"

definition section_build :: "session_env \<Rightarrow> doctor_env \<Rightarrow> session \<Rightarrow> session" where
  "section_build E D = print_lines E
     [[], ''build:'',
      ''  id          '' @ (case se_build_id E of Some b \<Rightarrow> b | None \<Rightarrow> ''(unavailable)''),
      ''  binary      '' @ or_question_mark (dc_exe D)]"

fun state_name :: "sacs_state \<Rightarrow> string" where
  "state_name S0Fresh = ''S0''"
| "state_name S1Down = ''S1''"
| "state_name S2Locked = ''S2''"
| "state_name S3Ready = ''S3''"
| "state_name S4ReadyDual = ''S4''"

definition emit_check :: "session_env \<Rightarrow> string \<Rightarrow> bool \<Rightarrow> string option \<Rightarrow> session \<Rightarrow> session" where
  "emit_check E name ok detail s = announce E (\<lambda>X. emit_doctor_check X name ok detail) s"

text \<open>The probe of the agent: what it reported, and the checks that failed.\<close>

definition probe_unlocked :: "session_env \<Rightarrow> paths \<Rightarrow> session \<Rightarrow> session \<times> bool option \<times> string list" where
  "probe_unlocked E p s =
     (if \<not> ss_socket s then (emit_check E ''agent_unlocked'' False (Some ''no socket'') s, None, [])
      else case client_connect E p s of
        Inl e \<Rightarrow> (emit_check E ''agent_unlocked'' False (Some (''connect: '' @ client_error_text e)) s, None, [''agent_unlocked''])
      | Inr _ \<Rightarrow>
          (case client_request E Status s of
             (s1, Inr (StatusIs unlocked _)) \<Rightarrow> (emit_check E ''agent_unlocked'' unlocked None s1, Some unlocked, [])
           | (s1, Inr _) \<Rightarrow> (emit_check E ''agent_unlocked'' False (Some ''unexpected status response'') s1, None, [''agent_unlocked''])
           | (s1, Inl e) \<Rightarrow> (emit_check E ''agent_unlocked'' False (Some (''rpc: '' @ client_error_text e)) s1, None, [''agent_unlocked''])))"

definition doctor_scriptable :: "session_env \<Rightarrow> doctor_env \<Rightarrow> paths \<Rightarrow> session \<Rightarrow> session \<times> int" where
  "doctor_scriptable E D p s0 =
     (let s1 = emit_check E ''container_local'' (file_exists s0 (p_profiles_local_file p)) None s0;
          s2 = emit_check E ''container_remote'' (file_exists s0 (p_profiles_remote_file p)) None s1;
          s3 = emit_check E ''agent_socket'' (ss_socket s0) None s2;
          (s4, unlocked, failed) = probe_unlocked E p s3;
          st = classify_state (doctor_signals D p unlocked s4);
          s5 = emit_check E ''sacs_state'' (st = S3Ready \<or> st = S4ReadyDual) (Some (state_name st)) s4;
          s6 = (case se_build_id E of
                  Some b \<Rightarrow> emit_check E ''build_id'' True (Some b) s5
                | None \<Rightarrow> emit_check E ''build_id'' False (Some ''unavailable'') s5)
      in (announce E (\<lambda>X. emit_doctor_summary X (failed = []) failed) s6, EXIT_OK))"

definition doctor_text :: "(nat \<Rightarrow> session_env) \<Rightarrow> doctor_env \<Rightarrow> paths \<Rightarrow> session \<Rightarrow> session \<times> int" where
  "doctor_text E D p s =
     (let s1 = print_lines (E 0) [''zz-drop doctor'', ''==============''] s;
          (s2, agent_unlocked) = section_agent E p (section_containers (E 0) D p (section_paths (E 0) p s1))
      in (section_build (E 0) D (section_sacs (E 0) D p agent_unlocked s2), EXIT_OK))"

definition run_doctor ::
  "(nat \<Rightarrow> session_env) \<Rightarrow> doctor_env \<Rightarrow> (config_path_error, paths) result \<Rightarrow> session \<Rightarrow> session \<times> int" where
  "run_doctor E D discovered s =
     (case discovered of
        Inl e \<Rightarrow> fail_with (E 0) Usage (Some (''could not resolve paths: '' @ path_error_text e)) EXIT_USAGE s
      | Inr p \<Rightarrow> if scriptable (E 0) then doctor_scriptable (E 0) D p s else doctor_text E D p s)"

section \<open>The configuration interface (open_tui.rs)\<close>

definition TUI_BINARY :: string where "TUI_BINARY = ''zz-tui''"
definition EXIT_TUI_NOT_FOUND :: int where "EXIT_TUI_NOT_FOUND = 127"

text \<open>
  The executable of the process and its canonical path, \<open>$PATH\<close>, the metadata of a file
  (regular or not, and its mode) and running a program: an error, or its exit code if it
  was not ended by a signal.
\<close>

record tui_env =
  tu_exe :: "string option"
  tu_canonical :: "string \<Rightarrow> string option"
  tu_path :: "string option"
  tu_stat :: "string \<Rightarrow> (bool \<times> nat) option"
  tu_run :: "string \<Rightarrow> (string, int option) result"

definition is_runnable :: "tui_env \<Rightarrow> string \<Rightarrow> bool" where
  "is_runnable T path = (case tu_stat T path of Some (is_file, mode) \<Rightarrow> is_file \<and> and mode 0x49 \<noteq> 0 | None \<Rightarrow> False)"

definition tui_candidates :: "string \<Rightarrow> string \<Rightarrow> string list" where
  "tui_candidates dir name = [path_join dir name]"

definition sibling_in_dir :: "tui_env \<Rightarrow> string \<Rightarrow> string option" where
  "sibling_in_dir T dir = List.find (is_runnable T) (tui_candidates dir TUI_BINARY)"

definition sibling_tui_binary :: "tui_env \<Rightarrow> string option" where
  "sibling_tui_binary T =
     Option.bind (tu_exe T) (\<lambda>exe. Option.bind (tu_canonical T exe) (\<lambda>real. Option.bind (rust_parent real) (sibling_in_dir T)))"

definition find_in_path :: "tui_env \<Rightarrow> string \<Rightarrow> string option \<Rightarrow> string option" where
  "find_in_path T name path_var =
     Option.bind path_var (\<lambda>v. List.find (is_runnable T) (concat (map (\<lambda>dir. tui_candidates dir name) (split_on CHR '':'' v))))"

definition launch :: "session_env \<Rightarrow> tui_env \<Rightarrow> string \<Rightarrow> session \<Rightarrow> session \<times> int" where
  "launch E T path s =
     (case tu_run T path of
        Inr code \<Rightarrow> (s, case code of Some c \<Rightarrow> c | None \<Rightarrow> 1)
      | Inl e \<Rightarrow> (print_line E (''zz c: failed to launch `'' @ path @ ''`: '' @ e) s, EXIT_TUI_NOT_FOUND))"

definition run_with_env :: "session_env \<Rightarrow> tui_env \<Rightarrow> string option \<Rightarrow> session \<Rightarrow> session \<times> int" where
  "run_with_env E T path_var s =
     (case find_in_path T TUI_BINARY path_var of
        None \<Rightarrow> (print_line E (''zz c: `'' @ TUI_BINARY @ ''` not found next to zz-drop or on PATH.'' @ [NL]
                   @ ''install the zz-drop package, or add the binary to PATH.'') s, EXIT_TUI_NOT_FOUND)
      | Some path \<Rightarrow> launch E T path s)"

definition run_tui :: "session_env \<Rightarrow> tui_env \<Rightarrow> session \<Rightarrow> session \<times> int" where
  "run_tui E T s =
     (if scriptable E then
        fail_with E InteractiveOnly (Some ''`zz c` opens the configuration TUI and has no scriptable surface'') EXIT_USAGE s
      else case sibling_tui_binary T of
        Some path \<Rightarrow> launch E T path s
      | None \<Rightarrow> run_with_env E T (tu_path T) s)"

section \<open>Remote login in the default build (z_remote.rs)\<close>

definition run_remote_login :: "session_env \<Rightarrow> session \<Rightarrow> session \<times> int" where
  "run_remote_login E s =
     (print_err E ''remote container login is not enabled in this build (rebuild with `--features remote`)'' s, EXIT_NOT_IMPLEMENTED)"

end
