(* ===== verification/Dispatch.thy ===== *)
theory Dispatch
  imports Doctor Download
begin

text \<open>
  The dispatcher (src/commands/mod.rs, src/config.rs): where the paths come from, how a
  transfer obtains the profile of the agent and the provider client, what is pushed back
  to the agent after it, and which command runs what. The transfers are the ones of the
  upload and download theories; everything the outside world decides is in the
  environment.
\<close>

section \<open>Paths (config.rs, paths.rs)\<close>

definition path_overrides_default :: path_overrides where
  "path_overrides_default = \<lparr>po_config_dir = None, po_cache_dir = None, po_runtime_dir = None\<rparr>"

text \<open>
  \<open>lookup\<close> is the environment without the values that are not text; \<open>env\<close> is the whole
  of it.
\<close>

definition config_discover ::
  "(string \<Rightarrow> string option) \<Rightarrow> (string \<Rightarrow> string option) \<Rightarrow> string option \<Rightarrow> base_dirs option \<Rightarrow> u32 \<Rightarrow> (config_path_error, paths) result" where
  "config_discover lookup env exe base uid =
     rbind (config_root_from_env lookup)
       (\<lambda>o1. discover_paths env exe base (unat uid) (case o1 of Some x \<Rightarrow> x | None \<Rightarrow> path_overrides_default))"

text \<open>
  A directory as \<open>lstat\<close> shows it. A created one belongs to the user. \<open>create_dir_all\<close>
  and \<open>set_permissions\<close> follow a symbolic link, so the link itself stays what it is.
\<close>

record dir_fate =
  df_create :: "string option"
  df_chmod :: "string option"

definition S_IFDIR :: u32 where "S_IFDIR = 0x4000"

definition ensure_dir ::
  "u32 \<Rightarrow> u32 \<Rightarrow> dir_fate \<Rightarrow> (string, dir_meta) result \<Rightarrow> (string, dir_meta) result \<times> (config_path_error, unit) result" where
  "ensure_dir uid mode fate lstat =
     (case df_create fate of
        Some e \<Rightarrow> (lstat, Inl (PathIo e))
      | None \<Rightarrow>
          (let made = (case lstat of Inr m \<Rightarrow> m | Inl _ \<Rightarrow> \<lparr>dm_is_dir = True, dm_uid = uid, dm_mode = S_IFDIR\<rparr>) in
           case df_chmod fate of
             Some e \<Rightarrow> (Inr made, Inl (PathIo e))
           | None \<Rightarrow> (Inr (if dm_is_dir made then made\<lparr>dm_mode := or (and (dm_mode made) S_IFDIR) mode\<rparr> else made), Inr ())))"

definition ensure_dirs ::
  "u32 \<Rightarrow> dir_fate \<Rightarrow> dir_fate \<Rightarrow> (string, dir_meta) result \<Rightarrow> (string, dir_meta) result \<Rightarrow>
    (string, dir_meta) result \<times> (string, dir_meta) result \<times> (config_path_error, unit) result" where
  "ensure_dirs uid config_fate runtime_fate config_lstat runtime_lstat =
     (case ensure_dir uid 0x1C0 config_fate config_lstat of
        (c, Inl e) \<Rightarrow> (c, runtime_lstat, Inl e)
      | (c, Inr _) \<Rightarrow> (let (r, result) = ensure_dir uid 0x1C0 runtime_fate runtime_lstat in (c, r, result)))"

section \<open>The world of a command\<close>

text \<open>
  A session, the files and directories of the user, what was sent to which provider, and
  the messages of the downloads.
\<close>

record dispatch_world =
  dw_session :: session
  dw_files :: "string \<Rightarrow> string option"
  dw_dirs :: "string list"
  dw_sent :: "(any_remote \<times> upload_call list) list"
  dw_fetched :: "any_remote list"
  dw_events :: "event list"

text \<open>
  \<open>de_session n\<close> is the environment of the n-th request to the agent; \<open>de_client\<close> is a
  provider client after the transfer, with its dirty flag; \<open>de_meanwhile\<close> is what became of
  the agent while the transfer ran.
\<close>

record dispatch_env =
  de_lookup :: "string \<Rightarrow> string option"
  de_env :: "string \<Rightarrow> string option"
  de_exe :: "string option"
  de_base :: "base_dirs option"
  de_config_fate :: dir_fate
  de_runtime_fate :: dir_fate
  de_config_lstat :: "(string, dir_meta) result"
  de_session :: "nat \<Rightarrow> session_env"
  de_upload :: "any_remote \<Rightarrow> upload_env"
  de_download :: "any_remote \<Rightarrow> transfer_env"
  de_tree :: "string \<Rightarrow> fs_node"
  de_client :: "any_remote \<Rightarrow> any_remote \<times> bool"
  de_meanwhile :: "agent option \<Rightarrow> agent option"
  de_current_dir :: "string option"
  de_fuel :: nat
  de_doctor :: doctor_env
  de_tui :: tui_env

definition discovered :: "dispatch_env \<Rightarrow> (config_path_error, paths) result" where
  "discovered X = config_discover (de_lookup X) (de_env X) (de_exe X) (de_base X) (se_uid (de_session X 0))"

definition on_session :: "(session \<Rightarrow> session \<times> int) \<Rightarrow> dispatch_world \<Rightarrow> dispatch_world \<times> int option" where
  "on_session f w = (let (s, code) = f (dw_session w) in (w\<lparr>dw_session := s\<rparr>, Some code))"

definition paths_unresolved :: "session_env \<Rightarrow> config_path_error \<Rightarrow> session \<Rightarrow> session \<times> int" where
  "paths_unresolved E e s = (print_err E (''could not resolve paths: '' @ path_error_text e) s, EXIT_USAGE)"

text \<open>The command sees the runtime directory as it is after \<open>ensure_dirs\<close>.\<close>

definition with_paths ::
  "dispatch_env \<Rightarrow> (session_env \<Rightarrow> paths \<Rightarrow> session \<Rightarrow> session \<times> int) \<Rightarrow> session \<Rightarrow> session \<times> int" where
  "with_paths X f s =
     (let E = de_session X 0 in
      case discovered X of
        Inl e \<Rightarrow> paths_unresolved E e s
      | Inr p \<Rightarrow>
          (let (_, runtime, _) = ensure_dirs (se_uid E) (de_config_fate X) (de_runtime_fate X) (de_config_lstat X) (se_lstat E)
           in f (E\<lparr>se_lstat := runtime\<rparr>) p s))"

section \<open>The profile of the agent (mod.rs)\<close>

definition agent_line :: "session_env \<Rightarrow> string \<Rightarrow> session \<Rightarrow> session" where
  "agent_line E why s = announce E (\<lambda>X. err_line (render_failed ''(agent)'' why None (oe_colour X))) s"

definition no_agent_locked :: "session_env \<Rightarrow> string \<Rightarrow> session \<Rightarrow> session \<times> int" where
  "no_agent_locked E detail s =
     (if scriptable E then fail_with E AgentLocked (Some detail) EXIT_AGENT_LOCKED s
      else (print_err E (render_hint ''zz z'') (agent_line E ''locked'' s), EXIT_AGENT_UNREACHABLE))"

definition no_agent_unreachable :: "session_env \<Rightarrow> string \<Rightarrow> session \<Rightarrow> session \<times> int" where
  "no_agent_unreachable E detail s =
     (if scriptable E then fail_with E AgentUnreachable (Some detail) EXIT_AGENT_UNREACHABLE s
      else (agent_line E ''unreachable'' s, EXIT_AGENT_UNREACHABLE))"

definition stale_stopped :: "session_env \<Rightarrow> session \<Rightarrow> session \<times> int" where
  "stale_stopped E s =
     (if gf_output (se_flags E) = JsonMode then
        fail_with E AgentUnreachable
          (Some (''stale agent from a previous build was stopped '' @ em_dash @ '' run `zz z` again'')) EXIT_AGENT_UNREACHABLE s
      else (print_err E (render_hint ''zz z'')
              (print_err E ''agent from a previous build was still running and has been stopped.'' s), EXIT_AGENT_UNREACHABLE))"

text \<open>Why there is no profile, and how each reason is reported.\<close>

datatype refusal = StaleStopped | LockedAgent string | UnreachableAgent string

definition ask_profile :: "session_env \<Rightarrow> paths \<Rightarrow> session \<Rightarrow> session \<times> (refusal, plain_profile) result" where
  "ask_profile E p s =
     (let (s1, stale) = check_for_stale_agent E p s in
      if stale = KilledStale then (s1, Inl StaleStopped)
      else if \<not> ss_socket s1 then
        (s1, Inl (LockedAgent (''profile locked '' @ em_dash @ '' run `zz z --passphrase-file <path>` first'')))
      else case client_connect E p s1 of
        Inl _ \<Rightarrow> (s1, Inl (UnreachableAgent ''agent socket present but not accepting connections''))
      | Inr _ \<Rightarrow>
          (case client_request E GetProfile s1 of
             (s2, Inr (ProfileIs profile)) \<Rightarrow> (s2, Inr profile)
           | (s2, Inr _) \<Rightarrow>
               (s2, Inl (LockedAgent (''agent up but profile locked '' @ em_dash @ '' run `zz z --passphrase-file <path>` first'')))
           | (s2, Inl _) \<Rightarrow> (s2, Inl (UnreachableAgent ''agent rpc failed during get_profile''))))"

fun report_refusal :: "session_env \<Rightarrow> refusal \<Rightarrow> session \<Rightarrow> session \<times> int" where
  "report_refusal E StaleStopped s = stale_stopped E s"
| "report_refusal E (LockedAgent detail) s = no_agent_locked E detail s"
| "report_refusal E (UnreachableAgent detail) s = no_agent_unreachable E detail s"

section \<open>Transfers (mod.rs, remote_fs.rs)\<close>

type_synonym transfer = "plain_profile \<Rightarrow> any_remote \<Rightarrow> dispatch_world \<Rightarrow> dispatch_world \<times> int option"

text \<open>\<open>mem::discriminant\<close>; the first provider of the kind is replaced.\<close>

fun same_kind :: "provider_profile \<Rightarrow> provider_profile \<Rightarrow> bool" where
  "same_kind (Nextcloud _) (Nextcloud _) = True"
| "same_kind (GoogleDrive _) (GoogleDrive _) = True"
| "same_kind (OneDrive _) (OneDrive _) = True"
| "same_kind (Dropbox _) (Dropbox _) = True"
| "same_kind (Unknown _) (Unknown _) = True"
| "same_kind _ _ = False"

fun replace_provider :: "provider_profile \<Rightarrow> provider_profile list \<Rightarrow> provider_profile list" where
  "replace_provider new [] = []"
| "replace_provider new (p # ps) = (if same_kind p new then new # ps else p # replace_provider new ps)"

text \<open>The client never changes what a Nextcloud profile holds.\<close>

fun pending_provider_update :: "any_remote \<times> bool \<Rightarrow> provider_profile option" where
  "pending_provider_update (AnyNextcloud _, dirty) = None"
| "pending_provider_update (AnyGoogleDrive g, dirty) = (if dirty then Some (GoogleDrive g) else None)"
| "pending_provider_update (AnyOneDrive o1, dirty) = (if dirty then Some (OneDrive o1) else None)"
| "pending_provider_update (AnyDropbox d, dirty) = (if dirty then Some (Dropbox d) else None)"

definition push_update :: "session_env \<Rightarrow> plain_profile \<Rightarrow> provider_profile option \<Rightarrow> session \<Rightarrow> session" where
  "push_update E profile update s =
     (case update of
        Some u \<Rightarrow> fst (client_request E (UpdateProfile (profile\<lparr>pp_providers := replace_provider u (pp_providers profile)\<rparr>)) s)
      | None \<Rightarrow> s)"

definition push_invalidate :: "session_env \<Rightarrow> string option option \<Rightarrow> int \<Rightarrow> session \<Rightarrow> session" where
  "push_invalidate E invalidate code s =
     (case invalidate of
        Some pre \<Rightarrow> if code = EXIT_OK then fst (client_request E (InvalidateRemote pre) s) else s
      | None \<Rightarrow> s)"

text \<open>After a transfer: the agent as it is by then, the update, the invalidation.\<close>

definition after_transfer ::
  "dispatch_env \<Rightarrow> string option option \<Rightarrow> plain_profile \<Rightarrow> any_remote \<Rightarrow> int \<Rightarrow> session \<Rightarrow> session" where
  "after_transfer X invalidate profile remote code s =
     push_invalidate (de_session X 2) invalidate code
       (push_update (de_session X 1) profile (pending_provider_update (de_client X remote))
         (s\<lparr>ss_agent := de_meanwhile X (ss_agent s)\<rparr>))"

text \<open>A transfer that does not return has no exit code.\<close>

definition with_remote_invalidating ::
  "dispatch_env \<Rightarrow> string option option \<Rightarrow> transfer \<Rightarrow> dispatch_world \<Rightarrow> dispatch_world \<times> int option" where
  "with_remote_invalidating X invalidate f w =
     (let E = de_session X 0 in
      case discovered X of
        Inl e \<Rightarrow> on_session (paths_unresolved E e) w
      | Inr p \<Rightarrow>
          (case ask_profile E p (dw_session w) of
             (s1, Inl why) \<Rightarrow> on_session (report_refusal E why) (w\<lparr>dw_session := s1\<rparr>)
           | (s1, Inr profile) \<Rightarrow>
               (case build_remote (se_agent_env E 0) profile of
                  Inl diag \<Rightarrow>
                    on_session (fail_with E ProviderError (Some (''provider init failed: '' @ diag)) EXIT_PROVIDER_ERROR)
                      (w\<lparr>dw_session := s1\<rparr>)
                | Inr remote \<Rightarrow>
                    (case f profile remote (w\<lparr>dw_session := s1\<rparr>) of
                       (w2, None) \<Rightarrow> (w2, None)
                     | (w2, Some code) \<Rightarrow>
                         (w2\<lparr>dw_session := after_transfer X invalidate profile remote code (dw_session w2)\<rparr>, Some code)))))"

definition with_remote :: "dispatch_env \<Rightarrow> transfer \<Rightarrow> dispatch_world \<Rightarrow> dispatch_world \<times> int option" where
  "with_remote X = with_remote_invalidating X None"

text \<open>The transfers run on the files of the user and write to the streams of the session.\<close>

definition as_upload ::
  "dispatch_env \<Rightarrow> (upload_env \<Rightarrow> plain_profile \<Rightarrow> upload_world \<Rightarrow> upload_world \<times> int) \<Rightarrow> transfer" where
  "as_upload X f profile remote w =
     (let (u, code) = f (de_upload X remote) profile
            \<lparr>uw_files = dw_files w, uw_console = ss_console (dw_session w), uw_sum = bs_default, uw_tick = 0, uw_calls = []\<rparr>
      in (w\<lparr>dw_files := uw_files u, dw_session := (dw_session w)\<lparr>ss_console := uw_console u\<rparr>,
            dw_sent := dw_sent w @ [(remote, uw_calls u)]\<rparr>, Some code))"

definition as_download ::
  "dispatch_env \<Rightarrow> (transfer_env \<Rightarrow> world \<Rightarrow> world \<times> int option) \<Rightarrow> transfer" where
  "as_download X f profile remote w =
     (let (d, code) = f (de_download X remote)
            \<lparr>w_files = dw_files w, w_dirs = dw_dirs w, w_tick = 0, w_out = [], w_sum = bs_default\<rparr>
      in (w\<lparr>dw_files := w_files d, dw_dirs := w_dirs d, dw_fetched := dw_fetched w @ [remote],
            dw_events := dw_events w @ w_out d\<rparr>, code))"

definition download_dest :: "dispatch_env \<Rightarrow> string option \<Rightarrow> string" where
  "download_dest X dest_local =
     (case dest_local of Some p \<Rightarrow> p | None \<Rightarrow> (case de_current_dir X of Some d \<Rightarrow> d | None \<Rightarrow> ''.''))"

section \<open>The commands (mod.rs)\<close>

fun dispatch_command :: "dispatch_env \<Rightarrow> command \<Rightarrow> dispatch_world \<Rightarrow> dispatch_world \<times> int option" where
  "dispatch_command X (Upload files compress dest) =
     with_remote_invalidating X (Some dest) (as_upload X (\<lambda>U profile. run_upload U files profile compress dest))"
| "dispatch_command X (SaveAll compress dir dest) =
     with_remote_invalidating X (Some dest) (as_upload X (\<lambda>U profile. run_save_all U dir (de_tree X dir) False profile compress dest))"
| "dispatch_command X (SaveAllRecursive compress dir dest) =
     with_remote_invalidating X (Some dest) (as_upload X (\<lambda>U profile. run_save_all U dir (de_tree X dir) True profile compress dest))"
| "dispatch_command X (Download files decompress dest) =
     with_remote X (as_download X (\<lambda>T w. let (w', code) = run_download T files (download_dest X dest) decompress w in (w', Some code)))"
| "dispatch_command X (DownloadAll decompress dest src) =
     with_remote X (as_download X (\<lambda>T. run_download_all (de_fuel X) T (download_dest X dest) False decompress src))"
| "dispatch_command X (DownloadAllRecursive decompress dest src) =
     with_remote X (as_download X (\<lambda>T. run_download_all (de_fuel X) T (download_dest X dest) True decompress src))"
| "dispatch_command X (ContainerUnlock which) = on_session (with_paths X (\<lambda>E p. run_unlock E p which))"
| "dispatch_command X (RemoteUnlock selector) = on_session (with_paths X (\<lambda>E p. run_remote_login E))"
| "dispatch_command X LockAgent = on_session (with_paths X run_lock)"
| "dispatch_command X Wipe = on_session (with_paths X run_wipe)"
| "dispatch_command X OpenTui = on_session (run_tui (de_session X 0) (de_tui X))"
| "dispatch_command X Doctor = on_session (run_doctor (de_session X) (de_doctor X) (discovered X))"

end
