(* ===== verification/Dispatch_Props.thy ===== *)
theory Dispatch_Props
  imports Dispatch Unlock_Props Sacs_Props Upload_Props Calendar
begin

text \<open>
  What the dispatcher guarantees: a transfer only runs on the profile an unlocked agent
  handed out, every refusal is reported, an upload that succeeds drops the listings of
  the directory it went to, the health check changes nothing on disk, a prepared runtime
  directory passes the check of the client, and every answer of the agent fits its request.
\<close>

section \<open>Obtaining the profile\<close>

lemma stale_agent_quiet:
  assumes "check_for_stale_agent E p s = (s', r)" "r \<noteq> KilledStale"
  shows "s' = s"
  using assms by (auto simp: check_for_stale_agent_def Let_def split: if_splits option.splits list.splits)

lemma served_get_profile:
  assumes "client_request E GetProfile s = (s', r)"
  shows "ss_disk s' = ss_disk s \<and> ss_socket s' = ss_socket s \<and> ss_killed s' = ss_killed s \<and> ss_console s' = ss_console s
    \<and> (case ss_agent s of None \<Rightarrow> ss_agent s' = None
       | Some st \<Rightarrow> \<exists>st'. ss_agent s' = Some st' \<and> active_profile st' = active_profile st
            \<and> in_profile_set (ag_inner st') = in_profile_set (ag_inner st)
            \<and> in_active_alias (ag_inner st') = in_active_alias (ag_inner st) \<and> ag_cache st' = ag_cache st
            \<and> (\<forall>resp. r = Inr resp \<longrightarrow> resp = (case active_profile st of Some q \<Rightarrow> ProfileIs q | None \<Rightarrow> Error NotUnlocked)))"
proof (cases "ss_agent s")
  case None
  then show ?thesis using assms by (auto simp: client_request_def served_def split: fate.splits)
next
  case (Some st)
  let ?t = "touch (se_agent_env E 0) (st\<lparr>ag_disk := ss_disk s\<rparr>)"
  obtain st' x where g: "get_active_profile_renewing_ttl (se_agent_env E 1) ?t = (st', x)" by fastforce
  note keeps = get_active_keeps [OF g]
  have t: "in_profile_set (ag_inner ?t) = in_profile_set (ag_inner st)" "in_active_alias (ag_inner ?t) = in_active_alias (ag_inner st)"
    "ag_cache ?t = ag_cache st" "ag_disk ?t = ss_disk s"
    by (simp_all add: touch_def)
  have same: "active_profile st' = active_profile st" by (rule active_profile_cong) (simp_all only: keeps t)
  have x: "x = active_profile st"
    using g t by (auto simp: get_active_profile_renewing_ttl_def Let_def active_profile_def split: option.splits)
  have v: "served E GetProfile s = (s\<lparr>ss_agent := Some st', ss_disk := ss_disk s\<rparr>,
      Some (case active_profile st of Some q \<Rightarrow> ProfileIs q | None \<Rightarrow> Error NotUnlocked))"
    using g x keeps(3) t(4) by (simp add: served_def Some)
  show ?thesis using assms Some same keeps t
    by (auto simp: client_request_def v split: fate.splits)
qed

lemma ask_profile_held:
  assumes "ask_profile E p s = (s', Inr profile)"
  shows "\<exists>st st'. ss_agent s = Some st \<and> active_profile st = Some profile \<and> ss_agent s' = Some st'
    \<and> active_profile st' = Some profile \<and> ag_cache st' = ag_cache st \<and> ss_disk s' = ss_disk s"
proof -
  obtain s1 c where st: "check_for_stale_agent E p s = (s1, c)" by fastforce
  have c: "c \<noteq> KilledStale" using assms st by (auto simp: ask_profile_def)
  then have s1: "s1 = s" by (rule stale_agent_quiet [OF st])
  obtain s2 r where rq: "client_request E GetProfile s = (s2, r)" by fastforce
  have rr: "r = Inr (ProfileIs profile)" "s' = s2"
    using assms st c rq unfolding s1
    by (auto simp: ask_profile_def split: if_splits sum.splits agent_response.splits)
  show ?thesis
  proof (cases "ss_agent s")
    case None
    then show ?thesis using rq rr by (auto simp: client_request_def served_def split: fate.splits)
  next
    case (Some st)
    with served_get_profile [OF rq] rr show ?thesis by (auto split: option.splits)
  qed
qed

lemma report_refusal_code:
  assumes "report_refusal E why s = (s', code)"
  shows "code \<in> {EXIT_AGENT_UNREACHABLE, EXIT_AGENT_LOCKED} \<and> (json_run E \<longrightarrow> reported E code s')"
  using assms json_scriptable [of E]
  by (cases why) (auto simp: no_agent_locked_def no_agent_unreachable_def stale_stopped_def fail_with_def json_run_def
      split: if_splits intro!: bare_reported)

text \<open>A transfer command either ends before the transfer, or runs it on the profile of the agent.\<close>

lemma with_remote_cases:
  assumes "with_remote_invalidating X hint f w = (w', code)"
  obtains
    (Refused) s c where "w' = w\<lparr>dw_session := s\<rparr>" "code = Some c"
      "c \<in> {EXIT_AGENT_UNREACHABLE, EXIT_AGENT_LOCKED, EXIT_PROVIDER_ERROR} \<or> c = EXIT_USAGE \<and> (\<forall>p. discovered X \<noteq> Inr p)"
      "(\<exists>p. discovered X = Inr p) \<Longrightarrow> json_run (de_session X 0) \<Longrightarrow> reported (de_session X 0) c s"
  | (Ran) st st' s1 profile remote w2 c where "ss_agent (dw_session w) = Some st" "active_profile st = Some profile"
      "remote_of profile = Some remote" "ss_agent s1 = Some st'" "ag_cache st' = ag_cache st"
      "f profile remote (w\<lparr>dw_session := s1\<rparr>) = (w2, c)" "code = c"
      "w' = (case c of None \<Rightarrow> w2
             | Some e \<Rightarrow> w2\<lparr>dw_session := after_transfer X hint profile remote e (dw_session w2)\<rparr>)"
proof -
  let ?E = "de_session X 0"
  show thesis
  proof (cases "discovered X")
    case (Inl e)
    with assms have "w' = w\<lparr>dw_session := fst (paths_unresolved ?E e (dw_session w))\<rparr>" "code = Some EXIT_USAGE"
      by (auto simp: with_remote_invalidating_def on_session_def paths_unresolved_def)
    then show thesis using Inl by (intro Refused) auto
  next
    case (Inr p)
    obtain s1 r where ob: "ask_profile ?E p (dw_session w) = (s1, r)" by fastforce
    show thesis
    proof (cases r)
      case (Inl why)
      obtain s2 c where rf: "report_refusal ?E why s1 = (s2, c)" by fastforce
      with assms Inr ob Inl have "w' = w\<lparr>dw_session := s2\<rparr>" "code = Some c"
        by (auto simp: with_remote_invalidating_def on_session_def)
      then show thesis using report_refusal_code [OF rf] by (intro Refused) auto
    next
      case (Inr profile)
      note ob = ob [unfolded Inr]
      show thesis
      proof (cases "build_remote (se_agent_env ?E 0) profile")
        case (Inl diag)
        let ?d = "Some (''provider init failed: '' @ diag)"
        have "w' = w\<lparr>dw_session := announce ?E (\<lambda>Y. emit_failed_bare Y ProviderError ?d) s1\<rparr>" "code = Some EXIT_PROVIDER_ERROR"
          using assms \<open>discovered X = Inr p\<close> ob Inl
          by (auto simp: with_remote_invalidating_def Inr on_session_def fail_with_def)
        then show thesis using bare_reported [of ?E ProviderError EXIT_PROVIDER_ERROR ?d s1] by (intro Refused) auto
      next
        case (Inr remote)
        obtain w2 c where f: "f profile remote (w\<lparr>dw_session := s1\<rparr>) = (w2, c)" by fastforce
        obtain st st' where st: "ss_agent (dw_session w) = Some st" "active_profile st = Some profile" "ss_agent s1 = Some st'"
          "ag_cache st' = ag_cache st" using ask_profile_held [OF ob] by blast
        have "code = c \<and> w' = (case c of None \<Rightarrow> w2
             | Some e \<Rightarrow> w2\<lparr>dw_session := after_transfer X hint profile remote e (dw_session w2)\<rparr>)"
          using assms \<open>discovered X = Inr p\<close> ob Inr f
          by (auto simp: with_remote_invalidating_def \<open>r = Inr profile\<close> split: option.splits)
        then show thesis using Ran st f build_remote_Inr [OF Inr] by blast
      qed
    qed
  qed
qed


section \<open>Transfers\<close>

fun is_transfer :: "command \<Rightarrow> bool" where
  "is_transfer (Upload _ _ _) = True"
| "is_transfer (SaveAll _ _ _) = True"
| "is_transfer (SaveAllRecursive _ _ _) = True"
| "is_transfer (Download _ _ _) = True"
| "is_transfer (DownloadAll _ _ _) = True"
| "is_transfer (DownloadAllRecursive _ _ _) = True"
| "is_transfer _ = False"

text \<open>What a transfer changes besides the session.\<close>

definition sent_or_fetched :: "any_remote \<Rightarrow> dispatch_world \<Rightarrow> dispatch_world \<Rightarrow> bool" where
  "sent_or_fetched remote w w' \<longleftrightarrow>
     (\<exists>calls. dw_sent w' = dw_sent w @ [(remote, calls)]) \<and> dw_fetched w' = dw_fetched w \<and> dw_dirs w' = dw_dirs w
       \<and> dw_events w' = dw_events w
   \<or> dw_fetched w' = dw_fetched w @ [remote] \<and> dw_sent w' = dw_sent w"

definition moves :: "transfer \<Rightarrow> bool" where
  "moves f \<longleftrightarrow> (\<forall>profile remote w w' c. f profile remote w = (w', c) \<longrightarrow> sent_or_fetched remote w w'
     \<and> ss_agent (dw_session w') = ss_agent (dw_session w))"

lemma moves_upload: "moves (as_upload X f)"
  unfolding moves_def sent_or_fetched_def as_upload_def by (auto split: prod.splits)

lemma moves_download: "moves (as_download X f)"
  unfolding moves_def sent_or_fetched_def as_download_def by (auto split: prod.splits)

lemma transfer_runs:
  assumes "is_transfer cmd"
  obtains hint f where "dispatch_command X cmd = with_remote_invalidating X hint f" "moves f"
  using assms that
  by (cases cmd) (auto simp: with_remote_def fun_eq_iff intro: moves_upload moves_download)

lemma sent_or_fetched_session [simp]:
  "sent_or_fetched r (w\<lparr>dw_session := s\<rparr>) w2 = sent_or_fetched r w w2"
  "sent_or_fetched r w (w2\<lparr>dw_session := s\<rparr>) = sent_or_fetched r w w2"
  by (simp_all add: sent_or_fetched_def)

lemma other_commands:
  assumes "\<not> is_transfer cmd" "dispatch_command X cmd w = (w', code)"
  shows "w' = w\<lparr>dw_session := dw_session w'\<rparr>"
  using assms by (cases cmd) (auto simp: on_session_def split: prod.splits)


text \<open>
  C30. No file is sent to a provider or fetched from one unless an agent was there that
  held an open container with an active profile, and then only through a client of the
  first provider of that profile: whatever the command, either nothing but the session
  changes (the messages, the agent, the program's own files), or the agent's profile was used.
\<close>
theorem transfer_needs_agent:
  assumes "dispatch_command X cmd w = (w', code)"
  shows "w' = w\<lparr>dw_session := dw_session w'\<rparr>
    \<or> is_transfer cmd \<and> (\<exists>st profile remote. ss_agent (dw_session w) = Some st \<and> is_unlocked st
        \<and> active_profile st = Some profile \<and> remote_of profile = Some remote
        \<and> ((\<exists>calls. dw_sent w' = dw_sent w @ [(remote, calls)]) \<and> dw_fetched w' = dw_fetched w
             \<and> dw_dirs w' = dw_dirs w \<and> dw_events w' = dw_events w
           \<or> dw_fetched w' = dw_fetched w @ [remote] \<and> dw_sent w' = dw_sent w))"
proof (cases "is_transfer cmd")
  case False
  with other_commands assms show ?thesis by blast
next
  case True
  then obtain hint f where f: "dispatch_command X cmd = with_remote_invalidating X hint f" "moves f" by (rule transfer_runs)
  from assms have "with_remote_invalidating X hint f w = (w', code)" by (simp add: f(1))
  then show ?thesis
  proof (cases rule: with_remote_cases)
    case Refused
    then show ?thesis by simp
  next
    case (Ran st st' s1 profile remote w2 c)
    have "sent_or_fetched remote w w2" using f(2) Ran(6) unfolding moves_def by (metis sent_or_fetched_session(1))
    then have "sent_or_fetched remote w w'" by (simp add: Ran(8) split: option.split)
    moreover have "is_unlocked st" using Ran(2) by (auto simp: active_profile_def is_unlocked_def split: option.splits)
    ultimately show ?thesis using True Ran(1-3) unfolding sent_or_fetched_def by blast
  qed
qed

text \<open>
  In JSON mode, a transfer that does not start (nothing is sent or fetched) leaves
  everything but the session alone and ends with the exit code of an agent that is not
  reachable or locked or of a provider that cannot be opened, and the last line of the
  standard output is a failure record whose reason has this exit code.
\<close>
theorem refused_transfer_reported:
  assumes "dispatch_command X cmd w = (w', Some code)" "is_transfer cmd" "discovered X = Inr p"
    and "\<forall>t. oe_mode (se_out (de_session X 0) t) = JsonMode" "gf_output (se_flags (de_session X 0)) = JsonMode"
    and "dw_sent w' = dw_sent w" "dw_fetched w' = dw_fetched w"
  shows "w' = w\<lparr>dw_session := dw_session w'\<rparr> \<and> code \<in> {EXIT_AGENT_UNREACHABLE, EXIT_AGENT_LOCKED, EXIT_PROVIDER_ERROR}
    \<and> (\<exists>pre t ev. co_out (ss_console (dw_session w')) = pre @ oe_ser (se_out (de_session X 0) t) (failed_json ev) @ [NL]
         \<and> reason_exit (fe_reason ev) = code)"
proof -
  obtain hint f where f: "dispatch_command X cmd = with_remote_invalidating X hint f" "moves f"
    using assms(2) by (rule transfer_runs)
  have j: "json_run (de_session X 0)" using assms(4,5) by (simp add: json_run_def)
  from assms(1) have "with_remote_invalidating X hint f w = (w', Some code)" by (simp add: f(1))
  then show ?thesis
  proof (cases rule: with_remote_cases)
    case (Refused s c)
    have "reported (de_session X 0) code s" using Refused(2,4) j assms(3) by auto
    moreover have "code \<in> {EXIT_AGENT_UNREACHABLE, EXIT_AGENT_LOCKED, EXIT_PROVIDER_ERROR}" using Refused(2,3) assms(3) by auto
    ultimately show ?thesis using Refused(1) unfolding reported_def by simp
  next
    case (Ran st st' s1 profile remote w2 c)
    have "sent_or_fetched remote w w2" using f(2) Ran(6) unfolding moves_def by (metis sent_or_fetched_session(1))
    then have "sent_or_fetched remote w w'" by (simp add: Ran(8) split: option.split)
    then show ?thesis using assms(6,7) by (auto simp: sent_or_fetched_def)
  qed
qed


section \<open>Listings after an upload\<close>

fun upload_dest :: "command \<Rightarrow> string option option" where
  "upload_dest (Upload _ _ dest) = Some dest"
| "upload_dest (SaveAll _ _ dest) = Some dest"
| "upload_dest (SaveAllRecursive _ _ dest) = Some dest"
| "upload_dest _ = None"

lemma upload_runs:
  assumes "upload_dest cmd = Some dest"
  obtains f where "dispatch_command X cmd = with_remote_invalidating X (Some dest) f" "moves f"
  using assms that by (cases cmd) (auto simp: fun_eq_iff intro: moves_upload)

fun arrives :: "fate \<Rightarrow> bool" where
  "arrives (LostBefore e) = False" | "arrives _ = True"

lemma invalidate_request:
  assumes "ss_agent (fst (client_request E (InvalidateRemote dest) s)) = Some st"
  shows "\<exists>st0. ss_agent s = Some st0
    \<and> ag_cache st = (if arrives (se_fate E) then invalidate_prefix_to_root (ag_cache st0) dest else ag_cache st0)"
  using assms
  by (auto simp: client_request_def served_def invalidate_remote_prefix_def touch_def Let_def split: option.splits fate.splits)

text \<open>Nobody else talks to the agent meanwhile, and no token was renewed.\<close>

definition undisturbed :: "dispatch_env \<Rightarrow> bool" where
  "undisturbed X \<longleftrightarrow> (\<forall>a. de_meanwhile X a = a) \<and> (\<forall>r. pending_provider_update (de_client X r) = None)"

lemma after_success:
  assumes "ss_agent (after_transfer X (Some dest) profile remote EXIT_OK s) = Some st"
  shows "\<exists>c. ag_cache st = (if arrives (se_fate (de_session X 2)) then invalidate_prefix_to_root c dest else c)
    \<and> (undisturbed X \<longrightarrow> (\<exists>st0. ss_agent s = Some st0 \<and> ag_cache st0 = c))"
  using assms
  by (auto simp: after_transfer_def push_invalidate_def push_update_def undisturbed_def dest!: invalidate_request)

text \<open>
  The keys of the cache that an upload to \<open>dest\<close> is about: the root, and the destination and
  the directories above it, spelled without empty parts and without slashes at the ends.
\<close>

definition covered :: "string option \<Rightarrow> string option \<Rightarrow> bool" where
  "covered dest key \<longleftrightarrow> key = None
     \<or> (\<exists>us vs. us \<noteq> [] \<and> path_segments (case dest of Some d \<Rightarrow> d | None \<Rightarrow> []) = us @ vs \<and> key = Some (join ''/'' us))"

lemma covered_walk: "covered dest key \<longleftrightarrow> key \<in> set (walk_to_root dest)"
proof (cases dest)
  case None
  then show ?thesis by (simp add: covered_def walk_to_root_def path_segments_def trim_matches_id)
qed (auto simp: covered_def walk_to_root_members)

lemma slashes_uncovered:
  assumes "q = [] \<or> hd q = CHR ''/'' \<or> last q = CHR ''/''"
  shows "\<not> covered dest (Some q)"
proof
  assume "covered dest (Some q)"
  then obtain us vs where u: "us \<noteq> []" "path_segments (case dest of Some d \<Rightarrow> d | None \<Rightarrow> []) = us @ vs" "q = join ''/'' us"
    by (auto simp: covered_def)
  then have "\<forall>w \<in> set us. path_segment w" using path_segments_ok by (metis Un_iff set_append)
  from join_ends [OF u(1) this] assms u(3) show False by auto
qed

text \<open>
  C31. What the agent's cache still answers after an upload command that succeeds. If the
  last request reaches the agent, then, whatever happened meanwhile, the agent has no
  listing under the name of the destination, of a directory above it or of the root,
  whatever the kind filter; if the request is lost, nothing is dropped. If nobody else
  talks to the agent meanwhile and no token is renewed, every other listing is answered as
  before the command. In particular this is no promise that no stale listing is left: one
  that was cached for the same directory under a spelling with a slash at one end, or under
  the empty prefix, stays.
\<close>
theorem upload_refreshes_listing:
  assumes "dispatch_command X cmd w = (w', Some EXIT_OK)" "upload_dest cmd = Some dest"
    and "ss_agent (dw_session w') = Some st"
  shows "(arrives (se_fate (de_session X 2)) \<longrightarrow>
           (\<forall>key now k. covered dest key \<longrightarrow> snd (lc_get (ag_cache st) now key k) = None))
    \<and> (undisturbed X \<longrightarrow> (\<exists>st0. ss_agent (dw_session w) = Some st0
         \<and> (\<forall>key now k. \<not> (arrives (se_fate (de_session X 2)) \<and> covered dest key) \<longrightarrow>
              snd (lc_get (ag_cache st) now key k) = snd (lc_get (ag_cache st0) now key k))))
    \<and> (\<forall>q. q = [] \<or> hd q = CHR ''/'' \<or> last q = CHR ''/'' \<longrightarrow> \<not> covered dest (Some q))"
proof -
  obtain f where f: "dispatch_command X cmd = with_remote_invalidating X (Some dest) f" "moves f" using upload_runs [OF assms(2)] .
  have "with_remote_invalidating X (Some dest) f w = (w', Some EXIT_OK)" using assms(1) by (simp add: f)
  then obtain c st0 where c: "ag_cache st = (if arrives (se_fate (de_session X 2)) then invalidate_prefix_to_root c dest else c)"
    "ss_agent (dw_session w) = Some st0" "undisturbed X \<longrightarrow> ag_cache st0 = c"
  proof (cases rule: with_remote_cases)
    case (Refused s c)
    then show ?thesis by (simp add: exit_defs)
  next
    case (Ran st1 st' s1 profile remote w2 c)
    have "dw_session w' = after_transfer X (Some dest) profile remote EXIT_OK (dw_session w2)"
      using Ran(8) unfolding Ran(7) [symmetric] by simp
    with after_success assms(3) obtain c where
      c: "ag_cache st = (if arrives (se_fate (de_session X 2)) then invalidate_prefix_to_root c dest else c)"
      "undisturbed X \<longrightarrow> (\<exists>st0. ss_agent (dw_session w2) = Some st0 \<and> ag_cache st0 = c)" by metis
    have "ss_agent (dw_session w2) = Some st'" using f(2) Ran(4,6) unfolding moves_def by fastforce
    with c Ran(1,5) that show ?thesis by auto
  qed
  have inv: "snd (lc_get (invalidate_prefix_to_root c dest) now key k)
      = (if covered dest key then None else snd (lc_get c now key k))" for key now k
    by (auto simp: covered_walk lc_get_def Let_def split: option.split)
  show ?thesis using c inv slashes_uncovered by auto
qed

text \<open>
  Directories below the destination are not reached: after a recursive save, a listing of
  a subdirectory that received files is still answered from the cache.
\<close>

lemma deeper_listing_stays:
  assumes "pending_provider_update (de_client X remote) = None" "de_meanwhile X (ss_agent s) = Some st0"
    and "se_fate (de_session X 2) = Delivered" "Some sub \<notin> set (walk_to_root dest)"
  shows "\<exists>st. ss_agent (after_transfer X (Some dest) profile remote EXIT_OK s) = Some st
    \<and> snd (lc_get (ag_cache st) now (Some sub) k) = snd (lc_get (ag_cache st0) now (Some sub) k)"
proof -
  let ?s = "s\<lparr>ss_agent := Some st0\<rparr>"
  have a: "after_transfer X (Some dest) profile remote EXIT_OK s = fst (client_request (de_session X 2) (InvalidateRemote dest) ?s)"
    using assms(1,2) by (simp add: after_transfer_def push_update_def push_invalidate_def)
  obtain st where st: "ss_agent (fst (client_request (de_session X 2) (InvalidateRemote dest) ?s)) = Some st"
    using assms(3) by (simp add: client_request_def served_def Let_def)
  from invalidate_request [OF st] assms(3) have "ag_cache st = invalidate_prefix_to_root (ag_cache st0) dest" by simp
  then show ?thesis using st assms(4) by (auto simp: a lc_get_def Let_def split: option.split)
qed

section \<open>Answers fit their requests\<close>

fun fits :: "agent_request \<Rightarrow> agent_response \<Rightarrow> bool" where
  "fits Ping r = (r = Pong)"
| "fits (Unlock _ _ _ _) r = (r \<in> {Unlocked, Error AliasNotFound})"
| "fits GetProfile r = (r = Error NotUnlocked \<or> (\<exists>p. r = ProfileIs p))"
| "fits (UpdateProfile _) r = (r \<in> {Updated, Error NotUnlocked, Error AliasNotFound} \<or> (\<exists>m. r = Error (AgentIo m)))"
| "fits (UpdateProfileSet _) r = (r \<in> {Updated, Error NotUnlocked, Error AliasNotFound} \<or> (\<exists>m. r = Error (AgentIo m)))"
| "fits (SetActiveAlias _) r = (r \<in> {Updated, Error NotUnlocked, Error AliasNotFound})"
| "fits Lock r = (r = Locked)"
| "fits Exit r = (r = Exited)"
| "fits Status r = (\<exists>u t. r = StatusIs u t)"
| "fits (ListRemote _ k n) r =
     (r = Error NotUnlocked \<or> (\<exists>m. r = Error (AgentIo m)) \<or> (\<exists>es t cut. r = RemoteList es t cut))"
| "fits (InvalidateRemote _) r = (r = Updated)"

lemma update_response_fits:
  "update_response r \<in> {Updated, Error NotUnlocked, Error AliasNotFound} \<or> (\<exists>m. update_response r = Error (AgentIo m))"
  by (auto simp: update_response_def split: sum.split update_error.split)

lemma alias_response_fits: "alias_response r \<in> {Updated, Error NotUnlocked, Error AliasNotFound}"
  by (auto simp: alias_response_def split: sum.split update_error.split)

lemma list_response_fits:
  "list_response r = Error NotUnlocked \<or> (\<exists>m. list_response r = Error (AgentIo m)) \<or> (\<exists>es t cut. list_response r = RemoteList es t cut)"
  by (auto simp: list_response_def split: sum.split list_error.split)

text \<open>
  C32. Every answer of the agent has the type of its request: whatever state the agent is
  in, a client gets the one success answer of what it asked for or one of the errors that
  this request can have.
\<close>
theorem responses_fit:
  assumes "client_request E req s = (s', Inr resp)"
  shows "fits req resp"
proof -
  have "fits req (snd (dispatch D req st))" for D st
    using update_response_fits alias_response_fits list_response_fits
    by (cases req) (auto split: prod.split option.split)
  then show ?thesis using assms
    by (auto simp: client_request_def served_def Let_def split: fate.splits option.splits prod.splits) (metis snd_conv)+
qed


section \<open>The health check\<close>

lemma if_succ: "(if c then (n :: nat) + 1 else n) = n + (if c then 1 else 0)"
  by simp

lemma format_unix_secs_civil:
  "format_unix_secs secs =
     (case civil_from_days (unat secs div 86400) of (y, m, d) \<Rightarrow>
        pad 4 y @ ''-'' @ pad 2 m @ ''-'' @ pad 2 d @ ''T'' @ pad 2 ((unat secs div 3600) mod 24) @ '':''
           @ pad 2 ((unat secs div 60) mod 60) @ '':'' @ pad 2 (unat secs mod 60) @ ''Z'')"
  unfolding format_unix_secs_def civil_from_days_def by (simp only: Let_def prod.case if_succ)

lemma time_of_day:
  "(a mod 86400) div 3600 = (a div 3600) mod (24 :: nat)"
  "(a mod 86400) div 60 mod 60 = (a div 60) mod (60 :: nat)"
  "a mod 86400 mod 60 = a mod (60 :: nat)"
proof -
  have "a mod (3600 * 24) = 3600 * (a div 3600 mod 24) + a mod 3600" by (rule mod_mult2_eq)
  then show "(a mod 86400) div 3600 = (a div 3600) mod 24" by simp
  have "a mod (60 * 1440) = 60 * (a div 60 mod 1440) + a mod 60" by (rule mod_mult2_eq)
  then have "(a mod 86400) div 60 = a div 60 mod 1440" by simp
  then show "(a mod 86400) div 60 mod 60 = (a div 60) mod 60" by (simp add: mod_mod_cancel)
  show "a mod 86400 mod 60 = a mod 60" by (simp add: mod_mod_cancel)
qed

text \<open>The report has its own copy of the rendering: up to a billion years it is the same.\<close>

lemma format_unix_secs_rfc3339:
  assumes "secs < 2 ^ 55"
  shows "format_unix_secs secs = rfc3339_from_unix secs"
proof -
  obtain y m d where c: "civil_from_days (unat secs div 86400) = (y, m, d)" by (cases "civil_from_days (unat secs div 86400)")
  note v = civil_correct [OF c]
  have "365 * y \<le> days_to_year y" by (induction y) (simp_all add: days_to_year_def)
  moreover have "days_to_year y \<le> unat secs div 86400 + 719528" using v by (simp add: day_number_def)
  moreover have "unat secs < 2 ^ 55" using assms by (simp add: word_less_nat_alt)
  ultimately have "y < 2 ^ 31" by simp
  then have "sint (of_nat y :: i32) = int y" by (simp add: signed_of_nat signed_take_bit_int_eq_self)
  then show ?thesis
    unfolding format_unix_secs_civil rfc3339_from_unix_def civil_from_unix_def Let_def c prod.case time_of_day pad_int_def
    by simp
qed


text \<open>Two worlds with the same files and socket and an agent that holds the same.\<close>

definition untouched :: "session \<Rightarrow> session \<Rightarrow> bool" where
  "untouched s s' \<longleftrightarrow> ss_disk s' = ss_disk s \<and> ss_socket s' = ss_socket s \<and> ss_killed s' = ss_killed s
     \<and> (case ss_agent s of None \<Rightarrow> ss_agent s' = None
        | Some st \<Rightarrow> \<exists>st'. ss_agent s' = Some st' \<and> in_profile_set (ag_inner st') = in_profile_set (ag_inner st)
             \<and> in_active_alias (ag_inner st') = in_active_alias (ag_inner st))"

lemma untouched_refl [simp]: "untouched s s"
  by (simp add: untouched_def split: option.split)

lemma untouched_trans: "untouched s t \<Longrightarrow> untouched t u \<Longrightarrow> untouched s u"
  by (auto simp: untouched_def split: option.splits)

lemma untouched_announce [simp]: "untouched s (announce E f t) = untouched s t"
  by (simp add: untouched_def split: option.split)

lemma untouched_lines [simp]:
  "untouched s (print_line E l t) = untouched s t" "untouched s (emit_check E n b d t) = untouched s t"
  "untouched s (print_lines E ls t) = untouched s t"
  by (simp_all add: print_line_def emit_check_def print_lines_def)
    (induction ls arbitrary: t; simp add: print_line_def)

lemma untouched_requests:
  "client_request E Status t = (t', r) \<Longrightarrow> untouched t t'"
  "client_request E GetProfile t = (t', r) \<Longrightarrow> untouched t t'"
proof -
  show "client_request E Status t = (t', r) \<Longrightarrow> untouched t t'"
    using client_request_harmless [of Status t E] by (auto simp: unharmed_def untouched_def)
  show "client_request E GetProfile t = (t', r) \<Longrightarrow> untouched t t'"
    using served_get_profile [of E t t' r] by (auto simp: untouched_def split: option.splits)
qed

lemma untouched_status:
  assumes "status_report E t = (t', u)"
  shows "untouched t t'"
proof -
  obtain t1 r where a: "client_request (E 0) Status t = (t1, r)" by fastforce
  note q1 = untouched_requests(1) [OF a]
  have second: "untouched t t3" if "client_request (E 1) GetProfile (print_line (E 0) l t1) = (t3, r3)" for l t3 r3
    using untouched_trans [of t "print_line (E 0) l t1" t3] untouched_requests(2) [OF that] q1 by simp
  show ?thesis using assms a q1 second
    by (auto simp: status_report_def Let_def split: sum.splits agent_response.splits if_splits prod.splits)
qed

lemma untouched_probe:
  assumes "probe_unlocked E p t = (t', u, fs)"
  shows "untouched t t'"
  using assms untouched_requests(1) [of E t]
  by (auto simp: probe_unlocked_def split: if_splits sum.splits prod.splits agent_response.splits)

text \<open>
  The health check keeps its promise not to change anything: whatever it finds, it
  ends with success (or, without a home directory, with a usage error), the files, the
  socket and every process are as before, and the agent holds the same container and
  profile.
\<close>
theorem doctor_changes_nothing:
  assumes "run_doctor E D found s = (s', code)"
  shows "code = (case found of Inl _ \<Rightarrow> EXIT_USAGE | Inr _ \<Rightarrow> EXIT_OK)
    \<and> ss_disk s' = ss_disk s \<and> ss_socket s' = ss_socket s \<and> ss_killed s' = ss_killed s
    \<and> (case ss_agent s of None \<Rightarrow> ss_agent s' = None
       | Some st \<Rightarrow> \<exists>st'. ss_agent s' = Some st' \<and> in_profile_set (ag_inner st') = in_profile_set (ag_inner st)
            \<and> in_active_alias (ag_inner st') = in_active_alias (ag_inner st))"
proof -
  have agent: "untouched s t'" if a: "section_agent E p t = (t', u)" and t: "untouched s t" for p t t' u
  proof -
    have "untouched s t2" if "status_report E t1 = (t2, u2)" "untouched s t1" for t1 t2 u2
      using untouched_trans [OF that(2) untouched_status [OF that(1)]] .
    with a t show ?thesis by (auto simp: section_agent_def Let_def split: if_splits sum.splits)
  qed
  have containers: "untouched s (section_containers E0 D p t) = untouched s t" for E0 p t
    by (simp add: section_containers_def report_container_def)
  have in_text: "untouched s t' \<and> c = EXIT_OK" if "doctor_text E D p s = (t', c)" for p t' c
    using that agent
    by (auto simp: doctor_text_def Let_def containers section_paths_def section_build_def section_sacs_def split: prod.splits)
  have in_json: "untouched s t' \<and> c = EXIT_OK" if j: "doctor_scriptable E0 D p s = (t', c)" for E0 p t' c
  proof -
    obtain t4 u fs where pr: "probe_unlocked E0 p (emit_check E0 ''agent_socket'' (ss_socket s) None
        (emit_check E0 ''container_remote'' (file_exists s (p_profiles_remote_file p)) None
          (emit_check E0 ''container_local'' (file_exists s (p_profiles_local_file p)) None s))) = (t4, u, fs)"
      by (metis prod_cases3)
    have "untouched s t4" using untouched_trans [OF _ untouched_probe [OF pr], of s] by simp
    then show ?thesis using j pr by (auto simp: doctor_scriptable_def Let_def split: option.splits)
  qed
  have "untouched s s' \<and> code = (case found of Inl _ \<Rightarrow> EXIT_USAGE | Inr _ \<Rightarrow> EXIT_OK)"
    using assms in_text in_json by (auto simp: run_doctor_def fail_with_def split: sum.splits if_splits)
  then show ?thesis unfolding untouched_def by auto
qed

text \<open>Reading the name of the profile is a use of the session: its time to live starts again.\<close>

lemma doctor_renews_ttl:
  assumes "ss_agent s = Some st" "in_unlocked_at (ag_inner st) = Some t" "se_fate E = Delivered"
    and "client_request E GetProfile s = (s', r)"
  shows "\<exists>st'. ss_agent s' = Some st' \<and> in_unlocked_at (ag_inner st') = Some (ae_now (se_agent_env E 1))"
  using assms
  by (auto simp: client_request_def served_def get_active_profile_renewing_ttl_def touch_def Let_def split: option.splits)

section \<open>The runtime directory\<close>

text \<open>
  A directory that exists and belongs to the user, or is made, passes the check of the
  client once its mode could be set; a symbolic link never does.
\<close>

lemma ensured_is_private:
  assumes "ensure_dir uid 0x1C0 fate lstat = (Inr m, Inr ())" "dm_is_dir m" "dm_uid m = uid"
  shows "verify_private_dir (Inr m) path uid = Inr ()"
proof -
  have bits: "and (or (and x 0x4000) 0x1C0) 63 = (0 :: u32)" for x
    by (rule bit_word_eqI) (auto simp: bit_and_iff bit_or_iff bit_numeral_rec less_Suc_eq numeral_eq_Suc)
  obtain x where "dm_mode m = or (and x 0x4000) 0x1C0"
    using assms(1,2) by (auto simp: ensure_dir_def S_IFDIR_def Let_def split: option.splits if_splits)
  then show ?thesis using assms(2,3) bits by (simp add: verify_private_dir_def)
qed


section \<open>Concrete commands\<close>

definition ex_dispatch :: dispatch_env where
  "ex_dispatch =
     \<lparr>de_lookup = (\<lambda>v. if v = ''ZZ_CONFIG_DIR'' then Some ''/z'' else None), de_env = (\<lambda>v. None), de_exe = None,
      de_base = Some \<lparr>bd_config = ''/c'', bd_cache = ''/k'', bd_runtime = None\<rparr>,
      de_config_fate = \<lparr>df_create = None, df_chmod = None\<rparr>, de_runtime_fate = \<lparr>df_create = None, df_chmod = None\<rparr>,
      de_config_lstat = Inl [], de_session = (\<lambda>n. ex_session_env True), de_upload = (\<lambda>r. example_env),
      de_download = undefined, de_tree = undefined, de_client = (\<lambda>r. (r, False)), de_meanwhile = (\<lambda>a. a),
      de_current_dir = None, de_fuel = 0,
      de_doctor = \<lparr>dc_stat = (\<lambda>q. Inr None), dc_remote_feature = False, dc_exe = None\<rparr>, de_tui = undefined\<rparr>"

definition ex_world :: "agent option \<Rightarrow> dispatch_world" where
  "ex_world a = \<lparr>dw_session = (ex_session [''/z/runtime/token'' \<mapsto> ex_file (replicate 32 CHR ''k'')])\<lparr>ss_socket := True, ss_agent := a\<rparr>,
     dw_files = Map.empty, dw_dirs = [], dw_sent = [], dw_fetched = [], dw_events = []\<rparr>"

lemma ex_discovered: "\<exists>p. discovered ex_dispatch = Inr p \<and> p_token_file p = ''/z/runtime/token'' \<and> lock_path (p_runtime_dir p) = ''/z/runtime/agent.lock''"
  by (simp add: discovered_def ex_dispatch_def config_discover_def config_root_from_env_def discover_paths_def in_test_binary_def
      running_under_cargo_test_def or_app_dir_def path_join_def path_name_defs ends_with_def lock_path_def LOCK_FILE_NAME_def Let_def)

lemmas dispatch_eval = ex_world_def ex_session_def ex_session_env_def ex_file_def check_for_stale_agent_def file_exists_def
  client_connect_def verify_private_dir_def check_peer_uid_def read_token_file_def TOKEN_LEN_def

lemma ex_token: "ex_file (replicate 32 CHR ''k'') = \<lparr>f_data = replicate 32 CHR ''k'', f_mode = MODE_0600, f_mtime = 0\<rparr>"
  by (simp add: ex_file_def)

lemma ex_connects:
  assumes "discovered ex_dispatch = Inr p" "p_token_file p = ''/z/runtime/token''" "lock_path (p_runtime_dir p) = ''/z/runtime/agent.lock''"
  shows "check_for_stale_agent (ex_session_env True) p (dw_session (ex_world (Some a))) = (dw_session (ex_world (Some a)), NoLock)"
    "client_connect (ex_session_env True) p (dw_session (ex_world (Some a))) = Inr ()"
  using assms by (simp_all add: dispatch_eval)

lemma ex_asked:
  assumes "discovered ex_dispatch = Inr p" "p_token_file p = ''/z/runtime/token''" "lock_path (p_runtime_dir p) = ''/z/runtime/agent.lock''"
  shows "\<exists>s. ask_profile (ex_session_env True) p (dw_session (ex_world (Some (ex_unlocked\<lparr>ag_cache := cc\<rparr>)))) = (s, Inr (ex_profile ''nc'' ex_nextcloud))
    \<and> (\<exists>st. ss_agent s = Some st)"
proof -
  have f: "se_fate (ex_session_env True) = Delivered" "ss_socket (dw_session (ex_world (Some (ex_unlocked\<lparr>ag_cache := cc\<rparr>))))"
    "ss_agent (dw_session (ex_world (Some (ex_unlocked\<lparr>ag_cache := cc\<rparr>)))) = Some (ex_unlocked\<lparr>ag_cache := cc\<rparr>)"
    by (simp_all add: ex_session_env_def ex_world_def)
  obtain s r where rq: "client_request (ex_session_env True) GetProfile (dw_session (ex_world (Some (ex_unlocked\<lparr>ag_cache := cc\<rparr>)))) = (s, r)" by fastforce
  have a: "active_profile (ex_unlocked\<lparr>ag_cache := cc\<rparr>) = Some (ex_profile ''nc'' ex_nextcloud)"
    by (simp add: ex_unlocked_eq unlock_def active_profile_def find_by_alias_def ex_set_def ex_profile_def)
  have "r = Inr (ProfileIs (ex_profile ''nc'' ex_nextcloud)) \<and> (\<exists>st. ss_agent s = Some st)"
    using served_get_profile [OF rq] f a rq by (auto simp: client_request_def served_def Let_def split: prod.splits)
  then show ?thesis using rq f(2) by (auto simp: ask_profile_def ex_connects [OF assms])
qed

lemma ex_dispatched:
  "\<exists>w'. dispatch_command ex_dispatch (Upload [] False (Some ''docs'')) (ex_world (Some (ex_unlocked\<lparr>ag_cache := cc\<rparr>))) = (w', Some EXIT_OK)
     \<and> (\<exists>st. ss_agent (dw_session w') = Some st) \<and> dw_sent w' \<noteq> []"
proof -
  obtain p where p: "discovered ex_dispatch = Inr p" "p_token_file p = ''/z/runtime/token''"
    "lock_path (p_runtime_dir p) = ''/z/runtime/agent.lock''" using ex_discovered by blast
  obtain s st where s: "ask_profile (ex_session_env True) p (dw_session (ex_world (Some (ex_unlocked\<lparr>ag_cache := cc\<rparr>))))
      = (s, Inr (ex_profile ''nc'' ex_nextcloud))" "ss_agent s = Some st" using ex_asked [OF p] by blast
  have e: "de_session ex_dispatch n = ex_session_env True" "de_upload ex_dispatch r = example_env"
    "de_client ex_dispatch r = (r, False)" "de_meanwhile ex_dispatch a = a" for n r a by (simp_all add: ex_dispatch_def)
  have b: "\<exists>r. build_remote (se_agent_env (ex_session_env True) 0) (ex_profile ''nc'' ex_nextcloud) = Inr (AnyNextcloud r)"
    by (simp add: build_remote_def opened_remote_def ex_profile_def ex_nextcloud_def ex_session_env_def ex_agent_env_def)
  then obtain r where r: "build_remote (se_agent_env (ex_session_env True) 0) (ex_profile ''nc'' ex_nextcloud) = Inr (AnyNextcloud r)" ..
  have "\<exists>u'. run_upload example_env [] pr c d u = (u', EXIT_OK)" for pr c d u
    by (simp add: run_upload_def emit_and_exit_code_def exit_code_def bs_default_def Let_def)
  then obtain u where u: "run_upload example_env [] (ex_profile ''nc'' ex_nextcloud) False (Some ''docs'')
      \<lparr>uw_files = dw_files (ex_world (Some (ex_unlocked\<lparr>ag_cache := cc\<rparr>))), uw_console = ss_console s, uw_sum = bs_default, uw_tick = 0, uw_calls = []\<rparr>
      = (u, EXIT_OK)" by blast
  have fate: "se_fate (ex_session_env True) = Delivered" by (simp add: ex_session_env_def)
  show ?thesis using p(1) s r u
    by (simp add: with_remote_invalidating_def e as_upload_def after_transfer_def push_update_def push_invalidate_def
        client_request_def served_def Let_def fate)
qed

lemma ex_unlocked_cache: "ex_unlocked\<lparr>ag_cache := ag_cache ex_unlocked\<rparr> = ex_unlocked"
  by simp

lemmas ex_dispatched_plain = ex_dispatched [of "ag_cache ex_unlocked", unfolded ex_unlocked_cache]

theorem transfer_needs_agent_witness:
  "\<exists>w' remote. dispatch_command ex_dispatch (Upload [] False (Some ''docs'')) (ex_world (Some ex_unlocked)) = (w', Some EXIT_OK)
     \<and> is_unlocked ex_unlocked \<and> (\<exists>calls. dw_sent w' = [(remote, calls)])"
proof -
  obtain w' where w: "dispatch_command ex_dispatch (Upload [] False (Some ''docs'')) (ex_world (Some ex_unlocked)) = (w', Some EXIT_OK)"
    "dw_sent w' \<noteq> []" using ex_dispatched_plain by blast
  have start: "dw_sent (ex_world (Some ex_unlocked)) = []" "ss_agent (dw_session (ex_world (Some ex_unlocked))) = Some ex_unlocked"
    by (simp_all add: ex_world_def)
  have "w' \<noteq> (ex_world (Some ex_unlocked))\<lparr>dw_session := dw_session w'\<rparr>" using w(2) start(1) by (metis dispatch_world.select_convs(4) dispatch_world.surjective dispatch_world.update_convs(1))
  with transfer_needs_agent [OF w(1)] w start show ?thesis by auto
qed

theorem refused_transfer_reported_witness:
  "\<exists>w' code pre t ev. dispatch_command ex_dispatch (Download [''a''] False None) (ex_world None) = (w', Some code)
     \<and> co_out (ss_console (dw_session w')) = pre @ oe_ser (se_out (ex_session_env True) t) (failed_json ev) @ [NL]
     \<and> reason_exit (fe_reason ev) = code"
proof -
  obtain p where p: "discovered ex_dispatch = Inr p" "p_token_file p = ''/z/runtime/token''"
    "lock_path (p_runtime_dir p) = ''/z/runtime/agent.lock''" using ex_discovered by blast
  have e: "de_session ex_dispatch n = ex_session_env True" for n by (simp add: ex_dispatch_def)
  obtain w' code where w: "dispatch_command ex_dispatch (Download [''a''] False None) (ex_world None) = (w', Some code)"
    "dw_sent w' = dw_sent (ex_world None)" "dw_fetched w' = dw_fetched (ex_world None)"
    using p by (simp add: with_remote_def with_remote_invalidating_def e ask_profile_def dispatch_eval on_session_def
        no_agent_unreachable_def scriptable_def fail_with_def Let_def)
  have "\<forall>t. oe_mode (se_out (de_session ex_dispatch 0) t) = JsonMode" "gf_output (se_flags (de_session ex_dispatch 0)) = JsonMode"
    by (simp_all add: e ex_session_env_def)
  from refused_transfer_reported [OF w(1) _ p(1) this w(2,3)] w(1) show ?thesis by (auto simp: e)
qed

text \<open>An agent with the same listing under two spellings: one of them is dropped.\<close>

definition ex_two_spellings :: list_cache where
  "ex_two_spellings = lc_put (lc_put lc_default 0 (Some ''docs'') FilterFile [] False) 0 (Some ''docs/'') FilterFile [] False"

theorem upload_refreshes_listing_witness:
  "\<exists>w' st. dispatch_command ex_dispatch (Upload [] False (Some ''docs'')) (ex_world (Some (ex_unlocked\<lparr>ag_cache := ex_two_spellings\<rparr>)))
       = (w', Some EXIT_OK)
     \<and> snd (lc_get ex_two_spellings 5 (Some ''docs'') FilterFile) \<noteq> None
     \<and> ss_agent (dw_session w') = Some st \<and> snd (lc_get (ag_cache st) 5 (Some ''docs'') FilterFile) = None
     \<and> snd (lc_get (ag_cache st) 5 (Some ''docs/'') FilterFile) \<noteq> None"
proof -
  obtain w' st where w: "dispatch_command ex_dispatch (Upload [] False (Some ''docs'')) (ex_world (Some (ex_unlocked\<lparr>ag_cache := ex_two_spellings\<rparr>)))
      = (w', Some EXIT_OK)" "ss_agent (dw_session w') = Some st" using ex_dispatched by blast
  have hits: "snd (lc_get ex_two_spellings 5 (Some ''docs'') FilterFile) \<noteq> None" "snd (lc_get ex_two_spellings 5 (Some ''docs/'') FilterFile) \<noteq> None"
    by (simp_all add: ex_two_spellings_def lc_get_def lc_put_def lc_default_def DEFAULT_TTL_def duration_since_def make_key_def Let_def)
  have "arrives (se_fate (de_session ex_dispatch 2))" by (simp add: ex_dispatch_def ex_session_env_def)
  moreover have "undisturbed ex_dispatch"
  proof -
    have "pending_provider_update (r, False) = None" for r by (cases r) simp_all
    then show ?thesis by (simp add: undisturbed_def ex_dispatch_def)
  qed
  moreover have "path_segments ''docs'' = [''docs'']" by (simp add: path_segments_def trim_matches_id)
  then have "covered (Some ''docs'') (Some ''docs'')" unfolding covered_def
    by (intro disjI2 exI [of _ "[''docs'']"] exI [of _ "[]"]) simp
  moreover have "ss_agent (dw_session (ex_world (Some (ex_unlocked\<lparr>ag_cache := ex_two_spellings\<rparr>)))) = Some (ex_unlocked\<lparr>ag_cache := ex_two_spellings\<rparr>)"
    by (simp add: ex_world_def)
  moreover note upload_refreshes_listing [OF w(1) _ w(2), of "Some ''docs''"]
  ultimately have "snd (lc_get (ag_cache st) 5 (Some ''docs'') FilterFile) = None"
    "snd (lc_get (ag_cache st) 5 (Some ''docs/'') FilterFile) = snd (lc_get ex_two_spellings 5 (Some ''docs/'') FilterFile)"
    by auto
  with w hits show ?thesis by auto
qed

theorem responses_fit_witness:
  "\<exists>s' resp. client_request (ex_session_env True) Status (dw_session (ex_world (Some ex_unlocked))) = (s', Inr resp)
     \<and> (\<exists>u t. resp = StatusIs u t)"
proof -
  obtain s' resp where r: "client_request (ex_session_env True) Status (dw_session (ex_world (Some ex_unlocked))) = (s', Inr resp)"
    by (auto simp: client_request_def served_def ex_world_def ex_session_env_def Let_def)
  from responses_fit [OF r] r show ?thesis by simp
qed

theorem doctor_changes_nothing_witness:
  "\<exists>w' s'. dispatch_command ex_dispatch Doctor (ex_world (Some ex_unlocked)) = (w', Some EXIT_OK)
     \<and> dw_session w' = s' \<and> ss_disk s' = ss_disk (dw_session (ex_world (Some ex_unlocked)))"
proof -
  obtain p where p: "discovered ex_dispatch = Inr p" using ex_discovered by blast
  obtain s' code where r: "run_doctor (de_session ex_dispatch) (de_doctor ex_dispatch) (discovered ex_dispatch)
      (dw_session (ex_world (Some ex_unlocked))) = (s', code)" by fastforce
  from doctor_changes_nothing [OF r] p have "code = EXIT_OK" "ss_disk s' = ss_disk (dw_session (ex_world (Some ex_unlocked)))" by auto
  with r show ?thesis by (simp add: on_session_def)
qed

end
