(* ===== verification/Program.thy ===== *)
theory Program
  imports Dispatch_Props Sacs_Tools
begin

text \<open>
  The program \<open>zz\<close> as a whole (src/main.rs): the tooling subcommands first, then the
  global flags, then the grammar, then the dispatcher; and the exit code as the byte that
  the operating system gets. The agent's own process is in another theory. Hardening the
  process and the diagnostic log are left out.
\<close>

section \<open>Error texts (runtime.rs, parser.rs)\<close>

abbreviation back_tick :: string where "back_tick \<equiv> [CHR 0x60]"

fun flag_error_text :: "flag_error \<Rightarrow> string" where
  "flag_error_text QuietJsonConflict = ''--quiet and --json cannot be combined''"
| "flag_error_text (MissingValue flag) = flag @ '' requires a value''"
| "flag_error_text (EmptyValue flag) = flag @ '' value cannot be empty''"
| "flag_error_text ContainerConflict = ''--local and --remote are mutually exclusive (also conflicts with ZZ_CONTAINER)''"
| "flag_error_text (UnknownFlag token) =
     ''unknown global flag '' @ back_tick @ token @ back_tick @ '' (use '' @ back_tick @ ''--'' @ back_tick @ '' to terminate flag parsing)''"
| "flag_error_text (BadEnvValue var val) =
     var @ ''='' @ back_tick @ val @ back_tick @ '' not recognised (expected one of the documented values)''"

fun parse_error_text :: "parse_error \<Rightarrow> string" where
  "parse_error_text NoArgs = ''no arguments; run '' @ back_tick @ ''zz <file>'' @ back_tick @ '' to upload, or '' @ back_tick
     @ ''zz f'' @ back_tick @ '' for diagnostics''"
| "parse_error_text (MissingArgument command) = back_tick @ command @ back_tick @ '' requires at least one argument''"
| "parse_error_text (UnexpectedArgument command) = back_tick @ command @ back_tick @ '' takes no arguments''"
| "parse_error_text (UnknownModifier command modifier) =
     back_tick @ command @ back_tick @ '': unknown modifier '' @ back_tick @ [modifier] @ back_tick @ '' (valid for v1: a, r, x)''"
| "parse_error_text (EncryptNotInV1 command) =
     back_tick @ command @ back_tick @ '': encryption ('' @ back_tick @ ''e'' @ back_tick @ '') is coming in v1.1; v1 supports ''
       @ back_tick @ ''a'' @ back_tick @ '', '' @ back_tick @ ''r'' @ back_tick @ '', '' @ back_tick @ ''x'' @ back_tick"
| "parse_error_text (DuplicateModifier command modifier) =
     back_tick @ command @ back_tick @ '': modifier '' @ back_tick @ [modifier] @ back_tick @ '' repeated (set semantics ''
       @ em_dash @ '' at most once)''"

section \<open>The program (main.rs)\<close>

record program_world =
  pw_world :: dispatch_world
  pw_links :: "string \<Rightarrow> string option"

definition as_tool_world :: "program_world \<Rightarrow> tool_world" where
  "as_tool_world w = \<lparr>tw_session = dw_session (pw_world w), tw_links = pw_links w\<rparr>"

definition exit_byte :: "int \<Rightarrow> int" where
  "exit_byte code = (if 0 \<le> code \<and> code < 256 then code else 255)"

definition usage_line :: "string \<Rightarrow> program_world \<Rightarrow> program_world \<times> int option" where
  "usage_line l w =
     (w\<lparr>pw_world := (pw_world w)\<lparr>dw_session := (dw_session (pw_world w))\<lparr>ss_console := err_line l (ss_console (dw_session (pw_world w)))\<rparr>\<rparr>\<rparr>,
      Some (exit_byte EXIT_USAGE))"

text \<open>
  \<open>X f\<close> is the environment of the dispatcher under the flags \<open>f\<close>. Without a code the
  command does not return, or the parser panics.
\<close>

definition run_main :: "tools_env \<Rightarrow> (global_flags \<Rightarrow> dispatch_env) \<Rightarrow> string list \<Rightarrow> program_world \<Rightarrow> program_world \<times> int option" where
  "run_main T X args w =
     (case intercept T args (as_tool_world w) of
        Some (tw, code) \<Rightarrow>
          (w\<lparr>pw_world := (pw_world w)\<lparr>dw_session := tw_session tw\<rparr>, pw_links := tw_links tw\<rparr>, Some (exit_byte code))
      | None \<Rightarrow>
          (case parse_global (te_env T) args of
             Inl e \<Rightarrow> usage_line (flag_error_text e) w
           | Inr (flags, residual) \<Rightarrow>
               (case parse_args residual of
                  None \<Rightarrow> (w, None)
                | Some (Inl e) \<Rightarrow> usage_line (parse_error_text e) w
                | Some (Inr cmd) \<Rightarrow>
                    (let (d, code) = dispatch_command (X flags) cmd (pw_world w)
                     in (w\<lparr>pw_world := d\<rparr>, map_option exit_byte code)))))"

section \<open>What the program does\<close>

definition intercepted_words :: "string list" where
  "intercepted_words = [''--help'', ''-h'', ''--version'', ''-V'', ''--completions'', ''--setup-completions'', ''--check-completions'', ''__complete'']"

lemma not_intercepted: "args = [] \<or> hd args \<notin> set intercepted_words \<Longrightarrow> intercept T args w = None"
  by (cases args) (auto simp: intercept_def intercepted_words_def)

lemma flags_not_intercepted: "hd (render_flags f @ ''--'' # ws) \<notin> set intercepted_words"
  by (simp add: render_flags_def intercepted_words_def hd_append split: output_mode.split option.split container_source.split)

text \<open>
  C29. What the user says is what the program does: for every command the grammar can
  express and every combination of global flags, the words that writing both out gives
  make the program run exactly this command under exactly these flags, and the exit code
  that the system sees is the one of the command. This is for an environment that sets
  none of the four variables that override flags.
\<close>
theorem main_runs_command:
  assumes "flags_ok f" "sayable c" "\<forall>v \<in> {''ZZ_OUTPUT'', ''ZZ_PASSPHRASE_FILE'', ''ZZ_ALIAS'', ''ZZ_CONTAINER''}. te_env T v = None"
    and "dispatch_command (X f) c (pw_world w) = (d, code)"
  shows "run_main T X (render_flags f @ ''--'' # unparse c) w = (w\<lparr>pw_world := d\<rparr>, map_option exit_byte code)"
proof -
  let ?args = "render_flags f @ ''--'' # unparse c"
  have "merge_env f o1 o2 o3 o4 (te_env T) = Inr f" for o1 o2 o3 o4 using assms(3) by (simp add: merge_env_def)
  then have "parse_global (te_env T) ?args = Inr (f, unparse c)"
    by (simp add: parse_global_def extract_flags_def extract_render [OF assms(1)])
  moreover have "intercept T ?args (as_tool_world w) = None" using not_intercepted flags_not_intercepted by blast
  ultimately show ?thesis by (simp add: run_main_def parse_unparse [OF assms(2)] assms(4))
qed

theorem main_runs_command_witness:
  "\<exists>T w d. run_main T (\<lambda>f. ex_dispatch) [''--json'', ''--'', ''s'', ''a'', ''docs/''] w = (w\<lparr>pw_world := d\<rparr>, Some 10)"
proof -
  have T: "\<forall>v \<in> {''ZZ_OUTPUT'', ''ZZ_PASSPHRASE_FILE'', ''ZZ_ALIAS'', ''ZZ_CONTAINER''}. te_env ex_tools v = None" by (simp add: ex_tools_def)
  let ?f = "\<lparr>gf_output = JsonMode, gf_passphrase_file = None, gf_alias = None, gf_container = None, gf_yes = False\<rparr>"
  let ?w = "\<lparr>pw_world = (ex_world None)\<lparr>dw_session := (dw_session (ex_world None))\<lparr>ss_socket := False\<rparr>\<rparr>, pw_links = Map.empty\<rparr>"
  obtain p where p: "discovered ex_dispatch = Inr p" "lock_path (p_runtime_dir p) = ''/z/runtime/agent.lock''"
    using ex_discovered by blast
  obtain d where d: "dispatch_command ex_dispatch (Upload [''a''] False (Some ''docs'')) (pw_world ?w) = (d, Some EXIT_AGENT_LOCKED)"
    using p by (simp add: with_remote_invalidating_def ask_profile_def dispatch_eval on_session_def no_agent_locked_def
        scriptable_def fail_with_def Let_def ex_dispatch_def)
  have "run_main ex_tools (\<lambda>f. ex_dispatch) (render_flags ?f @ ''--'' # unparse (Upload [''a''] False (Some ''docs''))) ?w
      = (?w\<lparr>pw_world := d\<rparr>, map_option exit_byte (Some EXIT_AGENT_LOCKED))"
    by (rule main_runs_command [OF _ _ T d]) (simp_all add: flags_ok_def files_ok_def)
  then have "run_main ex_tools (\<lambda>f. ex_dispatch) [''--json'', ''--'', ''s'', ''a'', ''docs/''] ?w = (?w\<lparr>pw_world := d\<rparr>, Some 10)"
    by (simp add: render_flags_def modifier_letters_def slash_arg_def exit_byte_def exit_defs)
  then show ?thesis by blast
qed

text \<open>What the command line gets wrong changes nothing but the standard error, and always exits with 2.\<close>

lemma usage_errors_harmless:
  assumes "args = [] \<or> hd args \<notin> set intercepted_words"
    and "parse_global (te_env T) args = Inl e \<or> parse_global (te_env T) args = Inr (f, r) \<and> parse_args r = Some (Inl e')"
  shows "\<exists>l. run_main T X args w = usage_line l w \<and> snd (run_main T X args w) = Some 2"
  using assms not_intercepted [OF assms(1), of T "as_tool_world w"]
  by (auto simp: run_main_def usage_line_def exit_byte_def EXIT_USAGE_def)

end
