(* ===== verification/Agent_Loop.thy ===== *)
theory Agent_Loop
  imports Agent_Serve Dispatch
begin

text \<open>
  The life of an agent process (\<open>run\<close> in src/agent/server.rs): the checks before it
  listens, the loop over its turns, and what it removes at the end. An agent that is left
  alone ends, and what it ends with is locked.
\<close>

section \<open>Starting (server.rs)\<close>

datatype server_error = ServerIo string | ServerBind string | ServerSecurity string

text \<open>
  Removing an old socket, binding, switching to non-blocking mode and writing the token
  succeed or give an error text.
\<close>

record server_env =
  sv_runtime_fate :: dir_fate
  sv_cache_fate :: dir_fate
  sv_cache_lstat :: "(string, dir_meta) result"
  sv_unlink :: "string option"
  sv_bind :: "string option"
  sv_nonblocking :: "string option"
  sv_token :: "string option"

definition ok_unless :: "(string \<Rightarrow> server_error) \<Rightarrow> string option \<Rightarrow> (server_error, unit) result" where
  "ok_unless wrap e = (case e of Some m \<Rightarrow> Inl (wrap m) | None \<Rightarrow> Inr ())"

definition server_checks :: "session_env \<Rightarrow> server_env \<Rightarrow> paths \<Rightarrow> bool \<Rightarrow> (server_error, unit) result" where
  "server_checks E V p socket_exists =
     (let (runtime, made) = ensure_dir (se_uid E) 0x1C0 (sv_runtime_fate V) (se_lstat E);
          cached = snd (ensure_dir (se_uid E) 0x1C0 (sv_cache_fate V) (sv_cache_lstat V))
      in rbind (rmap_err (\<lambda>e. ServerIo (path_error_text e)) made) (\<lambda>_.
         rbind (rmap_err (\<lambda>e. ServerSecurity (path_error_text e)) (verify_private_dir runtime (p_runtime_dir p) (se_uid E))) (\<lambda>_.
         rbind (rmap_err (\<lambda>e. ServerIo (path_error_text e)) cached) (\<lambda>_.
         rbind (if socket_exists then ok_unless ServerIo (sv_unlink V) else Inr ()) (\<lambda>_.
         rbind (ok_unless ServerBind (sv_bind V)) (\<lambda>_.
         rbind (ok_unless ServerIo (sv_nonblocking V)) (\<lambda>_.
         ok_unless ServerSecurity (sv_token V))))))))"

definition start_server :: "session_env \<Rightarrow> server_env \<Rightarrow> paths \<Rightarrow> session \<Rightarrow> (server_error, session) result" where
  "start_server E V p s = rbind (server_checks E V p (ss_socket s)) (\<lambda>_. Inr (boot_agent E p s))"

section \<open>The loop (server.rs)\<close>

text \<open>
  At most \<open>n\<close> turns; \<open>None\<close> is a loop that still runs. \<open>E k\<close> and \<open>conns k\<close> are the
  environments and the connection of turn \<open>k\<close>.
\<close>

fun server_loop ::
  "wire \<Rightarrow> nat \<Rightarrow> u32 \<Rightarrow> bytes \<Rightarrow> nat \<Rightarrow> (nat \<Rightarrow> nat \<Rightarrow> agent_env) \<Rightarrow> (nat \<Rightarrow> incoming option) \<Rightarrow> agent \<Rightarrow> agent \<times> exit_reason option" where
  "server_loop W idle_exit euid token 0 E conns st = (st, None)"
| "server_loop W idle_exit euid token (Suc n) E conns st =
     (case server_turn W idle_exit euid token (E 0) (conns 0) st of
        (st', Some reason) \<Rightarrow> (st', Some reason)
      | (st', None) \<Rightarrow> server_loop W idle_exit euid token n (\<lambda>k. E (Suc k)) (\<lambda>k. conns (Suc k)) st')"

text \<open>The end: the socket, the token and the lock file go, and with them the memory.\<close>

definition shut_down :: "session_env \<Rightarrow> paths \<Rightarrow> session \<Rightarrow> session" where
  "shut_down E p s =
     remove_file E (lock_path (p_runtime_dir p)) (remove_file E (p_token_file p) (remove_socket E (p_agent_socket p) s))"

section \<open>An agent that is left alone\<close>

text \<open>
  Turn \<open>m\<close> may be the last of an agent in state \<open>st\<close> that nobody talks to: at its second look
  at the clock the idle limit is over, and what was unlocked was due at the first look of
  this turn or of one before.
\<close>

definition may_end :: "(nat \<Rightarrow> nat \<Rightarrow> agent_env) \<Rightarrow> nat \<Rightarrow> agent \<Rightarrow> nat \<Rightarrow> bool" where
  "may_end E idle st m \<longleftrightarrow> idle < ae_now (E m 1) - in_last_activity (ag_inner st)
     \<and> (is_unlocked st \<longrightarrow> (\<exists>j\<le>m. \<exists>t. in_unlocked_at (ag_inner st) = Some t \<and> in_ttl (ag_inner st) < ae_now (E j 0) - t))"

definition timed :: "agent \<Rightarrow> bool" where
  "timed st \<longleftrightarrow> \<not> ag_exit st \<and> (is_unlocked st \<longrightarrow> in_unlocked_at (ag_inner st) \<noteq> None)"

text \<open>A turn without a connection either locks what is due or changes nothing.\<close>

lemma quiet_turn_cases:
  assumes "server_turn W idle uid token E None st = (st', r)" "timed st"
  obtains (Locks) t where "in_unlocked_at (ag_inner st) = Some t" "in_ttl (ag_inner st) < ae_now (E 0) - t" "\<not> is_unlocked st'"
      "\<not> ag_exit st'" "in_last_activity (ag_inner st') = in_last_activity (ag_inner st)"
      "r = (if idle < ae_now (E 1) - in_last_activity (ag_inner st) then Some IdleExit else None)"
  | (Waits) "st' = st" "\<forall>t. in_unlocked_at (ag_inner st) = Some t \<longrightarrow> \<not> in_ttl (ag_inner st) < ae_now (E 0) - t"
      "r = (if \<not> is_unlocked st \<and> idle < ae_now (E 1) - in_last_activity (ag_inner st) then Some IdleExit else None)"
  using assms
  by (auto simp: server_turn_def check_ttl_and_lock_def drop_completion_caches_def locked_inner_def is_unlocked_def idle_for_def
      timed_def split: option.splits if_splits)

lemma quiet_turn:
  assumes "server_turn W idle uid token (E 0) None st = (st', r)" "timed st"
  shows "r = (if may_end E idle st 0 then Some IdleExit else None) \<and> (may_end E idle st 0 \<longrightarrow> \<not> is_unlocked st')
    \<and> timed st' \<and> (\<forall>m. may_end (\<lambda>k. E (Suc k)) idle st' m = may_end E idle st (Suc m))"
  using assms
proof (cases rule: quiet_turn_cases)
  case (Locks t)
  then show ?thesis by (auto simp: may_end_def timed_def)
next
  case Waits
  then have "(\<exists>j\<le>Suc m. \<exists>t. in_unlocked_at (ag_inner st) = Some t \<and> in_ttl (ag_inner st) < ae_now (E j 0) - t)
      \<longleftrightarrow> (\<exists>j\<le>m. \<exists>t. in_unlocked_at (ag_inner st) = Some t \<and> in_ttl (ag_inner st) < ae_now (E (Suc j) 0) - t)" for m
    by (metis Suc_le_mono not0_implies_Suc)
  with Waits assms(2) show ?thesis by (auto simp: may_end_def)
qed

lemma quiet_run_goes_on:
  "timed st \<Longrightarrow> \<forall>m<n. \<not> may_end E idle st m \<Longrightarrow> snd (server_loop W idle uid token n E (\<lambda>_. None) st) = None"
proof (induction n arbitrary: E st)
  case (Suc n)
  obtain st' r where t: "server_turn W idle uid token (E 0) None st = (st', r)" by fastforce
  from quiet_turn [where E = E, OF t Suc.prems(1)] Suc.prems(2) Suc.IH [of st' "\<lambda>k. E (Suc k)"] t show ?case by auto
qed simp

lemma quiet_run_ends:
  "timed st \<Longrightarrow> may_end E idle st m \<Longrightarrow> \<forall>j<m. \<not> may_end E idle st j \<Longrightarrow>
     \<exists>st'. \<not> is_unlocked st' \<and> (\<forall>n>m. server_loop W idle uid token n E (\<lambda>_. None) st = (st', Some IdleExit))"
proof (induction m arbitrary: E st)
  case 0
  obtain st' r where t: "server_turn W idle uid token (E 0) None st = (st', r)" by fastforce
  from quiet_turn [where E = E, OF t 0(1)] 0(2) have "r = Some IdleExit" "\<not> is_unlocked st'" by auto
  moreover have "server_loop W idle uid token n E (\<lambda>_. None) st = (st', Some IdleExit)" if "0 < n" for n
    using that t \<open>r = Some IdleExit\<close> by (cases n) simp_all
  ultimately show ?case by blast
next
  case (Suc m)
  obtain st' r where t: "server_turn W idle uid token (E 0) None st = (st', r)" by fastforce
  note q = quiet_turn [where E = E, OF t Suc.prems(1)]
  from q Suc.prems(3) have r: "r = None" by auto
  from q Suc.prems Suc.IH [of st' "\<lambda>k. E (Suc k)"] obtain st2 where s: "\<not> is_unlocked st2"
    "\<forall>n>m. server_loop W idle uid token n (\<lambda>k. E (Suc k)) (\<lambda>_. None) st' = (st2, Some IdleExit)" by auto
  have "server_loop W idle uid token n E (\<lambda>_. None) st = (st2, Some IdleExit)" if "Suc m < n" for n
    using that t r s(2) by (cases n) simp_all
  with s(1) show ?case by blast
qed

text \<open>
  C33. An agent that nobody talks to comes to an end, whatever state it is in, and exactly
  when it may: if it was not asked to exit, no client connects and its clock passes every
  bound, then there is a first turn at which the idle limit is over and what was unlocked
  is due; the loop goes on through every turn before, and ends at this one because of
  idleness and nothing else, with nothing unlocked.
\<close>
theorem lonely_agent_ends:
  assumes "\<not> ag_exit st" "is_unlocked st \<longrightarrow> in_unlocked_at (ag_inner st) \<noteq> None"
    and "\<forall>T. \<exists>n. T < ae_now (E n 0) \<and> T < ae_now (E n 1)"
  shows "\<exists>m st'. may_end E idle st m \<and> (\<forall>j<m. \<not> may_end E idle st j) \<and> \<not> is_unlocked st'
    \<and> (\<forall>n\<le>m. snd (server_loop W idle uid token n E (\<lambda>_. None) st) = None)
    \<and> (\<forall>n>m. server_loop W idle uid token n E (\<lambda>_. None) st = (st', Some IdleExit))"
proof -
  let ?i = "ag_inner st"
  have timed: "timed st" using assms(1,2) by (simp add: timed_def)
  let ?T = "idle + in_last_activity ?i + in_ttl ?i + (case in_unlocked_at ?i of Some t \<Rightarrow> t | None \<Rightarrow> 0)"
  obtain n where n: "?T < ae_now (E n 0)" "?T < ae_now (E n 1)" using assms(3) by blast
  have "may_end E idle st n" using n assms(2) by (auto simp: may_end_def split: option.splits)
  then obtain m where m: "may_end E idle st m" "\<forall>j<m. \<not> may_end E idle st j" using exists_least_iff [of "may_end E idle st"] by blast
  from quiet_run_ends [OF timed m] obtain st' where "\<not> is_unlocked st'"
    "\<forall>n>m. server_loop W idle uid token n E (\<lambda>_. None) st = (st', Some IdleExit)" by blast
  moreover have "\<forall>n\<le>m. snd (server_loop W idle uid token n E (\<lambda>_. None) st) = None"
    using quiet_run_goes_on [OF timed] m(2) by simp
  ultimately show ?thesis using m by blast
qed

text \<open>A clock that advances by a minute from turn to turn: the lock is due after ten of them.\<close>

theorem lonely_agent_ends_witness:
  "\<exists>m st'. 10 < m \<and> \<not> is_unlocked st'
     \<and> (\<forall>n\<le>m. snd (server_loop ex_wire (DEFAULT_IDLE_EXIT_SECS * nat NANOS) 1000 [] n (\<lambda>k j. ex_env (k * (60 * nat NANOS))) (\<lambda>_. None) ex_unlocked) = None)
     \<and> (\<forall>n>m. server_loop ex_wire (DEFAULT_IDLE_EXIT_SECS * nat NANOS) 1000 [] n (\<lambda>k j. ex_env (k * (60 * nat NANOS))) (\<lambda>_. None) ex_unlocked
         = (st', Some IdleExit))"
proof -
  let ?E = "\<lambda>k j. ex_env (k * (60 * nat NANOS))" and ?idle = "DEFAULT_IDLE_EXIT_SECS * nat NANOS"
  have s: "\<not> ag_exit ex_unlocked" "is_unlocked ex_unlocked" "in_unlocked_at (ag_inner ex_unlocked) = Some 0"
    "in_ttl (ag_inner ex_unlocked) = 600 * nat NANOS"
    by (simp_all add: ex_unlocked_eq unlock_def ex_env_def ex_agent_def agent_new_def locked_inner_def is_unlocked_def)
  have "\<exists>n. T < ae_now (?E n 0) \<and> T < ae_now (?E n 1)" for T
    by (rule exI [of _ "Suc T"]) (simp add: ex_env_def)
  with lonely_agent_ends [of ex_unlocked ?E ?idle ex_wire 1000 "[]"] s(1,3)
  obtain m st' where m: "may_end ?E ?idle ex_unlocked m" "\<not> is_unlocked st'"
    "\<forall>n\<le>m. snd (server_loop ex_wire ?idle 1000 [] n ?E (\<lambda>_. None) ex_unlocked) = None"
    "\<forall>n>m. server_loop ex_wire ?idle 1000 [] n ?E (\<lambda>_. None) ex_unlocked = (st', Some IdleExit)" by auto
  from m(1) s obtain j where "j \<le> m" "600 * nat NANOS < j * (60 * nat NANOS)" by (auto simp: may_end_def ex_env_def)
  then have "10 < m" by simp
  with m show ?thesis by blast
qed

end
