(* ===== verification/Oauth.thy ===== *)
theory Oauth
  imports Http
begin

text \<open>
  Obtaining and renewing tokens (core/src/providers/oauth): the device flow of RFC 8628
  (device_flow.rs) and the flow with a pasted code and PKCE (paste_code.rs). The form
  encoder of the crate \<open>url\<close>, \<open>serde_json\<close>, SHA-256 and base64 are parameters.
\<close>

section \<open>What the flows share\<close>

text \<open>What the token endpoint and the device endpoint answer, as \<open>serde_json\<close> decodes it.\<close>

record token_response =
  tk_access_token :: string
  tk_refresh_token :: "string option"
  tk_expires_in :: u64
  tk_token_type :: string
  tk_scope :: "string option"

record device_code_response =
  dc_device_code :: string
  dc_user_code :: string
  dc_verification_uri :: string
  dc_verification_uri_complete :: "string option"
  dc_expires_in :: u64
  dc_interval :: u64

text \<open>
  \<open>oc_form\<close> is the serializer of \<open>application/x-www-form-urlencoded\<close>; \<open>oc_error\<close> reads the
  field \<open>error\<close> of an OAuth error document.
\<close>

record oauth_crates =
  oc_form :: "(string \<times> string) list \<Rightarrow> string"
  oc_token :: "string \<Rightarrow> token_response option"
  oc_device_code :: "string \<Rightarrow> device_code_response option"
  oc_error :: "string \<Rightarrow> string option"
  oc_sha256 :: "string \<Rightarrow> string"
  oc_base64url :: "string \<Rightarrow> string"

section \<open>The device flow (device_flow.rs)\<close>

datatype device_flow_error = DfBadEndpoint | DfNetwork | DfTlsTrustFailed string | DfServerError u16 | DfDecode
  | DfAccessDenied | DfExpired | DfInvalidClient | DfInvalidGrant | DfOther string

definition df_from_ureq_transport :: "ureq_error \<Rightarrow> device_flow_error" where
  "df_from_ureq_transport err = (case tls_trust_hint err of Some hint \<Rightarrow> DfTlsTrustFailed hint | None \<Rightarrow> DfNetwork)"

record device_flow_config =
  dfc_device_code_endpoint :: string
  dfc_token_endpoint :: string
  dfc_client_id :: string
  dfc_client_secret :: "string option"
  dfc_scope :: string

datatype poll_outcome = PollPending | PollSlowDown | PollTokens token_response

definition df_parse_oauth_error :: "oauth_crates \<Rightarrow> u16 \<Rightarrow> string \<Rightarrow> device_flow_error" where
  "df_parse_oauth_error C s body =
     (case oc_error C body of
        None \<Rightarrow> DfServerError s
      | Some e \<Rightarrow>
          if e = ''access_denied'' then DfAccessDenied
          else if e = ''expired_token'' then DfExpired
          else if e = ''invalid_client'' then DfInvalidClient
          else if e = ''invalid_grant'' then DfInvalidGrant
          else DfOther e)"

definition form_request :: "string \<Rightarrow> string \<Rightarrow> http_request" where
  "form_request url body =
     \<lparr>rq_method = POST, rq_url = url,
      rq_headers = [(''Content-Type'', ''application/x-www-form-urlencoded''), (''User-Agent'', ''zz-drop''),
                    (''Accept'', ''application/json'')],
      rq_body = body\<rparr>"

definition df_post_form ::
  "http_env \<Rightarrow> string \<Rightarrow> string \<Rightarrow> http_world \<Rightarrow> http_world \<times> (device_flow_error, u16 \<times> string) result" where
  "df_post_form H url body w =
     (case he_build H url of
        Some _ \<Rightarrow> (w, Inl DfBadEndpoint)
      | None \<Rightarrow>
          (case http_run H (form_request url body) w of
             (w', Inl e) \<Rightarrow> (w', Inl (df_from_ureq_transport e))
           | (w', Inr response) \<Rightarrow>
               (w', case rs_body response of None \<Rightarrow> Inl DfDecode | Some b \<Rightarrow> Inr (rs_status response, b))))"

definition token_form :: "oauth_crates \<Rightarrow> device_flow_config \<Rightarrow> (string \<times> string) list \<Rightarrow> string" where
  "token_form C cfg extra =
     oc_form C ((''client_id'', dfc_client_id cfg)
       # (case dfc_client_secret cfg of Some secret \<Rightarrow> [(''client_secret'', secret)] | None \<Rightarrow> []) @ extra)"

definition initiate ::
  "http_env \<Rightarrow> oauth_crates \<Rightarrow> device_flow_config \<Rightarrow> http_world \<Rightarrow> http_world \<times> (device_flow_error, device_code_response) result" where
  "initiate H C cfg w =
     (case df_post_form H (dfc_device_code_endpoint cfg)
             (oc_form C [(''client_id'', dfc_client_id cfg), (''scope'', dfc_scope cfg)]) w of
        (w', Inl e) \<Rightarrow> (w', Inl e)
      | (w', Inr (s, body)) \<Rightarrow>
          (w', if s = 200 then (case oc_device_code C body of Some d \<Rightarrow> Inr d | None \<Rightarrow> Inl DfDecode)
               else Inl (df_parse_oauth_error C s body)))"

definition poll_once ::
  "http_env \<Rightarrow> oauth_crates \<Rightarrow> device_flow_config \<Rightarrow> string \<Rightarrow> http_world \<Rightarrow> http_world \<times> (device_flow_error, poll_outcome) result" where
  "poll_once H C cfg device_code w =
     (case df_post_form H (dfc_token_endpoint cfg)
             (token_form C cfg [(''device_code'', device_code),
                (''grant_type'', ''urn:ietf:params:oauth:grant-type:device_code'')]) w of
        (w', Inl e) \<Rightarrow> (w', Inl e)
      | (w', Inr (s, body)) \<Rightarrow>
          (w', if s = 200 then (case oc_token C body of Some t \<Rightarrow> Inr (PollTokens t) | None \<Rightarrow> Inl DfDecode)
               else (case df_parse_oauth_error C s body of
                       DfOther code \<Rightarrow>
                         if code = ''authorization_pending'' then Inr PollPending
                         else if code = ''slow_down'' then Inr PollSlowDown
                         else Inl (DfOther code)
                     | other \<Rightarrow> Inl other)))"

definition df_refresh ::
  "http_env \<Rightarrow> oauth_crates \<Rightarrow> device_flow_config \<Rightarrow> string \<Rightarrow> http_world \<Rightarrow> http_world \<times> (device_flow_error, token_response) result" where
  "df_refresh H C cfg refresh_token w =
     (case df_post_form H (dfc_token_endpoint cfg)
             (token_form C cfg [(''refresh_token'', refresh_token), (''grant_type'', ''refresh_token'')]) w of
        (w', Inl e) \<Rightarrow> (w', Inl e)
      | (w', Inr (s, body)) \<Rightarrow>
          (w', if s = 200 then (case oc_token C body of Some t \<Rightarrow> Inr t | None \<Rightarrow> Inl DfDecode)
               else Inl (df_parse_oauth_error C s body)))"

section \<open>The pasted code (paste_code.rs)\<close>

record paste_code_config =
  pcc_authorize_endpoint :: string
  pcc_token_endpoint :: string
  pcc_client_id :: string
  pcc_authorize_extra :: "(string \<times> string) list"
  pcc_scope :: "string option"

datatype paste_code_error = PcBadEndpoint | PcNetwork | PcTlsTrustFailed string | PcServerError u16 | PcDecode
  | PcAccessDenied | PcExpired | PcInvalidClient | PcInvalidGrant | PcOther string

definition pc_from_ureq_transport :: "ureq_error \<Rightarrow> paste_code_error" where
  "pc_from_ureq_transport err = (case tls_trust_hint err of Some hint \<Rightarrow> PcTlsTrustFailed hint | None \<Rightarrow> PcNetwork)"

record paste_code_flow =
  pf_cfg :: paste_code_config
  pf_code_verifier :: string

definition with_verifier :: "paste_code_config \<Rightarrow> string \<Rightarrow> paste_code_flow" where
  "with_verifier cfg code_verifier = \<lparr>pf_cfg = cfg, pf_code_verifier = code_verifier\<rparr>"

definition generate_code_verifier :: "oauth_crates \<Rightarrow> string \<Rightarrow> string" where
  "generate_code_verifier C random = oc_base64url C random"

definition paste_code_flow_new :: "oauth_crates \<Rightarrow> string \<Rightarrow> paste_code_config \<Rightarrow> paste_code_flow" where
  "paste_code_flow_new C random cfg = with_verifier cfg (generate_code_verifier C random)"

definition code_challenge_s256 :: "oauth_crates \<Rightarrow> string \<Rightarrow> string" where
  "code_challenge_s256 C verifier = oc_base64url C (oc_sha256 C verifier)"

definition authorize_url :: "oauth_crates \<Rightarrow> paste_code_flow \<Rightarrow> string" where
  "authorize_url C f =
     (let cfg = pf_cfg f;
          query = oc_form C ([(''client_id'', pcc_client_id cfg), (''response_type'', ''code''),
             (''code_challenge'', code_challenge_s256 C (pf_code_verifier f)), (''code_challenge_method'', ''S256'')]
             @ (case pcc_scope cfg of Some s \<Rightarrow> [(''scope'', s)] | None \<Rightarrow> []) @ pcc_authorize_extra cfg)
      in pcc_authorize_endpoint cfg @ ''?'' @ query)"

definition pc_parse_oauth_error :: "oauth_crates \<Rightarrow> u16 \<Rightarrow> string \<Rightarrow> paste_code_error" where
  "pc_parse_oauth_error C s body =
     (case oc_error C body of
        None \<Rightarrow> PcServerError s
      | Some e \<Rightarrow>
          if e = ''access_denied'' then PcAccessDenied
          else if e = ''expired_token'' \<or> e = ''invalid_request'' then PcExpired
          else if e = ''invalid_client'' then PcInvalidClient
          else if e = ''invalid_grant'' then PcInvalidGrant
          else PcOther e)"

definition pc_post_form ::
  "http_env \<Rightarrow> string \<Rightarrow> string \<Rightarrow> http_world \<Rightarrow> http_world \<times> (paste_code_error, u16 \<times> string) result" where
  "pc_post_form H url body w =
     (case he_build H url of
        Some _ \<Rightarrow> (w, Inl PcBadEndpoint)
      | None \<Rightarrow>
          (case http_run H (form_request url body) w of
             (w', Inl e) \<Rightarrow> (w', Inl (pc_from_ureq_transport e))
           | (w', Inr response) \<Rightarrow>
               (w', case rs_body response of None \<Rightarrow> Inl PcDecode | Some b \<Rightarrow> Inr (rs_status response, b))))"

definition exchange_code ::
  "http_env \<Rightarrow> oauth_crates \<Rightarrow> paste_code_flow \<Rightarrow> string \<Rightarrow> http_world \<Rightarrow> http_world \<times> (paste_code_error, token_response) result" where
  "exchange_code H C f code w =
     (case pc_post_form H (pcc_token_endpoint (pf_cfg f))
             (oc_form C [(''client_id'', pcc_client_id (pf_cfg f)), (''grant_type'', ''authorization_code''),
                (''code'', code), (''code_verifier'', pf_code_verifier f)]) w of
        (w', Inl e) \<Rightarrow> (w', Inl e)
      | (w', Inr (s, body)) \<Rightarrow>
          (w', if s = 200 then (case oc_token C body of Some t \<Rightarrow> Inr t | None \<Rightarrow> Inl PcDecode)
               else Inl (pc_parse_oauth_error C s body)))"

definition pc_refresh ::
  "http_env \<Rightarrow> oauth_crates \<Rightarrow> paste_code_flow \<Rightarrow> string \<Rightarrow> http_world \<Rightarrow> http_world \<times> (paste_code_error, token_response) result" where
  "pc_refresh H C f refresh_token w =
     (case pc_post_form H (pcc_token_endpoint (pf_cfg f))
             (oc_form C [(''client_id'', pcc_client_id (pf_cfg f)), (''grant_type'', ''refresh_token''),
                (''refresh_token'', refresh_token)]) w of
        (w', Inl e) \<Rightarrow> (w', Inl e)
      | (w', Inr (s, body)) \<Rightarrow>
          (w', if s = 200 then (case oc_token C body of Some t \<Rightarrow> Inr t | None \<Rightarrow> Inl PcDecode)
               else Inl (pc_parse_oauth_error C s body)))"

fun device_flow_from_paste_code :: "paste_code_error \<Rightarrow> device_flow_error" where
  "device_flow_from_paste_code PcBadEndpoint = DfBadEndpoint"
| "device_flow_from_paste_code PcNetwork = DfNetwork"
| "device_flow_from_paste_code (PcTlsTrustFailed hint) = DfTlsTrustFailed hint"
| "device_flow_from_paste_code (PcServerError s) = DfServerError s"
| "device_flow_from_paste_code PcDecode = DfDecode"
| "device_flow_from_paste_code PcAccessDenied = DfAccessDenied"
| "device_flow_from_paste_code PcExpired = DfExpired"
| "device_flow_from_paste_code PcInvalidClient = DfInvalidClient"
| "device_flow_from_paste_code PcInvalidGrant = DfInvalidGrant"
| "device_flow_from_paste_code (PcOther s) = DfOther s"

end
