(* ===== verification/Cloud.thy ===== *)
theory Cloud
  imports Oauth Nextcloud Output
begin

text \<open>
  What the clients of Google Drive, OneDrive and Dropbox have in common
  (core/src/providers/*/rest.rs). An operation works on a client, which may renew its
  token on the way, and on the log of requests; it stops at the first error, as the
  operator \<open>?\<close> does.
\<close>

section \<open>Operations\<close>

type_synonym ('c, 'e, 'a) op = "'c \<times> http_world \<Rightarrow> ('c \<times> http_world) \<times> ('e, 'a) result"

definition op_of :: "('e, 'a) result \<Rightarrow> ('c, 'e, 'a) op" where
  "op_of r s = (s, r)"

definition op_bind :: "('c, 'e, 'a) op \<Rightarrow> ('a \<Rightarrow> ('c, 'e, 'b) op) \<Rightarrow> ('c, 'e, 'b) op" where
  "op_bind m f s = (case m s of (s', Inl e) \<Rightarrow> (s', Inl e) | (s', Inr x) \<Rightarrow> f x s')"

definition op_get :: "('c \<Rightarrow> 'a) \<Rightarrow> ('c, 'e, 'a) op" where
  "op_get f s = (s, Inr (f (fst s)))"

definition op_set :: "('c \<Rightarrow> 'c) \<Rightarrow> ('c, 'e, unit) op" where
  "op_set f s = ((f (fst s), snd s), Inr ())"

lemmas op_defs = op_of_def op_bind_def op_get_def op_set_def

lemma op_bind_of [simp]: "op_bind (op_of (Inr x)) f = f x" "op_bind (op_of (Inl e)) f = op_of (Inl e)"
  by (simp_all add: op_defs fun_eq_iff)

lemma op_bind_assoc: "op_bind (op_bind m f) g = op_bind m (\<lambda>x. op_bind (f x) g)"
  by (simp add: op_bind_def fun_eq_iff split: prod.splits sum.splits)

lemma op_bind_result: "op_bind m (\<lambda>x. op_of (Inr x)) = m"
  by (simp add: op_bind_def op_of_def fun_eq_iff split: prod.splits sum.splits)

fun op_fold :: "('b \<Rightarrow> 'a \<Rightarrow> ('c, 'e, 'a) op) \<Rightarrow> 'b list \<Rightarrow> 'a \<Rightarrow> ('c, 'e, 'a) op" where
  "op_fold f [] a = op_of (Inr a)"
| "op_fold f (x # xs) a = op_bind (f x a) (op_fold f xs)"

section \<open>The environment\<close>

text \<open>
  \<open>ce_header\<close> is which values \<open>HeaderValue\<close> accepts, \<open>ce_json\<close> prints a
  \<open>serde_json::Value\<close>, \<open>ce_random\<close> is the random source.
\<close>

record cloud_env =
  ce_http :: http_env
  ce_oauth :: oauth_crates
  ce_header :: "string \<Rightarrow> bool"
  ce_json :: "json \<Rightarrow> string"
  ce_pct :: percent_encoder
  ce_random :: "nat \<Rightarrow> bytes"

text \<open>The time, in the seconds of \<open>unix_now\<close>, and the random bytes at this point of the run.\<close>

definition op_now :: "'x cloud_env_scheme \<Rightarrow> ('c, 'e, u64) op" where
  "op_now X s = (s, Inr (of_nat (he_secs (ce_http X) (length (hw_log (snd s))))))"

definition op_random :: "'x cloud_env_scheme \<Rightarrow> ('c, 'e, bytes) op" where
  "op_random X s = (s, Inr (ce_random X (length (hw_log (snd s)))))"

definition op_read_file :: "'x cloud_env_scheme \<Rightarrow> 'e \<Rightarrow> string \<Rightarrow> ('c, 'e, string) op" where
  "op_read_file X failure p s =
     (s, case http_read_file (ce_http X) p (snd s) of Some b \<Rightarrow> Inr b | None \<Rightarrow> Inl failure)"

definition op_write_file :: "'x cloud_env_scheme \<Rightarrow> 'e \<Rightarrow> string \<Rightarrow> string \<Rightarrow> ('c, 'e, unit) op" where
  "op_write_file X failure p body s =
     (let (w, ok) = http_write_file (ce_http X) p body (snd s)
      in ((fst s, w), if ok then Inr () else Inl failure))"

text \<open>
  One request: the builder refuses a URL or a header that is none, \<open>Agent::run\<close> fails in
  transport, or the answer's status and body are read.
\<close>

definition request ::
  "'x cloud_env_scheme \<Rightarrow> 'e \<Rightarrow> (ureq_error \<Rightarrow> 'e) \<Rightarrow> 'e \<Rightarrow> http_method \<Rightarrow> string \<Rightarrow> (string \<times> string) list \<Rightarrow> string \<Rightarrow>
    ('c, 'e, u16 \<times> string) op" where
  "request X unbuilt transport unread meth url headers body s =
     (if he_build (ce_http X) url \<noteq> None \<or> (\<exists>h \<in> set headers. \<not> ce_header X (snd h)) then (s, Inl unbuilt)
      else case http_run (ce_http X) \<lparr>rq_method = meth, rq_url = url, rq_headers = headers, rq_body = body\<rparr> (snd s) of
             (w, Inl e) \<Rightarrow> ((fst s, w), Inl (transport e))
           | (w, Inr response) \<Rightarrow>
               ((fst s, w), case rs_body response of None \<Rightarrow> Inl unread | Some b \<Rightarrow> Inr (rs_status response, b)))"

text \<open>A call of the token endpoint, which knows nothing of the client.\<close>

definition op_oauth :: "('d \<Rightarrow> 'e) \<Rightarrow> (http_world \<Rightarrow> http_world \<times> ('d, 'a) result) \<Rightarrow> ('c, 'e, 'a) op" where
  "op_oauth map_oauth f s = (case f (snd s) of (w, r) \<Rightarrow> ((fst s, w), rmap_err map_oauth r))"

definition body_mentions :: "string \<Rightarrow> string \<Rightarrow> bool" where
  "body_mentions body needle \<longleftrightarrow> utf8_ok body \<and> sublist needle body"

definition is_success :: "u16 \<Rightarrow> bool" where
  "is_success s \<longleftrightarrow> 200 \<le> s \<and> s < 300"

section \<open>Uploads under a new name\<close>

text \<open>The candidates of the policy \<open>Rename\<close>: the first name that is not there is written.\<close>

fun try_names ::
  "'x cloud_env_scheme \<Rightarrow> 'e \<Rightarrow> (string \<Rightarrow> ('c, 'e, bool) op) \<Rightarrow> (string \<Rightarrow> ('c, 'e, unit) op) \<Rightarrow> string \<Rightarrow> u64 \<Rightarrow> nat list \<Rightarrow>
    ('c, 'e, nc_outcome) op" where
  "try_names X conflict exists put leaf len [] = op_of (Inl conflict)"
| "try_names X conflict exists put leaf len (n # ns) =
     op_bind (op_now X) (\<lambda>now.
     let candidate = rename_with_suffix_at leaf n (unat now) in
     op_bind (exists candidate) (\<lambda>there.
     if there then try_names X conflict exists put leaf len ns
     else op_bind (put candidate) (\<lambda>_.
          op_of (Inr \<lparr>no_final_name = candidate, no_size = len, no_renamed = 0 < n\<rparr>))))"

end
