(* ===== verification/Google_Drive_Client.thy ===== *)
theory Google_Drive_Client
  imports Cloud
begin

text \<open>
  The Google Drive client (core/src/providers/google_drive): rest.rs, errors.rs and the
  configuration of its sign-in (mod.rs). Files and folders are found by a search for
  their name in the folder above and addressed by their id.
\<close>

section \<open>Errors (errors.rs)\<close>

datatype google_drive_error = GdOauth device_flow_error | GdBadRoot | GdTokenExpired | GdUnauthorized | GdNotFound | GdConflict
  | GdRateLimited | GdServerError u16 | GdNetwork | GdTlsTrustFailed string | GdLocalIo | GdDecode

definition gd_from_ureq_transport :: "ureq_error \<Rightarrow> google_drive_error" where
  "gd_from_ureq_transport err = (case tls_trust_hint err of Some hint \<Rightarrow> GdTlsTrustFailed hint | None \<Rightarrow> GdNetwork)"

fun gd_diagnose :: "google_drive_error \<Rightarrow> string" where
  "gd_diagnose (GdOauth _) = ''oauth flow error''"
| "gd_diagnose GdBadRoot = ''invalid root folder''"
| "gd_diagnose GdTokenExpired = ''token expired''"
| "gd_diagnose GdUnauthorized = ''auth failed''"
| "gd_diagnose GdNotFound = ''not found''"
| "gd_diagnose GdConflict = ''conflict''"
| "gd_diagnose GdRateLimited = ''rate limited''"
| "gd_diagnose (GdServerError _) = ''server error''"
| "gd_diagnose GdNetwork = ''network error''"
| "gd_diagnose (GdTlsTrustFailed _) = TLS_TRUST_HINT"
| "gd_diagnose GdLocalIo = ''local file error''"
| "gd_diagnose GdDecode = ''bad server response''"

section \<open>Names and texts (rest.rs)\<close>

definition FOLDER_MIME :: string where "FOLDER_MIME = ''application/vnd.google-apps.folder''"
definition DEFAULT_FILE_MIME :: string where "DEFAULT_FILE_MIME = ''application/octet-stream''"
definition DRIVE_API_BASE :: string where "DRIVE_API_BASE = ''https://www.googleapis.com/drive/v3''"
definition DRIVE_UPLOAD_BASE :: string where "DRIVE_UPLOAD_BASE = ''https://www.googleapis.com/upload/drive/v3''"
definition ROOT_PARENT :: string where "ROOT_PARENT = ''root''"
definition PAGE_SIZE :: nat where "PAGE_SIZE = 200"
definition GD_EXPIRY_SKEW_SECS :: u64 where "GD_EXPIRY_SKEW_SECS = 60"

abbreviation quote1 :: string where "quote1 \<equiv> [CHR 0x27]"
abbreviation CRLF :: string where "CRLF \<equiv> [CHR 0x0D, CHR 0x0A]"
abbreviation backslash :: string where "backslash \<equiv> [CHR 0x5C]"

definition gd_validate_filename :: "string \<Rightarrow> (google_drive_error, unit) result" where
  "gd_validate_filename name =
     (if name = [] \<or> name = ''.'' \<or> name = ''..'' then Inl GdBadRoot
      else if CHR ''/'' \<in> set name \<or> CHR 0x00 \<in> set name then Inl GdBadRoot
      else Inr ())"

fun gd_validate_all :: "string list \<Rightarrow> (google_drive_error, unit) result" where
  "gd_validate_all [] = Inr ()"
| "gd_validate_all (s # segs) = rbind (gd_validate_filename s) (\<lambda>_. gd_validate_all segs)"

text \<open>\<open>replace\<close> of one character by a text.\<close>

definition replace_char :: "char \<Rightarrow> string \<Rightarrow> string \<Rightarrow> string" where
  "replace_char c by s = concat (map (\<lambda>x. if x = c then by else [x]) s)"

definition escape_q_literal :: "string \<Rightarrow> string" where
  "escape_q_literal s = replace_char CHR 0x27 (backslash @ quote1) (replace_char CHR 0x5C (backslash @ backslash) s)"

definition QUERY :: "char \<Rightarrow> bool" where
  "QUERY c \<longleftrightarrow> (of_char c :: nat) < 32 \<or> (of_char c :: nat) = 127
     \<or> c \<in> set '' #<>%&+/?='' \<or> c = CHR 0x22 \<or> c = CHR 0x27"

definition url_query_escape :: "'x cloud_env_scheme \<Rightarrow> string \<Rightarrow> string" where
  "url_query_escape X s = ce_pct X QUERY s"

definition body_mentions_rate_limit :: "string \<Rightarrow> bool" where
  "body_mentions_rate_limit body \<longleftrightarrow>
     body_mentions body ''userRateLimitExceeded'' \<or> body_mentions body ''rateLimitExceeded''"

definition gd_classify_status :: "u16 \<Rightarrow> string \<Rightarrow> google_drive_error" where
  "gd_classify_status s body =
     (if s = 401 then GdUnauthorized
      else if s = 403 then (if body_mentions_rate_limit body then GdRateLimited else GdUnauthorized)
      else if s = 404 then GdNotFound
      else if s = 409 then GdConflict
      else if s = 429 then GdRateLimited
      else GdServerError s)"

definition hex02 :: "u8 \<Rightarrow> string" where
  "hex02 b = (let n = unat b; d = (\<lambda>k. char_of (if k < 10 then 48 + k else 87 + k)) in [d (n div 16), d (n mod 16)])"

definition make_boundary :: "bytes \<Rightarrow> string" where
  "make_boundary random = ''zzdrop_'' @ concat (map hex02 random)"

definition write_part :: "string \<Rightarrow> string \<Rightarrow> string \<Rightarrow> string \<Rightarrow> string" where
  "write_part body boundary content_type data =
     body @ ''--'' @ boundary @ CRLF @ ''Content-Type: '' @ content_type @ CRLF @ CRLF @ data @ CRLF"

definition build_multipart_related :: "string \<Rightarrow> string \<Rightarrow> string \<Rightarrow> string \<Rightarrow> string" where
  "build_multipart_related metadata file_bytes file_mime boundary =
     (let b1 = write_part [] boundary ''application/json; charset=UTF-8'' metadata;
          b2 = write_part b1 boundary file_mime file_bytes
      in b2 @ ''--'' @ boundary @ ''--'' @ CRLF)"

section \<open>The client (rest.rs, mod.rs)\<close>

definition GDRIVE_CLIENT_ID :: string where
  "GDRIVE_CLIENT_ID = ''499388241333-73ipjnlcpeg6odrcp505jqn9hmfpv807'' @ ''.'' @ ''apps.googleusercontent.com''"

definition GDRIVE_CLIENT_SECRET :: string where
  "GDRIVE_CLIENT_SECRET = ''GOCSPX'' @ ''-'' @ ''n9gOCLKxUe2tjMxJUrYYxfoFgt7A''"

definition gd_device_flow_config :: device_flow_config where
  "gd_device_flow_config =
     \<lparr>dfc_device_code_endpoint = ''https://oauth2.googleapis.com/device/code'',
      dfc_token_endpoint = ''https://oauth2.googleapis.com/token'',
      dfc_client_id = GDRIVE_CLIENT_ID, dfc_client_secret = Some GDRIVE_CLIENT_SECRET,
      dfc_scope = ''https://www.googleapis.com/auth/drive.file''\<rparr>"

record google_drive_client =
  gdc_profile :: google_drive_profile
  gdc_dirty :: bool

text \<open>What \<open>serde_json\<close> decodes from an answer.\<close>

record drive_file =
  df_id :: string
  df_name :: string
  df_size :: "string option"
  df_mime_type :: "string option"

definition size_as_u64 :: "drive_file \<Rightarrow> u64 option" where
  "size_as_u64 f = Option.bind (df_size f) (\<lambda>s. map_option of_nat (parse_unsigned (2 ^ 64) s))"

record drive_file_list =
  dfl_files :: "drive_file list"
  dfl_next_page_token :: "string option"

record google_env = cloud_env +
  gx_file_list :: "string \<Rightarrow> drive_file_list option"
  gx_created :: "string \<Rightarrow> string option"
  gx_about :: "string \<Rightarrow> string option"

type_synonym 'a gd_op = "(google_drive_client, google_drive_error, 'a) op"

definition gd_from_profile :: "google_drive_profile \<Rightarrow> (google_drive_error, google_drive_client) result" where
  "gd_from_profile profile =
     (let trimmed = trim (gd_root_folder profile) in
      if trimmed = [] \<or> CHR ''/'' \<in> set trimmed \<or> CHR 0x00 \<in> set trimmed then Inl GdBadRoot
      else Inr \<lparr>gdc_profile = profile, gdc_dirty = False\<rparr>)"

definition gd_map_oauth :: "device_flow_error \<Rightarrow> google_drive_error" where
  "gd_map_oauth e =
     (case e of
        DfNetwork \<Rightarrow> GdNetwork
      | DfDecode \<Rightarrow> GdDecode
      | DfServerError s \<Rightarrow> GdServerError s
      | DfInvalidClient \<Rightarrow> GdTokenExpired
      | DfInvalidGrant \<Rightarrow> GdTokenExpired
      | DfAccessDenied \<Rightarrow> GdTokenExpired
      | DfExpired \<Rightarrow> GdTokenExpired
      | other \<Rightarrow> GdOauth other)"

definition gd_apply_refresh :: "u64 \<Rightarrow> token_response \<Rightarrow> google_drive_auth \<Rightarrow> google_drive_auth" where
  "gd_apply_refresh now tokens auth =
     auth\<lparr>gda_access_token := tk_access_token tokens,
          gda_token_type := tk_token_type tokens,
          gda_expires_at := now + tk_expires_in tokens,
          gda_refresh_token := (case tk_refresh_token tokens of Some rt \<Rightarrow> rt | None \<Rightarrow> gda_refresh_token auth),
          gda_scope := (case tk_scope tokens of Some scope \<Rightarrow> scope | None \<Rightarrow> gda_scope auth)\<rparr>"

definition gd_refresh_token_now :: "google_env \<Rightarrow> unit gd_op" where
  "gd_refresh_token_now X =
     op_bind (op_get (\<lambda>c. gda_refresh_token (gd_auth (gdc_profile c)))) (\<lambda>refresh.
     op_bind (op_oauth gd_map_oauth (df_refresh (ce_http X) (ce_oauth X) gd_device_flow_config refresh)) (\<lambda>tokens.
     op_bind (op_now X) (\<lambda>now.
     op_set (\<lambda>c. \<lparr>gdc_profile = (gdc_profile c)\<lparr>gd_auth := gd_apply_refresh now tokens (gd_auth (gdc_profile c))\<rparr>,
                   gdc_dirty = True\<rparr>))))"

definition gd_ensure_fresh_token :: "google_env \<Rightarrow> unit gd_op" where
  "gd_ensure_fresh_token X =
     op_bind (op_now X) (\<lambda>now.
     op_bind (op_get (\<lambda>c. gda_expires_at (gd_auth (gdc_profile c)) \<le> now + GD_EXPIRY_SKEW_SECS)) (\<lambda>needs_refresh.
     if \<not> needs_refresh then op_of (Inr ()) else gd_refresh_token_now X))"

definition gd_auth_header :: "google_drive_client \<Rightarrow> string" where
  "gd_auth_header c = ''Bearer '' @ gda_access_token (gd_auth (gdc_profile c))"

definition gd_json_request :: "google_env \<Rightarrow> http_method \<Rightarrow> string \<Rightarrow> (string \<times> string) option \<Rightarrow> (u16 \<times> string) gd_op" where
  "gd_json_request X meth url body =
     op_bind (op_get gd_auth_header) (\<lambda>auth.
     request X GdNetwork gd_from_ureq_transport GdDecode meth url
       ([(''Authorization'', auth), (''User-Agent'', ''zz-drop''), (''Accept'', ''application/json'')]
          @ (case body of Some (ct, _) \<Rightarrow> [(''Content-Type'', ct)] | None \<Rightarrow> []))
       (case body of Some (_, b) \<Rightarrow> b | None \<Rightarrow> []))"

definition gd_binary_request :: "google_env \<Rightarrow> http_method \<Rightarrow> string \<Rightarrow> (u16 \<times> string) gd_op" where
  "gd_binary_request X meth url =
     op_bind (op_get gd_auth_header) (\<lambda>auth.
     request X GdNetwork gd_from_ureq_transport GdDecode meth url
       [(''Authorization'', auth), (''User-Agent'', ''zz-drop'')] [])"

text \<open>An answer that is no success is an error.\<close>

definition gd_expect :: "(u16 \<times> string) gd_op \<Rightarrow> string gd_op" where
  "gd_expect m = op_bind m (\<lambda>(s, body). op_of (if is_success s then Inr body else Inl (gd_classify_status s body)))"

definition gd_decode :: "(string \<Rightarrow> 'a option) \<Rightarrow> string gd_op \<Rightarrow> 'a gd_op" where
  "gd_decode f m = op_bind m (\<lambda>bytes. op_of (case f bytes of Some x \<Rightarrow> Inr x | None \<Rightarrow> Inl GdDecode))"

section \<open>Folders and lookups (rest.rs)\<close>

definition gd_filter :: "string \<Rightarrow> string \<Rightarrow> string option \<Rightarrow> string" where
  "gd_filter parent_id name mime =
     quote1 @ escape_q_literal parent_id @ quote1 @ '' in parents and name = '' @ quote1 @ escape_q_literal name @ quote1
       @ '' and trashed = false''
       @ (case mime of Some m \<Rightarrow> '' and mimeType = '' @ quote1 @ escape_q_literal m @ quote1 | None \<Rightarrow> [])"

definition gd_find_url :: "google_env \<Rightarrow> string \<Rightarrow> string \<Rightarrow> string option \<Rightarrow> string" where
  "gd_find_url X parent_id name mime =
     DRIVE_API_BASE @ ''/files?q='' @ url_query_escape X (gd_filter parent_id name mime)
       @ ''&fields=files(id,name,size,mimeType)&pageSize=2&spaces=drive''"

definition gd_find_in_folder :: "google_env \<Rightarrow> string \<Rightarrow> string \<Rightarrow> string option \<Rightarrow> drive_file option gd_op" where
  "gd_find_in_folder X parent_id name mime =
     op_bind (gd_ensure_fresh_token X) (\<lambda>_.
     op_bind (gd_decode (gx_file_list X) (gd_expect (gd_json_request X GET (gd_find_url X parent_id name mime) None))) (\<lambda>parsed.
     op_of (Inr (case dfl_files parsed of [] \<Rightarrow> None | f # _ \<Rightarrow> Some f))))"

definition gd_create_folder_under :: "google_env \<Rightarrow> string \<Rightarrow> string \<Rightarrow> string gd_op" where
  "gd_create_folder_under X parent_id name =
     op_bind (gd_ensure_fresh_token X) (\<lambda>_.
     gd_decode (gx_created X) (gd_expect (gd_json_request X POST (DRIVE_API_BASE @ ''/files?fields=id'')
       (Some (''application/json'', ce_json X (JObj [(''name'', JStr name), (''mimeType'', JStr FOLDER_MIME),
          (''parents'', JArr [JStr parent_id])]))))))"

definition gd_find_or_create_folder_under :: "google_env \<Rightarrow> string \<Rightarrow> string \<Rightarrow> string gd_op" where
  "gd_find_or_create_folder_under X parent_id name =
     op_bind (gd_find_in_folder X parent_id name (Some FOLDER_MIME)) (\<lambda>found.
     case found of Some f \<Rightarrow> op_of (Inr (df_id f)) | None \<Rightarrow> gd_create_folder_under X parent_id name)"

definition gd_ensure_root_folder :: "google_env \<Rightarrow> string gd_op" where
  "gd_ensure_root_folder X =
     op_bind (op_get (\<lambda>c. gd_root_folder_id (gdc_profile c))) (\<lambda>cached.
     case cached of
       Some fid \<Rightarrow> op_of (Inr fid)
     | None \<Rightarrow>
         op_bind (gd_ensure_fresh_token X) (\<lambda>_.
         op_bind (op_get (\<lambda>c. gd_root_folder (gdc_profile c))) (\<lambda>name.
         op_bind (gd_find_or_create_folder_under X ROOT_PARENT name) (\<lambda>fid.
         op_bind (op_set (\<lambda>c. \<lparr>gdc_profile = (gdc_profile c)\<lparr>gd_root_folder_id := Some fid\<rparr>, gdc_dirty = True\<rparr>)) (\<lambda>_.
         op_of (Inr fid))))))"

definition gd_ensure_dir_segments :: "google_env \<Rightarrow> string list \<Rightarrow> string gd_op" where
  "gd_ensure_dir_segments X segments =
     op_bind (op_of (gd_validate_all segments)) (\<lambda>_.
     op_bind (gd_ensure_root_folder X) (\<lambda>root.
     op_fold (\<lambda>seg current. gd_find_or_create_folder_under X current seg) segments root))"

definition gd_resolve_dir_segments :: "google_env \<Rightarrow> string list \<Rightarrow> string gd_op" where
  "gd_resolve_dir_segments X segments =
     op_bind (gd_ensure_root_folder X) (\<lambda>root.
     op_fold (\<lambda>seg current. op_bind (gd_find_in_folder X current seg (Some FOLDER_MIME)) (\<lambda>found.
        op_of (case found of Some f \<Rightarrow> Inr (df_id f) | None \<Rightarrow> Inl GdNotFound))) segments root)"

definition gd_resolve_file_path :: "google_env \<Rightarrow> string list \<Rightarrow> drive_file option gd_op" where
  "gd_resolve_file_path X segments =
     (if segments = [] then op_of (Inl GdNotFound)
      else op_bind (op_of (gd_validate_all segments)) (\<lambda>_.
           op_bind (if butlast segments = [] then gd_ensure_root_folder X else gd_resolve_dir_segments X (butlast segments))
             (\<lambda>parent_id. gd_find_in_folder X parent_id (last segments) None)))"

text \<open>The file at a path, or \<open>NotFound\<close>.\<close>

definition gd_existing :: "google_env \<Rightarrow> string list \<Rightarrow> drive_file gd_op" where
  "gd_existing X segments =
     op_bind (gd_resolve_file_path X segments) (\<lambda>found.
     op_of (case found of Some f \<Rightarrow> Inr f | None \<Rightarrow> Inl GdNotFound))"

section \<open>Transfers (rest.rs)\<close>

definition gd_create_file :: "google_env \<Rightarrow> string \<Rightarrow> string \<Rightarrow> string \<Rightarrow> string gd_op" where
  "gd_create_file X parent_id name bytes =
     op_bind (gd_ensure_fresh_token X) (\<lambda>_.
     op_bind (op_random X) (\<lambda>random.
     let metadata = ce_json X (JObj [(''name'', JStr name), (''parents'', JArr [JStr parent_id])]);
         boundary = make_boundary random;
         body = build_multipart_related metadata bytes DEFAULT_FILE_MIME boundary in
     gd_decode (gx_created X) (gd_expect (gd_json_request X POST
        (DRIVE_UPLOAD_BASE @ ''/files?uploadType=multipart&fields=id'')
        (Some (''multipart/related; boundary='' @ boundary, body))))))"

definition gd_update_file_content :: "google_env \<Rightarrow> string \<Rightarrow> string \<Rightarrow> unit gd_op" where
  "gd_update_file_content X file_id bytes =
     op_bind (gd_ensure_fresh_token X) (\<lambda>_.
     op_bind (gd_expect (gd_json_request X PATCH (DRIVE_UPLOAD_BASE @ ''/files/'' @ file_id @ ''?uploadType=media'')
        (Some (DEFAULT_FILE_MIME, bytes)))) (\<lambda>_. op_of (Inr ())))"

definition gd_upload_body :: "google_env \<Rightarrow> string \<Rightarrow> string \<Rightarrow> string \<Rightarrow> collision_policy \<Rightarrow> nc_outcome gd_op" where
  "gd_upload_body X parent_id leaf body policy =
     (let size = of_nat (length body) :: u64;
          plain = \<lparr>no_final_name = leaf, no_size = size, no_renamed = False\<rparr> in
      case policy of
        Overwrite \<Rightarrow>
          op_bind (gd_find_in_folder X parent_id leaf None) (\<lambda>found.
          case found of
            Some existing \<Rightarrow> op_bind (gd_update_file_content X (df_id existing) body) (\<lambda>_. op_of (Inr plain))
          | None \<Rightarrow> op_bind (gd_create_file X parent_id leaf body) (\<lambda>_. op_of (Inr plain)))
      | Fail \<Rightarrow>
          op_bind (gd_find_in_folder X parent_id leaf None) (\<lambda>found.
          if found \<noteq> None then op_of (Inl GdConflict)
          else op_bind (gd_create_file X parent_id leaf body) (\<lambda>_. op_of (Inr plain)))
      | Rename \<Rightarrow>
          try_names X GdConflict
            (\<lambda>candidate. op_bind (gd_find_in_folder X parent_id candidate None) (\<lambda>found. op_of (Inr (found \<noteq> None))))
            (\<lambda>candidate. op_bind (gd_create_file X parent_id candidate body) (\<lambda>_. op_of (Inr ())))
            leaf size [0..<Suc (unat RENAME_MAX_TRIES)])"

definition gd_upload_to :: "google_env \<Rightarrow> string \<Rightarrow> string list \<Rightarrow> collision_policy \<Rightarrow> nc_outcome gd_op" where
  "gd_upload_to X local segments policy =
     (if segments = [] then op_of (Inl GdBadRoot)
      else op_bind (op_of (gd_validate_all segments)) (\<lambda>_.
           op_bind (if butlast segments = [] then gd_ensure_root_folder X else gd_ensure_dir_segments X (butlast segments)) (\<lambda>parent_id.
           op_bind (op_read_file X GdLocalIo local) (\<lambda>body.
           gd_upload_body X parent_id (last segments) body policy))))"

definition gd_download_from :: "google_env \<Rightarrow> string list \<Rightarrow> string \<Rightarrow> u64 gd_op" where
  "gd_download_from X segments dest =
     op_bind (gd_existing X segments) (\<lambda>f.
     op_bind (gd_ensure_fresh_token X) (\<lambda>_.
     op_bind (gd_expect (gd_binary_request X GET (DRIVE_API_BASE @ ''/files/'' @ df_id f @ ''?alt=media''))) (\<lambda>body.
     op_bind (op_write_file X GdLocalIo dest body) (\<lambda>_. op_of (Inr (of_nat (length body)))))))"

section \<open>Listings and the rest (rest.rs)\<close>

definition gd_entry :: "drive_file \<Rightarrow> remote_entry" where
  "gd_entry f = \<lparr>rm_name = df_name f, rm_size = size_as_u64 f, rm_is_directory = (df_mime_type f = Some FOLDER_MIME)\<rparr>"

definition gd_page_url :: "google_env \<Rightarrow> string \<Rightarrow> string option \<Rightarrow> string" where
  "gd_page_url X parent_id page_token =
     (let q = quote1 @ escape_q_literal parent_id @ quote1 @ '' in parents and trashed = false'' in
      DRIVE_API_BASE @ ''/files?q='' @ url_query_escape X q
        @ ''&fields=nextPageToken,files(id,name,size,mimeType)&pageSize='' @ show_nat PAGE_SIZE @ ''&spaces=drive''
        @ (case page_token of Some token \<Rightarrow> ''&pageToken='' @ url_query_escape X token | None \<Rightarrow> []))"

text \<open>
  The server decides how many pages there are; the fuel is the number of pages that are
  read, and with less than there are the run is cut off.
\<close>

fun gd_pages :: "nat \<Rightarrow> google_env \<Rightarrow> string \<Rightarrow> string option \<Rightarrow> remote_entry list \<Rightarrow> remote_entry list option gd_op" where
  "gd_pages 0 X parent_id page_token entries = op_of (Inr None)"
| "gd_pages (Suc n) X parent_id page_token entries =
     op_bind (gd_decode (gx_file_list X) (gd_expect (gd_json_request X GET (gd_page_url X parent_id page_token) None))) (\<lambda>page.
     let entries' = entries @ map gd_entry (dfl_files page) in
     case dfl_next_page_token page of
       Some t \<Rightarrow> gd_pages n X parent_id (Some t) entries'
     | None \<Rightarrow> op_of (Inr (Some entries')))"

definition gd_list_at :: "nat \<Rightarrow> google_env \<Rightarrow> string list \<Rightarrow> remote_entry list option gd_op" where
  "gd_list_at fuel X segments =
     op_bind (gd_ensure_fresh_token X) (\<lambda>_.
     op_bind (if segments = [] then gd_ensure_root_folder X else gd_resolve_dir_segments X segments) (\<lambda>parent_id.
     gd_pages fuel X parent_id None []))"

definition gd_delete_at :: "google_env \<Rightarrow> string list \<Rightarrow> bool \<Rightarrow> unit gd_op" where
  "gd_delete_at X segments hard =
     op_bind (gd_existing X segments) (\<lambda>f.
     op_bind (gd_ensure_fresh_token X) (\<lambda>_.
     let url = DRIVE_API_BASE @ ''/files/'' @ df_id f in
     op_bind (if hard then gd_expect (gd_json_request X DELETE url None)
              else gd_expect (gd_json_request X PATCH url
                     (Some (''application/json'', ''{'' @ [CHR 0x22] @ ''trashed'' @ [CHR 0x22] @ '':true}''))))
       (\<lambda>_. op_of (Inr ()))))"

definition gd_fetch_user_email :: "google_env \<Rightarrow> string gd_op" where
  "gd_fetch_user_email X =
     op_bind (gd_ensure_fresh_token X) (\<lambda>_.
     gd_decode (gx_about X) (gd_expect (gd_json_request X GET (DRIVE_API_BASE @ ''/about?fields=user(emailAddress)'') None)))"

end
