(* ===== verification/One_Drive_Client.thy ===== *)
theory One_Drive_Client
  imports Cloud
begin

text \<open>
  The OneDrive client (core/src/providers/onedrive): rest.rs, errors.rs and the
  configuration of its sign-in (mod.rs). An item is addressed by its name below the id of
  its folder.
\<close>

section \<open>Errors (errors.rs)\<close>

datatype one_drive_error = OdOauth device_flow_error | OdBadRoot | OdTokenExpired | OdUnauthorized | OdNotFound | OdConflict
  | OdRateLimited | OdServerError u16 | OdNetwork | OdTlsTrustFailed string | OdLocalIo | OdDecode

definition od_from_ureq_transport :: "ureq_error \<Rightarrow> one_drive_error" where
  "od_from_ureq_transport err = (case tls_trust_hint err of Some hint \<Rightarrow> OdTlsTrustFailed hint | None \<Rightarrow> OdNetwork)"

fun od_diagnose :: "one_drive_error \<Rightarrow> string" where
  "od_diagnose (OdOauth _) = ''oauth flow error''"
| "od_diagnose OdBadRoot = ''invalid root folder''"
| "od_diagnose OdTokenExpired = ''token expired''"
| "od_diagnose OdUnauthorized = ''auth failed''"
| "od_diagnose OdNotFound = ''not found''"
| "od_diagnose OdConflict = ''conflict''"
| "od_diagnose OdRateLimited = ''rate limited''"
| "od_diagnose (OdServerError _) = ''server error''"
| "od_diagnose OdNetwork = ''network error''"
| "od_diagnose (OdTlsTrustFailed _) = TLS_TRUST_HINT"
| "od_diagnose OdLocalIo = ''local file error''"
| "od_diagnose OdDecode = ''bad server response''"

section \<open>Names and texts (rest.rs)\<close>

definition GRAPH_BASE :: string where "GRAPH_BASE = ''https://graph.microsoft.com/v1.0''"
definition SMALL_UPLOAD_LIMIT_BYTES :: u64 where "SMALL_UPLOAD_LIMIT_BYTES = 4 * 1024 * 1024"
definition OD_EXPIRY_SKEW_SECS :: u64 where "OD_EXPIRY_SKEW_SECS = 60"

definition od_validate_filename :: "string \<Rightarrow> (one_drive_error, unit) result" where
  "od_validate_filename name =
     (if name = [] \<or> name = ''.'' \<or> name = ''..'' then Inl OdBadRoot
      else if CHR ''/'' \<in> set name \<or> CHR 0x00 \<in> set name then Inl OdBadRoot
      else Inr ())"

fun od_validate_all :: "string list \<Rightarrow> (one_drive_error, unit) result" where
  "od_validate_all [] = Inr ()"
| "od_validate_all (s # segs) = rbind (od_validate_filename s) (\<lambda>_. od_validate_all segs)"

definition OD_PATH :: "char \<Rightarrow> bool" where
  "OD_PATH c \<longleftrightarrow> (of_char c :: nat) < 32 \<or> (of_char c :: nat) = 127
     \<or> c \<in> set '' #<>%?/+'' \<or> c = CHR 0x22"

definition url_path_escape :: "'x cloud_env_scheme \<Rightarrow> string \<Rightarrow> string" where
  "url_path_escape X s = ce_pct X OD_PATH s"

definition od_classify_status :: "u16 \<Rightarrow> one_drive_error" where
  "od_classify_status s =
     (if s = 401 \<or> s = 403 then OdUnauthorized
      else if s = 404 then OdNotFound
      else if s = 409 then OdConflict
      else if s = 429 then OdRateLimited
      else OdServerError s)"

definition body_mentions_quota :: "string \<Rightarrow> bool" where
  "body_mentions_quota body \<longleftrightarrow> body_mentions body ''quotaLimitReached'' \<or> body_mentions body ''ResourceQuotaExceeded''"

definition od_classify_status_with_body :: "u16 \<Rightarrow> string \<Rightarrow> one_drive_error" where
  "od_classify_status_with_body s body =
     (if s = 507 \<or> body_mentions_quota body then OdServerError s else od_classify_status s)"

section \<open>The client (rest.rs, mod.rs)\<close>

definition ONEDRIVE_CLIENT_ID :: string where "ONEDRIVE_CLIENT_ID = ''586fdfce-2441-4cf6-ace5-39bf2489871d''"

definition od_device_flow_config :: device_flow_config where
  "od_device_flow_config =
     \<lparr>dfc_device_code_endpoint = ''https://login.microsoftonline.com/common/oauth2/v2.0/devicecode'',
      dfc_token_endpoint = ''https://login.microsoftonline.com/common/oauth2/v2.0/token'',
      dfc_client_id = ONEDRIVE_CLIENT_ID, dfc_client_secret = None,
      dfc_scope = ''Files.ReadWrite offline_access User.Read''\<rparr>"

record one_drive_client =
  odc_profile :: one_drive_profile
  odc_dirty :: bool

text \<open>What \<open>serde_json\<close> decodes from an answer.\<close>

record drive_item =
  di_id :: string
  di_name :: string
  di_size :: "u64 option"
  di_folder :: "json option"

definition is_folder :: "drive_item \<Rightarrow> bool" where
  "is_folder it \<longleftrightarrow> di_folder it \<noteq> None"

record children_page =
  cp_value :: "drive_item list"
  cp_next_link :: "string option"

record me_response =
  me_mail :: "string option"
  me_user_principal_name :: "string option"

record one_drive_env = cloud_env +
  ox_item :: "string \<Rightarrow> drive_item option"
  ox_children :: "string \<Rightarrow> children_page option"
  ox_me :: "string \<Rightarrow> me_response option"

type_synonym 'a od_op = "(one_drive_client, one_drive_error, 'a) op"

definition od_from_profile :: "one_drive_profile \<Rightarrow> (one_drive_error, one_drive_client) result" where
  "od_from_profile profile =
     (let trimmed = trim (od_root_folder profile) in
      if trimmed = [] \<or> CHR ''/'' \<in> set trimmed \<or> CHR 0x00 \<in> set trimmed then Inl OdBadRoot
      else Inr \<lparr>odc_profile = profile, odc_dirty = False\<rparr>)"

definition od_map_oauth :: "device_flow_error \<Rightarrow> one_drive_error" where
  "od_map_oauth e =
     (case e of
        DfNetwork \<Rightarrow> OdNetwork
      | DfDecode \<Rightarrow> OdDecode
      | DfServerError s \<Rightarrow> OdServerError s
      | DfInvalidClient \<Rightarrow> OdTokenExpired
      | DfInvalidGrant \<Rightarrow> OdTokenExpired
      | DfAccessDenied \<Rightarrow> OdTokenExpired
      | DfExpired \<Rightarrow> OdTokenExpired
      | other \<Rightarrow> OdOauth other)"

definition od_apply_refresh :: "u64 \<Rightarrow> token_response \<Rightarrow> one_drive_auth \<Rightarrow> one_drive_auth" where
  "od_apply_refresh now tokens auth =
     auth\<lparr>oda_access_token := tk_access_token tokens,
          oda_token_type := tk_token_type tokens,
          oda_expires_at := now + tk_expires_in tokens,
          oda_refresh_token := (case tk_refresh_token tokens of Some rt \<Rightarrow> rt | None \<Rightarrow> oda_refresh_token auth),
          oda_scope := (case tk_scope tokens of Some scope \<Rightarrow> scope | None \<Rightarrow> oda_scope auth)\<rparr>"

definition od_refresh_token_now :: "one_drive_env \<Rightarrow> unit od_op" where
  "od_refresh_token_now X =
     op_bind (op_get (\<lambda>c. oda_refresh_token (od_auth (odc_profile c)))) (\<lambda>refresh.
     op_bind (op_oauth od_map_oauth (df_refresh (ce_http X) (ce_oauth X) od_device_flow_config refresh)) (\<lambda>tokens.
     op_bind (op_now X) (\<lambda>now.
     op_set (\<lambda>c. \<lparr>odc_profile = (odc_profile c)\<lparr>od_auth := od_apply_refresh now tokens (od_auth (odc_profile c))\<rparr>,
                   odc_dirty = True\<rparr>))))"

definition od_ensure_fresh_token :: "one_drive_env \<Rightarrow> unit od_op" where
  "od_ensure_fresh_token X =
     op_bind (op_now X) (\<lambda>now.
     op_bind (op_get (\<lambda>c. oda_expires_at (od_auth (odc_profile c)) \<le> now + OD_EXPIRY_SKEW_SECS)) (\<lambda>needs_refresh.
     if \<not> needs_refresh then op_of (Inr ()) else od_refresh_token_now X))"

definition od_auth_header :: "one_drive_client \<Rightarrow> string" where
  "od_auth_header c = ''Bearer '' @ oda_access_token (od_auth (odc_profile c))"

definition od_json_request :: "one_drive_env \<Rightarrow> http_method \<Rightarrow> string \<Rightarrow> (string \<times> string) option \<Rightarrow> (u16 \<times> string) od_op" where
  "od_json_request X meth url body =
     op_bind (op_get od_auth_header) (\<lambda>auth.
     request X OdNetwork od_from_ureq_transport OdDecode meth url
       ([(''Authorization'', auth), (''User-Agent'', ''zz-drop''), (''Accept'', ''application/json'')]
          @ (case body of Some (ct, _) \<Rightarrow> [(''Content-Type'', ct)] | None \<Rightarrow> []))
       (case body of Some (_, b) \<Rightarrow> b | None \<Rightarrow> []))"

definition od_binary_get :: "one_drive_env \<Rightarrow> string \<Rightarrow> (u16 \<times> string) od_op" where
  "od_binary_get X url =
     op_bind (op_get od_auth_header) (\<lambda>auth.
     request X OdNetwork od_from_ureq_transport OdDecode GET url
       [(''Authorization'', auth), (''User-Agent'', ''zz-drop'')] [])"

definition od_binary_put :: "one_drive_env \<Rightarrow> string \<Rightarrow> string \<Rightarrow> (u16 \<times> string) od_op" where
  "od_binary_put X url body =
     op_bind (op_get od_auth_header) (\<lambda>auth.
     request X OdNetwork od_from_ureq_transport OdDecode PUT url
       [(''Authorization'', auth), (''User-Agent'', ''zz-drop''), (''Content-Type'', ''application/octet-stream'')] body)"

text \<open>An answer that is no success is an error.\<close>

definition od_expect :: "(u16 \<times> string) od_op \<Rightarrow> string od_op" where
  "od_expect m = op_bind m (\<lambda>(s, body). op_of (if is_success s then Inr body else Inl (od_classify_status s)))"

definition od_decode :: "(string \<Rightarrow> 'a option) \<Rightarrow> string od_op \<Rightarrow> 'a od_op" where
  "od_decode f m = op_bind m (\<lambda>bytes. op_of (case f bytes of Some x \<Rightarrow> Inr x | None \<Rightarrow> Inl OdDecode))"

section \<open>Folders and lookups (rest.rs)\<close>

definition folder_document :: "one_drive_env \<Rightarrow> string \<Rightarrow> string" where
  "folder_document X name = ce_json X (JObj [(''name'', JStr name), (''folder'', JObj []),
     (''@microsoft.graph.conflictBehavior'', JStr ''fail'')])"

definition od_create_folder_at_root :: "one_drive_env \<Rightarrow> string \<Rightarrow> string od_op" where
  "od_create_folder_at_root X name =
     op_bind (od_ensure_fresh_token X) (\<lambda>_.
     op_bind (od_decode (ox_item X) (od_expect (od_json_request X POST (GRAPH_BASE @ ''/me/drive/root/children'')
        (Some (''application/json'', folder_document X name))))) (\<lambda>parsed. op_of (Inr (di_id parsed))))"

definition od_find_or_create_folder_at_root :: "one_drive_env \<Rightarrow> string \<Rightarrow> string od_op" where
  "od_find_or_create_folder_at_root X name =
     op_bind (od_json_request X GET (GRAPH_BASE @ ''/me/drive/root:/'' @ url_path_escape X name) None) (\<lambda>(s, body).
     if s = 404 then od_create_folder_at_root X name
     else if \<not> is_success s then op_of (Inl (od_classify_status s))
     else op_of (case ox_item X body of
                   None \<Rightarrow> Inl OdDecode
                 | Some parsed \<Rightarrow> if is_folder parsed then Inr (di_id parsed) else Inl OdConflict))"

definition od_ensure_root_folder :: "one_drive_env \<Rightarrow> string od_op" where
  "od_ensure_root_folder X =
     op_bind (op_get (\<lambda>c. od_root_folder_id (odc_profile c))) (\<lambda>cached.
     case cached of
       Some fid \<Rightarrow> op_of (Inr fid)
     | None \<Rightarrow>
         op_bind (od_ensure_fresh_token X) (\<lambda>_.
         op_bind (op_get (\<lambda>c. od_root_folder (odc_profile c))) (\<lambda>name.
         op_bind (op_of (od_validate_filename name)) (\<lambda>_.
         op_bind (od_find_or_create_folder_at_root X name) (\<lambda>fid.
         op_bind (op_set (\<lambda>c. \<lparr>odc_profile = (odc_profile c)\<lparr>od_root_folder_id := Some fid\<rparr>, odc_dirty = True\<rparr>)) (\<lambda>_.
         op_of (Inr fid)))))))"

definition od_find_in_folder :: "one_drive_env \<Rightarrow> string \<Rightarrow> string \<Rightarrow> drive_item option od_op" where
  "od_find_in_folder X parent_id name =
     op_bind (od_ensure_fresh_token X) (\<lambda>_.
     op_bind (od_json_request X GET (GRAPH_BASE @ ''/me/drive/items/'' @ parent_id @ '':/'' @ url_path_escape X name) None) (\<lambda>(s, bytes).
     op_of (if s = 404 then Inr None
            else if \<not> is_success s then Inl (od_classify_status s)
            else case ox_item X bytes of None \<Rightarrow> Inl OdDecode | Some parsed \<Rightarrow> Inr (Some parsed))))"

definition od_create_folder_under :: "one_drive_env \<Rightarrow> string \<Rightarrow> string \<Rightarrow> string od_op" where
  "od_create_folder_under X parent_id name =
     op_bind (od_ensure_fresh_token X) (\<lambda>_.
     op_bind (od_decode (ox_item X) (od_expect (od_json_request X POST (GRAPH_BASE @ ''/me/drive/items/'' @ parent_id @ ''/children'')
        (Some (''application/json'', folder_document X name))))) (\<lambda>parsed. op_of (Inr (di_id parsed))))"

definition od_find_or_create_folder_under :: "one_drive_env \<Rightarrow> string \<Rightarrow> string \<Rightarrow> string od_op" where
  "od_find_or_create_folder_under X parent_id name =
     op_bind (od_find_in_folder X parent_id name) (\<lambda>found.
     case found of
       Some it \<Rightarrow> if is_folder it then op_of (Inr (di_id it)) else od_create_folder_under X parent_id name
     | None \<Rightarrow> od_create_folder_under X parent_id name)"

definition od_ensure_dir_segments :: "one_drive_env \<Rightarrow> string list \<Rightarrow> string od_op" where
  "od_ensure_dir_segments X segments =
     op_bind (op_of (od_validate_all segments)) (\<lambda>_.
     op_bind (od_ensure_root_folder X) (\<lambda>root.
     op_fold (\<lambda>seg current. od_find_or_create_folder_under X current seg) segments root))"

definition od_resolve_dir_segments :: "one_drive_env \<Rightarrow> string list \<Rightarrow> string od_op" where
  "od_resolve_dir_segments X segments =
     op_bind (od_ensure_root_folder X) (\<lambda>root.
     op_fold (\<lambda>seg current. op_bind (od_find_in_folder X current seg) (\<lambda>found.
        op_of (case found of
                 Some it \<Rightarrow> if is_folder it then Inr (di_id it) else Inl OdConflict
               | None \<Rightarrow> Inl OdNotFound))) segments root)"

definition od_resolve_file_path :: "one_drive_env \<Rightarrow> string list \<Rightarrow> drive_item option od_op" where
  "od_resolve_file_path X segments =
     (if segments = [] then op_of (Inl OdNotFound)
      else op_bind (op_of (od_validate_all segments)) (\<lambda>_.
           op_bind (if butlast segments = [] then od_ensure_root_folder X else od_resolve_dir_segments X (butlast segments))
             (\<lambda>parent_id. od_find_in_folder X parent_id (last segments))))"

text \<open>The item at a path, or \<open>NotFound\<close>.\<close>

definition od_existing :: "one_drive_env \<Rightarrow> string list \<Rightarrow> drive_item od_op" where
  "od_existing X segments =
     op_bind (od_resolve_file_path X segments) (\<lambda>found.
     op_of (case found of Some it \<Rightarrow> Inr it | None \<Rightarrow> Inl OdNotFound))"

section \<open>Transfers (rest.rs)\<close>

definition od_put_url :: "one_drive_env \<Rightarrow> string \<Rightarrow> string \<Rightarrow> string \<Rightarrow> string" where
  "od_put_url X parent_id leaf conflict_behavior =
     GRAPH_BASE @ ''/me/drive/items/'' @ parent_id @ '':/'' @ url_path_escape X leaf
       @ '':/content?@microsoft.graph.conflictBehavior='' @ conflict_behavior"

definition od_put_file_content :: "one_drive_env \<Rightarrow> string \<Rightarrow> string \<Rightarrow> string \<Rightarrow> string \<Rightarrow> unit od_op" where
  "od_put_file_content X parent_id leaf bytes conflict_behavior =
     op_bind (od_ensure_fresh_token X) (\<lambda>_.
     op_bind (od_binary_put X (od_put_url X parent_id leaf conflict_behavior) bytes) (\<lambda>(s, body).
     op_of (if is_success s then Inr () else Inl (od_classify_status_with_body s body))))"

definition od_upload_body :: "one_drive_env \<Rightarrow> string \<Rightarrow> string \<Rightarrow> string \<Rightarrow> collision_policy \<Rightarrow> nc_outcome od_op" where
  "od_upload_body X parent_id leaf body policy =
     (let size = of_nat (length body) :: u64;
          plain = \<lparr>no_final_name = leaf, no_size = size, no_renamed = False\<rparr> in
      case policy of
        Overwrite \<Rightarrow> op_bind (od_put_file_content X parent_id leaf body ''replace'') (\<lambda>_. op_of (Inr plain))
      | Fail \<Rightarrow>
          op_bind (od_find_in_folder X parent_id leaf) (\<lambda>found.
          if found \<noteq> None then op_of (Inl OdConflict)
          else op_bind (od_put_file_content X parent_id leaf body ''fail'') (\<lambda>_. op_of (Inr plain)))
      | Rename \<Rightarrow>
          try_names X OdConflict
            (\<lambda>candidate. op_bind (od_find_in_folder X parent_id candidate) (\<lambda>found. op_of (Inr (found \<noteq> None))))
            (\<lambda>candidate. od_put_file_content X parent_id candidate body ''fail'')
            leaf size [0..<Suc (unat RENAME_MAX_TRIES)])"

definition od_upload_to :: "one_drive_env \<Rightarrow> string \<Rightarrow> string list \<Rightarrow> collision_policy \<Rightarrow> nc_outcome od_op" where
  "od_upload_to X local segments policy =
     (if segments = [] then op_of (Inl OdBadRoot)
      else op_bind (op_of (od_validate_all segments)) (\<lambda>_.
           op_bind (if butlast segments = [] then od_ensure_root_folder X else od_ensure_dir_segments X (butlast segments)) (\<lambda>parent_id.
           op_bind (op_read_file X OdLocalIo local) (\<lambda>body.
           if SMALL_UPLOAD_LIMIT_BYTES < of_nat (length body) then op_of (Inl (OdServerError 413))
           else od_upload_body X parent_id (last segments) body policy))))"

text \<open>
  The answer to the request for \<open>/content\<close> is a redirect to a download URL on another host, which
  the HTTP library follows: the log has the first request, the answer is that of the last.
\<close>

definition od_download_from :: "one_drive_env \<Rightarrow> string list \<Rightarrow> string \<Rightarrow> u64 od_op" where
  "od_download_from X segments dest =
     op_bind (od_existing X segments) (\<lambda>it.
     if is_folder it then op_of (Inl OdConflict)
     else op_bind (od_ensure_fresh_token X) (\<lambda>_.
          op_bind (od_expect (od_binary_get X (GRAPH_BASE @ ''/me/drive/items/'' @ di_id it @ ''/content''))) (\<lambda>body.
          op_bind (op_write_file X OdLocalIo dest body) (\<lambda>_. op_of (Inr (of_nat (length body)))))))"

section \<open>Listings and the rest (rest.rs)\<close>

definition od_entry :: "drive_item \<Rightarrow> remote_entry" where
  "od_entry it = \<lparr>rm_name = di_name it, rm_size = di_size it, rm_is_directory = is_folder it\<rparr>"

text \<open>
  The server names the URL of the next page; the fuel is the number of pages that are
  read, and with less than there are the run is cut off.
\<close>

fun od_pages :: "nat \<Rightarrow> one_drive_env \<Rightarrow> string option \<Rightarrow> remote_entry list \<Rightarrow> remote_entry list option od_op" where
  "od_pages n X None entries = op_of (Inr (Some entries))"
| "od_pages 0 X (Some url) entries = op_of (Inr None)"
| "od_pages (Suc n) X (Some url) entries =
     op_bind (od_decode (ox_children X) (od_expect (od_json_request X GET url None))) (\<lambda>page.
     od_pages n X (cp_next_link page) (entries @ map od_entry (cp_value page)))"

definition od_list_at :: "nat \<Rightarrow> one_drive_env \<Rightarrow> string list \<Rightarrow> remote_entry list option od_op" where
  "od_list_at fuel X segments =
     op_bind (od_ensure_fresh_token X) (\<lambda>_.
     op_bind (if segments = [] then od_ensure_root_folder X else od_resolve_dir_segments X segments) (\<lambda>parent_id.
     od_pages fuel X (Some (GRAPH_BASE @ ''/me/drive/items/'' @ parent_id @ ''/children'')) []))"

definition od_delete_at :: "one_drive_env \<Rightarrow> string list \<Rightarrow> bool \<Rightarrow> unit od_op" where
  "od_delete_at X segments hard =
     op_bind (od_existing X segments) (\<lambda>it.
     op_bind (od_ensure_fresh_token X) (\<lambda>_.
     op_bind (od_expect (od_json_request X DELETE (GRAPH_BASE @ ''/me/drive/items/'' @ di_id it) None)) (\<lambda>_. op_of (Inr ()))))"

definition od_fetch_user_email :: "one_drive_env \<Rightarrow> string od_op" where
  "od_fetch_user_email X =
     op_bind (od_ensure_fresh_token X) (\<lambda>_.
     op_bind (od_decode (ox_me X) (od_expect (od_json_request X GET (GRAPH_BASE @ ''/me?$select=mail,userPrincipalName'') None))) (\<lambda>parsed.
     op_of (Inr (case me_mail parsed of Some m \<Rightarrow> m
                 | None \<Rightarrow> (case me_user_principal_name parsed of Some u \<Rightarrow> u | None \<Rightarrow> [])))))"

end
