(* ===== verification/Dropbox_Client.thy ===== *)
theory Dropbox_Client
  imports Cloud
begin

text \<open>
  The Dropbox client (core/src/providers/dropbox): rest.rs, errors.rs and the
  configuration of its sign-in (mod.rs). Paths are relative to the folder of the app.
\<close>

section \<open>Errors (errors.rs)\<close>

datatype dropbox_error = DbOauth paste_code_error | DbBadRoot | DbTokenExpired | DbUnauthorized | DbNotFound | DbConflict
  | DbRateLimited | DbServerError u16 | DbNetwork | DbTlsTrustFailed string | DbLocalIo | DbDecode

definition db_from_ureq_transport :: "ureq_error \<Rightarrow> dropbox_error" where
  "db_from_ureq_transport err = (case tls_trust_hint err of Some hint \<Rightarrow> DbTlsTrustFailed hint | None \<Rightarrow> DbNetwork)"

fun db_diagnose :: "dropbox_error \<Rightarrow> string" where
  "db_diagnose (DbOauth _) = ''oauth flow error''"
| "db_diagnose DbBadRoot = ''invalid root folder''"
| "db_diagnose DbTokenExpired = ''token expired''"
| "db_diagnose DbUnauthorized = ''auth failed''"
| "db_diagnose DbNotFound = ''not found''"
| "db_diagnose DbConflict = ''conflict''"
| "db_diagnose DbRateLimited = ''rate limited''"
| "db_diagnose (DbServerError _) = ''server error''"
| "db_diagnose DbNetwork = ''network error''"
| "db_diagnose (DbTlsTrustFailed _) = TLS_TRUST_HINT"
| "db_diagnose DbLocalIo = ''local file error''"
| "db_diagnose DbDecode = ''bad server response''"

section \<open>Names and texts (rest.rs)\<close>

definition db_validate_filename :: "string \<Rightarrow> (dropbox_error, unit) result" where
  "db_validate_filename name =
     (if name = [] \<or> name = ''.'' \<or> name = ''..'' then Inl DbBadRoot
      else if CHR ''/'' \<in> set name \<or> CHR 0x00 \<in> set name then Inl DbBadRoot
      else Inr ())"

definition db_validate_root_folder :: "string \<Rightarrow> (dropbox_error, unit) result" where
  "db_validate_root_folder name = (if name = [] then Inr () else db_validate_filename name)"

fun db_validate_all :: "string list \<Rightarrow> (dropbox_error, unit) result" where
  "db_validate_all [] = Inr ()"
| "db_validate_all (s # segs) = rbind (db_validate_filename s) (\<lambda>_. db_validate_all segs)"

definition join_path :: "string \<Rightarrow> string \<Rightarrow> string" where
  "join_path parent_path leaf = parent_path @ ''/'' @ leaf"

definition classify_status_with_body :: "u16 \<Rightarrow> string \<Rightarrow> dropbox_error" where
  "classify_status_with_body s body =
     (if s = 401 \<or> s = 403 then DbUnauthorized
      else if s = 409 then (if body_mentions body ''not_found'' then DbNotFound else DbConflict)
      else if s = 429 then DbRateLimited
      else DbServerError s)"

text \<open>The code point that a text starts with, and the rest; the text is UTF-8.\<close>

fun next_char :: "string \<Rightarrow> nat \<times> string" where
  "next_char [] = (0, [])"
| "next_char (b # s) =
     (let v = of_char b :: nat; tail = (\<lambda>k. (of_char (s ! k) :: nat) mod 64) in
      if v < 128 then (v, s)
      else if v < 224 then ((v mod 32) * 64 + tail 0, drop 1 s)
      else if v < 240 then ((v mod 16) * 4096 + tail 0 * 64 + tail 1, drop 2 s)
      else ((v mod 8) * 262144 + tail 0 * 4096 + tail 1 * 64 + tail 2, drop 3 s))"

definition hex_lower :: "nat \<Rightarrow> char" where
  "hex_lower n = char_of (if n < 10 then 48 + n else 87 + n)"

text \<open>\<open>{:04x}\<close> of a value below \<open>2 ^ 16\<close>.\<close>

definition hex4 :: "nat \<Rightarrow> string" where
  "hex4 n = [hex_lower (n div 4096), hex_lower (n div 256 mod 16), hex_lower (n div 16 mod 16), hex_lower (n mod 16)]"

definition escape_code :: "nat \<Rightarrow> string" where
  "escape_code code =
     (if code < 0x80 then [char_of code]
      else if code \<le> 0xFFFF then CHR 0x5C # CHR ''u'' # hex4 code
      else let off = code - 0x10000;
               high = or 0xD800 (drop_bit 10 off);
               low = or 0xDC00 (and off 0x3FF)
           in CHR 0x5C # CHR ''u'' # hex4 high @ CHR 0x5C # CHR ''u'' # hex4 low)"

function ascii_safe_json :: "string \<Rightarrow> string" where
  "ascii_safe_json s =
     (if s = [] then [] else let (code, rest) = next_char s in escape_code code @ ascii_safe_json rest)"
  by auto
termination
proof (relation "measure length")
  fix s :: string and x code rest
  assume "s \<noteq> []" "x = next_char s" "(code, rest) = x"
  then show "(rest, s) \<in> measure length" by (cases s) (auto simp: Let_def split: if_splits)
qed simp

declare ascii_safe_json.simps [simp del]

section \<open>The client (rest.rs, mod.rs)\<close>

definition API_BASE :: string where "API_BASE = ''https://api.dropboxapi.com/2''"
definition CONTENT_BASE :: string where "CONTENT_BASE = ''https://content.dropboxapi.com/2''"
definition SINGLE_SHOT_UPLOAD_LIMIT_BYTES :: u64 where "SINGLE_SHOT_UPLOAD_LIMIT_BYTES = 150 * 1024 * 1024"
definition DB_EXPIRY_SKEW_SECS :: u64 where "DB_EXPIRY_SKEW_SECS = 60"
definition DROPBOX_CLIENT_ID :: string where "DROPBOX_CLIENT_ID = ''a0flnzy6nrinjt1''"

definition db_paste_code_config :: paste_code_config where
  "db_paste_code_config =
     \<lparr>pcc_authorize_endpoint = ''https://www.dropbox.com/oauth2/authorize'',
      pcc_token_endpoint = ''https://api.dropboxapi.com/oauth2/token'',
      pcc_client_id = DROPBOX_CLIENT_ID, pcc_authorize_extra = [(''token_access_type'', ''offline'')],
      pcc_scope = None\<rparr>"

record dropbox_client =
  dbc_profile :: dropbox_profile
  dbc_dirty :: bool

text \<open>What \<open>serde_json\<close> decodes from an answer.\<close>

record db_list_entry =
  dle_tag :: string
  dle_name :: string
  dle_size :: "u64 option"

record list_folder_page =
  lfp_entries :: "db_list_entry list"
  lfp_cursor :: string
  lfp_has_more :: bool

record dropbox_env = cloud_env +
  dx_list_page :: "string \<Rightarrow> list_folder_page option"
  dx_account :: "string \<Rightarrow> string option option"

type_synonym 'a db_op = "(dropbox_client, dropbox_error, 'a) op"

definition db_from_profile :: "dropbox_profile \<Rightarrow> (dropbox_error, dropbox_client) result" where
  "db_from_profile profile =
     rbind (db_validate_root_folder (trim (db_root_folder profile)))
       (\<lambda>_. Inr \<lparr>dbc_profile = profile, dbc_dirty = False\<rparr>)"

definition db_map_oauth :: "paste_code_error \<Rightarrow> dropbox_error" where
  "db_map_oauth e =
     (case e of
        PcNetwork \<Rightarrow> DbNetwork
      | PcDecode \<Rightarrow> DbDecode
      | PcServerError s \<Rightarrow> DbServerError s
      | PcInvalidClient \<Rightarrow> DbTokenExpired
      | PcInvalidGrant \<Rightarrow> DbTokenExpired
      | PcAccessDenied \<Rightarrow> DbTokenExpired
      | PcExpired \<Rightarrow> DbTokenExpired
      | other \<Rightarrow> DbOauth other)"

definition db_apply_refresh :: "u64 \<Rightarrow> token_response \<Rightarrow> dropbox_auth \<Rightarrow> dropbox_auth" where
  "db_apply_refresh now tokens auth =
     auth\<lparr>dba_access_token := tk_access_token tokens,
          dba_token_type := tk_token_type tokens,
          dba_expires_at := now + tk_expires_in tokens,
          dba_refresh_token := (case tk_refresh_token tokens of Some rt \<Rightarrow> rt | None \<Rightarrow> dba_refresh_token auth),
          dba_scope := (case tk_scope tokens of Some scope \<Rightarrow> scope | None \<Rightarrow> dba_scope auth)\<rparr>"

text \<open>The flow of a renewal has a verifier of its own, which the form does not contain.\<close>

definition db_refresh_token_now :: "dropbox_env \<Rightarrow> unit db_op" where
  "db_refresh_token_now X =
     op_bind (op_get (\<lambda>c. dba_refresh_token (db_auth (dbc_profile c)))) (\<lambda>refresh.
     op_bind (op_random X) (\<lambda>random.
     let flow = paste_code_flow_new (ce_oauth X) (map (char_of \<circ> unat) random) db_paste_code_config in
     op_bind (op_oauth db_map_oauth (pc_refresh (ce_http X) (ce_oauth X) flow refresh)) (\<lambda>tokens.
     op_bind (op_now X) (\<lambda>now.
     op_set (\<lambda>c. \<lparr>dbc_profile = (dbc_profile c)\<lparr>db_auth := db_apply_refresh now tokens (db_auth (dbc_profile c))\<rparr>,
                   dbc_dirty = True\<rparr>)))))"

definition db_ensure_fresh_token :: "dropbox_env \<Rightarrow> unit db_op" where
  "db_ensure_fresh_token X =
     op_bind (op_now X) (\<lambda>now.
     op_bind (op_get (\<lambda>c. dba_expires_at (db_auth (dbc_profile c)) \<le> now + DB_EXPIRY_SKEW_SECS)) (\<lambda>needs_refresh.
     if \<not> needs_refresh then op_of (Inr ()) else db_refresh_token_now X))"

definition db_auth_header :: "dropbox_client \<Rightarrow> string" where
  "db_auth_header c = ''Bearer '' @ dba_access_token (db_auth (dbc_profile c))"

definition db_request :: "dropbox_env \<Rightarrow> string \<Rightarrow> (string \<times> string) list \<Rightarrow> string \<Rightarrow> (u16 \<times> string) db_op" where
  "db_request X url headers body =
     op_bind (op_get db_auth_header) (\<lambda>auth.
     request X DbNetwork db_from_ureq_transport DbDecode POST url
       ((''Authorization'', auth) # (''User-Agent'', ''zz-drop'') # headers) body)"

definition db_json_post :: "dropbox_env \<Rightarrow> string \<Rightarrow> string \<Rightarrow> (u16 \<times> string) db_op" where
  "db_json_post X url body =
     db_request X url [(''Content-Type'', ''application/json''), (''Accept'', ''application/json'')] body"

definition db_no_arg_post :: "dropbox_env \<Rightarrow> string \<Rightarrow> (u16 \<times> string) db_op" where
  "db_no_arg_post X url = db_request X url [(''Accept'', ''application/json'')] []"

definition db_binary_post :: "dropbox_env \<Rightarrow> string \<Rightarrow> string \<Rightarrow> string \<Rightarrow> (u16 \<times> string) db_op" where
  "db_binary_post X url arg_json_ascii body =
     db_request X url [(''Dropbox-API-Arg'', arg_json_ascii), (''Content-Type'', ''application/octet-stream'')] body"

definition db_binary_post_no_body :: "dropbox_env \<Rightarrow> string \<Rightarrow> string \<Rightarrow> (u16 \<times> string) db_op" where
  "db_binary_post_no_body X url arg_json_ascii = db_request X url [(''Dropbox-API-Arg'', arg_json_ascii)] []"

text \<open>An answer that is no success is an error.\<close>

definition db_expect :: "(u16 \<times> string) db_op \<Rightarrow> string db_op" where
  "db_expect m = op_bind m (\<lambda>(s, body). op_of (if is_success s then Inr body else Inl (classify_status_with_body s body)))"

definition root_prefix :: "dropbox_client \<Rightarrow> string" where
  "root_prefix c = (let root = db_root_folder (dbc_profile c) in if root = [] then [] else ''/'' @ root)"

definition path_for_segments :: "string list \<Rightarrow> dropbox_client \<Rightarrow> string" where
  "path_for_segments segments c = root_prefix c @ concat (map (\<lambda>s. ''/'' @ s) segments)"

definition create_folder_idempotent :: "dropbox_env \<Rightarrow> string \<Rightarrow> unit db_op" where
  "create_folder_idempotent X path =
     op_bind (db_ensure_fresh_token X) (\<lambda>_.
     op_bind (db_json_post X (API_BASE @ ''/files/create_folder_v2'')
        (ce_json X (JObj [(''path'', JStr path), (''autorename'', JBool False)]))) (\<lambda>(s, bytes).
     op_of (if is_success s then Inr ()
            else if s = 409 \<and> body_mentions bytes ''path/conflict'' then Inr ()
            else Inl (classify_status_with_body s bytes))))"

definition db_ensure_root_folder :: "dropbox_env \<Rightarrow> unit db_op" where
  "db_ensure_root_folder X =
     op_bind (db_ensure_fresh_token X) (\<lambda>_.
     op_bind (op_get (\<lambda>c. db_root_folder (dbc_profile c))) (\<lambda>root.
     op_bind (op_of (db_validate_root_folder root)) (\<lambda>_.
     if root = [] then op_of (Inr ()) else create_folder_idempotent X (''/'' @ root))))"

definition db_ensure_dir_segments :: "dropbox_env \<Rightarrow> string list \<Rightarrow> unit db_op" where
  "db_ensure_dir_segments X segments =
     op_bind (op_of (db_validate_all segments)) (\<lambda>_.
     op_bind (db_ensure_root_folder X) (\<lambda>_.
     op_bind (op_get root_prefix) (\<lambda>prefix.
     op_bind (op_fold (\<lambda>seg path. op_bind (create_folder_idempotent X (path @ ''/'' @ seg)) (\<lambda>_. op_of (Inr (path @ ''/'' @ seg))))
        segments prefix) (\<lambda>_. op_of (Inr ())))))"

definition db_path_exists :: "dropbox_env \<Rightarrow> string \<Rightarrow> bool db_op" where
  "db_path_exists X path =
     op_bind (db_ensure_fresh_token X) (\<lambda>_.
     op_bind (db_json_post X (API_BASE @ ''/files/get_metadata'') (ce_json X (JObj [(''path'', JStr path)]))) (\<lambda>(s, bytes).
     op_of (if is_success s then Inr True
            else if s = 409 \<and> body_mentions bytes ''not_found'' then Inr False
            else Inl (classify_status_with_body s bytes))))"

definition upload_arg :: "dropbox_env \<Rightarrow> string \<Rightarrow> string \<Rightarrow> string" where
  "upload_arg X path mode = ascii_safe_json (ce_json X (JObj [(''path'', JStr path), (''mode'', JStr mode),
     (''autorename'', JBool False), (''mute'', JBool True), (''strict_conflict'', JBool False)]))"

definition db_upload_bytes :: "dropbox_env \<Rightarrow> string \<Rightarrow> string \<Rightarrow> string \<Rightarrow> unit db_op" where
  "db_upload_bytes X path bytes mode =
     op_bind (db_ensure_fresh_token X) (\<lambda>_.
     op_bind (db_expect (db_binary_post X (CONTENT_BASE @ ''/files/upload'') (upload_arg X path mode) bytes))
       (\<lambda>_. op_of (Inr ())))"

definition db_upload_body :: "dropbox_env \<Rightarrow> string \<Rightarrow> string \<Rightarrow> string \<Rightarrow> collision_policy \<Rightarrow> nc_outcome db_op" where
  "db_upload_body X parent_path leaf body policy =
     (let size = of_nat (length body) :: u64;
          plain = \<lparr>no_final_name = leaf, no_size = size, no_renamed = False\<rparr> in
      case policy of
        Overwrite \<Rightarrow> op_bind (db_upload_bytes X (join_path parent_path leaf) body ''overwrite'') (\<lambda>_. op_of (Inr plain))
      | Fail \<Rightarrow>
          op_bind (db_path_exists X (join_path parent_path leaf)) (\<lambda>there.
          if there then op_of (Inl DbConflict)
          else op_bind (db_upload_bytes X (join_path parent_path leaf) body ''add'') (\<lambda>_. op_of (Inr plain)))
      | Rename \<Rightarrow>
          try_names X DbConflict (\<lambda>candidate. db_path_exists X (join_path parent_path candidate))
            (\<lambda>candidate. db_upload_bytes X (join_path parent_path candidate) body ''add'')
            leaf size [0..<Suc (unat RENAME_MAX_TRIES)])"

definition db_upload_to :: "dropbox_env \<Rightarrow> string \<Rightarrow> string list \<Rightarrow> collision_policy \<Rightarrow> nc_outcome db_op" where
  "db_upload_to X local segments policy =
     (if segments = [] then op_of (Inl DbBadRoot)
      else op_bind (op_of (db_validate_all segments)) (\<lambda>_.
           op_bind (if butlast segments \<noteq> [] then db_ensure_dir_segments X (butlast segments) else db_ensure_root_folder X) (\<lambda>_.
           op_bind (op_read_file X DbLocalIo local) (\<lambda>body.
           if SINGLE_SHOT_UPLOAD_LIMIT_BYTES < of_nat (length body) then op_of (Inl (DbServerError 413))
           else op_bind (op_get (path_for_segments (butlast segments))) (\<lambda>parent_path.
                db_upload_body X parent_path (last segments) body policy)))))"

definition db_download_from :: "dropbox_env \<Rightarrow> string list \<Rightarrow> string \<Rightarrow> u64 db_op" where
  "db_download_from X segments dest =
     (if segments = [] then op_of (Inl DbNotFound)
      else op_bind (op_of (db_validate_all segments)) (\<lambda>_.
           op_bind (db_ensure_fresh_token X) (\<lambda>_.
           op_bind (op_get (path_for_segments segments)) (\<lambda>path.
           op_bind (db_expect (db_binary_post_no_body X (CONTENT_BASE @ ''/files/download'')
              (ascii_safe_json (ce_json X (JObj [(''path'', JStr path)]))))) (\<lambda>body.
           op_bind (op_write_file X DbLocalIo dest body) (\<lambda>_. op_of (Inr (of_nat (length body)))))))))"

definition absorb_entries :: "list_folder_page \<Rightarrow> remote_entry list \<Rightarrow> remote_entry list" where
  "absorb_entries page into =
     into @ List.map_filter (\<lambda>e.
       if dle_tag e = ''folder'' then Some \<lparr>rm_name = dle_name e, rm_size = None, rm_is_directory = True\<rparr>
       else if dle_tag e = ''file'' then Some \<lparr>rm_name = dle_name e, rm_size = dle_size e, rm_is_directory = False\<rparr>
       else None) (lfp_entries page)"

text \<open>One page, or its error.\<close>

definition db_page :: "dropbox_env \<Rightarrow> string \<Rightarrow> json \<Rightarrow> list_folder_page db_op" where
  "db_page X url arg =
     op_bind (db_expect (db_json_post X url (ce_json X arg))) (\<lambda>bytes.
     op_of (case dx_list_page X bytes of Some page \<Rightarrow> Inr page | None \<Rightarrow> Inl DbDecode))"

text \<open>
  The pages after the first. The server decides how many there are; without fuel left the
  run is cut off.
\<close>

fun db_more_pages :: "nat \<Rightarrow> dropbox_env \<Rightarrow> list_folder_page \<Rightarrow> remote_entry list \<Rightarrow> remote_entry list option db_op" where
  "db_more_pages n X page entries =
     (let entries' = absorb_entries page entries in
      if \<not> lfp_has_more page then op_of (Inr (Some entries'))
      else case n of
             0 \<Rightarrow> op_of (Inr None)
           | Suc m \<Rightarrow>
               op_bind (db_page X (API_BASE @ ''/files/list_folder/continue'') (JObj [(''cursor'', JStr (lfp_cursor page))])) (\<lambda>next.
               db_more_pages m X next entries'))"

declare db_more_pages.simps [simp del]

definition db_list_at :: "nat \<Rightarrow> dropbox_env \<Rightarrow> string list \<Rightarrow> remote_entry list option db_op" where
  "db_list_at fuel X segments =
     op_bind (op_of (db_validate_all segments)) (\<lambda>_.
     op_bind (db_ensure_fresh_token X) (\<lambda>_.
     op_bind (op_get (path_for_segments segments)) (\<lambda>path.
     op_bind (db_page X (API_BASE @ ''/files/list_folder'')
        (JObj [(''path'', JStr path), (''recursive'', JBool False), (''include_deleted'', JBool False),
               (''include_has_explicit_shared_members'', JBool False), (''include_mounted_folders'', JBool True)])) (\<lambda>page.
     db_more_pages fuel X page []))))"

definition db_delete_at :: "dropbox_env \<Rightarrow> string list \<Rightarrow> bool \<Rightarrow> unit db_op" where
  "db_delete_at X segments hard =
     (if segments = [] then op_of (Inl DbNotFound)
      else op_bind (op_of (db_validate_all segments)) (\<lambda>_.
           op_bind (db_ensure_fresh_token X) (\<lambda>_.
           op_bind (op_get (path_for_segments segments)) (\<lambda>path.
           op_bind (db_expect (db_json_post X (API_BASE @ ''/files/delete_v2'') (ce_json X (JObj [(''path'', JStr path)]))))
             (\<lambda>_. op_of (Inr ()))))))"

definition db_fetch_user_email :: "dropbox_env \<Rightarrow> string db_op" where
  "db_fetch_user_email X =
     op_bind (db_ensure_fresh_token X) (\<lambda>_.
     op_bind (db_expect (db_no_arg_post X (API_BASE @ ''/users/get_current_account''))) (\<lambda>bytes.
     op_of (case dx_account X bytes of
              None \<Rightarrow> Inl DbDecode
            | Some email \<Rightarrow> Inr (case email of Some e \<Rightarrow> e | None \<Rightarrow> []))))"

end
