(* ===== verification/Remote_Fs.thy ===== *)
theory Remote_Fs
  imports Nextcloud Google_Drive_Client One_Drive_Client Dropbox_Client
begin

text \<open>
  The provider of a command (src/commands/remote_fs.rs, \<open>build_remote\<close> in
  commands/mod.rs): one of the four clients behind the trait \<open>RemoteFs\<close>, whose errors are
  the one-line diagnoses of the client, and the profile that is pushed back to the agent
  after a run. The in-memory provider of the tests is left out.
\<close>

datatype 'u any_client = NextcloudFs "'u nextcloud_client" | GoogleDriveFs google_drive_client
  | OneDriveFs one_drive_client | DropboxFs dropbox_client

text \<open>\<open>rc_fuel\<close> bounds the pages of one listing.\<close>

record 'u remote_crates =
  rc_http :: http_env
  rc_pct :: percent_encoder
  rc_urls :: "'u url_crate"
  rc_events :: "string \<Rightarrow> xml_event list"
  rc_decode :: "string \<Rightarrow> string"
  rc_google :: google_env
  rc_one_drive :: one_drive_env
  rc_dropbox :: dropbox_env
  rc_fuel :: nat

type_synonym ('u, 'a) fs_op = "'u any_client \<times> http_world \<Rightarrow> ('u any_client \<times> http_world) \<times> (string, 'a) result"

definition no_provider :: string where "no_provider = ''no provider configured in profile''"

definition newer_provider :: string where
  "newer_provider = ''this alias was set up by a newer zz-drop '' @ [CHR 0xE2, CHR 0x80, CHR 0x94] @ '' upgrade zz-drop to use it''"

definition open_client :: "'u remote_crates \<Rightarrow> provider_profile list \<Rightarrow> (string, 'u any_client) result" where
  "open_client R providers =
     (case providers of
        [] \<Rightarrow> Inl no_provider
      | Nextcloud nc # _ \<Rightarrow> rmap_err diagnose (rbind (from_profile (rc_pct R) (rc_urls R) nc) (\<lambda>c. Inr (NextcloudFs c)))
      | GoogleDrive gd # _ \<Rightarrow> rmap_err gd_diagnose (rbind (gd_from_profile gd) (\<lambda>c. Inr (GoogleDriveFs c)))
      | OneDrive od # _ \<Rightarrow> rmap_err od_diagnose (rbind (od_from_profile od) (\<lambda>c. Inr (OneDriveFs c)))
      | Dropbox db # _ \<Rightarrow> rmap_err db_diagnose (rbind (db_from_profile db) (\<lambda>c. Inr (DropboxFs c)))
      | Unknown _ # _ \<Rightarrow> Inl newer_provider)"

text \<open>An operation of one client as one of the provider, and one of Nextcloud, whose client never changes.\<close>

definition through :: "('c \<Rightarrow> 'u any_client) \<Rightarrow> ('e \<Rightarrow> string) \<Rightarrow> ('c, 'e, 'a) op \<Rightarrow> 'c \<Rightarrow> http_world
    \<Rightarrow> ('u any_client \<times> http_world) \<times> (string, 'a) result" where
  "through wrap diag m c w = (case m (c, w) of ((c', w'), r) \<Rightarrow> ((wrap c', w'), rmap_err diag r))"

definition unchanged :: "(http_world \<Rightarrow> http_world \<times> ('e, 'a) result) \<Rightarrow> ('c, 'e, 'a) op" where
  "unchanged f s = (case f (snd s) of (w, r) \<Rightarrow> ((fst s, w), r))"

fun fs_ensure_dir :: "'u remote_crates \<Rightarrow> string list \<Rightarrow> ('u, unit) fs_op" where
  "fs_ensure_dir R segments (NextcloudFs c, w) =
     through NextcloudFs diagnose (unchanged (ensure_dir_segments (rc_http R) (rc_pct R) (rc_urls R) c segments)) c w"
| "fs_ensure_dir R segments (GoogleDriveFs c, w) =
     through GoogleDriveFs gd_diagnose (op_bind (gd_ensure_dir_segments (rc_google R) segments) (\<lambda>_. op_of (Inr ()))) c w"
| "fs_ensure_dir R segments (OneDriveFs c, w) =
     through OneDriveFs od_diagnose (op_bind (od_ensure_dir_segments (rc_one_drive R) segments) (\<lambda>_. op_of (Inr ()))) c w"
| "fs_ensure_dir R segments (DropboxFs c, w) =
     through DropboxFs db_diagnose (db_ensure_dir_segments (rc_dropbox R) segments) c w"

fun fs_upload :: "'u remote_crates \<Rightarrow> string \<Rightarrow> string list \<Rightarrow> collision_policy \<Rightarrow> ('u, nc_outcome) fs_op" where
  "fs_upload R local segments policy (NextcloudFs c, w) =
     through NextcloudFs diagnose (unchanged (nc_upload_to (rc_http R) (rc_pct R) (rc_urls R) c local segments policy)) c w"
| "fs_upload R local segments policy (GoogleDriveFs c, w) =
     through GoogleDriveFs gd_diagnose (gd_upload_to (rc_google R) local segments policy) c w"
| "fs_upload R local segments policy (OneDriveFs c, w) =
     through OneDriveFs od_diagnose (od_upload_to (rc_one_drive R) local segments policy) c w"
| "fs_upload R local segments policy (DropboxFs c, w) =
     through DropboxFs db_diagnose (db_upload_to (rc_dropbox R) local segments policy) c w"

fun fs_download :: "'u remote_crates \<Rightarrow> string list \<Rightarrow> string \<Rightarrow> ('u, u64) fs_op" where
  "fs_download R segments dest (NextcloudFs c, w) =
     through NextcloudFs diagnose (unchanged (nc_download_from (rc_http R) (rc_pct R) (rc_urls R) c segments dest)) c w"
| "fs_download R segments dest (GoogleDriveFs c, w) =
     through GoogleDriveFs gd_diagnose (gd_download_from (rc_google R) segments dest) c w"
| "fs_download R segments dest (OneDriveFs c, w) =
     through OneDriveFs od_diagnose (od_download_from (rc_one_drive R) segments dest) c w"
| "fs_download R segments dest (DropboxFs c, w) =
     through DropboxFs db_diagnose (db_download_from (rc_dropbox R) segments dest) c w"

text \<open>\<open>None\<close> is a listing that was cut off.\<close>

fun fs_list :: "'u remote_crates \<Rightarrow> string list \<Rightarrow> ('u, remote_entry list option) fs_op" where
  "fs_list R segments (NextcloudFs c, w) =
     through NextcloudFs diagnose (op_bind (unchanged
       (nc_list_at (rc_http R) (rc_pct R) (rc_events R) (rc_decode R) (rc_urls R) c segments)) (\<lambda>es. op_of (Inr (Some es)))) c w"
| "fs_list R segments (GoogleDriveFs c, w) =
     through GoogleDriveFs gd_diagnose (gd_list_at (rc_fuel R) (rc_google R) segments) c w"
| "fs_list R segments (OneDriveFs c, w) =
     through OneDriveFs od_diagnose (od_list_at (rc_fuel R) (rc_one_drive R) segments) c w"
| "fs_list R segments (DropboxFs c, w) =
     through DropboxFs db_diagnose (db_list_at (rc_fuel R) (rc_dropbox R) segments) c w"

fun fs_pending :: "'u any_client \<Rightarrow> provider_profile option" where
  "fs_pending (NextcloudFs _) = None"
| "fs_pending (GoogleDriveFs g) = (if gdc_dirty g then Some (GoogleDrive (gdc_profile g)) else None)"
| "fs_pending (OneDriveFs o1) = (if odc_dirty o1 then Some (OneDrive (odc_profile o1)) else None)"
| "fs_pending (DropboxFs d) = (if dbc_dirty d then Some (Dropbox (dbc_profile d)) else None)"

end
