(* ===== verification/Cloud_Effects.thy ===== *)
theory Cloud_Effects
  imports Cloud
begin

text \<open>
  How the operations of a provider client are reasoned about: a relation between the
  states before and after that holds of every step holds of the whole operation, whatever
  it decides on the way; and what an operation adds to the log of requests.
\<close>

section \<open>Effects\<close>

definition op_keeps :: "('c \<times> http_world \<Rightarrow> 'c \<times> http_world \<Rightarrow> bool) \<Rightarrow> ('c, 'e, 'a) op \<Rightarrow> bool" where
  "op_keeps rel m \<longleftrightarrow> (\<forall>s. rel s (fst (m s)))"

lemma op_keepsD: "op_keeps rel m \<Longrightarrow> m s = (s', r) \<Longrightarrow> rel s s'"
  by (metis fst_conv op_keeps_def)

locale op_effect =
  fixes rel :: "'c \<times> http_world \<Rightarrow> 'c \<times> http_world \<Rightarrow> bool"
  assumes rel_refl: "rel s s"
    and rel_trans: "rel s t \<Longrightarrow> rel t u \<Longrightarrow> rel s u"
begin

lemma keeps_same: "(\<And>s. fst (m s) = s) \<Longrightarrow> op_keeps rel m"
  by (simp add: op_keeps_def rel_refl)

lemma keeps_of: "op_keeps rel (op_of r)"
  by (rule keeps_same) (simp add: op_of_def)

lemma keeps_get: "op_keeps rel (op_get f)"
  by (rule keeps_same) (simp add: op_get_def)

lemma keeps_now: "op_keeps rel (op_now X)"
  by (rule keeps_same) (simp add: op_now_def)

lemma keeps_random: "op_keeps rel (op_random X)"
  by (rule keeps_same) (simp add: op_random_def)

lemma keeps_read: "op_keeps rel (op_read_file X e p)"
  by (rule keeps_same) (simp add: op_read_file_def)

lemma keeps_bind: "op_keeps rel m \<Longrightarrow> (\<And>x. op_keeps rel (f x)) \<Longrightarrow> op_keeps rel (op_bind m f)"
  unfolding op_keeps_def op_bind_def
  by (auto split: prod.splits sum.splits) (metis fst_conv rel_trans)+

lemma keeps_fold: "(\<And>x a. op_keeps rel (f x a)) \<Longrightarrow> op_keeps rel (op_fold f xs a)"
  by (induction xs arbitrary: a) (auto intro: keeps_of keeps_bind)

lemma keeps_if: "op_keeps rel m \<Longrightarrow> op_keeps rel n \<Longrightarrow> op_keeps rel (if b then m else n)"
  by simp

lemma keeps_option: "op_keeps rel m \<Longrightarrow> (\<And>x. op_keeps rel (f x)) \<Longrightarrow> op_keeps rel (case_option m f v)"
  by (cases v) simp_all

lemma keeps_prod: "(\<And>x y. op_keeps rel (f x y)) \<Longrightarrow> op_keeps rel (case_prod f p)"
  by (cases p) simp

lemma keeps_Let: "op_keeps rel (f x) \<Longrightarrow> op_keeps rel (Let x f)"
  by simp

lemmas keeps_intros = keeps_of keeps_get keeps_now keeps_random keeps_read keeps_bind keeps_fold keeps_if keeps_option
  keeps_prod keeps_Let

lemma keeps_try_names:
  "(\<And>n. op_keeps rel (exists n)) \<Longrightarrow> (\<And>n. op_keeps rel (put n)) \<Longrightarrow> op_keeps rel (try_names X e exists put leaf len ns)"
  by (induction ns) (auto intro!: keeps_intros)

end

section \<open>Relations\<close>

text \<open>What was sent satisfies \<open>P\<close>; nothing was written to the disk.\<close>

definition sends :: "(http_request \<Rightarrow> bool) \<Rightarrow> 'c \<times> http_world \<Rightarrow> 'c \<times> http_world \<Rightarrow> bool" where
  "sends P s t \<longleftrightarrow> (\<exists>qs. hw_log (snd t) = hw_log (snd s) @ qs \<and> (\<forall>q \<in> set qs. P q))"

definition same_files :: "'c \<times> http_world \<Rightarrow> 'c \<times> http_world \<Rightarrow> bool" where
  "same_files s t \<longleftrightarrow> hw_files (snd t) = hw_files (snd s)"

interpretation sends: op_effect "sends P" for P
proof
  fix s t u :: "'c \<times> http_world"
  show "sends P s s" by (simp add: sends_def)
  assume "sends P s t" "sends P t u"
  then obtain qs rs where "hw_log (snd t) = hw_log (snd s) @ qs" "\<forall>q \<in> set qs. P q"
    "hw_log (snd u) = hw_log (snd t) @ rs" "\<forall>q \<in> set rs. P q" by (auto simp: sends_def)
  then show "sends P s u" unfolding sends_def by (intro exI [of _ "qs @ rs"]) auto
qed

interpretation same_files: op_effect same_files
  by unfold_locales (simp_all add: same_files_def)

lemma request_sends:
  "P \<lparr>rq_method = meth, rq_url = url, rq_headers = headers, rq_body = body\<rparr> \<Longrightarrow>
    op_keeps (sends P) (request X e1 e2 e3 meth url headers body)"
  by (auto simp: op_keeps_def request_def sends_def http_run_def split: sum.splits)

lemma request_same_files: "op_keeps same_files (request X e1 e2 e3 meth url headers body)"
  by (auto simp: op_keeps_def request_def same_files_def http_run_def split: sum.splits)

lemma set_sends: "op_keeps (sends P) (op_set f)"
  by (simp add: op_keeps_def op_set_def sends_def)

lemma set_same_files: "op_keeps same_files (op_set f)"
  by (simp add: op_keeps_def op_set_def same_files_def)

lemma write_sends: "op_keeps (sends P) (op_write_file X e p body)"
  by (auto simp: op_keeps_def op_write_file_def sends_def http_write_file_def Let_def split: write_outcome.splits prod.splits)

text \<open>The two token endpoints: one form is posted, or none if the URL is refused.\<close>

lemma df_post_form_world:
  "fst (df_post_form H url body w) = w \<or> fst (df_post_form H url body w) = w\<lparr>hw_log := hw_log w @ [form_request url body]\<rparr>"
  by (auto simp: df_post_form_def http_run_def split: option.splits sum.splits)

lemma pc_post_form_world:
  "fst (pc_post_form H url body w) = w \<or> fst (pc_post_form H url body w) = w\<lparr>hw_log := hw_log w @ [form_request url body]\<rparr>"
  by (auto simp: pc_post_form_def http_run_def split: option.splits sum.splits)

lemma df_refresh_world:
  "\<exists>body. fst (df_refresh H C cfg rt w) = w \<or>
     fst (df_refresh H C cfg rt w) = w\<lparr>hw_log := hw_log w @ [form_request (dfc_token_endpoint cfg) body]\<rparr>"
  using df_post_form_world [of H "dfc_token_endpoint cfg"
      "token_form C cfg [(''refresh_token'', rt), (''grant_type'', ''refresh_token'')]" w]
  by (auto simp: df_refresh_def split: prod.splits sum.splits)

lemma pc_refresh_world:
  "\<exists>body. fst (pc_refresh H C f rt w) = w \<or>
     fst (pc_refresh H C f rt w) = w\<lparr>hw_log := hw_log w @ [form_request (pcc_token_endpoint (pf_cfg f)) body]\<rparr>"
  using pc_post_form_world [of H "pcc_token_endpoint (pf_cfg f)"
      "oc_form C [(''client_id'', pcc_client_id (pf_cfg f)), (''grant_type'', ''refresh_token''), (''refresh_token'', rt)]" w]
  by (auto simp: pc_refresh_def split: prod.splits sum.splits)

lemma df_oauth_keeps:
  assumes "\<And>c w body. rel (c, w) (c, w\<lparr>hw_log := hw_log w @ [form_request (dfc_token_endpoint cfg) body]\<rparr>)" "\<And>s. rel s s"
  shows "op_keeps rel (op_oauth g (df_refresh H C cfg rt))"
  unfolding op_keeps_def
proof (clarify, goal_cases)
  case (1 c w)
  obtain w' r where r: "df_refresh H C cfg rt w = (w', r)" by fastforce
  with df_refresh_world [of H C cfg rt w] assms show ?case by (auto simp: op_oauth_def)
qed

lemma pc_oauth_keeps:
  assumes "\<And>c w body. rel (c, w) (c, w\<lparr>hw_log := hw_log w @ [form_request (pcc_token_endpoint (pf_cfg f)) body]\<rparr>)" "\<And>s. rel s s"
  shows "op_keeps rel (op_oauth g (pc_refresh H C f rt))"
  unfolding op_keeps_def
proof (clarify, goal_cases)
  case (1 c w)
  obtain w' r where r: "pc_refresh H C f rt w = (w', r)" by fastforce
  with pc_refresh_world [of H C f rt w] assms show ?case by (auto simp: op_oauth_def)
qed

section \<open>What an operation adds to the log\<close>

definition op_log :: "('c, 'e, 'a) op \<Rightarrow> (nat \<Rightarrow> http_request list \<Rightarrow> ('e, 'a) result \<Rightarrow> bool) \<Rightarrow> bool" where
  "op_log m Q \<longleftrightarrow> (\<forall>s s' r. m s = (s', r) \<longrightarrow>
     (\<exists>qs. hw_log (snd s') = hw_log (snd s) @ qs \<and> Q (length (hw_log (snd s))) qs r))"

lemma op_logI:
  "(\<And>s s' r. m s = (s', r) \<Longrightarrow> \<exists>qs. hw_log (snd s') = hw_log (snd s) @ qs \<and> Q (length (hw_log (snd s))) qs r) \<Longrightarrow> op_log m Q"
  by (simp add: op_log_def)

lemma op_logD:
  "op_log m Q \<Longrightarrow> m s = (s', r) \<Longrightarrow> \<exists>qs. hw_log (snd s') = hw_log (snd s) @ qs \<and> Q (length (hw_log (snd s))) qs r"
  by (cases s; cases s') (simp add: op_log_def)

lemma op_log_mono: "op_log m Q \<Longrightarrow> (\<And>i qs r. Q i qs r \<Longrightarrow> R i qs r) \<Longrightarrow> op_log m R"
  unfolding op_log_def by meson

lemma op_log_of: "Q 0 [] r \<Longrightarrow> (\<And>i. Q i [] r) \<Longrightarrow> op_log (op_of r) Q"
  by (simp add: op_log_def op_of_def)

lemma sends_log: "op_keeps (sends P) m \<Longrightarrow> op_log m (\<lambda>_ qs _. \<forall>q \<in> set qs. P q)"
  unfolding op_keeps_def op_log_def sends_def by (metis fst_conv)

lemma op_log_bind:
  assumes "op_log m Q" "\<And>x. op_log (f x) (R x)"
    and "\<And>i qs e. Q i qs (Inl e) \<Longrightarrow> T i qs (Inl e)"
    and "\<And>i qs rs x r. Q i qs (Inr x) \<Longrightarrow> R x (i + length qs) rs r \<Longrightarrow> T i (qs @ rs) r"
  shows "op_log (op_bind m f) T"
proof (rule op_logI)
  fix s s' r
  assume run: "op_bind m f s = (s', r)"
  obtain s1 r1 where m: "m s = (s1, r1)" by fastforce
  from op_logD [OF assms(1) m] obtain qs where qs: "hw_log (snd s1) = hw_log (snd s) @ qs" "Q (length (hw_log (snd s))) qs r1"
    by blast
  show "\<exists>qs. hw_log (snd s') = hw_log (snd s) @ qs \<and> T (length (hw_log (snd s))) qs r"
  proof (cases r1)
    case (Inl e)
    with run m have "s' = s1" "r = Inl e" by (simp_all add: op_bind_def)
    with qs Inl assms(3) show ?thesis by auto
  next
    case (Inr x)
    with run m have "f x s1 = (s', r)" by (simp add: op_bind_def)
    from op_logD [OF assms(2) this] obtain rs where rs: "hw_log (snd s') = hw_log (snd s1) @ rs"
      "R x (length (hw_log (snd s1))) rs r" by blast
    have "T (length (hw_log (snd s))) (qs @ rs) r" using assms(4) [of _ qs x rs r] qs rs Inr by simp
    with qs(1) rs(1) show ?thesis by auto
  qed
qed

section \<open>Looking before writing\<close>

text \<open>
  What the policies \<open>Fail\<close> and \<open>Rename\<close> need of a client: a look that reports a name as
  free ends with the answer that says so, and a write is one request at the end.
\<close>

locale looking_client =
  fixes is_write :: "http_request \<Rightarrow> bool"
    and absent :: "nat \<Rightarrow> http_request \<Rightarrow> string \<Rightarrow> bool"
    and stores :: "http_request \<Rightarrow> string \<Rightarrow> bool"
    and look :: "string \<Rightarrow> ('c, 'e, bool) op"
    and put :: "string \<Rightarrow> ('c, 'e, unit) op"
  assumes look_log: "op_log (look n) (\<lambda>i qs r. (\<forall>q \<in> set qs. \<not> is_write q)
      \<and> (r = Inr False \<longrightarrow> (\<exists>pre l. qs = pre @ [l] \<and> absent (i + length pre) l n)))"
    and put_log: "op_log (put n) (\<lambda>i qs r. (\<forall>q \<in> set qs. \<not> is_write q) \<and> (\<exists>e. r = Inl e)
      \<or> (\<exists>mid p. qs = mid @ [p] \<and> (\<forall>q \<in> set mid. \<not> is_write q) \<and> is_write p \<and> stores p n))"
begin

definition looked :: "nat \<Rightarrow> http_request list \<Rightarrow> string \<Rightarrow> bool" where
  "looked i qs n \<longleftrightarrow> (\<exists>pre l mid p. qs = pre @ l # mid @ [p] \<and> (\<forall>q \<in> set (pre @ l # mid). \<not> is_write q)
     \<and> absent (i + length pre) l n \<and> is_write p \<and> stores p n)"

definition careful :: "(string \<Rightarrow> bool) \<Rightarrow> nat \<Rightarrow> http_request list \<Rightarrow> ('e, nc_outcome) result \<Rightarrow> bool" where
  "careful names i qs r \<longleftrightarrow> (\<forall>q \<in> set qs. \<not> is_write q) \<and> (\<exists>e. r = Inl e)
     \<or> (\<exists>n. names n \<and> looked i qs n \<and> (\<forall>x. r = Inr x \<longrightarrow> no_final_name x = n))"

lemma lookedI:
  "qs = pre @ l # mid @ [p] \<Longrightarrow> \<forall>q \<in> set pre. \<not> is_write q \<Longrightarrow> \<not> is_write l \<Longrightarrow> \<forall>q \<in> set mid. \<not> is_write q
    \<Longrightarrow> absent (i + length pre) l n \<Longrightarrow> is_write p \<Longrightarrow> stores p n \<Longrightarrow> looked i qs n"
  unfolding looked_def by (intro exI [of _ pre] exI [of _ l] exI [of _ mid] exI [of _ p]) auto

lemma looked_later:
  assumes "\<forall>q \<in> set ps. \<not> is_write q" "looked (i + length ps) qs n"
  shows "looked i (ps @ qs) n"
proof -
  from assms(2) obtain pre l mid p where q: "qs = pre @ l # mid @ [p]" "\<forall>q \<in> set (pre @ l # mid). \<not> is_write q"
    "absent (i + length ps + length pre) l n" "is_write p" "stores p n" by (auto simp: looked_def)
  show ?thesis
    by (rule lookedI [where pre = "ps @ pre" and l = l and mid = mid and p = p])
      (use q assms(1) in \<open>auto simp: add.assoc\<close>)
qed

lemma careful_later: "\<forall>q \<in> set ps. \<not> is_write q \<Longrightarrow> careful names (i + length ps) qs r \<Longrightarrow> careful names i (ps @ qs) r"
  unfolding careful_def using looked_later by auto

lemma careful_mono: "careful names i qs r \<Longrightarrow> (\<And>n. names n \<Longrightarrow> names' n) \<Longrightarrow> careful names' i qs r"
  unfolding careful_def by blast

lemma careful_error: "\<forall>q \<in> set qs. \<not> is_write q \<Longrightarrow> careful names i qs (Inl e)"
  by (simp add: careful_def)

lemma put_tail:
  "op_log (op_bind (put n) (\<lambda>_. op_of (Inr x)))
     (\<lambda>i qs r. (\<forall>q \<in> set qs. \<not> is_write q) \<and> (\<exists>e. r = Inl e)
       \<or> (\<exists>mid p. qs = mid @ [p] \<and> (\<forall>q \<in> set mid. \<not> is_write q) \<and> is_write p \<and> stores p n \<and> (\<forall>y. r = Inr y \<longrightarrow> y = x)))"
proof (rule op_log_bind [OF put_log])
  show "op_log (op_of (Inr x)) (\<lambda>_ rs r. rs = [] \<and> r = Inr x)" for y :: unit by (simp add: op_log_def op_of_def)
qed auto

lemma look_then_put:
  assumes "op_log alternative (careful names)" "names n" "no_final_name x = n"
  shows "op_log (op_bind (look n) (\<lambda>there. if there then alternative else op_bind (put n) (\<lambda>_. op_of (Inr x)))) (careful names)"
proof (rule op_log_bind [OF look_log, where R = "\<lambda>there. if there then careful names
    else (\<lambda>i qs r. (\<forall>q \<in> set qs. \<not> is_write q) \<and> (\<exists>e. r = Inl e)
       \<or> (\<exists>mid p. qs = mid @ [p] \<and> (\<forall>q \<in> set mid. \<not> is_write q) \<and> is_write p \<and> stores p n \<and> (\<forall>y. r = Inr y \<longrightarrow> y = x)))"])
  fix i qs rs and there :: bool and r
  assume l: "(\<forall>q \<in> set qs. \<not> is_write q) \<and> (Inr there = (Inr False :: 'e + bool) \<longrightarrow> (\<exists>pre l. qs = pre @ [l] \<and> absent (i + length pre) l n))"
    and p: "(if there then careful names else (\<lambda>i qs r. (\<forall>q \<in> set qs. \<not> is_write q) \<and> (\<exists>e. r = Inl e)
       \<or> (\<exists>mid p. qs = mid @ [p] \<and> (\<forall>q \<in> set mid. \<not> is_write q) \<and> is_write p \<and> stores p n \<and> (\<forall>y. r = Inr y \<longrightarrow> y = x))))
         (i + length qs) rs r"
  show "careful names i (qs @ rs) r"
  proof (cases there)
    case True
    with l p careful_later show ?thesis by simp
  next
    case False
    with l obtain pre a where a: "qs = pre @ [a]" "absent (i + length pre) a n" by auto
    from p False consider e where "\<forall>q \<in> set rs. \<not> is_write q" "r = Inl e"
      | mid q where "rs = mid @ [q]" "\<forall>q \<in> set mid. \<not> is_write q" "is_write q" "stores q n" "\<forall>y. r = Inr y \<longrightarrow> y = x"
      by auto
    then show ?thesis
    proof cases
      case 1
      with l show ?thesis by (simp add: careful_def ball_Un)
    next
      case 2
      have "looked i (qs @ rs) n"
        by (rule lookedI [where pre = pre and l = a and mid = mid and p = q]) (use 2 a l in auto)
      with assms(2,3) 2(5) show ?thesis by (auto simp: careful_def)
    qed
  qed
qed (use assms(1) put_tail in \<open>auto simp: careful_def\<close>)

lemma try_names_careful:
  "op_log (try_names X e look put leaf len ns) (careful (\<lambda>n. \<exists>k \<in> set ns. \<exists>t. n = rename_with_suffix_at leaf k t))"
proof (induction ns)
  case Nil
  show ?case by (auto simp: op_log_def op_of_def careful_def)
next
  case (Cons k ks)
  have ih: "op_log (try_names X e look put leaf len ks)
      (careful (\<lambda>n. \<exists>j \<in> set (k # ks). \<exists>t. n = rename_with_suffix_at leaf j t))"
    by (rule op_log_mono [OF Cons.IH], erule careful_mono) auto
  have "op_log (op_now X :: ('c, 'e, u64) op) (\<lambda>i qs r. qs = [])" by (simp add: op_log_def op_now_def)
  then show ?case unfolding try_names.simps Let_def
    by (rule op_log_bind [OF _ look_then_put [OF ih]]) (auto simp: careful_error)
qed

end


lemma request_log:
  "op_log (request X e1 e2 e3 meth url headers body)
     (\<lambda>i qs r. qs = [] \<and> (\<exists>e. r = Inl e)
       \<or> (let q = \<lparr>rq_method = meth, rq_url = url, rq_headers = headers, rq_body = body\<rparr> in
          qs = [q] \<and> (\<forall>s b. r = Inr (s, b) \<longrightarrow> he_answer (ce_http X) i q = Inr \<lparr>rs_status = s, rs_body = Some b\<rparr>)))"
proof (rule op_logI)
  fix s s' r
  assume "request X e1 e2 e3 meth url headers body s = (s', r)"
  then show "\<exists>qs. hw_log (snd s') = hw_log (snd s) @ qs \<and>
    (qs = [] \<and> (\<exists>e. r = Inl e)
      \<or> (let q = \<lparr>rq_method = meth, rq_url = url, rq_headers = headers, rq_body = body\<rparr> in
          qs = [q] \<and> (\<forall>s' b. r = Inr (s', b) \<longrightarrow>
            he_answer (ce_http X) (length (hw_log (snd s))) q = Inr \<lparr>rs_status = s', rs_body = Some b\<rparr>)))"
    by (auto simp: request_def http_run_def Let_def split: if_splits sum.splits option.splits)
qed

section \<open>Listings in pages\<close>

text \<open>
  The pages that a server offers from \<open>k\<close> on: each names the next one, the last names none.
\<close>

inductive page_walk :: "('k \<Rightarrow> ('c, 'e, 'x list \<times> 'k option) op) \<Rightarrow> 'k \<Rightarrow> 'c \<times> http_world \<Rightarrow> 'x list list \<Rightarrow> 'c \<times> http_world \<Rightarrow> bool"
  for fetch where
  last_page: "fetch k s = (s', Inr (es, None)) \<Longrightarrow> page_walk fetch k s [es] s'"
| next_page: "fetch k s = (s1, Inr (es, Some k')) \<Longrightarrow> page_walk fetch k' s1 ess s' \<Longrightarrow> page_walk fetch k s (es # ess) s'"

inductive_cases page_walk_cases: "page_walk fetch k s ess s'"

locale paged_listing =
  fixes fetch :: "'k \<Rightarrow> ('c, 'e, 'x list \<times> 'k option) op"
    and pages :: "nat \<Rightarrow> 'k \<Rightarrow> 'x list \<Rightarrow> ('c, 'e, 'x list option) op"
  assumes no_fuel: "pages 0 k acc = op_of (Inr None)"
    and one_page: "pages (Suc n) k acc = op_bind (fetch k) (\<lambda>(es, next).
        case next of None \<Rightarrow> op_of (Inr (Some (acc @ es))) | Some k' \<Rightarrow> pages n k' (acc @ es))"
begin

lemma pages_walk: "page_walk fetch k s ess s' \<Longrightarrow> length ess \<le> n \<Longrightarrow> pages n k acc s = (s', Inr (Some (acc @ concat ess)))"
proof (induction arbitrary: n acc rule: page_walk.induct)
  case (last_page k s s' es)
  then obtain m where "n = Suc m" by (cases n) auto
  with last_page show ?case by (simp add: one_page op_bind_def op_of_def)
next
  case (next_page k s s1 es k' ess s')
  then obtain m where "n = Suc m" "length ess \<le> m" by (cases n) auto
  with next_page show ?case by (simp add: one_page op_bind_def)
qed

lemma walk_of_pages: "pages n k acc s = (s', Inr (Some es)) \<Longrightarrow> \<exists>ess. page_walk fetch k s ess s' \<and> length ess \<le> n \<and> es = acc @ concat ess"
proof (induction n arbitrary: k acc s)
  case 0
  then show ?case by (simp add: no_fuel op_of_def)
next
  case (Suc n)
  then obtain s1 xs nk where f: "fetch k s = (s1, Inr (xs, nk))"
    by (auto simp: one_page op_bind_def split: prod.splits sum.splits)
  show ?case
  proof (cases nk)
    case None
    with Suc.prems f have "s' = s1" "es = acc @ xs" by (simp_all add: one_page op_bind_def op_of_def)
    with f None show ?thesis by (intro exI [of _ "[xs]"]) (auto intro: page_walk.intros)
  next
    case (Some k')
    with Suc.prems f have "pages n k' (acc @ xs) s1 = (s', Inr (Some es))" by (simp add: one_page op_bind_def)
    from Suc.IH [OF this] obtain ess where "page_walk fetch k' s1 ess s'" "length ess \<le> n" "es = (acc @ xs) @ concat ess"
      by blast
    with f Some show ?thesis by (intro exI [of _ "xs # ess"]) (auto intro: page_walk.intros)
  qed
qed

lemma pages_iff:
  "pages n k acc s = (s', Inr (Some es)) \<longleftrightarrow> (\<exists>ess. page_walk fetch k s ess s' \<and> length ess \<le> n \<and> es = acc @ concat ess)"
  using pages_walk walk_of_pages by blast

end

section \<open>An example\<close>

definition example_oauth :: oauth_crates where
  "example_oauth = \<lparr>oc_form = (\<lambda>ps. concat (map fst ps)), oc_token = (\<lambda>b. Some \<lparr>tk_access_token = ''new'', tk_refresh_token = None,
     tk_expires_in = 3600, tk_token_type = ''bearer'', tk_scope = None\<rparr>), oc_device_code = (\<lambda>b. None), oc_error = (\<lambda>b. None),
     oc_sha256 = (\<lambda>s. s), oc_base64url = (\<lambda>s. s)\<rparr>"

text \<open>
  A server that has nothing: lookups of OneDrive answer 404, those of Dropbox 409,
  everything else succeeds.
\<close>

definition example_cloud_http :: http_env where
  "example_cloud_http = \<lparr>he_build = (\<lambda>u. None),
     he_answer = (\<lambda>i q. if rq_url q = ''https://api.dropboxapi.com/2/files/get_metadata''
           then Inr \<lparr>rs_status = 409, rs_body = Some ''path/not_found/''\<rparr>
        else if rq_method q = GET \<and> take 13 (rq_url q) = ''https://graph'' then Inr \<lparr>rs_status = 404, rs_body = Some []\<rparr>
        else Inr \<lparr>rs_status = 200, rs_body = Some []\<rparr>),
     he_display = (\<lambda>e. []), he_secs = (\<lambda>i. 0), he_read = (\<lambda>i. True), he_write = (\<lambda>i. Written),
     he_base64 = (\<lambda>s. s), he_text = Some\<rparr>"

definition example_cloud :: cloud_env where
  "example_cloud = \<lparr>ce_http = example_cloud_http, ce_oauth = example_oauth, ce_header = (\<lambda>h. True), ce_json = (\<lambda>j. []),
     ce_pct = percent_spec, ce_random = (\<lambda>i. [])\<rparr>"

definition example_cloud_world :: http_world where
  "example_cloud_world = \<lparr>hw_log = [], hw_files = [''a.txt'' \<mapsto> ''xyz'']\<rparr>"

lemma example_cloud_world_simps [simp]: "hw_log example_cloud_world = []" "hw_files example_cloud_world ''a.txt'' = Some ''xyz''"
  by (simp_all add: example_cloud_world_def)

end
