(* ===== verification/Google_Drive_Props.thy ===== *)
theory Google_Drive_Props
  imports Google_Drive_Client Cloud_Effects
begin

text \<open>
  What the Google Drive client sends and keeps, as for Dropbox, and that the search
  filters it builds say what they mean.
\<close>

section \<open>Effects of the operations\<close>

locale google_effect = op_effect rel for rel :: "google_drive_client \<times> http_world \<Rightarrow> google_drive_client \<times> http_world \<Rightarrow> bool" +
  fixes X :: google_env
  assumes refresh: "op_keeps rel (gd_refresh_token_now X)"
    and api: "prefix DRIVE_API_BASE url \<Longrightarrow> op_keeps rel (gd_json_request X meth url body)"
    and binary: "prefix DRIVE_API_BASE url \<Longrightarrow> op_keeps rel (gd_binary_request X meth url)"
begin

lemma fresh: "op_keeps rel (gd_ensure_fresh_token X)"
  unfolding gd_ensure_fresh_token_def by (intro keeps_intros refresh)

lemma expect: "op_keeps rel m \<Longrightarrow> op_keeps rel (gd_expect m)"
  unfolding gd_expect_def by (intro keeps_intros)

lemma decode: "op_keeps rel m \<Longrightarrow> op_keeps rel (gd_decode f m)"
  unfolding gd_decode_def by (intro keeps_intros)

lemma find_in_folder: "op_keeps rel (gd_find_in_folder X parent_id name mime)"
  unfolding gd_find_in_folder_def by (intro keeps_intros fresh expect decode api) (simp add: gd_find_url_def)

lemma create_folder: "op_keeps rel (gd_create_folder_under X parent_id name)"
  unfolding gd_create_folder_under_def by (intro keeps_intros fresh expect decode api) simp

lemma find_or_create: "op_keeps rel (gd_find_or_create_folder_under X parent_id name)"
  unfolding gd_find_or_create_folder_under_def by (intro keeps_intros find_in_folder create_folder)

lemma pages: "op_keeps rel (gd_pages n X parent_id token entries)"
  by (induction n arbitrary: token entries)
    (auto intro!: keeps_intros decode expect api simp: gd_page_url_def Let_def split: option.split)

lemma fetch_user_email: "op_keeps rel (gd_fetch_user_email X)"
  unfolding gd_fetch_user_email_def by (intro keeps_intros fresh decode expect api) simp

end

locale google_rooted = google_effect +
  assumes ensure_root: "op_keeps rel (gd_ensure_root_folder X)"
begin

lemma ensure_dir: "op_keeps rel (gd_ensure_dir_segments X segments)"
  unfolding gd_ensure_dir_segments_def by (intro keeps_intros ensure_root find_or_create)

lemma resolve_dir: "op_keeps rel (gd_resolve_dir_segments X segments)"
  unfolding gd_resolve_dir_segments_def by (intro keeps_intros ensure_root find_in_folder)

lemma existing: "op_keeps rel (gd_existing X segments)"
  unfolding gd_existing_def gd_resolve_file_path_def by (intro keeps_intros ensure_root resolve_dir find_in_folder)

lemma list_at: "op_keeps rel (gd_list_at fuel X segments)"
  unfolding gd_list_at_def by (intro keeps_intros fresh ensure_root resolve_dir pages)

lemma delete_at: "op_keeps rel (gd_delete_at X segments hard)"
  unfolding gd_delete_at_def Let_def by (intro keeps_intros existing fresh expect api) simp_all

lemma download_from:
  "(\<And>body. op_keeps rel (op_write_file X GdLocalIo dest body)) \<Longrightarrow> op_keeps rel (gd_download_from X segments dest)"
  unfolding gd_download_from_def by (intro keeps_intros existing fresh expect binary) simp_all

end

locale google_transfer = google_rooted +
  assumes upload: "prefix DRIVE_UPLOAD_BASE url \<Longrightarrow> op_keeps rel (gd_json_request X meth url body)"
begin

lemma create_file: "op_keeps rel (gd_create_file X parent_id name bytes)"
  unfolding gd_create_file_def Let_def by (intro keeps_intros fresh decode expect upload) simp

lemma update_file: "op_keeps rel (gd_update_file_content X file_id bytes)"
  unfolding gd_update_file_content_def by (intro keeps_intros fresh expect upload) simp

lemma upload_body: "op_keeps rel (gd_upload_body X parent_id leaf body policy)"
  unfolding gd_upload_body_def Let_def
  by (cases policy) (auto intro!: keeps_intros keeps_try_names find_in_folder create_file update_file simp del: upt_Suc)

lemma upload_to: "op_keeps rel (gd_upload_to X local segments policy)"
  unfolding gd_upload_to_def by (intro keeps_intros ensure_root ensure_dir upload_body)

end

lemma gd_request_keeps:
  assumes "op_effect rel" "\<And>headers bytes. op_keeps rel (request X GdNetwork gd_from_ureq_transport GdDecode meth url headers bytes)"
  shows "op_keeps rel (gd_json_request X meth url body)" "op_keeps rel (gd_binary_request X meth url)"
  unfolding gd_json_request_def gd_binary_request_def
  by (intro op_effect.keeps_bind [OF assms(1)] op_effect.keeps_get [OF assms(1)] assms(2))+

lemma gd_refresh_keeps:
  assumes "op_effect rel"
    and "\<And>c w body. rel (c, w) (c, w\<lparr>hw_log := hw_log w @ [form_request ''https://oauth2.googleapis.com/token'' body]\<rparr>)"
    and "\<And>now tokens. op_keeps rel (op_set (\<lambda>c. \<lparr>gdc_profile = (gdc_profile c)\<lparr>gd_auth :=
          gd_apply_refresh now tokens (gd_auth (gdc_profile c))\<rparr>, gdc_dirty = True\<rparr>) :: unit gd_op)"
  shows "op_keeps rel (gd_refresh_token_now X)"
  unfolding gd_refresh_token_now_def
  by (intro op_effect.keeps_intros [OF assms(1)] df_oauth_keeps assms(3))
    (simp_all add: assms(2,3) op_effect.rel_refl [OF assms(1)] gd_device_flow_config_def)

lemma gd_root_keeps:
  assumes "google_effect rel X" "\<And>fid. op_keeps rel (op_set (\<lambda>c. \<lparr>gdc_profile = (gdc_profile c)\<lparr>gd_root_folder_id := Some fid\<rparr>,
      gdc_dirty = True\<rparr>) :: unit gd_op)"
  shows "op_keeps rel (gd_ensure_root_folder X)"
proof -
  have e: "op_effect rel" using assms(1) by (simp add: google_effect_def)
  show ?thesis unfolding gd_ensure_root_folder_def
    by (intro op_effect.keeps_intros [OF e] google_effect.fresh [OF assms(1)] google_effect.find_or_create [OF assms(1)] assms(2))
qed

text \<open>
  The profile differs from the one the client was opened with only if it is dirty, and
  only in its tokens and in the id of the root folder, which never changes once it is known.
\<close>

definition gd_inner_kept :: "google_drive_client \<times> http_world \<Rightarrow> google_drive_client \<times> http_world \<Rightarrow> bool" where
  "gd_inner_kept s t \<longleftrightarrow> (gdc_dirty (fst s) \<longrightarrow> gdc_dirty (fst t))
     \<and> (gdc_dirty (fst t) \<or> fst t = fst s)
     \<and> gd_root_folder (gdc_profile (fst t)) = gd_root_folder (gdc_profile (fst s))
     \<and> gd_user_email (gdc_profile (fst t)) = gd_user_email (gdc_profile (fst s))
     \<and> gd_root_folder_id (gdc_profile (fst t)) = gd_root_folder_id (gdc_profile (fst s))"

definition gd_profile_kept :: "google_drive_client \<times> http_world \<Rightarrow> google_drive_client \<times> http_world \<Rightarrow> bool" where
  "gd_profile_kept s t \<longleftrightarrow> (gdc_dirty (fst s) \<longrightarrow> gdc_dirty (fst t))
     \<and> (gdc_dirty (fst t) \<or> fst t = fst s)
     \<and> gd_root_folder (gdc_profile (fst t)) = gd_root_folder (gdc_profile (fst s))
     \<and> gd_user_email (gdc_profile (fst t)) = gd_user_email (gdc_profile (fst s))
     \<and> (\<forall>i. gd_root_folder_id (gdc_profile (fst s)) = Some i \<longrightarrow> gd_root_folder_id (gdc_profile (fst t)) = Some i)"

interpretation gd_inner: op_effect gd_inner_kept
  by unfold_locales (auto simp: gd_inner_kept_def)

interpretation gd_kept: op_effect gd_profile_kept
  by unfold_locales (auto simp: gd_profile_kept_def)

lemma gd_request_inner: "op_keeps gd_inner_kept (request X e1 e2 e3 meth url headers body)"
  by (auto simp: op_keeps_def request_def gd_inner_kept_def http_run_def split: sum.splits)

lemma gd_inner_profile: "gd_inner_kept s t \<Longrightarrow> gd_profile_kept s t"
  by (auto simp: gd_inner_kept_def gd_profile_kept_def)

lemma gd_inner_ops: "op_keeps gd_inner_kept m \<Longrightarrow> op_keeps gd_profile_kept m"
  by (auto simp: op_keeps_def intro: gd_inner_profile)

interpretation gd_inner: google_effect gd_inner_kept X for X
proof
  show "op_keeps gd_inner_kept (gd_refresh_token_now X)"
    by (rule gd_refresh_keeps [OF gd_inner.op_effect_axioms]) (auto simp: op_keeps_def op_set_def gd_inner_kept_def)
qed (rule gd_request_keeps [OF gd_inner.op_effect_axioms gd_request_inner])+

lemma gd_root_kept: "op_keeps gd_profile_kept (gd_ensure_root_folder X)"
  unfolding op_keeps_def
proof
  fix s
  show "gd_profile_kept s (fst (gd_ensure_root_folder X s))"
  proof (cases "gd_root_folder_id (gdc_profile (fst s))")
    case (Some i)
    then show ?thesis by (simp add: gd_ensure_root_folder_def op_defs gd_profile_kept_def)
  next
    case None
    let ?find = "op_bind (gd_ensure_fresh_token X) (\<lambda>_. op_bind (op_get (\<lambda>c. gd_root_folder (gdc_profile c)))
      (\<lambda>name. gd_find_or_create_folder_under X ROOT_PARENT name))"
    obtain s1 r where f: "?find s = (s1, r)" by fastforce
    have "op_keeps gd_inner_kept ?find"
      by (intro gd_inner.keeps_intros gd_inner.fresh gd_inner.find_or_create)
    from op_keepsD [OF this f] have k: "gd_inner_kept s s1" .
    have "gd_ensure_root_folder X s = op_bind ?find (\<lambda>fid. op_bind (op_set (\<lambda>c. \<lparr>gdc_profile = (gdc_profile c)
        \<lparr>gd_root_folder_id := Some fid\<rparr>, gdc_dirty = True\<rparr>)) (\<lambda>_. op_of (Inr fid))) s"
      by (simp add: gd_ensure_root_folder_def op_get_def op_bind_assoc None op_bind_def [of "op_get _"])
    with f k None show ?thesis
      by (cases r) (auto simp: op_bind_def [of ?find] op_defs gd_inner_kept_def gd_profile_kept_def)
  qed
qed

interpretation gd_kept: google_transfer gd_profile_kept X for X
  by unfold_locales
    (rule gd_inner_ops gd_root_kept; rule gd_inner.refresh gd_request_keeps [OF gd_inner.op_effect_axioms gd_request_inner])+


definition gd_home :: "string \<Rightarrow> bool" where
  "gd_home url \<longleftrightarrow> prefix ''https://www.googleapis.com/'' url \<or> prefix ''https://oauth2.googleapis.com/'' url"

definition gd_writes :: "http_request \<Rightarrow> bool" where
  "gd_writes q \<longleftrightarrow> prefix DRIVE_UPLOAD_BASE (rq_url q)"

lemma gd_home_bases: "prefix DRIVE_API_BASE url \<Longrightarrow> gd_home url" "prefix DRIVE_UPLOAD_BASE url \<Longrightarrow> gd_home url"
  by (auto simp: gd_home_def DRIVE_API_BASE_def DRIVE_UPLOAD_BASE_def prefix_def)

lemma gd_api_no_write: "prefix DRIVE_API_BASE (rq_url q) \<Longrightarrow> \<not> gd_writes q"
  by (auto simp: gd_writes_def DRIVE_API_BASE_def DRIVE_UPLOAD_BASE_def prefix_def)

interpretation gd_sends: google_effect "sends (\<lambda>q. gd_home (rq_url q))" X for X
proof
  show "op_keeps (sends (\<lambda>q. gd_home (rq_url q))) (gd_refresh_token_now X)"
    by (rule gd_refresh_keeps [OF sends.op_effect_axioms _ set_sends])
      (simp add: sends_def form_request_def gd_home_def)
qed (rule gd_request_keeps [OF sends.op_effect_axioms request_sends], simp add: gd_home_bases)+

interpretation gd_sends: google_transfer "sends (\<lambda>q. gd_home (rq_url q))" X for X
proof
  show "op_keeps (sends (\<lambda>q. gd_home (rq_url q))) (gd_ensure_root_folder X)"
    by (rule gd_root_keeps [OF gd_sends.google_effect_axioms set_sends])
qed (rule gd_request_keeps [OF sends.op_effect_axioms request_sends], simp add: gd_home_bases)

interpretation gd_quiet: google_effect "sends (\<lambda>q. \<not> gd_writes q)" X for X
proof
  show "op_keeps (sends (\<lambda>q. \<not> gd_writes q)) (gd_refresh_token_now X)"
    by (rule gd_refresh_keeps [OF sends.op_effect_axioms _ set_sends])
      (simp add: sends_def form_request_def gd_writes_def DRIVE_UPLOAD_BASE_def)
qed (rule gd_request_keeps [OF sends.op_effect_axioms request_sends], simp add: gd_api_no_write)+

interpretation gd_quiet: google_rooted "sends (\<lambda>q. \<not> gd_writes q)" X for X
  by unfold_locales (rule gd_root_keeps [OF gd_quiet.google_effect_axioms set_sends])

interpretation gd_files: google_effect same_files X for X
proof
  show "op_keeps same_files (gd_refresh_token_now X)"
    by (rule gd_refresh_keeps [OF same_files.op_effect_axioms _ set_same_files]) (simp add: same_files_def)
qed (rule gd_request_keeps [OF same_files.op_effect_axioms request_same_files])+

interpretation gd_files: google_transfer same_files X for X
  by unfold_locales (rule gd_root_keeps [OF gd_files.google_effect_axioms set_same_files]
      gd_request_keeps [OF same_files.op_effect_axioms request_same_files])+

section \<open>Uploads look before they write\<close>

text \<open>The search for the name in the folder found nothing.\<close>

definition gd_absent :: "google_env \<Rightarrow> string \<Rightarrow> string \<Rightarrow> nat \<Rightarrow> http_request \<Rightarrow> bool" where
  "gd_absent X parent_id name i l \<longleftrightarrow> rq_method l = GET \<and> rq_url l = gd_find_url X parent_id name None
     \<and> (\<exists>s b found. he_answer (ce_http X) i l = Inr \<lparr>rs_status = s, rs_body = Some b\<rparr> \<and> is_success s
          \<and> gx_file_list X b = Some found \<and> dfl_files found = [])"

definition gd_stores :: "google_env \<Rightarrow> string \<Rightarrow> string \<Rightarrow> string \<Rightarrow> http_request \<Rightarrow> bool" where
  "gd_stores X parent_id name body p \<longleftrightarrow> rq_method p = POST
     \<and> rq_url p = DRIVE_UPLOAD_BASE @ ''/files?uploadType=multipart&fields=id''
     \<and> (\<exists>boundary. rq_body p = build_multipart_related (ce_json X (JObj [(''name'', JStr name), (''parents'', JArr [JStr parent_id])]))
          body DEFAULT_FILE_MIME boundary)"

lemma gd_request_log:
  "op_log (gd_json_request X meth url body)
     (\<lambda>i qs r. qs = [] \<and> (\<exists>e. r = Inl e)
       \<or> (\<exists>q. qs = [q] \<and> rq_method q = meth \<and> rq_url q = url \<and> rq_body q = (case body of Some (_, b) \<Rightarrow> b | None \<Rightarrow> [])
            \<and> (\<forall>s b. r = Inr (s, b) \<longrightarrow> he_answer (ce_http X) i q = Inr \<lparr>rs_status = s, rs_body = Some b\<rparr>)))"
  unfolding gd_json_request_def
proof (rule op_log_bind [OF _ request_log])
  show "op_log (op_get gd_auth_header) (\<lambda>i qs r. qs = [])" by (simp add: op_log_def op_get_def)
qed (auto simp: Let_def)

lemma gd_decoded_log:
  "op_log (gd_decode f (gd_expect (gd_json_request X meth url body)))
     (\<lambda>i qs r. qs = [] \<and> (\<exists>e. r = Inl e)
       \<or> (\<exists>q. qs = [q] \<and> rq_method q = meth \<and> rq_url q = url \<and> rq_body q = (case body of Some (_, b) \<Rightarrow> b | None \<Rightarrow> [])
            \<and> (\<forall>x. r = Inr x \<longrightarrow> (\<exists>s b. he_answer (ce_http X) i q = Inr \<lparr>rs_status = s, rs_body = Some b\<rparr>
                  \<and> is_success s \<and> f b = Some x))))"
  unfolding gd_decode_def gd_expect_def op_bind_assoc
  by (rule op_log_bind [OF gd_request_log, where R = "\<lambda>(s, b) i qs r. qs = [] \<and> (\<forall>x. r = Inr x \<longrightarrow> is_success s \<and> f b = Some x)"])
    (auto simp: op_log_def op_defs split: prod.splits if_splits option.splits)

lemma gd_quiet_fresh: "op_log (gd_ensure_fresh_token X) (\<lambda>_ qs _. \<forall>q \<in> set qs. \<not> gd_writes q)"
  by (rule sends_log) (rule gd_quiet.fresh)

lemma gd_find_url_no_write: "rq_url q = gd_find_url X parent_id name mime \<Longrightarrow> \<not> gd_writes q"
  by (rule gd_api_no_write) (simp add: gd_find_url_def)

lemma gd_look_log:
  "op_log (op_bind (gd_find_in_folder X parent_id name None) (\<lambda>found. op_of (Inr (found \<noteq> None))))
     (\<lambda>i qs r. (\<forall>q \<in> set qs. \<not> gd_writes q)
       \<and> (r = Inr False \<longrightarrow> (\<exists>pre l. qs = pre @ [l] \<and> gd_absent X parent_id name (i + length pre) l)))"
  unfolding gd_find_in_folder_def op_bind_assoc
proof (rule op_log_bind [OF gd_quiet_fresh])
  let ?Q = "\<lambda>i qs r. (\<forall>q \<in> set qs. \<not> gd_writes q) \<and> (r = Inr False \<longrightarrow> (\<exists>l. qs = [l] \<and> gd_absent X parent_id name i l))"
  show "op_log (op_bind (gd_decode (gx_file_list X) (gd_expect (gd_json_request X GET (gd_find_url X parent_id name None) None)))
      (\<lambda>x. op_bind (op_of (Inr (case dfl_files x of [] \<Rightarrow> None | f # _ \<Rightarrow> Some f))) (\<lambda>found. op_of (Inr (found \<noteq> None))))) ?Q"
    for u :: unit
    by (rule op_log_bind [OF gd_decoded_log, where R = "\<lambda>x i qs r. qs = [] \<and> (r = Inr False \<longrightarrow> dfl_files x = [])"])
      (auto simp: op_log_def op_defs gd_find_url_no_write gd_absent_def split: list.splits)
qed auto

lemma gd_create_file_log:
  "op_log (op_bind (gd_create_file X parent_id name body) (\<lambda>_. op_of (Inr ())))
     (\<lambda>i qs r. (\<forall>q \<in> set qs. \<not> gd_writes q) \<and> (\<exists>e. r = Inl e)
       \<or> (\<exists>mid p. qs = mid @ [p] \<and> (\<forall>q \<in> set mid. \<not> gd_writes q) \<and> gd_writes p \<and> gd_stores X parent_id name body p))"
  unfolding gd_create_file_def op_bind_assoc Let_def
proof (rule op_log_bind [OF gd_quiet_fresh])
  let ?R = "\<lambda>i qs r. qs = [] \<and> (\<exists>e. r = Inl e) \<or> (\<exists>p. qs = [p] \<and> gd_writes p \<and> gd_stores X parent_id name body p)"
  show "op_log (op_bind (op_random X) (\<lambda>random. op_bind (gd_decode (gx_created X) (gd_expect (gd_json_request X POST
        (DRIVE_UPLOAD_BASE @ ''/files?uploadType=multipart&fields=id'')
        (Some (''multipart/related; boundary='' @ make_boundary random,
           build_multipart_related (ce_json X (JObj [(''name'', JStr name), (''parents'', JArr [JStr parent_id])])) body DEFAULT_FILE_MIME
             (make_boundary random)))))) (\<lambda>_. op_of (Inr ())))) ?R" for u :: unit
  proof (rule op_log_bind [where Q = "\<lambda>i qs r. qs = [] \<and> (\<exists>x. r = Inr x)" and R = "\<lambda>_. ?R"], goal_cases)
    case (2 random)
    show ?case
      by (rule op_log_bind [OF gd_decoded_log, where R = "\<lambda>x i qs r. qs = []"])
        (auto simp: op_log_def op_of_def gd_stores_def gd_writes_def)
  qed (auto simp: op_log_def op_random_def)
next
  fix i qs rs and x :: unit and r :: "(google_drive_error, unit) result"
  assume q: "\<forall>q \<in> set qs. \<not> gd_writes q"
    and "rs = [] \<and> (\<exists>e. r = Inl e) \<or> (\<exists>p. rs = [p] \<and> gd_writes p \<and> gd_stores X parent_id name body p)"
  then show "(\<forall>q \<in> set (qs @ rs). \<not> gd_writes q) \<and> (\<exists>e. r = Inl e)
     \<or> (\<exists>mid p. qs @ rs = mid @ [p] \<and> (\<forall>q \<in> set mid. \<not> gd_writes q) \<and> gd_writes p \<and> gd_stores X parent_id name body p)"
    using q by (elim disjE exE conjE) auto
qed blast

interpretation gd_looks: looking_client gd_writes "\<lambda>i l n. gd_absent X parent n i l" "\<lambda>p n. gd_stores X parent n body p"
  "\<lambda>n. op_bind (gd_find_in_folder X parent n None) (\<lambda>found. op_of (Inr (found \<noteq> None)))"
  "\<lambda>n. op_bind (gd_create_file X parent n body) (\<lambda>_. op_of (Inr ()))" for X parent body
  by unfold_locales (rule gd_look_log gd_create_file_log)+

lemma gd_upload_body_log:
  assumes "policy \<noteq> Overwrite"
  shows "op_log (gd_upload_body X parent leaf body policy)
     (gd_looks.careful X parent body (\<lambda>n. \<exists>k < 101. \<exists>t. n = rename_with_suffix_at leaf k t))"
proof (cases policy)
  case Overwrite
  with assms show ?thesis by simp
next
  case Fail
  have "op_log (op_of (Inl GdConflict)) (gd_looks.careful X parent body (\<lambda>n. \<exists>k < 101. \<exists>t. n = rename_with_suffix_at leaf k t))"
    by (auto simp: op_log_def op_of_def gd_looks.careful_error)
  moreover have "\<exists>k < 101. \<exists>t. leaf = rename_with_suffix_at leaf k t"
    by (rule exI [of _ 0]) (simp add: rename_with_suffix_at_def)
  ultimately have "op_log (op_bind (op_bind (gd_find_in_folder X parent leaf None) (\<lambda>found. op_of (Inr (found \<noteq> None))))
      (\<lambda>there. if there then op_of (Inl GdConflict)
         else op_bind (op_bind (gd_create_file X parent leaf body) (\<lambda>_. op_of (Inr ())))
           (\<lambda>_. op_of (Inr \<lparr>no_final_name = leaf, no_size = of_nat (length body), no_renamed = False\<rparr>))))
     (gd_looks.careful X parent body (\<lambda>n. \<exists>k < 101. \<exists>t. n = rename_with_suffix_at leaf k t))"
    by (rule gd_looks.look_then_put) simp
  then show ?thesis by (simp add: gd_upload_body_def Let_def Fail op_bind_assoc cong: if_cong)
next
  case Rename
  have "op_log (gd_upload_body X parent leaf body Rename)
     (gd_looks.careful X parent body (\<lambda>n. \<exists>k \<in> set [0..<Suc (unat RENAME_MAX_TRIES)]. \<exists>t. n = rename_with_suffix_at leaf k t))"
    unfolding gd_upload_body_def Let_def collision_policy.case by (rule gd_looks.try_names_careful)
  then show ?thesis unfolding Rename
    by (rule op_log_mono) (erule gd_looks.careful_mono, force simp: RENAME_MAX_TRIES_def)
qed

lemma gd_upload_steps:
  assumes "gd_upload_to X local segments policy s = (s', r)"
  shows "(\<exists>qs e. hw_log (snd s') = hw_log (snd s) @ qs \<and> (\<forall>q \<in> set qs. \<not> gd_writes q) \<and> r = Inl e)
     \<or> (\<exists>s1 qs body parent. hw_log (snd s1) = hw_log (snd s) @ qs \<and> (\<forall>q \<in> set qs. \<not> gd_writes q)
          \<and> hw_files (snd s) local = Some body
          \<and> gd_upload_body X parent (last segments) body policy s1 = (s', r))"
proof (cases "segments = [] \<or> (\<exists>e. gd_validate_all segments = Inl e)")
  case True
  with assms show ?thesis by (auto simp: gd_upload_to_def op_of_def split: if_splits)
next
  case False
  let ?prep = "if butlast segments = [] then gd_ensure_root_folder X else gd_ensure_dir_segments X (butlast segments)"
  obtain v where v: "gd_validate_all segments = Inr v" "segments \<noteq> []" using False by (cases "gd_validate_all segments") auto
  obtain s1 r1 where p: "?prep s = (s1, r1)" by fastforce
  have "sends (\<lambda>q. \<not> gd_writes q) s s1" "same_files s s1"
    by (rule op_keepsD [OF sends.keeps_if [OF gd_quiet.ensure_root gd_quiet.ensure_dir] p]
        op_keepsD [OF same_files.keeps_if [OF gd_files.ensure_root gd_files.ensure_dir] p])+
  then obtain qs where qs: "hw_log (snd s1) = hw_log (snd s) @ qs" "\<forall>q \<in> set qs. \<not> gd_writes q"
    and f: "hw_files (snd s1) = hw_files (snd s)" by (auto simp: sends_def same_files_def)
  show ?thesis
  proof (cases "\<exists>parent body. r1 = Inr parent \<and> http_read_file (ce_http X) local (snd s1) = Some body")
    case True
    then obtain parent body where "r1 = Inr parent" "http_read_file (ce_http X) local (snd s1) = Some body" by blast
    moreover from this have "gd_upload_body X parent (last segments) body policy s1 = (s', r)"
      using assms v p by (simp add: gd_upload_to_def op_bind_def [abs_def] op_read_file_def op_of_def)
    moreover have "hw_files (snd s) local = Some body"
      using calculation(2) f by (auto simp: http_read_file_def split: if_splits)
    ultimately show ?thesis using qs by blast
  next
    case False
    then have "s' = s1 \<and> (\<exists>e. r = Inl e)"
      using assms v p by (auto simp: gd_upload_to_def op_bind_def op_read_file_def op_of_def split: option.splits sum.splits if_splits)
    with qs show ?thesis by blast
  qed
qed

text \<open>
  C37. The Google Drive client under the policies Rename and Fail: the local files stay, and
  either nothing is uploaded and the result is an error, or exactly one upload is sent, as
  the last request: the creation of a new file with the contents of the local file, in one
  folder, under a name among the 101 candidates for which the search in that very folder has just
  found nothing. Google Drive allows many files of one name, so this search is the only guard.
\<close>

theorem google_looks_before_upload:
  assumes "gd_upload_to X local segments policy (c, w) = ((c', w'), r)" "policy \<noteq> Overwrite"
  shows "hw_files w' = hw_files w
    \<and> ((\<exists>qs e. hw_log w' = hw_log w @ qs \<and> (\<forall>q \<in> set qs. \<not> gd_writes q) \<and> r = Inl e)
      \<or> (\<exists>pre l mid p k t body parent. let name = rename_with_suffix_at (last segments) k t in
            hw_log w' = hw_log w @ pre @ l # mid @ [p] \<and> (\<forall>q \<in> set (pre @ l # mid). \<not> gd_writes q) \<and> k < 101
          \<and> hw_files w local = Some body
          \<and> gd_absent X parent name (length (hw_log w) + length pre) l
          \<and> gd_stores X parent name body p \<and> (\<forall>x. r = Inr x \<longrightarrow> no_final_name x = name)))"
proof
  show "hw_files w' = hw_files w"
    using op_keepsD [OF gd_files.upload_to assms(1)] by (simp add: same_files_def)
  from gd_upload_steps [OF assms(1)] consider
      (early) qs e where "hw_log w' = hw_log w @ qs" "\<forall>q \<in> set qs. \<not> gd_writes q" "r = Inl e"
    | (body) s1 qs body parent where "hw_log (snd s1) = hw_log w @ qs" "\<forall>q \<in> set qs. \<not> gd_writes q" "hw_files w local = Some body"
        "gd_upload_body X parent (last segments) body policy s1 = ((c', w'), r)"
    by auto
  then show "(\<exists>qs e. hw_log w' = hw_log w @ qs \<and> (\<forall>q \<in> set qs. \<not> gd_writes q) \<and> r = Inl e)
      \<or> (\<exists>pre l mid p k t body parent. let name = rename_with_suffix_at (last segments) k t in
            hw_log w' = hw_log w @ pre @ l # mid @ [p] \<and> (\<forall>q \<in> set (pre @ l # mid). \<not> gd_writes q) \<and> k < 101
          \<and> hw_files w local = Some body
          \<and> gd_absent X parent name (length (hw_log w) + length pre) l
          \<and> gd_stores X parent name body p \<and> (\<forall>x. r = Inr x \<longrightarrow> no_final_name x = name))"
  proof cases
    case early
    then show ?thesis by blast
  next
    case body
    from op_logD [OF gd_upload_body_log [OF assms(2)] body(4)] obtain rs where rs: "hw_log w' = hw_log w @ qs @ rs"
      "gd_looks.careful X parent body
         (\<lambda>n. \<exists>k < 101. \<exists>t. n = rename_with_suffix_at (last segments) k t) (length (hw_log w) + length qs) rs r"
      using body(1) by auto
    from gd_looks.careful_later [OF body(2) rs(2)] show ?thesis
      unfolding gd_looks.careful_def gd_looks.looked_def rs(1) Let_def using body(3)
      by (elim disjE exE conjE) (simp, fastforce)
  qed
qed


section \<open>Search filters\<close>

text \<open>
  A literal of the query language up to its closing quote: a backslash makes the next
  character literal.
\<close>

fun read_literal :: "string \<Rightarrow> (string \<times> string) option" where
  "read_literal [] = None"
| "read_literal (c # s) =
     (if c = CHR 0x27 then Some ([], s)
      else if c = CHR 0x5C then (case s of [] \<Rightarrow> None | d # t \<Rightarrow> map_option (\<lambda>(u, rest). (d # u, rest)) (read_literal t))
      else map_option (\<lambda>(u, rest). (c # u, rest)) (read_literal s))"

definition expect_text :: "string \<Rightarrow> string \<Rightarrow> string option" where
  "expect_text t s = (if prefix t s then Some (drop (length t) s) else None)"

text \<open>A filter as \<open>gd_filter\<close> writes it: the folder, the name, and the type if there is one.\<close>

definition read_filter :: "string \<Rightarrow> (string \<times> string \<times> string option) option" where
  "read_filter q =
     Option.bind (Option.bind (expect_text quote1 q) read_literal) (\<lambda>(parent, r1).
     Option.bind (Option.bind (expect_text ('' in parents and name = '' @ quote1) r1) read_literal) (\<lambda>(name, r2).
     Option.bind (expect_text '' and trashed = false'' r2) (\<lambda>r3.
     if r3 = [] then Some (parent, name, None)
     else Option.bind (Option.bind (expect_text ('' and mimeType = '' @ quote1) r3) read_literal) (\<lambda>(mime, r4).
          if r4 = [] then Some (parent, name, Some mime) else None))))"

lemma escape_q_Cons:
  "escape_q_literal (c # s) = (if c = CHR 0x27 \<or> c = CHR 0x5C then CHR 0x5C # c # escape_q_literal s else c # escape_q_literal s)"
  by (simp add: escape_q_literal_def replace_char_def)

lemma read_q_literal: "read_literal (escape_q_literal s @ CHR 0x27 # rest) = Some (s, rest)"
  by (induction s) (simp_all add: escape_q_Cons, simp add: escape_q_literal_def replace_char_def)

lemma expect_this [simp]: "expect_text t (t @ s) = Some s"
  by (simp add: expect_text_def)

text \<open>
  C40. The filter of a lookup says what it means, whatever characters the name contains:
  read with the rules of the query language it is the folder, the name and the type that
  were asked for, and nothing after them.
\<close>

theorem filter_says_what_it_means: "read_filter (gd_filter parent_id name mime) = Some (parent_id, name, mime)"
proof -
  have e: "expect_text quote1 (quote1 @ s) = Some s" "expect_text ('' in parents and name = '' @ quote1) ('' in parents and name = '' @ quote1 @ s) = Some s"
    "expect_text ('' and mimeType = '' @ quote1) ('' and mimeType = '' @ quote1 @ s) = Some s" for s
    using expect_this [of "'' in parents and name = '' @ quote1" s] expect_this [of "'' and mimeType = '' @ quote1" s]
    by (simp_all only: append_assoc expect_this)
  have r: "read_literal (escape_q_literal s @ quote1 @ rest) = Some (s, rest)" for s rest
    using read_q_literal [of s rest] by simp
  have l: "read_literal (escape_q_literal s @ quote1) = Some (s, [])" for s using r [of s "[]"] by simp
  show ?thesis
    by (cases mime) (simp_all only: read_filter_def gd_filter_def e r l expect_this Option.bind.bind_lunit prod.case option.case
        append_Nil2 if_True if_False simp_thms list.distinct, simp_all add: expect_text_def)
qed

section \<open>Listings\<close>

definition gd_fetch :: "google_env \<Rightarrow> string \<Rightarrow> string option \<Rightarrow> (remote_entry list \<times> string option option) gd_op" where
  "gd_fetch X parent_id k =
     op_bind (gd_decode (gx_file_list X) (gd_expect (gd_json_request X GET (gd_page_url X parent_id k) None))) (\<lambda>page.
     op_of (Inr (map gd_entry (dfl_files page), map_option Some (dfl_next_page_token page))))"

interpretation gd_listing: paged_listing "gd_fetch X parent_id" "\<lambda>n k acc. gd_pages n X parent_id k acc" for X parent_id
  by unfold_locales (simp_all add: gd_fetch_def op_bind_assoc Let_def option.case_distrib [of "case_option _ _"] option.map_sel
      cong: option.case_cong split: option.split)

section \<open>An example\<close>

definition example_google_env :: google_env where
  "example_google_env = cloud_env.extend example_cloud \<lparr>gx_file_list = (\<lambda>b. Some \<lparr>dfl_files = [], dfl_next_page_token = None\<rparr>),
     gx_created = (\<lambda>b. Some ''x''), gx_about = (\<lambda>b. None)\<rparr>"

definition example_google :: google_drive_client where
  "example_google = \<lparr>gdc_profile = \<lparr>gd_root_folder = ''zz-drop'', gd_user_email = ''u@h'', gd_root_folder_id = Some ''r'',
     gd_auth = \<lparr>gda_access_token = ''at'', gda_refresh_token = ''rt'', gda_token_type = ''Bearer'', gda_expires_at = 1000, gda_scope = []\<rparr>\<rparr>,
     gdc_dirty = False\<rparr>"

lemma example_gd_upload:
  "(let r = gd_upload_to example_google_env ''a.txt'' [''b.txt''] Fail (example_google, example_cloud_world) in
    (map rq_method (hw_log (snd (fst r))), snd r)) = ([GET, POST], Inr \<lparr>no_final_name = ''b.txt'', no_size = 3, no_renamed = False\<rparr>)"
  by code_simp

theorem google_looks_before_upload_witness:
  "\<exists>pre l mid p parent. hw_log (snd (fst (gd_upload_to example_google_env ''a.txt'' [''b.txt''] Fail (example_google, example_cloud_world))))
      = pre @ l # mid @ [p] \<and> gd_absent example_google_env parent ''b.txt'' (length pre) l
      \<and> gd_stores example_google_env parent ''b.txt'' ''xyz'' p"
proof -
  obtain c' w' r where run: "gd_upload_to example_google_env ''a.txt'' [''b.txt''] Fail (example_google, example_cloud_world) = ((c', w'), r)"
    by (metis prod.exhaust)
  with example_gd_upload have r: "r = Inr \<lparr>no_final_name = ''b.txt'', no_size = 3, no_renamed = False\<rparr>" by (simp add: Let_def)
  with google_looks_before_upload [OF run] show ?thesis by (auto simp: run Let_def) blast
qed

end
