(* ===== verification/One_Drive_Props.thy ===== *)
theory One_Drive_Props
  imports One_Drive_Client Cloud_Effects
begin

text \<open>
  What the OneDrive client sends and keeps, as for the other two. A listing follows the
  URL that the server names for the next page, wherever it is.
\<close>

section \<open>Effects of the operations\<close>

locale one_drive_effect = op_effect rel for rel :: "one_drive_client \<times> http_world \<Rightarrow> one_drive_client \<times> http_world \<Rightarrow> bool" +
  fixes X :: one_drive_env
  assumes refresh: "op_keeps rel (od_refresh_token_now X)"
    and api: "prefix GRAPH_BASE url \<Longrightarrow> meth \<noteq> PUT \<Longrightarrow> op_keeps rel (od_json_request X meth url body)"
    and binary_get: "prefix GRAPH_BASE url \<Longrightarrow> op_keeps rel (od_binary_get X url)"
begin

lemma fresh: "op_keeps rel (od_ensure_fresh_token X)"
  unfolding od_ensure_fresh_token_def by (intro keeps_intros refresh)

lemma expect: "op_keeps rel m \<Longrightarrow> op_keeps rel (od_expect m)"
  unfolding od_expect_def by (intro keeps_intros)

lemma decode: "op_keeps rel m \<Longrightarrow> op_keeps rel (od_decode f m)"
  unfolding od_decode_def by (intro keeps_intros)

lemma find_in_folder: "op_keeps rel (od_find_in_folder X parent_id name)"
  unfolding od_find_in_folder_def by (intro keeps_intros fresh api) simp_all

lemma create_at_root: "op_keeps rel (od_create_folder_at_root X name)"
  unfolding od_create_folder_at_root_def by (intro keeps_intros fresh expect decode api) simp_all

lemma find_or_create_at_root: "op_keeps rel (od_find_or_create_folder_at_root X name)"
  unfolding od_find_or_create_folder_at_root_def by (intro keeps_intros create_at_root api) simp_all

lemma create_folder: "op_keeps rel (od_create_folder_under X parent_id name)"
  unfolding od_create_folder_under_def by (intro keeps_intros fresh expect decode api) simp_all

lemma find_or_create: "op_keeps rel (od_find_or_create_folder_under X parent_id name)"
  unfolding od_find_or_create_folder_under_def by (intro keeps_intros find_in_folder create_folder)

lemma fetch_user_email: "op_keeps rel (od_fetch_user_email X)"
  unfolding od_fetch_user_email_def by (intro keeps_intros fresh decode expect api) simp_all

end

locale one_drive_rooted = one_drive_effect +
  assumes ensure_root: "op_keeps rel (od_ensure_root_folder X)"
begin

lemma ensure_dir: "op_keeps rel (od_ensure_dir_segments X segments)"
  unfolding od_ensure_dir_segments_def by (intro keeps_intros ensure_root find_or_create)

lemma resolve_dir: "op_keeps rel (od_resolve_dir_segments X segments)"
  unfolding od_resolve_dir_segments_def by (intro keeps_intros ensure_root find_in_folder)

lemma existing: "op_keeps rel (od_existing X segments)"
  unfolding od_existing_def od_resolve_file_path_def by (intro keeps_intros ensure_root resolve_dir find_in_folder)

lemma delete_at: "op_keeps rel (od_delete_at X segments hard)"
  unfolding od_delete_at_def by (intro keeps_intros existing fresh expect api) simp_all

lemma download_from:
  "(\<And>body. op_keeps rel (op_write_file X OdLocalIo dest body)) \<Longrightarrow> op_keeps rel (od_download_from X segments dest)"
  unfolding od_download_from_def by (intro keeps_intros existing fresh expect binary_get) simp_all

lemma list_at:
  assumes "\<And>url. op_keeps rel (od_json_request X GET url None)"
  shows "op_keeps rel (od_list_at fuel X segments)"
proof -
  have "op_keeps rel (od_pages n X link entries)" for n link entries
  proof (induction n arbitrary: link entries)
    case 0
    show ?case by (cases link) (auto intro: keeps_of)
  next
    case (Suc n)
    then show ?case by (cases link) (auto intro!: keeps_intros decode expect assms)
  qed
  then show ?thesis unfolding od_list_at_def by (intro keeps_intros fresh ensure_root resolve_dir)
qed

end

locale one_drive_transfer = one_drive_rooted +
  assumes binary_put: "prefix GRAPH_BASE url \<Longrightarrow> op_keeps rel (od_binary_put X url body)"
begin

lemma put_file: "op_keeps rel (od_put_file_content X parent_id leaf bytes behavior)"
  unfolding od_put_file_content_def by (intro keeps_intros fresh binary_put) (simp add: od_put_url_def)

lemma upload_body: "op_keeps rel (od_upload_body X parent_id leaf body policy)"
  unfolding od_upload_body_def Let_def
  by (cases policy) (auto intro!: keeps_intros keeps_try_names find_in_folder put_file simp del: upt_Suc)

lemma upload_to: "op_keeps rel (od_upload_to X local segments policy)"
  unfolding od_upload_to_def by (intro keeps_intros ensure_root ensure_dir upload_body)

end

lemma od_request_keeps:
  assumes "op_effect rel" "\<And>headers bytes. op_keeps rel (request X OdNetwork od_from_ureq_transport OdDecode meth url headers bytes)"
  shows "op_keeps rel (od_json_request X meth url body)" "meth = GET \<Longrightarrow> op_keeps rel (od_binary_get X url)"
    "meth = PUT \<Longrightarrow> op_keeps rel (od_binary_put X url bytes)"
  unfolding od_json_request_def od_binary_get_def od_binary_put_def using assms(2)
  by (auto intro!: op_effect.keeps_bind [OF assms(1)] op_effect.keeps_get [OF assms(1)])

lemma od_refresh_keeps:
  assumes "op_effect rel"
    and "\<And>c w body. rel (c, w) (c, w\<lparr>hw_log := hw_log w @ [form_request ''https://login.microsoftonline.com/common/oauth2/v2.0/token'' body]\<rparr>)"
    and "\<And>now tokens. op_keeps rel (op_set (\<lambda>c. \<lparr>odc_profile = (odc_profile c)\<lparr>od_auth :=
          od_apply_refresh now tokens (od_auth (odc_profile c))\<rparr>, odc_dirty = True\<rparr>) :: unit od_op)"
  shows "op_keeps rel (od_refresh_token_now X)"
  unfolding od_refresh_token_now_def
  by (intro op_effect.keeps_intros [OF assms(1)] df_oauth_keeps assms(3))
    (simp_all add: assms(2,3) op_effect.rel_refl [OF assms(1)] od_device_flow_config_def)

lemma od_root_keeps:
  assumes "one_drive_effect rel X" "\<And>fid. op_keeps rel (op_set (\<lambda>c. \<lparr>odc_profile = (odc_profile c)\<lparr>od_root_folder_id := Some fid\<rparr>,
      odc_dirty = True\<rparr>) :: unit od_op)"
  shows "op_keeps rel (od_ensure_root_folder X)"
proof -
  have e: "op_effect rel" using assms(1) by (simp add: one_drive_effect_def)
  show ?thesis unfolding od_ensure_root_folder_def
    by (intro op_effect.keeps_intros [OF e] one_drive_effect.fresh [OF assms(1)]
        one_drive_effect.find_or_create_at_root [OF assms(1)] assms(2))
qed

text \<open>
  The profile differs from the one the client was opened with only if it is dirty, and
  only in its tokens and in the id of the root folder, which never changes once it is known.
\<close>

definition od_inner_kept :: "one_drive_client \<times> http_world \<Rightarrow> one_drive_client \<times> http_world \<Rightarrow> bool" where
  "od_inner_kept s t \<longleftrightarrow> (odc_dirty (fst s) \<longrightarrow> odc_dirty (fst t))
     \<and> (odc_dirty (fst t) \<or> fst t = fst s)
     \<and> od_root_folder (odc_profile (fst t)) = od_root_folder (odc_profile (fst s))
     \<and> od_user_email (odc_profile (fst t)) = od_user_email (odc_profile (fst s))
     \<and> od_root_folder_id (odc_profile (fst t)) = od_root_folder_id (odc_profile (fst s))"

definition od_profile_kept :: "one_drive_client \<times> http_world \<Rightarrow> one_drive_client \<times> http_world \<Rightarrow> bool" where
  "od_profile_kept s t \<longleftrightarrow> (odc_dirty (fst s) \<longrightarrow> odc_dirty (fst t))
     \<and> (odc_dirty (fst t) \<or> fst t = fst s)
     \<and> od_root_folder (odc_profile (fst t)) = od_root_folder (odc_profile (fst s))
     \<and> od_user_email (odc_profile (fst t)) = od_user_email (odc_profile (fst s))
     \<and> (\<forall>i. od_root_folder_id (odc_profile (fst s)) = Some i \<longrightarrow> od_root_folder_id (odc_profile (fst t)) = Some i)"

interpretation od_inner: op_effect od_inner_kept
  by unfold_locales (auto simp: od_inner_kept_def)

interpretation od_kept: op_effect od_profile_kept
  by unfold_locales (auto simp: od_profile_kept_def)

lemma od_request_inner: "op_keeps od_inner_kept (request X e1 e2 e3 meth url headers body)"
  by (auto simp: op_keeps_def request_def od_inner_kept_def http_run_def split: sum.splits)

lemma od_inner_profile: "od_inner_kept s t \<Longrightarrow> od_profile_kept s t"
  by (auto simp: od_inner_kept_def od_profile_kept_def)

lemma od_inner_ops: "op_keeps od_inner_kept m \<Longrightarrow> op_keeps od_profile_kept m"
  by (auto simp: op_keeps_def intro: od_inner_profile)

interpretation od_inner: one_drive_effect od_inner_kept X for X
proof
  show "op_keeps od_inner_kept (od_refresh_token_now X)"
    by (rule od_refresh_keeps [OF od_inner.op_effect_axioms]) (auto simp: op_keeps_def op_set_def od_inner_kept_def)
qed (rule od_request_keeps [OF od_inner.op_effect_axioms od_request_inner] refl)+

lemma od_root_kept: "op_keeps od_profile_kept (od_ensure_root_folder X)"
  unfolding op_keeps_def
proof
  fix s
  show "od_profile_kept s (fst (od_ensure_root_folder X s))"
  proof (cases "od_root_folder_id (odc_profile (fst s))")
    case (Some i)
    then show ?thesis by (simp add: od_ensure_root_folder_def op_defs od_profile_kept_def)
  next
    case None
    let ?find = "op_bind (od_ensure_fresh_token X) (\<lambda>_. op_bind (op_get (\<lambda>c. od_root_folder (odc_profile c)))
      (\<lambda>name. op_bind (op_of (od_validate_filename name)) (\<lambda>_. od_find_or_create_folder_at_root X name)))"
    obtain s1 r where f: "?find s = (s1, r)" by fastforce
    have "op_keeps od_inner_kept ?find"
      by (intro od_inner.keeps_intros od_inner.fresh od_inner.find_or_create_at_root)
    from op_keepsD [OF this f] have k: "od_inner_kept s s1" .
    have "od_ensure_root_folder X s = op_bind ?find (\<lambda>fid. op_bind (op_set (\<lambda>c. \<lparr>odc_profile = (odc_profile c)
        \<lparr>od_root_folder_id := Some fid\<rparr>, odc_dirty = True\<rparr>)) (\<lambda>_. op_of (Inr fid))) s"
      by (simp add: od_ensure_root_folder_def op_get_def op_bind_assoc None op_bind_def [of "op_get _"])
    with f k None show ?thesis
      by (cases r) (auto simp: op_bind_def [of ?find] op_defs od_inner_kept_def od_profile_kept_def)
  qed
qed

lemma od_put_inner: "op_keeps od_inner_kept (od_binary_put X url body)"
  by (rule od_request_keeps(3) [OF od_inner.op_effect_axioms od_request_inner refl])

interpretation od_kept: one_drive_transfer od_profile_kept X for X
  by unfold_locales
    (auto intro: od_root_kept od_inner_ops od_inner.refresh od_inner.api od_inner.binary_get od_put_inner)

definition od_home :: "string \<Rightarrow> bool" where
  "od_home url \<longleftrightarrow> prefix ''https://graph.microsoft.com/'' url \<or> prefix ''https://login.microsoftonline.com/'' url"

definition od_writes :: "http_request \<Rightarrow> bool" where
  "od_writes q \<longleftrightarrow> rq_method q = PUT"

lemma od_home_base: "prefix GRAPH_BASE url \<Longrightarrow> od_home url"
  by (auto simp: od_home_def GRAPH_BASE_def prefix_def)

interpretation od_sends: one_drive_effect "sends (\<lambda>q. od_home (rq_url q))" X for X
proof
  show "op_keeps (sends (\<lambda>q. od_home (rq_url q))) (od_refresh_token_now X)"
    by (rule od_refresh_keeps [OF sends.op_effect_axioms _ set_sends])
      (simp add: sends_def form_request_def od_home_def)
qed (rule od_request_keeps [OF sends.op_effect_axioms request_sends], simp_all add: od_home_base)+

interpretation od_sends: one_drive_transfer "sends (\<lambda>q. od_home (rq_url q))" X for X
proof
  show "op_keeps (sends (\<lambda>q. od_home (rq_url q))) (od_ensure_root_folder X)"
    by (rule od_root_keeps [OF od_sends.one_drive_effect_axioms set_sends])
qed (rule od_request_keeps [OF sends.op_effect_axioms request_sends], simp_all add: od_home_base)

interpretation od_quiet: one_drive_effect "sends (\<lambda>q. \<not> od_writes q)" X for X
proof
  show "op_keeps (sends (\<lambda>q. \<not> od_writes q)) (od_refresh_token_now X)"
    by (rule od_refresh_keeps [OF sends.op_effect_axioms _ set_sends])
      (simp add: sends_def form_request_def od_writes_def)
qed (rule od_request_keeps [OF sends.op_effect_axioms request_sends], simp_all add: od_writes_def)+

interpretation od_quiet: one_drive_rooted "sends (\<lambda>q. \<not> od_writes q)" X for X
  by unfold_locales (rule od_root_keeps [OF od_quiet.one_drive_effect_axioms set_sends])

interpretation od_files: one_drive_effect same_files X for X
proof
  show "op_keeps same_files (od_refresh_token_now X)"
    by (rule od_refresh_keeps [OF same_files.op_effect_axioms _ set_same_files]) (simp add: same_files_def)
qed (rule od_request_keeps [OF same_files.op_effect_axioms request_same_files] refl)+

interpretation od_files: one_drive_transfer same_files X for X
  by unfold_locales (rule od_root_keeps [OF od_files.one_drive_effect_axioms set_same_files]
      od_request_keeps [OF same_files.op_effect_axioms request_same_files] refl)+


section \<open>Uploads look before they write\<close>

text \<open>The server has no item of that name in the folder.\<close>

definition od_absent :: "one_drive_env \<Rightarrow> string \<Rightarrow> string \<Rightarrow> nat \<Rightarrow> http_request \<Rightarrow> bool" where
  "od_absent X parent_id name i l \<longleftrightarrow> rq_method l = GET
     \<and> rq_url l = GRAPH_BASE @ ''/me/drive/items/'' @ parent_id @ '':/'' @ url_path_escape X name
     \<and> (\<exists>b. he_answer (ce_http X) i l = Inr \<lparr>rs_status = 404, rs_body = Some b\<rparr>)"

definition od_stores :: "one_drive_env \<Rightarrow> string \<Rightarrow> string \<Rightarrow> string \<Rightarrow> http_request \<Rightarrow> bool" where
  "od_stores X parent_id name body p \<longleftrightarrow> rq_url p = od_put_url X parent_id name ''fail'' \<and> rq_body p = body"

lemma od_request_log:
  "op_log (od_json_request X meth url body)
     (\<lambda>i qs r. qs = [] \<and> (\<exists>e. r = Inl e)
       \<or> (\<exists>q. qs = [q] \<and> rq_method q = meth \<and> rq_url q = url
            \<and> (\<forall>s b. r = Inr (s, b) \<longrightarrow> he_answer (ce_http X) i q = Inr \<lparr>rs_status = s, rs_body = Some b\<rparr>)))"
  unfolding od_json_request_def
proof (rule op_log_bind [OF _ request_log])
  show "op_log (op_get od_auth_header) (\<lambda>i qs r. qs = [])" by (simp add: op_log_def op_get_def)
qed (auto simp: Let_def)

lemma od_put_log:
  "op_log (od_binary_put X url body)
     (\<lambda>i qs r. qs = [] \<and> (\<exists>e. r = Inl e) \<or> (\<exists>q. qs = [q] \<and> od_writes q \<and> rq_url q = url \<and> rq_body q = body))"
  unfolding od_binary_put_def
proof (rule op_log_bind [OF _ request_log])
  show "op_log (op_get od_auth_header) (\<lambda>i qs r. qs = [])" by (simp add: op_log_def op_get_def)
qed (auto simp: Let_def od_writes_def)

lemma od_quiet_fresh: "op_log (od_ensure_fresh_token X) (\<lambda>_ qs _. \<forall>q \<in> set qs. \<not> od_writes q)"
  by (rule sends_log) (rule od_quiet.fresh)

lemma od_look_log:
  "op_log (op_bind (od_find_in_folder X parent_id name) (\<lambda>found. op_of (Inr (found \<noteq> None))))
     (\<lambda>i qs r. (\<forall>q \<in> set qs. \<not> od_writes q)
       \<and> (r = Inr False \<longrightarrow> (\<exists>pre l. qs = pre @ [l] \<and> od_absent X parent_id name (i + length pre) l)))"
  unfolding od_find_in_folder_def op_bind_assoc
proof (rule op_log_bind [OF od_quiet_fresh])
  let ?Q = "\<lambda>i qs r. (\<forall>q \<in> set qs. \<not> od_writes q) \<and> (r = Inr False \<longrightarrow> (\<exists>l. qs = [l] \<and> od_absent X parent_id name i l))"
  show "op_log (op_bind (od_json_request X GET (GRAPH_BASE @ ''/me/drive/items/'' @ parent_id @ '':/'' @ url_path_escape X name) None)
      (\<lambda>x. op_bind (case x of (s, bytes) \<Rightarrow> op_of (if s = 404 then Inr None
            else if \<not> is_success s then Inl (od_classify_status s)
            else case ox_item X bytes of None \<Rightarrow> Inl OdDecode | Some parsed \<Rightarrow> Inr (Some parsed)))
         (\<lambda>found. op_of (Inr (found \<noteq> None))))) ?Q" for u :: unit
  proof (rule op_log_bind [OF od_request_log, where R = "\<lambda>x i qs r. qs = [] \<and> (r = Inr False \<longrightarrow> fst x = 404)"], goal_cases)
    case (1 x)
    then show ?case by (auto simp: op_log_def op_bind_def op_of_def split: prod.splits if_splits option.splits sum.splits)
  next
    case (3 i qs rs x r)
    then show ?case by (cases x) (auto simp: od_absent_def od_writes_def)
  qed (auto simp: od_writes_def)
qed auto

lemma od_put_file_log:
  "op_log (od_put_file_content X parent_id name body ''fail'')
     (\<lambda>i qs r. (\<forall>q \<in> set qs. \<not> od_writes q) \<and> (\<exists>e. r = Inl e)
       \<or> (\<exists>mid p. qs = mid @ [p] \<and> (\<forall>q \<in> set mid. \<not> od_writes q) \<and> od_writes p \<and> od_stores X parent_id name body p))"
  unfolding od_put_file_content_def
proof (rule op_log_bind [OF od_quiet_fresh])
  let ?R = "\<lambda>i qs r. qs = [] \<and> (\<exists>e. r = Inl e) \<or> (\<exists>p. qs = [p] \<and> od_writes p \<and> od_stores X parent_id name body p)"
  show "op_log (op_bind (od_binary_put X (od_put_url X parent_id name ''fail'') body)
      (\<lambda>(s, b). op_of (if is_success s then Inr () else Inl (od_classify_status_with_body s b)))) ?R" for u :: unit
    by (rule op_log_bind [OF od_put_log, where R = "\<lambda>x i qs r. qs = []"])
      (auto simp: op_log_def op_of_def od_stores_def split: prod.splits)
next
  fix i qs rs and x :: unit and r :: "(one_drive_error, unit) result"
  assume q: "\<forall>q \<in> set qs. \<not> od_writes q"
    and "rs = [] \<and> (\<exists>e. r = Inl e) \<or> (\<exists>p. rs = [p] \<and> od_writes p \<and> od_stores X parent_id name body p)"
  then show "(\<forall>q \<in> set (qs @ rs). \<not> od_writes q) \<and> (\<exists>e. r = Inl e)
     \<or> (\<exists>mid p. qs @ rs = mid @ [p] \<and> (\<forall>q \<in> set mid. \<not> od_writes q) \<and> od_writes p \<and> od_stores X parent_id name body p)"
    using q by (elim disjE exE conjE) auto
qed blast

interpretation od_looks: looking_client od_writes "\<lambda>i l n. od_absent X parent n i l" "\<lambda>p n. od_stores X parent n body p"
  "\<lambda>n. op_bind (od_find_in_folder X parent n) (\<lambda>found. op_of (Inr (found \<noteq> None)))"
  "\<lambda>n. od_put_file_content X parent n body ''fail''" for X parent body
  by unfold_locales (rule od_look_log od_put_file_log)+

lemma od_upload_body_log:
  assumes "policy \<noteq> Overwrite"
  shows "op_log (od_upload_body X parent leaf body policy)
     (od_looks.careful X parent body (\<lambda>n. \<exists>k < 101. \<exists>t. n = rename_with_suffix_at leaf k t))"
proof (cases policy)
  case Overwrite
  with assms show ?thesis by simp
next
  case Fail
  have "op_log (op_of (Inl OdConflict)) (od_looks.careful X parent body (\<lambda>n. \<exists>k < 101. \<exists>t. n = rename_with_suffix_at leaf k t))"
    by (auto simp: op_log_def op_of_def od_looks.careful_error)
  moreover have "\<exists>k < 101. \<exists>t. leaf = rename_with_suffix_at leaf k t"
    by (rule exI [of _ 0]) (simp add: rename_with_suffix_at_def)
  ultimately have "op_log (op_bind (op_bind (od_find_in_folder X parent leaf) (\<lambda>found. op_of (Inr (found \<noteq> None))))
      (\<lambda>there. if there then op_of (Inl OdConflict)
         else op_bind (od_put_file_content X parent leaf body ''fail'')
           (\<lambda>_. op_of (Inr \<lparr>no_final_name = leaf, no_size = of_nat (length body), no_renamed = False\<rparr>))))
     (od_looks.careful X parent body (\<lambda>n. \<exists>k < 101. \<exists>t. n = rename_with_suffix_at leaf k t))"
    by (rule od_looks.look_then_put) simp
  then show ?thesis by (simp add: od_upload_body_def Let_def Fail op_bind_assoc cong: if_cong)
next
  case Rename
  have "op_log (od_upload_body X parent leaf body Rename)
     (od_looks.careful X parent body (\<lambda>n. \<exists>k \<in> set [0..<Suc (unat RENAME_MAX_TRIES)]. \<exists>t. n = rename_with_suffix_at leaf k t))"
    unfolding od_upload_body_def Let_def collision_policy.case by (rule od_looks.try_names_careful)
  then show ?thesis unfolding Rename
    by (rule op_log_mono) (erule od_looks.careful_mono, force simp: RENAME_MAX_TRIES_def)
qed

lemma od_upload_steps:
  assumes "od_upload_to X local segments policy s = (s', r)"
  shows "(\<exists>qs e. hw_log (snd s') = hw_log (snd s) @ qs \<and> (\<forall>q \<in> set qs. \<not> od_writes q) \<and> r = Inl e)
     \<or> (\<exists>s1 qs body parent. hw_log (snd s1) = hw_log (snd s) @ qs \<and> (\<forall>q \<in> set qs. \<not> od_writes q)
          \<and> hw_files (snd s) local = Some body \<and> \<not> SMALL_UPLOAD_LIMIT_BYTES < of_nat (length body)
          \<and> od_upload_body X parent (last segments) body policy s1 = (s', r))"
proof (cases "segments = [] \<or> (\<exists>e. od_validate_all segments = Inl e)")
  case True
  with assms show ?thesis by (auto simp: od_upload_to_def op_of_def split: if_splits)
next
  case False
  let ?prep = "if butlast segments = [] then od_ensure_root_folder X else od_ensure_dir_segments X (butlast segments)"
  obtain v where v: "od_validate_all segments = Inr v" "segments \<noteq> []" using False by (cases "od_validate_all segments") auto
  obtain s1 r1 where p: "?prep s = (s1, r1)" by fastforce
  have "sends (\<lambda>q. \<not> od_writes q) s s1" "same_files s s1"
    by (rule op_keepsD [OF sends.keeps_if [OF od_quiet.ensure_root od_quiet.ensure_dir] p]
        op_keepsD [OF same_files.keeps_if [OF od_files.ensure_root od_files.ensure_dir] p])+
  then obtain qs where qs: "hw_log (snd s1) = hw_log (snd s) @ qs" "\<forall>q \<in> set qs. \<not> od_writes q"
    and f: "hw_files (snd s1) = hw_files (snd s)" by (auto simp: sends_def same_files_def)
  show ?thesis
  proof (cases "\<exists>parent body. r1 = Inr parent \<and> http_read_file (ce_http X) local (snd s1) = Some body
      \<and> \<not> SMALL_UPLOAD_LIMIT_BYTES < of_nat (length body)")
    case True
    then obtain parent body where "r1 = Inr parent" "http_read_file (ce_http X) local (snd s1) = Some body"
      "\<not> SMALL_UPLOAD_LIMIT_BYTES < of_nat (length body)" by blast
    moreover from this have "od_upload_body X parent (last segments) body policy s1 = (s', r)"
      using assms v p by (simp add: od_upload_to_def op_bind_def [abs_def] op_read_file_def op_of_def)
    moreover have "hw_files (snd s) local = Some body"
      using calculation(2) f by (auto simp: http_read_file_def split: if_splits)
    ultimately show ?thesis using qs by blast
  next
    case False
    then have "s' = s1 \<and> (\<exists>e. r = Inl e)"
      using assms v p by (auto simp: od_upload_to_def op_bind_def op_read_file_def op_of_def split: option.splits sum.splits if_splits)
    with qs show ?thesis by blast
  qed
qed

text \<open>
  C38. The OneDrive client under the policies Rename and Fail: the local files stay, and
  either nothing is uploaded and the result is an error, or exactly one upload is sent, as
  the last request: the contents of the local file, which are within the limit of 4 MiB, with the conflict behaviour
  \<open>fail\<close>, for a name among the 101 candidates for which the server has just answered that the folder has no such item.
\<close>

theorem onedrive_looks_before_upload:
  assumes "od_upload_to X local segments policy (c, w) = ((c', w'), r)" "policy \<noteq> Overwrite"
  shows "hw_files w' = hw_files w
    \<and> ((\<exists>qs e. hw_log w' = hw_log w @ qs \<and> (\<forall>q \<in> set qs. \<not> od_writes q) \<and> r = Inl e)
      \<or> (\<exists>pre l mid p k t body parent. let name = rename_with_suffix_at (last segments) k t in
            hw_log w' = hw_log w @ pre @ l # mid @ [p] \<and> (\<forall>q \<in> set (pre @ l # mid). \<not> od_writes q) \<and> k < 101
          \<and> hw_files w local = Some body \<and> \<not> SMALL_UPLOAD_LIMIT_BYTES < of_nat (length body)
          \<and> od_absent X parent name (length (hw_log w) + length pre) l
          \<and> od_writes p \<and> od_stores X parent name body p \<and> (\<forall>x. r = Inr x \<longrightarrow> no_final_name x = name)))"
proof
  show "hw_files w' = hw_files w"
    using op_keepsD [OF od_files.upload_to assms(1)] by (simp add: same_files_def)
  from od_upload_steps [OF assms(1)] consider
      (early) qs e where "hw_log w' = hw_log w @ qs" "\<forall>q \<in> set qs. \<not> od_writes q" "r = Inl e"
    | (body) s1 qs body parent where "hw_log (snd s1) = hw_log w @ qs" "\<forall>q \<in> set qs. \<not> od_writes q" "hw_files w local = Some body"
        "\<not> SMALL_UPLOAD_LIMIT_BYTES < of_nat (length body)"
        "od_upload_body X parent (last segments) body policy s1 = ((c', w'), r)"
    by auto
  then show "(\<exists>qs e. hw_log w' = hw_log w @ qs \<and> (\<forall>q \<in> set qs. \<not> od_writes q) \<and> r = Inl e)
      \<or> (\<exists>pre l mid p k t body parent. let name = rename_with_suffix_at (last segments) k t in
            hw_log w' = hw_log w @ pre @ l # mid @ [p] \<and> (\<forall>q \<in> set (pre @ l # mid). \<not> od_writes q) \<and> k < 101
          \<and> hw_files w local = Some body \<and> \<not> SMALL_UPLOAD_LIMIT_BYTES < of_nat (length body)
          \<and> od_absent X parent name (length (hw_log w) + length pre) l
          \<and> od_writes p \<and> od_stores X parent name body p \<and> (\<forall>x. r = Inr x \<longrightarrow> no_final_name x = name))"
  proof cases
    case early
    then show ?thesis by blast
  next
    case body
    from op_logD [OF od_upload_body_log [OF assms(2)] body(5)] obtain rs where rs: "hw_log w' = hw_log w @ qs @ rs"
      "od_looks.careful X parent body
         (\<lambda>n. \<exists>k < 101. \<exists>t. n = rename_with_suffix_at (last segments) k t) (length (hw_log w) + length qs) rs r"
      using body(1) by auto
    from od_looks.careful_later [OF body(2) rs(2)] show ?thesis
      unfolding od_looks.careful_def od_looks.looked_def rs(1) Let_def using body(3,4)
      by (elim disjE exE conjE) (simp, fastforce)
  qed
qed

section \<open>Listings\<close>

definition od_fetch :: "one_drive_env \<Rightarrow> string \<Rightarrow> (remote_entry list \<times> string option) od_op" where
  "od_fetch X url = op_bind (od_decode (ox_children X) (od_expect (od_json_request X GET url None))) (\<lambda>page.
     op_of (Inr (map od_entry (cp_value page), cp_next_link page)))"

lemma od_pages_done: "od_pages n X None acc = op_of (Inr (Some acc))"
  by (cases n) simp_all

interpretation od_listing: paged_listing "od_fetch X" "\<lambda>n url acc. od_pages n X (Some url) acc" for X
proof
  show "od_pages 0 X (Some url) acc = op_of (Inr None)" for url acc by simp
  have e: "od_pages n X link acc = (case link of None \<Rightarrow> op_of (Inr (Some acc)) | Some k \<Rightarrow> od_pages n X (Some k) acc)" for n link acc
    by (cases link) (simp_all add: od_pages_done)
  show "od_pages (Suc n) X (Some url) acc = op_bind (od_fetch X url) (\<lambda>(es, next).
      case next of None \<Rightarrow> op_of (Inr (Some (acc @ es))) | Some k' \<Rightarrow> od_pages n X (Some k') (acc @ es))" for n url acc
    by (simp add: od_fetch_def op_bind_assoc) (subst e, rule refl)
qed

section \<open>An example\<close>

definition example_one_drive_env :: one_drive_env where
  "example_one_drive_env = cloud_env.extend example_cloud \<lparr>ox_item = (\<lambda>b. None), ox_children = (\<lambda>b. None), ox_me = (\<lambda>b. None)\<rparr>"

definition example_one_drive :: one_drive_client where
  "example_one_drive = \<lparr>odc_profile = \<lparr>od_root_folder = ''zz-drop'', od_user_email = ''u@h'', od_root_folder_id = Some ''r'',
     od_auth = \<lparr>oda_access_token = ''at'', oda_refresh_token = ''rt'', oda_token_type = ''Bearer'', oda_expires_at = 1000, oda_scope = []\<rparr>\<rparr>,
     odc_dirty = False\<rparr>"

lemma example_od_upload:
  "(let r = od_upload_to example_one_drive_env ''a.txt'' [''b.txt''] Rename (example_one_drive, example_cloud_world) in
    (map rq_method (hw_log (snd (fst r))), snd r)) = ([GET, PUT], Inr \<lparr>no_final_name = ''b.txt'', no_size = 3, no_renamed = False\<rparr>)"
  by code_simp

theorem onedrive_looks_before_upload_witness:
  "\<exists>pre l mid p parent. hw_log (snd (fst (od_upload_to example_one_drive_env ''a.txt'' [''b.txt''] Rename (example_one_drive, example_cloud_world))))
      = pre @ l # mid @ [p] \<and> od_absent example_one_drive_env parent ''b.txt'' (length pre) l
      \<and> od_stores example_one_drive_env parent ''b.txt'' ''xyz'' p"
proof -
  obtain c' w' r where run: "od_upload_to example_one_drive_env ''a.txt'' [''b.txt''] Rename (example_one_drive, example_cloud_world) = ((c', w'), r)"
    by (metis prod.exhaust)
  with example_od_upload have r: "r = Inr \<lparr>no_final_name = ''b.txt'', no_size = 3, no_renamed = False\<rparr>" by (simp add: Let_def)
  with onedrive_looks_before_upload [OF run] show ?thesis by (auto simp: run Let_def) blast
qed

end
