(* ===== verification/Dropbox_Props.thy ===== *)
theory Dropbox_Props
  imports Dropbox_Client Cloud_Effects
begin

text \<open>
  What the Dropbox client sends and keeps: the effects of its operations from those of a
  single request, uploads that look before they write, listings of any number of pages,
  and the header that has to be ASCII.
\<close>

section \<open>Effects of the operations\<close>

locale dropbox_effect = op_effect rel for rel :: "dropbox_client \<times> http_world \<Rightarrow> dropbox_client \<times> http_world \<Rightarrow> bool" +
  fixes X :: dropbox_env
  assumes refresh: "op_keeps rel (db_refresh_token_now X)"
    and api: "prefix API_BASE url \<Longrightarrow> op_keeps rel (db_request X url headers body)"
begin

lemma fresh: "op_keeps rel (db_ensure_fresh_token X)"
  unfolding db_ensure_fresh_token_def by (intro keeps_intros refresh)

lemma json_post: "prefix API_BASE url \<Longrightarrow> op_keeps rel (db_json_post X url body)"
  unfolding db_json_post_def by (rule api)

lemma expect: "op_keeps rel m \<Longrightarrow> op_keeps rel (db_expect m)"
  unfolding db_expect_def by (intro keeps_intros)

lemma create_folder: "op_keeps rel (create_folder_idempotent X path)"
  unfolding create_folder_idempotent_def by (intro keeps_intros fresh json_post) simp

lemma ensure_root: "op_keeps rel (db_ensure_root_folder X)"
  unfolding db_ensure_root_folder_def by (intro keeps_intros fresh create_folder)

lemma ensure_dir: "op_keeps rel (db_ensure_dir_segments X segments)"
  unfolding db_ensure_dir_segments_def by (intro keeps_intros ensure_root create_folder)

lemma path_exists: "op_keeps rel (db_path_exists X path)"
  unfolding db_path_exists_def by (intro keeps_intros fresh json_post) simp

lemma page: "prefix API_BASE url \<Longrightarrow> op_keeps rel (db_page X url arg)"
  unfolding db_page_def by (intro keeps_intros expect json_post)

lemma more_pages: "op_keeps rel (db_more_pages n X p entries)"
  by (induction n arbitrary: p entries; subst db_more_pages.simps) (auto intro!: keeps_intros page simp: Let_def)

lemma list_at: "op_keeps rel (db_list_at fuel X segments)"
  unfolding db_list_at_def by (intro keeps_intros fresh page more_pages) simp

lemma delete_at: "op_keeps rel (db_delete_at X segments hard)"
  unfolding db_delete_at_def by (intro keeps_intros fresh expect json_post) simp

lemma fetch_user_email: "op_keeps rel (db_fetch_user_email X)"
  unfolding db_fetch_user_email_def db_no_arg_post_def by (intro keeps_intros fresh expect api) simp

end

locale dropbox_transfer = dropbox_effect +
  assumes content: "prefix CONTENT_BASE url \<Longrightarrow> op_keeps rel (db_request X url headers body)"
begin

lemma upload_bytes: "op_keeps rel (db_upload_bytes X path bytes mode)"
  unfolding db_upload_bytes_def db_binary_post_def by (intro keeps_intros fresh expect content) simp

lemma upload_body: "op_keeps rel (db_upload_body X parent leaf body policy)"
  unfolding db_upload_body_def Let_def
  by (cases policy) (auto intro!: keeps_intros keeps_try_names upload_bytes path_exists simp del: upt_Suc)

lemma upload_to: "op_keeps rel (db_upload_to X local segments policy)"
  unfolding db_upload_to_def by (intro keeps_intros ensure_dir ensure_root upload_body)

lemma download_from:
  "(\<And>body. op_keeps rel (op_write_file X DbLocalIo dest body)) \<Longrightarrow> op_keeps rel (db_download_from X segments dest)"
  unfolding db_download_from_def db_binary_post_no_body_def by (intro keeps_intros fresh expect content) simp_all

end

text \<open>The profile differs from the one the client was opened with only if it is dirty, and only in its tokens.\<close>

definition db_profile_kept :: "dropbox_client \<times> http_world \<Rightarrow> dropbox_client \<times> http_world \<Rightarrow> bool" where
  "db_profile_kept s t \<longleftrightarrow> (dbc_dirty (fst s) \<longrightarrow> dbc_dirty (fst t))
     \<and> (dbc_dirty (fst t) \<or> fst t = fst s)
     \<and> db_root_folder (dbc_profile (fst t)) = db_root_folder (dbc_profile (fst s))
     \<and> db_user_email (dbc_profile (fst t)) = db_user_email (dbc_profile (fst s))"

definition db_home :: "string \<Rightarrow> bool" where
  "db_home url \<longleftrightarrow> prefix ''https://api.dropboxapi.com/'' url \<or> prefix ''https://content.dropboxapi.com/'' url"

definition is_upload :: "http_request \<Rightarrow> bool" where
  "is_upload q \<longleftrightarrow> rq_url q = CONTENT_BASE @ ''/files/upload''"

lemma db_request_keeps:
  assumes "op_effect rel" "\<And>auth. op_keeps rel (request X DbNetwork db_from_ureq_transport DbDecode POST url
      ((''Authorization'', auth) # (''User-Agent'', ''zz-drop'') # headers) body)"
  shows "op_keeps rel (db_request X url headers body)"
  unfolding db_request_def by (intro op_effect.keeps_bind [OF assms(1)] op_effect.keeps_get [OF assms(1)] assms(2))

lemma db_refresh_keeps:
  assumes "op_effect rel"
    and "\<And>c w body. rel (c, w) (c, w\<lparr>hw_log := hw_log w @ [form_request ''https://api.dropboxapi.com/oauth2/token'' body]\<rparr>)"
    and "\<And>now tokens. op_keeps rel (op_set (\<lambda>c. \<lparr>dbc_profile = (dbc_profile c)\<lparr>db_auth :=
          db_apply_refresh now tokens (db_auth (dbc_profile c))\<rparr>, dbc_dirty = True\<rparr>) :: unit db_op)"
  shows "op_keeps rel (db_refresh_token_now X)"
  unfolding db_refresh_token_now_def Let_def
  by (intro op_effect.keeps_intros [OF assms(1)] pc_oauth_keeps assms(3))
    (simp_all add: assms(2,3) op_effect.rel_refl [OF assms(1)] paste_code_flow_new_def with_verifier_def db_paste_code_config_def)

interpretation db_kept: op_effect db_profile_kept
  by unfold_locales (auto simp: db_profile_kept_def)

lemma request_kept: "op_keeps db_profile_kept (request X e1 e2 e3 meth url headers body)"
  by (auto simp: op_keeps_def request_def db_profile_kept_def http_run_def split: sum.splits)

interpretation db_kept: dropbox_transfer db_profile_kept X for X
proof
  show "op_keeps db_profile_kept (db_refresh_token_now X)"
    by (rule db_refresh_keeps [OF db_kept.op_effect_axioms]) (auto simp: op_keeps_def op_set_def db_profile_kept_def)
qed (rule db_request_keeps [OF db_kept.op_effect_axioms request_kept])+

lemma home_bases: "prefix API_BASE url \<Longrightarrow> db_home url" "prefix CONTENT_BASE url \<Longrightarrow> db_home url"
  by (auto simp: db_home_def API_BASE_def CONTENT_BASE_def prefix_def)

interpretation db_sends: dropbox_transfer "sends (\<lambda>q. db_home (rq_url q))" X for X
proof
  show "op_keeps (sends (\<lambda>q. db_home (rq_url q))) (db_refresh_token_now X)"
    by (rule db_refresh_keeps [OF sends.op_effect_axioms _ set_sends])
      (simp add: sends_def form_request_def db_home_def)
qed (rule db_request_keeps [OF sends.op_effect_axioms request_sends], simp add: home_bases)+

interpretation db_quiet: dropbox_effect "sends (\<lambda>q. \<not> is_upload q)" X for X
proof
  show "op_keeps (sends (\<lambda>q. \<not> is_upload q)) (db_refresh_token_now X)"
    by (rule db_refresh_keeps [OF sends.op_effect_axioms _ set_sends])
      (simp add: sends_def form_request_def is_upload_def CONTENT_BASE_def)
qed (rule db_request_keeps [OF sends.op_effect_axioms request_sends],
    auto simp: is_upload_def API_BASE_def CONTENT_BASE_def prefix_def)

interpretation db_files: dropbox_transfer same_files X for X
proof
  show "op_keeps same_files (db_refresh_token_now X)"
    by (rule db_refresh_keeps [OF same_files.op_effect_axioms _ set_same_files]) (simp add: same_files_def)
qed (rule db_request_keeps [OF same_files.op_effect_axioms request_same_files])+

section \<open>Uploads look before they write\<close>

definition db_absent :: "dropbox_env \<Rightarrow> string \<Rightarrow> nat \<Rightarrow> http_request \<Rightarrow> bool" where
  "db_absent X path i l \<longleftrightarrow> rq_url l = API_BASE @ ''/files/get_metadata'' \<and> rq_body l = ce_json X (JObj [(''path'', JStr path)])
     \<and> (\<exists>b. he_answer (ce_http X) i l = Inr \<lparr>rs_status = 409, rs_body = Some b\<rparr> \<and> body_mentions b ''not_found'')"

definition db_stores :: "dropbox_env \<Rightarrow> string \<Rightarrow> string \<Rightarrow> http_request \<Rightarrow> bool" where
  "db_stores X path body p \<longleftrightarrow> is_upload p \<and> rq_body p = body \<and> (''Dropbox-API-Arg'', upload_arg X path ''add'') \<in> set (rq_headers p)"

lemma db_request_log:
  "op_log (db_request X url headers body)
     (\<lambda>i qs r. qs = [] \<and> (\<exists>e. r = Inl e)
       \<or> (\<exists>q. qs = [q] \<and> rq_url q = url \<and> rq_body q = body \<and> set headers \<subseteq> set (rq_headers q)
            \<and> (\<forall>s b. r = Inr (s, b) \<longrightarrow> he_answer (ce_http X) i q = Inr \<lparr>rs_status = s, rs_body = Some b\<rparr>)))"
  unfolding db_request_def
proof (rule op_log_bind [OF _ request_log])
  show "op_log (op_get db_auth_header) (\<lambda>i qs r. qs = [])" by (simp add: op_log_def op_get_def)
qed (auto simp: Let_def)

lemma quiet_fresh: "op_log (db_ensure_fresh_token X) (\<lambda>_ qs _. \<forall>q \<in> set qs. \<not> is_upload q)"
  by (rule sends_log) (rule db_quiet.fresh)

lemma get_metadata_not_upload: "rq_url q = API_BASE @ ''/files/get_metadata'' \<Longrightarrow> \<not> is_upload q"
  by (simp add: is_upload_def API_BASE_def CONTENT_BASE_def)

lemma path_exists_log:
  "op_log (db_path_exists X path) (\<lambda>i qs r. (\<forall>q \<in> set qs. \<not> is_upload q)
     \<and> (r = Inr False \<longrightarrow> (\<exists>pre l. qs = pre @ [l] \<and> db_absent X path (i + length pre) l)))"
  unfolding db_path_exists_def db_json_post_def
proof (rule op_log_bind [OF quiet_fresh])
  let ?Q = "\<lambda>i qs r. (\<forall>q \<in> set qs. \<not> is_upload q) \<and> (r = Inr False \<longrightarrow> (\<exists>l. qs = [l] \<and> db_absent X path i l))"
  show "op_log (op_bind (db_request X (API_BASE @ ''/files/get_metadata'')
      [(''Content-Type'', ''application/json''), (''Accept'', ''application/json'')] (ce_json X (JObj [(''path'', JStr path)])))
      (\<lambda>(s, bytes). op_of (if is_success s then Inr True
            else if s = 409 \<and> body_mentions bytes ''not_found'' then Inr False
            else Inl (classify_status_with_body s bytes)))) ?Q" for x :: unit
  proof (rule op_log_bind [OF db_request_log, where R = "\<lambda>(s, bytes) i qs r. qs = []
        \<and> (r = Inr False \<longrightarrow> s = 409 \<and> body_mentions bytes ''not_found'')"], goal_cases)
    case (1 x)
    then show ?case by (cases x) (auto simp: op_log_def op_of_def split: if_splits)
  next
    case (3 i qs rs x r)
    then obtain q where "qs = [q]" "rq_url q = API_BASE @ ''/files/get_metadata''" "rq_body q = ce_json X (JObj [(''path'', JStr path)])"
      "he_answer (ce_http X) i q = Inr \<lparr>rs_status = fst x, rs_body = Some (snd x)\<rparr>" by (cases x) auto
    with 3(2) show ?case by (auto simp: db_absent_def get_metadata_not_upload split: prod.splits)
  qed (auto simp: get_metadata_not_upload)
qed auto

lemma upload_bytes_log:
  "op_log (db_upload_bytes X path body ''add'') (\<lambda>i qs r. (\<forall>q \<in> set qs. \<not> is_upload q) \<and> (\<exists>e. r = Inl e)
     \<or> (\<exists>mid p. qs = mid @ [p] \<and> (\<forall>q \<in> set mid. \<not> is_upload q) \<and> is_upload p \<and> db_stores X path body p))"
  unfolding db_upload_bytes_def db_binary_post_def db_expect_def op_bind_assoc
proof (rule op_log_bind [OF quiet_fresh])
  let ?R = "\<lambda>i qs r. qs = [] \<and> (\<exists>e. r = Inl e) \<or> (\<exists>p. qs = [p] \<and> is_upload p \<and> db_stores X path body p)"
  show "op_log (op_bind (db_request X (CONTENT_BASE @ ''/files/upload'')
      [(''Dropbox-API-Arg'', upload_arg X path ''add''), (''Content-Type'', ''application/octet-stream'')] body)
      (\<lambda>xa. op_bind (case xa of (s, body) \<Rightarrow> op_of (if is_success s then Inr body else Inl (classify_status_with_body s body)))
         (\<lambda>_. op_of (Inr ())))) ?R" for x :: unit
    by (rule op_log_bind [OF db_request_log, where R = "\<lambda>x i qs r. qs = []"])
      (auto simp: op_log_def op_bind_def op_of_def db_stores_def is_upload_def split: prod.splits sum.splits)
next
  fix i qs rs and x :: unit and r :: "(dropbox_error, unit) result"
  assume q: "\<forall>q \<in> set qs. \<not> is_upload q"
    and "rs = [] \<and> (\<exists>e. r = Inl e) \<or> (\<exists>p. rs = [p] \<and> is_upload p \<and> db_stores X path body p)"
  then show "(\<forall>q \<in> set (qs @ rs). \<not> is_upload q) \<and> (\<exists>e. r = Inl e)
     \<or> (\<exists>mid p. qs @ rs = mid @ [p] \<and> (\<forall>q \<in> set mid. \<not> is_upload q) \<and> is_upload p \<and> db_stores X path body p)"
    using q by (elim disjE exE conjE) auto
qed blast

interpretation db_looks: looking_client is_upload "\<lambda>i l n. db_absent X (join_path parent n) i l"
  "\<lambda>p n. db_stores X (join_path parent n) body p" "\<lambda>n. db_path_exists X (join_path parent n)"
  "\<lambda>n. db_upload_bytes X (join_path parent n) body ''add''" for X parent body
  by unfold_locales (rule path_exists_log upload_bytes_log)+

lemma upload_body_log:
  assumes "policy \<noteq> Overwrite"
  shows "op_log (db_upload_body X parent leaf body policy)
     (db_looks.careful X parent body (\<lambda>n. \<exists>k < 101. \<exists>t. n = rename_with_suffix_at leaf k t))"
proof (cases policy)
  case Overwrite
  with assms show ?thesis by simp
next
  case Fail
  have "op_log (op_of (Inl DbConflict)) (db_looks.careful X parent body (\<lambda>n. \<exists>k < 101. \<exists>t. n = rename_with_suffix_at leaf k t))"
    by (auto simp: op_log_def op_of_def db_looks.careful_error)
  moreover have "\<exists>k < 101. \<exists>t. leaf = rename_with_suffix_at leaf k t"
    by (rule exI [of _ 0]) (simp add: rename_with_suffix_at_def)
  ultimately show ?thesis unfolding db_upload_body_def Let_def Fail collision_policy.case
    by (rule db_looks.look_then_put) simp
next
  case Rename
  have "op_log (db_upload_body X parent leaf body Rename)
     (db_looks.careful X parent body (\<lambda>n. \<exists>k \<in> set [0..<Suc (unat RENAME_MAX_TRIES)]. \<exists>t. n = rename_with_suffix_at leaf k t))"
    unfolding db_upload_body_def Let_def collision_policy.case by (rule db_looks.try_names_careful)
  then show ?thesis unfolding Rename
    by (rule op_log_mono) (erule db_looks.careful_mono, force simp: RENAME_MAX_TRIES_def)
qed


lemma db_upload_steps:
  assumes "db_upload_to X local segments policy s = (s', r)"
  shows "(\<exists>qs e. hw_log (snd s') = hw_log (snd s) @ qs \<and> (\<forall>q \<in> set qs. \<not> is_upload q) \<and> r = Inl e)
     \<or> (\<exists>s1 qs body. hw_log (snd s1) = hw_log (snd s) @ qs \<and> (\<forall>q \<in> set qs. \<not> is_upload q)
          \<and> hw_files (snd s) local = Some body \<and> \<not> SINGLE_SHOT_UPLOAD_LIMIT_BYTES < of_nat (length body)
          \<and> db_upload_body X (path_for_segments (butlast segments) (fst s)) (last segments) body policy s1 = (s', r))"
proof (cases "segments = [] \<or> (\<exists>e. db_validate_all segments = Inl e)")
  case True
  with assms show ?thesis by (auto simp: db_upload_to_def op_of_def split: if_splits)
next
  case False
  let ?prep = "if butlast segments \<noteq> [] then db_ensure_dir_segments X (butlast segments) else db_ensure_root_folder X"
  obtain v where v: "db_validate_all segments = Inr v" "segments \<noteq> []" using False by (cases "db_validate_all segments") auto
  obtain s1 r1 where p: "?prep s = (s1, r1)" by fastforce
  have "sends (\<lambda>q. \<not> is_upload q) s s1" "same_files s s1" "db_profile_kept s s1"
    by (rule op_keepsD [OF sends.keeps_if [OF db_quiet.ensure_dir db_quiet.ensure_root] p]
        op_keepsD [OF same_files.keeps_if [OF db_files.ensure_dir db_files.ensure_root] p]
        op_keepsD [OF db_kept.keeps_if [OF db_kept.ensure_dir db_kept.ensure_root] p])+
  then obtain qs where qs: "hw_log (snd s1) = hw_log (snd s) @ qs" "\<forall>q \<in> set qs. \<not> is_upload q"
    and f: "hw_files (snd s1) = hw_files (snd s)" and root: "db_root_folder (dbc_profile (fst s1)) = db_root_folder (dbc_profile (fst s))"
    by (auto simp: sends_def same_files_def db_profile_kept_def)
  have path: "path_for_segments (butlast segments) (fst s1) = path_for_segments (butlast segments) (fst s)"
    by (simp add: path_for_segments_def root_prefix_def root)
  show ?thesis
  proof (cases "\<exists>x body. r1 = Inr x \<and> http_read_file (ce_http X) local (snd s1) = Some body
      \<and> \<not> SINGLE_SHOT_UPLOAD_LIMIT_BYTES < of_nat (length body)")
    case True
    then obtain x body where "r1 = Inr x" "http_read_file (ce_http X) local (snd s1) = Some body"
      "\<not> SINGLE_SHOT_UPLOAD_LIMIT_BYTES < of_nat (length body)" by blast
    moreover from this f have "hw_files (snd s) local = Some body" by (auto simp: http_read_file_def split: if_splits)
    ultimately show ?thesis using assms v p qs path
      by (intro disjI2 exI [of _ s1] exI [of _ qs] exI [of _ body])
        (simp add: db_upload_to_def op_bind_def op_read_file_def op_get_def)
  next
    case False
    then have "s' = s1 \<and> (\<exists>e. r = Inl e)"
      using assms v p by (auto simp: db_upload_to_def op_bind_def op_read_file_def op_of_def split: option.splits sum.splits if_splits)
    with qs show ?thesis by blast
  qed
qed

text \<open>
  C36. The Dropbox client under the policies Rename and Fail: the local files stay, and
  either nothing is uploaded and the result is an error, or exactly one upload is sent,
  as the last request, of the contents of the local file, in the mode that does not
  overwrite, for a path in the folder asked for and a name among the 101 candidates, after a
  look at that very path to which the server answered that nothing is there.
\<close>

theorem dropbox_looks_before_upload:
  assumes "db_upload_to X local segments policy (c, w) = ((c', w'), r)" "policy \<noteq> Overwrite"
  shows "hw_files w' = hw_files w
    \<and> ((\<exists>qs e. hw_log w' = hw_log w @ qs \<and> (\<forall>q \<in> set qs. \<not> is_upload q) \<and> r = Inl e)
      \<or> (\<exists>pre l mid p k t body. let name = rename_with_suffix_at (last segments) k t;
              path = join_path (path_for_segments (butlast segments) c) name in
            hw_log w' = hw_log w @ pre @ l # mid @ [p] \<and> (\<forall>q \<in> set (pre @ l # mid). \<not> is_upload q) \<and> k < 101
          \<and> hw_files w local = Some body
          \<and> db_absent X path (length (hw_log w) + length pre) l
          \<and> db_stores X path body p \<and> (\<forall>x. r = Inr x \<longrightarrow> no_final_name x = name)))"
proof
  show "hw_files w' = hw_files w"
    using op_keepsD [OF db_files.upload_to assms(1)] by (simp add: same_files_def)
  from db_upload_steps [OF assms(1)] consider
      (early) qs e where "hw_log w' = hw_log w @ qs" "\<forall>q \<in> set qs. \<not> is_upload q" "r = Inl e"
    | (body) s1 qs body where "hw_log (snd s1) = hw_log w @ qs" "\<forall>q \<in> set qs. \<not> is_upload q" "hw_files w local = Some body"
        "db_upload_body X (path_for_segments (butlast segments) c) (last segments) body policy s1 = ((c', w'), r)"
    by auto
  then show "(\<exists>qs e. hw_log w' = hw_log w @ qs \<and> (\<forall>q \<in> set qs. \<not> is_upload q) \<and> r = Inl e)
      \<or> (\<exists>pre l mid p k t body. let name = rename_with_suffix_at (last segments) k t;
              path = join_path (path_for_segments (butlast segments) c) name in
            hw_log w' = hw_log w @ pre @ l # mid @ [p] \<and> (\<forall>q \<in> set (pre @ l # mid). \<not> is_upload q) \<and> k < 101
          \<and> hw_files w local = Some body
          \<and> db_absent X path (length (hw_log w) + length pre) l
          \<and> db_stores X path body p \<and> (\<forall>x. r = Inr x \<longrightarrow> no_final_name x = name))"
  proof cases
    case early
    then show ?thesis by blast
  next
    case body
    from op_logD [OF upload_body_log [OF assms(2)] body(4)] obtain rs where rs: "hw_log w' = hw_log w @ qs @ rs"
      "db_looks.careful X (path_for_segments (butlast segments) c) body
         (\<lambda>n. \<exists>k < 101. \<exists>t. n = rename_with_suffix_at (last segments) k t) (length (hw_log w) + length qs) rs r"
      using body(1) by auto
    from db_looks.careful_later [OF body(2) rs(2)] show ?thesis
      unfolding db_looks.careful_def db_looks.looked_def rs(1) Let_def using body(3)
      by (elim disjE exE conjE) (simp, fastforce)
  qed
qed

section \<open>Listings\<close>

definition db_fetch :: "dropbox_env \<Rightarrow> string \<times> json \<Rightarrow> (remote_entry list \<times> (string \<times> json) option) db_op" where
  "db_fetch X k = op_bind (db_page X (fst k) (snd k)) (\<lambda>page. op_of (Inr (absorb_entries page [],
     if lfp_has_more page then Some (API_BASE @ ''/files/list_folder/continue'', JObj [(''cursor'', JStr (lfp_cursor page))])
     else None)))"

definition db_pages :: "dropbox_env \<Rightarrow> nat \<Rightarrow> string \<times> json \<Rightarrow> remote_entry list \<Rightarrow> remote_entry list option db_op" where
  "db_pages X n k acc = (case n of 0 \<Rightarrow> op_of (Inr None)
     | Suc m \<Rightarrow> op_bind (db_page X (fst k) (snd k)) (\<lambda>page. db_more_pages m X page acc))"

lemma more_pages_rest:
  "db_more_pages m X page acc =
     (if lfp_has_more page
      then db_pages X m (API_BASE @ ''/files/list_folder/continue'', JObj [(''cursor'', JStr (lfp_cursor page))]) (acc @ absorb_entries page [])
      else op_of (Inr (Some (acc @ absorb_entries page []))))"
  by (subst db_more_pages.simps) (simp add: db_pages_def absorb_entries_def Let_def split: nat.split)

interpretation db_listing: paged_listing "db_fetch X" "db_pages X" for X
proof
  show "db_pages X 0 k acc = op_of (Inr None)" for k acc by (simp add: db_pages_def)
  show "db_pages X (Suc n) k acc = op_bind (db_fetch X k) (\<lambda>(es, next).
      case next of None \<Rightarrow> op_of (Inr (Some (acc @ es))) | Some k' \<Rightarrow> db_pages X n k' (acc @ es))" for n k acc
    by (simp add: db_pages_def [of X "Suc n"] db_fetch_def op_bind_assoc more_pages_rest if_distrib [of "case_option _ _"] cong: if_cong)
qed

definition list_folder_arg :: "string \<Rightarrow> json" where
  "list_folder_arg path = JObj [(''path'', JStr path), (''recursive'', JBool False), (''include_deleted'', JBool False),
     (''include_has_explicit_shared_members'', JBool False), (''include_mounted_folders'', JBool True)]"

lemma db_list_at_pages:
  "db_list_at fuel X segments =
     op_bind (op_of (db_validate_all segments)) (\<lambda>_. op_bind (db_ensure_fresh_token X) (\<lambda>_.
     op_bind (op_get (path_for_segments segments)) (\<lambda>path.
     db_pages X (Suc fuel) (API_BASE @ ''/files/list_folder'', list_folder_arg path) [])))"
  by (simp add: db_list_at_def db_pages_def list_folder_arg_def)

section \<open>An example\<close>

definition example_dropbox_env :: dropbox_env where
  "example_dropbox_env = cloud_env.extend example_cloud \<lparr>dx_list_page = (\<lambda>b. None), dx_account = (\<lambda>b. None)\<rparr>"

definition example_dropbox :: dropbox_profile where
  "example_dropbox = \<lparr>db_root_folder = [], db_user_email = ''u@h'', db_auth = \<lparr>dba_access_token = ''at'', dba_refresh_token = ''rt'',
     dba_token_type = ''bearer'', dba_expires_at = 10, dba_scope = []\<rparr>\<rparr>"

abbreviation example_dropbox_client :: dropbox_client where
  "example_dropbox_client \<equiv> \<lparr>dbc_profile = example_dropbox, dbc_dirty = False\<rparr>"

lemma example_db_upload:
  "(let r = db_upload_to example_dropbox_env ''a.txt'' [''b.txt''] Rename (example_dropbox_client, example_cloud_world) in
    (map rq_url (hw_log (snd (fst r))), snd r)) =
    ([''https://api.dropboxapi.com/oauth2/token'', ''https://api.dropboxapi.com/2/files/get_metadata'',
      ''https://content.dropboxapi.com/2/files/upload''], Inr \<lparr>no_final_name = ''b.txt'', no_size = 3, no_renamed = False\<rparr>)"
  by code_simp

theorem dropbox_looks_before_upload_witness:
  "\<exists>pre l mid p. hw_log (snd (fst (db_upload_to example_dropbox_env ''a.txt'' [''b.txt''] Rename (example_dropbox_client, example_cloud_world))))
      = pre @ l # mid @ [p] \<and> db_absent example_dropbox_env ''/b.txt'' (length pre) l \<and> db_stores example_dropbox_env ''/b.txt'' ''xyz'' p"
proof -
  obtain c' w' r where run: "db_upload_to example_dropbox_env ''a.txt'' [''b.txt''] Rename (example_dropbox_client, example_cloud_world) = ((c', w'), r)"
    by (metis prod.exhaust)
  with example_db_upload have r: "r = Inr \<lparr>no_final_name = ''b.txt'', no_size = 3, no_renamed = False\<rparr>" by (simp add: Let_def)
  have "path_for_segments (butlast [''b.txt'']) example_dropbox_client = []"
    by (simp add: path_for_segments_def root_prefix_def example_dropbox_def)
  with dropbox_looks_before_upload [OF run] r show ?thesis
    by (auto simp: run Let_def join_path_def) blast
qed

end
