(* ===== verification/Remote_Fs_Props.thy ===== *)
theory Remote_Fs_Props
  imports Remote_Fs Google_Drive_Props One_Drive_Props Dropbox_Props Nextcloud_Props
begin

text \<open>
  What the rest of the program can rely on, whichever provider it talks to: where the
  tokens go, which profile is pushed back to the agent after any sequence of calls, and
  that a listing is the concatenation of all the pages of the server.
\<close>

section \<open>Sequences of calls\<close>

datatype fs_call = EnsureDir "string list" | UploadFile string "string list" collision_policy
  | DownloadFile "string list" string | ListDir "string list"

fun fs_step :: "'u remote_crates \<Rightarrow> fs_call \<Rightarrow> 'u any_client \<times> http_world \<Rightarrow> 'u any_client \<times> http_world" where
  "fs_step R (EnsureDir segments) s = fst (fs_ensure_dir R segments s)"
| "fs_step R (UploadFile local segments policy) s = fst (fs_upload R local segments policy s)"
| "fs_step R (DownloadFile segments dest) s = fst (fs_download R segments dest s)"
| "fs_step R (ListDir segments) s = fst (fs_list R segments s)"

fun fs_run :: "'u remote_crates \<Rightarrow> fs_call list \<Rightarrow> 'u any_client \<times> http_world \<Rightarrow> 'u any_client \<times> http_world" where
  "fs_run R [] s = s"
| "fs_run R (c # cs) s = fs_run R cs (fs_step R c s)"

lemma through_fst: "fst (through wrap diag m c w) = (wrap (fst (fst (m (c, w)))), snd (fst (m (c, w))))"
  by (simp add: through_def split: prod.splits)

text \<open>The calls of a provider that is not Nextcloud, as operations of its client.\<close>

fun google_op :: "'u remote_crates \<Rightarrow> fs_call \<Rightarrow> unit gd_op" where
  "google_op R (EnsureDir segments) = op_bind (gd_ensure_dir_segments (rc_google R) segments) (\<lambda>_. op_of (Inr ()))"
| "google_op R (UploadFile local segments policy) = op_bind (gd_upload_to (rc_google R) local segments policy) (\<lambda>_. op_of (Inr ()))"
| "google_op R (DownloadFile segments dest) = op_bind (gd_download_from (rc_google R) segments dest) (\<lambda>_. op_of (Inr ()))"
| "google_op R (ListDir segments) = op_bind (gd_list_at (rc_fuel R) (rc_google R) segments) (\<lambda>_. op_of (Inr ()))"

fun one_drive_op :: "'u remote_crates \<Rightarrow> fs_call \<Rightarrow> unit od_op" where
  "one_drive_op R (EnsureDir segments) = op_bind (od_ensure_dir_segments (rc_one_drive R) segments) (\<lambda>_. op_of (Inr ()))"
| "one_drive_op R (UploadFile local segments policy) = op_bind (od_upload_to (rc_one_drive R) local segments policy) (\<lambda>_. op_of (Inr ()))"
| "one_drive_op R (DownloadFile segments dest) = op_bind (od_download_from (rc_one_drive R) segments dest) (\<lambda>_. op_of (Inr ()))"
| "one_drive_op R (ListDir segments) = op_bind (od_list_at (rc_fuel R) (rc_one_drive R) segments) (\<lambda>_. op_of (Inr ()))"

fun dropbox_op :: "'u remote_crates \<Rightarrow> fs_call \<Rightarrow> unit db_op" where
  "dropbox_op R (EnsureDir segments) = op_bind (db_ensure_dir_segments (rc_dropbox R) segments) (\<lambda>_. op_of (Inr ()))"
| "dropbox_op R (UploadFile local segments policy) = op_bind (db_upload_to (rc_dropbox R) local segments policy) (\<lambda>_. op_of (Inr ()))"
| "dropbox_op R (DownloadFile segments dest) = op_bind (db_download_from (rc_dropbox R) segments dest) (\<lambda>_. op_of (Inr ()))"
| "dropbox_op R (ListDir segments) = op_bind (db_list_at (rc_fuel R) (rc_dropbox R) segments) (\<lambda>_. op_of (Inr ()))"

lemma forget_result: "fst (op_bind m (\<lambda>_. op_of (Inr ())) s) = fst (m s)"
  by (simp add: op_bind_def op_of_def split: prod.splits sum.splits)

lemma fs_step_google:
  "fs_step R call (GoogleDriveFs c, w) = (GoogleDriveFs (fst (fst (google_op R call (c, w)))), snd (fst (google_op R call (c, w))))"
  by (cases call) (simp_all add: through_fst forget_result)

lemma fs_step_one_drive:
  "fs_step R call (OneDriveFs c, w) = (OneDriveFs (fst (fst (one_drive_op R call (c, w)))), snd (fst (one_drive_op R call (c, w))))"
  by (cases call) (simp_all add: through_fst forget_result)

lemma fs_step_dropbox:
  "fs_step R call (DropboxFs c, w) = (DropboxFs (fst (fst (dropbox_op R call (c, w)))), snd (fst (dropbox_op R call (c, w))))"
  by (cases call) (simp_all add: through_fst forget_result)

lemma fs_step_nextcloud: "fst (fs_step R call (NextcloudFs c, w)) = NextcloudFs c"
  by (cases call) (simp_all add: through_def unchanged_def op_bind_def op_of_def split: prod.splits sum.splits)

section \<open>Where the tokens go\<close>

fun at_home :: "'u any_client \<Rightarrow> string \<Rightarrow> bool" where
  "at_home (GoogleDriveFs _) url = gd_home url"
| "at_home (OneDriveFs _) url = od_home url"
| "at_home (DropboxFs _) url = db_home url"
| "at_home (NextcloudFs _) url = True"

lemma google_op_home: "op_keeps (sends (\<lambda>q. gd_home (rq_url q))) (google_op R call)"
  by (cases call) (auto intro!: sends.keeps_intros gd_sends.ensure_dir gd_sends.upload_to gd_sends.download_from gd_sends.list_at write_sends)

text \<open>The calls for which OneDrive itself names a URL: the next page, and where the contents are.\<close>

fun server_names_url :: "fs_call \<Rightarrow> bool" where
  "server_names_url (ListDir _) = True"
| "server_names_url (DownloadFile _ _) = True"
| "server_names_url _ = False"

lemma one_drive_op_home: "\<not> server_names_url call \<Longrightarrow> op_keeps (sends (\<lambda>q. od_home (rq_url q))) (one_drive_op R call)"
  by (cases call) (auto intro!: sends.keeps_intros od_sends.ensure_dir od_sends.upload_to)

lemma one_drive_download_home: "op_keeps (sends (\<lambda>q. od_home (rq_url q))) (one_drive_op R (DownloadFile segments dest))"
  by (auto intro!: sends.keeps_intros od_sends.download_from write_sends)

lemma dropbox_op_home: "op_keeps (sends (\<lambda>q. db_home (rq_url q))) (dropbox_op R call)"
  by (cases call) (auto intro!: sends.keeps_intros db_sends.ensure_dir db_sends.upload_to db_sends.download_from db_sends.list_at write_sends)

fun is_one_drive :: "'u any_client \<Rightarrow> bool" where
  "is_one_drive (OneDriveFs _) = True" | "is_one_drive _ = False"

fun is_nextcloud :: "'u any_client \<Rightarrow> bool" where
  "is_nextcloud (NextcloudFs _) = True" | "is_nextcloud _ = False"

lemma sent_home: "op_keeps (sends P) m \<Longrightarrow> \<exists>qs. hw_log (snd (fst (m (c, w)))) = hw_log w @ qs \<and> (\<forall>q \<in> set qs. P q)"
  unfolding op_keeps_def sends_def by (metis snd_conv)

lemma step_home:
  assumes "fs_step R call (k, w) = (k', w')" "\<not> is_nextcloud k" "is_one_drive k \<longrightarrow> \<not> server_names_url call"
  shows "(\<exists>qs. hw_log w' = hw_log w @ qs \<and> (\<forall>q \<in> set qs. at_home k (rq_url q)))
    \<and> at_home k' = at_home k \<and> is_nextcloud k' = is_nextcloud k \<and> is_one_drive k' = is_one_drive k"
proof (cases k)
  case (GoogleDriveFs c)
  with assms(1) sent_home [OF google_op_home [of R call], of c w] show ?thesis by (auto simp: fs_step_google fun_eq_iff)
next
  case (OneDriveFs c)
  with assms(1,3) sent_home [OF one_drive_op_home [of call R], of c w] show ?thesis by (auto simp: fs_step_one_drive fun_eq_iff)
next
  case (DropboxFs c)
  with assms(1) sent_home [OF dropbox_op_home [of R call], of c w] show ?thesis by (auto simp: fs_step_dropbox fun_eq_iff)
qed (use assms(2) in simp)

text \<open>
  C35. Whatever calls are made of Google Drive, OneDrive or Dropbox, in any order, every
  request that the client makes, with its access or refresh token, goes to the hosts of
  that provider over HTTPS. Listings and downloads of OneDrive are left out: there the
  server names the URL of the next page, to which the client sends its token wherever that
  is, or redirects to another host, where the HTTP library goes by itself. Redirects that
  the library follows are not requests of the client; the code expects them nowhere
  else.
\<close>

theorem tokens_stay_home:
  assumes "fs_run R calls (k, w) = (k', w')" "\<not> is_nextcloud k" "is_one_drive k \<longrightarrow> (\<forall>c \<in> set calls. \<not> server_names_url c)"
  shows "\<exists>qs. hw_log w' = hw_log w @ qs \<and> (\<forall>q \<in> set qs. at_home k (rq_url q))"
  using assms
proof (induction calls arbitrary: k w)
  case Nil
  then show ?case by simp
next
  case (Cons c cs)
  obtain k1 w1 where s: "fs_step R c (k, w) = (k1, w1)" by fastforce
  from step_home [OF s Cons.prems(2)] Cons.prems(3)
  obtain qs where qs: "hw_log w1 = hw_log w @ qs" "\<forall>q \<in> set qs. at_home k (rq_url q)"
    and k1: "at_home k1 = at_home k" "is_nextcloud k1 = is_nextcloud k" "is_one_drive k1 = is_one_drive k" by auto
  from Cons.IH [of k1 w1] Cons.prems s k1 obtain rs where "hw_log w' = hw_log w1 @ rs" "\<forall>q \<in> set rs. at_home k (rq_url q)" by auto
  with qs show ?case by (intro exI [of _ "qs @ rs"]) auto
qed

section \<open>The profile that is pushed back\<close>

text \<open>
  What may have changed: the tokens, and the id of the root folder if it was not known.
  A client that is not dirty has the profile it was opened with.
\<close>

fun client_kept :: "'u any_client \<Rightarrow> 'u any_client \<Rightarrow> bool" where
  "client_kept (NextcloudFs c) (NextcloudFs c') = (c' = c)"
| "client_kept (GoogleDriveFs c) (GoogleDriveFs c') = gd_profile_kept (c, \<lparr>hw_log = [], hw_files = Map.empty\<rparr>) (c', \<lparr>hw_log = [], hw_files = Map.empty\<rparr>)"
| "client_kept (OneDriveFs c) (OneDriveFs c') = od_profile_kept (c, \<lparr>hw_log = [], hw_files = Map.empty\<rparr>) (c', \<lparr>hw_log = [], hw_files = Map.empty\<rparr>)"
| "client_kept (DropboxFs c) (DropboxFs c') = db_profile_kept (c, \<lparr>hw_log = [], hw_files = Map.empty\<rparr>) (c', \<lparr>hw_log = [], hw_files = Map.empty\<rparr>)"
| "client_kept _ _ = False"

definition updated_profile :: "provider_profile \<Rightarrow> provider_profile \<Rightarrow> bool" where
  "updated_profile p q \<longleftrightarrow>
     (case (p, q) of
        (GoogleDrive a, GoogleDrive b) \<Rightarrow> gd_root_folder b = gd_root_folder a \<and> gd_user_email b = gd_user_email a
          \<and> (gd_root_folder_id a \<noteq> None \<longrightarrow> gd_root_folder_id b = gd_root_folder_id a)
      | (OneDrive a, OneDrive b) \<Rightarrow> od_root_folder b = od_root_folder a \<and> od_user_email b = od_user_email a
          \<and> (od_root_folder_id a \<noteq> None \<longrightarrow> od_root_folder_id b = od_root_folder_id a)
      | (Dropbox a, Dropbox b) \<Rightarrow> db_root_folder b = db_root_folder a \<and> db_user_email b = db_user_email a
      | _ \<Rightarrow> False)"

lemma google_op_kept: "op_keeps gd_profile_kept (google_op R call)"
proof -
  have "op_keeps gd_profile_kept (op_write_file X e p body)" for X e p body
    by (simp add: op_keeps_def op_write_file_def gd_profile_kept_def split: prod.splits)
  then show ?thesis
    by (cases call) (auto intro!: gd_kept.keeps_intros gd_kept.ensure_dir gd_kept.upload_to gd_kept.download_from gd_kept.list_at)
qed

lemma one_drive_op_kept: "op_keeps od_profile_kept (one_drive_op R call)"
proof -
  have "op_keeps od_profile_kept (op_write_file X e p body)" for X e p body
    by (simp add: op_keeps_def op_write_file_def od_profile_kept_def split: prod.splits)
  moreover have "op_keeps od_profile_kept (od_json_request X GET url None)" for X url
    by (rule od_inner_ops, rule od_request_keeps [OF od_inner.op_effect_axioms od_request_inner])
  ultimately show ?thesis
    by (cases call) (auto intro!: od_kept.keeps_intros od_kept.ensure_dir od_kept.upload_to od_kept.download_from od_kept.list_at)
qed

lemma dropbox_op_kept: "op_keeps db_profile_kept (dropbox_op R call)"
proof -
  have "op_keeps db_profile_kept (op_write_file X e p body)" for X e p body
    by (simp add: op_keeps_def op_write_file_def db_profile_kept_def split: prod.splits)
  then show ?thesis
    by (cases call) (auto intro!: db_kept.keeps_intros db_kept.ensure_dir db_kept.upload_to db_kept.download_from db_kept.list_at)
qed

lemma step_kept: "client_kept k (fst (fs_step R call (k, w)))"
proof (cases k)
  case (NextcloudFs c)
  then show ?thesis using fs_step_nextcloud [of R call c w] by simp
next
  case (GoogleDriveFs c)
  with google_op_kept [of R call] show ?thesis by (auto simp: fs_step_google op_keeps_def gd_profile_kept_def)
next
  case (OneDriveFs c)
  with one_drive_op_kept [of R call] show ?thesis by (auto simp: fs_step_one_drive op_keeps_def od_profile_kept_def)
next
  case (DropboxFs c)
  with dropbox_op_kept [of R call] show ?thesis by (auto simp: fs_step_dropbox op_keeps_def db_profile_kept_def)
qed

lemma client_kept_refl: "client_kept k k"
  by (cases k) (simp_all add: gd_profile_kept_def od_profile_kept_def db_profile_kept_def)

lemma client_kept_trans: "client_kept k l \<Longrightarrow> client_kept l m \<Longrightarrow> client_kept k m"
  by (cases k; cases l; cases m) (auto simp: gd_profile_kept_def od_profile_kept_def db_profile_kept_def)

lemma run_kept: "client_kept k (fst (fs_run R calls (k, w)))"
proof (induction calls arbitrary: k w)
  case Nil
  show ?case by (simp add: client_kept_refl)
next
  case (Cons c cs)
  obtain k1 w1 where s: "fs_step R c (k, w) = (k1, w1)" by fastforce
  with step_kept [of k R c w] Cons.IH [of k1 w1] client_kept_trans show ?case by auto
qed

text \<open>
  C34. After any sequence of calls on a provider opened from a profile, failing ones
  included: if nothing is to be pushed back to the agent, the client still has exactly
  the profile it was opened with, so no renewed token is lost; and what is pushed back is
  the profile as the client has it, of the same provider, with the user's root folder and address
  and any known id of the root folder unchanged.
\<close>

theorem pending_update_exact:
  assumes "open_client R (p # ps) = Inr k" "fs_run R calls (k, w) = (k', w')"
  shows "(case fs_pending k' of None \<Rightarrow> k' = k | Some q \<Rightarrow> updated_profile p q) \<and> fs_pending k = None"
proof -
  have "client_kept k k'" using run_kept [of k R calls w] assms(2) by simp
  with assms(1) show ?thesis
    by (cases p; cases k; cases k')
      (auto simp: open_client_def rmap_err_def rbind_def gd_from_profile_def od_from_profile_def db_from_profile_def Let_def
        updated_profile_def gd_profile_kept_def od_profile_kept_def db_profile_kept_def split: sum.splits if_splits)
qed

section \<open>Listings\<close>

lemma op_bind_eq_Inr: "op_bind m f s = (s', Inr y) \<longleftrightarrow> (\<exists>s1 x. m s = (s1, Inr x) \<and> f x s1 = (s', Inr y))"
  by (auto simp: op_bind_def split: prod.splits sum.splits)

lemma gd_list_at_iff:
  "gd_list_at n XG segments sg = (sg', Inr (Some es)) \<longleftrightarrow>
     (\<exists>s1 parent ess. op_bind (gd_ensure_fresh_token XG)
          (\<lambda>_. if segments = [] then gd_ensure_root_folder XG else gd_resolve_dir_segments XG segments) sg = (s1, Inr parent)
        \<and> page_walk (gd_fetch XG parent) None s1 ess sg' \<and> length ess \<le> n \<and> es = concat ess)"
  unfolding gd_list_at_def op_bind_assoc [symmetric] by (subst op_bind_eq_Inr) (auto simp: gd_listing.pages_iff)

lemma od_list_at_iff:
  "od_list_at n XO segments so = (so', Inr (Some es)) \<longleftrightarrow>
     (\<exists>s1 parent ess. op_bind (od_ensure_fresh_token XO)
          (\<lambda>_. if segments = [] then od_ensure_root_folder XO else od_resolve_dir_segments XO segments) so = (s1, Inr parent)
        \<and> page_walk (od_fetch XO) (GRAPH_BASE @ ''/me/drive/items/'' @ parent @ ''/children'') s1 ess so'
        \<and> length ess \<le> n \<and> es = concat ess)"
  unfolding od_list_at_def op_bind_assoc [symmetric] by (subst op_bind_eq_Inr) (auto simp: od_listing.pages_iff)

lemma db_list_at_iff:
  "db_list_at n XD segments sd = (sd', Inr (Some es)) \<longleftrightarrow>
     (\<exists>s1 ess. op_bind (op_of (db_validate_all segments)) (\<lambda>_. db_ensure_fresh_token XD) sd = (s1, Inr ())
        \<and> page_walk (db_fetch XD) (API_BASE @ ''/files/list_folder'', list_folder_arg (path_for_segments segments (fst s1))) s1 ess sd'
        \<and> length ess \<le> Suc n \<and> es = concat ess)"
  unfolding db_list_at_pages op_bind_assoc [symmetric]
  by (subst op_bind_eq_Inr, subst op_bind_eq_Inr) (auto simp: op_get_def db_listing.pages_iff)

text \<open>
  C39. A listing is complete: each of the three clients returns entries exactly if the
  server's pages, walked from the first along the links it gives, come to an end within
  the fuel, and then the entries are those of all the pages in order. The fuel has no
  other influence, so a run that is cut off only means that there are more pages.
\<close>

theorem listings_walk_all_pages:
  "(gd_list_at n XG segments sg = (sg', Inr (Some es)) \<longleftrightarrow>
     (\<exists>s1 parent ess. op_bind (gd_ensure_fresh_token XG)
          (\<lambda>_. if segments = [] then gd_ensure_root_folder XG else gd_resolve_dir_segments XG segments) sg = (s1, Inr parent)
        \<and> page_walk (gd_fetch XG parent) None s1 ess sg' \<and> length ess \<le> n \<and> es = concat ess))
   \<and> (od_list_at n XO segments so = (so', Inr (Some es)) \<longleftrightarrow>
     (\<exists>s1 parent ess. op_bind (od_ensure_fresh_token XO)
          (\<lambda>_. if segments = [] then od_ensure_root_folder XO else od_resolve_dir_segments XO segments) so = (s1, Inr parent)
        \<and> page_walk (od_fetch XO) (GRAPH_BASE @ ''/me/drive/items/'' @ parent @ ''/children'') s1 ess so'
        \<and> length ess \<le> n \<and> es = concat ess))
   \<and> (db_list_at n XD segments sd = (sd', Inr (Some es)) \<longleftrightarrow>
     (\<exists>s1 ess. op_bind (op_of (db_validate_all segments)) (\<lambda>_. db_ensure_fresh_token XD) sd = (s1, Inr ())
        \<and> page_walk (db_fetch XD) (API_BASE @ ''/files/list_folder'', list_folder_arg (path_for_segments segments (fst s1))) s1 ess sd'
        \<and> length ess \<le> Suc n \<and> es = concat ess))"
  by (intro conjI gd_list_at_iff od_list_at_iff db_list_at_iff)

section \<open>Examples\<close>

definition example_crates :: "nat remote_crates" where
  "example_crates = \<lparr>rc_http = example_cloud_http, rc_pct = percent_spec,
     rc_urls = \<lparr>url_parse = (\<lambda>s. None), url_set_path = (\<lambda>p u. u), url_path = (\<lambda>u. []), url_as_str = (\<lambda>u. [])\<rparr>,
     rc_events = (\<lambda>s. []), rc_decode = (\<lambda>s. s), rc_google = example_google_env, rc_one_drive = example_one_drive_env,
     rc_dropbox = example_dropbox_env, rc_fuel = 3\<rparr>"

definition example_calls :: "fs_call list" where
  "example_calls = [UploadFile ''a.txt'' [''b.txt''] Rename, UploadFile ''a.txt'' [''..''] Overwrite]"

lemma example_run:
  "map rq_url (hw_log (snd (fs_run example_crates example_calls
      (DropboxFs \<lparr>dbc_profile = example_dropbox, dbc_dirty = False\<rparr>, example_cloud_world)))) =
     [''https://api.dropboxapi.com/oauth2/token'', ''https://api.dropboxapi.com/2/files/get_metadata'',
      ''https://content.dropboxapi.com/2/files/upload'']"
  by code_simp

theorem tokens_stay_home_witness:
  "\<exists>qs. hw_log (snd (fs_run example_crates example_calls
       (DropboxFs \<lparr>dbc_profile = example_dropbox, dbc_dirty = False\<rparr>, example_cloud_world))) = hw_log example_cloud_world @ qs
     \<and> length qs = 3 \<and> (\<forall>q \<in> set qs. db_home (rq_url q))"
proof -
  let ?s = "(DropboxFs \<lparr>dbc_profile = example_dropbox, dbc_dirty = False\<rparr>, example_cloud_world)"
  obtain k w where r: "fs_run example_crates example_calls ?s = (k, w)" by fastforce
  have "length (hw_log w) = 3" using arg_cong [OF example_run, of length] r by simp
  with tokens_stay_home [OF r] show ?thesis by (auto simp: r)
qed

theorem pending_update_exact_witness:
  "\<exists>q. fs_pending (fst (fs_run example_crates example_calls
       (DropboxFs \<lparr>dbc_profile = example_dropbox, dbc_dirty = False\<rparr>, example_cloud_world))) = Some q
     \<and> updated_profile (Dropbox example_dropbox) q \<and> q \<noteq> Dropbox example_dropbox"
proof -
  let ?k = "DropboxFs \<lparr>dbc_profile = example_dropbox, dbc_dirty = False\<rparr>"
  have o: "open_client example_crates [Dropbox example_dropbox] = Inr ?k" by code_simp
  obtain k w where r: "fs_run example_crates example_calls (?k, example_cloud_world) = (k, w)" by fastforce
  have "fs_pending (fst (fs_run example_crates example_calls (?k, example_cloud_world)))
      = Some (Dropbox (example_dropbox\<lparr>db_auth := (db_auth example_dropbox)\<lparr>dba_access_token := ''new'', dba_expires_at := 3600\<rparr>\<rparr>))"
    by code_simp
  with pending_update_exact [OF o r] r show ?thesis by (auto simp: example_dropbox_def)
qed

end
