(* ===== verification/Terminal_Props.thy ===== *)
theory Terminal_Props
  imports Output_Props Download_Props
begin

text \<open>
  What a hostile server can put on the terminal. The events of a download
  (src/commands/download.rs) are printed by the emitters of src/output.rs; without the
  decompression modifier none of them lets a control character through, whatever names
  and errors the server makes up.
\<close>

section \<open>Lines\<close>

text \<open>A line is a text of which the program colours some pieces.\<close>

definition coloured_form :: "(colour \<Rightarrow> string \<Rightarrow> string) \<Rightarrow> string \<Rightarrow> string \<Rightarrow> bool" where
  "coloured_form paint_as raw line \<longleftrightarrow> (\<exists>pieces. raw = concat (map snd pieces)
     \<and> line = concat (map (\<lambda>(k, s). case k of None \<Rightarrow> s | Some c \<Rightarrow> paint_as c s) pieces))"

lemma uncoloured: "coloured_form (\<lambda>_ s. s) raw line \<Longrightarrow> line = raw"
proof -
  have "concat (map (\<lambda>(k, s). case k of None \<Rightarrow> s | Some c \<Rightarrow> s) pieces) = concat (map snd pieces)" for pieces :: "(colour option \<times> string) list"
    by (induction pieces) (auto split: option.split)
  then show "coloured_form (\<lambda>_ s. s) raw line \<Longrightarrow> line = raw" by (auto simp: coloured_form_def)
qed

definition safe_line :: "out_env \<Rightarrow> (console \<Rightarrow> console) \<Rightarrow> bool" where
  "safe_line X prints \<longleftrightarrow> (\<forall>c. \<exists>line raw. prints c \<in> {out_line line c, err_line line c}
     \<and> coloured_form (oe_colour X) raw line \<and> \<not> has_control raw)"

lemma safe_lineI:
  "coloured_form (oe_colour X) raw line \<Longrightarrow> \<not> has_control raw \<Longrightarrow> safe_line X (out_line line)"
  "coloured_form (oe_colour X) raw line \<Longrightarrow> \<not> has_control raw \<Longrightarrow> safe_line X (err_line line)"
  unfolding safe_line_def by blast+

lemma plain_form: "coloured_form p s s"
  unfolding coloured_form_def by (rule exI [of _ "[(None, s)]"]) simp

lemma plain_safe: "\<not> has_control l \<Longrightarrow> safe_line X (out_line l)" "\<not> has_control l \<Longrightarrow> safe_line X (err_line l)"
  by (blast intro: safe_lineI plain_form)+

text \<open>After a printable character no control character can begin with what was before.\<close>

lemma has_control_split:
  assumes "32 \<le> (of_char c :: nat)" "(of_char c :: nat) < 127"
  shows "has_control (s @ c # t) \<longleftrightarrow> has_control s \<or> has_control t"
proof (induction s)
  case Nil
  have "c \<noteq> CHR 0xC2" using assms(2) by auto
  with assms show ?case by simp
next
  case (Cons x s)
  then show ?case using assms by (cases s) (simp_all del: has_control.simps(2) add: has_control.simps(2) [of x])
qed

lemma clean_control: "clean s \<Longrightarrow> \<not> has_control s"
  by (simp add: clean_def)

lemma clean_after: "clean (c # t) \<Longrightarrow> 32 \<le> (of_char c :: nat) \<Longrightarrow> (of_char c :: nat) < 127 \<Longrightarrow> \<not> has_control (term_safe s @ c # t)"
  by (cases t) (auto simp: has_control_split term_safe_no_control clean_def)

section \<open>The lines of a transfer\<close>

lemma safe_uploaded:
  assumes "oe_mode X \<noteq> JsonMode" "clean (tl_alias scope)" "clean (tl_target scope)"
  shows "safe_line X (emit_uploaded X name b pct scope)"
proof -
  let ?comp = "case pct of Some p \<Rightarrow> '' ('' @ show_nat (unat p) @ ''% compressed)'' | None \<Rightarrow> []"
  let ?rest = "'' '' @ human_size b @ ?comp @ '' '' @ arrow_right @ '' '' @ tl_alias scope @ '' '' @ middle_dot @ '' '' @ tl_target scope"
  have "coloured_form (oe_colour X) (''uploaded '' @ term_safe name @ ?rest)
      (render_uploaded (term_safe name) (human_size b) pct scope (oe_colour X))"
    unfolding coloured_form_def
    by (rule exI [of _ "[(Some Green, ''uploaded''), (None, '' '' @ term_safe name @ '' '' @ human_size b @ ?comp @ '' '' @ arrow_right @ '' ''),
        (Some Cyan, tl_alias scope), (None, '' '' @ middle_dot @ '' '' @ tl_target scope)]"]) (simp add: render_uploaded_def)
  moreover have "clean ?rest" using assms by (auto split: option.split)
  then have "\<not> has_control (term_safe name @ ?rest)" by (simp add: clean_after)
  then have "\<not> has_control (''uploaded '' @ term_safe name @ ?rest)" by (simp add: clean_def has_control_append)
  ultimately show ?thesis using assms(1) term_safe_no_control
    by (cases "oe_mode X") (auto simp: emit_uploaded_def intro: safe_lineI plain_safe)
qed

lemma safe_downloaded:
  assumes "oe_mode X \<noteq> JsonMode" "clean (tl_alias scope)" "clean (tl_target scope)"
  shows "safe_line X (emit_downloaded X name b scope)"
proof -
  let ?rest = "'' '' @ human_size b @ '' '' @ arrow_left @ '' '' @ tl_alias scope @ '' '' @ middle_dot @ '' '' @ tl_target scope"
  have "coloured_form (oe_colour X) (''downloaded '' @ term_safe name @ ?rest)
      (render_downloaded (term_safe name) (human_size b) scope (oe_colour X))"
    unfolding coloured_form_def
    by (rule exI [of _ "[(Some Green, ''downloaded''), (None, '' '' @ term_safe name @ '' '' @ human_size b @ '' '' @ arrow_left @ '' ''),
        (Some Cyan, tl_alias scope), (None, '' '' @ middle_dot @ '' '' @ tl_target scope)]"]) (simp add: render_downloaded_def)
  moreover have "clean ?rest" using assms by auto
  then have "\<not> has_control (term_safe name @ ?rest)" by (simp add: clean_after)
  then have "\<not> has_control (''downloaded '' @ term_safe name @ ?rest)" by (simp add: clean_def has_control_append)
  ultimately show ?thesis using assms(1) term_safe_no_control
    by (cases "oe_mode X") (auto simp: emit_downloaded_def intro: safe_lineI plain_safe)
qed

lemma safe_failed:
  assumes "oe_mode X \<noteq> JsonMode" "clean (tl_alias scope)" "clean (tl_target scope)"
  shows "safe_line X (emit_failed_file X name r detail scope)"
proof -
  let ?rest = "'' ('' @ tl_alias scope @ '' '' @ middle_dot @ '' '' @ tl_target scope @ '')''"
  have form: "coloured_form (oe_colour X) (''failed '' @ term_safe name @ '' '' @ term_safe detail @ ?rest)
      (render_failed (term_safe name) (term_safe detail) (Some scope) (oe_colour X))"
    unfolding coloured_form_def
    by (rule exI [of _ "[(Some Red, ''failed''), (None, '' '' @ term_safe name @ '' '' @ term_safe detail @ '' (''),
        (Some Cyan, tl_alias scope), (None, '' '' @ middle_dot @ '' '' @ tl_target scope @ '')'')]"]) (simp add: render_failed_def)
  have "clean ?rest" using assms by auto
  then have "\<not> has_control (term_safe detail @ ?rest)" by (simp add: clean_after)
  then have "\<not> has_control (term_safe name @ '' '' @ term_safe detail @ ?rest)" by (simp add: has_control_split term_safe_no_control)
  then have text_mode: "\<not> has_control (''failed '' @ term_safe name @ '' '' @ term_safe detail @ ?rest)" by (simp add: has_control_append)
  have "\<not> has_control (term_safe name @ '': '' @ term_safe detail)"
    using has_control_split [of "CHR '' ''" "[]" "term_safe detail"] by (simp add: has_control_split term_safe_no_control)
  then have "\<not> has_control (''failed '' @ term_safe name @ '': '' @ term_safe detail)" by (simp add: has_control_append)
  with form text_mode show ?thesis using assms(1)
    by (cases "oe_mode X") (auto simp: emit_failed_file_def intro: safe_lineI plain_safe)
qed

lemma safe_bare:
  assumes "oe_mode X \<noteq> JsonMode" "\<not> has_control d"
  shows "safe_line X (emit_failed_bare X r (Some d))"
proof -
  have "\<not> has_control (''failed: '' @ d)" using assms(2) by (simp add: has_control_append)
  then show ?thesis using assms by (cases "oe_mode X") (auto simp: emit_failed_bare_def intro: safe_lineI plain_safe)
qed

section \<open>The events of a download\<close>

text \<open>How each event is printed; the reason of a failure is only shown in JSON mode.\<close>

fun print_event :: "out_env \<Rightarrow> target_label \<Rightarrow> reason \<Rightarrow> event \<Rightarrow> console \<Rightarrow> console" where
  "print_event X scope r (FailedFile n d) = emit_failed_file X n r d scope"
| "print_event X scope r (FailedBare d) = emit_failed_bare X r (Some d)"
| "print_event X scope r (Downloaded n b) = emit_downloaded X n (of_nat b) scope"
| "print_event X scope r (ErrLine l) = err_line l"
| "print_event X scope r (OutLine l) = out_line l"

fun harmless_event :: "event \<Rightarrow> bool" where
  "harmless_event (FailedFile n d) = True"
| "harmless_event (Downloaded n b) = True"
| "harmless_event (FailedBare d) = (\<not> has_control d)"
| "harmless_event _ = False"

lemma harmless_printed:
  assumes "harmless_event e" "oe_mode X \<noteq> JsonMode" "clean (tl_alias scope)" "clean (tl_target scope)"
  shows "safe_line X (print_event X scope r e)"
  using assms by (cases e) (simp_all add: safe_failed safe_downloaded safe_bare)

definition adds_harmless :: "world \<Rightarrow> world \<Rightarrow> bool" where
  "adds_harmless w w' \<longleftrightarrow> (\<exists>evs. w_out w' = w_out w @ evs \<and> list_all harmless_event evs)"

lemma adds_harmless_refl: "w_out w' = w_out w \<Longrightarrow> adds_harmless w w'"
  unfolding adds_harmless_def by (rule exI [of _ "[]"]) simp

lemma adds_harmless_one: "w_out w' = w_out w @ [e] \<Longrightarrow> harmless_event e \<Longrightarrow> adds_harmless w w'"
  unfolding adds_harmless_def by (rule exI [of _ "[e]"]) simp

lemma adds_harmless_trans: "adds_harmless w w' \<Longrightarrow> adds_harmless w' w'' \<Longrightarrow> adds_harmless w w''"
  unfolding adds_harmless_def by force

lemma path_join_control: "\<not> has_control d \<Longrightarrow> \<not> has_control n \<Longrightarrow> \<not> has_control (path_join d n)"
proof -
  assume c: "\<not> has_control d" "\<not> has_control n"
  have "\<not> has_control (d @ n)" if "ends_with d CHR ''/''"
  proof -
    from that obtain d' where "d = d' @ [CHR ''/'']" by (auto simp: ends_with_def) (metis append_butlast_last_id)
    with c show ?thesis using has_control_split [of "CHR ''/''" d' "[]"] by (simp add: has_control_split)
  qed
  moreover have "\<not> has_control (d @ ''/'' @ n)" using c by (simp add: has_control_split)
  ultimately show ?thesis using c by (auto simp: path_join_def)
qed

lemma entry_harmless: "adds_harmless w (download_entry E segs d n w)"
proof -
  obtain w1 r where dl: "remote_download E (segs @ [n]) (path_join d n) w = (w1, r)" by fastforce
  from remote_download_effect(2) [OF dl] show ?thesis
    by (cases r) (auto simp: download_entry_def dl Let_def intro: adds_harmless_one)
qed

interpretation printing: download_effect E adds_harmless "\<lambda>d. \<not> has_control d" for E
proof
  fix d w w' name
  assume d: "\<not> has_control d"
  show "create_dir_all E d w = (w', True) \<Longrightarrow> adds_harmless w w'"
    by (auto simp: create_dir_all_def intro: adds_harmless_refl split: if_splits)
  show "create_dir_all E d w = (w', False)
      \<Longrightarrow> adds_harmless w (count record_failure (Download.emit (FailedBare (''could not create local dir '' @ d)) w'))"
    using d by (auto simp: create_dir_all_def has_control_append intro: adds_harmless_one split: if_splits)
  show "is_safe_local_component name \<Longrightarrow> \<not> has_control (path_join d name)"
    using d path_join_control by (simp add: is_safe_local_component_def)
qed (auto intro: adds_harmless_refl adds_harmless_trans adds_harmless_one entry_harmless)


lemma one_harmless: "adds_harmless w (download_one E dest False arg w)"
proof (cases "split_user_path arg")
  case (Inl r)
  then show ?thesis by (cases r) (auto simp: download_one_def intro: adds_harmless_one)
next
  case (Inr segs)
  obtain w1 r where dl: "remote_download E segs (path_join dest (last segs)) w = (w1, r)" by fastforce
  from remote_download_effect(2) [OF dl] Inr dl show ?thesis
    by (cases r) (auto simp: download_one_def Let_def intro: adds_harmless_one)
qed

lemma each_harmless: "adds_harmless w (download_each E dest False args w)"
  by (induction args arbitrary: w) (auto intro: adds_harmless_refl adds_harmless_trans one_harmless)

lemma arg_harmless: "adds_harmless w (download_arg E dest False f w)"
proof -
  have "adds_harmless w (download_each E dest False args w1)" if "w_out w1 = w_out w" for args w1
    using adds_harmless_trans [OF adds_harmless_refl [OF that] each_harmless] .
  then show ?thesis using one_harmless
    by (auto simp: download_arg_def expand_remote_glob_def remote_list_def Let_def intro: adds_harmless_one
        split: prod.splits sum.splits)
qed

lemma args_harmless: "adds_harmless w (download_args E dest False files w)"
  by (induction files arbitrary: w) (auto intro: adds_harmless_refl adds_harmless_trans arg_harmless)

lemma all_harmless:
  assumes "run_download_all fuel E dest recursive decompress_flag src w = (w', code)" "\<not> has_control dest"
  shows "adds_harmless w w'"
proof (cases decompress_flag)
  case True
  with assms(1) show ?thesis by (auto simp: run_download_all_def intro!: adds_harmless_one)
next
  case False
  obtain w1 ended where d: "download_dir fuel E recursive (prefix_segments src) dest (w\<lparr>w_sum := bs_default\<rparr>) = (w1, ended)" by fastforce
  with printing.dir_effect [OF assms(2) d] False assms(1) show ?thesis
    by (auto simp: run_download_all_def adds_harmless_def)
qed

text \<open>
  C20. Whatever names, contents and errors a server makes up, a download without the
  decompression modifier, of named files, of patterns and of whole directories, puts no
  control character on the terminal: in the human-readable modes each of its events is
  printed as one line which, apart from the colouring by the program itself, has none, so
  that no escape sequence gets through and no second line is forged. The same holds for the
  line that reports an upload, for which the server chooses the name. This rests on the
  alias, the target and the local directory, which are the user's own. With the
  modifier the code prints names of the server as they are.
\<close>

theorem transfer_lines_terminal_safe:
  assumes "oe_mode X \<noteq> JsonMode" "clean (tl_alias scope)" "clean (tl_target scope)" "\<not> has_control dest"
    and "run_download E files dest False w = (w', code)
      \<or> run_download_all fuel E dest recursive decompress_flag src w = (w', ended)"
  shows "(\<exists>evs. w_out w' = w_out w @ evs \<and> (\<forall>e \<in> set evs. \<forall>r c. \<exists>line raw.
            print_event X scope r e c \<in> {out_line line c, err_line line c} \<and> coloured_form (oe_colour X) raw line \<and> \<not> has_control raw))
    \<and> (\<forall>name b pct c. \<exists>line raw.
            emit_uploaded X name b pct scope c \<in> {out_line line c, err_line line c} \<and> coloured_form (oe_colour X) raw line \<and> \<not> has_control raw)"
proof -
  from assms(5) have "adds_harmless w w'"
  proof
    assume "run_download E files dest False w = (w', code)"
    then show ?thesis using args_harmless [of "w\<lparr>w_sum := bs_default\<rparr>" E dest files]
      by (auto simp: run_download_def Let_def adds_harmless_def)
  qed (rule all_harmless [OF _ assms(4)])
  then obtain evs where e: "w_out w' = w_out w @ evs" "list_all harmless_event evs" by (auto simp: adds_harmless_def)
  then have "\<forall>e \<in> set evs. \<forall>r. safe_line X (print_event X scope r e)"
    using harmless_printed [OF _ assms(1-3)] by (simp add: list_all_iff)
  with e(1) show ?thesis using safe_uploaded [OF assms(1-3)] unfolding safe_line_def by blast
qed

text \<open>
  A server whose only file has an escape sequence for a name, and no contents. Its file is
  fetched by a pattern, with colours on; with the modifier the name is printed raw.
\<close>

definition hostile_env :: transfer_env where
  "hostile_env = \<lparr>te_list = (\<lambda>t s. Inr [\<lparr>rm_name = [CHR 0x1B, CHR ''c''], rm_size = None, rm_is_directory = False\<rparr>]),
     te_get = (\<lambda>t s. Inr []), te_read = (\<lambda>t. True), te_write = (\<lambda>t. Written), te_mkdir = (\<lambda>t. True),
     te_zstd = (\<lambda>s. (s, None)), te_untar = (\<lambda>s. ([], None)), te_text = True\<rparr>"

definition hostile_world :: world where
  "hostile_world = \<lparr>w_files = Map.empty, w_dirs = [], w_tick = 0, w_out = [], w_sum = bs_default\<rparr>"

lemma hostile_run:
  "w_out (fst (run_download hostile_env [''*''] ''d'' False hostile_world)) = [Downloaded [CHR 0x1B, CHR ''c''] 0]"
  by code_simp

lemma modifier_prints_raw:
  "ErrLine (''d/'' @ [CHR 0x1B, CHR ''c''] @ '' is not zstd-compressed; skipped decompress'')
     \<in> set (w_out (fst (run_download hostile_env [''*''] ''d'' True hostile_world)))"
  by code_simp

theorem transfer_lines_terminal_safe_witness:
  "\<forall>c. \<exists>line raw. print_event \<lparr>oe_mode = TextMode, oe_secs = 0, oe_ser = ex_ser, oe_colour = \<lambda>_ s. ''<'' @ s @ ''>''\<rparr>
       \<lparr>tl_alias = ''work'', tl_target = ''gdrive''\<rparr> Usage (Downloaded [CHR 0x1B, CHR ''c''] 0) c
     \<in> {out_line line c, err_line line c} \<and> coloured_form (\<lambda>_ s. ''<'' @ s @ ''>'') raw line \<and> \<not> has_control raw"
proof -
  let ?X = "\<lparr>oe_mode = TextMode, oe_secs = 0, oe_ser = ex_ser, oe_colour = \<lambda>_ s. ''<'' @ s @ ''>''\<rparr>"
  let ?s = "\<lparr>tl_alias = ''work'', tl_target = ''gdrive''\<rparr>"
  let ?run = "run_download hostile_env [''*''] ''d'' False hostile_world"
  have "clean (tl_alias ?s)" "clean (tl_target ?s)" "\<not> has_control ''d''" by (simp_all add: clean_def)
  from transfer_lines_terminal_safe [of ?X ?s "''d''", OF _ this disjI1, OF _ prod.collapse [symmetric], of hostile_env "[''*'']" hostile_world]
  have "\<exists>evs. w_out (fst ?run) = w_out hostile_world @ evs \<and> (\<forall>e \<in> set evs. \<forall>r c. \<exists>line raw.
            print_event ?X ?s r e c \<in> {out_line line c, err_line line c} \<and> coloured_form (\<lambda>_ s. ''<'' @ s @ ''>'') raw line \<and> \<not> has_control raw)"
    by simp
  moreover have "w_out hostile_world = []" by (simp add: hostile_world_def)
  ultimately show ?thesis by (simp add: hostile_run)
qed

end
