(* ===== verification/Spec2Isabelle.thy ===== *)
theory Spec2Isabelle
  imports Container_Props Proto_Props Agent_Serve Flags Rc_Block Remote_Path Download_Props Passphrase Sidecars Output_Props Calendar
    Upload_Props Nextcloud_Props Unlock_Props Sacs_Props Program Agent_Loop Remote_Fs_Props Terminal_Props
begin

text \<open>
  zz-drop: a verification development.

  The program is a command line client that moves files to and from cloud storage
  (\<open>src/src\<close>), the library it shares with its terminal interface
  (\<open>src/core\<close>), and a background agent that keeps the decrypted profile
  container in memory. The parts and their theories, bottom up:

  \<^item> \<open>Prelude\<close>: machine integers, \<open>Result\<close> as a sum, the string and path operations of
    the standard library that several parts use.
  \<^item> \<open>Profile\<close>: the data of profiles, providers and containers (core profile/types.rs,
    profile/set.rs, providers/*/types.rs, providers/mod.rs, crypto/kdf.rs).
  \<^item> \<open>Disk\<close>: files with modes and times, every call able to fail, and the trace of file
    systems that a crash could expose.
  \<^item> \<open>Container\<close>, \<open>Container_Correct\<close>, \<open>Container_Props\<close>, \<open>Crypto_Example\<close>: encryption and
    decryption of a container, the shielding of provider entries of newer versions,
    loading, saving and key rotation (core profile/format.rs, profile/rotation.rs,
    profile/policy.rs, crypto/aead.rs, crypto/profile_envelope.rs). \<open>Crypto_Example\<close> builds
    an instance of the cryptographic parameters, so the assumptions about them can hold.
  \<^item> \<open>Proto\<close>, \<open>Proto_Props\<close>: the messages between client and agent and their framing (core
    agent_proto/types.rs, framing.rs).
  \<^item> \<open>List_Cache\<close>: the cache of directory listings for completions (agent/list_cache.rs).
  \<^item> \<open>Agent\<close>, \<open>Agent_Props\<close>, \<open>Agent_Serve\<close>, \<open>Agent_Loop\<close>: the state of the agent, its
    requests, its connections, its main loop and the checks and the shutdown around it
    (agent/state.rs, remote_client.rs, security.rs, server.rs).
  \<^item> \<open>Cli\<close>, \<open>Flags\<close>: the command line (cli/mod.rs, cli/parser.rs) and the global flags
    that are taken out of it and merged with the environment (runtime.rs).
  \<^item> \<open>Rc_Block\<close>, \<open>Completions\<close>: the block that the completion setup manages in a shell's
    rc file, and the installation of the scripts (core completions/).
  \<^item> \<open>Sidecars\<close>, \<open>Passphrase\<close>, \<open>Paths\<close>: the files that remember the last alias (core
    sidecars.rs), the passphrase file (passphrase.rs), where everything is kept and the
    local configuration (core config/paths.rs, config/local_config.rs).
  \<^item> \<open>Output\<close>, \<open>Output_Props\<close>, \<open>Calendar\<close>: what a command prints in text and in JSON
    (output.rs, color.rs, core output/json.rs, scriptable/schema.rs) and its dates.
  \<^item> \<open>Remote_Path\<close>: remote path segments and the renaming of colliding files (core
    providers/nextcloud/path.rs, collision.rs).
  \<^item> \<open>Http\<close>, \<open>Nextcloud\<close>, \<open>Nextcloud_Props\<close>: the roots of trust and the errors of HTTP
    (core http/), and the Nextcloud client over it (core providers/nextcloud/).
  \<^item> \<open>Oauth\<close>, \<open>Cloud\<close>, \<open>Cloud_Effects\<close>: the OAuth flows (core providers/oauth/), the
    operations from which the other clients are written (calls that read and change the
    client and may fail, with the record of the requests sent) and their laws.
  \<^item> \<open>Google_Drive_Client\<close>, \<open>One_Drive_Client\<close>, \<open>Dropbox_Client\<close>, and \<open>Google_Drive_Props\<close>,
    \<open>One_Drive_Props\<close>, \<open>Dropbox_Props\<close>: those clients (core providers/google_drive/,
    onedrive/, dropbox/). \<open>Remote_Fs\<close>, \<open>Remote_Fs_Props\<close>: the trait that unites the four
    clients and the choice of one for a profile (commands/remote_fs.rs, commands/mod.rs).
  \<^item> \<open>Walk\<close>: batches and the selection of local files (commands/batch.rs, walk.rs).
  \<^item> \<open>Upload\<close>, \<open>Upload_Props\<close>, \<open>Download\<close>, \<open>Download_Props\<close>: the transfers over an arbitrary
    provider, downloads from a server that may be hostile (commands/upload.rs,
    download.rs, core crypto/compression.rs). \<open>Terminal_Props\<close>: what a hostile server can put on
    the terminal.
  \<^item> \<open>Session\<close>, \<open>Unlock\<close>, \<open>Unlock_Props\<close>: the commands that open, close and erase a session
    against an agent (commands/z_unlock.rs, q_lock.rs, w_wipe.rs, profile_picker.rs).
  \<^item> \<open>Sacs\<close>, \<open>Sacs_Tools\<close>, \<open>Sacs_Props\<close>: the contextual suggestions of the shell and the
    tooling subcommands (sacs/).
  \<^item> \<open>Doctor\<close>, \<open>Dispatch\<close>, \<open>Dispatch_Props\<close>, \<open>Program\<close>: the health check and the launchers
    (commands/doctor.rs, open_tui.rs, z_remote.rs), the dispatcher that ties a transfer to
    the agent (commands/mod.rs, config.rs), and the program as a whole (main.rs).

  State and effects. Each operation takes the state and returns it updated; what the
  outside decides (clocks, random bytes, the file system's failures, the answers of a
  provider) is an argument. \<open>Err\<close> is \<open>Inl\<close>, a panic is
  \<open>None\<close> where the code can panic. Third-party code is a parameter: the KDF,
  the AEAD, the CBOR and JSON codecs (\<open>prims\<close>, with \<open>prims_ok\<close>),
  the message codec (\<open>wire\<close>, with \<open>wire_ok\<close>), the percent
  encoder (\<open>percent_ok\<close>), the JSON printer (\<open>json_ok\<close>), the
  HTTP, URL, XML and PEM crates (the fields of \<open>http_env\<close> and of the
  environment of each client).

  Interfaces are locales, each interpreted on the model where it is defined:
  \<open>sealed_container\<close>, \<open>versioned_codec\<close>,
  \<open>expiring_cache\<close>, \<open>machine_invariant\<close>,
  \<open>atomic_replacement\<close>, \<open>download_effect\<close>,
  \<open>op_effect\<close> (a property of the requests that every operation of a client
  keeps; the locales of each client extend it), \<open>looking_client\<close> (a client
  that asks before it writes), \<open>paged_listing\<close> (a listing that comes in
  pages).

  What the lemmas show. Containers: round trips, bounds of the accepted header, and crash
  safety of every write. Protocol: canonical frames, streams, round trips. Agent: the
  invariant of every reachable state, what a locked agent answers, when it locks, as a
  refinement of its history, and at which turn it ends, what happens to the caches, and
  atomic updates. Parser and flags: totality, round trip and preservation of arguments. Rc
  block: round trip, idempotence and the inputs on which it goes wrong. Paths and walks:
  exact characterisations. Output: one record per line, no control characters from a
  server, the Gregorian calendar. Transfers: what each command sends and leaves on the
  disk. Nextcloud: no upload over a name that the server reports. The other clients: the
  same, tokens that go to the hosts of the provider only (where the server itself does not
  name the URL), renewed tokens that are reported to the agent, listings that are all the
  pages, and queries that read back as what was asked. Sessions and dispatch: which agent
  is unlocked with what, which transfer may run, what is invalidated after it, what a
  refused attempt leaves. Suggestions: they exist, can be read back and harm nothing.

  Bounds and fuel. Recursion is on the data, except in \<open>download_dir\<close>, which
  follows the directories that a server lists: its fuel is the depth of the recursion,
  running out of it is a run that is cut off, and \<open>download_ends_with_tree\<close>
  says how much is enough. The listings of the cloud clients (\<open>gd_list_at\<close>,
  \<open>od_list_at\<close>, \<open>db_list_at\<close>) follow the pages of a server with
  the number of pages as fuel: \<open>None\<close> is a listing that was cut off, and
  \<open>listings_walk_all_pages\<close> says which number is enough. The main loop of the
  agent (\<open>server_loop\<close>) is bounded by a number of turns: at 0 the loop is cut
  off in its current state, without a reason to exit; \<open>lonely_agent_ends\<close>
  says which turn is the last of an agent that is left alone. Words keep their width where
  the code's arithmetic could overflow.

  Not modelled: the terminal interface, the control-plane client and the login of the
  \<open>remote\<close> feature (not in the default build), the diagnostic log and the
  hardening of the process. They are I/O over third-party libraries; what the modelled
  parts rely on of them is a parameter. Redirects that the HTTP library follows by itself
  are part of its answer (\<open>http_run\<close>), and the switch of an accepted
  connection to blocking mode works. The decoders of the answers of the servers (serde)
  are fields of the environments of the clients.
\<close>

end
